(* ===== verification/Prelude.thy ===== *)
theory Prelude
  imports Main "HOL-Library.Word" "HOL-Library.AList"
begin

text \<open>
  Shared vocabulary of the development.

  \<^item> Rust's \<open>Result\<close> and the two shapes of fallible code: a value of type
    \<open>('a, 'e) result\<close> for code without effects, and \<open>('s, 'a, 'e) comp\<close>, a
    state-passing computation, for code that mutates a state \<open>'s\<close> and may return early
    with an error. An error does not undo the mutations made before it, exactly as in the
    source: rolling back is the caller's work.
  \<^item> \<open>bind\<close> is the \<open>?\<close> operator, \<open>for_each\<close> a \<open>for\<close> loop whose body uses
    \<open>?\<close>, \<open>ok_or\<close> and \<open>ok_or_else\<close> the methods of \<open>Option\<close>.
  \<^item> \<open>keeps I m\<close>: the computation \<open>m\<close> keeps the predicate \<open>I\<close> on the state,
    whatever its outcome; the collection \<open>keeps_rules\<close> has one rule per combinator, from
    which the frame and invariant lemmas of the components follow.
  \<^item> \<open>('k, 'v) hmap\<close>: Rust's \<open>HashMap\<close>, an association list in its (unspecified)
    iteration order.
  \<^item> Machine integers are words: the release profile of \<^verbatim>\<open>src/Cargo.toml\<close> does
    not switch overflow checks on, so \<open>+\<close> and \<open>-\<close> wrap around.
\<close>

named_theorems comp_simps \<open>evaluation of state-passing computations\<close>
named_theorems keeps_rules \<open>rules for predicates a computation keeps\<close>
named_theorems hmap_simps \<open>lookups in updated hash maps\<close>

section \<open>Machine integers and bytes\<close>

type_synonym u8 = "8 word"
type_synonym u32 = "32 word"
type_synonym u64 = "64 word"
type_synonym bytes = "u8 list"

text \<open>A byte string literal \<open>b"..."\<close> of the source.\<close>

definition byte_str :: "string \<Rightarrow> bytes" where
  "byte_str s = map of_char s"

lemma unat_of_char_u8: "unat (of_char c :: u8) = of_char c"
proof -
  have "unat (of_char c :: u8) = unat (of_nat (of_char c) :: u8)"
    by (simp only: of_nat_of_char)
  also have "\<dots> = of_char c mod 256"
    by (simp add: unat_of_nat)
  finally show ?thesis by simp
qed

lemma of_char_u8_eq_iff [simp]: "(of_char c :: u8) = of_char d \<longleftrightarrow> c = d"
  by (metis unat_of_char_u8 of_char_eq_iff)

lemma byte_str_eq_iff [simp]: "byte_str s = byte_str t \<longleftrightarrow> s = t"
proof -
  have "inj (of_char :: char \<Rightarrow> u8)"
    by (simp add: inj_def)
  then show ?thesis
    by (simp add: byte_str_def inj_map_eq_map)
qed

lemma byte_str_append: "byte_str (s @ t) = byte_str s @ byte_str t"
  by (simp add: byte_str_def)

text \<open>\<open>overflowing_add\<close> and \<open>overflowing_sub\<close>: the wrapped result and whether it wrapped.\<close>

definition overflowing_add :: "('w::len) word \<Rightarrow> 'w word \<Rightarrow> 'w word \<times> bool" where
  "overflowing_add a b = (a + b, a + b < a)"

definition overflowing_sub :: "('w::len) word \<Rightarrow> 'w word \<Rightarrow> 'w word \<times> bool" where
  "overflowing_sub a b = (a - b, a < b)"

lemma add_overflow_iff: "(a + b :: ('w::len) word) < a \<longleftrightarrow> unat a + unat b \<ge> 2 ^ LENGTH('w)"
proof -
  have "unat (a + b) = unat a + unat b \<or> unat a + unat b \<ge> 2 ^ LENGTH('w)"
    by (metis unat_add_lem not_less)
  moreover have "unat (a + b) < unat a" if "unat a + unat b \<ge> 2 ^ LENGTH('w)"
  proof -
    have "unat (a + b) = (unat a + unat b) mod 2 ^ LENGTH('w)"
      by (simp add: unat_word_ariths)
    also have "\<dots> = unat a + unat b - 2 ^ LENGTH('w)"
    proof -
      have "unat a + unat b - 2 ^ LENGTH('w) < 2 ^ LENGTH('w)"
        using that unsigned_less [where 'a = nat, of a] unsigned_less [where 'a = nat, of b] by linarith
      then show ?thesis
        using that by (simp add: le_mod_geq)
    qed
    finally show ?thesis
      using unsigned_less [where 'a = nat, of b] that by linarith
  qed
  ultimately show ?thesis
    by (auto simp: word_less_nat_alt)
qed

lemma unat_add_no_overflow: "\<not> (a + b :: ('w::len) word) < a \<Longrightarrow> unat (a + b) = unat a + unat b"
  by (metis add_overflow_iff unat_add_lem not_less)

section \<open>Results and state-passing computations\<close>

datatype ('a, 'e) result = Ok 'a | Err 'e

fun is_ok :: "('a, 'e) result \<Rightarrow> bool" where
  "is_ok (Ok _) = True"
| "is_ok (Err _) = False"

fun and_then :: "('a, 'e) result \<Rightarrow> ('a \<Rightarrow> ('b, 'e) result) \<Rightarrow> ('b, 'e) result" where
  "and_then (Ok x) f = f x"
| "and_then (Err e) f = Err e"

fun map_err :: "('e \<Rightarrow> 'f) \<Rightarrow> ('a, 'e) result \<Rightarrow> ('a, 'f) result" where
  "map_err f (Ok x) = Ok x"
| "map_err f (Err e) = Err (f e)"

definition ok_or_else :: "'e \<Rightarrow> 'a option \<Rightarrow> ('a, 'e) result" where
  "ok_or_else e x = (case x of Some v \<Rightarrow> Ok v | None \<Rightarrow> Err e)"

text \<open>\<open>collect::<Result<Vec<_>, _>>\<close>: the first error wins.\<close>

fun collect_results :: "('a, 'e) result list \<Rightarrow> ('a list, 'e) result" where
  "collect_results [] = Ok []"
| "collect_results (r # rs) =
     and_then r (\<lambda>x. and_then (collect_results rs) (\<lambda>xs. Ok (x # xs)))"

lemma and_then_eq_Ok: "and_then r f = Ok y \<longleftrightarrow> (\<exists>x. r = Ok x \<and> f x = Ok y)"
  by (cases r) auto

lemma ok_or_else_eq_Ok [simp]: "ok_or_else e x = Ok v \<longleftrightarrow> x = Some v"
  by (simp add: ok_or_else_def split: option.splits)

lemma ok_or_else_Some [simp]: "ok_or_else e (Some v) = Ok v"
  by (simp add: ok_or_else_def)

lemma ok_or_else_None [simp]: "ok_or_else e None = Err e"
  by (simp add: ok_or_else_def)

lemma collect_results_map_Ok: "collect_results (map (\<lambda>x. Ok (f x)) xs) = Ok (map f xs)"
  by (induction xs) auto

lemma collect_results_eq_Ok: "collect_results rs = Ok xs \<longleftrightarrow> rs = map Ok xs"
  by (induction rs arbitrary: xs) (auto simp: and_then_eq_Ok Cons_eq_map_conv)

type_synonym ('s, 'a, 'e) comp = "'s \<Rightarrow> ('a, 'e) result \<times> 's"

definition ret :: "'a \<Rightarrow> ('s, 'a, 'e) comp" where
  "ret x = (\<lambda>s. (Ok x, s))"

definition fail :: "'e \<Rightarrow> ('s, 'a, 'e) comp" where
  "fail e = (\<lambda>s. (Err e, s))"

definition bind :: "('s, 'a, 'e) comp \<Rightarrow> ('a \<Rightarrow> ('s, 'b, 'e) comp) \<Rightarrow> ('s, 'b, 'e) comp" where
  "bind m k = (\<lambda>s. case m s of (Ok x, s') \<Rightarrow> k x s' | (Err e, s') \<Rightarrow> (Err e, s'))"

definition ask :: "('s \<Rightarrow> 'a) \<Rightarrow> ('s, 'a, 'e) comp" where
  "ask f = (\<lambda>s. (Ok (f s), s))"

definition lift_result :: "('a, 'e) result \<Rightarrow> ('s, 'a, 'e) comp" where
  "lift_result r = (\<lambda>s. (r, s))"

definition ok_or :: "'e \<Rightarrow> 'a option \<Rightarrow> ('s, 'a, 'e) comp" where
  "ok_or e x = lift_result (ok_or_else e x)"

definition map_err_comp :: "('e \<Rightarrow> 'f) \<Rightarrow> ('s, 'a, 'e) comp \<Rightarrow> ('s, 'a, 'f) comp" where
  "map_err_comp f m = (\<lambda>s. case m s of (r, s') \<Rightarrow> (map_err f r, s'))"

text \<open>\<open>if c { return Err(e); }\<close>\<close>

definition fail_if :: "bool \<Rightarrow> 'e \<Rightarrow> ('s, unit, 'e) comp" where
  "fail_if c e = (if c then fail e else ret ())"

fun for_each :: "('x \<Rightarrow> ('s, unit, 'e) comp) \<Rightarrow> 'x list \<Rightarrow> ('s, unit, 'e) comp" where
  "for_each f [] = ret ()"
| "for_each f (x # xs) = bind (f x) (\<lambda>_. for_each f xs)"

text \<open>A fallible read of the state.\<close>

definition query :: "('s \<Rightarrow> ('a, 'e) result) \<Rightarrow> ('s, 'a, 'e) comp" where
  "query f = (\<lambda>s. (f s, s))"

definition modify :: "('s \<Rightarrow> 's) \<Rightarrow> ('s, unit, 'e) comp" where
  "modify f s = (Ok (), f s)"

lemma modify_apply [simp, comp_simps]: "modify f s = (Ok (), f s)"
  by (simp add: modify_def)

lemma query_apply [simp, comp_simps]: "query f s = (f s, s)"
  by (simp add: query_def)

lemma ret_apply [simp, comp_simps]: "ret x s = (Ok x, s)"
  by (simp add: ret_def)

lemma fail_apply [simp, comp_simps]: "fail e s = (Err e, s)"
  by (simp add: fail_def)

lemma ask_apply [simp, comp_simps]: "ask f s = (Ok (f s), s)"
  by (simp add: ask_def)

lemma lift_result_apply [simp, comp_simps]: "lift_result r s = (r, s)"
  by (simp add: lift_result_def)

lemma ok_or_apply [simp, comp_simps]: "ok_or e x s = (ok_or_else e x, s)"
  by (simp add: ok_or_def)

lemma fail_if_apply [comp_simps]: "fail_if c e s = (if c then (Err e, s) else (Ok (), s))"
  by (simp add: fail_if_def)

lemma fail_if_simps [simp]: "fail_if True e = fail e" "fail_if False e = ret ()"
  by (simp_all add: fail_if_def)

lemma bind_apply [comp_simps]:
  "bind m k s = (case m s of (Ok x, s') \<Rightarrow> k x s' | (Err e, s') \<Rightarrow> (Err e, s'))"
  by (simp add: bind_def)

lemma bind_Ok: "m s = (Ok x, s') \<Longrightarrow> bind m k s = k x s'"
  by (simp add: bind_def)

lemma bind_Err: "m s = (Err e, s') \<Longrightarrow> bind m k s = (Err e, s')"
  by (simp add: bind_def)

lemma bind_ret [simp]: "bind (ret x) k = k x"
  by (simp add: bind_def fun_eq_iff)

lemma bind_fail [simp]: "bind (fail e) k = fail e"
  by (simp add: bind_def fun_eq_iff)

lemma bind_assoc: "bind (bind m k) l = bind m (\<lambda>x. bind (k x) l)"
  by (auto simp: bind_def fun_eq_iff split: prod.splits result.splits)

lemma bind_eq_Ok:
  "bind m k s = (Ok y, t) \<longleftrightarrow> (\<exists>x s'. m s = (Ok x, s') \<and> k x s' = (Ok y, t))"
  by (auto simp: bind_def split: prod.splits result.splits)

lemma bind_eq_Err:
  "bind m k s = (Err e, t) \<longleftrightarrow>
     m s = (Err e, t) \<or> (\<exists>x s'. m s = (Ok x, s') \<and> k x s' = (Err e, t))"
  by (auto simp: bind_def split: prod.splits result.splits)

lemma bind_query_eq_Ok: "bind (query f) k s = (Ok y, t) \<longleftrightarrow> (\<exists>x. f s = Ok x \<and> k x s = (Ok y, t))"
  by (auto simp: bind_eq_Ok)

lemma bind_query_eq_Err: "bind (query f) k s = (Err e, t) \<longleftrightarrow> (f s = Err e \<and> t = s) \<or> (\<exists>x. f s = Ok x \<and> k x s = (Err e, t))"
  by (auto simp: bind_eq_Err)

section \<open>Invariants of computations\<close>

text \<open>\<open>keeps I m\<close>: the computation keeps \<open>I\<close>, whatever its outcome.\<close>

definition keeps :: "('s \<Rightarrow> bool) \<Rightarrow> ('s, 'a, 'e) comp \<Rightarrow> bool" where
  "keeps I m \<longleftrightarrow> (\<forall>s. I s \<longrightarrow> I (snd (m s)))"

lemma keepsD: "keeps I m \<Longrightarrow> I s \<Longrightarrow> m s = (r, s') \<Longrightarrow> I s'"
  by (metis keeps_def snd_conv)

lemma keeps_ret [keeps_rules, simp, intro]: "keeps I (ret x)"
  by (simp add: keeps_def)

lemma keeps_fail [keeps_rules, simp, intro]: "keeps I (fail e)"
  by (simp add: keeps_def)

lemma keeps_lift_result [keeps_rules, simp, intro]: "keeps I (lift_result r)"
  by (simp add: keeps_def)

lemma keeps_ask [keeps_rules, simp, intro]: "keeps I (ask f)"
  by (simp add: keeps_def)

lemma keeps_ok_or [keeps_rules, simp, intro]: "keeps I (ok_or e x)"
  by (simp add: keeps_def)

lemma keeps_fail_if [keeps_rules, simp, intro]: "keeps I (fail_if c e)"
  by (simp add: keeps_def fail_if_def)

lemma keeps_bind [keeps_rules, intro]:
  "keeps I m \<Longrightarrow> (\<And>x. keeps I (k x)) \<Longrightarrow> keeps I (bind m k)"
  by (auto simp: keeps_def bind_def split: prod.splits result.splits)

lemma keeps_for_each [keeps_rules, intro]:
  "(\<And>x. x \<in> set xs \<Longrightarrow> keeps I (f x)) \<Longrightarrow> keeps I (for_each f xs)"
  by (induction xs) auto

lemma keeps_map_err_comp [keeps_rules, intro]: "keeps I m \<Longrightarrow> keeps I (map_err_comp f m)"
  by (auto simp: keeps_def map_err_comp_def split: prod.splits)

lemma keeps_query [keeps_rules, simp, intro]: "keeps I (query f)"
  by (simp add: keeps_def)

lemma keeps_modify [keeps_rules, intro]: "(\<And>s. I s \<Longrightarrow> I (f s)) \<Longrightarrow> keeps I (modify f)"
  by (simp add: keeps_def)

lemma keeps_bind_query:
  "(\<And>s x. I s \<Longrightarrow> f s = Ok x \<Longrightarrow> keeps I (k x)) \<Longrightarrow> keeps I (bind (query f) k)"
  by (auto simp: keeps_def bind_def split: result.splits)

lemma keeps_bind_ask:
  "(\<And>s. I s \<Longrightarrow> keeps I (k (f s))) \<Longrightarrow> keeps I (bind (ask f) k)"
  by (auto simp: keeps_def bind_def)

lemma keeps_if [keeps_rules]: "(c \<Longrightarrow> keeps I m) \<Longrightarrow> (\<not> c \<Longrightarrow> keeps I n) \<Longrightarrow> keeps I (if c then m else n)"
  by simp

lemma keeps_option [keeps_rules]:
  "(x = None \<Longrightarrow> keeps I m) \<Longrightarrow> (\<And>y. x = Some y \<Longrightarrow> keeps I (k y)) \<Longrightarrow> keeps I (case x of None \<Rightarrow> m | Some y \<Rightarrow> k y)"
  by (cases x) auto

lemma keeps_bind_post:
  "keeps I m \<Longrightarrow> (\<And>s x s'. I s \<Longrightarrow> m s = (Ok x, s') \<Longrightarrow> keeps I (k x)) \<Longrightarrow> keeps I (bind m k)"
  by (auto simp: keeps_def bind_def split: prod.splits result.splits)

section \<open>Pre- and postconditions\<close>

definition ensures :: "('s \<Rightarrow> bool) \<Rightarrow> ('s, 'a, 'e) comp \<Rightarrow> ('s \<Rightarrow> bool) \<Rightarrow> bool" where
  "ensures P m Q \<longleftrightarrow> (\<forall>s. P s \<longrightarrow> Q (snd (m s)))"

lemma ensures_keeps: "keeps P m \<Longrightarrow> (\<And>s. P s \<Longrightarrow> Q s) \<Longrightarrow> ensures P m Q"
  by (simp add: ensures_def keeps_def)

lemma ensures_bind: "keeps P m \<Longrightarrow> (\<And>s. P s \<Longrightarrow> Q s) \<Longrightarrow> (\<And>x. ensures P (k x) Q) \<Longrightarrow> ensures P (bind m k) Q"
  by (auto simp: ensures_def keeps_def bind_def split: prod.splits result.splits)

lemma ensures_bind_query:
  "(\<And>s. P s \<Longrightarrow> Q s) \<Longrightarrow> (\<And>s x. P s \<Longrightarrow> f s = Ok x \<Longrightarrow> ensures P (k x) Q) \<Longrightarrow> ensures P (bind (query f) k) Q"
  by (auto simp: ensures_def bind_def split: result.splits)

lemma ensures_bind_ask: "(\<And>s. P s \<Longrightarrow> ensures P (k (f s)) Q) \<Longrightarrow> ensures P (bind (ask f) k) Q"
  by (auto simp: ensures_def bind_def)

lemma ensures_bind_modify: "(\<And>s. P s \<Longrightarrow> R (f s)) \<Longrightarrow> (\<And>x. ensures R (k x) Q) \<Longrightarrow> ensures P (bind (modify f) k) Q"
  by (auto simp: ensures_def bind_def)

lemma ensures_seq:
  "ensures P m R \<Longrightarrow> (\<And>s. R s \<Longrightarrow> Q s) \<Longrightarrow> (\<And>x. ensures R (k x) Q) \<Longrightarrow> ensures P (bind m k) Q"
  by (auto simp: ensures_def bind_def split: prod.splits result.splits)

lemma ensures_ask: "(\<And>x. ensures (\<lambda>s. P s \<and> f s = x) (k x) Q) \<Longrightarrow> ensures P (bind (ask f) k) Q"
  by (auto simp: ensures_def bind_def)

lemma ensures_ret: "(\<And>s. P s \<Longrightarrow> Q s) \<Longrightarrow> ensures P (ret x) Q"
  by (simp add: ensures_def)

lemma ensures_if: "(c \<Longrightarrow> ensures P m Q) \<Longrightarrow> (\<not> c \<Longrightarrow> ensures P n Q) \<Longrightarrow> ensures P (if c then m else n) Q"
  by simp

lemma ensures_pre: "ensures R m Q \<Longrightarrow> (\<And>s. P s \<Longrightarrow> R s) \<Longrightarrow> ensures P m Q"
  by (simp add: ensures_def)

lemma ensures_post: "ensures P m R \<Longrightarrow> (\<And>s. R s \<Longrightarrow> Q s) \<Longrightarrow> ensures P m Q"
  by (simp add: ensures_def)

text \<open>After a computation that succeeds, and one that starts by reading: what was read is fixed for the rest.\<close>

lemma ensures_bind_Ok:
  "(\<And>s. P s \<Longrightarrow> \<exists>x s'. m s = (Ok x, s') \<and> R s') \<Longrightarrow> (\<And>x. ensures R (k x) Q) \<Longrightarrow> ensures P (bind m k) Q"
  by (fastforce simp: ensures_def bind_def)

lemma ensures_ask_at:
  "(\<And>s. P s \<Longrightarrow> R (f s) s) \<Longrightarrow> (\<And>x. ensures (R x) (k x) Q) \<Longrightarrow> ensures P (bind (ask f) k) Q"
  by (auto simp: ensures_def bind_def)

lemma keeps_ensures: "keeps I m \<longleftrightarrow> ensures I m I"
  by (simp add: ensures_def keeps_def)

section \<open>Hash maps\<close>

type_synonym ('k, 'v) hmap = "('k \<times> 'v) list"

definition hm_get :: "('k, 'v) hmap \<Rightarrow> 'k \<Rightarrow> 'v option" where
  "hm_get m k = map_of m k"

definition hm_insert :: "'k \<Rightarrow> 'v \<Rightarrow> ('k, 'v) hmap \<Rightarrow> ('k, 'v) hmap" where
  "hm_insert k v m = AList.update k v m"

definition hm_remove :: "'k \<Rightarrow> ('k, 'v) hmap \<Rightarrow> ('k, 'v) hmap" where
  "hm_remove k m = AList.delete k m"

definition hm_contains :: "('k, 'v) hmap \<Rightarrow> 'k \<Rightarrow> bool" where
  "hm_contains m k \<longleftrightarrow> hm_get m k \<noteq> None"

definition hm_keys :: "('k, 'v) hmap \<Rightarrow> 'k list" where
  "hm_keys m = map fst m"

definition hm_extend :: "('k \<times> 'v) list \<Rightarrow> ('k, 'v) hmap \<Rightarrow> ('k, 'v) hmap" where
  "hm_extend items m = fold (\<lambda>(k, v). hm_insert k v) items m"

text \<open>\<open>HashMap::from_iter\<close> (\<open>collect::<HashMap<_, _>>()\<close>): a later pair overrides an
  earlier one.\<close>

definition hm_collect :: "('k \<times> 'v) list \<Rightarrow> ('k, 'v) hmap" where
  "hm_collect items = hm_extend items []"

definition hm_wf :: "('k, 'v) hmap \<Rightarrow> bool" where
  "hm_wf m \<longleftrightarrow> distinct (map fst m)"

lemma hm_get_Nil [simp]: "hm_get [] k = None"
  by (simp add: hm_get_def)

lemma hm_get_insert [simp, hmap_simps]:
  "hm_get (hm_insert k v m) k' = (if k' = k then Some v else hm_get m k')"
  by (simp add: hm_get_def hm_insert_def update_conv')

lemma hm_get_remove [simp, hmap_simps]:
  "hm_get (hm_remove k m) k' = (if k' = k then None else hm_get m k')"
  by (simp add: hm_get_def hm_remove_def delete_conv')

lemma hm_wf_Nil [simp]: "hm_wf []"
  by (simp add: hm_wf_def)

lemma hm_wf_insert [simp, intro]: "hm_wf m \<Longrightarrow> hm_wf (hm_insert k v m)"
  by (simp add: hm_wf_def hm_insert_def distinct_update)

lemma hm_wf_remove [simp, intro]: "hm_wf m \<Longrightarrow> hm_wf (hm_remove k m)"
  by (simp add: hm_wf_def hm_remove_def distinct_delete)

lemma hm_extend_Nil [simp]: "hm_extend [] m = m"
  by (simp add: hm_extend_def)

lemma hm_extend_Cons [simp]: "hm_extend ((k, v) # items) m = hm_extend items (hm_insert k v m)"
  by (simp add: hm_extend_def)

lemma hm_wf_extend [simp, intro]: "hm_wf m \<Longrightarrow> hm_wf (hm_extend items m)"
  by (induction items arbitrary: m) auto

lemma hm_wf_collect [simp]: "hm_wf (hm_collect items)"
  by (simp add: hm_collect_def hm_wf_extend)

lemma hm_get_extend:
  "hm_get (hm_extend items m) k =
     (case map_of (rev items) k of Some v \<Rightarrow> Some v | None \<Rightarrow> hm_get m k)"
  by (induction items arbitrary: m) (auto split: option.splits simp: map_add_def)

lemma hm_get_extend_wf [hmap_simps]:
  assumes "hm_wf items"
  shows "hm_get (hm_extend items m) k =
     (case hm_get items k of Some v \<Rightarrow> Some v | None \<Rightarrow> hm_get m k)"
proof -
  have "map_of (rev items) = map_of items"
    using assms map_of_inject_set [of "rev items" items]
    by (simp add: hm_wf_def rev_map [symmetric])
  then show ?thesis
    by (simp add: hm_get_extend hm_get_def [of items])
qed

section \<open>Printing numbers\<close>

fun show_nat :: "nat \<Rightarrow> string" where
  "show_nat n = (if n < 10 then [char_of (48 + n)] else show_nat (n div 10) @ [char_of (48 + n mod 10)])"

declare show_nat.simps [simp del]

definition show_word :: "('w::len) word \<Rightarrow> string" where
  "show_word w = show_nat (unat w)"

section \<open>Searching a list\<close>

text \<open>\<open>iter().position(...)\<close>\<close>

fun find_index :: "('a \<Rightarrow> bool) \<Rightarrow> 'a list \<Rightarrow> nat option" where
  "find_index P [] = None"
| "find_index P (x # xs) = (if P x then Some 0 else map_option Suc (find_index P xs))"

lemma find_index_Some:
  "find_index P xs = Some i \<Longrightarrow> i < length xs \<and> P (xs ! i) \<and> (\<forall>j<i. \<not> P (xs ! j))"
proof (induction xs arbitrary: i)
  case (Cons x xs)
  show ?case
  proof (cases "P x")
    case False
    then obtain k where k: "i = Suc k" "find_index P xs = Some k"
      using Cons.prems by auto
    then show ?thesis
      using Cons.IH [of k] False by (auto simp: less_Suc_eq_0_disj nth_Cons')
  qed (use Cons.prems in auto)
qed simp

lemma find_index_None: "find_index P xs = None \<longleftrightarrow> (\<forall>x\<in>set xs. \<not> P x)"
  by (induction xs) auto

end
