(* ===== verification/Primitives.thy ===== *)
theory Primitives
  imports Prelude
begin

text \<open>
  The crate \<^verbatim>\<open>core/primitives\<close>: the data of the chain (\<^verbatim>\<open>types.rs\<close>), its
  constructors (\<^verbatim>\<open>impls.rs\<close>), the codec interface (\<^verbatim>\<open>codec.rs\<close>) and the error type every
  crate converts into (\<^verbatim>\<open>errors.rs\<close> and the \<open>ErrorKind\<close> of each crate).

  The SCALE codec (\<open>parity-scale-codec\<close>) and \<open>serde_json\<close> are third-party code: a codec of a
  type is a value of the record \<open>'a codec\<close>, an argument of the definitions that encode
  or decode, and \<open>codec_ok\<close> is the documented round trip the program relies on. The hex printer is an
  argument as well.
\<close>

section \<open>Types\<close>

datatype address = Address bytes
datatype public_key = PublicKey bytes
datatype secret_key = SecretKey bytes
datatype signature = Signature bytes
datatype hash = Hash bytes
datatype params = Params bytes
datatype event = Event bytes
datatype peer_id = PeerId bytes

type_synonym nonce = u32
type_synonym block_number = u64
type_synonym execution_gap = "8 word"  \<comment> \<open>\<open>i8\<close>, read with \<open>sint\<close>\<close>
type_synonym balance = u64
type_synonym db_key = bytes
type_synonym db_value = bytes

fun address_bytes :: "address \<Rightarrow> bytes" where
  "address_bytes (Address b) = b"

fun hash_bytes :: "hash \<Rightarrow> bytes" where
  "hash_bytes (Hash b) = b"

fun public_key_bytes :: "public_key \<Rightarrow> bytes" where
  "public_key_bytes (PublicKey b) = b"

fun secret_key_bytes :: "secret_key \<Rightarrow> bytes" where
  "secret_key_bytes (SecretKey b) = b"

fun signature_bytes :: "signature \<Rightarrow> bytes" where
  "signature_bytes (Signature b) = b"

fun params_bytes :: "params \<Rightarrow> bytes" where
  "params_bytes (Params b) = b"

record witness =
  wit_public_key :: public_key
  wit_signature :: signature
  wit_nonce :: nonce
  wit_until :: block_number

record call =
  call_module :: string
  call_method :: string
  call_params :: params

record transaction =
  tx_witness :: "witness option"
  tx_call :: call

record header =
  hdr_number :: block_number
  hdr_timestamp :: u64
  hdr_parent_hash :: hash
  hdr_meta_txs_root :: hash
  hdr_meta_state_root :: hash
  hdr_meta_receipts_root :: hash
  hdr_payload_txs_root :: hash
  hdr_payload_execution_gap :: execution_gap
  hdr_payload_execution_state_root :: hash
  hdr_payload_execution_receipts_root :: hash

record body =
  body_meta_txs :: "hash list"
  body_payload_txs :: "hash list"

record block =
  blk_header :: header
  blk_body :: body

record proof_data =
  pf_name :: string
  pf_data :: bytes

record full_transaction =
  ftx_tx :: transaction
  ftx_hash :: hash

type_synonym 'a call_result = "('a, string) result"
type_synonym opaque_call_result = "bytes call_result"

record receipt =
  rc_block_number :: block_number
  rc_events :: "event list"
  rc_result :: opaque_call_result

record full_receipt =
  frc_receipt :: receipt
  frc_tx_hash :: hash

record execution =
  exe_payload_execution_state_root :: hash
  exe_payload_execution_receipts_root :: hash

record 't commit_block_params =
  cb_block_hash :: hash
  cb_header :: header
  cb_body :: body
  cb_meta_txs :: "full_transaction list"
  cb_meta_receipts :: "full_receipt list"
  cb_payload_txs :: "full_transaction list"
  cb_meta_transaction :: 't
  cb_proof :: proof_data

record build_block_params =
  bb_number :: block_number
  bb_timestamp :: u64
  bb_meta_txs :: "full_transaction list"
  bb_payload_txs :: "full_transaction list"
  bb_execution_number :: block_number

record 't commit_execution_params =
  ce_block_hash :: hash
  ce_number :: block_number
  ce_execution :: execution
  ce_payload_receipts :: "full_receipt list"
  ce_payload_transaction :: 't

record build_execution_params =
  be_number :: block_number
  be_timestamp :: u64
  be_block_hash :: hash
  be_meta_state_root :: hash
  be_payload_state_root :: hash
  be_payload_txs :: "full_transaction list"

text \<open>What is hashed of a transaction: the signature is left out.\<close>

record transaction_for_hash =
  tfh_witness :: "(public_key \<times> nonce \<times> block_number) option"
  tfh_call :: call

definition transaction_for_hash_new :: "transaction \<Rightarrow> transaction_for_hash" where
  "transaction_for_hash_new tx = \<lparr>
     tfh_witness = map_option (\<lambda>w. (wit_public_key w, wit_nonce w, wit_until w)) (tx_witness tx),
     tfh_call = tx_call tx \<rparr>"

definition proof_default :: proof_data where
  "proof_default = \<lparr> pf_name = [], pf_data = [] \<rparr>"

section \<open>Errors\<close>

datatype executor_error =
    InvalidTxs string
  | InvalidTxWitness string
  | InvalidTxModule string
  | InvalidTxMethod string
  | InvalidTxParams string
  | ExecApplication string

datatype commit_block_error = Duplicated | NotBest

datatype validate_tx_error =
    VDuplicatedTx string
  | VInvalidTxUntil string
  | VInvalidTxWitness string
  | VInvalidTxModule string
  | VInvalidTxMethod string
  | VInvalidTxParams string
  | VApplication string

datatype chain_error =
    ChainSpec string
  | ChainData string
  | ChainCall string
  | ChainExecuteQueue string
  | ChainChannel
  | CommitBlockError commit_block_error
  | ValidateTxError validate_tx_error

datatype insert_error =
    ExceedCapacity nat
  | DuplicatedTx string
  | InvalidTx validate_tx_error

datatype txpool_error = InsertError insert_error | TxPoolChannel

datatype crypto_error =
    InvalidSecretKey
  | InvalidPublicKey
  | VerificationFailed
  | CustomLibLoadFailed string
  | InvalidHashLength nat
  | InvalidDsaLength "nat \<times> nat \<times> nat"
  | InvalidAddressLength nat
  | InvalidName string

datatype statedb_error =
    LoadHasherConflict string string
  | LoadHasherFail
  | TrieErr string

datatype consensus_error =
    ConsensusTime
  | VerifyProofError string
  | ConsensusData string
  | ConsensusTxPool string
  | ConsensusChannel
  | ConsensusConfig string

text \<open>What the verifiers of proposals and blocks report; \<open>Bad\<close> and \<open>InvalidProof\<close> are in the enumeration of the
  coordinator only, the others in those of HotStuff, Raft and the coordinator.\<close>

datatype verify_error =
    VeDuplicated
  | VeNotBest
  | VeBad
  | VeInvalidExecutionGap
  | VeShouldWait
  | VeInvalidHeader string
  | VeDuplicatedTx string
  | VeInvalidTx validate_tx_error
  | VeInvalidProof string

datatype hotstuff_error =
    HotStuffVerify verify_error
  | HotStuffMessage string
  | HotStuffQC string

datatype raft_error = RaftVerify verify_error

datatype coordinator_error =
    CoordinatorData string
  | CoordinatorVerify verify_error

text \<open>
  \<open>CommonError\<close> is a kind with a boxed error. Here the constructor is the kind and its argument the
  error of that crate, so that \<open>downcast_ref\<close> is a case distinction. \<open>Panic\<close> is not an error value of
  the program: where the source panics (an index or a slice out of range, a failed \<open>expect\<close>, an
  \<open>unreachable!\<close>) the model stops with it, so that a theorem about results also rules panics out.
\<close>

datatype common_error =
    CryptoError crypto_error
  | DBError string
  | StateDBError statedb_error
  | ExecutorError executor_error
  | TxPoolError txpool_error
  | ChainError chain_error
  | CodecError
  | ConsensusError consensus_error
  | HotStuffError hotstuff_error
  | RaftError raft_error
  | CoordinatorError coordinator_error
  | VMError string
  | Panic string

type_synonym 'a common_result = "('a, common_error) result"

fun or_else_catch :: "(common_error \<Rightarrow> 'e option) \<Rightarrow> ('e \<Rightarrow> 'a common_result option)
    \<Rightarrow> 'a common_result \<Rightarrow> 'a common_result" where
  "or_else_catch downcast op (Ok v) = Ok v"
| "or_else_catch downcast op (Err e) =
     (case downcast e of
        Some de \<Rightarrow> (case op de of Some oe \<Rightarrow> oe | None \<Rightarrow> Err e)
      | None \<Rightarrow> Err e)"

fun as_executor_error :: "common_error \<Rightarrow> executor_error option" where
  "as_executor_error (ExecutorError e) = Some e"
| "as_executor_error _ = None"

fun as_chain_error :: "common_error \<Rightarrow> chain_error option" where
  "as_chain_error (ChainError e) = Some e"
| "as_chain_error _ = None"

fun as_txpool_error :: "common_error \<Rightarrow> txpool_error option" where
  "as_txpool_error (TxPoolError e) = Some e"
| "as_txpool_error _ = None"

fun as_consensus_error :: "common_error \<Rightarrow> consensus_error option" where
  "as_consensus_error (ConsensusError e) = Some e"
| "as_consensus_error _ = None"

fun as_hotstuff_error :: "common_error \<Rightarrow> hotstuff_error option" where
  "as_hotstuff_error (HotStuffError e) = Some e"
| "as_hotstuff_error _ = None"

fun as_raft_error :: "common_error \<Rightarrow> raft_error option" where
  "as_raft_error (RaftError e) = Some e"
| "as_raft_error _ = None"

fun as_coordinator_error :: "common_error \<Rightarrow> coordinator_error option" where
  "as_coordinator_error (CoordinatorError e) = Some e"
| "as_coordinator_error _ = None"

section \<open>Codecs\<close>

record 'a codec =
  enc :: "'a \<Rightarrow> bytes"
  dec :: "bytes \<Rightarrow> 'a option"

text \<open>The round trip of the SCALE codec: what is encoded decodes to itself.\<close>

definition codec_ok :: "'a codec \<Rightarrow> bool" where
  "codec_ok c \<longleftrightarrow> (\<forall>x. dec c (enc c x) = Some x)"

definition encode :: "'a codec \<Rightarrow> 'a \<Rightarrow> bytes common_result" where
  "encode c x = Ok (enc c x)"

definition decode :: "'a codec \<Rightarrow> bytes \<Rightarrow> 'a common_result" where
  "decode c b = ok_or_else CodecError (dec c b)"

text \<open>\<open>Event::from_data\<close>: \<open>json\<close> is \<open>serde_json::to_vec\<close> on the name and the data.\<close>

definition event_from_data :: "(string \<Rightarrow> 'd \<Rightarrow> bytes option) \<Rightarrow> string \<Rightarrow> 'd \<Rightarrow> event common_result" where
  "event_from_data json name data = map_err (\<lambda>_. CodecError)
     (and_then (ok_or_else () (json name data)) (\<lambda>v. Ok (Event v)))"

definition event_from_raw :: "bytes \<Rightarrow> event" where
  "event_from_raw raw = Event raw"

lemma decode_encode: "codec_ok c \<Longrightarrow> decode c (enc c x) = Ok x"
  by (simp add: decode_def codec_ok_def)

lemma codec_ok_dec [simp]: "codec_ok c \<Longrightarrow> dec c (enc c x) = Some x"
  by (simp add: codec_ok_def)

lemma codec_ok_inj: "codec_ok c \<Longrightarrow> enc c x = enc c y \<longleftrightarrow> x = y"
  by (metis codec_ok_dec option.inject)

lemma event_from_data_eq_Ok:
  "event_from_data json name d = Ok e \<longleftrightarrow> (\<exists>v. json name d = Some v \<and> e = Event v)"
  by (cases "json name d") (auto simp: event_from_data_def)

lemma event_from_data_Some [simp]:
  "json name d = Some v \<Longrightarrow> event_from_data json name d = Ok (Event v)"
  by (simp add: event_from_data_def)

text \<open>The hash of a transaction does not depend on its signature.\<close>

lemma transaction_for_hash_signature:
  "transaction_for_hash_new (tx\<lparr>tx_witness := Some (w\<lparr>wit_signature := s\<rparr>)\<rparr>)
   = transaction_for_hash_new (tx\<lparr>tx_witness := Some w\<rparr>)"
  by (simp add: transaction_for_hash_new_def)

section \<open>Concrete codecs\<close>

text \<open>
  Small codecs with the round trip, from which instances of the codec arguments are built: they show
  that the hypotheses \<open>codec_ok\<close> can hold together, and let the definitions be evaluated.
\<close>

definition unit_codec :: "'a \<Rightarrow> 'a codec" where
  "unit_codec x = \<lparr> enc = (\<lambda>_. []), dec = (\<lambda>_. Some x) \<rparr>"

definition bytes_codec :: "bytes codec" where
  "bytes_codec = \<lparr> enc = (\<lambda>b. b), dec = Some \<rparr>"

definition word_codec :: "('w::len) word codec" where
  "word_codec = \<lparr> enc = (\<lambda>w. replicate (unat w) 0), dec = (\<lambda>b. Some (of_nat (length b))) \<rparr>"

definition string_codec :: "string codec" where
  "string_codec = \<lparr> enc = byte_str, dec = (\<lambda>b. Some (map (\<lambda>w. char_of (unat w)) b)) \<rparr>"

definition pair_codec :: "'a codec \<Rightarrow> 'b codec \<Rightarrow> ('a \<times> 'b) codec" where
  "pair_codec c d = \<lparr>
     enc = (\<lambda>(x, y). replicate (length (enc c x)) 0 @ 1 # enc c x @ enc d y),
     dec = (\<lambda>b. let n = length (takeWhile (\<lambda>w. w = 0) b); r = drop (Suc n) b in
              case (dec c (take n r), dec d (drop n r)) of
                (Some x, Some y) \<Rightarrow> Some (x, y) | _ \<Rightarrow> None) \<rparr>"

definition option_codec :: "'a codec \<Rightarrow> 'a option codec" where
  "option_codec c = \<lparr>
     enc = (\<lambda>x. case x of None \<Rightarrow> [] | Some y \<Rightarrow> 1 # enc c y),
     dec = (\<lambda>b. case b of [] \<Rightarrow> Some None | w # r \<Rightarrow> map_option Some (dec c r)) \<rparr>"

fun list_enc :: "'a codec \<Rightarrow> 'a list \<Rightarrow> bytes" where
  "list_enc c [] = []"
| "list_enc c (x # xs) = 1 # enc (pair_codec c bytes_codec) (x, list_enc c xs)"

fun list_dec :: "nat \<Rightarrow> 'a codec \<Rightarrow> bytes \<Rightarrow> 'a list option" where
  "list_dec n c [] = Some []"
| "list_dec 0 c (w # b) = None"
| "list_dec (Suc n) c (w # b) =
     (case dec (pair_codec c bytes_codec) b of
        Some (x, r) \<Rightarrow> map_option ((#) x) (list_dec n c r)
      | None \<Rightarrow> None)"

definition list_codec :: "'a codec \<Rightarrow> 'a list codec" where
  "list_codec c = \<lparr> enc = list_enc c, dec = (\<lambda>b. list_dec (length b) c b) \<rparr>"

definition iso_codec :: "('b \<Rightarrow> 'a) \<Rightarrow> ('a \<Rightarrow> 'b) \<Rightarrow> 'a codec \<Rightarrow> 'b codec" where
  "iso_codec f g c = \<lparr> enc = (\<lambda>x. enc c (f x)), dec = (\<lambda>b. map_option g (dec c b)) \<rparr>"

definition address_codec :: "address codec" where
  "address_codec = iso_codec address_bytes Address bytes_codec"

lemma unit_codec_ok [simp]: "codec_ok (unit_codec ())"
  by (simp add: codec_ok_def unit_codec_def)

lemma bytes_codec_ok [simp]: "codec_ok bytes_codec"
  by (simp add: codec_ok_def bytes_codec_def)

lemma word_codec_ok [simp]: "codec_ok word_codec"
  by (simp add: codec_ok_def word_codec_def)

lemma string_codec_ok [simp]: "codec_ok string_codec"
  by (simp add: codec_ok_def string_codec_def byte_str_def unat_of_char_u8 comp_def)

lemma takeWhile_replicate_0:
  "takeWhile (\<lambda>w. w = 0) (replicate n (0 :: u8) @ 1 # xs) = replicate n 0"
  by (induction n) auto

lemma pair_codec_ok [simp]: "codec_ok c \<Longrightarrow> codec_ok d \<Longrightarrow> codec_ok (pair_codec c d)"
  unfolding codec_ok_def [of "pair_codec c d"]
  by (auto simp: pair_codec_def takeWhile_replicate_0 Let_def)

lemma option_codec_ok [simp]: "codec_ok c \<Longrightarrow> codec_ok (option_codec c)"
  unfolding codec_ok_def [of "option_codec c"]
  by (auto simp: option_codec_def split: option.splits)

lemma list_dec_enc:
  "codec_ok c \<Longrightarrow> length (list_enc c xs) \<le> n \<Longrightarrow> list_dec n c (list_enc c xs) = Some xs"
proof (induction xs arbitrary: n)
  case (Cons x xs)
  then obtain m where n: "n = Suc m"
    by (cases n) auto
  have "length (list_enc c xs) \<le> m"
    using Cons.prems(2) by (simp add: n pair_codec_def bytes_codec_def)
  moreover have "dec (pair_codec c bytes_codec) (enc (pair_codec c bytes_codec) (x, list_enc c xs))
      = Some (x, list_enc c xs)"
    using Cons.prems(1) by (intro codec_ok_dec) simp
  ultimately show ?case
    using Cons.IH [of m] Cons.prems(1) by (simp add: n)
qed simp

lemma list_codec_ok [simp]: "codec_ok c \<Longrightarrow> codec_ok (list_codec c)"
  unfolding codec_ok_def [of "list_codec c"] by (simp add: list_codec_def list_dec_enc)

lemma iso_codec_ok:
  "codec_ok c \<Longrightarrow> (\<And>x. g (f x) = x) \<Longrightarrow> codec_ok (iso_codec f g c)"
  unfolding codec_ok_def [of "iso_codec f g c"] by (simp add: iso_codec_def)

lemma address_codec_ok [simp]: "codec_ok address_codec"
  unfolding address_codec_def
proof (rule iso_codec_ok)
  show "Address (address_bytes x) = x" for x
    by (cases x) simp
qed simp

end
