(* ===== verification/Exec_Primitives.thy ===== *)
theory Exec_Primitives
  imports Primitives
begin

text \<open>
  The crate \<^verbatim>\<open>core/node/executor/primitives\<close> and the code its macros generate
  (\<^verbatim>\<open>core/node/executor/executor-macro\<close>).

  \<^item> The traits \<open>Context\<close> and \<open>Util\<close> are records of operations: an implementation of \<open>Context\<close> is a
    value of \<open>'c context_ops\<close>, where \<open>'c\<close> is the state its handles share. Modules are written against
    these records, as the source writes them against the traits.
  \<^item> \<open>StorageValue\<close> and \<open>StorageMap\<close> are records with their key and their codecs.
  \<^item> \<open>#[module]\<close> generates four functions from the list of call methods of a module; \<open>call_method\<close>
    is one entry of that list and \<open>module\<close> the generated implementation of the trait \<open>Module\<close>.
  \<^item> The locale \<open>context_laws\<close> is the contract of a context: a read after a write, and which operation
    leaves what unchanged. The lemmas of the storage types are proved in it once.
\<close>

section \<open>Module errors\<close>

datatype application_error =
    InvalidAddress string
  | Unsigned
  | User string

datatype module_error =
    ESystem common_error
  | EApplication application_error

type_synonym 'a module_result = "('a, module_error) result"

fun application_error_to_string :: "application_error \<Rightarrow> string" where
  "application_error_to_string (InvalidAddress s) = ''Invalid address: '' @ s"
| "application_error_to_string Unsigned = ''Unsigned''"
| "application_error_to_string (User msg) = msg"

definition user_error :: "string \<Rightarrow> module_error" where
  "user_error msg = EApplication (User msg)"

fun module_error_into :: "module_error \<Rightarrow> common_error" where
  "module_error_into (ESystem e) = e"
| "module_error_into (EApplication e) =
     ExecutorError (ExecApplication (application_error_to_string e))"

section \<open>Context and Util\<close>

record context_env =
  env_number :: block_number
  env_timestamp :: u64

record call_env =
  cenv_tx_hash :: "hash option"

definition call_env_default :: call_env where
  "call_env_default = \<lparr> cenv_tx_hash = None \<rparr>"

type_synonym items = "(db_key \<times> db_value option) list"
type_synonym ('c, 'a) mcomp = "('c, 'a, module_error) comp"

record 'c context_ops =
  cx_env :: "'c \<Rightarrow> context_env"
  cx_call_env :: "'c \<Rightarrow> call_env"
  cx_meta_get :: "db_key \<Rightarrow> ('c, db_value option) mcomp"
  cx_meta_set :: "db_key \<Rightarrow> db_value option \<Rightarrow> ('c, unit) mcomp"
  cx_meta_drain_tx_buffer :: "('c, items) mcomp"
  cx_meta_apply :: "items \<Rightarrow> ('c, unit) mcomp"
  cx_payload_get :: "db_key \<Rightarrow> ('c, db_value option) mcomp"
  cx_payload_set :: "db_key \<Rightarrow> db_value option \<Rightarrow> ('c, unit) mcomp"
  cx_payload_drain_tx_buffer :: "('c, items) mcomp"
  cx_payload_apply :: "items \<Rightarrow> ('c, unit) mcomp"
  cx_emit_event :: "event \<Rightarrow> ('c, unit) mcomp"
  cx_drain_tx_events :: "('c, event list) mcomp"
  cx_apply_events :: "event list \<Rightarrow> ('c, unit) mcomp"

record util_ops =
  ut_hash :: "bytes \<Rightarrow> hash module_result"
  ut_address :: "bytes \<Rightarrow> address module_result"
  ut_validate_address :: "address \<Rightarrow> unit module_result"

section \<open>Storage\<close>

definition SEPARATOR :: bytes where
  "SEPARATOR = byte_str ''_''"

text \<open>The constants \<open>META_MODULE\<close> and \<open>STORAGE_KEY\<close> of a module.\<close>

record module_const =
  META_MODULE :: bool
  STORAGE_KEY :: bytes

definition context_get :: "'c context_ops \<Rightarrow> 'v codec \<Rightarrow> bool \<Rightarrow> db_key \<Rightarrow> ('c, 'v option) mcomp" where
  "context_get cx cv meta_module key =
     bind (if meta_module then cx_meta_get cx key else cx_payload_get cx key) (\<lambda>val.
       case val of
         Some v \<Rightarrow> bind (lift_result (map_err ESystem (decode cv v))) (\<lambda>v. ret (Some v))
       | None \<Rightarrow> ret None)"

definition context_set :: "'c context_ops \<Rightarrow> 'v codec \<Rightarrow> bool \<Rightarrow> db_key \<Rightarrow> 'v \<Rightarrow> ('c, unit) mcomp" where
  "context_set cx cv meta_module key v =
     bind (lift_result (map_err ESystem (encode cv v))) (\<lambda>val.
       if meta_module then cx_meta_set cx key (Some val) else cx_payload_set cx key (Some val))"

definition context_delete :: "'c context_ops \<Rightarrow> bool \<Rightarrow> db_key \<Rightarrow> ('c, unit) mcomp" where
  "context_delete cx meta_module key =
     (if meta_module then cx_meta_set cx key None else cx_payload_set cx key None)"

record 'v storage_value =
  sv_meta_module :: bool
  sv_key :: db_key
  sv_codec :: "'v codec"

definition storage_value_new :: "module_const \<Rightarrow> 'v codec \<Rightarrow> bytes \<Rightarrow> 'v storage_value" where
  "storage_value_new m cv storage_key = \<lparr>
     sv_meta_module = META_MODULE m,
     sv_key = STORAGE_KEY m @ SEPARATOR @ storage_key,
     sv_codec = cv \<rparr>"

definition sv_get :: "'c context_ops \<Rightarrow> 'v storage_value \<Rightarrow> ('c, 'v option) mcomp" where
  "sv_get cx sv = context_get cx (sv_codec sv) (sv_meta_module sv) (sv_key sv)"

definition sv_set :: "'c context_ops \<Rightarrow> 'v storage_value \<Rightarrow> 'v \<Rightarrow> ('c, unit) mcomp" where
  "sv_set cx sv v = context_set cx (sv_codec sv) (sv_meta_module sv) (sv_key sv) v"

definition sv_delete :: "'c context_ops \<Rightarrow> 'v storage_value \<Rightarrow> ('c, unit) mcomp" where
  "sv_delete cx sv = context_delete cx (sv_meta_module sv) (sv_key sv)"

record ('k, 'v) storage_map =
  sm_meta_module :: bool
  sm_key :: db_key
  sm_key_codec :: "'k codec"
  sm_codec :: "'v codec"

definition storage_map_new :: "module_const \<Rightarrow> 'k codec \<Rightarrow> 'v codec \<Rightarrow> bytes
    \<Rightarrow> ('k, 'v) storage_map" where
  "storage_map_new m ck cv storage_key = \<lparr>
     sm_meta_module = META_MODULE m,
     sm_key = STORAGE_KEY m @ SEPARATOR @ storage_key,
     sm_key_codec = ck,
     sm_codec = cv \<rparr>"

definition sm_raw_get :: "'c context_ops \<Rightarrow> ('k, 'v) storage_map \<Rightarrow> bytes \<Rightarrow> ('c, 'v option) mcomp" where
  "sm_raw_get cx sm key = context_get cx (sm_codec sm) (sm_meta_module sm) (sm_key sm @ SEPARATOR @ key)"

definition sm_get :: "'c context_ops \<Rightarrow> ('k, 'v) storage_map \<Rightarrow> 'k \<Rightarrow> ('c, 'v option) mcomp" where
  "sm_get cx sm key =
     bind (lift_result (map_err ESystem (encode (sm_key_codec sm) key))) (\<lambda>key. sm_raw_get cx sm key)"

definition sm_raw_set :: "'c context_ops \<Rightarrow> ('k, 'v) storage_map \<Rightarrow> bytes \<Rightarrow> 'v \<Rightarrow> ('c, unit) mcomp" where
  "sm_raw_set cx sm key v =
     context_set cx (sm_codec sm) (sm_meta_module sm) (sm_key sm @ SEPARATOR @ key) v"

definition sm_set :: "'c context_ops \<Rightarrow> ('k, 'v) storage_map \<Rightarrow> 'k \<Rightarrow> 'v \<Rightarrow> ('c, unit) mcomp" where
  "sm_set cx sm key v =
     bind (lift_result (map_err ESystem (encode (sm_key_codec sm) key))) (\<lambda>key. sm_raw_set cx sm key v)"

definition sm_raw_delete :: "'c context_ops \<Rightarrow> ('k, 'v) storage_map \<Rightarrow> bytes \<Rightarrow> ('c, unit) mcomp" where
  "sm_raw_delete cx sm key = context_delete cx (sm_meta_module sm) (sm_key sm @ SEPARATOR @ key)"

definition sm_delete :: "'c context_ops \<Rightarrow> ('k, 'v) storage_map \<Rightarrow> 'k \<Rightarrow> ('c, unit) mcomp" where
  "sm_delete cx sm key =
     bind (lift_result (map_err ESystem (encode (sm_key_codec sm) key))) (\<lambda>key. sm_raw_delete cx sm key)"

text \<open>The parameters of a call that needs none.\<close>

datatype empty_params = EmptyParams

section \<open>Modules and their generated dispatch\<close>

text \<open>
  One \<open>#[call]\<close> method of a module. \<open>cm_decodes\<close> tells whether the parameters decode at the
  method's parameter type; \<open>cm_validate\<close> and \<open>cm_execute\<close> are the bodies of the match arms generated
  for it, on the raw parameters.
\<close>

record 'c module_method =
  mm_name :: string
  mm_write :: bool
  mm_decodes :: "bytes \<Rightarrow> bool"
  mm_validate :: "address option \<Rightarrow> bytes \<Rightarrow> ('c, unit) mcomp"
  mm_execute :: "address option \<Rightarrow> bytes \<Rightarrow> ('c, bytes) mcomp"

definition invalid_tx_params :: module_error where
  "invalid_tx_params = ESystem (ExecutorError (InvalidTxParams ''Codec error''))"

definition invalid_tx_method :: "string \<Rightarrow> module_error" where
  "invalid_tx_method other = ESystem (ExecutorError (InvalidTxMethod other))"

definition decode_params :: "'p codec \<Rightarrow> bytes \<Rightarrow> 'p module_result" where
  "decode_params cp params = map_err (\<lambda>_. invalid_tx_params) (decode cp params)"

text \<open>\<open>validate = None\<close> when the module has no method \<open>validate_<name>\<close>.\<close>

definition mk_method :: "string \<Rightarrow> bool \<Rightarrow> 'p codec \<Rightarrow> 'r codec
    \<Rightarrow> (address option \<Rightarrow> 'p \<Rightarrow> ('c, unit) mcomp) option
    \<Rightarrow> (address option \<Rightarrow> 'p \<Rightarrow> ('c, 'r) mcomp) \<Rightarrow> 'c module_method" where
  "mk_method name write cp cr validate execute = \<lparr>
     mm_name = name,
     mm_write = write,
     mm_decodes = (\<lambda>params. dec cp params \<noteq> None),
     mm_validate = (\<lambda>sender params.
       bind (lift_result (decode_params cp params)) (\<lambda>params.
         case validate of Some v \<Rightarrow> v sender params | None \<Rightarrow> ret ())),
     mm_execute = (\<lambda>sender params.
       bind (lift_result (decode_params cp params)) (\<lambda>params.
         bind (execute sender params) (\<lambda>r.
           lift_result (map_err ESystem (encode cr r))))) \<rparr>"

fun find_method :: "string \<Rightarrow> 'c module_method list \<Rightarrow> 'c module_method option" where
  "find_method name [] = None"
| "find_method name (m # ms) = (if mm_name m = name then Some m else find_method name ms)"

definition module_is_write_call :: "'c module_method list \<Rightarrow> call \<Rightarrow> bool module_result" where
  "module_is_write_call ms call = (case find_method (call_method call) ms of
     Some m \<Rightarrow> Ok (mm_write m)
   | None \<Rightarrow> Err (invalid_tx_method (call_method call)))"

definition module_check_call :: "'c module_method list \<Rightarrow> call \<Rightarrow> unit module_result" where
  "module_check_call ms call = (case find_method (call_method call) ms of
     Some m \<Rightarrow> if mm_decodes m (params_bytes (call_params call)) then Ok () else Err invalid_tx_params
   | None \<Rightarrow> Err (invalid_tx_method (call_method call)))"

definition module_validate_call :: "'c module_method list \<Rightarrow> address option \<Rightarrow> call
    \<Rightarrow> ('c, unit) mcomp" where
  "module_validate_call ms sender call = (case find_method (call_method call) ms of
     Some m \<Rightarrow> mm_validate m sender (params_bytes (call_params call))
   | None \<Rightarrow> fail (invalid_tx_method (call_method call)))"

definition module_execute_call :: "'c module_method list \<Rightarrow> address option \<Rightarrow> call
    \<Rightarrow> ('c, bytes) mcomp" where
  "module_execute_call ms sender call = (case find_method (call_method call) ms of
     Some m \<Rightarrow> mm_execute m sender (params_bytes (call_params call))
   | None \<Rightarrow> fail (invalid_tx_method (call_method call)))"

text \<open>\<open>self.context.emit_event(Event::from_data(name, data)?)?\<close>\<close>

definition emit :: "'c context_ops \<Rightarrow> (string \<Rightarrow> 'd \<Rightarrow> bytes option) \<Rightarrow> string \<Rightarrow> 'd \<Rightarrow> ('c, unit) mcomp" where
  "emit cx json name data =
     bind (lift_result (map_err ESystem (event_from_data json name data))) (\<lambda>e. cx_emit_event cx e)"

section \<open>The contract of a context\<close>

text \<open>Meta and payload state are two copies of one interface; \<open>m\<close> selects the meta state.\<close>

definition cx_get :: "'c context_ops \<Rightarrow> bool \<Rightarrow> db_key \<Rightarrow> ('c, db_value option) mcomp" where
  "cx_get cx m k = (if m then cx_meta_get cx k else cx_payload_get cx k)"

definition cx_set :: "'c context_ops \<Rightarrow> bool \<Rightarrow> db_key \<Rightarrow> db_value option \<Rightarrow> ('c, unit) mcomp" where
  "cx_set cx m k v = (if m then cx_meta_set cx k v else cx_payload_set cx k v)"

text \<open>What a read at a key returns in a state, and the state after a write or an event.\<close>

definition cx_view :: "'c context_ops \<Rightarrow> 'c \<Rightarrow> bool \<Rightarrow> db_key \<Rightarrow> db_value option module_result" where
  "cx_view cx s m k = fst (cx_get cx m k s)"

definition cx_upd :: "'c context_ops \<Rightarrow> bool \<Rightarrow> db_key \<Rightarrow> db_value option \<Rightarrow> 'c \<Rightarrow> 'c" where
  "cx_upd cx m k v s = snd (cx_set cx m k v s)"

definition cx_ev :: "'c context_ops \<Rightarrow> event \<Rightarrow> 'c \<Rightarrow> 'c" where
  "cx_ev cx e s = snd (cx_emit_event cx e s)"

text \<open>What decoding makes of a raw read.\<close>

definition decode_view :: "'v codec \<Rightarrow> db_value option module_result \<Rightarrow> 'v option module_result" where
  "decode_view cv r = and_then r (\<lambda>val. case val of
     Some v \<Rightarrow> and_then (map_err ESystem (decode cv v)) (\<lambda>x. Ok (Some x)) | None \<Rightarrow> Ok None)"

lemma decode_view_simps [simp]:
  "decode_view cv (Ok None) = Ok None"
  "codec_ok cv \<Longrightarrow> decode_view cv (Ok (Some (enc cv x))) = Ok (Some x)"
  "decode_view cv (Err e) = Err e"
  by (simp_all add: decode_view_def decode_encode)

definition sv_view :: "'c context_ops \<Rightarrow> 'v storage_value \<Rightarrow> 'c \<Rightarrow> 'v option module_result" where
  "sv_view cx sv s = decode_view (sv_codec sv) (cx_view cx s (sv_meta_module sv) (sv_key sv))"

definition sm_view :: "'c context_ops \<Rightarrow> ('k, 'v) storage_map \<Rightarrow> 'k \<Rightarrow> 'c \<Rightarrow> 'v option module_result" where
  "sm_view cx sm k s = decode_view (sm_codec sm)
     (cx_view cx s (sm_meta_module sm) (sm_key sm @ SEPARATOR @ enc (sm_key_codec sm) k))"

definition sv_upd :: "'c context_ops \<Rightarrow> 'v storage_value \<Rightarrow> 'v option \<Rightarrow> 'c \<Rightarrow> 'c" where
  "sv_upd cx sv x = cx_upd cx (sv_meta_module sv) (sv_key sv) (map_option (enc (sv_codec sv)) x)"

definition sm_upd :: "'c context_ops \<Rightarrow> ('k, 'v) storage_map \<Rightarrow> 'k \<Rightarrow> 'v option \<Rightarrow> 'c \<Rightarrow> 'c" where
  "sm_upd cx sm k x = cx_upd cx (sm_meta_module sm)
     (sm_key sm @ SEPARATOR @ enc (sm_key_codec sm) k) (map_option (enc (sm_codec sm)) x)"

locale context_laws =
  fixes cx :: "'c context_ops"
    and inv :: "'c \<Rightarrow> bool"
    and events :: "'c \<Rightarrow> event list"
  assumes get_pure: "inv s \<Longrightarrow> snd (cx_get cx m k s) = s"
    and set_ok: "inv s \<Longrightarrow> fst (cx_set cx m k v s) = Ok ()"
    and set_inv: "inv s \<Longrightarrow> inv (cx_upd cx m k v s)"
    and view_set: "inv s \<Longrightarrow> cx_view cx (cx_upd cx m k v s) m' k'
        = (if m' = m \<and> k' = k then Ok v else cx_view cx s m' k')"
    and set_env: "inv s \<Longrightarrow> cx_env cx (cx_upd cx m k v s) = cx_env cx s"
    and set_call_env: "inv s \<Longrightarrow> cx_call_env cx (cx_upd cx m k v s) = cx_call_env cx s"
    and set_events: "inv s \<Longrightarrow> events (cx_upd cx m k v s) = events s"
    and emit_ok: "inv s \<Longrightarrow> fst (cx_emit_event cx e s) = Ok ()"
    and emit_inv: "inv s \<Longrightarrow> inv (cx_ev cx e s)"
    and view_emit: "inv s \<Longrightarrow> cx_view cx (cx_ev cx e s) m k = cx_view cx s m k"
    and emit_env: "inv s \<Longrightarrow> cx_env cx (cx_ev cx e s) = cx_env cx s"
    and emit_call_env: "inv s \<Longrightarrow> cx_call_env cx (cx_ev cx e s) = cx_call_env cx s"
    and emit_events: "inv s \<Longrightarrow> events (cx_ev cx e s) = events s @ [e]"
begin

lemma cx_get_eq: "inv s \<Longrightarrow> cx_get cx m k s = (cx_view cx s m k, s)"
  by (simp add: cx_view_def get_pure prod_eq_iff)

lemma cx_set_eq: "inv s \<Longrightarrow> cx_set cx m k v s = (Ok (), cx_upd cx m k v s)"
  by (simp add: cx_upd_def set_ok prod_eq_iff)

lemma cx_emit_event_eq: "inv s \<Longrightarrow> cx_emit_event cx e s = (Ok (), cx_ev cx e s)"
  by (simp add: cx_ev_def emit_ok prod_eq_iff)

lemma context_get_eq:
  assumes "inv s"
  shows "context_get cx cv m k s = (decode_view cv (cx_view cx s m k), s)"
proof -
  have "context_get cx cv m k s = bind (cx_get cx m k) (\<lambda>val. case val of
         Some v \<Rightarrow> bind (lift_result (map_err ESystem (decode cv v))) (\<lambda>v. ret (Some v))
       | None \<Rightarrow> ret None) s"
    by (simp add: context_get_def cx_get_def)
  then show ?thesis
    using assms
    by (auto simp: bind_def cx_get_eq decode_view_def split: result.splits option.splits)
qed

lemma context_set_eq:
  "inv s \<Longrightarrow> context_set cx cv m k x s = (Ok (), cx_upd cx m k (Some (enc cv x)) s)"
  using cx_set_eq [of s m k "Some (enc cv x)"]
  by (simp add: context_set_def encode_def bind_def cx_set_def)

lemma context_delete_eq: "inv s \<Longrightarrow> context_delete cx m k s = (Ok (), cx_upd cx m k None s)"
  using cx_set_eq [of s m k None] by (simp add: context_delete_def cx_set_def)

lemma sv_get_eq: "inv s \<Longrightarrow> sv_get cx sv s = (sv_view cx sv s, s)"
  by (simp add: sv_get_def sv_view_def context_get_eq)

lemma sv_set_eq: "inv s \<Longrightarrow> sv_set cx sv x s = (Ok (), sv_upd cx sv (Some x) s)"
  by (simp add: sv_set_def sv_upd_def context_set_eq)

lemma sv_delete_eq: "inv s \<Longrightarrow> sv_delete cx sv s = (Ok (), sv_upd cx sv None s)"
  by (simp add: sv_delete_def sv_upd_def context_delete_eq)

lemma sm_get_eq: "inv s \<Longrightarrow> sm_get cx sm k s = (sm_view cx sm k s, s)"
  by (simp add: sm_get_def sm_raw_get_def sm_view_def context_get_eq encode_def bind_def)

lemma sm_set_eq: "inv s \<Longrightarrow> sm_set cx sm k x s = (Ok (), sm_upd cx sm k (Some x) s)"
  by (simp add: sm_set_def sm_raw_set_def sm_upd_def context_set_eq encode_def bind_def)

lemma sm_delete_eq: "inv s \<Longrightarrow> sm_delete cx sm k s = (Ok (), sm_upd cx sm k None s)"
  by (simp add: sm_delete_def sm_raw_delete_def sm_upd_def context_delete_eq encode_def bind_def)

text \<open>A storage value reads what was written to it, and is not affected by writes elsewhere.\<close>

lemma sv_view_upd:
  assumes "inv s" "codec_ok (sv_codec sv)"
  shows "sv_view cx sv (sv_upd cx sv x s) = Ok x"
  using assms by (cases x) (simp_all add: sv_view_def sv_upd_def view_set)

lemma sv_view_upd_other:
  assumes "inv s" "sv_meta_module sv \<noteq> sv_meta_module sv' \<or> sv_key sv \<noteq> sv_key sv'"
  shows "sv_view cx sv (sv_upd cx sv' x s) = sv_view cx sv s"
  using assms by (auto simp: sv_view_def sv_upd_def view_set)

lemma sv_view_upd_key:
  "inv s \<Longrightarrow> sv_key sv \<noteq> sv_key sv' \<Longrightarrow> sv_view cx sv (sv_upd cx sv' x s) = sv_view cx sv s"
  "inv s \<Longrightarrow> sv_key sv' \<noteq> sv_key sv \<Longrightarrow> sv_view cx sv (sv_upd cx sv' x s) = sv_view cx sv s"
  by (auto intro: sv_view_upd_other)

lemma sm_view_upd:
  assumes "inv s" "codec_ok (sm_key_codec sm)" "codec_ok (sm_codec sm)"
  shows "sm_view cx sm k (sm_upd cx sm k' x s) = (if k = k' then Ok x else sm_view cx sm k s)"
  using assms by (cases x) (simp_all add: sm_view_def sm_upd_def view_set codec_ok_inj)

lemma sv_upd_keeps [simp]:
  assumes "inv s"
  shows "inv (sv_upd cx sv x s)" "cx_env cx (sv_upd cx sv x s) = cx_env cx s"
    "cx_call_env cx (sv_upd cx sv x s) = cx_call_env cx s" "events (sv_upd cx sv x s) = events s"
  using assms by (simp_all add: sv_upd_def set_inv set_env set_call_env set_events)

lemma sm_upd_keeps [simp]:
  assumes "inv s"
  shows "inv (sm_upd cx sm k x s)" "cx_env cx (sm_upd cx sm k x s) = cx_env cx s"
    "cx_call_env cx (sm_upd cx sm k x s) = cx_call_env cx s" "events (sm_upd cx sm k x s) = events s"
  using assms by (simp_all add: sm_upd_def set_inv set_env set_call_env set_events)

lemma emit_keeps [simp]:
  assumes "inv s"
  shows "inv (cx_ev cx e s)" "cx_env cx (cx_ev cx e s) = cx_env cx s"
    "cx_call_env cx (cx_ev cx e s) = cx_call_env cx s" "events (cx_ev cx e s) = events s @ [e]"
    "cx_view cx (cx_ev cx e s) = cx_view cx s" "sv_view cx sv (cx_ev cx e s) = sv_view cx sv s"
    "sm_view cx sm k (cx_ev cx e s) = sm_view cx sm k s"
  using assms by (simp_all add: emit_inv emit_env emit_call_env emit_events view_emit fun_eq_iff
      sv_view_def sm_view_def)

lemma emit_eq:
  "inv s \<Longrightarrow> emit cx json name d s =
     (case json name d of Some v \<Rightarrow> (Ok (), cx_ev cx (Event v) s) | None \<Rightarrow> (Err (ESystem CodecError), s))"
  by (auto simp: emit_def event_from_data_def bind_def cx_emit_event_eq split: option.splits)

text \<open>Rewriting of module code to its effect on the views.\<close>

lemmas run_simps = sv_get_eq sv_set_eq sv_delete_eq sm_get_eq sm_set_eq sm_delete_eq emit_eq
  sv_view_upd sm_view_upd

end

end
