(* ===== verification/Database.thy ===== *)
theory Database
  imports Primitives
begin

text \<open>
  The key-value database (\<^verbatim>\<open>core/node/db\<close>) and the state database over it
  (\<^verbatim>\<open>core/node/statedb\<close>).

  RocksDB and the Merkle trie (\<open>trie_db\<close>, \<open>memory_db\<close>, \<open>trie_root\<close>) are third-party: they are the records
  \<open>'d rocks\<close> and \<open>'t trie_lib\<close>, arguments of the definitions. \<open>rocks_ok\<close> states what RocksDB documents:
  reads succeed and a write batch is applied in order and as a whole. \<open>trie_ok\<close> states that
  a trie opened at a root whose nodes are readable holds what was inserted in it.
\<close>

section \<open>Columns\<close>

definition COLUMN_NAMES :: "string list" where
  "COLUMN_NAMES = [''global'', ''block_hash'', ''header'', ''meta_state'', ''meta_txs'',
     ''payload_state'', ''payload_txs'', ''tx'', ''receipt'', ''execution'', ''proof'', ''consensus'']"

definition GLOBAL :: u32 where "GLOBAL = 0"
definition BLOCK_HASH :: u32 where "BLOCK_HASH = 1"
definition HEADER :: u32 where "HEADER = 2"
definition META_STATE :: u32 where "META_STATE = 3"
definition META_TXS :: u32 where "META_TXS = 4"
definition PAYLOAD_STATE :: u32 where "PAYLOAD_STATE = 5"
definition PAYLOAD_TXS :: u32 where "PAYLOAD_TXS = 6"
definition TX :: u32 where "TX = 7"
definition RECEIPT :: u32 where "RECEIPT = 8"
definition EXECUTION :: u32 where "EXECUTION = 9"
definition PROOF :: u32 where "PROOF = 10"
definition CONSENSUS :: u32 where "CONSENSUS = 11"

lemmas column_defs = GLOBAL_def BLOCK_HASH_def HEADER_def META_STATE_def META_TXS_def
  PAYLOAD_STATE_def PAYLOAD_TXS_def TX_def RECEIPT_def EXECUTION_def PROOF_def CONSENSUS_def

definition CONFIRMED_NUMBER :: bytes where "CONFIRMED_NUMBER = byte_str ''confirmed_number''"
definition EXECUTION_NUMBER :: bytes where "EXECUTION_NUMBER = byte_str ''execution_number''"
definition SPEC :: bytes where "SPEC = byte_str ''spec''"

section \<open>The database\<close>

datatype batch_op = PutCf string bytes bytes | DeleteCf string bytes

record 'd rocks =
  rk_get_cf :: "'d \<Rightarrow> string \<Rightarrow> bytes \<Rightarrow> (bytes option, string) result"
  rk_write :: "batch_op list \<Rightarrow> ('d, unit, string) comp"

datatype db_op = Insert u32 db_key db_value | Delete u32 db_key

type_synonym db_transaction = "db_op list"

definition transaction_new :: db_transaction where
  "transaction_new = []"

definition put :: "u32 \<Rightarrow> bytes \<Rightarrow> bytes \<Rightarrow> db_transaction \<Rightarrow> db_transaction" where
  "put col key v t = t @ [Insert col key v]"

definition put_owned :: "u32 \<Rightarrow> db_key \<Rightarrow> db_value \<Rightarrow> db_transaction \<Rightarrow> db_transaction" where
  "put_owned col key v t = t @ [Insert col key v]"

definition delete_key :: "u32 \<Rightarrow> bytes \<Rightarrow> db_transaction \<Rightarrow> db_transaction" where
  "delete_key col key t = t @ [Delete col key]"

definition extend :: "db_transaction \<Rightarrow> db_transaction \<Rightarrow> db_transaction" where
  "extend other t = t @ other"

definition get_cf :: "u32 \<Rightarrow> string common_result" where
  "get_cf col = (if unat col < length COLUMN_NAMES then Ok (COLUMN_NAMES ! unat col)
     else Err (Panic ''index out of bounds''))"

definition db_get :: "'d rocks \<Rightarrow> u32 \<Rightarrow> bytes \<Rightarrow> 'd \<Rightarrow> bytes option common_result" where
  "db_get rk col key d = and_then (get_cf col) (\<lambda>cf. map_err DBError (rk_get_cf rk d cf key))"

definition db_get_with :: "'d rocks \<Rightarrow> u32 \<Rightarrow> bytes \<Rightarrow> (bytes \<Rightarrow> 'u common_result) \<Rightarrow> 'd
    \<Rightarrow> 'u option common_result" where
  "db_get_with rk col key f d = and_then (db_get rk col key d) (\<lambda>val.
     case val of Some v \<Rightarrow> and_then (f v) (\<lambda>u. Ok (Some u)) | None \<Rightarrow> Ok None)"

fun batch_of_op :: "db_op \<Rightarrow> batch_op common_result" where
  "batch_of_op (Insert col key v) = and_then (get_cf col) (\<lambda>cf. Ok (PutCf cf key v))"
| "batch_of_op (Delete col key) = and_then (get_cf col) (\<lambda>cf. Ok (DeleteCf cf key))"

definition db_write :: "'d rocks \<Rightarrow> db_transaction \<Rightarrow> ('d, unit, common_error) comp" where
  "db_write rk ops = bind (lift_result (collect_results (map batch_of_op ops))) (\<lambda>batch.
     map_err_comp DBError (rk_write rk batch))"

subsection \<open>What a write leaves to be read\<close>

fun apply_op :: "db_op \<Rightarrow> (u32 \<Rightarrow> bytes \<Rightarrow> bytes option) \<Rightarrow> (u32 \<Rightarrow> bytes \<Rightarrow> bytes option)" where
  "apply_op (Insert c k v) m = (\<lambda>c' k'. if c' = c \<and> k' = k then Some v else m c' k')"
| "apply_op (Delete c k) m = (\<lambda>c' k'. if c' = c \<and> k' = k then None else m c' k')"

fun apply_batch_op :: "batch_op \<Rightarrow> (string \<Rightarrow> bytes \<Rightarrow> bytes option) \<Rightarrow> (string \<Rightarrow> bytes \<Rightarrow> bytes option)" where
  "apply_batch_op (PutCf c k v) m = (\<lambda>c' k'. if c' = c \<and> k' = k then Some v else m c' k')"
| "apply_batch_op (DeleteCf c k) m = (\<lambda>c' k'. if c' = c \<and> k' = k then None else m c' k')"

text \<open>
  RocksDB's documented behaviour, for a database whose contents are \<open>absd d\<close>: a read of an open column
  returns the value stored there, and \<open>write\<close> applies the whole batch in the order it was filled.
\<close>

definition rocks_ok :: "'d rocks \<Rightarrow> ('d \<Rightarrow> string \<Rightarrow> bytes \<Rightarrow> bytes option) \<Rightarrow> bool" where
  "rocks_ok rk absd \<longleftrightarrow>
     (\<forall>d cf k. rk_get_cf rk d cf k = Ok (absd d cf k)) \<and>
     (\<forall>d ops. fst (rk_write rk ops d) = Ok () \<and>
        absd (snd (rk_write rk ops d)) = fold apply_batch_op ops (absd d))"

text \<open>An in-memory instance.\<close>

type_synonym mem_db = "string \<Rightarrow> bytes \<Rightarrow> bytes option"

definition mem_rocks :: "mem_db rocks" where
  "mem_rocks = \<lparr> rk_get_cf = (\<lambda>d cf k. Ok (d cf k)), rk_write = (\<lambda>ops d. (Ok (), fold apply_batch_op ops d)) \<rparr>"

lemma mem_rocks_ok [simp]: "rocks_ok mem_rocks (\<lambda>d. d)"
  by (simp add: rocks_ok_def mem_rocks_def)

definition valid_col :: "u32 \<Rightarrow> bool" where
  "valid_col col \<longleftrightarrow> unat col < length COLUMN_NAMES"

fun op_col :: "db_op \<Rightarrow> u32" where
  "op_col (Insert c k v) = c"
| "op_col (Delete c k) = c"

text \<open>The contents of the database by column number.\<close>

definition db_abs :: "('d \<Rightarrow> string \<Rightarrow> bytes \<Rightarrow> bytes option) \<Rightarrow> 'd \<Rightarrow> u32 \<Rightarrow> bytes \<Rightarrow> bytes option" where
  "db_abs absd d col key = absd d (COLUMN_NAMES ! unat col) key"

lemma COLUMN_NAMES_distinct: "distinct COLUMN_NAMES"
  by (simp add: COLUMN_NAMES_def)

lemma column_name_eq_iff:
  assumes "valid_col c" "valid_col c'"
  shows "COLUMN_NAMES ! unat c = COLUMN_NAMES ! unat c' \<longleftrightarrow> c = c'"
  using assms COLUMN_NAMES_distinct by (simp add: valid_col_def nth_eq_iff_index_eq word_unat_eq_iff)

lemma get_cf_valid [simp]: "valid_col c \<Longrightarrow> get_cf c = Ok (COLUMN_NAMES ! unat c)"
  by (simp add: get_cf_def valid_col_def)

lemma column_valid [simp]:
  "valid_col GLOBAL" "valid_col BLOCK_HASH" "valid_col HEADER" "valid_col META_STATE"
  "valid_col META_TXS" "valid_col PAYLOAD_STATE" "valid_col PAYLOAD_TXS" "valid_col TX"
  "valid_col RECEIPT" "valid_col EXECUTION" "valid_col PROOF" "valid_col CONSENSUS"
  by (simp_all add: valid_col_def COLUMN_NAMES_def column_defs)

lemma db_get_eq:
  "rocks_ok rk absd \<Longrightarrow> valid_col c \<Longrightarrow> db_get rk c k d = Ok (db_abs absd d c k)"
  by (simp add: db_get_def rocks_ok_def db_abs_def)

definition named_op :: "db_op \<Rightarrow> batch_op" where
  "named_op op = (case op of
     Insert c k v \<Rightarrow> PutCf (COLUMN_NAMES ! unat c) k v
   | Delete c k \<Rightarrow> DeleteCf (COLUMN_NAMES ! unat c) k)"

lemma batch_of_op_valid: "valid_col (op_col op) \<Longrightarrow> batch_of_op op = Ok (named_op op)"
  by (cases op) (simp_all add: named_op_def)

lemma collect_batch_valid:
  "\<forall>op\<in>set ops. valid_col (op_col op) \<Longrightarrow>
     collect_results (map batch_of_op ops) = Ok (map named_op ops)"
  by (induction ops) (simp_all add: batch_of_op_valid)

lemma fold_named_ops:
  assumes "\<forall>op\<in>set ops. valid_col (op_col op)" "valid_col c"
  shows "fold apply_batch_op (map named_op ops) m (COLUMN_NAMES ! unat c) k
    = fold apply_op ops (\<lambda>c k. m (COLUMN_NAMES ! unat c) k) c k"
  using assms
proof (induction ops rule: rev_induct)
  case (snoc op ops)
  then show ?case
    by (cases op) (auto simp: named_op_def column_name_eq_iff)
qed simp

text \<open>
  A database write applies the operations of the transaction in the order they were
  pushed: the last operation on a key decides what is read from it.
\<close>

lemma db_write_eq:
  assumes "rocks_ok rk absd" "\<forall>op\<in>set ops. valid_col (op_col op)"
  shows "\<exists>d'. db_write rk ops d = (Ok (), d')
     \<and> (\<forall>c k. valid_col c \<longrightarrow> db_abs absd d' c k = fold apply_op ops (db_abs absd d) c k)"
proof -
  obtain d' where w: "rk_write rk (map named_op ops) d = (Ok (), d')"
    and a: "absd d' = fold apply_batch_op (map named_op ops) (absd d)"
    using assms(1) by (metis rocks_ok_def prod.collapse)
  have "db_write rk ops d = (Ok (), d')"
    by (simp add: db_write_def collect_batch_valid [OF assms(2)] bind_def map_err_comp_def w)
  moreover have "db_abs absd d' c k = fold apply_op ops (db_abs absd d) c k" if "valid_col c" for c k
    using fold_named_ops [OF assms(2) that, of "absd d" k] by (simp add: db_abs_def [abs_def] a)
  ultimately show ?thesis by blast
qed

lemma fold_apply_op_append:
  "fold apply_op (ops @ ops') m = fold apply_op ops' (fold apply_op ops m)"
  by simp

lemma fold_apply_op_other:
  "\<forall>op\<in>set ops. (\<forall>v. op \<noteq> Insert c k v) \<and> op \<noteq> Delete c k \<Longrightarrow> fold apply_op ops m c k = m c k"
proof (induction ops arbitrary: m)
  case (Cons op ops)
  then show ?case by (cases op) auto
qed simp

end
