(* ===== verification/Statedb.thy ===== *)
theory Statedb
  imports Database
begin

text \<open>
  The state database (\<^verbatim>\<open>core/node/statedb\<close>): a Merkle trie whose nodes live in one column of the
  database, read through a getter and updated by a database transaction.

  The enums \<open>StateDBStmt\<close> and \<open>StateDBGetter\<close> have one variant per hash length, with the same code
  in every arm; here the hash length is a field and the trie library an argument indexed by it.
\<close>

section \<open>Hash lengths and loaded hashers\<close>

datatype hash_length = HashLength20 | HashLength32 | HashLength64

fun hash_length_usize :: "hash_length \<Rightarrow> nat" where
  "hash_length_usize HashLength20 = 20"
| "hash_length_usize HashLength32 = 32"
| "hash_length_usize HashLength64 = 64"

definition hash_length_try_from :: "nat \<Rightarrow> hash_length common_result" where
  "hash_length_try_from i = (if i = 20 then Ok HashLength20 else if i = 32 then Ok HashLength32
     else if i = 64 then Ok HashLength64 else Err (CryptoError (InvalidHashLength i)))"

text \<open>A hash algorithm of \<^verbatim>\<open>core/crypto\<close>: its name, output length and digest function.\<close>

record hash_impl =
  hi_name :: string
  hi_length :: hash_length
  hi_hash :: "bytes \<Rightarrow> bytes"

text \<open>The statics \<open>HASH_IMPL_20\<close>, \<open>HASH_IMPL_32\<close> and \<open>HASH_IMPL_64\<close>: each can be set once.\<close>

type_synonym hasher_slots = "hash_length \<Rightarrow> hash_impl option"

definition read_slot :: "hasher_slots \<Rightarrow> hash_length \<Rightarrow> hash_impl common_result" where
  "read_slot slots l = ok_or_else (StateDBError LoadHasherFail) (slots l)"

definition load_hasher :: "hash_impl \<Rightarrow> (hasher_slots, unit, common_error) comp" where
  "load_hasher hi slots = (case slots (hi_length hi) of
     None \<Rightarrow> (Ok (), slots(hi_length hi := Some hi))
   | Some old \<Rightarrow>
       if hi_name old = hi_name hi then (Ok (), slots)
       else (and_then (read_slot slots HashLength32) (\<lambda>h32.
               Err (StateDBError (LoadHasherConflict (hi_name h32) (hi_name hi)))), slots))"

section \<open>The trie library\<close>

type_synonym reader = "bytes \<Rightarrow> bytes option"

record 't trie_lib =
  tl_open :: "reader \<Rightarrow> bytes \<Rightarrow> (unit, string) result"
  tl_get :: "reader \<Rightarrow> bytes \<Rightarrow> bytes \<Rightarrow> (bytes option, string) result"
  tl_mut_new :: "reader \<Rightarrow> 't"
  tl_mut_from_existing :: "reader \<Rightarrow> bytes \<Rightarrow> ('t, string) result"
  tl_insert :: "bytes \<Rightarrow> bytes \<Rightarrow> 't \<Rightarrow> ('t, string) result"
  tl_remove :: "bytes \<Rightarrow> 't \<Rightarrow> ('t, string) result"
  tl_commit :: "'t \<Rightarrow> bytes \<times> (bytes \<times> bytes \<times> int) list"
  tl_trie_root :: "(bytes \<times> bytes) list \<Rightarrow> bytes"

definition parse_trie_error :: "string \<Rightarrow> common_error" where
  "parse_trie_error e = StateDBError (TrieErr e)"

section \<open>StateDB\<close>

record statedb =
  sd_column :: u32
  sd_hash_length :: hash_length

record statedb_stmt =
  stmt_column :: u32
  stmt_hash_length :: hash_length
  stmt_root :: bytes
  stmt_new :: bool

text \<open>The getter holds the opened trie (its root), or nothing for the default root.\<close>

record statedb_getter =
  gt_column :: u32
  gt_hash_length :: hash_length
  gt_triedb :: "bytes option"

text \<open>\<open>typed_root.copy_from_slice(root)\<close> panics when the lengths differ.\<close>

definition typed_root :: "hash_length \<Rightarrow> bytes \<Rightarrow> bytes common_result" where
  "typed_root l root = (if length root = hash_length_usize l then Ok root
     else Err (Panic ''source slice length does not match destination slice length''))"

definition statedb_new :: "u32 \<Rightarrow> hash_impl \<Rightarrow> (hasher_slots, statedb, common_error) comp" where
  "statedb_new col hi = bind (load_hasher hi) (\<lambda>_. ret \<lparr> sd_column = col, sd_hash_length = hi_length hi \<rparr>)"

definition default_root :: "statedb \<Rightarrow> bytes" where
  "default_root sd = replicate (hash_length_usize (sd_hash_length sd)) 0"

definition proxy_get :: "'d rocks \<Rightarrow> u32 \<Rightarrow> reader \<Rightarrow> 'd \<Rightarrow> reader" where
  "proxy_get rk col buffer d key = (case buffer key of
     Some v \<Rightarrow> Some v
   | None \<Rightarrow> (case db_get rk col key d of Ok x \<Rightarrow> x | Err _ \<Rightarrow> None))"

definition proxy_contains :: "'d rocks \<Rightarrow> u32 \<Rightarrow> reader \<Rightarrow> 'd \<Rightarrow> bytes \<Rightarrow> bool" where
  "proxy_contains rk col buffer d key \<longleftrightarrow> proxy_get rk col buffer d key \<noteq> None"

definition statedb_get :: "'d rocks \<Rightarrow> (hash_length \<Rightarrow> 't trie_lib) \<Rightarrow> statedb \<Rightarrow> bytes \<Rightarrow> bytes \<Rightarrow> 'd
    \<Rightarrow> db_value option common_result" where
  "statedb_get rk tries sd root key d =
     and_then (typed_root (sd_hash_length sd) root) (\<lambda>root.
       let proxy = proxy_get rk (sd_column sd) (\<lambda>_. None) d; t = tries (sd_hash_length sd) in
       and_then (map_err parse_trie_error (tl_open t proxy root)) (\<lambda>_.
         map_err parse_trie_error (tl_get t proxy root key)))"

definition prepare_stmt :: "statedb \<Rightarrow> bytes \<Rightarrow> statedb_stmt common_result" where
  "prepare_stmt sd root =
     and_then (typed_root (sd_hash_length sd) root) (\<lambda>root. Ok \<lparr>
       stmt_column = sd_column sd, stmt_hash_length = sd_hash_length sd, stmt_root = root,
       stmt_new = (default_root sd = root) \<rparr>)"

definition prepare_get :: "'d rocks \<Rightarrow> (hash_length \<Rightarrow> 't trie_lib) \<Rightarrow> statedb_stmt \<Rightarrow> 'd
    \<Rightarrow> statedb_getter common_result" where
  "prepare_get rk tries stmt d =
     (let proxy = proxy_get rk (stmt_column stmt) (\<lambda>_. None) d;
          g = \<lparr> gt_column = stmt_column stmt, gt_hash_length = stmt_hash_length stmt, gt_triedb = None \<rparr> in
      if stmt_new stmt then Ok g
      else and_then (map_err parse_trie_error (tl_open (tries (stmt_hash_length stmt)) proxy (stmt_root stmt)))
        (\<lambda>_. Ok (g\<lparr>gt_triedb := Some (stmt_root stmt)\<rparr>)))"

definition getter_get :: "'d rocks \<Rightarrow> (hash_length \<Rightarrow> 't trie_lib) \<Rightarrow> statedb_getter \<Rightarrow> 'd \<Rightarrow> bytes
    \<Rightarrow> db_value option common_result" where
  "getter_get rk tries g d key = (case gt_triedb g of
     Some root \<Rightarrow> map_err parse_trie_error
       (tl_get (tries (gt_hash_length g)) (proxy_get rk (gt_column g) (\<lambda>_. None) d) root key)
   | None \<Rightarrow> Ok None)"

fun trie_apply :: "'t trie_lib \<Rightarrow> (db_key \<times> db_value option) list \<Rightarrow> 't \<Rightarrow> 't common_result" where
  "trie_apply t [] triedb = Ok triedb"
| "trie_apply t ((k, Some v) # data) triedb =
     and_then (map_err parse_trie_error (tl_insert t k v triedb)) (trie_apply t data)"
| "trie_apply t ((k, None) # data) triedb =
     and_then (map_err parse_trie_error (tl_remove t k triedb)) (trie_apply t data)"

text \<open>Only nodes with a positive reference count are written.\<close>

definition extract_buffer :: "u32 \<Rightarrow> (bytes \<times> bytes \<times> int) list \<Rightarrow> db_transaction" where
  "extract_buffer col buffer =
     fold (\<lambda>(k, v, rc) t. if rc > 0 then put_owned col k v t else t) buffer transaction_new"

definition prepare_update :: "'d rocks \<Rightarrow> (hash_length \<Rightarrow> 't trie_lib) \<Rightarrow> statedb \<Rightarrow> bytes
    \<Rightarrow> (db_key \<times> db_value option) list \<Rightarrow> 'd \<Rightarrow> (bytes \<times> db_transaction) common_result" where
  "prepare_update rk tries sd root data d =
     and_then (typed_root (sd_hash_length sd) root) (\<lambda>root.
       let proxy = proxy_get rk (sd_column sd) (\<lambda>_. None) d; t = tries (sd_hash_length sd) in
       and_then (if default_root sd = root then Ok (tl_mut_new t proxy)
                 else map_err parse_trie_error (tl_mut_from_existing t proxy root)) (\<lambda>triedb.
         and_then (trie_apply t data triedb) (\<lambda>triedb.
           let (root', buffer) = tl_commit t triedb in
           Ok (root', extract_buffer (sd_column sd) buffer))))"

section \<open>TrieRoot\<close>

record trie_root =
  tr_hash_length :: hash_length

definition calc_trie_root :: "(hash_length \<Rightarrow> 't trie_lib) \<Rightarrow> trie_root \<Rightarrow> (bytes \<times> bytes) list \<Rightarrow> bytes" where
  "calc_trie_root tries tr input = tl_trie_root (tries (tr_hash_length tr)) input"

definition calc_ordered_trie_root :: "(hash_length \<Rightarrow> 't trie_lib) \<Rightarrow> u32 codec \<Rightarrow> trie_root
    \<Rightarrow> bytes list \<Rightarrow> bytes" where
  "calc_ordered_trie_root tries cu tr input =
     calc_trie_root tries tr (map (\<lambda>(k, v). (enc cu (of_nat k), v)) (enumerate 0 input))"

section \<open>What is read after an update\<close>

text \<open>
  What the trie library documents. \<open>contents\<close> is the map a mutable trie holds and \<open>base\<close> the reader it
  was opened on: a fresh trie is empty, an existing one holds what reads at its root return, insertions
  and removals change one key, and the root that \<open>commit\<close> returns can be opened and read back
  by any reader that has the committed nodes and still has the old ones. A committed root has the length
  of the hash and is not the all-zero default.
\<close>

definition trie_ok :: "nat \<Rightarrow> 't trie_lib \<Rightarrow> ('t \<Rightarrow> bytes \<Rightarrow> bytes option) \<Rightarrow> ('t \<Rightarrow> reader) \<Rightarrow> bool" where
  "trie_ok n t contents base \<longleftrightarrow>
     (\<forall>r. contents (tl_mut_new t r) = Map.empty \<and> base (tl_mut_new t r) = r) \<and>
     (\<forall>r root x. tl_mut_from_existing t r root = Ok x \<longrightarrow>
        base x = r \<and> (\<forall>k. tl_get t r root k = Ok (contents x k))) \<and>
     (\<forall>k v x y. tl_insert t k v x = Ok y \<longrightarrow>
        contents y = (contents x)(k \<mapsto> v) \<and> base y = base x) \<and>
     (\<forall>k x y. tl_remove t k x = Ok y \<longrightarrow>
        contents y = (contents x)(k := None) \<and> base y = base x) \<and>
     (\<forall>x root buf. tl_commit t x = (root, buf) \<longrightarrow>
        distinct (map fst buf) \<and> length root = n \<and> root \<noteq> replicate n 0 \<and>
        (\<forall>r. (\<forall>k v rc. (k, v, rc) \<in> set buf \<longrightarrow> rc > 0 \<longrightarrow> r k = Some v) \<and>
             (\<forall>k v. base x k = Some v \<longrightarrow> (\<forall>w rc. (k, w, rc) \<in> set buf \<longrightarrow> rc \<le> 0) \<longrightarrow> r k = Some v)
           \<longrightarrow> tl_open t r root = Ok () \<and> (\<forall>k. tl_get t r root k = Ok (contents x k))))"

text \<open>The map the applied data describes.\<close>

definition apply_items :: "(db_key \<times> db_value option) list \<Rightarrow> (bytes \<Rightarrow> bytes option)
    \<Rightarrow> (bytes \<Rightarrow> bytes option)" where
  "apply_items data m = fold (\<lambda>(k, v) m. m(k := v)) data m"

lemma apply_items_simps [simp]:
  "apply_items [] m = m"
  "apply_items ((k, v) # data) m = apply_items data (m(k := v))"
  by (simp_all add: apply_items_def)

lemma apply_items_hmap: "apply_items data m k = (case map_of (rev data) k of Some v \<Rightarrow> v | None \<Rightarrow> m k)"
  by (induction data arbitrary: m) (auto split: option.splits simp: map_add_def)

lemma trie_apply_contents:
  assumes ok: "trie_ok n t contents base" and "trie_apply t data x = Ok y"
  shows "contents y = apply_items data (contents x) \<and> base y = base x"
  using assms(2)
proof (induction data arbitrary: x)
  case (Cons kv data)
  obtain k v where kv: "kv = (k, v)" by fastforce
  obtain z where z: "trie_apply t data z = Ok y"
    "case v of Some w \<Rightarrow> tl_insert t k w x = Ok z | None \<Rightarrow> tl_remove t k x = Ok z"
    using Cons.prems by (cases v; cases "tl_remove t k x"; cases "tl_insert t k (the v) x")
      (auto simp: kv)
  have "contents z = (contents x)(k := v) \<and> base z = base x"
    using z(2) ok by (cases v) (auto simp: trie_ok_def)
  then show ?case
    using Cons.IH [OF z(1)] by (simp add: kv fun_upd_def)
qed simp

definition buffer_inserts :: "(bytes \<times> bytes \<times> int) list \<Rightarrow> (bytes \<times> bytes) list" where
  "buffer_inserts buf = map (\<lambda>(k, v, rc). (k, v)) (filter (\<lambda>(k, v, rc). rc > 0) buf)"

lemma extract_buffer_eq:
  "extract_buffer col buf = map (\<lambda>(k, v). Insert col k v) (buffer_inserts buf)"
proof -
  have "fold (\<lambda>(k, v, rc) t. if rc > 0 then put_owned col k v t else t) buf t
    = t @ map (\<lambda>(k, v). Insert col k v) (buffer_inserts buf)" for t
    by (induction buf arbitrary: t) (auto simp: put_owned_def buffer_inserts_def)
  then show ?thesis
    by (simp add: extract_buffer_def transaction_new_def)
qed

lemma buffer_inserts_simps [simp]:
  "buffer_inserts [] = []"
  "buffer_inserts ((k, v, rc) # buf) = (if rc > 0 then (k, v) # buffer_inserts buf else buffer_inserts buf)"
  by (simp_all add: buffer_inserts_def)

lemma set_buffer_inserts: "(k, v) \<in> set (buffer_inserts buf) \<longleftrightarrow> (\<exists>rc>0. (k, v, rc) \<in> set buf)"
  by (induction buf) (auto simp: buffer_inserts_def)

lemma buffer_inserts_distinct: "distinct (map fst buf) \<Longrightarrow> distinct (map fst (buffer_inserts buf))"
proof (induction buf)
  case (Cons e buf)
  have "k \<notin> fst ` set (buffer_inserts buf)" if "k \<notin> fst ` set buf" for k
    using that by (force simp: set_buffer_inserts)
  then show ?case
    using Cons by (cases e) simp
qed simp

lemma buffer_inserts_map_of:
  assumes "distinct (map fst buf)"
  shows "map_of (buffer_inserts buf) k = Some v \<longleftrightarrow> (\<exists>rc>0. (k, v, rc) \<in> set buf)"
  using buffer_inserts_distinct [OF assms] by (simp add: set_buffer_inserts)

lemma fold_inserts_get:
  assumes "distinct (map fst kvs)"
  shows "fold apply_op (map (\<lambda>(k, v). Insert col k v) kvs) m col k =
    (case map_of kvs k of Some v \<Rightarrow> Some v | None \<Rightarrow> m col k)"
  using assms
proof (induction kvs arbitrary: m)
  case (Cons kv kvs)
  obtain k' v where kv: "kv = (k', v)" by fastforce
  have "map_of kvs k' = None"
    using Cons.prems by (simp add: kv map_of_eq_None_iff)
  then show ?case
    using Cons by (auto simp: kv split: option.splits)
qed simp

text \<open>The reader after the transaction has been written: the inserted nodes over the old ones.\<close>

lemma proxy_get_after_write:
  assumes ok: "rocks_ok rk absd" and col: "valid_col col" and dist: "distinct (map fst buf)"
    and w: "\<And>k. db_abs absd d' col k = fold apply_op (extract_buffer col buf) (db_abs absd d) col k"
  shows "proxy_get rk col (\<lambda>_. None) d' k =
    (case map_of (buffer_inserts buf) k of
       Some v \<Rightarrow> Some v | None \<Rightarrow> proxy_get rk col (\<lambda>_. None) d k)"
  using w [of k]
  by (simp add: proxy_get_def db_get_eq [OF ok col] extract_buffer_eq
      fold_inserts_get [OF buffer_inserts_distinct [OF dist]] split: option.splits)

text \<open>The parts of a successful update: the trie that was opened, the trie after the data, its commit.\<close>

definition opened :: "'d rocks \<Rightarrow> (hash_length \<Rightarrow> 't trie_lib) \<Rightarrow> statedb \<Rightarrow> bytes \<Rightarrow> 'd
    \<Rightarrow> 't common_result" where
  "opened rk tries sd root d =
     (let proxy = proxy_get rk (sd_column sd) (\<lambda>_. None) d; t = tries (sd_hash_length sd) in
      if default_root sd = root then Ok (tl_mut_new t proxy)
      else map_err parse_trie_error (tl_mut_from_existing t proxy root))"

lemma prepare_update_parts:
  assumes "prepare_update rk tries sd root data d = Ok (root', tx)"
  obtains x y buf where "opened rk tries sd root d = Ok x"
    "trie_apply (tries (sd_hash_length sd)) data x = Ok y"
    "tl_commit (tries (sd_hash_length sd)) y = (root', buf)"
    "tx = extract_buffer (sd_column sd) buf"
  using assms
  by (auto simp: prepare_update_def opened_def typed_root_def Let_def and_then_eq_Ok case_prod_unfold
      prod_eq_iff split: if_splits)

lemma opened_contents:
  assumes tr: "trie_ok n (tries (sd_hash_length sd)) contents base"
    and stmt: "prepare_stmt sd root = Ok stmt" and g: "prepare_get rk tries stmt d = Ok g"
    and x: "opened rk tries sd root d = Ok x"
  shows "base x = proxy_get rk (sd_column sd) (\<lambda>_. None) d"
    "getter_get rk tries g d k = Ok (contents x k)"
proof -
  let ?t = "tries (sd_hash_length sd)" and ?p = "proxy_get rk (sd_column sd) (\<lambda>_. None) d"
  have s: "stmt = \<lparr> stmt_column = sd_column sd, stmt_hash_length = sd_hash_length sd, stmt_root = root,
       stmt_new = (default_root sd = root) \<rparr>"
    using stmt by (auto simp: prepare_stmt_def typed_root_def split: if_splits)
  have "base x = ?p \<and> getter_get rk tries g d k = Ok (contents x k)"
  proof (cases "default_root sd = root")
    case True
    then show ?thesis
      using x tr g by (auto simp: s trie_ok_def opened_def prepare_get_def getter_get_def Let_def)
  next
    case False
    then have "tl_mut_from_existing ?t ?p root = Ok x"
      using x by (cases "tl_mut_from_existing ?t ?p root") (auto simp: opened_def Let_def)
    then have "base x = ?p \<and> tl_get ?t ?p root k = Ok (contents x k)"
      using tr by (auto simp: trie_ok_def)
    moreover have "gt_triedb g = Some root" "gt_hash_length g = sd_hash_length sd" "gt_column g = sd_column sd"
      using g False by (auto simp: s prepare_get_def Let_def and_then_eq_Ok)
    ultimately show ?thesis
      by (simp add: getter_get_def)
  qed
  then show "base x = ?p" "getter_get rk tries g d k = Ok (contents x k)" by auto
qed

lemma committed_reads:
  assumes tr: "trie_ok n (tries (sd_hash_length sd)) contents base"
    and n: "n = hash_length_usize (sd_hash_length sd)"
    and rk: "rocks_ok rk absd" and col: "valid_col (sd_column sd)"
    and c: "tl_commit (tries (sd_hash_length sd)) y = (root', buf)"
    and base: "base y = proxy_get rk (sd_column sd) (\<lambda>_. None) d"
    and w: "\<And>k. db_abs absd d' (sd_column sd) k = fold apply_op (extract_buffer (sd_column sd) buf) (db_abs absd d) (sd_column sd) k"
  shows "\<exists>stmt g. prepare_stmt sd root' = Ok stmt \<and> prepare_get rk tries stmt d' = Ok g \<and>
      (\<forall>k. getter_get rk tries g d' k = Ok (contents y k))"
proof -
  let ?t = "tries (sd_hash_length sd)" and ?p = "\<lambda>d. proxy_get rk (sd_column sd) (\<lambda>_. None) d"
  have dist: "distinct (map fst buf)" and root': "length root' = n" "default_root sd \<noteq> root'"
    using tr c unfolding trie_ok_def default_root_def n by metis+
  have pg: "?p d' k = (case map_of (buffer_inserts buf) k of Some v \<Rightarrow> Some v | None \<Rightarrow> ?p d k)" for k
    by (rule proxy_get_after_write [OF rk col dist w])
  have new: "?p d' k = Some v" if "(k, v, rc) \<in> set buf" "rc > 0" for k v rc
    using buffer_inserts_map_of [OF dist, of k v] that by (auto simp: pg)
  have old: "?p d' k = Some v"
    if "base y k = Some v" "\<forall>w rc. (k, w, rc) \<in> set buf \<longrightarrow> rc \<le> 0" for k v
  proof -
    have "map_of (buffer_inserts buf) k = None"
      using buffer_inserts_map_of [OF dist, of k] that(2) by (metis not_less option.exhaust)
    then show ?thesis
      using that(1) by (simp add: pg base)
  qed
  have "tl_open ?t (?p d') root' = Ok () \<and> (\<forall>k. tl_get ?t (?p d') root' k = Ok (contents y k))"
    using tr c new old unfolding trie_ok_def by blast
  then show ?thesis
    using root' by (simp add: n prepare_stmt_def typed_root_def prepare_get_def getter_get_def Let_def)
qed

text \<open>The update read back, for any database that has the operations of the update in its column.\<close>

lemma statedb_update_reads:
  assumes tr: "trie_ok (hash_length_usize (sd_hash_length sd)) (tries (sd_hash_length sd)) contents base"
    and rk: "rocks_ok rk absd" and col: "valid_col (sd_column sd)"
    and stmt: "prepare_stmt sd root = Ok stmt" and g: "prepare_get rk tries stmt d = Ok g"
    and upd: "prepare_update rk tries sd root data d = Ok (root', t)"
    and w: "\<And>k. db_abs absd d' (sd_column sd) k = fold apply_op t (db_abs absd d) (sd_column sd) k"
  shows "\<exists>stmt' g'. prepare_stmt sd root' = Ok stmt' \<and> prepare_get rk tries stmt' d' = Ok g' \<and>
    (\<forall>k. getter_get rk tries g' d' k =
      (case map_of (rev data) k of Some v \<Rightarrow> Ok v | None \<Rightarrow> getter_get rk tries g d k))"
proof -
  obtain x y buf where x: "opened rk tries sd root d = Ok x"
    and y: "trie_apply (tries (sd_hash_length sd)) data x = Ok y"
    and c: "tl_commit (tries (sd_hash_length sd)) y = (root', buf)"
    and t: "t = extract_buffer (sd_column sd) buf"
    by (rule prepare_update_parts [OF upd])
  note old = opened_contents [where tries = tries and sd = sd, OF tr stmt g x]
  have y': "contents y = apply_items data (contents x)" "base y = base x"
    using trie_apply_contents [OF tr y] by auto
  obtain stmt' g' where new: "prepare_stmt sd root' = Ok stmt'" "prepare_get rk tries stmt' d' = Ok g'"
    "\<forall>k. getter_get rk tries g' d' k = Ok (contents y k)"
    using committed_reads [where tries = tries and sd = sd, OF tr refl rk col c y'(2) [unfolded old(1)] w [unfolded t]]
    by auto
  then show ?thesis
    by (auto simp: y'(1) old(2) apply_items_hmap split: option.splits)
qed

text \<open>C34: after the transaction of an update has been written, the new root opens, and a read of a key returns
  the last value the update has for it, or what the old root returned when the update does not mention
  the key: the update neither loses nor invents state.\<close>

theorem statedb_update_get:
  assumes tr: "trie_ok (hash_length_usize (sd_hash_length sd)) (tries (sd_hash_length sd)) contents base"
    and rk: "rocks_ok rk absd" and col: "valid_col (sd_column sd)"
    and stmt: "prepare_stmt sd root = Ok stmt" and g: "prepare_get rk tries stmt d = Ok g"
    and upd: "prepare_update rk tries sd root data d = Ok (root', t)"
    and w: "db_write rk t d = (Ok (), d')"
  shows "\<exists>stmt' g'. prepare_stmt sd root' = Ok stmt' \<and> prepare_get rk tries stmt' d' = Ok g' \<and>
    (\<forall>k. getter_get rk tries g' d' k =
      (case map_of (rev data) k of Some v \<Rightarrow> Ok v | None \<Rightarrow> getter_get rk tries g d k))"
proof -
  obtain x y buf where "t = extract_buffer (sd_column sd) buf" by (rule prepare_update_parts [OF upd])
  then have "\<forall>op\<in>set t. valid_col (op_col op)" using col by (auto simp: extract_buffer_eq)
  then have "db_abs absd d' (sd_column sd) k = fold apply_op t (db_abs absd d) (sd_column sd) k" for k
    using db_write_eq [OF rk, of t d] w col by auto
  then show ?thesis by (rule statedb_update_reads [OF tr rk col stmt g upd])
qed

text \<open>A trie that keeps its whole contents in one node.\<close>

definition node_codec :: "(bytes \<times> bytes) list codec" where
  "node_codec = list_codec (pair_codec bytes_codec bytes_codec)"

definition read_node :: "reader \<Rightarrow> bytes \<Rightarrow> ((bytes \<times> bytes) list, string) result" where
  "read_node r root = ok_or_else ''missing node'' (Option.bind (r root) (dec node_codec))"

definition mem_trie :: "hash_length \<Rightarrow> (reader \<times> (bytes \<times> bytes) list) trie_lib" where
  "mem_trie l = (let root = replicate (hash_length_usize l) 1 in \<lparr>
     tl_open = (\<lambda>r root. and_then (read_node r root) (\<lambda>_. Ok ())),
     tl_get = (\<lambda>r root k. and_then (read_node r root) (\<lambda>m. Ok (map_of m k))),
     tl_mut_new = (\<lambda>r. (r, [])),
     tl_mut_from_existing = (\<lambda>r root. and_then (read_node r root) (\<lambda>m. Ok (r, m))),
     tl_insert = (\<lambda>k v (r, m). Ok (r, AList.update k v m)),
     tl_remove = (\<lambda>k (r, m). Ok (r, AList.delete k m)),
     tl_commit = (\<lambda>(r, m). (root, [(root, enc node_codec m, 1)])),
     tl_trie_root = (\<lambda>_. root) \<rparr>)"

lemma node_codec_ok [simp]: "codec_ok node_codec"
  by (simp add: node_codec_def)

lemma hash_length_usize_pos: "0 < hash_length_usize l"
  by (cases l) auto

lemma mem_trie_ok: "trie_ok (hash_length_usize l) (mem_trie l) (\<lambda>t. map_of (snd t)) fst"
  using hash_length_usize_pos [of l]
  by (auto simp: trie_ok_def mem_trie_def Let_def and_then_eq_Ok read_node_def update_conv' delete_conv'
      fun_eq_iff)

definition witness_statedb :: statedb where
  "witness_statedb = \<lparr> sd_column = META_STATE, sd_hash_length = HashLength20 \<rparr>"

theorem statedb_update_get_witness:
  "\<exists>root' t d' stmt' g'. prepare_update mem_rocks mem_trie witness_statedb (default_root witness_statedb)
      [([1], Some [2]), ([3], Some [4]), ([3], None)] (\<lambda>_ _. None) = Ok (root', t) \<and>
    db_write mem_rocks t (\<lambda>_ _. None) = (Ok (), d') \<and>
    prepare_stmt witness_statedb root' = Ok stmt' \<and> prepare_get mem_rocks mem_trie stmt' d' = Ok g' \<and>
    getter_get mem_rocks mem_trie g' d' [1] = Ok (Some [2]) \<and>
    getter_get mem_rocks mem_trie g' d' [3] = Ok None \<and> getter_get mem_rocks mem_trie g' d' [5] = Ok None"
proof -
  let ?sd = witness_statedb and ?d = "\<lambda>_ _. None" and ?data = "[([1], Some [2]), ([3], Some [4]), ([3], None)]"
  let ?root = "default_root ?sd" and ?g = "\<lparr>gt_column = META_STATE, gt_hash_length = HashLength20, gt_triedb = None\<rparr>"
  have tr: "trie_ok (hash_length_usize (sd_hash_length ?sd)) (mem_trie (sd_hash_length ?sd))
      (\<lambda>t. map_of (snd t)) fst"
    by (rule mem_trie_ok)
  have col: "valid_col (sd_column ?sd)"
    by (simp add: witness_statedb_def)
  obtain stmt where stmt: "prepare_stmt ?sd ?root = Ok stmt" and g: "prepare_get mem_rocks mem_trie stmt ?d = Ok ?g"
    by (simp add: prepare_stmt_def typed_root_def default_root_def prepare_get_def witness_statedb_def)
  obtain root' t where upd: "prepare_update mem_rocks mem_trie ?sd ?root ?data ?d = Ok (root', t)"
    by (simp add: prepare_update_def typed_root_def default_root_def mem_trie_def Let_def witness_statedb_def)
  have "\<forall>op\<in>set t. valid_col (op_col op)"
    using upd by (elim prepare_update_parts) (auto simp: extract_buffer_eq witness_statedb_def)
  then obtain d' where w: "db_write mem_rocks t ?d = (Ok (), d')"
    using db_write_eq [OF mem_rocks_ok] by blast
  show ?thesis
    using statedb_update_get [OF tr mem_rocks_ok col stmt g upd w] upd w
    by (auto simp: getter_get_def)
qed

text \<open>A hash algorithm is loaded at most once for each output length: loading one under the
  name that is already there changes nothing, loading another one is refused and changes nothing, and in every
  case the slot ends up filled.\<close>

theorem load_hasher_once:
  "(case slots (hi_length hi) of
      None \<Rightarrow> load_hasher hi slots = (Ok (), slots(hi_length hi \<mapsto> hi))
    | Some old \<Rightarrow> snd (load_hasher hi slots) = slots \<and>
        is_ok (fst (load_hasher hi slots)) = (hi_name old = hi_name hi))"
  by (auto simp: load_hasher_def read_slot_def ok_or_else_def split: option.splits)

text \<open>The error reported for a conflict names the hasher in the 32 byte slot, whatever the length: for another length
  it names the wrong algorithm, or is \<open>LoadHasherFail\<close> when no 32 byte hasher is loaded.\<close>

lemma load_hasher_conflict_wrong_slot:
  assumes "slots (hi_length hi) = Some old" "hi_name old \<noteq> hi_name hi" "slots HashLength32 = None"
  shows "fst (load_hasher hi slots) = Err (StateDBError LoadHasherFail)"
  using assms by (simp add: load_hasher_def read_slot_def)

end
