(* ===== verification/Exec_Context.thy ===== *)
theory Exec_Context
  imports Exec_Primitives Statedb
begin

text \<open>
  The context of the executor (\<open>Context\<close> and \<open>ContextEssence\<close> of \<^verbatim>\<open>core/node/executor/src/lib.rs\<close>):
  for the meta and for the payload state a transaction buffer over a block buffer over the state
  database, the events of the running transaction, and the transactions and receipts executed so far.

  The \<open>Rc\<close> and \<open>RefCell\<close> of the source are the state the operations pass on. The closure
  \<open>cs_getter\<close> is \<open>StateDBGetter::get\<close> on the opened state database. The theory ends with the proof that
  these operations satisfy \<open>context_laws\<close>, and with what draining and applying a
  transaction buffer does to the view.
\<close>

section \<open>State\<close>

type_synonym buffer = "(db_key, db_value option) hmap"

record context_state =
  cs_getter :: "db_key \<Rightarrow> db_value option common_result"
  cs_tx_buffer :: buffer
  cs_buffer :: buffer

record context_essence =
  ess_env :: context_env
  ess_trie_root :: trie_root
  ess_meta_statedb :: statedb
  ess_meta_state_root :: hash
  ess_meta_stmt :: statedb_stmt
  ess_payload_statedb :: statedb
  ess_payload_state_root :: hash
  ess_payload_stmt :: statedb_stmt

record exec_context =
  xc_env :: context_env
  xc_call_env :: call_env
  xc_trie_root :: trie_root
  xc_meta_statedb :: statedb
  xc_meta_state_root :: hash
  xc_meta_state :: context_state
  xc_meta_txs :: "full_transaction list"
  xc_meta_receipts :: "full_receipt list"
  xc_payload_statedb :: statedb
  xc_payload_state_root :: hash
  xc_payload_state :: context_state
  xc_payload_txs :: "full_transaction list"
  xc_payload_receipts :: "full_receipt list"
  xc_events :: "event list"
  xc_payload_phase :: bool

definition context_essence_new :: "context_env \<Rightarrow> trie_root \<Rightarrow> statedb \<Rightarrow> hash \<Rightarrow> statedb \<Rightarrow> hash
    \<Rightarrow> context_essence common_result" where
  "context_essence_new env trie_root meta_statedb meta_state_root payload_statedb payload_state_root =
     and_then (prepare_stmt meta_statedb (hash_bytes meta_state_root)) (\<lambda>meta_stmt.
     and_then (prepare_stmt payload_statedb (hash_bytes payload_state_root)) (\<lambda>payload_stmt.
     Ok \<lparr> ess_env = env, ess_trie_root = trie_root,
          ess_meta_statedb = meta_statedb, ess_meta_state_root = meta_state_root, ess_meta_stmt = meta_stmt,
          ess_payload_statedb = payload_statedb, ess_payload_state_root = payload_state_root,
          ess_payload_stmt = payload_stmt \<rparr>))"

definition context_state_new :: "'d rocks \<Rightarrow> (hash_length \<Rightarrow> 't trie_lib) \<Rightarrow> 'd \<Rightarrow> statedb_stmt
    \<Rightarrow> context_state common_result" where
  "context_state_new rk tries d stmt = and_then (prepare_get rk tries stmt d) (\<lambda>g.
     Ok \<lparr> cs_getter = getter_get rk tries g d, cs_tx_buffer = [], cs_buffer = [] \<rparr>)"

definition context_new :: "'d rocks \<Rightarrow> (hash_length \<Rightarrow> 't trie_lib) \<Rightarrow> 'd \<Rightarrow> context_essence
    \<Rightarrow> exec_context common_result" where
  "context_new rk tries d e =
     and_then (context_state_new rk tries d (ess_meta_stmt e)) (\<lambda>meta_state.
     and_then (context_state_new rk tries d (ess_payload_stmt e)) (\<lambda>payload_state.
     Ok \<lparr> xc_env = ess_env e, xc_call_env = call_env_default, xc_trie_root = ess_trie_root e,
          xc_meta_statedb = ess_meta_statedb e, xc_meta_state_root = ess_meta_state_root e,
          xc_meta_state = meta_state, xc_meta_txs = [], xc_meta_receipts = [],
          xc_payload_statedb = ess_payload_statedb e, xc_payload_state_root = ess_payload_state_root e,
          xc_payload_state = payload_state, xc_payload_txs = [], xc_payload_receipts = [],
          xc_events = [], xc_payload_phase = False \<rparr>))"

section \<open>The operations of the trait Context\<close>

definition state_get :: "context_state \<Rightarrow> db_key \<Rightarrow> db_value option module_result" where
  "state_get st key = (case hm_get (cs_tx_buffer st) key of
     Some v \<Rightarrow> Ok v
   | None \<Rightarrow> (case hm_get (cs_buffer st) key of
       Some v \<Rightarrow> Ok v
     | None \<Rightarrow> map_err ESystem (cs_getter st key)))"

definition xc_meta_get :: "db_key \<Rightarrow> (exec_context, db_value option) mcomp" where
  "xc_meta_get key s = (state_get (xc_meta_state s) key, s)"

definition xc_meta_set :: "db_key \<Rightarrow> db_value option \<Rightarrow> (exec_context, unit) mcomp" where
  "xc_meta_set key v s = (Ok (), s\<lparr>xc_meta_state :=
     (xc_meta_state s)\<lparr>cs_tx_buffer := hm_insert key v (cs_tx_buffer (xc_meta_state s))\<rparr>\<rparr>)"

definition xc_meta_drain_tx_buffer :: "(exec_context, items) mcomp" where
  "xc_meta_drain_tx_buffer s = (Ok (cs_tx_buffer (xc_meta_state s)),
     s\<lparr>xc_meta_state := (xc_meta_state s)\<lparr>cs_tx_buffer := []\<rparr>\<rparr>)"

definition xc_meta_apply :: "items \<Rightarrow> (exec_context, unit) mcomp" where
  "xc_meta_apply its s = (Ok (), s\<lparr>xc_meta_state :=
     (xc_meta_state s)\<lparr>cs_buffer := hm_extend its (cs_buffer (xc_meta_state s))\<rparr>\<rparr>)"

definition xc_payload_get :: "db_key \<Rightarrow> (exec_context, db_value option) mcomp" where
  "xc_payload_get key s = (state_get (xc_payload_state s) key, s)"

definition xc_payload_set :: "db_key \<Rightarrow> db_value option \<Rightarrow> (exec_context, unit) mcomp" where
  "xc_payload_set key v s = (Ok (), s\<lparr>xc_payload_state :=
     (xc_payload_state s)\<lparr>cs_tx_buffer := hm_insert key v (cs_tx_buffer (xc_payload_state s))\<rparr>\<rparr>)"

definition xc_payload_drain_tx_buffer :: "(exec_context, items) mcomp" where
  "xc_payload_drain_tx_buffer s = (Ok (cs_tx_buffer (xc_payload_state s)),
     s\<lparr>xc_payload_state := (xc_payload_state s)\<lparr>cs_tx_buffer := []\<rparr>\<rparr>)"

definition xc_payload_apply :: "items \<Rightarrow> (exec_context, unit) mcomp" where
  "xc_payload_apply its s = (Ok (), s\<lparr>xc_payload_state :=
     (xc_payload_state s)\<lparr>cs_buffer := hm_extend its (cs_buffer (xc_payload_state s))\<rparr>\<rparr>)"

definition xc_emit_event :: "event \<Rightarrow> (exec_context, unit) mcomp" where
  "xc_emit_event e s = (Ok (), s\<lparr>xc_events := xc_events s @ [e]\<rparr>)"

definition xc_drain_tx_events :: "(exec_context, event list) mcomp" where
  "xc_drain_tx_events s = (Ok (xc_events s), s\<lparr>xc_events := []\<rparr>)"

definition xc_apply_events :: "event list \<Rightarrow> (exec_context, unit) mcomp" where
  "xc_apply_events its = fail (ESystem (Panic ''No need to apply events''))"

definition exec_ops :: "exec_context context_ops" where
  "exec_ops = \<lparr>
     cx_env = xc_env, cx_call_env = xc_call_env,
     cx_meta_get = xc_meta_get, cx_meta_set = xc_meta_set,
     cx_meta_drain_tx_buffer = xc_meta_drain_tx_buffer, cx_meta_apply = xc_meta_apply,
     cx_payload_get = xc_payload_get, cx_payload_set = xc_payload_set,
     cx_payload_drain_tx_buffer = xc_payload_drain_tx_buffer, cx_payload_apply = xc_payload_apply,
     cx_emit_event = xc_emit_event, cx_drain_tx_events = xc_drain_tx_events,
     cx_apply_events = xc_apply_events \<rparr>"

section \<open>Roots, transactions and receipts\<close>

record exec_codecs =
  ec_transaction_for_hash :: "transaction_for_hash codec"
  ec_receipt :: "receipt codec"
  ec_u32 :: "u32 codec"

definition get_meta_update :: "'d rocks \<Rightarrow> (hash_length \<Rightarrow> 't trie_lib) \<Rightarrow> 'd \<Rightarrow> exec_context
    \<Rightarrow> (hash \<times> db_transaction) common_result" where
  "get_meta_update rk tries d s =
     and_then (prepare_update rk tries (xc_meta_statedb s) (hash_bytes (xc_meta_state_root s))
       (cs_buffer (xc_meta_state s)) d) (\<lambda>(root, tx). Ok (Hash root, tx))"

definition get_txs_root :: "(hash_length \<Rightarrow> 't trie_lib) \<Rightarrow> exec_codecs \<Rightarrow> exec_context
    \<Rightarrow> full_transaction list \<Rightarrow> hash common_result" where
  "get_txs_root tries cs s txs =
     and_then (collect_results (map (\<lambda>x. encode (ec_transaction_for_hash cs)
       (transaction_for_hash_new (ftx_tx x))) txs)) (\<lambda>input.
     Ok (Hash (calc_ordered_trie_root tries (ec_u32 cs) (xc_trie_root s) input)))"

definition receipts_root :: "(hash_length \<Rightarrow> 't trie_lib) \<Rightarrow> exec_codecs \<Rightarrow> exec_context
    \<Rightarrow> full_receipt list \<Rightarrow> hash common_result" where
  "receipts_root tries cs s receipts =
     and_then (collect_results (map (\<lambda>x. encode (ec_receipt cs) (frc_receipt x)) receipts)) (\<lambda>input.
     Ok (Hash (calc_ordered_trie_root tries (ec_u32 cs) (xc_trie_root s) input)))"

definition get_meta_txs :: "(hash_length \<Rightarrow> 't trie_lib) \<Rightarrow> exec_codecs \<Rightarrow> exec_context
    \<Rightarrow> (hash \<times> full_transaction list) common_result" where
  "get_meta_txs tries cs s =
     and_then (get_txs_root tries cs s (xc_meta_txs s)) (\<lambda>root. Ok (root, xc_meta_txs s))"

definition get_meta_receipts :: "(hash_length \<Rightarrow> 't trie_lib) \<Rightarrow> exec_codecs \<Rightarrow> exec_context
    \<Rightarrow> (hash \<times> full_receipt list) common_result" where
  "get_meta_receipts tries cs s =
     and_then (receipts_root tries cs s (xc_meta_receipts s)) (\<lambda>root. Ok (root, xc_meta_receipts s))"

definition get_payload_update :: "'d rocks \<Rightarrow> (hash_length \<Rightarrow> 't trie_lib) \<Rightarrow> 'd \<Rightarrow> exec_context
    \<Rightarrow> (hash \<times> db_transaction) common_result" where
  "get_payload_update rk tries d s =
     and_then (prepare_update rk tries (xc_payload_statedb s) (hash_bytes (xc_payload_state_root s))
       (cs_buffer (xc_payload_state s)) d) (\<lambda>(root, tx). Ok (Hash root, tx))"

definition get_payload_txs :: "(hash_length \<Rightarrow> 't trie_lib) \<Rightarrow> exec_codecs \<Rightarrow> exec_context
    \<Rightarrow> (hash \<times> full_transaction list) common_result" where
  "get_payload_txs tries cs s =
     and_then (get_txs_root tries cs s (xc_payload_txs s)) (\<lambda>root. Ok (root, xc_payload_txs s))"

definition get_payload_receipts :: "(hash_length \<Rightarrow> 't trie_lib) \<Rightarrow> exec_codecs \<Rightarrow> exec_context
    \<Rightarrow> (hash \<times> full_receipt list) common_result" where
  "get_payload_receipts tries cs s =
     and_then (receipts_root tries cs s (xc_payload_receipts s)) (\<lambda>root. Ok (root, xc_payload_receipts s))"

section \<open>The contract holds\<close>

lemma exec_ops_simps [simp]:
  "cx_env exec_ops = xc_env" "cx_call_env exec_ops = xc_call_env"
  "cx_meta_get exec_ops = xc_meta_get" "cx_meta_set exec_ops = xc_meta_set"
  "cx_meta_drain_tx_buffer exec_ops = xc_meta_drain_tx_buffer" "cx_meta_apply exec_ops = xc_meta_apply"
  "cx_payload_get exec_ops = xc_payload_get" "cx_payload_set exec_ops = xc_payload_set"
  "cx_payload_drain_tx_buffer exec_ops = xc_payload_drain_tx_buffer"
  "cx_payload_apply exec_ops = xc_payload_apply"
  "cx_emit_event exec_ops = xc_emit_event" "cx_drain_tx_events exec_ops = xc_drain_tx_events"
  "cx_apply_events exec_ops = xc_apply_events"
  by (simp_all add: exec_ops_def)

lemmas xc_op_defs = xc_meta_get_def xc_meta_set_def xc_meta_drain_tx_buffer_def xc_meta_apply_def
  xc_payload_get_def xc_payload_set_def xc_payload_drain_tx_buffer_def xc_payload_apply_def
  xc_emit_event_def xc_drain_tx_events_def

definition state_wf :: "context_state \<Rightarrow> bool" where
  "state_wf st \<longleftrightarrow> hm_wf (cs_tx_buffer st) \<and> hm_wf (cs_buffer st)"

definition exec_inv :: "exec_context \<Rightarrow> bool" where
  "exec_inv s \<longleftrightarrow> state_wf (xc_meta_state s) \<and> state_wf (xc_payload_state s)"

lemma state_get_set [simp]:
  "state_get (st\<lparr>cs_tx_buffer := hm_insert k v (cs_tx_buffer st)\<rparr>) k' = (if k' = k then Ok v else state_get st k')"
  by (auto simp: state_get_def split: option.splits)

text \<open>The executor's context keeps the contract of a context.\<close>

interpretation ex: context_laws exec_ops exec_inv xc_events
  by unfold_locales
    (auto simp: cx_get_def cx_set_def cx_view_def cx_upd_def cx_ev_def xc_op_defs
      exec_inv_def state_wf_def)

lemma exec_view: "cx_view exec_ops s m k = state_get (if m then xc_meta_state s else xc_payload_state s) k"
  by (simp add: cx_view_def cx_get_def xc_op_defs)

section \<open>Committing and dropping a transaction\<close>

text \<open>The view below the transaction buffer: what the transactions applied so far left.\<close>

definition committed_get :: "context_state \<Rightarrow> db_key \<Rightarrow> db_value option module_result" where
  "committed_get st key = (case hm_get (cs_buffer st) key of
     Some v \<Rightarrow> Ok v | None \<Rightarrow> map_err ESystem (cs_getter st key))"

definition committed_view :: "exec_context \<Rightarrow> bool \<Rightarrow> db_key \<Rightarrow> db_value option module_result" where
  "committed_view s m k = committed_get (if m then xc_meta_state s else xc_payload_state s) k"

definition commit_tx :: "exec_context \<Rightarrow> exec_context" where
  "commit_tx s = (let m = xc_meta_state s; p = xc_payload_state s in s\<lparr>
     xc_meta_state := m\<lparr>cs_tx_buffer := [], cs_buffer := hm_extend (cs_tx_buffer m) (cs_buffer m)\<rparr>,
     xc_payload_state := p\<lparr>cs_tx_buffer := [], cs_buffer := hm_extend (cs_tx_buffer p) (cs_buffer p)\<rparr>,
     xc_events := [] \<rparr>)"

definition rollback_tx :: "exec_context \<Rightarrow> exec_context" where
  "rollback_tx s = s\<lparr>
     xc_meta_state := (xc_meta_state s)\<lparr>cs_tx_buffer := []\<rparr>,
     xc_payload_state := (xc_payload_state s)\<lparr>cs_tx_buffer := []\<rparr>,
     xc_events := [] \<rparr>"

lemma commit_tx_view:
  assumes "exec_inv s"
  shows "committed_view (commit_tx s) m k = cx_view exec_ops s m k"
    "cx_view exec_ops (commit_tx s) m k = cx_view exec_ops s m k"
  using assms
  by (auto simp: committed_view_def committed_get_def commit_tx_def exec_view state_get_def exec_inv_def
      state_wf_def Let_def hm_get_extend_wf split: option.splits)

lemma rollback_tx_view:
  "committed_view (rollback_tx s) m k = committed_view s m k"
  "cx_view exec_ops (rollback_tx s) m k = committed_view s m k"
  by (auto simp: committed_view_def committed_get_def rollback_tx_def exec_view state_get_def
      split: option.splits)

lemma commit_tx_inv [simp]: "exec_inv s \<Longrightarrow> exec_inv (commit_tx s)"
  by (simp add: exec_inv_def commit_tx_def state_wf_def Let_def)

lemma rollback_tx_inv [simp]: "exec_inv s \<Longrightarrow> exec_inv (rollback_tx s)"
  by (simp add: exec_inv_def rollback_tx_def state_wf_def)

lemma context_new_inv: "context_new rk tries d e = Ok s \<Longrightarrow> exec_inv s"
  by (auto simp: context_new_def context_state_new_def and_then_eq_Ok exec_inv_def state_wf_def)

section \<open>A concrete context\<close>

text \<open>A context over an empty state, at a given block number.\<close>

definition empty_state :: context_state where
  "empty_state = \<lparr> cs_getter = (\<lambda>_. Ok None), cs_tx_buffer = [], cs_buffer = [] \<rparr>"

definition empty_context :: "block_number \<Rightarrow> exec_context" where
  "empty_context n = \<lparr>
     xc_env = \<lparr> env_number = n, env_timestamp = 0 \<rparr>, xc_call_env = call_env_default,
     xc_trie_root = \<lparr> tr_hash_length = HashLength32 \<rparr>,
     xc_meta_statedb = \<lparr> sd_column = META_STATE, sd_hash_length = HashLength32 \<rparr>,
     xc_meta_state_root = Hash (replicate 32 0), xc_meta_state = empty_state,
     xc_meta_txs = [], xc_meta_receipts = [],
     xc_payload_statedb = \<lparr> sd_column = PAYLOAD_STATE, sd_hash_length = HashLength32 \<rparr>,
     xc_payload_state_root = Hash (replicate 32 0), xc_payload_state = empty_state,
     xc_payload_txs = [], xc_payload_receipts = [], xc_events = [], xc_payload_phase = False \<rparr>"

lemma empty_context_inv [simp]: "exec_inv (empty_context n)"
  by (simp add: exec_inv_def empty_context_def empty_state_def state_wf_def)

lemma empty_context_view [simp]: "cx_view exec_ops (empty_context n) m k = Ok None"
  by (simp add: exec_view empty_context_def empty_state_def state_get_def)

lemma empty_context_storage [simp]:
  "sv_view exec_ops sv (empty_context n) = Ok None" "sm_view exec_ops sm k (empty_context n) = Ok None"
  by (simp_all add: sv_view_def sm_view_def)

lemma empty_context_env [simp]: "xc_env (empty_context n) = \<lparr> env_number = n, env_timestamp = 0 \<rparr>"
  by (simp add: empty_context_def)

end
