(* ===== verification/Executor.thy ===== *)
theory Executor
  imports Exec_Context
begin

text \<open>
  The executor (\<^verbatim>\<open>core/node/executor/src/lib.rs\<close>) and the dispatcher its macro generates: building,
  validating and executing transactions over a list of modules.

  The signature, hash and address algorithms of \<^verbatim>\<open>core/crypto\<close> end in third-party code; they are the records
  \<open>dsa_impl\<close>, \<open>hash_impl\<close> and \<open>address_impl\<close>, which the executor holds.
\<close>

section \<open>Cryptography and Util\<close>

datatype address_length = AddressLength20 | AddressLength32

fun address_length_usize :: "address_length \<Rightarrow> nat" where
  "address_length_usize AddressLength20 = 20"
| "address_length_usize AddressLength32 = 32"

definition address_length_try_from :: "nat \<Rightarrow> address_length common_result" where
  "address_length_try_from i = (if i = 20 then Ok AddressLength20 else if i = 32 then Ok AddressLength32
     else Err (CryptoError (InvalidAddressLength i)))"

record address_impl =
  ai_length :: address_length
  ai_address :: "bytes \<Rightarrow> bytes"

text \<open>\<open>'kp\<close> is the type of key pairs and \<open>'ver\<close> the type of verifiers of the algorithm.\<close>

record ('kp, 'ver) dsa_impl =
  dsa_key_pair_from_secret_key :: "bytes \<Rightarrow> 'kp common_result"
  dsa_public_key :: "'kp \<Rightarrow> bytes"
  dsa_sign :: "'kp \<Rightarrow> bytes \<Rightarrow> bytes"
  dsa_verifier_from_public_key :: "bytes \<Rightarrow> 'ver common_result"
  dsa_verify :: "'ver \<Rightarrow> bytes \<Rightarrow> bytes \<Rightarrow> unit common_result"

text \<open>What a signature algorithm promises: the public key of a key pair verifies what it signs.\<close>

definition dsa_ok :: "('kp, 'ver) dsa_impl \<Rightarrow> bool" where
  "dsa_ok d \<longleftrightarrow> (\<forall>sk kp. dsa_key_pair_from_secret_key d sk = Ok kp \<longrightarrow>
     (\<exists>v. dsa_verifier_from_public_key d (dsa_public_key d kp) = Ok v \<and>
       (\<forall>m. dsa_verify d v m (dsa_sign d kp m) = Ok ())))"

record ('kp, 'ver) executor =
  xe_hash :: hash_impl
  xe_dsa :: "('kp, 'ver) dsa_impl"
  xe_address :: address_impl
  xe_hex :: "bytes \<Rightarrow> string"
  xe_genesis_hash :: hash

definition util_hash :: "('kp, 'ver) executor \<Rightarrow> bytes \<Rightarrow> hash module_result" where
  "util_hash xe data = Ok (Hash (hi_hash (xe_hash xe) data))"

definition util_address :: "('kp, 'ver) executor \<Rightarrow> bytes \<Rightarrow> address module_result" where
  "util_address xe data = Ok (Address (ai_address (xe_address xe) data))"

definition util_validate_address :: "('kp, 'ver) executor \<Rightarrow> address \<Rightarrow> unit module_result" where
  "util_validate_address xe a =
     (if length (address_bytes a) \<noteq> address_length_usize (ai_length (xe_address xe))
      then Err (EApplication (InvalidAddress (xe_hex xe (address_bytes a)))) else Ok ())"

definition util :: "('kp, 'ver) executor \<Rightarrow> util_ops" where
  "util xe = \<lparr> ut_hash = util_hash xe, ut_address = util_address xe,
     ut_validate_address = util_validate_address xe \<rparr>"

section \<open>The dispatcher\<close>

record 'c dispatch_module =
  dm_name :: string
  dm_meta :: bool
  dm_methods :: "'c module_method list"

type_synonym 'c dispatcher = "'c dispatch_module list"

fun find_module :: "string \<Rightarrow> 'c dispatcher \<Rightarrow> 'c dispatch_module common_result" where
  "find_module name [] = Err (ExecutorError (InvalidTxModule name))"
| "find_module name (m # ms) = (if dm_name m = name then Ok m else find_module name ms)"

definition dispatch_is_meta :: "'c dispatcher \<Rightarrow> string \<Rightarrow> bool common_result" where
  "dispatch_is_meta ds name = and_then (find_module name ds) (\<lambda>m. Ok (dm_meta m))"

definition dispatch_is_write_call :: "'c dispatcher \<Rightarrow> string \<Rightarrow> call \<Rightarrow> bool common_result" where
  "dispatch_is_write_call ds name call = and_then (find_module name ds) (\<lambda>m.
     map_err module_error_into (module_is_write_call (dm_methods m) call))"

definition dispatch_check_call :: "'c dispatcher \<Rightarrow> string \<Rightarrow> call \<Rightarrow> unit common_result" where
  "dispatch_check_call ds name call = and_then (find_module name ds) (\<lambda>m.
     map_err module_error_into (module_check_call (dm_methods m) call))"

text \<open>System errors stop the caller, application errors become a call result.\<close>

definition dispatch_result :: "('c, 'a) mcomp \<Rightarrow> ('c, 'a call_result, common_error) comp" where
  "dispatch_result m = (\<lambda>s. case m s of
     (Ok r, s') \<Rightarrow> (Ok (Ok r), s')
   | (Err (ESystem e), s') \<Rightarrow> (Err e, s')
   | (Err (EApplication e), s') \<Rightarrow> (Ok (Err (application_error_to_string e)), s'))"

definition dispatch_validate_call :: "'c dispatcher \<Rightarrow> string \<Rightarrow> address option \<Rightarrow> call
    \<Rightarrow> ('c, unit call_result, common_error) comp" where
  "dispatch_validate_call ds name sender call = bind (lift_result (find_module name ds)) (\<lambda>m.
     dispatch_result (module_validate_call (dm_methods m) sender call))"

definition dispatch_execute_call :: "'c dispatcher \<Rightarrow> string \<Rightarrow> address option \<Rightarrow> call
    \<Rightarrow> ('c, opaque_call_result, common_error) comp" where
  "dispatch_execute_call ds name sender call = bind (lift_result (find_module name ds)) (\<lambda>m.
     dispatch_result (module_execute_call (dm_methods m) sender call))"

section \<open>The executor\<close>

definition default_hash :: "('kp, 'ver) executor \<Rightarrow> hash" where
  "default_hash xe = Hash (replicate (hash_length_usize (hi_length (xe_hash xe))) 0)"

definition executor_new :: "hash_impl \<Rightarrow> ('kp, 'ver) dsa_impl \<Rightarrow> address_impl \<Rightarrow> (bytes \<Rightarrow> string)
    \<Rightarrow> ('kp, 'ver) executor" where
  "executor_new hash dsa address hex = \<lparr> xe_hash = hash, xe_dsa = dsa, xe_address = address, xe_hex = hex,
     xe_genesis_hash = Hash (replicate (hash_length_usize (hi_length hash)) 0) \<rparr>"

definition set_genesis_hash :: "hash \<Rightarrow> ('kp, 'ver) executor \<Rightarrow> ('kp, 'ver) executor" where
  "set_genesis_hash h xe = xe\<lparr>xe_genesis_hash := h\<rparr>"

definition hash_slice :: "('kp, 'ver) executor \<Rightarrow> bytes \<Rightarrow> hash" where
  "hash_slice xe data = Hash (hi_hash (xe_hash xe) data)"

definition exec_hash :: "('kp, 'ver) executor \<Rightarrow> 'x codec \<Rightarrow> 'x \<Rightarrow> hash common_result" where
  "exec_hash xe c data = and_then (encode c data) (\<lambda>encoded. Ok (hash_slice xe encoded))"

definition hash_transaction :: "('kp, 'ver) executor \<Rightarrow> exec_codecs \<Rightarrow> transaction \<Rightarrow> hash common_result" where
  "hash_transaction xe cs tx = exec_hash xe (ec_transaction_for_hash cs) (transaction_for_hash_new tx)"

definition build_call :: "'p codec \<Rightarrow> string \<Rightarrow> string \<Rightarrow> 'p \<Rightarrow> call common_result" where
  "build_call cp module_name method_name params =
     Ok \<lparr> call_module = module_name, call_method = method_name, call_params = Params (enc cp params) \<rparr>"

text \<open>The signed message: nonce, validity, call and genesis hash.\<close>

type_synonym message = "nonce \<times> block_number \<times> call \<times> hash"

definition build_tx :: "('kp, 'ver) executor \<Rightarrow> message codec \<Rightarrow> 'c dispatcher
    \<Rightarrow> (secret_key \<times> nonce \<times> block_number) option \<Rightarrow> call \<Rightarrow> transaction common_result" where
  "build_tx xe cm ds witness call =
     and_then (dispatch_check_call ds (call_module call) call) (\<lambda>_.
     and_then (case witness of
         Some (secret_key, nonce, until) \<Rightarrow>
           and_then (encode cm (nonce, until, call, xe_genesis_hash xe)) (\<lambda>message.
           and_then (dsa_key_pair_from_secret_key (xe_dsa xe) (secret_key_bytes secret_key)) (\<lambda>key_pair.
           Ok (Some \<lparr> wit_public_key = PublicKey (dsa_public_key (xe_dsa xe) key_pair),
                      wit_signature = Signature (dsa_sign (xe_dsa xe) key_pair message),
                      wit_nonce = nonce, wit_until = until \<rparr>)))
       | None \<Rightarrow> Ok None) (\<lambda>witness.
     Ok \<lparr> tx_witness = witness, tx_call = call \<rparr>))"

definition tx_sender :: "('kp, 'ver) executor \<Rightarrow> transaction \<Rightarrow> address option" where
  "tx_sender xe tx = map_option (\<lambda>w. Address (ai_address (xe_address xe) (public_key_bytes (wit_public_key w))))
     (tx_witness tx)"

definition verify_witness :: "('kp, 'ver) executor \<Rightarrow> message codec \<Rightarrow> transaction \<Rightarrow> bool \<Rightarrow> unit common_result" where
  "verify_witness xe cm tx witness_required = (case tx_witness tx of
     Some w \<Rightarrow>
       and_then (encode cm (wit_nonce w, wit_until w, tx_call tx, xe_genesis_hash xe)) (\<lambda>message.
       and_then (dsa_verifier_from_public_key (xe_dsa xe) (public_key_bytes (wit_public_key w))) (\<lambda>verifier.
       map_err (\<lambda>_. ExecutorError (InvalidTxWitness ''Invalid signature''))
         (dsa_verify (xe_dsa xe) verifier message (signature_bytes (wit_signature w)))))
   | None \<Rightarrow> if witness_required then Err (ExecutorError (InvalidTxWitness ''Missing witness'')) else Ok ())"

definition validate_tx :: "('kp, 'ver) executor \<Rightarrow> message codec \<Rightarrow> 'c dispatcher \<Rightarrow> transaction \<Rightarrow> bool
    \<Rightarrow> ('c, unit, common_error) comp" where
  "validate_tx xe cm ds tx witness_required =
     bind (lift_result (verify_witness xe cm tx witness_required)) (\<lambda>_.
     let call = tx_call tx; sender = tx_sender xe tx; name = call_module call in
     bind (dispatch_validate_call ds name sender call) (\<lambda>r.
     bind (lift_result (map_err (\<lambda>e. ExecutorError (ExecApplication e)) r)) (\<lambda>_.
     bind (lift_result (dispatch_is_write_call ds name call)) (\<lambda>write_call.
     fail_if (\<not> write_call)
       (ExecutorError (InvalidTxMethod (call_method call @ '': not write'')))))))"

definition is_meta_call :: "'c dispatcher \<Rightarrow> call \<Rightarrow> bool common_result" where
  "is_meta_call ds call = dispatch_is_meta ds (call_module call)"

definition execute_call :: "'c dispatcher \<Rightarrow> address option \<Rightarrow> call
    \<Rightarrow> ('c, opaque_call_result, common_error) comp" where
  "execute_call ds sender call =
     bind (dispatch_validate_call ds (call_module call) sender call) (\<lambda>r. case r of
       Ok _ \<Rightarrow> dispatch_execute_call ds (call_module call) sender call
     | Err e \<Rightarrow> ret (Err e))"

subsection \<open>Executing a batch\<close>

definition set_call_env :: "call_env \<Rightarrow> (exec_context, unit, common_error) comp" where
  "set_call_env e s = (Ok (), s\<lparr>xc_call_env := e\<rparr>)"

text \<open>After the call: its writes and events are taken over, or dropped.\<close>

definition settle :: "opaque_call_result \<Rightarrow> (exec_context, opaque_call_result \<times> event list) mcomp" where
  "settle result = (case result of
     Ok r \<Rightarrow>
       bind xc_meta_drain_tx_buffer (\<lambda>its. bind (xc_meta_apply its) (\<lambda>_.
       bind xc_payload_drain_tx_buffer (\<lambda>its. bind (xc_payload_apply its) (\<lambda>_.
       bind xc_drain_tx_events (\<lambda>events. ret (Ok r, events))))))
   | Err e \<Rightarrow>
       bind xc_meta_drain_tx_buffer (\<lambda>_. bind xc_payload_drain_tx_buffer (\<lambda>_.
       bind xc_drain_tx_events (\<lambda>_. ret (Err e, [])))))"

definition execute_tx :: "('kp, 'ver) executor \<Rightarrow> exec_context dispatcher \<Rightarrow> full_transaction
    \<Rightarrow> (exec_context, full_receipt, common_error) comp" where
  "execute_tx xe ds ftx = (let tx_hash = ftx_hash ftx; tx = ftx_tx ftx; call = tx_call tx in
     bind (set_call_env \<lparr> cenv_tx_hash = Some tx_hash \<rparr>) (\<lambda>_.
     bind (dispatch_execute_call ds (call_module call) (tx_sender xe tx) call) (\<lambda>result.
     bind (map_err_comp module_error_into (settle result)) (\<lambda>(result, events).
     bind (ask xc_env) (\<lambda>env.
     ret \<lparr> frc_receipt = \<lparr> rc_block_number = env_number env, rc_events = events, rc_result = result \<rparr>,
           frc_tx_hash = tx_hash \<rparr>)))))"

fun execute_loop :: "('kp, 'ver) executor \<Rightarrow> exec_context dispatcher \<Rightarrow> bool option \<Rightarrow> full_receipt list
    \<Rightarrow> full_transaction list \<Rightarrow> (exec_context, bool option \<times> full_receipt list, common_error) comp" where
  "execute_loop xe ds txs_is_meta receipts [] = ret (txs_is_meta, receipts)"
| "execute_loop xe ds txs_is_meta receipts (ftx # txs) =
     bind (lift_result (dispatch_is_meta ds (call_module (tx_call (ftx_tx ftx))))) (\<lambda>is_meta.
     bind (case txs_is_meta of
             None \<Rightarrow> ret (Some is_meta)
           | Some m \<Rightarrow> if m \<noteq> is_meta
               then fail (ExecutorError (InvalidTxs ''Mixed meta and payload in one txs batch''))
               else ret (Some m)) (\<lambda>txs_is_meta.
     bind (execute_tx xe ds ftx) (\<lambda>full_receipt.
     execute_loop xe ds txs_is_meta (receipts @ [full_receipt]) txs)))"

definition execute_txs :: "('kp, 'ver) executor \<Rightarrow> exec_context dispatcher \<Rightarrow> full_transaction list
    \<Rightarrow> (exec_context, unit, common_error) comp" where
  "execute_txs xe ds txs =
     bind (execute_loop xe ds None [] txs) (\<lambda>(txs_is_meta, receipts).
     bind (\<lambda>s. (Ok (), if txs_is_meta = Some False then s\<lparr>xc_payload_phase := True\<rparr> else s)) (\<lambda>_.
     bind (ask xc_payload_phase) (\<lambda>payload_phase.
     bind (fail_if (payload_phase \<and> txs_is_meta = Some True)
             (ExecutorError (InvalidTxs ''Meta after payload not allowed''))) (\<lambda>_.
     (\<lambda>s. (Ok (), case txs_is_meta of
         Some True \<Rightarrow> s\<lparr>xc_meta_txs := xc_meta_txs s @ txs, xc_meta_receipts := xc_meta_receipts s @ receipts\<rparr>
       | Some False \<Rightarrow> s\<lparr>xc_payload_txs := xc_payload_txs s @ txs,
                        xc_payload_receipts := xc_payload_receipts s @ receipts\<rparr>
       | None \<Rightarrow> s))))))"

end
