(* ===== verification/System_Module.thy ===== *)
theory System_Module
  imports Exec_Context
begin

text \<open>
  The module \<^verbatim>\<open>core/module/system\<close>: the chain id, the genesis timestamp, the gaps that bound
  transactions and executions, and the consensus in use, set once at genesis.
\<close>

record system_meta =
  sys_chain_id :: string
  sys_timestamp :: u64
  sys_max_until_gap :: block_number
  sys_max_execution_gap :: execution_gap
  sys_consensus :: string

record system_codecs =
  sysc_string :: "string codec"
  sysc_u64 :: "u64 codec"
  sysc_execution_gap :: "execution_gap codec"
  sysc_meta :: "system_meta codec"
  sysc_empty_params :: "empty_params codec"
  sysc_unit :: "unit codec"

record system_module =
  sm_chain_id :: "string storage_value"
  sm_timestamp :: "u64 storage_value"
  sm_max_until_gap :: "block_number storage_value"
  sm_max_execution_gap :: "execution_gap storage_value"
  sm_consensus :: "string storage_value"

definition CONSENSUS_LIST :: "string list" where
  "CONSENSUS_LIST = [''poa'', ''raft'', ''hotstuff'']"

definition system_const :: module_const where
  "system_const = \<lparr> META_MODULE = True, STORAGE_KEY = byte_str ''system'' \<rparr>"

definition system_new :: "system_codecs \<Rightarrow> system_module" where
  "system_new cs = \<lparr>
     sm_chain_id = storage_value_new system_const (sysc_string cs) (byte_str ''chain_id''),
     sm_timestamp = storage_value_new system_const (sysc_u64 cs) (byte_str ''timestamp''),
     sm_max_until_gap = storage_value_new system_const (sysc_u64 cs) (byte_str ''max_until_gap''),
     sm_max_execution_gap = storage_value_new system_const (sysc_execution_gap cs) (byte_str ''max_execution_gap''),
     sm_consensus = storage_value_new system_const (sysc_string cs) (byte_str ''consensus'') \<rparr>"

definition system_init :: "'c context_ops \<Rightarrow> system_codecs \<Rightarrow> address option \<Rightarrow> system_meta \<Rightarrow> ('c, unit) mcomp" where
  "system_init cx cs sender p = (let m = system_new cs in
     bind (ask (cx_env cx)) (\<lambda>env.
     bind (fail_if (env_number env \<noteq> 0) (user_error ''Not genesis'')) (\<lambda>_.
     bind (sv_set cx (sm_chain_id m) (sys_chain_id p)) (\<lambda>_.
     bind (sv_set cx (sm_timestamp m) (sys_timestamp p)) (\<lambda>_.
     bind (sv_set cx (sm_max_until_gap m) (sys_max_until_gap p)) (\<lambda>_.
     bind (sv_set cx (sm_max_execution_gap m) (sys_max_execution_gap p)) (\<lambda>_.
     sv_set cx (sm_consensus m) (sys_consensus p))))))))"

definition system_validate_init :: "address option \<Rightarrow> system_meta \<Rightarrow> ('c, unit) mcomp" where
  "system_validate_init sender p =
     fail_if (\<not> (sys_consensus p \<in> set CONSENSUS_LIST)) (user_error ''Unknown consensus'')"

definition system_get_meta :: "'c context_ops \<Rightarrow> system_codecs \<Rightarrow> address option \<Rightarrow> empty_params
    \<Rightarrow> ('c, system_meta) mcomp" where
  "system_get_meta cx cs sender p = (let m = system_new cs; none = user_error ''Unexpected none'' in
     bind (sv_get cx (sm_chain_id m)) (\<lambda>v. bind (ok_or none v) (\<lambda>chain_id.
     bind (sv_get cx (sm_timestamp m)) (\<lambda>v. bind (ok_or none v) (\<lambda>timestamp.
     bind (sv_get cx (sm_max_until_gap m)) (\<lambda>v. bind (ok_or none v) (\<lambda>max_until_gap.
     bind (sv_get cx (sm_max_execution_gap m)) (\<lambda>v. bind (ok_or none v) (\<lambda>max_execution_gap.
     bind (sv_get cx (sm_consensus m)) (\<lambda>v. bind (ok_or none v) (\<lambda>consensus.
     ret \<lparr> sys_chain_id = chain_id, sys_timestamp = timestamp, sys_max_until_gap = max_until_gap,
           sys_max_execution_gap = max_execution_gap, sys_consensus = consensus \<rparr>)))))))))))"

definition system_methods :: "'c context_ops \<Rightarrow> system_codecs \<Rightarrow> 'c module_method list" where
  "system_methods cx cs = [
     mk_method ''init'' True (sysc_meta cs) (sysc_unit cs) (Some system_validate_init) (system_init cx cs),
     mk_method ''get_meta'' False (sysc_empty_params cs) (sysc_meta cs) None (system_get_meta cx cs)]"

definition system_codecs_ok :: "system_codecs \<Rightarrow> bool" where
  "system_codecs_ok cs \<longleftrightarrow> codec_ok (sysc_string cs) \<and> codec_ok (sysc_u64 cs) \<and> codec_ok (sysc_execution_gap cs)"

lemmas system_new_simps = system_new_def storage_value_new_def system_const_def

context context_laws
begin

lemma system_init_get_meta:
  assumes "inv s" "system_codecs_ok cs" "env_number (cx_env cx s) = 0"
  shows "\<exists>s'. system_init cx cs sender p s = (Ok (), s') \<and> inv s' \<and>
    system_get_meta cx cs sender' e s' = (Ok p, s')"
  using assms
  by (simp add: system_init_def system_get_meta_def system_new_simps system_codecs_ok_def bind_def Let_def
      sv_set_eq sv_get_eq sv_view_upd sv_view_upd_key)

end

definition ex_system_codecs :: system_codecs where
  "ex_system_codecs = \<lparr> sysc_string = string_codec, sysc_u64 = word_codec, sysc_execution_gap = word_codec,
     sysc_meta = iso_codec (\<lambda>m. (sys_chain_id m, sys_timestamp m, sys_max_until_gap m, sys_max_execution_gap m, sys_consensus m))
       (\<lambda>(c, t, u, x, k). \<lparr> sys_chain_id = c, sys_timestamp = t, sys_max_until_gap = u, sys_max_execution_gap = x,
          sys_consensus = k \<rparr>)
       (pair_codec string_codec (pair_codec word_codec (pair_codec word_codec (pair_codec word_codec string_codec)))),
     sysc_empty_params = unit_codec EmptyParams, sysc_unit = unit_codec () \<rparr>"

lemma ex_system_codecs_ok [simp]: "system_codecs_ok ex_system_codecs"
  by (simp add: system_codecs_ok_def ex_system_codecs_def)

text \<open>The configuration written by the genesis call of the system module is what later reads return, and the call is refused
  without effect at any other block.\<close>

theorem system_meta_roundtrip:
  assumes "exec_inv s" "system_codecs_ok cs"
  shows "if env_number (xc_env s) = 0
    then \<exists>s'. system_init exec_ops cs sender p s = (Ok (), s') \<and> exec_inv s' \<and>
      system_get_meta exec_ops cs sender' e s' = (Ok p, s')
    else system_init exec_ops cs sender p s = (Err (user_error ''Not genesis''), s)"
  using ex.system_init_get_meta [OF assms] by (simp add: system_init_def Let_def bind_def)

theorem system_meta_roundtrip_witness:
  "\<exists>s'. system_init exec_ops ex_system_codecs None
      \<lparr>sys_chain_id = ''chain'', sys_timestamp = 5, sys_max_until_gap = 20, sys_max_execution_gap = 8,
        sys_consensus = ''poa''\<rparr> (empty_context 0) = (Ok (), s')
    \<and> map_err (\<lambda>_. ()) (fst (system_get_meta exec_ops ex_system_codecs None EmptyParams s')) =
      Ok \<lparr>sys_chain_id = ''chain'', sys_timestamp = 5, sys_max_until_gap = 20, sys_max_execution_gap = 8,
        sys_consensus = ''poa''\<rparr>"
  using system_meta_roundtrip [of "empty_context 0" ex_system_codecs None
      "\<lparr>sys_chain_id = ''chain'', sys_timestamp = 5, sys_max_until_gap = 20, sys_max_execution_gap = 8,
        sys_consensus = ''poa''\<rparr>" None EmptyParams]
  by auto

end
