(* ===== verification/Balance.thy ===== *)
theory Balance
  imports Exec_Context
begin

text \<open>
  The module \<^verbatim>\<open>core/module/balance\<close>: an account map \<open>Address \<rightarrow> Balance\<close> in the payload state,
  endowed at genesis and changed by transfers. Its operations are written against any
  context; their lemmas are proved from \<open>context_laws\<close> and the properties stated for the executor's
  context.
\<close>

section \<open>Data\<close>

record balance_init_params =
  bi_endow :: "(address \<times> balance) list"

record transfer_params =
  tp_recipient :: address
  tp_value :: balance

record transferred =
  tr_sender :: address
  tr_recipient :: address
  tr_value :: balance

text \<open>The codecs of the types of the module, and the JSON printer of its event.\<close>

record balance_codecs =
  bc_address :: "address codec"
  bc_balance :: "balance codec"
  bc_init_params :: "balance_init_params codec"
  bc_empty_params :: "empty_params codec"
  bc_transfer_params :: "transfer_params codec"
  bc_unit :: "unit codec"
  bc_transferred :: "string \<Rightarrow> transferred \<Rightarrow> bytes option"

definition balance_const :: module_const where
  "balance_const = \<lparr> META_MODULE = False, STORAGE_KEY = byte_str ''balance'' \<rparr>"

definition balance_map :: "balance_codecs \<Rightarrow> (address, balance) storage_map" where
  "balance_map cs = storage_map_new balance_const (bc_address cs) (bc_balance cs) (byte_str ''balance'')"

section \<open>Operations\<close>

definition balance_init :: "'c context_ops \<Rightarrow> balance_codecs \<Rightarrow> address option \<Rightarrow> balance_init_params
    \<Rightarrow> ('c, unit) mcomp" where
  "balance_init cx cs sender p =
     bind (ask (cx_env cx)) (\<lambda>env.
     bind (fail_if (env_number env \<noteq> 0) (user_error ''Not genesis'')) (\<lambda>_.
     for_each (\<lambda>(address, balance). sm_set cx (balance_map cs) address balance) (bi_endow p)))"

definition balance_validate_init :: "util_ops \<Rightarrow> address option \<Rightarrow> balance_init_params
    \<Rightarrow> ('c, unit) mcomp" where
  "balance_validate_init util sender p =
     for_each (\<lambda>(address, _). lift_result (ut_validate_address util address)) (bi_endow p)"

definition balance_get_balance :: "'c context_ops \<Rightarrow> balance_codecs \<Rightarrow> address option \<Rightarrow> empty_params
    \<Rightarrow> ('c, balance) mcomp" where
  "balance_get_balance cx cs sender p =
     bind (ok_or (EApplication Unsigned) sender) (\<lambda>sender.
     bind (sm_get cx (balance_map cs) sender) (\<lambda>balance.
     ret (case balance of Some b \<Rightarrow> b | None \<Rightarrow> 0)))"

definition balance_transfer :: "'c context_ops \<Rightarrow> balance_codecs \<Rightarrow> address option \<Rightarrow> transfer_params
    \<Rightarrow> ('c, unit) mcomp" where
  "balance_transfer cx cs sender p =
     bind (ok_or (EApplication Unsigned) sender) (\<lambda>sender.
     let recipient = tp_recipient p; val = tp_value p in
     bind (fail_if (sender = recipient) (user_error ''Should not transfer to oneself'')) (\<lambda>_.
     bind (sm_get cx (balance_map cs) sender) (\<lambda>sb.
     let sender_balance = (case sb of Some b \<Rightarrow> b | None \<Rightarrow> 0) in
     bind (fail_if (sender_balance < val) (user_error ''Insufficient balance'')) (\<lambda>_.
     bind (sm_get cx (balance_map cs) recipient) (\<lambda>rb.
     let recipient_balance = (case rb of Some b \<Rightarrow> b | None \<Rightarrow> 0);
         (sender_balance, overflow) = overflowing_sub sender_balance val in
     bind (fail_if overflow (user_error ''U64 overflow'')) (\<lambda>_.
     let (recipient_balance, overflow) = overflowing_add recipient_balance val in
     bind (fail_if overflow (user_error ''U64 overflow'')) (\<lambda>_.
     bind (sm_set cx (balance_map cs) sender sender_balance) (\<lambda>_.
     bind (sm_set cx (balance_map cs) recipient recipient_balance) (\<lambda>_.
     emit cx (bc_transferred cs) ''Transferred''
       \<lparr> tr_sender = sender, tr_recipient = recipient, tr_value = val \<rparr>)))))))))"

definition balance_validate_transfer :: "util_ops \<Rightarrow> address option \<Rightarrow> transfer_params
    \<Rightarrow> ('c, unit) mcomp" where
  "balance_validate_transfer util sender p =
     bind (lift_result (ut_validate_address util (tp_recipient p))) (\<lambda>_. ret ())"

definition balance_methods :: "'c context_ops \<Rightarrow> util_ops \<Rightarrow> balance_codecs \<Rightarrow> 'c module_method list" where
  "balance_methods cx util cs = [
     mk_method ''init'' True (bc_init_params cs) (bc_unit cs)
       (Some (balance_validate_init util)) (balance_init cx cs),
     mk_method ''get_balance'' False (bc_empty_params cs) (bc_balance cs)
       None (balance_get_balance cx cs),
     mk_method ''transfer'' True (bc_transfer_params cs) (bc_unit cs)
       (Some (balance_validate_transfer util)) (balance_transfer cx cs)]"

section \<open>Accounts\<close>

definition balance_codecs_ok :: "balance_codecs \<Rightarrow> bool" where
  "balance_codecs_ok cs \<longleftrightarrow> codec_ok (bc_address cs) \<and> codec_ok (bc_balance cs)"

text \<open>What is stored for an account; an account without entry has balance 0.\<close>

definition account :: "'c context_ops \<Rightarrow> balance_codecs \<Rightarrow> 'c \<Rightarrow> address \<Rightarrow> balance option module_result" where
  "account cx cs s a = sm_view cx (balance_map cs) a s"

definition amount :: "balance option \<Rightarrow> balance" where
  "amount b = (case b of Some b \<Rightarrow> b | None \<Rightarrow> 0)"

text \<open>The outcome of a transfer from \<open>a\<close>, whose accounts hold \<open>x\<close> and \<open>y\<close>.\<close>

definition transfer_check :: "address \<Rightarrow> address \<Rightarrow> balance \<Rightarrow> balance \<Rightarrow> balance \<Rightarrow> unit module_result" where
  "transfer_check a b v x y =
     (if a = b then Err (user_error ''Should not transfer to oneself'')
      else if x < v then Err (user_error ''Insufficient balance'')
      else if unat y + unat v \<ge> 2 ^ 64 then Err (user_error ''U64 overflow'')
      else Ok ())"

lemma balance_map_codecs [simp]:
  "sm_key_codec (balance_map cs) = bc_address cs" "sm_codec (balance_map cs) = bc_balance cs"
  by (simp_all add: balance_map_def storage_map_new_def)

context context_laws
begin

text \<open>The state after a successful transfer.\<close>

definition transfer_post :: "balance_codecs \<Rightarrow> address \<Rightarrow> address \<Rightarrow> balance \<Rightarrow> balance \<Rightarrow> 'c \<Rightarrow> 'c" where
  "transfer_post cs a b x y s =
     sm_upd cx (balance_map cs) b (Some y) (sm_upd cx (balance_map cs) a (Some x) s)"

lemma transfer_eq:
  assumes "inv s" "account cx cs s a = Ok x" "account cx cs s (tp_recipient p) = Ok y"
  shows "balance_transfer cx cs (Some a) p s =
    (case transfer_check a (tp_recipient p) (tp_value p) (amount x) (amount y) of
       Err e \<Rightarrow> (Err e, s)
     | Ok _ \<Rightarrow> emit cx (bc_transferred cs) ''Transferred''
         \<lparr> tr_sender = a, tr_recipient = tp_recipient p, tr_value = tp_value p \<rparr>
         (transfer_post cs a (tp_recipient p) (amount x - tp_value p) (amount y + tp_value p) s))"
proof -
  note views = assms(2,3) [unfolded account_def]
  let ?b = "tp_recipient p" and ?v = "tp_value p"
  have ov: "unat (amount y) + unat ?v \<ge> 18446744073709551616 \<longleftrightarrow> amount y + ?v < amount y"
    using add_overflow_iff [of "amount y" ?v] by simp
  consider "a = ?b" | "a \<noteq> ?b" "amount x < ?v" | "a \<noteq> ?b" "\<not> amount x < ?v" "amount y + ?v < amount y"
    | "a \<noteq> ?b" "\<not> amount x < ?v" "\<not> amount y + ?v < amount y"
    by blast
  then show ?thesis
  proof cases
    case 1
    then show ?thesis by (simp add: balance_transfer_def bind_apply transfer_check_def Let_def)
  next
    case 2
    then show ?thesis
      by (simp add: balance_transfer_def bind_apply transfer_check_def Let_def sm_get_eq assms(1) views
          amount_def [symmetric])
  next
    case 3
    then show ?thesis
      by (simp add: balance_transfer_def bind_apply transfer_check_def Let_def sm_get_eq assms(1) views
          amount_def [symmetric] overflowing_sub_def overflowing_add_def ov del: not_less)
  next
    case 4
    then show ?thesis
      by (simp add: balance_transfer_def bind_apply transfer_check_def Let_def sm_get_eq sm_set_eq
          assms(1) views amount_def [symmetric] overflowing_sub_def overflowing_add_def ov
          transfer_post_def del: not_less)
  qed
qed

lemma transfer_post_facts:
  assumes "inv s" "balance_codecs_ok cs" "a \<noteq> b"
  shows "inv (transfer_post cs a b x y s)" "events (transfer_post cs a b x y s) = events s"
    "cx_env cx (transfer_post cs a b x y s) = cx_env cx s"
    "account cx cs (transfer_post cs a b x y s) c =
       (if c = a then Ok (Some x) else if c = b then Ok (Some y) else account cx cs s c)"
  using assms by (auto simp: transfer_post_def balance_codecs_ok_def account_def sm_view_upd)

lemma transfer_success:
  assumes "inv s" "balance_codecs_ok cs" "account cx cs s a = Ok x" "account cx cs s (tp_recipient p) = Ok y"
    and "transfer_check a (tp_recipient p) (tp_value p) (amount x) (amount y) = Ok ()"
    and "bc_transferred cs ''Transferred'' \<lparr>tr_sender = a, tr_recipient = tp_recipient p, tr_value = tp_value p\<rparr>
      = Some j"
  shows "\<exists>s'. balance_transfer cx cs (Some a) p s = (Ok (), s') \<and> inv s' \<and> cx_env cx s' = cx_env cx s
    \<and> events s' = events s @ [Event j]
    \<and> (\<forall>c. account cx cs s' c =
         (if c = a then Ok (Some (amount x - tp_value p))
          else if c = tp_recipient p then Ok (Some (amount y + tp_value p)) else account cx cs s c))"
proof -
  have ne: "a \<noteq> tp_recipient p"
    using assms(5) by (auto simp: transfer_check_def split: if_splits)
  note post = transfer_post_facts [OF assms(1,2) ne]
  have acc: "account cx cs (cx_ev cx e t) = account cx cs t" if "inv t" for e t
    using that by (simp add: account_def fun_eq_iff)
  show ?thesis
    using assms(6) post
    by (auto simp: transfer_eq [OF assms(1,3,4)] assms(5) emit_eq acc)
qed

text \<open>A transfer, whatever its outcome, keeps the sum over every set of accounts with both parties.\<close>

lemma transfer_post_sum:
  assumes "inv s" "balance_codecs_ok cs" "a \<noteq> b" "finite A" "a \<in> A" "b \<in> A"
    and "\<forall>c\<in>A. account cx cs s c = Ok (f c)"
    and "v \<le> amount (f a)" "unat (amount (f b)) + unat v < 2 ^ 64"
  shows "\<exists>g. (\<forall>c\<in>A. account cx cs (transfer_post cs a b (amount (f a) - v) (amount (f b) + v) s) c = Ok (g c))
    \<and> (\<Sum>c\<in>A. unat (amount (g c))) = (\<Sum>c\<in>A. unat (amount (f c)))"
proof (intro exI conjI)
  let ?g = "f(a := Some (amount (f a) - v), b := Some (amount (f b) + v))"
  show "\<forall>c\<in>A. account cx cs (transfer_post cs a b (amount (f a) - v) (amount (f b) + v) s) c = Ok (?g c)"
    using assms by (auto simp: transfer_post_facts)
  have A: "A = insert a (insert b (A - {a, b}))"
    using assms(5,6) by auto
  have rest: "(\<Sum>c\<in>A - {a, b}. unat (amount (?g c))) = (\<Sum>c\<in>A - {a, b}. unat (amount (f c)))"
    by (rule sum.cong) auto
  have "unat (amount (?g a)) + unat (amount (?g b)) = unat (amount (f a)) + unat (amount (f b))"
    using assms(3,8,9) add_overflow_iff [of "amount (f b)" v]
      unat_add_no_overflow [of "amount (f b)" v]
    by (simp add: amount_def unat_sub word_le_nat_alt)
  then show "(\<Sum>c\<in>A. unat (amount (?g c))) = (\<Sum>c\<in>A. unat (amount (f c)))"
    using assms(3,4) rest by (subst (1 2) A) simp
qed

lemma transfer_conserves:
  assumes "inv s" "balance_codecs_ok cs" "finite A" "a \<in> A" "tp_recipient p \<in> A"
    and acc: "\<forall>c\<in>A. account cx cs s c = Ok (f c)"
    and run: "balance_transfer cx cs (Some a) p s = (r, s')"
  shows "\<exists>g. (\<forall>c\<in>A. account cx cs s' c = Ok (g c))
    \<and> (\<Sum>c\<in>A. unat (amount (g c))) = (\<Sum>c\<in>A. unat (amount (f c)))"
proof -
  let ?b = "tp_recipient p" and ?v = "tp_value p"
  note eq = transfer_eq [OF assms(1) acc [rule_format, OF assms(4)] acc [rule_format, OF assms(5)]]
  show ?thesis
  proof (cases "transfer_check a ?b ?v (amount (f a)) (amount (f ?b))")
    case (Err e)
    then have "s' = s" using run by (simp add: eq)
    then show ?thesis using acc by blast
  next
    case (Ok u)
    then have chk: "a \<noteq> ?b" "?v \<le> amount (f a)" "unat (amount (f ?b)) + unat ?v < 2 ^ 64"
      by (auto simp: transfer_check_def split: if_splits)
    let ?t = "transfer_post cs a ?b (amount (f a) - ?v) (amount (f ?b) + ?v) s"
    have "inv ?t" using transfer_post_facts(1) [OF assms(1,2) chk(1)] .
    then have "\<forall>c. account cx cs s' c = account cx cs ?t c"
      using run by (auto simp: eq Ok emit_eq account_def split: option.splits)
    then show ?thesis
      using transfer_post_sum [OF assms(1,2) chk(1) assms(3,4,5) acc chk(2,3)] by auto
  qed
qed

lemma init_endow:
  assumes "inv s" "balance_codecs_ok cs" "env_number (cx_env cx s) = 0"
  shows "\<exists>s'. balance_init cx cs sender p s = (Ok (), s') \<and> inv s' \<and> events s' = events s \<and>
    (\<forall>c. account cx cs s' c = (case map_of (rev (bi_endow p)) c of Some b \<Rightarrow> Ok (Some b) | None \<Rightarrow> account cx cs s c))"
proof -
  let ?step = "\<lambda>(address, balance). sm_set cx (balance_map cs) address balance"
  have "\<exists>s'. for_each ?step kvs s = (Ok (), s') \<and> inv s' \<and> events s' = events s \<and>
    (\<forall>c. account cx cs s' c = (case map_of (rev kvs) c of Some b \<Rightarrow> Ok (Some b) | None \<Rightarrow> account cx cs s c))"
    if "inv s" for kvs s
    using that
  proof (induction kvs arbitrary: s)
    case (Cons kv kvs)
    obtain k v where kv: "kv = (k, v)" by fastforce
    let ?s1 = "sm_upd cx (balance_map cs) k (Some v) s"
    have "account cx cs ?s1 c = (if c = k then Ok (Some v) else account cx cs s c)" for c
      using Cons.prems assms(2) by (auto simp: account_def sm_view_upd balance_codecs_ok_def)
    moreover obtain s' where s': "for_each ?step kvs ?s1 = (Ok (), s')" "inv s'" "events s' = events s"
      "\<And>c. account cx cs s' c =
        (case map_of (rev kvs) c of Some b \<Rightarrow> Ok (Some b) | None \<Rightarrow> account cx cs ?s1 c)"
      using Cons.IH [of ?s1] Cons.prems by auto
    ultimately have "account cx cs s' c =
        (case map_of (rev (kv # kvs)) c of Some b \<Rightarrow> Ok (Some b) | None \<Rightarrow> account cx cs s c)" for c
      by (simp add: kv map_add_def split: option.splits)
    then show ?case
      using s'(1-3) Cons.prems by (simp add: kv bind_def sm_set_eq)
  qed simp
  then show ?thesis
    using assms by (simp add: balance_init_def bind_def)
qed

end

section \<open>Concrete accounts\<close>

definition ex_balance_codecs :: balance_codecs where
  "ex_balance_codecs = \<lparr>
     bc_address = address_codec, bc_balance = word_codec,
     bc_init_params = iso_codec bi_endow (\<lambda>e. \<lparr> bi_endow = e \<rparr>)
       (list_codec (pair_codec address_codec word_codec)),
     bc_empty_params = unit_codec EmptyParams,
     bc_transfer_params = iso_codec (\<lambda>p. (tp_recipient p, tp_value p))
       (\<lambda>(r, v). \<lparr> tp_recipient = r, tp_value = v \<rparr>) (pair_codec address_codec word_codec),
     bc_unit = unit_codec (),
     bc_transferred = (\<lambda>name d. Some (byte_str name)) \<rparr>"

lemma ex_balance_codecs_ok [simp]: "balance_codecs_ok ex_balance_codecs"
  by (simp add: balance_codecs_ok_def ex_balance_codecs_def)

lemma ex_transferred [simp]: "bc_transferred ex_balance_codecs name d = Some (byte_str name)"
  by (simp add: ex_balance_codecs_def)

definition alice :: address where "alice = Address [1]"
definition bob :: address where "bob = Address [2]"

text \<open>Alice owns 10 and no other account has an entry.\<close>

definition ex_accounts :: exec_context where
  "ex_accounts = sm_upd exec_ops (balance_map ex_balance_codecs) alice (Some 10) (empty_context 1)"

lemma ex_accounts_facts [simp]:
  "exec_inv ex_accounts" "env_number (xc_env ex_accounts) = 1"
  "account exec_ops ex_balance_codecs ex_accounts c = Ok (if c = alice then Some 10 else None)"
  using ex.sm_upd_keeps(2) [of "empty_context 1" "balance_map ex_balance_codecs" alice "Some 10"]
    ex_balance_codecs_ok
  by (simp_all add: ex_accounts_def account_def ex.sm_view_upd balance_codecs_ok_def)

lemma alice_bob [simp]: "alice \<noteq> bob" "bob \<noteq> alice"
  by (simp_all add: alice_def bob_def)

section \<open>Properties\<close>

text \<open>C6: a signed transfer between two different accounts, with enough balance and without overflow at the
  recipient, succeeds: it moves exactly the value from the sender to the recipient, leaves every other
  account alone and emits one event.\<close>

theorem transfer_moves_value:
  assumes "exec_inv s" "balance_codecs_ok cs"
    and "account exec_ops cs s a = Ok x" "account exec_ops cs s (tp_recipient p) = Ok y"
    and "a \<noteq> tp_recipient p" "tp_value p \<le> amount x" "unat (amount y) + unat (tp_value p) < 2 ^ 64"
    and "bc_transferred cs ''Transferred'' \<lparr>tr_sender = a, tr_recipient = tp_recipient p, tr_value = tp_value p\<rparr>
      = Some j"
  shows "\<exists>s'. balance_transfer exec_ops cs (Some a) p s = (Ok (), s') \<and> exec_inv s'
    \<and> xc_events s' = xc_events s @ [Event j]
    \<and> account exec_ops cs s' a = Ok (Some (amount x - tp_value p))
    \<and> account exec_ops cs s' (tp_recipient p) = Ok (Some (amount y + tp_value p))
    \<and> (\<forall>c. c \<noteq> a \<longrightarrow> c \<noteq> tp_recipient p \<longrightarrow> account exec_ops cs s' c = account exec_ops cs s c)"
proof -
  have "transfer_check a (tp_recipient p) (tp_value p) (amount x) (amount y) = Ok ()"
    using assms(5-7) by (simp add: transfer_check_def)
  from ex.transfer_success [OF assms(1-4) this assms(8)] show ?thesis
    using assms(5) by auto
qed

theorem transfer_moves_value_witness:
  "\<exists>s'. balance_transfer exec_ops ex_balance_codecs (Some alice) \<lparr>tp_recipient = bob, tp_value = 3\<rparr> ex_accounts
      = (Ok (), s')
    \<and> account exec_ops ex_balance_codecs s' alice = Ok (Some 7)
    \<and> account exec_ops ex_balance_codecs s' bob = Ok (Some 3)"
  using transfer_moves_value [of ex_accounts ex_balance_codecs alice "Some 10" "\<lparr>tp_recipient = bob, tp_value = 3\<rparr>"
      None "byte_str ''Transferred''"]
  by (auto simp: amount_def)

text \<open>A transfer that is refused (unsigned, to oneself, without enough balance, or overflowing the recipient)
  reports which rule it broke and changes nothing.\<close>

theorem transfer_refused:
  assumes "exec_inv s"
    and "\<And>a. sender = Some a \<Longrightarrow> account exec_ops cs s a = Ok (f a)"
    and "account exec_ops cs s (tp_recipient p) = Ok (f (tp_recipient p))"
    and "case sender of None \<Rightarrow> e = EApplication Unsigned
      | Some a \<Rightarrow> transfer_check a (tp_recipient p) (tp_value p) (amount (f a)) (amount (f (tp_recipient p))) = Err e"
  shows "balance_transfer exec_ops cs sender p s = (Err e, s)"
proof (cases sender)
  case None
  then show ?thesis using assms(4) by (simp add: balance_transfer_def bind_def)
next
  case (Some a)
  then show ?thesis
    using ex.transfer_eq [OF assms(1) assms(2) [OF Some] assms(3)] assms(4) by simp
qed

theorem transfer_refused_witness:
  "balance_transfer exec_ops ex_balance_codecs (Some alice) \<lparr>tp_recipient = bob, tp_value = 11\<rparr> ex_accounts
     = (Err (user_error ''Insufficient balance''), ex_accounts) \<and>
   balance_transfer exec_ops ex_balance_codecs None \<lparr>tp_recipient = bob, tp_value = 1\<rparr> ex_accounts
     = (Err (EApplication Unsigned), ex_accounts)"
  using transfer_refused [of ex_accounts "Some alice" ex_balance_codecs "\<lambda>c. if c = alice then Some 10 else None"
      "\<lparr>tp_recipient = bob, tp_value = 11\<rparr>" "user_error ''Insufficient balance''"]
    transfer_refused [of ex_accounts None ex_balance_codecs "\<lambda>c. if c = alice then Some 10 else None"
      "\<lparr>tp_recipient = bob, tp_value = 1\<rparr>" "EApplication Unsigned"]
  by (simp add: amount_def transfer_check_def)

text \<open>C1: no transfer creates or destroys money: whatever its outcome, the sum of the balances of any finite
  set of accounts that has the sender and the recipient is the same before and after.\<close>

theorem transfer_conserves_total:
  assumes "exec_inv s" "balance_codecs_ok cs" "finite A" "a \<in> A" "tp_recipient p \<in> A"
    and "\<forall>c\<in>A. account exec_ops cs s c = Ok (f c)"
    and "balance_transfer exec_ops cs (Some a) p s = (r, s')"
  shows "\<exists>g. (\<forall>c\<in>A. account exec_ops cs s' c = Ok (g c))
    \<and> (\<Sum>c\<in>A. unat (amount (g c))) = (\<Sum>c\<in>A. unat (amount (f c)))"
  by (rule ex.transfer_conserves [OF assms])

theorem transfer_conserves_total_witness:
  "\<exists>g. (\<forall>c\<in>{alice, bob}. account exec_ops ex_balance_codecs
      (snd (balance_transfer exec_ops ex_balance_codecs (Some alice) \<lparr>tp_recipient = bob, tp_value = 3\<rparr> ex_accounts)) c
      = Ok (g c)) \<and> (\<Sum>c\<in>{alice, bob}. unat (amount (g c))) = 10"
  using transfer_conserves_total [of ex_accounts ex_balance_codecs "{alice, bob}" alice
      "\<lparr>tp_recipient = bob, tp_value = 3\<rparr>" "\<lambda>c. if c = alice then Some 10 else None", OF _ _ _ _ _ _ prod.collapse [symmetric]]
  by (simp add: amount_def)

text \<open>At genesis the endowment of an account is the last amount listed for it, and accounts that are
  not listed keep what they had; at any later block \<open>init\<close> is refused and changes nothing.\<close>

theorem balance_init_spec:
  assumes "exec_inv s" "balance_codecs_ok cs"
  shows "if env_number (xc_env s) = 0
    then \<exists>s'. balance_init exec_ops cs sender p s = (Ok (), s') \<and> exec_inv s' \<and>
      (\<forall>c. account exec_ops cs s' c =
        (case map_of (rev (bi_endow p)) c of Some b \<Rightarrow> Ok (Some b) | None \<Rightarrow> account exec_ops cs s c))
    else balance_init exec_ops cs sender p s = (Err (user_error ''Not genesis''), s)"
  using ex.init_endow [OF assms, of sender p] assms by (auto simp: balance_init_def bind_def)

theorem balance_init_spec_witness:
  "(\<exists>s'. balance_init exec_ops ex_balance_codecs None \<lparr>bi_endow = [(alice, 5), (alice, 6)]\<rparr> (empty_context 0)
      = (Ok (), s') \<and> account exec_ops ex_balance_codecs s' alice = Ok (Some 6)) \<and>
   balance_init exec_ops ex_balance_codecs None \<lparr>bi_endow = []\<rparr> ex_accounts
     = (Err (user_error ''Not genesis''), ex_accounts)"
  using balance_init_spec [of "empty_context 0" ex_balance_codecs None "\<lparr>bi_endow = [(alice, 5), (alice, 6)]\<rparr>"]
    balance_init_spec [of ex_accounts ex_balance_codecs None "\<lparr>bi_endow = []\<rparr>"]
  by auto

end
