(* ===== verification/Governance.thy ===== *)
theory Governance
  imports Balance
begin

text \<open>
  The consensus configuration modules \<^verbatim>\<open>core/module/poa\<close>, \<^verbatim>\<open>core/module/raft\<close> and
  \<^verbatim>\<open>core/module/hotstuff\<close>. The three share the code that manages the administrators and the
  authorities by proposals and weighted votes; they differ in the type of the authorities (\<open>'a\<close> here), in
  names, and in the consensus parameters they store.

  \<open>'a gov_module\<close> is the struct \<open>Module\<close> of the shared part. The shared methods are defined once over it
  (the source copies them), and each module instantiates it by its \<open>new\<close>.
\<close>

section \<open>Data\<close>

record admin =
  adm_threshold :: u32
  adm_members :: "(address \<times> u32) list"

record update_admin_proposal =
  uap_proposal_id :: u32
  uap_admin :: admin
  uap_vote :: "address list"

record 'a update_authority_proposal =
  uup_proposal_id :: u32
  uup_authority :: 'a
  uup_vote :: "address list"

record update_admin_params =
  uaparams_admin :: admin

record update_admin_vote_params =
  uavparams_proposal_id :: u32

record 'a update_authority_params =
  uuparams_authority :: 'a

record update_authority_vote_params =
  uuvparams_proposal_id :: u32

record 'a gov_module =
  g_block_interval :: "u64 option storage_value"
  g_admin :: "admin storage_value"
  g_authority :: "'a storage_value"
  g_update_admin_proposal_id :: "u32 storage_value"
  g_update_admin_proposal :: "update_admin_proposal storage_value"
  g_update_authority_proposal_id :: "u32 storage_value"
  g_update_authority_proposal :: "'a update_authority_proposal storage_value"
  g_event_prefix :: string
  g_admin_event :: "string \<Rightarrow> update_admin_proposal \<Rightarrow> bytes option"
  g_authority_event :: "string \<Rightarrow> 'a update_authority_proposal \<Rightarrow> bytes option"

text \<open>The codecs and JSON printers of a module.\<close>

record 'a gov_codecs =
  gc_block_interval :: "u64 option codec"
  gc_u64 :: "u64 codec"
  gc_u32 :: "u32 codec"
  gc_admin :: "admin codec"
  gc_authority :: "'a codec"
  gc_admin_proposal :: "update_admin_proposal codec"
  gc_authority_proposal :: "'a update_authority_proposal codec"
  gc_empty_params :: "empty_params codec"
  gc_update_admin_params :: "update_admin_params codec"
  gc_update_admin_vote_params :: "update_admin_vote_params codec"
  gc_update_authority_params :: "'a update_authority_params codec"
  gc_update_authority_vote_params :: "update_authority_vote_params codec"
  gc_unit :: "unit codec"
  gc_admin_event :: "string \<Rightarrow> update_admin_proposal \<Rightarrow> bytes option"
  gc_authority_event :: "string \<Rightarrow> 'a update_authority_proposal \<Rightarrow> bytes option"

section \<open>The shared methods\<close>

fun aggregate_members :: "(address \<times> u32) list \<Rightarrow> (address \<times> u32) list \<Rightarrow> (address \<times> u32) list" where
  "aggregate_members new_members [] = new_members"
| "aggregate_members new_members ((address, weight) # members) =
     (if weight > 0 then
        (case find_index (\<lambda>x. fst x = address) new_members of
           Some position \<Rightarrow> aggregate_members
             (new_members[position := (fst (new_members ! position), snd (new_members ! position) + weight)]) members
         | None \<Rightarrow> aggregate_members (new_members @ [(address, weight)]) members)
      else aggregate_members new_members members)"

definition aggregate_admin :: "admin \<Rightarrow> admin" where
  "aggregate_admin a = \<lparr> adm_threshold = adm_threshold a, adm_members = aggregate_members [] (adm_members a) \<rparr>"

definition gov_get_admin :: "'c context_ops \<Rightarrow> 'a gov_module \<Rightarrow> address option \<Rightarrow> empty_params
    \<Rightarrow> ('c, admin) mcomp" where
  "gov_get_admin cx g sender p =
     bind (sv_get cx (g_admin g)) (\<lambda>admin. ok_or (user_error ''Unexpected none'') admin)"

definition gov_get_authority :: "'c context_ops \<Rightarrow> 'a gov_module \<Rightarrow> address option \<Rightarrow> empty_params
    \<Rightarrow> ('c, 'a) mcomp" where
  "gov_get_authority cx g sender p =
     bind (sv_get cx (g_authority g)) (\<lambda>authority. ok_or (user_error ''Unexpected none'') authority)"

definition gov_verify_sender :: "'c context_ops \<Rightarrow> 'a gov_module \<Rightarrow> address
    \<Rightarrow> ('c, u32 \<times> (address, u32) hmap) mcomp" where
  "gov_verify_sender cx g sender =
     bind (sv_get cx (g_admin g)) (\<lambda>admin.
     bind (ok_or (user_error ''Admin not found'') admin) (\<lambda>admin.
     let threshold = adm_threshold admin; members = hm_collect (adm_members admin) in
     bind (fail_if (\<not> hm_contains members sender) (user_error ''Not admin'')) (\<lambda>_.
     ret (threshold, members))))"

text \<open>The weight of the votes, a sum of \<open>u32\<close> that wraps around.\<close>

definition vote_sum :: "(address, u32) hmap \<Rightarrow> address list \<Rightarrow> u32" where
  "vote_sum members vote =
     fold (\<lambda>v x. x + (case hm_get members v of Some w \<Rightarrow> w | None \<Rightarrow> 0)) vote 0"

definition add_vote :: "address \<Rightarrow> address list \<Rightarrow> address list" where
  "add_vote sender vote = (if sender \<in> set vote then vote else vote @ [sender])"

definition gov_update_admin_vote_and_pass :: "'c context_ops \<Rightarrow> 'a gov_module \<Rightarrow> address
    \<Rightarrow> update_admin_proposal \<Rightarrow> u32 \<Rightarrow> (address, u32) hmap \<Rightarrow> ('c, unit) mcomp" where
  "gov_update_admin_vote_and_pass cx g sender proposal old_threshold old_members =
     (let proposal = proposal\<lparr>uap_vote := add_vote sender (uap_vote proposal)\<rparr> in
      bind (emit cx (g_admin_event g) ''UpdateAdminProposalVoted'' proposal) (\<lambda>_.
      let sum = vote_sum old_members (uap_vote proposal) in
      bind (if sum \<ge> old_threshold then
              bind (sv_set cx (g_admin g) (uap_admin proposal)) (\<lambda>_.
              bind (emit cx (g_admin_event g) ''UpdateAdminProposalPassed'' proposal) (\<lambda>_.
              ret True))
            else ret False) (\<lambda>pass.
      bind (if pass then sv_delete cx (g_update_admin_proposal g)
            else sv_set cx (g_update_admin_proposal g) proposal) (\<lambda>_.
      sv_set cx (g_update_admin_proposal_id g) (uap_proposal_id proposal + 1)))))"

definition gov_update_admin :: "'c context_ops \<Rightarrow> 'a gov_module \<Rightarrow> address option \<Rightarrow> update_admin_params
    \<Rightarrow> ('c, unit) mcomp" where
  "gov_update_admin cx g sender p =
     bind (ok_or (EApplication Unsigned) sender) (\<lambda>sender.
     bind (gov_verify_sender cx g sender) (\<lambda>(old_threshold, old_members).
     let new_admin = aggregate_admin (uaparams_admin p) in
     bind (sv_get cx (g_update_admin_proposal_id g)) (\<lambda>proposal_id.
     let proposal = \<lparr> uap_proposal_id = (case proposal_id of Some i \<Rightarrow> i | None \<Rightarrow> 1),
                      uap_admin = new_admin, uap_vote = [] \<rparr> in
     bind (emit cx (g_admin_event g) ''UpdateAdminProposalCreated'' proposal) (\<lambda>_.
     gov_update_admin_vote_and_pass cx g sender proposal old_threshold old_members))))"

definition gov_update_admin_vote :: "'c context_ops \<Rightarrow> 'a gov_module \<Rightarrow> address option
    \<Rightarrow> update_admin_vote_params \<Rightarrow> ('c, unit) mcomp" where
  "gov_update_admin_vote cx g sender p =
     bind (ok_or (EApplication Unsigned) sender) (\<lambda>sender.
     bind (sv_get cx (g_update_admin_proposal g)) (\<lambda>proposal.
     bind (ok_or (user_error ''Proposal not found'') proposal) (\<lambda>proposal.
     bind (fail_if (uap_proposal_id proposal \<noteq> uavparams_proposal_id p)
             (user_error ''Proposal id not match'')) (\<lambda>_.
     bind (gov_verify_sender cx g sender) (\<lambda>(old_threshold, old_members).
     gov_update_admin_vote_and_pass cx g sender proposal old_threshold old_members)))))"

definition gov_update_authority_vote_and_pass :: "'c context_ops \<Rightarrow> 'a gov_module \<Rightarrow> address
    \<Rightarrow> 'a update_authority_proposal \<Rightarrow> u32 \<Rightarrow> (address, u32) hmap \<Rightarrow> ('c, unit) mcomp" where
  "gov_update_authority_vote_and_pass cx g sender proposal old_threshold old_members =
     (let proposal = proposal\<lparr>uup_vote := add_vote sender (uup_vote proposal)\<rparr> in
      bind (emit cx (g_authority_event g) (g_event_prefix g @ ''ProposalVoted'') proposal) (\<lambda>_.
      let sum = vote_sum old_members (uup_vote proposal) in
      bind (if sum \<ge> old_threshold then
              bind (sv_set cx (g_authority g) (uup_authority proposal)) (\<lambda>_.
              bind (emit cx (g_authority_event g) (g_event_prefix g @ ''ProposalPassed'') proposal) (\<lambda>_.
              ret True))
            else ret False) (\<lambda>pass.
      bind (if pass then sv_delete cx (g_update_authority_proposal g)
            else sv_set cx (g_update_authority_proposal g) proposal) (\<lambda>_.
      sv_set cx (g_update_authority_proposal_id g) (uup_proposal_id proposal + 1)))))"

definition gov_update_authority :: "'c context_ops \<Rightarrow> 'a gov_module \<Rightarrow> address option
    \<Rightarrow> 'a update_authority_params \<Rightarrow> ('c, unit) mcomp" where
  "gov_update_authority cx g sender p =
     bind (ok_or (EApplication Unsigned) sender) (\<lambda>sender.
     bind (gov_verify_sender cx g sender) (\<lambda>(old_threshold, old_members).
     bind (sv_get cx (g_update_authority_proposal_id g)) (\<lambda>proposal_id.
     let proposal = \<lparr> uup_proposal_id = (case proposal_id of Some i \<Rightarrow> i | None \<Rightarrow> 1),
                      uup_authority = uuparams_authority p, uup_vote = [] \<rparr> in
     bind (emit cx (g_authority_event g) (g_event_prefix g @ ''ProposalCreated'') proposal) (\<lambda>_.
     gov_update_authority_vote_and_pass cx g sender proposal old_threshold old_members))))"

definition gov_update_authority_vote :: "'c context_ops \<Rightarrow> 'a gov_module \<Rightarrow> address option
    \<Rightarrow> update_authority_vote_params \<Rightarrow> ('c, unit) mcomp" where
  "gov_update_authority_vote cx g sender p =
     bind (ok_or (EApplication Unsigned) sender) (\<lambda>sender.
     bind (sv_get cx (g_update_authority_proposal g)) (\<lambda>proposal.
     bind (ok_or (user_error ''Proposal not found'') proposal) (\<lambda>proposal.
     bind (fail_if (uup_proposal_id proposal \<noteq> uuvparams_proposal_id p)
             (user_error ''Proposal id not match'')) (\<lambda>_.
     bind (gov_verify_sender cx g sender) (\<lambda>(old_threshold, old_members).
     gov_update_authority_vote_and_pass cx g sender proposal old_threshold old_members)))))"

section \<open>The modules\<close>

text \<open>\<open>Module::new\<close>: the storage values of the module. The constructor of the shared part takes the
  module's constants and its word for the authorities.\<close>

definition gov_new :: "module_const \<Rightarrow> string \<Rightarrow> string \<Rightarrow> 'a gov_codecs \<Rightarrow> 'a gov_module" where
  "gov_new c authority event_prefix cs = \<lparr>
     g_block_interval = storage_value_new c (gc_block_interval cs) (byte_str ''block_interval''),
     g_admin = storage_value_new c (gc_admin cs) (byte_str ''admin''),
     g_authority = storage_value_new c (gc_authority cs) (byte_str authority),
     g_update_admin_proposal_id = storage_value_new c (gc_u32 cs) (byte_str ''update_admin_proposal_id''),
     g_update_admin_proposal = storage_value_new c (gc_admin_proposal cs) (byte_str ''update_admin_proposal''),
     g_update_authority_proposal_id =
       storage_value_new c (gc_u32 cs) (byte_str (''update_'' @ authority @ ''_proposal_id'')),
     g_update_authority_proposal =
       storage_value_new c (gc_authority_proposal cs) (byte_str (''update_'' @ authority @ ''_proposal'')),
     g_event_prefix = event_prefix,
     g_admin_event = gc_admin_event cs,
     g_authority_event = gc_authority_event cs \<rparr>"

definition validate_members :: "util_ops \<Rightarrow> (address \<times> u32) list \<Rightarrow> ('c, unit) mcomp" where
  "validate_members util members = for_each (\<lambda>(address, _). lift_result (ut_validate_address util address)) members"

text \<open>\<open>self.x.get()?.ok_or("Unexpected none")?\<close>\<close>

definition sv_expect :: "'c context_ops \<Rightarrow> 'v storage_value \<Rightarrow> ('c, 'v) mcomp" where
  "sv_expect cx sv = bind (sv_get cx sv) (\<lambda>v. ok_or (user_error ''Unexpected none'') v)"

text \<open>The entries of the method list the three modules share.\<close>

definition gov_methods :: "'c context_ops \<Rightarrow> 'a gov_codecs \<Rightarrow> 'a gov_module \<Rightarrow> string
    \<Rightarrow> 'c module_method list" where
  "gov_methods cx cs g authority = [
     mk_method (''get_'' @ authority) False (gc_empty_params cs) (gc_authority cs) None (gov_get_authority cx g),
     mk_method ''get_admin'' False (gc_empty_params cs) (gc_admin cs) None (gov_get_admin cx g),
     mk_method ''update_admin'' True (gc_update_admin_params cs) (gc_unit cs) None (gov_update_admin cx g),
     mk_method ''update_admin_vote'' True (gc_update_admin_vote_params cs) (gc_unit cs) None
       (gov_update_admin_vote cx g),
     mk_method (''update_'' @ authority) True (gc_update_authority_params cs) (gc_unit cs) None
       (gov_update_authority cx g),
     mk_method (''update_'' @ authority @ ''_vote'') True (gc_update_authority_vote_params cs) (gc_unit cs) None
       (gov_update_authority_vote cx g)]"

subsection \<open>poa\<close>

record poa_init_params =
  poa_block_interval :: "u64 option"
  poa_admin :: admin
  poa_authority :: address

record poa_meta =
  poam_block_interval :: "u64 option"

record poa_codecs =
  poac_gov :: "address gov_codecs"
  poac_init_params :: "poa_init_params codec"
  poac_meta :: "poa_meta codec"

definition poa_const :: module_const where
  "poa_const = \<lparr> META_MODULE = True, STORAGE_KEY = byte_str ''poa'' \<rparr>"

definition poa_new :: "poa_codecs \<Rightarrow> address gov_module" where
  "poa_new cs = gov_new poa_const ''authority'' ''UpdateAuthority'' (poac_gov cs)"

definition poa_init :: "'c context_ops \<Rightarrow> poa_codecs \<Rightarrow> address option \<Rightarrow> poa_init_params \<Rightarrow> ('c, unit) mcomp" where
  "poa_init cx cs sender p = (let g = poa_new cs in
     bind (ask (cx_env cx)) (\<lambda>env.
     bind (fail_if (env_number env \<noteq> 0) (user_error ''Not genesis'')) (\<lambda>_.
     bind (sv_set cx (g_block_interval g) (poa_block_interval p)) (\<lambda>_.
     bind (sv_set cx (g_admin g) (poa_admin p)) (\<lambda>_.
     sv_set cx (g_authority g) (poa_authority p))))))"

definition poa_validate_init :: "util_ops \<Rightarrow> address option \<Rightarrow> poa_init_params \<Rightarrow> ('c, unit) mcomp" where
  "poa_validate_init util sender p =
     bind (validate_members util (adm_members (poa_admin p))) (\<lambda>_.
     bind (lift_result (ut_validate_address util (poa_authority p))) (\<lambda>_. ret ()))"

definition poa_get_meta :: "'c context_ops \<Rightarrow> poa_codecs \<Rightarrow> address option \<Rightarrow> empty_params \<Rightarrow> ('c, poa_meta) mcomp" where
  "poa_get_meta cx cs sender p =
     bind (sv_expect cx (g_block_interval (poa_new cs))) (\<lambda>block_interval.
     ret \<lparr> poam_block_interval = block_interval \<rparr>)"

definition poa_methods :: "'c context_ops \<Rightarrow> util_ops \<Rightarrow> poa_codecs \<Rightarrow> 'c module_method list" where
  "poa_methods cx util cs =
     mk_method ''init'' True (poac_init_params cs) (gc_unit (poac_gov cs))
       (Some (poa_validate_init util)) (poa_init cx cs) #
     mk_method ''get_meta'' False (gc_empty_params (poac_gov cs)) (poac_meta cs) None (poa_get_meta cx cs) #
     gov_methods cx (poac_gov cs) (poa_new cs) ''authority''"

subsection \<open>raft\<close>

record raft_authorities =
  ra_members :: "address list"

record raft_init_params =
  raft_block_interval :: "u64 option"
  raft_heartbeat_interval :: u64
  raft_election_timeout_min :: u64
  raft_election_timeout_max :: u64
  raft_admin :: admin
  raft_authorities_init :: raft_authorities

record raft_meta =
  raftm_block_interval :: "u64 option"
  raftm_heartbeat_interval :: u64
  raftm_election_timeout_min :: u64
  raftm_election_timeout_max :: u64

record raft_codecs =
  raftc_gov :: "raft_authorities gov_codecs"
  raftc_init_params :: "raft_init_params codec"
  raftc_meta :: "raft_meta codec"

definition raft_const :: module_const where
  "raft_const = \<lparr> META_MODULE = True, STORAGE_KEY = byte_str ''raft'' \<rparr>"

definition raft_new :: "raft_codecs \<Rightarrow> raft_authorities gov_module" where
  "raft_new cs = gov_new raft_const ''authorities'' ''UpdateAuthorities'' (raftc_gov cs)"

text \<open>The consensus parameters of the struct \<open>Module\<close>, by name.\<close>

definition raft_u64 :: "raft_codecs \<Rightarrow> string \<Rightarrow> u64 storage_value" where
  "raft_u64 cs name = storage_value_new raft_const (gc_u64 (raftc_gov cs)) (byte_str name)"

definition raft_init :: "'c context_ops \<Rightarrow> raft_codecs \<Rightarrow> address option \<Rightarrow> raft_init_params \<Rightarrow> ('c, unit) mcomp" where
  "raft_init cx cs sender p = (let g = raft_new cs in
     bind (ask (cx_env cx)) (\<lambda>env.
     bind (fail_if (env_number env \<noteq> 0) (user_error ''Not genesis'')) (\<lambda>_.
     bind (sv_set cx (g_block_interval g) (raft_block_interval p)) (\<lambda>_.
     bind (sv_set cx (raft_u64 cs ''heartbeat_interval'') (raft_heartbeat_interval p)) (\<lambda>_.
     bind (sv_set cx (raft_u64 cs ''election_timeout_min'') (raft_election_timeout_min p)) (\<lambda>_.
     bind (sv_set cx (raft_u64 cs ''election_timeout_max'') (raft_election_timeout_max p)) (\<lambda>_.
     bind (sv_set cx (g_admin g) (raft_admin p)) (\<lambda>_.
     sv_set cx (g_authority g) (raft_authorities_init p)))))))))"

definition raft_validate_init :: "util_ops \<Rightarrow> address option \<Rightarrow> raft_init_params \<Rightarrow> ('c, unit) mcomp" where
  "raft_validate_init util sender p =
     bind (validate_members util (adm_members (raft_admin p))) (\<lambda>_.
     for_each (\<lambda>address. lift_result (ut_validate_address util address)) (ra_members (raft_authorities_init p)))"

definition raft_get_meta :: "'c context_ops \<Rightarrow> raft_codecs \<Rightarrow> address option \<Rightarrow> empty_params \<Rightarrow> ('c, raft_meta) mcomp" where
  "raft_get_meta cx cs sender p =
     bind (sv_expect cx (g_block_interval (raft_new cs))) (\<lambda>block_interval.
     bind (sv_expect cx (raft_u64 cs ''heartbeat_interval'')) (\<lambda>heartbeat_interval.
     bind (sv_expect cx (raft_u64 cs ''election_timeout_min'')) (\<lambda>election_timeout_min.
     bind (sv_expect cx (raft_u64 cs ''election_timeout_max'')) (\<lambda>election_timeout_max.
     ret \<lparr> raftm_block_interval = block_interval, raftm_heartbeat_interval = heartbeat_interval,
           raftm_election_timeout_min = election_timeout_min,
           raftm_election_timeout_max = election_timeout_max \<rparr>))))"

definition raft_methods :: "'c context_ops \<Rightarrow> util_ops \<Rightarrow> raft_codecs \<Rightarrow> 'c module_method list" where
  "raft_methods cx util cs =
     mk_method ''init'' True (raftc_init_params cs) (gc_unit (raftc_gov cs))
       (Some (raft_validate_init util)) (raft_init cx cs) #
     mk_method ''get_meta'' False (gc_empty_params (raftc_gov cs)) (raftc_meta cs) None (raft_get_meta cx cs) #
     gov_methods cx (raftc_gov cs) (raft_new cs) ''authorities''"

text \<open>The methods the source writes out again for this module.\<close>

definition raft_get_authorities :: "'c context_ops \<Rightarrow> raft_codecs \<Rightarrow> address option \<Rightarrow> empty_params
    \<Rightarrow> ('c, raft_authorities) mcomp" where
  "raft_get_authorities cx cs = gov_get_authority cx (raft_new cs)"

definition raft_get_admin :: "'c context_ops \<Rightarrow> raft_codecs \<Rightarrow> address option \<Rightarrow> empty_params
    \<Rightarrow> ('c, admin) mcomp" where
  "raft_get_admin cx cs = gov_get_admin cx (raft_new cs)"

definition raft_verify_sender :: "'c context_ops \<Rightarrow> raft_codecs \<Rightarrow> address
    \<Rightarrow> ('c, u32 \<times> (address, u32) hmap) mcomp" where
  "raft_verify_sender cx cs = gov_verify_sender cx (raft_new cs)"

definition raft_update_admin_vote_and_pass :: "'c context_ops \<Rightarrow> raft_codecs \<Rightarrow> address
    \<Rightarrow> update_admin_proposal \<Rightarrow> u32 \<Rightarrow> (address, u32) hmap \<Rightarrow> ('c, unit) mcomp" where
  "raft_update_admin_vote_and_pass cx cs = gov_update_admin_vote_and_pass cx (raft_new cs)"

definition raft_update_authorities_vote_and_pass :: "'c context_ops \<Rightarrow> raft_codecs \<Rightarrow> address
    \<Rightarrow> raft_authorities update_authority_proposal \<Rightarrow> u32 \<Rightarrow> (address, u32) hmap \<Rightarrow> ('c, unit) mcomp" where
  "raft_update_authorities_vote_and_pass cx cs = gov_update_authority_vote_and_pass cx (raft_new cs)"

definition raft_aggregate_admin :: "admin \<Rightarrow> admin" where
  "raft_aggregate_admin = aggregate_admin"

definition raft_update_admin :: "'c context_ops \<Rightarrow> raft_codecs \<Rightarrow> address option \<Rightarrow> update_admin_params
    \<Rightarrow> ('c, unit) mcomp" where
  "raft_update_admin cx cs = gov_update_admin cx (raft_new cs)"

definition raft_update_admin_vote :: "'c context_ops \<Rightarrow> raft_codecs \<Rightarrow> address option
    \<Rightarrow> update_admin_vote_params \<Rightarrow> ('c, unit) mcomp" where
  "raft_update_admin_vote cx cs = gov_update_admin_vote cx (raft_new cs)"

definition raft_update_authorities :: "'c context_ops \<Rightarrow> raft_codecs \<Rightarrow> address option
    \<Rightarrow> raft_authorities update_authority_params \<Rightarrow> ('c, unit) mcomp" where
  "raft_update_authorities cx cs = gov_update_authority cx (raft_new cs)"

definition raft_update_authorities_vote :: "'c context_ops \<Rightarrow> raft_codecs \<Rightarrow> address option
    \<Rightarrow> update_authority_vote_params \<Rightarrow> ('c, unit) mcomp" where
  "raft_update_authorities_vote cx cs = gov_update_authority_vote cx (raft_new cs)"

subsection \<open>hotstuff\<close>

record hotstuff_authorities =
  ha_members :: "(address \<times> u32) list"

record hotstuff_init_params =
  hsp_block_interval :: "u64 option"
  hsp_view_timeout :: u64
  hsp_admin :: admin
  hsp_authorities :: hotstuff_authorities

record hotstuff_meta =
  hsm_block_interval :: "u64 option"
  hsm_view_timeout :: u64

record hotstuff_codecs =
  hsc_gov :: "hotstuff_authorities gov_codecs"
  hsc_init_params :: "hotstuff_init_params codec"
  hsc_meta :: "hotstuff_meta codec"

definition hotstuff_const :: module_const where
  "hotstuff_const = \<lparr> META_MODULE = True, STORAGE_KEY = byte_str ''hotstuff'' \<rparr>"

definition hotstuff_new :: "hotstuff_codecs \<Rightarrow> hotstuff_authorities gov_module" where
  "hotstuff_new cs = gov_new hotstuff_const ''authorities'' ''UpdateAuthorities'' (hsc_gov cs)"

definition hotstuff_view_timeout :: "hotstuff_codecs \<Rightarrow> u64 storage_value" where
  "hotstuff_view_timeout cs =
     storage_value_new hotstuff_const (gc_u64 (hsc_gov cs)) (byte_str ''view_timeout'')"

definition hotstuff_init :: "'c context_ops \<Rightarrow> hotstuff_codecs \<Rightarrow> address option \<Rightarrow> hotstuff_init_params
    \<Rightarrow> ('c, unit) mcomp" where
  "hotstuff_init cx cs sender p = (let g = hotstuff_new cs in
     bind (ask (cx_env cx)) (\<lambda>env.
     bind (fail_if (env_number env \<noteq> 0) (user_error ''Not genesis'')) (\<lambda>_.
     bind (sv_set cx (g_block_interval g) (hsp_block_interval p)) (\<lambda>_.
     bind (sv_set cx (hotstuff_view_timeout cs) (hsp_view_timeout p)) (\<lambda>_.
     bind (sv_set cx (g_admin g) (hsp_admin p)) (\<lambda>_.
     sv_set cx (g_authority g) (hsp_authorities p)))))))"

definition hotstuff_validate_init :: "util_ops \<Rightarrow> address option \<Rightarrow> hotstuff_init_params \<Rightarrow> ('c, unit) mcomp" where
  "hotstuff_validate_init util sender p =
     bind (validate_members util (adm_members (hsp_admin p))) (\<lambda>_.
     validate_members util (ha_members (hsp_authorities p)))"

definition hotstuff_get_meta :: "'c context_ops \<Rightarrow> hotstuff_codecs \<Rightarrow> address option \<Rightarrow> empty_params
    \<Rightarrow> ('c, hotstuff_meta) mcomp" where
  "hotstuff_get_meta cx cs sender p =
     bind (sv_expect cx (g_block_interval (hotstuff_new cs))) (\<lambda>block_interval.
     bind (sv_expect cx (hotstuff_view_timeout cs)) (\<lambda>view_timeout.
     ret \<lparr> hsm_block_interval = block_interval, hsm_view_timeout = view_timeout \<rparr>))"

definition hotstuff_methods :: "'c context_ops \<Rightarrow> util_ops \<Rightarrow> hotstuff_codecs \<Rightarrow> 'c module_method list" where
  "hotstuff_methods cx util cs =
     mk_method ''init'' True (hsc_init_params cs) (gc_unit (hsc_gov cs))
       (Some (hotstuff_validate_init util)) (hotstuff_init cx cs) #
     mk_method ''get_meta'' False (gc_empty_params (hsc_gov cs)) (hsc_meta cs) None (hotstuff_get_meta cx cs) #
     gov_methods cx (hsc_gov cs) (hotstuff_new cs) ''authorities''"

text \<open>The methods the source writes out again for this module.\<close>

definition hotstuff_get_authorities :: "'c context_ops \<Rightarrow> hotstuff_codecs \<Rightarrow> address option \<Rightarrow> empty_params
    \<Rightarrow> ('c, hotstuff_authorities) mcomp" where
  "hotstuff_get_authorities cx cs = gov_get_authority cx (hotstuff_new cs)"

definition hotstuff_get_admin :: "'c context_ops \<Rightarrow> hotstuff_codecs \<Rightarrow> address option \<Rightarrow> empty_params
    \<Rightarrow> ('c, admin) mcomp" where
  "hotstuff_get_admin cx cs = gov_get_admin cx (hotstuff_new cs)"

definition hotstuff_verify_sender :: "'c context_ops \<Rightarrow> hotstuff_codecs \<Rightarrow> address
    \<Rightarrow> ('c, u32 \<times> (address, u32) hmap) mcomp" where
  "hotstuff_verify_sender cx cs = gov_verify_sender cx (hotstuff_new cs)"

definition hotstuff_update_admin_vote_and_pass :: "'c context_ops \<Rightarrow> hotstuff_codecs \<Rightarrow> address
    \<Rightarrow> update_admin_proposal \<Rightarrow> u32 \<Rightarrow> (address, u32) hmap \<Rightarrow> ('c, unit) mcomp" where
  "hotstuff_update_admin_vote_and_pass cx cs = gov_update_admin_vote_and_pass cx (hotstuff_new cs)"

definition hotstuff_update_authorities_vote_and_pass :: "'c context_ops \<Rightarrow> hotstuff_codecs \<Rightarrow> address
    \<Rightarrow> hotstuff_authorities update_authority_proposal \<Rightarrow> u32 \<Rightarrow> (address, u32) hmap \<Rightarrow> ('c, unit) mcomp" where
  "hotstuff_update_authorities_vote_and_pass cx cs = gov_update_authority_vote_and_pass cx (hotstuff_new cs)"

definition hotstuff_aggregate_admin :: "admin \<Rightarrow> admin" where
  "hotstuff_aggregate_admin = aggregate_admin"

definition hotstuff_update_admin :: "'c context_ops \<Rightarrow> hotstuff_codecs \<Rightarrow> address option \<Rightarrow> update_admin_params
    \<Rightarrow> ('c, unit) mcomp" where
  "hotstuff_update_admin cx cs = gov_update_admin cx (hotstuff_new cs)"

definition hotstuff_update_admin_vote :: "'c context_ops \<Rightarrow> hotstuff_codecs \<Rightarrow> address option
    \<Rightarrow> update_admin_vote_params \<Rightarrow> ('c, unit) mcomp" where
  "hotstuff_update_admin_vote cx cs = gov_update_admin_vote cx (hotstuff_new cs)"

definition hotstuff_update_authorities :: "'c context_ops \<Rightarrow> hotstuff_codecs \<Rightarrow> address option
    \<Rightarrow> hotstuff_authorities update_authority_params \<Rightarrow> ('c, unit) mcomp" where
  "hotstuff_update_authorities cx cs = gov_update_authority cx (hotstuff_new cs)"

definition hotstuff_update_authorities_vote :: "'c context_ops \<Rightarrow> hotstuff_codecs \<Rightarrow> address option
    \<Rightarrow> update_authority_vote_params \<Rightarrow> ('c, unit) mcomp" where
  "hotstuff_update_authorities_vote cx cs = gov_update_authority_vote cx (hotstuff_new cs)"

section \<open>What a vote does\<close>

text \<open>A module whose codecs round-trip, whose storage values are meta values at pairwise different keys, and
  whose events print.\<close>

definition gov_ok :: "'a gov_module \<Rightarrow> bool" where
  "gov_ok g \<longleftrightarrow>
     codec_ok (sv_codec (g_admin g)) \<and> codec_ok (sv_codec (g_authority g)) \<and>
     codec_ok (sv_codec (g_update_admin_proposal_id g)) \<and> codec_ok (sv_codec (g_update_admin_proposal g)) \<and>
     codec_ok (sv_codec (g_update_authority_proposal_id g)) \<and>
     codec_ok (sv_codec (g_update_authority_proposal g)) \<and>
     distinct [sv_key (g_admin g), sv_key (g_authority g), sv_key (g_update_admin_proposal_id g),
       sv_key (g_update_admin_proposal g), sv_key (g_update_authority_proposal_id g),
       sv_key (g_update_authority_proposal g)] \<and>
     (\<forall>name p. g_admin_event g name p \<noteq> None) \<and> (\<forall>name p. g_authority_event g name p \<noteq> None)"

text \<open>The specification of a vote: with the vote counted, the proposal passes when the weight of its voters
  reaches the threshold of the current administrators, and is stored with its votes otherwise.\<close>

definition passes :: "admin \<Rightarrow> address list \<Rightarrow> bool" where
  "passes adm vote \<longleftrightarrow> adm_threshold adm \<le> vote_sum (hm_collect (adm_members adm)) vote"

definition is_member :: "admin \<Rightarrow> address \<Rightarrow> bool" where
  "is_member adm a \<longleftrightarrow> hm_contains (hm_collect (adm_members adm)) a"

definition voted :: "address \<Rightarrow> update_admin_proposal \<Rightarrow> update_admin_proposal" where
  "voted a p = p\<lparr>uap_vote := add_vote a (uap_vote p)\<rparr>"

definition voted_authority :: "address \<Rightarrow> 'a update_authority_proposal \<Rightarrow> 'a update_authority_proposal" where
  "voted_authority a p = p\<lparr>uup_vote := add_vote a (uup_vote p)\<rparr>"

lemma add_vote_distinct: "distinct vote \<Longrightarrow> distinct (add_vote a vote)"
  by (simp add: add_vote_def)

lemma add_vote_set [simp]: "set (add_vote a vote) = insert a (set vote)"
  by (auto simp: add_vote_def)

lemma add_vote_idem [simp]: "add_vote a (add_vote a vote) = add_vote a vote"
  by (simp add: add_vote_def)

context context_laws
begin

lemma verify_sender_eq:
  assumes "inv s" "sv_view cx (g_admin g) s = Ok (Some adm)"
  shows "gov_verify_sender cx g a s =
    (if is_member adm a then (Ok (adm_threshold adm, hm_collect (adm_members adm)), s)
     else (Err (user_error ''Not admin''), s))"
  using assms by (auto simp: gov_verify_sender_def bind_def sv_get_eq Let_def fail_if_def is_member_def)

lemma admin_vote_and_pass:
  assumes "inv s" "gov_ok g" "sv_view cx (g_admin g) s = Ok (Some adm)"
  shows "\<exists>s'. gov_update_admin_vote_and_pass cx g a p (adm_threshold adm) (hm_collect (adm_members adm)) s = (Ok (), s')
    \<and> inv s' \<and> cx_env cx s' = cx_env cx s
    \<and> sv_view cx (g_admin g) s' = Ok (Some (if passes adm (add_vote a (uap_vote p)) then uap_admin p else adm))
    \<and> sv_view cx (g_update_admin_proposal g) s' =
        Ok (if passes adm (add_vote a (uap_vote p)) then None else Some (voted a p))
    \<and> sv_view cx (g_update_admin_proposal_id g) s' = Ok (Some (uap_proposal_id p + 1))
    \<and> sv_view cx (g_authority g) s' = sv_view cx (g_authority g) s
    \<and> sv_view cx (g_update_authority_proposal g) s' = sv_view cx (g_update_authority_proposal g) s
    \<and> sv_view cx (g_update_authority_proposal_id g) s' = sv_view cx (g_update_authority_proposal_id g) s"
proof -
  obtain j where j: "g_admin_event g name q = Some (j name q)" for name q
    using assms(2) by (auto simp: gov_ok_def) metis
  note go = assms(2) [unfolded gov_ok_def]
  show ?thesis
  proof (cases "passes adm (add_vote a (uap_vote p))")
    case True
    then show ?thesis
      using go assms(1,3)
      by (simp add: gov_update_admin_vote_and_pass_def passes_def bind_def Let_def emit_eq j sv_set_eq
          sv_delete_eq sv_view_upd sv_view_upd_key)
  next
    case False
    then show ?thesis
      using go assms(1,3)
      by (simp add: gov_update_admin_vote_and_pass_def passes_def bind_def Let_def emit_eq j sv_set_eq
          sv_delete_eq sv_view_upd sv_view_upd_key voted_def)
  qed
qed

lemma authority_vote_and_pass:
  assumes "inv s" "gov_ok g" "sv_view cx (g_admin g) s = Ok (Some adm)"
  shows "\<exists>s'. gov_update_authority_vote_and_pass cx g a p (adm_threshold adm) (hm_collect (adm_members adm)) s = (Ok (), s')
    \<and> inv s' \<and> cx_env cx s' = cx_env cx s
    \<and> sv_view cx (g_authority g) s' =
        (if passes adm (add_vote a (uup_vote p)) then Ok (Some (uup_authority p)) else sv_view cx (g_authority g) s)
    \<and> sv_view cx (g_update_authority_proposal g) s' =
        Ok (if passes adm (add_vote a (uup_vote p)) then None else Some (voted_authority a p))
    \<and> sv_view cx (g_update_authority_proposal_id g) s' = Ok (Some (uup_proposal_id p + 1))
    \<and> sv_view cx (g_admin g) s' = Ok (Some adm)
    \<and> sv_view cx (g_update_admin_proposal g) s' = sv_view cx (g_update_admin_proposal g) s
    \<and> sv_view cx (g_update_admin_proposal_id g) s' = sv_view cx (g_update_admin_proposal_id g) s"
proof -
  obtain j where j: "g_authority_event g name q = Some (j name q)" for name q
    using assms(2) by (auto simp: gov_ok_def) metis
  note go = assms(2) [unfolded gov_ok_def]
  show ?thesis
  proof (cases "passes adm (add_vote a (uup_vote p))")
    case True
    then show ?thesis
      using go assms(1,3)
      by (simp add: gov_update_authority_vote_and_pass_def passes_def bind_def Let_def emit_eq j sv_set_eq
          sv_delete_eq sv_view_upd sv_view_upd_key)
  next
    case False
    then show ?thesis
      using go assms(1,3)
      by (simp add: gov_update_authority_vote_and_pass_def passes_def bind_def Let_def emit_eq j sv_set_eq
          sv_delete_eq sv_view_upd sv_view_upd_key voted_authority_def)
  qed
qed

end

section \<open>The calls and their specification\<close>

datatype 'a gov_call =
    UpdateAdmin update_admin_params
  | UpdateAdminVote update_admin_vote_params
  | UpdateAuthority "'a update_authority_params"
  | UpdateAuthorityVote update_authority_vote_params

fun gov_exec :: "'c context_ops \<Rightarrow> 'a gov_module \<Rightarrow> address option \<Rightarrow> 'a gov_call \<Rightarrow> ('c, unit) mcomp" where
  "gov_exec cx g sender (UpdateAdmin p) = gov_update_admin cx g sender p"
| "gov_exec cx g sender (UpdateAdminVote p) = gov_update_admin_vote cx g sender p"
| "gov_exec cx g sender (UpdateAuthority p) = gov_update_authority cx g sender p"
| "gov_exec cx g sender (UpdateAuthorityVote p) = gov_update_authority_vote cx g sender p"

text \<open>The governance state of a module: administrators, authorities, pending proposals and next ids.\<close>

record 'a gov_state =
  gs_admin :: "admin option"
  gs_authority :: "'a option"
  gs_admin_proposal :: "update_admin_proposal option"
  gs_admin_id :: "u32 option"
  gs_authority_proposal :: "'a update_authority_proposal option"
  gs_authority_id :: "u32 option"

definition gov_abs :: "'c context_ops \<Rightarrow> 'a gov_module \<Rightarrow> 'c \<Rightarrow> 'a gov_state \<Rightarrow> bool" where
  "gov_abs cx g s st \<longleftrightarrow>
     sv_view cx (g_admin g) s = Ok (gs_admin st) \<and>
     sv_view cx (g_authority g) s = Ok (gs_authority st) \<and>
     sv_view cx (g_update_admin_proposal g) s = Ok (gs_admin_proposal st) \<and>
     sv_view cx (g_update_admin_proposal_id g) s = Ok (gs_admin_id st) \<and>
     sv_view cx (g_update_authority_proposal g) s = Ok (gs_authority_proposal st) \<and>
     sv_view cx (g_update_authority_proposal_id g) s = Ok (gs_authority_id st)"

text \<open>The abstract effect of a vote of the administrator \<open>a\<close> on a proposal.\<close>

definition spec_admin_vote :: "admin \<Rightarrow> address \<Rightarrow> update_admin_proposal \<Rightarrow> 'a gov_state \<Rightarrow> 'a gov_state" where
  "spec_admin_vote adm a q st = (let pass = passes adm (add_vote a (uap_vote q)) in st\<lparr>
     gs_admin := Some (if pass then uap_admin q else adm),
     gs_admin_proposal := (if pass then None else Some (voted a q)),
     gs_admin_id := Some (uap_proposal_id q + 1) \<rparr>)"

definition spec_authority_vote :: "admin \<Rightarrow> address \<Rightarrow> 'a update_authority_proposal \<Rightarrow> 'a gov_state \<Rightarrow> 'a gov_state" where
  "spec_authority_vote adm a q st = (let pass = passes adm (add_vote a (uup_vote q)) in st\<lparr>
     gs_authority := (if pass then Some (uup_authority q) else gs_authority st),
     gs_authority_proposal := (if pass then None else Some (voted_authority a q)),
     gs_authority_id := Some (uup_proposal_id q + 1) \<rparr>)"

definition next_id :: "u32 option \<Rightarrow> u32" where
  "next_id i = (case i of Some i \<Rightarrow> i | None \<Rightarrow> 1)"

definition spec_member :: "'a gov_state \<Rightarrow> address \<Rightarrow> admin module_result" where
  "spec_member st a = and_then (ok_or_else (user_error ''Admin not found'') (gs_admin st)) (\<lambda>adm.
     if is_member adm a then Ok adm else Err (user_error ''Not admin''))"

text \<open>The whole abstract transition: an error, or the next governance state.\<close>

fun gov_spec :: "address option \<Rightarrow> 'a gov_call \<Rightarrow> 'a gov_state \<Rightarrow> 'a gov_state module_result" where
  "gov_spec None c st = Err (EApplication Unsigned)"
| "gov_spec (Some a) (UpdateAdmin p) st =
     and_then (spec_member st a) (\<lambda>adm. Ok (spec_admin_vote adm a
       \<lparr> uap_proposal_id = next_id (gs_admin_id st), uap_admin = aggregate_admin (uaparams_admin p), uap_vote = [] \<rparr> st))"
| "gov_spec (Some a) (UpdateAdminVote p) st =
     and_then (ok_or_else (user_error ''Proposal not found'') (gs_admin_proposal st)) (\<lambda>q.
     if uap_proposal_id q \<noteq> uavparams_proposal_id p then Err (user_error ''Proposal id not match'')
     else and_then (spec_member st a) (\<lambda>adm. Ok (spec_admin_vote adm a q st)))"
| "gov_spec (Some a) (UpdateAuthority p) st =
     and_then (spec_member st a) (\<lambda>adm. Ok (spec_authority_vote adm a
       \<lparr> uup_proposal_id = next_id (gs_authority_id st), uup_authority = uuparams_authority p, uup_vote = [] \<rparr> st))"
| "gov_spec (Some a) (UpdateAuthorityVote p) st =
     and_then (ok_or_else (user_error ''Proposal not found'') (gs_authority_proposal st)) (\<lambda>q.
     if uup_proposal_id q \<noteq> uuvparams_proposal_id p then Err (user_error ''Proposal id not match'')
     else and_then (spec_member st a) (\<lambda>adm. Ok (spec_authority_vote adm a q st)))"

context context_laws
begin

lemma verify_sender_spec:
  assumes "inv s" "gov_abs cx g s st"
  shows "gov_verify_sender cx g a s =
    (and_then (spec_member st a) (\<lambda>adm. Ok (adm_threshold adm, hm_collect (adm_members adm))), s)"
  using assms
  by (auto simp: gov_verify_sender_def gov_abs_def bind_def sv_get_eq Let_def fail_if_def is_member_def
      spec_member_def ok_or_else_def split: option.splits)

lemma admin_vote_refines:
  assumes "inv s" "gov_ok g" "gov_abs cx g s st" "gs_admin st = Some adm"
  shows "\<exists>s'. gov_update_admin_vote_and_pass cx g a p (adm_threshold adm) (hm_collect (adm_members adm)) s = (Ok (), s')
    \<and> inv s' \<and> gov_abs cx g s' (spec_admin_vote adm a p st)"
proof -
  have "sv_view cx (g_admin g) s = Ok (Some adm)"
    using assms(3,4) by (simp add: gov_abs_def)
  from admin_vote_and_pass [OF assms(1,2) this, of a p] show ?thesis
    using assms(3) by (auto simp: gov_abs_def spec_admin_vote_def Let_def)
qed

lemma authority_vote_refines:
  assumes "inv s" "gov_ok g" "gov_abs cx g s st" "gs_admin st = Some adm"
  shows "\<exists>s'. gov_update_authority_vote_and_pass cx g a p (adm_threshold adm) (hm_collect (adm_members adm)) s = (Ok (), s')
    \<and> inv s' \<and> gov_abs cx g s' (spec_authority_vote adm a p st)"
proof -
  have "sv_view cx (g_admin g) s = Ok (Some adm)"
    using assms(3,4) by (simp add: gov_abs_def)
  from authority_vote_and_pass [OF assms(1,2) this, of a p] show ?thesis
    using assms(3,4) by (auto simp: gov_abs_def spec_authority_vote_def Let_def)
qed

lemma gov_abs_emit: "inv s \<Longrightarrow> gov_abs cx g (cx_ev cx e s) st = gov_abs cx g s st"
  by (simp add: gov_abs_def)

lemma spec_member_Ok: "spec_member st a = Ok adm \<longleftrightarrow> gs_admin st = Some adm \<and> is_member adm a"
  by (auto simp: spec_member_def ok_or_else_def split: option.splits)

text \<open>The concrete calls implement the specification: one lemma for each kind of call.\<close>

definition refines :: "'a gov_module \<Rightarrow> 'c \<Rightarrow> ('c, unit) mcomp \<Rightarrow> 'a gov_state module_result \<Rightarrow> bool" where
  "refines g s m r \<longleftrightarrow> (case r of
      Err e \<Rightarrow> m s = (Err e, s)
    | Ok st' \<Rightarrow> \<exists>s'. m s = (Ok (), s') \<and> inv s' \<and> gov_abs cx g s' st')"

lemma create_admin_refines:
  assumes inv: "inv s" and ok: "gov_ok g" and abs: "gov_abs cx g s st"
  shows "refines g s (gov_update_admin cx g (Some a) p) (gov_spec (Some a) (UpdateAdmin p) st)"
proof -
  obtain j where j: "g_admin_event g name q = Some (j name q)" for name q
    using ok by (auto simp: gov_ok_def) metis
  show ?thesis
  proof (cases "spec_member st a")
    case (Ok adm)
    then have adm: "gs_admin st = Some adm" by (simp add: spec_member_Ok)
    then show ?thesis
      using admin_vote_refines [OF _ ok _ adm, of "cx_ev cx _ s" a] inv abs Ok abs [unfolded gov_abs_def]
      by (auto simp: refines_def gov_update_admin_def bind_def verify_sender_spec [OF inv abs] sv_get_eq Let_def
          emit_eq j gov_abs_emit next_id_def)
  qed (simp add: refines_def gov_update_admin_def bind_def verify_sender_spec [OF inv abs])
qed

lemma vote_admin_refines:
  assumes inv: "inv s" and ok: "gov_ok g" and abs: "gov_abs cx g s st"
  shows "refines g s (gov_update_admin_vote cx g (Some a) p) (gov_spec (Some a) (UpdateAdminVote p) st)"
proof (cases "gs_admin_proposal st")
  case (Some q)
  note defs = refines_def gov_update_admin_vote_def bind_def verify_sender_spec [OF inv abs] sv_get_eq inv fail_if_def Some
  show ?thesis
  proof (cases "spec_member st a")
    case (Ok adm)
    then have adm: "gs_admin st = Some adm" by (simp add: spec_member_Ok)
    then show ?thesis
      using admin_vote_refines [OF inv ok abs adm, of a q] abs [unfolded gov_abs_def] Ok
      by (auto simp: defs)
  qed (use abs [unfolded gov_abs_def] in \<open>simp add: defs\<close>)
qed (use abs [unfolded gov_abs_def] in \<open>simp add: refines_def gov_update_admin_vote_def bind_def sv_get_eq inv\<close>)

lemma create_authority_refines:
  assumes inv: "inv s" and ok: "gov_ok g" and abs: "gov_abs cx g s st"
  shows "refines g s (gov_update_authority cx g (Some a) p) (gov_spec (Some a) (UpdateAuthority p) st)"
proof -
  obtain j where j: "g_authority_event g name q = Some (j name q)" for name q
    using ok by (auto simp: gov_ok_def) metis
  show ?thesis
  proof (cases "spec_member st a")
    case (Ok adm)
    then have adm: "gs_admin st = Some adm" by (simp add: spec_member_Ok)
    then show ?thesis
      using authority_vote_refines [OF _ ok _ adm, of "cx_ev cx _ s" a] inv abs Ok abs [unfolded gov_abs_def]
      by (auto simp: refines_def gov_update_authority_def bind_def verify_sender_spec [OF inv abs] sv_get_eq Let_def
          emit_eq j gov_abs_emit next_id_def)
  qed (simp add: refines_def gov_update_authority_def bind_def verify_sender_spec [OF inv abs])
qed

lemma vote_authority_refines:
  assumes inv: "inv s" and ok: "gov_ok g" and abs: "gov_abs cx g s st"
  shows "refines g s (gov_update_authority_vote cx g (Some a) p) (gov_spec (Some a) (UpdateAuthorityVote p) st)"
proof (cases "gs_authority_proposal st")
  case (Some q)
  note defs = refines_def gov_update_authority_vote_def bind_def verify_sender_spec [OF inv abs] sv_get_eq inv fail_if_def Some
  show ?thesis
  proof (cases "spec_member st a")
    case (Ok adm)
    then have adm: "gs_admin st = Some adm" by (simp add: spec_member_Ok)
    then show ?thesis
      using authority_vote_refines [OF inv ok abs adm, of a q] abs [unfolded gov_abs_def] Ok
      by (auto simp: defs)
  qed (use abs [unfolded gov_abs_def] in \<open>simp add: defs\<close>)
qed (use abs [unfolded gov_abs_def] in \<open>simp add: refines_def gov_update_authority_vote_def bind_def sv_get_eq inv\<close>)

lemma gov_exec_refines:
  assumes "inv s" "gov_ok g" "gov_abs cx g s st"
  shows "refines g s (gov_exec cx g sender c) (gov_spec sender c st)"
proof (cases sender)
  case None
  then show ?thesis
    by (cases c) (simp_all add: refines_def gov_update_admin_def gov_update_admin_vote_def
        gov_update_authority_def gov_update_authority_vote_def bind_def)
next
  case (Some a)
  then show ?thesis
    using create_admin_refines [OF assms] vote_admin_refines [OF assms] create_authority_refines [OF assms]
      vote_authority_refines [OF assms]
    by (cases c) simp_all
qed

end

end
