(* ===== verification/Executor_Laws.thy ===== *)
theory Executor_Laws
  imports Executor System_Module Governance
begin

text \<open>
  Transactions are atomic and batches are ordered. A computation is local to its transaction when it touches
  nothing but the transaction buffers and the events (\<open>tx_local\<close>); the modules only use
  the operations of the context, so their methods are local, and \<open>execute_tx\<close> then either
  takes the whole transaction over or leaves the context as it was.
\<close>

section \<open>Computations local to a transaction\<close>

text \<open>\<open>rollback_tx\<close> forgets exactly the transaction buffers and the events.\<close>

definition tx_local :: "exec_context \<Rightarrow> exec_context \<Rightarrow> bool" where
  "tx_local s0 s \<longleftrightarrow> exec_inv s \<and> rollback_tx s = rollback_tx s0"

lemma tx_local_refl: "exec_inv s \<Longrightarrow> tx_local s s"
  by (simp add: tx_local_def)

lemma keeps_exec_get [keeps_rules, intro]:
  "keeps (tx_local s0) (xc_meta_get k)" "keeps (tx_local s0) (xc_payload_get k)"
  by (simp_all add: keeps_def xc_op_defs)

lemma keeps_exec_set [keeps_rules, intro]:
  "keeps (tx_local s0) (xc_meta_set k v)" "keeps (tx_local s0) (xc_payload_set k v)"
  by (auto simp: keeps_def xc_op_defs tx_local_def rollback_tx_def exec_inv_def state_wf_def)

lemma keeps_exec_emit [keeps_rules, intro]: "keeps (tx_local s0) (xc_emit_event e)"
  by (auto simp: keeps_def xc_op_defs tx_local_def rollback_tx_def exec_inv_def state_wf_def)

lemma keeps_context_get [keeps_rules, intro]: "keeps (tx_local s0) (context_get exec_ops cv m k)"
  by (auto simp: context_get_def intro!: keeps_rules split: option.splits)

lemma keeps_context_set [keeps_rules, intro]: "keeps (tx_local s0) (context_set exec_ops cv m k x)"
  by (auto simp: context_set_def intro!: keeps_rules)

lemma keeps_context_delete [keeps_rules, intro]: "keeps (tx_local s0) (context_delete exec_ops m k)"
  by (auto simp: context_delete_def intro!: keeps_rules)

lemma keeps_storage [keeps_rules, intro]:
  "keeps (tx_local s0) (sv_get exec_ops sv)" "keeps (tx_local s0) (sv_set exec_ops sv x)"
  "keeps (tx_local s0) (sv_delete exec_ops sv)"
  "keeps (tx_local s0) (sm_get exec_ops sm k)" "keeps (tx_local s0) (sm_set exec_ops sm k y)"
  "keeps (tx_local s0) (sm_delete exec_ops sm k)"
  "keeps (tx_local s0) (sm_raw_get exec_ops sm b)" "keeps (tx_local s0) (sm_raw_set exec_ops sm b y)"
  by (auto simp: sv_get_def sv_set_def sv_delete_def sm_get_def sm_set_def sm_delete_def sm_raw_get_def
      sm_raw_set_def sm_raw_delete_def intro!: keeps_rules)

lemma keeps_emit [keeps_rules, intro]: "keeps (tx_local s0) (emit exec_ops json name d)"
  by (auto simp: emit_def intro!: keeps_rules)

section \<open>The methods of the modules are local\<close>

definition local_method :: "exec_context module_method \<Rightarrow> bool" where
  "local_method mm \<longleftrightarrow> (\<forall>s0 sender params.
     keeps (tx_local s0) (mm_validate mm sender params) \<and> keeps (tx_local s0) (mm_execute mm sender params))"

definition well_behaved :: "exec_context dispatcher \<Rightarrow> bool" where
  "well_behaved ds \<longleftrightarrow> (\<forall>m\<in>set ds. \<forall>mm\<in>set (dm_methods m). local_method mm)"

lemma local_method_mk [intro]:
  assumes "\<And>s0 sender p v. validate = Some v \<Longrightarrow> keeps (tx_local s0) (v sender p)"
    and "\<And>s0 sender p. keeps (tx_local s0) (execute sender p)"
  shows "local_method (mk_method name write cp cr validate execute)"
  using assms
  by (auto simp: local_method_def mk_method_def intro!: keeps_rules split: option.splits)

lemma balance_methods_local: "mm \<in> set (balance_methods exec_ops ut cs) \<Longrightarrow> local_method mm"
  by (auto simp: balance_methods_def balance_init_def balance_validate_init_def balance_get_balance_def
      balance_transfer_def balance_validate_transfer_def Let_def case_prod_unfold intro!: local_method_mk keeps_rules)

lemma system_methods_local: "mm \<in> set (system_methods exec_ops cs) \<Longrightarrow> local_method mm"
  by (auto simp: system_methods_def system_init_def system_validate_init_def system_get_meta_def Let_def
      intro!: local_method_mk keeps_rules)

lemma gov_vote_and_pass_local [keeps_rules]:
  "keeps (tx_local s0) (gov_update_admin_vote_and_pass exec_ops g a p t m)"
  "keeps (tx_local s0) (gov_update_authority_vote_and_pass exec_ops g a q t m)"
  by (auto simp: gov_update_admin_vote_and_pass_def gov_update_authority_vote_and_pass_def Let_def
      intro!: keeps_rules)

lemma gov_verify_sender_local [keeps_rules]: "keeps (tx_local s0) (gov_verify_sender exec_ops g a)"
  by (auto simp: gov_verify_sender_def Let_def intro!: keeps_rules)

lemma gov_methods_local: "mm \<in> set (gov_methods exec_ops cs g authority) \<Longrightarrow> local_method mm"
  by (auto simp: gov_methods_def gov_get_authority_def gov_get_admin_def gov_update_admin_def
      gov_update_admin_vote_def gov_update_authority_def gov_update_authority_vote_def Let_def case_prod_unfold
      intro!: local_method_mk keeps_rules)

lemma sv_expect_local [keeps_rules]: "keeps (tx_local s0) (sv_expect exec_ops sv)"
  by (auto simp: sv_expect_def intro!: keeps_rules)

lemma validate_members_local [keeps_rules]: "keeps (tx_local s0) (validate_members ut ms)"
  by (auto simp: validate_members_def case_prod_unfold intro!: keeps_rules)

lemma poa_methods_local: "mm \<in> set (poa_methods exec_ops ut cs) \<Longrightarrow> local_method mm"
  by (auto simp: poa_methods_def poa_init_def poa_validate_init_def poa_get_meta_def Let_def
      dest: gov_methods_local intro!: local_method_mk keeps_rules)

lemma raft_methods_local: "mm \<in> set (raft_methods exec_ops ut cs) \<Longrightarrow> local_method mm"
  by (auto simp: raft_methods_def raft_init_def raft_validate_init_def raft_get_meta_def Let_def
      dest: gov_methods_local intro!: local_method_mk keeps_rules)

lemma hotstuff_methods_local: "mm \<in> set (hotstuff_methods exec_ops ut cs) \<Longrightarrow> local_method mm"
  by (auto simp: hotstuff_methods_def hotstuff_init_def hotstuff_validate_init_def hotstuff_get_meta_def Let_def
      dest: gov_methods_local intro!: local_method_mk keeps_rules)

section \<open>Executing one transaction\<close>

lemma find_method_set: "find_method name ms = Some m \<Longrightarrow> m \<in> set ms"
  by (induction ms) (auto split: if_splits)

lemma find_module_set: "find_module name ds = Ok m \<Longrightarrow> m \<in> set ds"
  by (induction ds) (auto split: if_splits)

lemma keeps_dispatch_result [keeps_rules, intro]: "keeps I m \<Longrightarrow> keeps I (dispatch_result m)"
  by (auto simp: keeps_def dispatch_result_def split: prod.splits result.splits module_error.splits)

lemma dispatch_execute_call_local:
  assumes "well_behaved ds"
  shows "keeps (tx_local s0) (dispatch_execute_call ds name sender call)"
proof -
  have "keeps (tx_local s0) (module_execute_call (dm_methods m) sender call)" if "find_module name ds = Ok m" for m
    using assms find_module_set [OF that]
    by (auto simp: module_execute_call_def well_behaved_def local_method_def dest: find_method_set split: option.splits)
  then show ?thesis
    by (cases "find_module name ds")
      (auto simp: dispatch_execute_call_def keeps_def bind_def dispatch_result_def
        split: prod.splits result.splits module_error.splits)
qed

lemma settle_eq:
  "settle (Ok r) s = (Ok (Ok r, xc_events s), commit_tx s)"
  "settle (Err e) s = (Ok (Err e, []), rollback_tx s)"
  by (simp_all add: settle_def bind_def xc_op_defs commit_tx_def rollback_tx_def Let_def)

definition with_tx :: "full_transaction \<Rightarrow> exec_context \<Rightarrow> exec_context" where
  "with_tx ftx s = s\<lparr>xc_call_env := \<lparr>cenv_tx_hash = Some (ftx_hash ftx)\<rparr>\<rparr>"

lemma with_tx_simps [simp]:
  "exec_inv (with_tx ftx s) = exec_inv s" "committed_view (with_tx ftx s) = committed_view s"
  "xc_env (with_tx ftx s) = xc_env s" "xc_events (with_tx ftx s) = xc_events s"
  "xc_meta_txs (with_tx ftx s) = xc_meta_txs s" "xc_meta_receipts (with_tx ftx s) = xc_meta_receipts s"
  "xc_payload_txs (with_tx ftx s) = xc_payload_txs s" "xc_payload_receipts (with_tx ftx s) = xc_payload_receipts s"
  "xc_payload_phase (with_tx ftx s) = xc_payload_phase s"
  by (simp_all add: with_tx_def exec_inv_def committed_view_def fun_eq_iff)

text \<open>The call a transaction makes.\<close>

definition tx_call_run :: "('kp, 'ver) executor \<Rightarrow> exec_context dispatcher \<Rightarrow> full_transaction
    \<Rightarrow> (exec_context, opaque_call_result, common_error) comp" where
  "tx_call_run xe ds ftx = dispatch_execute_call ds (call_module (tx_call (ftx_tx ftx)))
     (tx_sender xe (ftx_tx ftx)) (tx_call (ftx_tx ftx))"

lemma execute_tx_eq:
  "execute_tx xe ds ftx s = (case tx_call_run xe ds ftx (with_tx ftx s) of
     (Err e, t) \<Rightarrow> (Err e, t)
   | (Ok r, t) \<Rightarrow> let (r', evs, t') = (case r of Ok b \<Rightarrow> (Ok b, xc_events t, commit_tx t) | Err e \<Rightarrow> (Err e, [], rollback_tx t)) in
       (Ok \<lparr> frc_receipt = \<lparr> rc_block_number = env_number (xc_env t'), rc_events = evs, rc_result = r' \<rparr>,
             frc_tx_hash = ftx_hash ftx \<rparr>, t'))"
  by (auto simp: execute_tx_def Let_def bind_def set_call_env_def tx_call_run_def with_tx_def settle_eq
      map_err_comp_def split: prod.splits result.splits)

lemma tx_call_run_local:
  assumes "well_behaved ds" "exec_inv s" "tx_call_run xe ds ftx (with_tx ftx s) = (r, t)"
  shows "exec_inv t" "rollback_tx t = rollback_tx (with_tx ftx s)"
proof -
  have "tx_local (with_tx ftx s) t"
    using dispatch_execute_call_local [OF assms(1)] assms(2,3) unfolding tx_call_run_def
    by (metis keepsD tx_local_refl with_tx_simps(1))
  then show "exec_inv t" "rollback_tx t = rollback_tx (with_tx ftx s)"
    by (auto simp: tx_local_def)
qed

text \<open>No transaction is in progress.\<close>

definition idle :: "exec_context \<Rightarrow> bool" where
  "idle s \<longleftrightarrow> cs_tx_buffer (xc_meta_state s) = [] \<and> cs_tx_buffer (xc_payload_state s) = [] \<and> xc_events s = []"

lemma idle_rollback [simp]: "idle (rollback_tx s)"
  by (simp add: idle_def rollback_tx_def)

lemma idle_commit [simp]: "idle (commit_tx s)"
  by (simp add: idle_def commit_tx_def Let_def)

lemma rollback_idle: "idle s \<Longrightarrow> rollback_tx s = s"
  by (simp add: idle_def rollback_tx_def)

text \<open>What the execution of a transaction cannot change.\<close>

definition same_base :: "exec_context \<Rightarrow> exec_context \<Rightarrow> bool" where
  "same_base s t \<longleftrightarrow> xc_env t = xc_env s \<and> xc_trie_root t = xc_trie_root s \<and>
     xc_meta_statedb t = xc_meta_statedb s \<and> xc_meta_state_root t = xc_meta_state_root s \<and>
     cs_getter (xc_meta_state t) = cs_getter (xc_meta_state s) \<and>
     xc_payload_statedb t = xc_payload_statedb s \<and> xc_payload_state_root t = xc_payload_state_root s \<and>
     cs_getter (xc_payload_state t) = cs_getter (xc_payload_state s)"

definition same_batch :: "exec_context \<Rightarrow> exec_context \<Rightarrow> bool" where
  "same_batch s t \<longleftrightarrow> same_base s t \<and> xc_meta_txs t = xc_meta_txs s \<and> xc_meta_receipts t = xc_meta_receipts s \<and>
     xc_payload_txs t = xc_payload_txs s \<and> xc_payload_receipts t = xc_payload_receipts s \<and>
     xc_payload_phase t = xc_payload_phase s"

lemma same_batch_refl [simp]: "same_batch s s"
  by (simp add: same_batch_def same_base_def)

lemma same_batch_trans: "same_batch s t \<Longrightarrow> same_batch t u \<Longrightarrow> same_batch s u"
  by (simp add: same_batch_def same_base_def)

lemma same_batch_rollback [simp]: "same_batch s (rollback_tx t) = same_batch s t"
  by (simp add: same_batch_def same_base_def rollback_tx_def)

lemma same_batch_commit [simp]: "same_batch s (commit_tx t) = same_batch s t"
  by (simp add: same_batch_def same_base_def commit_tx_def Let_def)

lemma rollback_same_batch: "rollback_tx t = rollback_tx s \<Longrightarrow> same_batch s t"
  by (metis same_batch_refl same_batch_rollback)

lemma execute_tx_frame:
  assumes "well_behaved ds" "exec_inv s" "execute_tx xe ds ftx s = (r, s')"
  shows "exec_inv s' \<and> same_batch s s' \<and> (is_ok r \<longrightarrow> idle s')"
proof -
  obtain q t where t: "tx_call_run xe ds ftx (with_tx ftx s) = (q, t)" by fastforce
  note loc = tx_call_run_local [OF assms(1,2) t]
  have "same_batch (with_tx ftx s) t"
    using loc(2) by (rule rollback_same_batch)
  then have "same_batch s t"
    by (simp add: same_batch_def same_base_def with_tx_def)
  then show ?thesis
    using assms(3) loc(1) by (auto simp: execute_tx_eq t Let_def split: result.splits)
qed

lemma execute_loop_frame:
  assumes "well_behaved ds" "exec_inv s" "execute_loop xe ds m rs txs s = (r, s')"
  shows "exec_inv s' \<and> same_batch s s'"
  using assms(2,3)
proof (induction txs arbitrary: m rs s)
  case (Cons ftx txs)
  show ?case
  proof (cases "execute_tx xe ds ftx s")
    case (Pair q t)
    note fr = execute_tx_frame [OF assms(1) Cons.prems(1) Pair]
    show ?thesis
      using Cons.prems(2) fr Cons.IH [of t] Cons.prems(1) same_batch_trans [of s t s']
      by (auto simp: bind_def Pair split: prod.splits result.splits option.splits if_splits)
  qed
qed auto

lemma execute_txs_frame:
  assumes "well_behaved ds" "exec_inv s" "execute_txs xe ds txs s = (r, s')"
  shows "exec_inv s' \<and> same_base s s'"
proof -
  obtain q t where loop: "execute_loop xe ds None [] txs s = (q, t)" by fastforce
  have "exec_inv t" "same_base s t"
    using execute_loop_frame [OF assms(1,2) loop] by (auto simp: same_batch_def)
  then show ?thesis
    using assms(3)
    by (auto simp: execute_txs_def bind_def loop same_base_def fail_if_def exec_inv_def
        split: result.splits prod.splits if_splits option.splits bool.splits)
qed

text \<open>A loop that succeeds has executed transactions of one kind and made a receipt for each, in order.\<close>

lemma execute_loop_Ok:
  assumes "execute_loop xe ds m rs txs s = (Ok (m', rs'), s')" "well_behaved ds" "exec_inv s"
  shows "(\<exists>new. rs' = rs @ new \<and> map frc_tx_hash new = map ftx_hash txs \<and>
      (\<forall>rc\<in>set new. rc_block_number (frc_receipt rc) = env_number (xc_env s)))
    \<and> (\<forall>ftx\<in>set txs. dispatch_is_meta ds (call_module (tx_call (ftx_tx ftx))) = Ok (the m'))
    \<and> (m = None \<longrightarrow> m' = None \<longleftrightarrow> txs = []) \<and> (m \<noteq> None \<longrightarrow> m' = m)"
  using assms(1,3)
proof (induction txs arbitrary: m rs s)
  case (Cons ftx txs)
  obtain b where b: "dispatch_is_meta ds (call_module (tx_call (ftx_tx ftx))) = Ok b" "m = None \<or> m = Some b"
    using Cons.prems(1) by (auto simp: bind_def split: result.splits option.splits if_splits)
  obtain rc t where t: "execute_tx xe ds ftx s = (Ok rc, t)"
      "execute_loop xe ds (Some b) (rs @ [rc]) txs t = (Ok (m', rs'), s')"
    using Cons.prems(1) b by (auto simp: bind_def split: prod.splits result.splits option.splits)
  have fr: "exec_inv t" "same_batch s t"
    using execute_tx_frame [OF assms(2) Cons.prems(2) t(1)] by auto
  have rc: "frc_tx_hash rc = ftx_hash ftx" "rc_block_number (frc_receipt rc) = env_number (xc_env t)"
    using t(1) by (auto simp: execute_tx_eq Let_def split: prod.splits result.splits)
  show ?case
    using Cons.IH [OF t(2) fr(1)] b fr(2) rc by (auto simp: same_batch_def same_base_def)
qed auto

section \<open>A concrete executor\<close>

text \<open>A signature algorithm whose signatures are the signed messages, and two modules.\<close>

definition ex_dsa :: "(bytes, bytes) dsa_impl" where
  "ex_dsa = \<lparr> dsa_key_pair_from_secret_key = Ok, dsa_public_key = (\<lambda>kp. kp), dsa_sign = (\<lambda>kp m. m),
     dsa_verifier_from_public_key = Ok,
     dsa_verify = (\<lambda>v m sig. if sig = m then Ok () else Err (CryptoError VerificationFailed)) \<rparr>"

definition ex_executor :: "(bytes, bytes) executor" where
  "ex_executor = executor_new \<lparr> hi_name = ''zero'', hi_length = HashLength32, hi_hash = (\<lambda>_. replicate 32 0) \<rparr> ex_dsa
     \<lparr> ai_length = AddressLength20, ai_address = (\<lambda>b. b) \<rparr> (\<lambda>_. ''address'')"

definition ex_dispatcher :: "exec_context dispatcher" where
  "ex_dispatcher = [
     \<lparr> dm_name = ''system'', dm_meta = True, dm_methods = system_methods exec_ops ex_system_codecs \<rparr>,
     \<lparr> dm_name = ''balance'', dm_meta = False,
       dm_methods = balance_methods exec_ops (util ex_executor) ex_balance_codecs \<rparr>]"

lemma ex_dispatcher_well_behaved [simp]: "well_behaved ex_dispatcher"
  by (auto simp: well_behaved_def ex_dispatcher_def dest: balance_methods_local system_methods_local)

text \<open>A committed state where Alice owns 10.\<close>

definition ex_committed :: exec_context where
  "ex_committed = commit_tx ex_accounts"

lemma ex_committed_facts [simp]: "exec_inv ex_committed" "idle ex_committed" "xc_payload_phase ex_committed = False"
  "xc_payload_phase (ex_committed\<lparr>xc_payload_phase := True\<rparr>)"
  by (simp_all add: ex_committed_def) (simp add: ex_accounts_def commit_tx_def Let_def sm_upd_def cx_upd_def
      cx_set_def xc_op_defs empty_context_def)

definition ex_tx :: "string \<Rightarrow> string \<Rightarrow> bytes \<Rightarrow> full_transaction" where
  "ex_tx module_name method_name key = \<lparr>
     ftx_tx = \<lparr> tx_witness = Some \<lparr> wit_public_key = PublicKey key, wit_signature = Signature [], wit_nonce = 1, wit_until = 10 \<rparr>,
                tx_call = \<lparr> call_module = module_name, call_method = method_name, call_params = Params [] \<rparr> \<rparr>,
     ftx_hash = Hash key \<rparr>"

lemma ex_tx_simps [simp]:
  "call_module (tx_call (ftx_tx (ex_tx a b k))) = a" "ftx_hash (ex_tx a b k) = Hash k"
  by (simp_all add: ex_tx_def)

lemma ex_is_meta [simp]:
  "dispatch_is_meta ex_dispatcher ''balance'' = Ok False" "dispatch_is_meta ex_dispatcher ''system'' = Ok True"
  by (simp_all add: dispatch_is_meta_def ex_dispatcher_def)

text \<open>Asking for the balance of an account.\<close>

lemma ex_tx_run:
  assumes "exec_inv s"
  shows "tx_call_run ex_executor ex_dispatcher (ex_tx ''balance'' ''get_balance'' key) s =
    (case account exec_ops ex_balance_codecs s (Address key) of
       Ok b \<Rightarrow> (Ok (Ok (enc word_codec (amount b))), s)
     | Err (ESystem e) \<Rightarrow> (Err e, s)
     | Err (EApplication e) \<Rightarrow> (Ok (Err (application_error_to_string e)), s))"
  using assms
  by (auto simp: tx_call_run_def dispatch_execute_call_def ex_dispatcher_def ex_tx_def module_execute_call_def
      balance_methods_def mk_method_def decode_params_def decode_def ex_balance_codecs_def unit_codec_def
      balance_get_balance_def bind_def ex.sm_get_eq dispatch_result_def tx_sender_def ex_executor_def executor_new_def
      account_def amount_def encode_def split: result.splits module_error.splits option.splits)

lemma with_tx_view [simp]: "cx_view exec_ops (with_tx ftx s) = cx_view exec_ops s"
  by (simp add: fun_eq_iff exec_view with_tx_def)

lemma ex_committed_account [simp]:
  assumes "cx_view exec_ops s = cx_view exec_ops ex_committed"
  shows "account exec_ops ex_balance_codecs s c = Ok (if c = alice then Some 10 else None)"
proof -
  have "cx_view exec_ops s = cx_view exec_ops ex_accounts"
    using assms by (simp add: fun_eq_iff ex_committed_def commit_tx_view(2))
  then have "account exec_ops ex_balance_codecs s c = account exec_ops ex_balance_codecs ex_accounts c"
    by (simp add: account_def sm_view_def)
  then show ?thesis by simp
qed

abbreviation ask_balance :: "bytes \<Rightarrow> full_transaction" where
  "ask_balance \<equiv> ex_tx ''balance'' ''get_balance''"

lemma ex_execute_tx:
  assumes "exec_inv s" "cx_view exec_ops s = cx_view exec_ops ex_committed" "idle s"
  shows "execute_tx ex_executor ex_dispatcher (ask_balance key) s =
    (Ok \<lparr> frc_receipt = \<lparr> rc_block_number = env_number (xc_env s), rc_events = [],
          rc_result = Ok (enc word_codec (if key = [1] then 10 else 0 :: balance)) \<rparr>, frc_tx_hash = Hash key \<rparr>,
     commit_tx (with_tx (ask_balance key) s))"
proof -
  have "xc_env (commit_tx (with_tx (ask_balance key) s)) = xc_env s"
    by (simp add: commit_tx_def Let_def)
  moreover have "xc_events s = []"
    using assms(3) by (simp add: idle_def)
  ultimately show ?thesis
    using assms(1,2) by (simp add: execute_tx_eq ex_tx_run amount_def alice_def)
qed

section \<open>Properties\<close>

text \<open>C2: a transaction is atomic. When its call succeeds, the committed state becomes what the call left and
  the receipt has its result and events; when the call fails with an application error, the committed state and
  everything else but the call environment are as before and the receipt has the error and no events. In both cases no
  trace of the transaction is left in the buffers.\<close>

theorem execute_tx_atomic:
  assumes "well_behaved ds" "exec_inv s" "idle s" "execute_tx xe ds ftx s = (Ok rc, s')"
  shows "idle s' \<and> exec_inv s' \<and> frc_tx_hash rc = ftx_hash ftx \<and>
    (case rc_result (frc_receipt rc) of
       Err e \<Rightarrow> s' = with_tx ftx s \<and> rc_events (frc_receipt rc) = []
     | Ok b \<Rightarrow> \<exists>t. tx_call_run xe ds ftx (with_tx ftx s) = (Ok (Ok b), t) \<and>
         (\<forall>m k. committed_view s' m k = cx_view exec_ops t m k) \<and>
         rc_events (frc_receipt rc) = xc_events t)"
proof -
  obtain q t where t: "tx_call_run xe ds ftx (with_tx ftx s) = (q, t)" by fastforce
  note loc = tx_call_run_local [OF assms(1,2) t]
  have "idle (with_tx ftx s)"
    using assms(3) by (simp add: idle_def with_tx_def)
  then have rb: "rollback_tx t = with_tx ftx s"
    by (simp add: loc(2) rollback_idle)
  have "frc_tx_hash rc = ftx_hash ftx"
    using assms(4) by (auto simp: execute_tx_eq t Let_def split: result.splits)
  then show ?thesis
    using execute_tx_frame [OF assms(1,2,4)] assms(4) rb loc(1) commit_tx_view(1) [OF loc(1)]
    by (auto simp: execute_tx_eq t Let_def split: result.splits)
qed

theorem execute_tx_atomic_witness:
  "\<exists>rc s'. execute_tx ex_executor ex_dispatcher (ask_balance [1]) ex_committed = (Ok rc, s') \<and>
    rc_result (frc_receipt rc) = Ok (enc word_codec (10 :: balance)) \<and> idle s' \<and> frc_tx_hash rc = Hash [1]"
  using execute_tx_atomic [OF ex_dispatcher_well_behaved ex_committed_facts(1,2) ex_execute_tx, of "[1]"]
    ex_execute_tx [of ex_committed "[1]"]
  by (auto simp: ex_tx_def)

text \<open>C5: a batch that executes has transactions of one kind, either all meta or all payload; the context then holds them,
  and one receipt for each in the same order and with the block's number, after those it held before, and nothing is
  added for the other kind.\<close>

theorem execute_txs_receipts:
  assumes "well_behaved ds" "exec_inv s" "execute_txs xe ds txs s = (Ok (), s')" "txs \<noteq> []"
  shows "\<exists>b new. (\<forall>ftx\<in>set txs. dispatch_is_meta ds (call_module (tx_call (ftx_tx ftx))) = Ok b) \<and>
    map frc_tx_hash new = map ftx_hash txs \<and>
    (\<forall>rc\<in>set new. rc_block_number (frc_receipt rc) = env_number (xc_env s)) \<and>
    (if b then xc_meta_txs s' = xc_meta_txs s @ txs \<and> xc_meta_receipts s' = xc_meta_receipts s @ new \<and>
       xc_payload_txs s' = xc_payload_txs s \<and> xc_payload_receipts s' = xc_payload_receipts s \<and> \<not> xc_payload_phase s
     else xc_payload_txs s' = xc_payload_txs s @ txs \<and> xc_payload_receipts s' = xc_payload_receipts s @ new \<and>
       xc_meta_txs s' = xc_meta_txs s \<and> xc_meta_receipts s' = xc_meta_receipts s \<and> xc_payload_phase s')"
proof -
  obtain m rs t where loop: "execute_loop xe ds None [] txs s = (Ok (m, rs), t)"
    using assms(3) by (auto simp: execute_txs_def bind_def split: prod.splits result.splits)
  have fr: "same_batch s t"
    using execute_loop_frame [OF assms(1,2) loop] by blast
  note ok = execute_loop_Ok [OF loop assms(1,2)]
  obtain b where b: "m = Some b"
    using ok assms(4) by (cases m) auto
  show ?thesis
    using assms(3) ok fr
    by (intro exI [of _ b] exI [of _ rs])
      (auto simp: execute_txs_def bind_def loop b same_batch_def fail_if_def split: if_splits)
qed

theorem execute_txs_receipts_witness:
  "\<exists>s' new. execute_txs ex_executor ex_dispatcher [ask_balance [1], ask_balance [2]] ex_committed = (Ok (), s') \<and>
    xc_payload_receipts s' = xc_payload_receipts ex_committed @ new \<and> map frc_tx_hash new = [Hash [1], Hash [2]]"
proof -
  let ?t = "commit_tx (with_tx (ask_balance [1]) ex_committed)"
  have t: "exec_inv ?t" "idle ?t" "cx_view exec_ops ?t = cx_view exec_ops ex_committed"
    by (simp_all add: fun_eq_iff commit_tx_view(2))
  obtain s' where run: "execute_txs ex_executor ex_dispatcher [ask_balance [1], ask_balance [2]] ex_committed = (Ok (), s')"
    using ex_execute_tx [of ex_committed "[1]"] ex_execute_tx [OF t(1,3,2), of "[2]"]
    by (simp add: execute_txs_def bind_def fail_if_def)
  from execute_txs_receipts [OF ex_dispatcher_well_behaved ex_committed_facts(1) run] run show ?thesis
    by auto
qed

text \<open>A batch that fails leaves no transaction and no receipt in the context: the lists that become the block are
  those of before.\<close>

theorem execute_txs_failed_batch:
  assumes "well_behaved ds" "exec_inv s" "execute_txs xe ds txs s = (Err e, s')"
  shows "exec_inv s' \<and> xc_env s' = xc_env s \<and> xc_meta_txs s' = xc_meta_txs s \<and> xc_meta_receipts s' = xc_meta_receipts s \<and>
    xc_payload_txs s' = xc_payload_txs s \<and> xc_payload_receipts s' = xc_payload_receipts s"
proof -
  obtain r t where loop: "execute_loop xe ds None [] txs s = (r, t)" by fastforce
  have "exec_inv t" "same_batch s t"
    using execute_loop_frame [OF assms(1,2) loop] by auto
  then show ?thesis
    using assms(3)
    by (auto simp: execute_txs_def bind_def loop same_batch_def same_base_def fail_if_def exec_inv_def
        split: result.splits prod.splits if_splits option.splits)
qed

theorem execute_txs_failed_batch_witness:
  "\<exists>e s'. execute_txs ex_executor ex_dispatcher [ex_tx ''nope'' ''init'' [1]] ex_committed = (Err e, s') \<and>
    xc_payload_txs s' = xc_payload_txs ex_committed"
proof -
  have "execute_txs ex_executor ex_dispatcher [ex_tx ''nope'' ''init'' [1]] ex_committed
      = (Err (ExecutorError (InvalidTxModule ''nope'')), ex_committed)"
    by (simp add: execute_txs_def bind_def dispatch_is_meta_def ex_dispatcher_def ex_tx_def)
  then obtain e s' where run: "execute_txs ex_executor ex_dispatcher [ex_tx ''nope'' ''init'' [1]] ex_committed = (Err e, s')"
    by blast
  then show ?thesis
    using execute_txs_failed_batch [OF ex_dispatcher_well_behaved ex_committed_facts(1) run] by blast
qed

text \<open>A batch that mixes meta and payload transactions, or a batch of meta transactions after payload
  transactions were executed in the same context, is never accepted.\<close>

theorem execute_txs_no_mixed_batch:
  assumes "well_behaved ds" "exec_inv s"
    and "(\<exists>x\<in>set txs. \<exists>y\<in>set txs. dispatch_is_meta ds (call_module (tx_call (ftx_tx x)))
           \<noteq> dispatch_is_meta ds (call_module (tx_call (ftx_tx y))))
      \<or> (xc_payload_phase s \<and> (\<exists>x\<in>set txs. dispatch_is_meta ds (call_module (tx_call (ftx_tx x))) = Ok True))"
  shows "\<not> is_ok (fst (execute_txs xe ds txs s))"
proof (rule ccontr)
  assume "\<not> \<not> is_ok (fst (execute_txs xe ds txs s))"
  then obtain s' where run: "execute_txs xe ds txs s = (Ok (), s')"
    by (cases "execute_txs xe ds txs s"; cases "fst (execute_txs xe ds txs s)") auto
  obtain m rs t where loop: "execute_loop xe ds None [] txs s = (Ok (m, rs), t)"
    using run by (auto simp: execute_txs_def bind_def split: prod.splits result.splits)
  note ok = execute_loop_Ok [OF loop assms(1,2)]
  have "same_batch s t"
    using execute_loop_frame [OF assms(1,2) loop] by blast
  moreover have "txs \<noteq> []" using assms(3) by auto
  ultimately show False
    using assms(3) ok run
    by (cases m) (auto simp: execute_txs_def bind_def loop same_batch_def split: if_splits)
qed

theorem execute_txs_no_mixed_batch_witness:
  "\<not> is_ok (fst (execute_txs ex_executor ex_dispatcher [ask_balance [1], ex_tx ''system'' ''get_meta'' [1]] ex_committed))"
  by (rule execute_txs_no_mixed_batch [OF ex_dispatcher_well_behaved ex_committed_facts(1)]) auto

text \<open>A transaction built with a secret key carries a witness that the same executor accepts, for every signature
  algorithm that verifies what it signs.\<close>

theorem build_tx_verifies:
  assumes "dsa_ok (xe_dsa xe)" "build_tx xe cm ds (Some (secret_key, nonce, until)) call = Ok tx"
  shows "verify_witness xe cm tx witness_required = Ok () \<and> tx_call tx = call \<and> is_ok (dispatch_check_call ds (call_module call) call)"
proof -
  obtain kp where kp: "dsa_key_pair_from_secret_key (xe_dsa xe) (secret_key_bytes secret_key) = Ok kp"
    using assms(2) by (auto simp: build_tx_def and_then_eq_Ok)
  then obtain v where "dsa_verifier_from_public_key (xe_dsa xe) (dsa_public_key (xe_dsa xe) kp) = Ok v"
    "\<And>m. dsa_verify (xe_dsa xe) v m (dsa_sign (xe_dsa xe) kp m) = Ok ()"
    using assms(1) unfolding dsa_ok_def by blast
  then show ?thesis
    using assms(2) kp by (auto simp: build_tx_def and_then_eq_Ok verify_witness_def encode_def)
qed

theorem build_tx_verifies_witness:
  "\<exists>tx. build_tx ex_executor (iso_codec (\<lambda>_. []) (\<lambda>_. (0, 0, \<lparr>call_module = [], call_method = [], call_params = Params []\<rparr>, Hash []))
        bytes_codec) ex_dispatcher (Some (SecretKey [7], 1, 10))
      \<lparr>call_module = ''balance'', call_method = ''get_balance'', call_params = Params []\<rparr> = Ok tx \<and>
    verify_witness ex_executor (iso_codec (\<lambda>_. []) (\<lambda>_. (0, 0, \<lparr>call_module = [], call_method = [], call_params = Params []\<rparr>, Hash []))
        bytes_codec) tx True = Ok ()"
proof -
  let ?cm = "iso_codec (\<lambda>_. []) (\<lambda>_. (0, 0, \<lparr>call_module = [], call_method = [], call_params = Params []\<rparr>, Hash [])) bytes_codec"
  let ?call = "\<lparr>call_module = ''balance'', call_method = ''get_balance'', call_params = Params []\<rparr>"
  have dsa: "dsa_ok (xe_dsa ex_executor)"
    by (simp add: dsa_ok_def ex_executor_def executor_new_def ex_dsa_def)
  have "is_ok (dispatch_check_call ex_dispatcher ''balance'' ?call)"
    by (simp add: dispatch_check_call_def ex_dispatcher_def module_check_call_def balance_methods_def mk_method_def
        ex_balance_codecs_def unit_codec_def)
  then obtain tx where tx: "build_tx ex_executor ?cm ex_dispatcher (Some (SecretKey [7], 1, 10)) ?call = Ok tx"
    by (cases "dispatch_check_call ex_dispatcher ''balance'' ?call")
      (auto simp: build_tx_def encode_def ex_executor_def executor_new_def ex_dsa_def)
  then show ?thesis
    using build_tx_verifies [OF dsa tx, of True] by blast
qed

text \<open>The hash of a transaction does not depend on its signature, so a re-signed transaction is the same
  transaction.\<close>

theorem hash_transaction_ignores_signature:
  "hash_transaction xe cs (tx\<lparr>tx_witness := Some (w\<lparr>wit_signature := sig\<rparr>)\<rparr>)
   = hash_transaction xe cs (tx\<lparr>tx_witness := Some w\<rparr>)"
  by (simp add: hash_transaction_def transaction_for_hash_signature)

end
