(* ===== verification/Governance_Votes.thy ===== *)
theory Governance_Votes
  imports Governance
begin

text \<open>
  Properties of the governance modules: the concrete calls refine the specification \<open>gov_spec\<close>, along every
  run of calls the votes of a pending proposal are those of the signers that stand behind it since it was made, the administrators
  or authorities change only with enough weight behind the change, and enough weight passes it.
\<close>

section \<open>Weights\<close>

definition weight :: "admin \<Rightarrow> address \<Rightarrow> nat" where
  "weight adm a = (case hm_get (hm_collect (adm_members adm)) a of Some w \<Rightarrow> unat w | None \<Rightarrow> 0)"

lemma unat_fold_add_le:
  "unat (fold (\<lambda>v x. x + (w v :: u32)) vs x) \<le> unat x + (\<Sum>v\<leftarrow>vs. unat (w v))"
proof (induction vs arbitrary: x)
  case (Cons v vs)
  have "unat (x + w v) \<le> unat x + unat (w v)"
    by (simp add: unat_word_ariths)
  then show ?case
    using Cons.IH [of "x + w v"] by simp
qed simp

lemma unat_fold_add_eq:
  "unat x + (\<Sum>v\<leftarrow>vs. unat (w v :: u32)) < 2 ^ 32 \<Longrightarrow>
     unat (fold (\<lambda>v x. x + w v) vs x) = unat x + (\<Sum>v\<leftarrow>vs. unat (w v))"
proof (induction vs arbitrary: x)
  case (Cons v vs)
  have "unat (x + w v) = unat x + unat (w v)"
    using Cons.prems by (simp add: unat_word_ariths)
  then show ?case
    using Cons.IH [of "x + w v"] Cons.prems by simp
qed simp

lemma weight_unfold:
  "unat (case hm_get (hm_collect (adm_members adm)) v of Some w \<Rightarrow> w | None \<Rightarrow> 0) = weight adm v"
  by (simp add: weight_def split: option.splits)

lemma vote_sum_le: "unat (vote_sum (hm_collect (adm_members adm)) vote) \<le> (\<Sum>v\<leftarrow>vote. weight adm v)"
  using unat_fold_add_le [of "\<lambda>v. case hm_get (hm_collect (adm_members adm)) v of Some w \<Rightarrow> w | None \<Rightarrow> 0" vote 0]
  by (simp add: vote_sum_def weight_unfold)

lemma vote_sum_eq:
  "(\<Sum>v\<leftarrow>vote. weight adm v) < 2 ^ 32 \<Longrightarrow>
     unat (vote_sum (hm_collect (adm_members adm)) vote) = (\<Sum>v\<leftarrow>vote. weight adm v)"
  using unat_fold_add_eq [of 0 "\<lambda>v. case hm_get (hm_collect (adm_members adm)) v of Some w \<Rightarrow> w | None \<Rightarrow> 0" vote]
  by (simp add: vote_sum_def weight_unfold)

lemma passes_weight:
  "passes adm vote \<Longrightarrow> distinct vote \<Longrightarrow> unat (adm_threshold adm) \<le> (\<Sum>v\<in>set vote. weight adm v)"
  using vote_sum_le [of adm vote] by (simp add: passes_def word_le_nat_alt sum_list_distinct_conv_sum_set)

text \<open>The weight a member list gives to an address, summed in 32 bits.\<close>

definition listed_weight :: "(address \<times> u32) list \<Rightarrow> address \<Rightarrow> u32" where
  "listed_weight ms a = (\<Sum>x\<leftarrow>filter (\<lambda>x. fst x = a) ms. snd x)"

lemma map_fst_update: "map fst (xs[i := (fst (xs ! i), w)]) = map fst xs"
proof (cases "i < length xs")
  case True
  then show ?thesis by (metis fst_conv list_update_id map_update nth_map)
qed (simp add: list_update_beyond)

lemma listed_weight_simps [simp]:
  "listed_weight [] a = 0"
  "listed_weight ((b, w) # ms) a = (if b = a then w else 0) + listed_weight ms a"
  "listed_weight (xs @ ys) a = listed_weight xs a + listed_weight ys a"
  by (simp_all add: listed_weight_def)

lemma listed_weight_update:
  assumes "i < length xs"
  shows "listed_weight (xs[i := (fst (xs ! i), snd (xs ! i) + w)]) a =
    listed_weight xs a + (if fst (xs ! i) = a then w else 0)"
  using assms
proof (induction xs arbitrary: i)
  case (Cons x xs)
  then show ?case by (cases i; cases x) auto
qed simp

lemma aggregate_members_spec:
  assumes "distinct (map fst acc)"
  shows "distinct (map fst (aggregate_members acc ms)) \<and>
    listed_weight (aggregate_members acc ms) a = listed_weight acc a + listed_weight ms a \<and>
    set (map fst (aggregate_members acc ms)) = set (map fst acc) \<union> {a. \<exists>w>0. (a, w) \<in> set ms}"
  using assms
proof (induction acc ms rule: aggregate_members.induct)
  case (2 acc b w ms)
  show ?case
  proof (cases "w > 0")
    case False
    then have "w = 0" by (simp add: word_gt_0)
    then show ?thesis using 2 by auto
  next
    case pos: True
    show ?thesis
    proof (cases "find_index (\<lambda>x. fst x = b) acc")
      case None
      then have "b \<notin> set (map fst acc)" by (auto simp: find_index_None)
      then show ?thesis
        using 2(1) [OF pos None] 2(4) pos None by auto
    next
      case (Some i)
      let ?acc = "acc[i := (fst (acc ! i), snd (acc ! i) + w)]"
      have i: "i < length acc" "fst (acc ! i) = b" using find_index_Some [OF Some] by auto
      then have b: "b \<in> set (map fst acc)" by (metis nth_map nth_mem length_map)
      have IH: "distinct (map fst (aggregate_members ?acc ms))"
        "listed_weight (aggregate_members ?acc ms) a = listed_weight ?acc a + listed_weight ms a"
        "set (map fst (aggregate_members ?acc ms)) = set (map fst acc) \<union> {a. \<exists>w>0. (a, w) \<in> set ms}"
        using 2(2) [OF pos Some] 2(4) by (simp_all only: map_fst_update)
      have "aggregate_members acc ((b, w) # ms) = aggregate_members ?acc ms"
        using pos Some by simp
      then show ?thesis
        using IH b i(2) pos listed_weight_update [OF i(1), of w a] by auto
    qed
  qed
qed simp

section \<open>Runs of calls\<close>

text \<open>What is recorded of a call: who signed it, the call, and its result.\<close>

type_synonym 'a gov_event = "address option \<times> 'a gov_call \<times> unit module_result"

text \<open>
  A history of a governance module from the context \<open>s0\<close>: calls with any outcome, which are recorded, interleaved with anything that
  leaves the state of the module as it is (other modules, committing a transaction, the next block).
\<close>

inductive gov_run :: "'a gov_module \<Rightarrow> exec_context \<Rightarrow> 'a gov_event list \<Rightarrow> exec_context \<Rightarrow> bool"
  for g s0 where
  gov_start: "gov_run g s0 [] s0"
| gov_called: "gov_run g s0 h s \<Longrightarrow> gov_exec exec_ops g sender c s = (r, s') \<Longrightarrow> gov_run g s0 (h @ [(sender, c, r)]) s'"
| gov_other: "gov_run g s0 h s \<Longrightarrow> exec_inv s' \<Longrightarrow> (\<And>st. gov_abs exec_ops g s st \<Longrightarrow> gov_abs exec_ops g s' st) \<Longrightarrow>
    gov_run g s0 h s'"

text \<open>
  Who stands behind the last proposal of a history, read off the recorded calls alone: the last accepted proposal with its signer, and the
  signers of the votes that were accepted since then. A new proposal starts over; calls that were refused do not count.
\<close>

definition back_admin :: "'a gov_event \<Rightarrow> (admin \<times> address set) option \<Rightarrow> (admin \<times> address set) option" where
  "back_admin ev b = (case ev of
     (Some a, UpdateAdmin p, Ok _) \<Rightarrow> Some (aggregate_admin (uaparams_admin p), {a})
   | (Some a, UpdateAdminVote p, Ok _) \<Rightarrow> map_option (\<lambda>(x, V). (x, insert a V)) b
   | _ \<Rightarrow> b)"

definition back_authority :: "'a gov_event \<Rightarrow> ('a \<times> address set) option \<Rightarrow> ('a \<times> address set) option" where
  "back_authority ev b = (case ev of
     (Some a, UpdateAuthority p, Ok _) \<Rightarrow> Some (uuparams_authority p, {a})
   | (Some a, UpdateAuthorityVote p, Ok _) \<Rightarrow> map_option (\<lambda>(x, V). (x, insert a V)) b
   | _ \<Rightarrow> b)"

definition admin_backing :: "'a gov_event list \<Rightarrow> (admin \<times> address set) option" where
  "admin_backing h = fold back_admin h None"

definition authority_backing :: "'a gov_event list \<Rightarrow> ('a \<times> address set) option" where
  "authority_backing h = fold back_authority h None"

lemma backing_refused:
  "admin_backing (h @ [(sender, c, Err e)]) = admin_backing h" "authority_backing (h @ [(sender, c, Err e)]) = authority_backing h"
  by (cases sender; cases c; simp add: admin_backing_def authority_backing_def back_admin_def back_authority_def)+

text \<open>The votes of a pending proposal are distinct, and are those of the addresses that stand behind it.\<close>

definition pending_ok :: "'a gov_event list \<Rightarrow> 'a gov_state \<Rightarrow> bool" where
  "pending_ok h st \<longleftrightarrow>
     (\<forall>q. gs_admin_proposal st = Some q \<longrightarrow> distinct (uap_vote q) \<and> admin_backing h = Some (uap_admin q, set (uap_vote q))) \<and>
     (\<forall>q. gs_authority_proposal st = Some q \<longrightarrow> distinct (uup_vote q) \<and> authority_backing h = Some (uup_authority q, set (uup_vote q)))"

lemma gov_spec_Ok_cases:
  assumes "gov_spec sender c st = Ok st'" "pending_ok h st"
  obtains (admin) a adm q where "sender = Some a" "gs_admin st = Some adm" "is_member adm a" "st' = spec_admin_vote adm a q st"
      "distinct (uap_vote q)" "admin_backing (h @ [(sender, c, Ok ())]) = Some (uap_admin q, insert a (set (uap_vote q)))"
      "authority_backing (h @ [(sender, c, Ok ())]) = authority_backing h"
    | (authority) a adm q where "sender = Some a" "gs_admin st = Some adm" "is_member adm a" "st' = spec_authority_vote adm a q st"
      "distinct (uup_vote q)" "authority_backing (h @ [(sender, c, Ok ())]) = Some (uup_authority q, insert a (set (uup_vote q)))"
      "admin_backing (h @ [(sender, c, Ok ())]) = admin_backing h"
proof -
  obtain a where a: "sender = Some a"
    using assms(1) by (cases sender) auto
  have member: "gs_admin st = Some adm \<and> is_member adm a" if "spec_member st a = Ok adm" for adm
    using that by (auto simp: spec_member_def ok_or_else_def split: option.splits if_splits)
  note backs = admin_backing_def authority_backing_def back_admin_def back_authority_def
  show thesis
  proof (cases c)
    case (UpdateAdmin p)
    then show thesis
      using assms(1) a member by (auto simp: and_then_eq_Ok backs intro!: admin)
  next
    case (UpdateAdminVote p)
    then obtain q adm where "gs_admin_proposal st = Some q" "spec_member st a = Ok adm" "st' = spec_admin_vote adm a q st"
      using assms(1) a by (auto simp: and_then_eq_Ok split: if_splits)
    then show thesis
      using assms(2) a member UpdateAdminVote by (intro admin [of a adm q]) (auto simp: pending_ok_def backs)
  next
    case (UpdateAuthority p)
    then show thesis
      using assms(1) a member by (auto simp: and_then_eq_Ok backs intro!: authority)
  next
    case (UpdateAuthorityVote p)
    then obtain q adm where "gs_authority_proposal st = Some q" "spec_member st a = Ok adm" "st' = spec_authority_vote adm a q st"
      using assms(1) a by (auto simp: and_then_eq_Ok split: if_splits)
    then show thesis
      using assms(2) a member UpdateAuthorityVote by (intro authority [of a adm q]) (auto simp: pending_ok_def backs)
  qed
qed

lemma gov_spec_pending:
  assumes "gov_spec sender c st = Ok st'" "pending_ok h st"
  shows "pending_ok (h @ [(sender, c, Ok ())]) st'"
  using assms
proof (cases rule: gov_spec_Ok_cases)
  case (admin a adm q)
  then show ?thesis
    using assms(2) by (auto simp: pending_ok_def spec_admin_vote_def Let_def voted_def add_vote_distinct)
next
  case (authority a adm q)
  then show ?thesis
    using assms(2) by (auto simp: pending_ok_def spec_authority_vote_def Let_def voted_authority_def add_vote_distinct)
qed

lemma gov_call_step:
  assumes "exec_inv s" "gov_ok g" "gov_abs exec_ops g s st" "gov_exec exec_ops g sender c s = (r, s')"
  shows "exec_inv s' \<and> (case gov_spec sender c st of
      Err e \<Rightarrow> r = Err e \<and> s' = s \<and> gov_abs exec_ops g s' st
    | Ok st' \<Rightarrow> r = Ok () \<and> gov_abs exec_ops g s' st')"
  using ex.gov_exec_refines [OF assms(1-3), of sender c] assms
  by (auto simp: ex.refines_def split: result.splits)

lemma gov_run_pending:
  assumes "gov_run g s0 h s" "exec_inv s0" "gov_ok g" "gov_abs exec_ops g s0 st0" "gs_admin_proposal st0 = None" "gs_authority_proposal st0 = None"
  shows "exec_inv s \<and> (\<exists>st. gov_abs exec_ops g s st \<and> pending_ok h st)"
  using assms(1)
proof induction
  case gov_start
  then show ?case
    using assms(2-6) by (auto simp: pending_ok_def)
next
  case (gov_called h s sender c r s')
  then obtain st where st: "exec_inv s" "gov_abs exec_ops g s st" "pending_ok h st"
    by blast
  note step = gov_call_step [OF st(1) assms(3) st(2) gov_called.hyps(2)]
  show ?case
  proof (cases "gov_spec sender c st")
    case (Ok st')
    then show ?thesis
      using step gov_spec_pending [OF Ok st(3)] by auto
  next
    case (Err e)
    then show ?thesis
      using step st(3) by (auto simp: pending_ok_def backing_refused)
  qed
qed blast

section \<open>The modules satisfy the requirements\<close>

definition gov_codecs_ok :: "'a gov_codecs \<Rightarrow> bool" where
  "gov_codecs_ok cs \<longleftrightarrow> codec_ok (gc_u32 cs) \<and> codec_ok (gc_admin cs) \<and> codec_ok (gc_authority cs) \<and>
     codec_ok (gc_admin_proposal cs) \<and> codec_ok (gc_authority_proposal cs) \<and>
     (\<forall>name p. gc_admin_event cs name p \<noteq> None) \<and> (\<forall>name p. gc_authority_event cs name p \<noteq> None)"

lemma gov_new_ok:
  assumes "gov_codecs_ok cs" "authority \<in> {''authority'', ''authorities''}"
  shows "gov_ok (gov_new c authority prefix cs)"
  using assms by (auto simp: gov_ok_def gov_new_def storage_value_new_def gov_codecs_ok_def)

text \<open>The three modules meet the requirements of the properties below whenever their codecs do.\<close>

lemma poa_gov_ok: "gov_codecs_ok (poac_gov cs) \<Longrightarrow> gov_ok (poa_new cs)"
  by (simp add: poa_new_def gov_new_ok)

lemma raft_gov_ok: "gov_codecs_ok (raftc_gov cs) \<Longrightarrow> gov_ok (raft_new cs)"
  by (simp add: raft_new_def gov_new_ok)

lemma hotstuff_gov_ok: "gov_codecs_ok (hsc_gov cs) \<Longrightarrow> gov_ok (hotstuff_new cs)"
  by (simp add: hotstuff_new_def gov_new_ok)

section \<open>A concrete module\<close>

definition admin_codec :: "admin codec" where
  "admin_codec = iso_codec (\<lambda>a. (adm_threshold a, adm_members a))
     (\<lambda>(t, m). \<lparr> adm_threshold = t, adm_members = m \<rparr>)
     (pair_codec word_codec (list_codec (pair_codec address_codec word_codec)))"

definition ex_gov_codecs :: "address gov_codecs" where
  "ex_gov_codecs = \<lparr>
     gc_block_interval = option_codec word_codec, gc_u64 = word_codec, gc_u32 = word_codec,
     gc_admin = admin_codec, gc_authority = address_codec,
     gc_admin_proposal = iso_codec (\<lambda>p. (uap_proposal_id p, uap_admin p, uap_vote p))
       (\<lambda>(i, a, v). \<lparr> uap_proposal_id = i, uap_admin = a, uap_vote = v \<rparr>)
       (pair_codec word_codec (pair_codec admin_codec (list_codec address_codec))),
     gc_authority_proposal = iso_codec (\<lambda>p. (uup_proposal_id p, uup_authority p, uup_vote p))
       (\<lambda>(i, a, v). \<lparr> uup_proposal_id = i, uup_authority = a, uup_vote = v \<rparr>)
       (pair_codec word_codec (pair_codec address_codec (list_codec address_codec))),
     gc_empty_params = unit_codec EmptyParams,
     gc_update_admin_params = iso_codec uaparams_admin (\<lambda>a. \<lparr> uaparams_admin = a \<rparr>) admin_codec,
     gc_update_admin_vote_params = iso_codec uavparams_proposal_id (\<lambda>i. \<lparr> uavparams_proposal_id = i \<rparr>) word_codec,
     gc_update_authority_params = iso_codec uuparams_authority (\<lambda>a. \<lparr> uuparams_authority = a \<rparr>) address_codec,
     gc_update_authority_vote_params = iso_codec uuvparams_proposal_id (\<lambda>i. \<lparr> uuvparams_proposal_id = i \<rparr>) word_codec,
     gc_unit = unit_codec (),
     gc_admin_event = (\<lambda>name p. Some (byte_str name)),
     gc_authority_event = (\<lambda>name p. Some (byte_str name)) \<rparr>"

lemma admin_codec_ok [simp]: "codec_ok admin_codec"
  unfolding admin_codec_def by (rule iso_codec_ok) simp_all

lemma ex_gov_codecs_ok: "gov_codecs_ok ex_gov_codecs"
  by (auto simp: gov_codecs_ok_def ex_gov_codecs_def intro!: iso_codec_ok)

definition ex_poa :: "address gov_module" where
  "ex_poa = gov_new poa_const ''authority'' ''UpdateAuthority'' ex_gov_codecs"

lemma ex_poa_ok [simp]: "gov_ok ex_poa"
  by (simp add: ex_poa_def gov_new_ok ex_gov_codecs_ok)

text \<open>Alice and Bob are administrators of weight 1 with threshold 2.\<close>

definition ex_admin :: admin where
  "ex_admin = \<lparr> adm_threshold = 2, adm_members = [(alice, 1), (bob, 1)] \<rparr>"

definition ex_gov_context :: exec_context where
  "ex_gov_context = sv_upd exec_ops (g_admin ex_poa) (Some ex_admin) (empty_context 1)"

definition ex_gov_state :: "address gov_state" where
  "ex_gov_state = \<lparr> gs_admin = Some ex_admin, gs_authority = None, gs_admin_proposal = None, gs_admin_id = None,
     gs_authority_proposal = None, gs_authority_id = None \<rparr>"

lemma ex_gov_context_inv [simp]: "exec_inv ex_gov_context"
  by (simp add: ex_gov_context_def)

lemma ex_gov_context_abs [simp]: "gov_abs exec_ops ex_poa ex_gov_context ex_gov_state"
  using ex_poa_ok unfolding gov_ok_def
  by (simp add: gov_abs_def ex_gov_context_def ex_gov_state_def ex.sv_view_upd ex.sv_view_upd_key)

lemma ex_admin_facts [simp]:
  "is_member ex_admin alice" "is_member ex_admin bob"
  "\<not> passes ex_admin [alice]" "passes ex_admin [alice, bob]" "adm_threshold ex_admin = 2"
  "weight ex_admin alice = 1" "weight ex_admin bob = 1"
  by (simp_all add: is_member_def passes_def vote_sum_def weight_def ex_admin_def hm_collect_def hm_contains_def
      word_le_nat_alt)

text \<open>Alice proposes Bob as the authority; her vote alone does not pass it.\<close>

definition ex_proposal :: "address update_authority_proposal" where
  "ex_proposal = \<lparr> uup_proposal_id = 1, uup_authority = bob, uup_vote = [alice] \<rparr>"

definition ex_gov_state1 :: "address gov_state" where
  "ex_gov_state1 = ex_gov_state\<lparr> gs_authority_proposal := Some ex_proposal, gs_authority_id := Some 2 \<rparr>"

lemma ex_gov_spec [simp]:
  "gov_spec (Some alice) (UpdateAuthority \<lparr>uuparams_authority = bob\<rparr>) ex_gov_state = Ok ex_gov_state1"
  "gov_spec (Some bob) (UpdateAuthorityVote \<lparr>uuvparams_proposal_id = 1\<rparr>) ex_gov_state1 =
     Ok (ex_gov_state1\<lparr> gs_authority := Some bob, gs_authority_proposal := None \<rparr>)"
  by (simp_all add: ex_gov_state1_def ex_gov_state_def ex_proposal_def spec_member_def spec_authority_vote_def
      voted_authority_def add_vote_def next_id_def)

declare gov_spec.simps [simp del] gov_exec.simps [simp del]

section \<open>Properties\<close>

text \<open>C4: the four governance calls of a module, on the executor's context, implement the specification
  \<open>gov_spec\<close>: a refused call reports the specified error and changes nothing, an accepted one leads to the
  specified administrators, authorities, pending proposals and proposal ids.\<close>

theorem gov_exec_implements_spec:
  assumes "exec_inv s" "gov_ok g" "gov_abs exec_ops g s st"
  shows "case gov_spec sender c st of
      Err e \<Rightarrow> gov_exec exec_ops g sender c s = (Err e, s)
    | Ok st' \<Rightarrow> \<exists>s'. gov_exec exec_ops g sender c s = (Ok (), s') \<and> exec_inv s' \<and> gov_abs exec_ops g s' st'"
  using ex.gov_exec_refines [OF assms, of sender c] by (simp add: ex.refines_def)

theorem gov_exec_implements_spec_witness:
  "\<exists>s'. gov_exec exec_ops ex_poa (Some alice) (UpdateAuthority \<lparr>uuparams_authority = bob\<rparr>) ex_gov_context = (Ok (), s')
    \<and> gov_abs exec_ops ex_poa s' ex_gov_state1"
  using gov_exec_implements_spec [OF ex_gov_context_inv ex_poa_ok ex_gov_context_abs,
      of "Some alice" "UpdateAuthority \<lparr>uuparams_authority = bob\<rparr>"]
  by auto

text \<open>C3: along any history of calls that starts without pending proposals, a call changes the authorities or the administrators only to
  what was proposed last, and only if the administrators in office that stand behind this very proposal hold together at least the
  threshold: the signer of the accepted proposal and the signers of the votes that were accepted since then, among them the signer of
  this call. Votes for a proposal that was replaced and calls that were refused do not count, nor does wrap-around of the sum.\<close>

theorem governance_change_needs_quorum:
  assumes "gov_run g s0 h s" "exec_inv s0" "gov_ok g"
    and "gov_abs exec_ops g s0 st0" "gs_admin_proposal st0 = None" "gs_authority_proposal st0 = None"
    and "sv_view exec_ops (g_admin g) s = Ok (Some adm)"
    and "gov_exec exec_ops g sender c s = (r, s')"
  shows "(sv_view exec_ops (g_authority g) s' \<noteq> sv_view exec_ops (g_authority g) s \<longrightarrow>
      (\<exists>a x V. sender = Some a \<and> is_member adm a \<and> a \<in> V \<and> authority_backing (h @ [(sender, c, r)]) = Some (x, V) \<and>
        sv_view exec_ops (g_authority g) s' = Ok (Some x) \<and> unat (adm_threshold adm) \<le> (\<Sum>v\<in>V. weight adm v))) \<and>
    (sv_view exec_ops (g_admin g) s' \<noteq> sv_view exec_ops (g_admin g) s \<longrightarrow>
      (\<exists>a x V. sender = Some a \<and> is_member adm a \<and> a \<in> V \<and> admin_backing (h @ [(sender, c, r)]) = Some (x, V) \<and>
        sv_view exec_ops (g_admin g) s' = Ok (Some x) \<and> unat (adm_threshold adm) \<le> (\<Sum>v\<in>V. weight adm v)))"
proof -
  obtain st where st: "exec_inv s" "gov_abs exec_ops g s st" "pending_ok h st"
    using gov_run_pending [OF assms(1-6)] by blast
  have adm: "gs_admin st = Some adm"
    using st(2) assms(7) by (simp add: gov_abs_def)
  note step = gov_call_step [OF st(1) assms(3) st(2) assms(8)]
  show ?thesis
  proof (cases "gov_spec sender c st")
    case (Err e)
    then show ?thesis
      using step by simp
  next
    case (Ok st')
    then have r: "r = Ok ()" "gov_abs exec_ops g s' st'"
      using step by simp_all
    from Ok st(3) show ?thesis
    proof (cases rule: gov_spec_Ok_cases)
      case (admin a adm' q)
      then show ?thesis
        using st(2) r adm passes_weight [of adm "add_vote a (uap_vote q)"]
        by (auto simp: gov_abs_def spec_admin_vote_def Let_def add_vote_distinct)
    next
      case (authority a adm' q)
      then show ?thesis
        using st(2) r adm passes_weight [of adm "add_vote a (uup_vote q)"]
        by (auto simp: gov_abs_def spec_authority_vote_def Let_def add_vote_distinct)
    qed
  qed
qed

text \<open>Alice has proposed Bob as the authority.\<close>

lemma ex_gov_run:
  obtains s where "gov_run ex_poa ex_gov_context [(Some alice, UpdateAuthority \<lparr>uuparams_authority = bob\<rparr>, Ok ())] s" "exec_inv s"
    "gov_abs exec_ops ex_poa s ex_gov_state1"
proof -
  obtain s where s: "gov_exec exec_ops ex_poa (Some alice) (UpdateAuthority \<lparr>uuparams_authority = bob\<rparr>) ex_gov_context = (Ok (), s)"
    "exec_inv s" "gov_abs exec_ops ex_poa s ex_gov_state1"
    using ex.gov_exec_refines [OF ex_gov_context_inv ex_poa_ok ex_gov_context_abs, of "Some alice" "UpdateAuthority \<lparr>uuparams_authority = bob\<rparr>"]
    by (auto simp: ex.refines_def)
  then show thesis
    using that gov_called [OF gov_start s(1)] by simp
qed

lemma ex_gov_views:
  "gov_abs exec_ops ex_poa s ex_gov_state1 \<Longrightarrow> sv_view exec_ops (g_admin ex_poa) s = Ok (Some ex_admin)"
  "gov_abs exec_ops ex_poa s ex_gov_state1 \<Longrightarrow> sv_view exec_ops (g_authority ex_poa) s = Ok None"
  "gov_abs exec_ops ex_poa s ex_gov_state1 \<Longrightarrow> sv_view exec_ops (g_update_authority_proposal ex_poa) s = Ok (Some ex_proposal)"
  by (simp_all add: gov_abs_def ex_gov_state1_def ex_gov_state_def)

theorem governance_change_needs_quorum_witness:
  "\<exists>s s'. gov_run ex_poa ex_gov_context [(Some alice, UpdateAuthority \<lparr>uuparams_authority = bob\<rparr>, Ok ())] s
    \<and> gov_exec exec_ops ex_poa (Some bob) (UpdateAuthorityVote \<lparr>uuvparams_proposal_id = 1\<rparr>) s = (Ok (), s')
    \<and> sv_view exec_ops (g_authority ex_poa) s = Ok None \<and> sv_view exec_ops (g_authority ex_poa) s' = Ok (Some bob)
    \<and> 2 \<le> (\<Sum>v\<in>{alice, bob}. weight ex_admin v)"
proof -
  let ?create = "UpdateAuthority \<lparr>uuparams_authority = bob\<rparr>" and ?vote = "UpdateAuthorityVote \<lparr>uuvparams_proposal_id = 1\<rparr>"
  obtain s where s: "gov_run ex_poa ex_gov_context [(Some alice, ?create, Ok ())] s" "exec_inv s" "gov_abs exec_ops ex_poa s ex_gov_state1"
    by (rule ex_gov_run)
  obtain s' where s': "gov_exec exec_ops ex_poa (Some bob) ?vote s = (Ok (), s')"
    "gov_abs exec_ops ex_poa s' (ex_gov_state1\<lparr> gs_authority := Some bob, gs_authority_proposal := None \<rparr>)"
    using ex.gov_exec_refines [OF s(2) ex_poa_ok s(3), of "Some bob" ?vote] by (auto simp: ex.refines_def)
  have new: "sv_view exec_ops (g_authority ex_poa) s' = Ok (Some bob)"
    using s'(2) by (simp add: gov_abs_def)
  have backs: "authority_backing [(Some alice, ?create, Ok ()), (Some bob, ?vote, Ok ())] = Some (bob, {bob, alice})"
    by (simp add: authority_backing_def back_authority_def)
  have "unat (adm_threshold ex_admin) \<le> (\<Sum>v\<in>{bob, alice}. weight ex_admin v)"
    using governance_change_needs_quorum [OF s(1) ex_gov_context_inv ex_poa_ok ex_gov_context_abs _ _ ex_gov_views(1) [OF s(3)] s'(1)]
      new ex_gov_views(2) [OF s(3)] backs by (simp add: ex_gov_state_def)
  then show ?thesis
    using s(1) s'(1) new ex_gov_views(2) [OF s(3)] by (auto simp: insert_commute)
qed

definition enough_weight :: "admin \<Rightarrow> address set \<Rightarrow> bool" where
  "enough_weight adm V \<longleftrightarrow> unat (adm_threshold adm) \<le> (\<Sum>v\<in>V. weight adm v) \<and> (\<Sum>v\<in>V. weight adm v) < 2 ^ 32"

lemma enough_weight_passes:
  assumes "enough_weight adm (insert a (set vote))" "distinct vote"
  shows "passes adm (add_vote a vote)"
proof -
  have "(\<Sum>v\<leftarrow>add_vote a vote. weight adm v) = (\<Sum>v\<in>insert a (set vote). weight adm v)"
    using assms(2) by (simp add: sum_list_distinct_conv_sum_set add_vote_distinct)
  then show ?thesis
    using assms(1) vote_sum_eq [of adm "add_vote a vote"] by (simp add: passes_def word_le_nat_alt enough_weight_def)
qed

text \<open>C35: along any history of calls that starts without pending proposals, a vote by an administrator for the pending proposal of
  authorities or of administrators passes it when the weights of its voters with this one reach the threshold and 32 bits can count
  them: what was proposed takes office and the proposal is removed.\<close>

theorem governance_enough_weight_passes:
  assumes "gov_run g s0 h s" "exec_inv s0" "gov_ok g"
    and "gov_abs exec_ops g s0 st0" "gs_admin_proposal st0 = None" "gs_authority_proposal st0 = None"
    and "sv_view exec_ops (g_admin g) s = Ok (Some adm)" "is_member adm a"
  shows "(\<forall>q. sv_view exec_ops (g_update_authority_proposal g) s = Ok (Some q) \<and> enough_weight adm (insert a (set (uup_vote q))) \<longrightarrow>
      (\<exists>s'. gov_exec exec_ops g (Some a) (UpdateAuthorityVote \<lparr>uuvparams_proposal_id = uup_proposal_id q\<rparr>) s = (Ok (), s') \<and>
        sv_view exec_ops (g_authority g) s' = Ok (Some (uup_authority q)) \<and> sv_view exec_ops (g_update_authority_proposal g) s' = Ok None)) \<and>
    (\<forall>q. sv_view exec_ops (g_update_admin_proposal g) s = Ok (Some q) \<and> enough_weight adm (insert a (set (uap_vote q))) \<longrightarrow>
      (\<exists>s'. gov_exec exec_ops g (Some a) (UpdateAdminVote \<lparr>uavparams_proposal_id = uap_proposal_id q\<rparr>) s = (Ok (), s') \<and>
        sv_view exec_ops (g_admin g) s' = Ok (Some (uap_admin q)) \<and> sv_view exec_ops (g_update_admin_proposal g) s' = Ok None))"
proof -
  obtain st where st: "exec_inv s" "gov_abs exec_ops g s st" "pending_ok h st"
    using gov_run_pending [OF assms(1-6)] by blast
  have adm: "gs_admin st = Some adm"
    using st(2) assms(7) by (simp add: gov_abs_def)
  have authority: "\<exists>s'. gov_exec exec_ops g (Some a) (UpdateAuthorityVote \<lparr>uuvparams_proposal_id = uup_proposal_id q\<rparr>) s = (Ok (), s') \<and>
      gov_abs exec_ops g s' (spec_authority_vote adm a q st)" if "gs_authority_proposal st = Some q" for q
    using ex.gov_exec_refines [OF st(1) assms(3) st(2), of "Some a" "UpdateAuthorityVote \<lparr>uuvparams_proposal_id = uup_proposal_id q\<rparr>"]
      adm assms(8) that by (auto simp: gov_spec.simps ex.refines_def spec_member_def)
  have admin: "\<exists>s'. gov_exec exec_ops g (Some a) (UpdateAdminVote \<lparr>uavparams_proposal_id = uap_proposal_id q\<rparr>) s = (Ok (), s') \<and>
      gov_abs exec_ops g s' (spec_admin_vote adm a q st)" if "gs_admin_proposal st = Some q" for q
    using ex.gov_exec_refines [OF st(1) assms(3) st(2), of "Some a" "UpdateAdminVote \<lparr>uavparams_proposal_id = uap_proposal_id q\<rparr>"]
      adm assms(8) that by (auto simp: gov_spec.simps ex.refines_def spec_member_def)
  have distinct: "distinct (uup_vote q)" if "gs_authority_proposal st = Some q" for q
    using st(3) that by (simp add: pending_ok_def)
  have distinct': "distinct (uap_vote q)" if "gs_admin_proposal st = Some q" for q
    using st(3) that by (simp add: pending_ok_def)
  have pending: "sv_view exec_ops (g_update_authority_proposal g) s = Ok (gs_authority_proposal st)"
      "sv_view exec_ops (g_update_admin_proposal g) s = Ok (gs_admin_proposal st)"
    using st(2) by (simp_all add: gov_abs_def)
  show ?thesis
    unfolding pending
  proof (intro conjI allI impI; elim conjE)
    fix q
    assume "Ok (gs_authority_proposal st) = Ok (Some q)" "enough_weight adm (insert a (set (uup_vote q)))"
    then show "\<exists>s'. gov_exec exec_ops g (Some a) (UpdateAuthorityVote \<lparr>uuvparams_proposal_id = uup_proposal_id q\<rparr>) s = (Ok (), s') \<and>
        sv_view exec_ops (g_authority g) s' = Ok (Some (uup_authority q)) \<and> sv_view exec_ops (g_update_authority_proposal g) s' = Ok None"
      using authority [of q] distinct [of q] enough_weight_passes [of adm a "uup_vote q"] by (auto simp: spec_authority_vote_def gov_abs_def)
  next
    fix q
    assume "Ok (gs_admin_proposal st) = Ok (Some q)" "enough_weight adm (insert a (set (uap_vote q)))"
    then show "\<exists>s'. gov_exec exec_ops g (Some a) (UpdateAdminVote \<lparr>uavparams_proposal_id = uap_proposal_id q\<rparr>) s = (Ok (), s') \<and>
        sv_view exec_ops (g_admin g) s' = Ok (Some (uap_admin q)) \<and> sv_view exec_ops (g_update_admin_proposal g) s' = Ok None"
      using admin [of q] distinct' [of q] enough_weight_passes [of adm a "uap_vote q"] by (auto simp: spec_admin_vote_def gov_abs_def)
  qed
qed

theorem governance_enough_weight_passes_witness:
  "\<exists>s s'. gov_run ex_poa ex_gov_context [(Some alice, UpdateAuthority \<lparr>uuparams_authority = bob\<rparr>, Ok ())] s
    \<and> gov_exec exec_ops ex_poa (Some bob) (UpdateAuthorityVote \<lparr>uuvparams_proposal_id = 1\<rparr>) s = (Ok (), s')
    \<and> sv_view exec_ops (g_authority ex_poa) s' = Ok (Some bob)"
proof -
  obtain s where s: "gov_run ex_poa ex_gov_context [(Some alice, UpdateAuthority \<lparr>uuparams_authority = bob\<rparr>, Ok ())] s"
      "gov_abs exec_ops ex_poa s ex_gov_state1"
    by (rule ex_gov_run)
  have "enough_weight ex_admin (insert bob (set (uup_vote ex_proposal)))"
    by (simp add: enough_weight_def ex_proposal_def)
  then show ?thesis
    using governance_enough_weight_passes [OF s(1) ex_gov_context_inv ex_poa_ok ex_gov_context_abs _ _ ex_gov_views(1) [OF s(2)], of bob]
      ex_gov_views(3) [OF s(2)] s(1) by (fastforce simp: ex_gov_state_def ex_proposal_def)
qed

text \<open>voting twice counts once: when the vote of an administrator did not pass the proposal, a second
  vote by the same administrator leaves the whole governance state as it was after the first.\<close>

theorem governance_double_vote:
  assumes "exec_inv s" "gov_ok g" "gov_abs exec_ops g s st"
    and "gov_exec exec_ops g (Some a) (UpdateAuthorityVote p) s = (Ok (), s')" "gov_abs exec_ops g s' st'"
    and "gs_authority_proposal st' \<noteq> None"
    and "gov_exec exec_ops g (Some a) (UpdateAuthorityVote p) s' = (r, s'')"
  shows "r = Ok () \<and> gov_abs exec_ops g s'' st'"
proof -
  obtain q adm where q: "gs_authority_proposal st = Some q" "uup_proposal_id q = uuvparams_proposal_id p"
    "gs_admin st = Some adm" "is_member adm a" and spec: "gov_spec (Some a) (UpdateAuthorityVote p) st = Ok (spec_authority_vote adm a q st)"
    and "exec_inv s'" "gov_abs exec_ops g s' (spec_authority_vote adm a q st)"
    using gov_call_step [OF assms(1-4)]
    by (auto simp: gov_spec.simps and_then_eq_Ok spec_member_def ok_or_else_def
        split: result.splits option.splits if_splits)
  then have st': "st' = spec_authority_vote adm a q st"
    using assms(5) by (simp add: gov_abs_def)
  have np: "\<not> passes adm (add_vote a (uup_vote q))"
    using assms(6) by (auto simp: st' spec_authority_vote_def Let_def)
  have "gov_spec (Some a) (UpdateAuthorityVote p) st' = Ok st'"
    using np q by (simp add: gov_spec.simps st' spec_authority_vote_def Let_def voted_authority_def spec_member_def)
  then show ?thesis
    using gov_call_step [OF \<open>exec_inv s'\<close> assms(2,5,7)] by simp
qed

theorem governance_double_vote_witness:
  "\<exists>s s' r s''. gov_exec exec_ops ex_poa (Some alice) (UpdateAuthorityVote \<lparr>uuvparams_proposal_id = 1\<rparr>) s = (Ok (), s')
    \<and> gov_exec exec_ops ex_poa (Some alice) (UpdateAuthorityVote \<lparr>uuvparams_proposal_id = 1\<rparr>) s' = (r, s'')
    \<and> r = Ok () \<and> gov_abs exec_ops ex_poa s'' ex_gov_state1"
proof -
  let ?vote = "UpdateAuthorityVote \<lparr>uuvparams_proposal_id = 1\<rparr>"
  obtain s where s: "exec_inv s" "gov_abs exec_ops ex_poa s ex_gov_state1"
    using ex.gov_exec_refines [OF ex_gov_context_inv ex_poa_ok ex_gov_context_abs, of "Some alice"
        "UpdateAuthority \<lparr>uuparams_authority = bob\<rparr>"]
    by (auto simp: ex.refines_def)
  have "gov_spec (Some alice) ?vote ex_gov_state1 = Ok ex_gov_state1"
    by (simp add: gov_spec.simps ex_gov_state1_def ex_gov_state_def ex_proposal_def spec_member_def
        spec_authority_vote_def voted_authority_def add_vote_def)
  then obtain s' where s': "gov_exec exec_ops ex_poa (Some alice) ?vote s = (Ok (), s')" "gov_abs exec_ops ex_poa s' ex_gov_state1"
    using ex.gov_exec_refines [OF s(1) ex_poa_ok s(2), of "Some alice" ?vote] by (auto simp: ex.refines_def)
  obtain r s'' where r: "gov_exec exec_ops ex_poa (Some alice) ?vote s' = (r, s'')" by fastforce
  have "gs_authority_proposal ex_gov_state1 \<noteq> None"
    by (simp add: ex_gov_state1_def)
  then show ?thesis
    using governance_double_vote [OF s(1) ex_poa_ok s(2) s' _ r] s' r by blast
qed

text \<open>The administrators of a proposal are aggregated from the submitted list: the threshold is kept, every address is listed
  once, exactly the addresses submitted with a positive weight are listed, and the weight of an address is
  the (32 bit) sum of the weights submitted for it.\<close>

theorem aggregate_admin_spec:
  "adm_threshold (aggregate_admin adm) = adm_threshold adm \<and>
   distinct (map fst (adm_members (aggregate_admin adm))) \<and>
   (\<forall>a. a \<in> fst ` set (adm_members (aggregate_admin adm)) \<longleftrightarrow> (\<exists>w>0. (a, w) \<in> set (adm_members adm))) \<and>
   (\<forall>a. listed_weight (adm_members (aggregate_admin adm)) a = listed_weight (adm_members adm) a)"
  using aggregate_members_spec [of "[]" "adm_members adm"] by (auto simp: aggregate_admin_def)

end
