(* ===== verification/Txpool.thy ===== *)
theory Txpool
  imports Primitives
begin

text \<open>
  The transaction pool (\<^verbatim>\<open>core/node/txpool\<close>). The pool is a concurrent map, a channel (\<open>buffer\<close>) and
  a queue that a task fills from the channel. \<open>txpool_insert\<close> is the whole operation as one thread runs
  it; \<open>pool_step\<close> interleaves the atomic steps of several threads, the channel task and removals.

  The support trait (the chain, seen from the pool) is the record \<open>txpool_support\<close>.
\<close>

section \<open>State and operations\<close>

record txpool_support =
  tps_hash_transaction :: "transaction \<Rightarrow> hash common_result"
  tps_validate_transaction :: "hash \<Rightarrow> transaction \<Rightarrow> bool \<Rightarrow> unit common_result"
  tps_hex :: "bytes \<Rightarrow> string"

datatype txpool_out_message = TxInserted hash

text \<open>The fields of \<open>TxPool\<close>; a channel is its pending messages and whether its receiver still exists.\<close>

record txpool =
  tp_pool_capacity :: nat
  tp_map :: "(hash, full_transaction) hmap"
  tp_queue :: "full_transaction list"
  tp_buffer :: "full_transaction list"
  tp_buffer_open :: bool
  tp_messages :: "txpool_out_message list"
  tp_message_open :: bool
  tp_message_rx :: bool

type_synonym 'a pool_comp = "(txpool, 'a, common_error) comp"

definition txpool_new :: "nat \<Rightarrow> txpool" where
  "txpool_new capacity = \<lparr> tp_pool_capacity = capacity, tp_map = [], tp_queue = [], tp_buffer = [],
     tp_buffer_open = True, tp_messages = [], tp_message_open = True, tp_message_rx = True \<rparr>"

definition duplicated_tx :: "txpool_support \<Rightarrow> hash \<Rightarrow> common_error" where
  "duplicated_tx supp tx_hash = TxPoolError (InsertError (DuplicatedTx (tps_hex supp (hash_bytes tx_hash))))"

definition check_capacity :: "unit pool_comp" where
  "check_capacity p = fail_if (length (tp_map p) \<ge> tp_pool_capacity p)
     (TxPoolError (InsertError (ExceedCapacity (tp_pool_capacity p)))) p"

definition contain :: "hash \<Rightarrow> txpool \<Rightarrow> bool" where
  "contain tx_hash p = hm_contains (tp_map p) tx_hash"

definition check_pool_exist :: "txpool_support \<Rightarrow> hash \<Rightarrow> unit pool_comp" where
  "check_pool_exist supp tx_hash p = fail_if (contain tx_hash p) (duplicated_tx supp tx_hash) p"

definition pool_validate_transaction :: "txpool_support \<Rightarrow> hash \<Rightarrow> transaction \<Rightarrow> unit pool_comp" where
  "pool_validate_transaction supp tx_hash tx = lift_result
     (or_else_catch as_chain_error (\<lambda>e. case e of
          ValidateTxError e \<Rightarrow> Some (Err (TxPoolError (InsertError (InvalidTx e))))
        | _ \<Rightarrow> None)
        (tps_validate_transaction supp tx_hash tx True))"

definition map_insert :: "hash \<Rightarrow> full_transaction \<Rightarrow> full_transaction option pool_comp" where
  "map_insert h ftx p = (Ok (hm_get (tp_map p) h), p\<lparr>tp_map := hm_insert h ftx (tp_map p)\<rparr>)"

definition map_remove :: "hash \<Rightarrow> unit pool_comp" where
  "map_remove h p = (Ok (), p\<lparr>tp_map := hm_remove h (tp_map p)\<rparr>)"

definition buffer_send :: "full_transaction \<Rightarrow> bool pool_comp" where
  "buffer_send ftx p = (if tp_buffer_open p then (Ok True, p\<lparr>tp_buffer := tp_buffer p @ [ftx]\<rparr>) else (Ok False, p))"

definition on_tx_inserted :: "hash \<Rightarrow> unit pool_comp" where
  "on_tx_inserted h p = (if tp_message_open p then (Ok (), p\<lparr>tp_messages := tp_messages p @ [TxInserted h]\<rparr>)
     else (Err (TxPoolError TxPoolChannel), p))"

text \<open>The checks at the start of an insertion, which do not change the pool.\<close>

definition insert_checks :: "txpool_support \<Rightarrow> transaction \<Rightarrow> full_transaction pool_comp" where
  "insert_checks supp tx =
     bind check_capacity (\<lambda>_.
     bind (lift_result (tps_hash_transaction supp tx)) (\<lambda>tx_hash.
     bind (check_pool_exist supp tx_hash) (\<lambda>_.
     bind (pool_validate_transaction supp tx_hash tx) (\<lambda>_.
     ret \<lparr> ftx_tx = tx, ftx_hash = tx_hash \<rparr>))))"

definition txpool_insert :: "txpool_support \<Rightarrow> transaction \<Rightarrow> unit pool_comp" where
  "txpool_insert supp tx =
     bind (insert_checks supp tx) (\<lambda>pool_tx.
     bind (map_insert (ftx_hash pool_tx) pool_tx) (\<lambda>old.
     bind (fail_if (old \<noteq> None) (duplicated_tx supp (ftx_hash pool_tx))) (\<lambda>_.
     bind (buffer_send pool_tx) (\<lambda>sent.
     if \<not> sent then bind (map_remove (ftx_hash pool_tx)) (\<lambda>_. fail (TxPoolError TxPoolChannel))
     else on_tx_inserted (ftx_hash pool_tx)))))"

definition txpool_remove :: "hash list \<Rightarrow> unit pool_comp" where
  "txpool_remove tx_hash_set p = (Ok (), p\<lparr>
     tp_queue := filter (\<lambda>x. ftx_hash x \<notin> set tx_hash_set) (tp_queue p),
     tp_map := filter (\<lambda>(k, _). k \<notin> set tx_hash_set) (tp_map p)\<rparr>)"

text \<open>The two parts of a removal, each under a lock of its own.\<close>

definition queue_retain :: "hash list \<Rightarrow> unit pool_comp" where
  "queue_retain tx_hash_set p = (Ok (), p\<lparr>tp_queue := filter (\<lambda>x. ftx_hash x \<notin> set tx_hash_set) (tp_queue p)\<rparr>)"

definition map_retain :: "hash list \<Rightarrow> unit pool_comp" where
  "map_retain tx_hash_set p = (Ok (), p\<lparr>tp_map := filter (\<lambda>(k, _). k \<notin> set tx_hash_set) (tp_map p)\<rparr>)"

lemma txpool_remove_parts: "txpool_remove hs = bind (queue_retain hs) (\<lambda>_. map_retain hs)"
  by (simp add: fun_eq_iff txpool_remove_def queue_retain_def map_retain_def bind_def)

definition take_message_rx :: "bool pool_comp" where
  "take_message_rx p = (Ok (tp_message_rx p), p\<lparr>tp_message_rx := False\<rparr>)"

text \<open>One turn of the loop of \<open>BufferStream::start\<close>.\<close>

definition buffer_turn :: "txpool \<Rightarrow> txpool" where
  "buffer_turn p = (case tp_buffer p of
     [] \<Rightarrow> p
   | tx # rest \<Rightarrow> p\<lparr>tp_buffer := rest, tp_queue := tp_queue p @ [tx]\<rparr>)"

section \<open>Interleavings\<close>

text \<open>
  Where a thread is: in an insertion, after the check of the capacity (\<open>Sized\<close>), after the check that the pool does not have the transaction
  (\<open>Fresh\<close>), after its validation (\<open>Checked\<close>), with the transaction in the map (\<open>Mapped\<close>), with it in the channel (\<open>Sent\<close>) or refused by the
  channel (\<open>Unsent\<close>); or in a removal that is done with the queue (\<open>Removing\<close>).
\<close>

datatype pc =
    Idle
  | Sized transaction
  | Fresh full_transaction
  | Checked full_transaction
  | Mapped full_transaction
  | Sent full_transaction
  | Unsent full_transaction
  | Removing "hash list"

record pool_sys =
  ps_pool :: txpool
  ps_pc :: "nat \<Rightarrow> pc"

definition sys_new :: "nat \<Rightarrow> pool_sys" where
  "sys_new capacity = \<lparr> ps_pool = txpool_new capacity, ps_pc = (\<lambda>_. Idle) \<rparr>"

fun pc_hash :: "pc \<Rightarrow> hash set" where
  "pc_hash (Mapped f) = {ftx_hash f}"
| "pc_hash (Unsent f) = {ftx_hash f}"
| "pc_hash _ = {}"

fun pc_removing :: "pc \<Rightarrow> hash set" where
  "pc_removing (Removing hs) = set hs"
| "pc_removing _ = {}"

definition mapped :: "pool_sys \<Rightarrow> hash set" where
  "mapped ps = (\<Union>i. pc_hash (ps_pc ps i))"

definition removing :: "pool_sys \<Rightarrow> hash set" where
  "removing ps = (\<Union>i. pc_removing (ps_pc ps i))"

definition in_flight :: "pool_sys \<Rightarrow> hash set" where
  "in_flight ps = ftx_hash ` set (tp_buffer (ps_pool ps)) \<union> mapped ps"

text \<open>
  One step is one access to the map, the queue or a channel, by one of \<open>n\<close> threads or the task behind the channel. A removal takes the
  transactions of a committed block out of the queue and then out of the map. The relation with \<open>quiet = True\<close> has removals only of
  transactions that are not between map and queue when they start, and that are not put into the map again before they end.
\<close>

inductive pool_step :: "bool \<Rightarrow> nat \<Rightarrow> txpool_support \<Rightarrow> pool_sys \<Rightarrow> pool_sys \<Rightarrow> bool"
  for quiet n supp where
  step_capacity: "i < n \<Longrightarrow> ps_pc ps i = Idle \<Longrightarrow> check_capacity (ps_pool ps) = (Ok (), p') \<Longrightarrow>
    pool_step quiet n supp ps (ps\<lparr>ps_pool := p', ps_pc := (ps_pc ps)(i := Sized tx)\<rparr>)"
| step_exist: "i < n \<Longrightarrow> ps_pc ps i = Sized tx \<Longrightarrow> tps_hash_transaction supp tx = Ok h \<Longrightarrow>
    check_pool_exist supp h (ps_pool ps) = (Ok (), p') \<Longrightarrow>
    pool_step quiet n supp ps (ps\<lparr>ps_pool := p', ps_pc := (ps_pc ps)(i := Fresh \<lparr> ftx_tx = tx, ftx_hash = h \<rparr>)\<rparr>)"
| step_check: "i < n \<Longrightarrow> ps_pc ps i = Fresh ftx \<Longrightarrow> pool_validate_transaction supp (ftx_hash ftx) (ftx_tx ftx) (ps_pool ps) = (Ok (), p') \<Longrightarrow>
    pool_step quiet n supp ps (ps\<lparr>ps_pool := p', ps_pc := (ps_pc ps)(i := Checked ftx)\<rparr>)"
| step_refuse: "i < n \<Longrightarrow> ps_pc ps i = Sized tx \<or> ps_pc ps i = Fresh ftx \<Longrightarrow>
    pool_step quiet n supp ps (ps\<lparr>ps_pool := ps_pool ps, ps_pc := (ps_pc ps)(i := Idle)\<rparr>)"
| step_map: "i < n \<Longrightarrow> ps_pc ps i = Checked ftx \<Longrightarrow> map_insert (ftx_hash ftx) ftx (ps_pool ps) = (Ok old, p') \<Longrightarrow>
    (quiet \<Longrightarrow> ftx_hash ftx \<notin> removing ps) \<Longrightarrow>
    pool_step quiet n supp ps
      (ps\<lparr>ps_pool := p', ps_pc := (ps_pc ps)(i := (if old = None then Mapped ftx else Idle))\<rparr>)"
| step_send: "i < n \<Longrightarrow> ps_pc ps i = Mapped ftx \<Longrightarrow> buffer_send ftx (ps_pool ps) = (Ok sent, p') \<Longrightarrow>
    pool_step quiet n supp ps (ps\<lparr>ps_pool := p', ps_pc := (ps_pc ps)(i := (if sent then Sent ftx else Unsent ftx))\<rparr>)"
| step_unmap: "i < n \<Longrightarrow> ps_pc ps i = Unsent ftx \<Longrightarrow> map_remove (ftx_hash ftx) (ps_pool ps) = (Ok (), p') \<Longrightarrow>
    pool_step quiet n supp ps (ps\<lparr>ps_pool := p', ps_pc := (ps_pc ps)(i := Idle)\<rparr>)"
| step_notify: "i < n \<Longrightarrow> ps_pc ps i = Sent ftx \<Longrightarrow> on_tx_inserted (ftx_hash ftx) (ps_pool ps) = (r, p') \<Longrightarrow>
    pool_step quiet n supp ps (ps\<lparr>ps_pool := p', ps_pc := (ps_pc ps)(i := Idle)\<rparr>)"
| step_buffer: "pool_step quiet n supp ps (ps\<lparr>ps_pool := buffer_turn (ps_pool ps)\<rparr>)"
| step_remove: "i < n \<Longrightarrow> ps_pc ps i = Idle \<Longrightarrow> queue_retain hs (ps_pool ps) = (Ok (), p') \<Longrightarrow> (quiet \<Longrightarrow> set hs \<inter> in_flight ps = {}) \<Longrightarrow>
    pool_step quiet n supp ps (ps\<lparr>ps_pool := p', ps_pc := (ps_pc ps)(i := Removing hs)\<rparr>)"
| step_removed: "i < n \<Longrightarrow> ps_pc ps i = Removing hs \<Longrightarrow> map_retain hs (ps_pool ps) = (Ok (), p') \<Longrightarrow>
    pool_step quiet n supp ps (ps\<lparr>ps_pool := p', ps_pc := (ps_pc ps)(i := Idle)\<rparr>)"

inductive pool_reach :: "bool \<Rightarrow> nat \<Rightarrow> txpool_support \<Rightarrow> nat \<Rightarrow> pool_sys \<Rightarrow> bool"
  for quiet n supp capacity where
  reach_new: "pool_reach quiet n supp capacity (sys_new capacity)"
| reach_step: "pool_reach quiet n supp capacity ps \<Longrightarrow> pool_step quiet n supp ps ps' \<Longrightarrow>
    pool_reach quiet n supp capacity ps'"

inductive_cases pool_stepE: "pool_step quiet n supp ps ps'"

section \<open>What the checks guarantee\<close>

lemma insert_checks_Ok:
  assumes "insert_checks supp tx p = (Ok ftx, p')"
  shows "p' = p \<and> length (tp_map p) < tp_pool_capacity p \<and> ftx_tx ftx = tx \<and>
    tps_hash_transaction supp tx = Ok (ftx_hash ftx) \<and> hm_get (tp_map p) (ftx_hash ftx) = None \<and>
    tps_validate_transaction supp (ftx_hash ftx) tx True = Ok ()"
proof -
  obtain h where h: "tps_hash_transaction supp tx = Ok h" "length (tp_map p) < tp_pool_capacity p" "\<not> contain h p"
    "or_else_catch as_chain_error (\<lambda>e. case e of ValidateTxError e \<Rightarrow> Some (Err (TxPoolError (InsertError (InvalidTx e))))
        | _ \<Rightarrow> None) (tps_validate_transaction supp h tx True) = Ok ()" "p' = p" "ftx = \<lparr> ftx_tx = tx, ftx_hash = h \<rparr>"
    using assms
    by (auto simp: insert_checks_def bind_def check_capacity_def check_pool_exist_def pool_validate_transaction_def
        fail_if_def split: result.splits if_splits)
  have "tps_validate_transaction supp h tx True = Ok ()"
    using h(4) by (cases "tps_validate_transaction supp h tx True")
      (auto split: option.splits chain_error.splits)
  then show ?thesis
    using h by (simp add: contain_def hm_contains_def)
qed

lemma insert_checks_Err: "insert_checks supp tx p = (Err e, p') \<Longrightarrow> p' = p"
  by (auto simp: insert_checks_def bind_def check_capacity_def check_pool_exist_def pool_validate_transaction_def
        fail_if_def split: result.splits if_splits)

lemma length_hm_insert: "length (hm_insert k v m) = (if hm_get m k = None then Suc (length m) else length m)"
  by (induction m) (auto simp: hm_insert_def hm_get_def)

lemma length_hm_remove_le: "length (hm_remove k m) \<le> length m"
  by (simp add: hm_remove_def length_delete_le)

lemma check_steps_pool:
  "check_capacity p = (r, p') \<Longrightarrow> p' = p" "check_pool_exist supp h p = (r, p') \<Longrightarrow> p' = p"
  "pool_validate_transaction supp h tx p = (r, p') \<Longrightarrow> p' = p"
  by (auto simp: check_capacity_def check_pool_exist_def pool_validate_transaction_def fail_if_def split: if_splits)

section \<open>The capacity under concurrency\<close>

text \<open>A thread that passed the check of the capacity and has not reached the map.\<close>

fun passed :: "pc \<Rightarrow> bool" where
  "passed (Sized _) \<longleftrightarrow> True"
| "passed (Fresh _) \<longleftrightarrow> True"
| "passed (Checked _) \<longleftrightarrow> True"
| "passed _ \<longleftrightarrow> False"

definition checked_threads :: "nat \<Rightarrow> pool_sys \<Rightarrow> nat set" where
  "checked_threads n ps = {i. i < n \<and> passed (ps_pc ps i)}"

lemma checked_threads_finite [simp]: "finite (checked_threads n ps)"
  by (simp add: checked_threads_def)

lemma card_checked_le: "card (checked_threads n ps) \<le> n"
proof -
  have "checked_threads n ps \<subseteq> {..<n}" by (auto simp: checked_threads_def)
  then show ?thesis using card_mono [of "{..<n}" "checked_threads n ps"] by simp
qed

lemma card_checked_upd:
  assumes "i < n"
  shows "card (checked_threads n (ps\<lparr>ps_pool := p, ps_pc := (ps_pc ps)(i := c)\<rparr>)) + (if passed (ps_pc ps i) then 1 else 0)
    = card (checked_threads n ps) + (if passed c then 1 else 0)"
proof -
  let ?A = "checked_threads n ps - {i}"
  have new: "checked_threads n (ps\<lparr>ps_pool := p, ps_pc := (ps_pc ps)(i := c)\<rparr>) = (if passed c then insert i ?A else ?A)"
    using assms by (auto simp: checked_threads_def)
  have old: "checked_threads n ps = (if passed (ps_pc ps i) then insert i ?A else ?A)"
    using assms by (auto simp: checked_threads_def)
  have "card (insert i ?A) = Suc (card ?A)"
    by (rule card_insert_disjoint) auto
  moreover have "card (checked_threads n ps) = (if passed (ps_pc ps i) then card (insert i ?A) else card ?A)"
    using old by presburger
  ultimately show ?thesis
    by (simp only: new) auto
qed

definition capacity_inv :: "nat \<Rightarrow> nat \<Rightarrow> pool_sys \<Rightarrow> bool" where
  "capacity_inv capacity n ps \<longleftrightarrow> tp_pool_capacity (ps_pool ps) = capacity \<and>
     length (tp_map (ps_pool ps)) + card (checked_threads n ps) < capacity + n + (if n = 0 then 1 else 0)"

text \<open>A thread moves on without a transaction more in the map than it gives up.\<close>

lemma capacity_inv_move:
  assumes "capacity_inv capacity n ps" "i < n" "tp_pool_capacity p' = tp_pool_capacity (ps_pool ps)"
    and "length (tp_map p') + (if passed c then 1 else 0) \<le> length (tp_map (ps_pool ps)) + (if passed (ps_pc ps i) then 1 else 0)"
  shows "capacity_inv capacity n (ps\<lparr>ps_pool := p', ps_pc := (ps_pc ps)(i := c)\<rparr>)"
  using assms(1,3,4) card_checked_upd [OF assms(2), where ps = ps and p = p' and c = c] by (auto simp: capacity_inv_def split: if_splits)

lemma capacity_inv_step:
  assumes "pool_step quiet n supp ps ps'" "capacity_inv capacity n ps"
  shows "capacity_inv capacity n ps'"
  using assms(1)
proof cases
  case (step_capacity i p' tx)
  have "length (tp_map (ps_pool ps)) < capacity" "p' = ps_pool ps"
    using step_capacity(4) assms(2) by (auto simp: check_capacity_def capacity_inv_def fail_if_def split: if_splits)
  then show ?thesis
    using assms(2) step_capacity(1,2) card_checked_le [of n ps'] by (auto simp: capacity_inv_def)
next
  case step_buffer
  then show ?thesis
    using assms(2) by (auto simp: capacity_inv_def buffer_turn_def checked_threads_def split: list.splits)
next
  case (step_notify i ftx r p')
  then show ?thesis
    using capacity_inv_move [OF assms(2) step_notify(2), of p' Idle] by (auto simp: on_tx_inserted_def split: if_splits)
next
  case (step_refuse i tx ftx)
  then show ?thesis
    using capacity_inv_move [OF assms(2) step_refuse(2), of "ps_pool ps" Idle] by auto
qed (use assms(2) length_hm_remove_le in \<open>auto intro!: capacity_inv_move dest!: check_steps_pool
    simp: map_insert_def length_hm_insert buffer_send_def map_remove_def on_tx_inserted_def queue_retain_def map_retain_def split: if_splits\<close>)

lemma capacity_inv_reach: "pool_reach quiet n supp capacity ps \<Longrightarrow> capacity_inv capacity n ps"
proof (induction rule: pool_reach.induct)
  case reach_new
  then show ?case
    by (auto simp: capacity_inv_def sys_new_def txpool_new_def checked_threads_def)
qed (rule capacity_inv_step)

section \<open>Consistency of map, channel and queue\<close>

text \<open>The hashes in the queue and behind it in the channel, in order.\<close>

definition listed :: "txpool \<Rightarrow> hash list" where
  "listed p = map ftx_hash (tp_queue p @ tp_buffer p)"

definition consistent :: "pool_sys \<Rightarrow> bool" where
  "consistent ps \<longleftrightarrow>
     (\<forall>h f. hm_get (tp_map (ps_pool ps)) h = Some f \<longrightarrow> ftx_hash f = h) \<and>
     distinct (listed (ps_pool ps)) \<and>
     (\<forall>i j. i \<noteq> j \<longrightarrow> pc_hash (ps_pc ps i) \<inter> pc_hash (ps_pc ps j) = {}) \<and>
     set (listed (ps_pool ps)) \<inter> mapped ps = {} \<and>
     (set (listed (ps_pool ps)) \<union> mapped ps) \<inter> removing ps = {} \<and>
     (\<forall>h\<in>set (listed (ps_pool ps)) \<union> mapped ps. hm_get (tp_map (ps_pool ps)) h \<noteq> None) \<and>
     (\<forall>h. hm_get (tp_map (ps_pool ps)) h \<noteq> None \<longrightarrow> h \<in> set (listed (ps_pool ps)) \<union> mapped ps \<union> removing ps)"

lemma hm_get_filter: "hm_get (filter (\<lambda>(k, _). k \<notin> S) m) h = (if h \<in> S then None else hm_get m h)"
  by (induction m) (auto simp: hm_get_def)

definition mapped_others :: "nat \<Rightarrow> pool_sys \<Rightarrow> hash set" where
  "mapped_others i ps = (\<Union>j\<in>-{i}. pc_hash (ps_pc ps j))"

definition removing_others :: "nat \<Rightarrow> pool_sys \<Rightarrow> hash set" where
  "removing_others i ps = (\<Union>j\<in>-{i}. pc_removing (ps_pc ps j))"

lemma mapped_split: "mapped ps = mapped_others i ps \<union> pc_hash (ps_pc ps i)"
  by (auto simp: mapped_def mapped_others_def)

lemma removing_split: "removing ps = removing_others i ps \<union> pc_removing (ps_pc ps i)"
  by (auto simp: removing_def removing_others_def)

lemma mapped_upd:
  "mapped (ps\<lparr>ps_pool := p, ps_pc := (ps_pc ps)(i := c)\<rparr>) = mapped_others i ps \<union> pc_hash c"
  "removing (ps\<lparr>ps_pool := p, ps_pc := (ps_pc ps)(i := c)\<rparr>) = removing_others i ps \<union> pc_removing c"
  by (auto simp: mapped_def mapped_others_def removing_def removing_others_def split: if_splits)

lemma pc_hash_others: "j \<noteq> i \<Longrightarrow> pc_hash (ps_pc ps j) \<subseteq> mapped_others i ps"
  by (auto simp: mapped_others_def)

text \<open>A thread moves to another place: what has to be shown for the new state.\<close>

lemma consistent_move:
  assumes c: "consistent ps"
    and "\<And>h f. hm_get (tp_map p') h = Some f \<Longrightarrow> ftx_hash f = h" "distinct (listed p')"
    and "pc_hash c \<inter> mapped_others i ps = {}" "set (listed p') \<inter> (mapped_others i ps \<union> pc_hash c) = {}"
    and "(set (listed p') \<union> (mapped_others i ps \<union> pc_hash c)) \<inter> (removing_others i ps \<union> pc_removing c) = {}"
    and "\<And>h. h \<in> set (listed p') \<union> (mapped_others i ps \<union> pc_hash c) \<Longrightarrow> hm_get (tp_map p') h \<noteq> None"
    and "\<And>h. hm_get (tp_map p') h \<noteq> None \<Longrightarrow>
      h \<in> set (listed p') \<union> (mapped_others i ps \<union> pc_hash c) \<union> (removing_others i ps \<union> pc_removing c)"
  shows "consistent (ps\<lparr>ps_pool := p', ps_pc := (ps_pc ps)(i := c)\<rparr>)"
proof -
  let ?ps = "ps\<lparr>ps_pool := p', ps_pc := (ps_pc ps)(i := c)\<rparr>"
  have disj: "pc_hash (ps_pc ?ps j) \<inter> pc_hash (ps_pc ?ps k) = {}" if "j \<noteq> k" for j k
    using that c assms(4) pc_hash_others [of j i ps] pc_hash_others [of k i ps]
    by (auto simp: consistent_def)
  have pool: "ps_pool ?ps = p'"
    by simp
  show ?thesis
    unfolding consistent_def mapped_upd pool
    by (intro conjI allI impI ballI; (rule assms(3,5,6) | erule assms(2,7,8) | erule disj))
qed

lemma others_disjoint:
  assumes "consistent ps" "pc_hash (ps_pc ps i) = {h}"
  shows "h \<notin> mapped_others i ps" "mapped ps = insert h (mapped_others i ps)"
proof -
  have "\<forall>j. i \<noteq> j \<longrightarrow> pc_hash (ps_pc ps i) \<inter> pc_hash (ps_pc ps j) = {}"
    using assms(1) by (simp add: consistent_def)
  then show "h \<notin> mapped_others i ps" "mapped ps = insert h (mapped_others i ps)"
    using assms(2) mapped_split [of ps i] by (auto simp: mapped_others_def)
qed

lemma consistent_same:
  assumes "consistent ps" "tp_map p' = tp_map (ps_pool ps)" "listed p' = listed (ps_pool ps)"
    and "pc_hash c = pc_hash (ps_pc ps i)" "pc_removing c = pc_removing (ps_pc ps i)"
  shows "consistent (ps\<lparr>ps_pool := p', ps_pc := (ps_pc ps)(i := c)\<rparr>)"
proof -
  have "pc_hash (ps_pc ps i) \<inter> mapped_others i ps = {}"
    using assms(1) unfolding consistent_def mapped_others_def by blast
  then show ?thesis
    using assms mapped_split [of ps i] removing_split [of ps i] by (intro consistent_move) (simp_all add: consistent_def)
qed

lemma consistent_map:
  assumes c: "consistent ps" and pc: "ps_pc ps i = Checked ftx" and new: "ftx_hash ftx \<notin> removing ps"
    and run: "map_insert (ftx_hash ftx) ftx (ps_pool ps) = (Ok old, p')"
  shows "consistent (ps\<lparr>ps_pool := p', ps_pc := (ps_pc ps)(i := (if old = None then Mapped ftx else Idle))\<rparr>)"
proof -
  have p': "listed p' = listed (ps_pool ps)" "tp_map p' = hm_insert (ftx_hash ftx) ftx (tp_map (ps_pool ps))"
    and old: "old = hm_get (tp_map (ps_pool ps)) (ftx_hash ftx)"
    using run by (auto simp: map_insert_def listed_def)
  have m: "mapped_others i ps = mapped ps" "removing_others i ps = removing ps"
    using mapped_split [of ps i] removing_split [of ps i] pc by simp_all
  have "old = None \<longleftrightarrow> ftx_hash ftx \<notin> set (listed (ps_pool ps)) \<union> mapped ps"
    using c new unfolding old consistent_def by blast
  then show ?thesis
    using c new by (intro consistent_move) (auto simp: p' m consistent_def split: if_splits)
qed

lemma consistent_send:
  assumes c: "consistent ps" and pc: "ps_pc ps i = Mapped ftx" and run: "buffer_send ftx (ps_pool ps) = (Ok sent, p')"
  shows "consistent (ps\<lparr>ps_pool := p', ps_pc := (ps_pc ps)(i := (if sent then Sent ftx else Unsent ftx))\<rparr>)"
proof (cases sent)
  case True
  then have p': "listed p' = listed (ps_pool ps) @ [ftx_hash ftx]" "tp_map p' = tp_map (ps_pool ps)"
    using run by (auto simp: buffer_send_def listed_def split: if_splits)
  have "removing_others i ps = removing ps"
    using removing_split [of ps i] pc by simp
  then show ?thesis
    using True c others_disjoint [OF c, where i = i and h = "ftx_hash ftx"] pc by (intro consistent_move) (auto simp: p' consistent_def)
next
  case False
  then show ?thesis
    using consistent_same [OF c, where p' = p' and i = i and c = "Unsent ftx"] run pc by (auto simp: buffer_send_def split: if_splits)
qed

lemma consistent_unmap:
  assumes c: "consistent ps" and pc: "ps_pc ps i = Unsent ftx" and run: "map_remove (ftx_hash ftx) (ps_pool ps) = (Ok (), p')"
  shows "consistent (ps\<lparr>ps_pool := p', ps_pc := (ps_pc ps)(i := Idle)\<rparr>)"
proof -
  have p': "listed p' = listed (ps_pool ps)" "tp_map p' = hm_remove (ftx_hash ftx) (tp_map (ps_pool ps))"
    using run by (auto simp: map_remove_def listed_def)
  have "removing_others i ps = removing ps"
    using removing_split [of ps i] pc by simp
  then show ?thesis
    using c others_disjoint [OF c, where i = i and h = "ftx_hash ftx"] pc by (intro consistent_move) (auto simp: p' consistent_def split: if_splits)
qed

lemma consistent_remove:
  assumes c: "consistent ps" and pc: "ps_pc ps i = Idle" and run: "queue_retain hs (ps_pool ps) = (Ok (), p')" and q: "set hs \<inter> in_flight ps = {}"
  shows "consistent (ps\<lparr>ps_pool := p', ps_pc := (ps_pc ps)(i := Removing hs)\<rparr>)"
proof -
  have buf: "ftx_hash x \<notin> set hs" if "x \<in> set (tp_buffer (ps_pool ps))" for x
    using q that by (auto simp: in_flight_def)
  have m: "mapped_others i ps = mapped ps" "removing_others i ps = removing ps" "mapped ps \<inter> set hs = {}"
    using q mapped_split [of ps i] removing_split [of ps i] pc by (auto simp: in_flight_def)
  have "listed p' = filter (\<lambda>h. h \<notin> set hs) (listed (ps_pool ps))" "tp_map p' = tp_map (ps_pool ps)"
    using run buf by (auto simp: queue_retain_def listed_def filter_map comp_def)
  then show ?thesis
    using c m by (intro consistent_move) (auto simp: consistent_def)
qed

lemma consistent_removed:
  assumes c: "consistent ps" and pc: "ps_pc ps i = Removing hs" and run: "map_retain hs (ps_pool ps) = (Ok (), p')"
  shows "consistent (ps\<lparr>ps_pool := p', ps_pc := (ps_pc ps)(i := Idle)\<rparr>)"
proof -
  have m: "mapped_others i ps = mapped ps" "removing ps = removing_others i ps \<union> set hs"
    using mapped_split [of ps i] removing_split [of ps i] pc by simp_all
  have "listed p' = listed (ps_pool ps)" "hm_get (tp_map p') h = (if h \<in> set hs then None else hm_get (tp_map (ps_pool ps)) h)" for h
    using run by (auto simp: map_retain_def hm_get_filter listed_def)
  then show ?thesis
    using c m by (intro consistent_move) (auto simp: consistent_def split: if_splits)
qed

lemma consistent_step:
  assumes "pool_step True n supp ps ps'" "consistent ps"
  shows "consistent ps'"
  using assms(1)
proof cases
  case step_buffer
  have "tp_map (buffer_turn (ps_pool ps)) = tp_map (ps_pool ps)" "listed (buffer_turn (ps_pool ps)) = listed (ps_pool ps)"
    by (auto simp: buffer_turn_def listed_def split: list.splits)
  then show ?thesis
    using assms(2) step_buffer by (auto simp: consistent_def mapped_def removing_def)
next
  case (step_refuse i tx ftx)
  then show ?thesis
    using consistent_same [OF assms(2), where p' = "ps_pool ps" and i = i and c = Idle] by auto
next
  case (step_notify i ftx r p')
  then show ?thesis
    using consistent_same [OF assms(2), where p' = p' and i = i and c = Idle] by (auto simp: on_tx_inserted_def listed_def split: if_splits)
qed (use assms(2) consistent_map consistent_send consistent_unmap consistent_remove consistent_removed in
    \<open>auto dest!: check_steps_pool intro!: consistent_same\<close>)

lemma consistent_reach: "pool_reach True n supp capacity ps \<Longrightarrow> consistent ps"
proof (induction rule: pool_reach.induct)
  case reach_new
  then show ?case
    by (simp add: consistent_def sys_new_def txpool_new_def listed_def mapped_def removing_def)
qed (rule consistent_step)

section \<open>A concrete pool\<close>

definition ex_support :: txpool_support where
  "ex_support = \<lparr> tps_hash_transaction = (\<lambda>tx. Ok (Hash (params_bytes (call_params (tx_call tx))))),
     tps_validate_transaction = (\<lambda>_ _ _. Ok ()), tps_hex = (\<lambda>_. ''hash'') \<rparr>"

definition ex_pool_tx :: "bytes \<Rightarrow> transaction" where
  "ex_pool_tx b = \<lparr> tx_witness = None, tx_call = \<lparr> call_module = ''m'', call_method = ''f'', call_params = Params b \<rparr> \<rparr>"

definition ex_ftx :: "bytes \<Rightarrow> full_transaction" where
  "ex_ftx b = \<lparr> ftx_tx = ex_pool_tx b, ftx_hash = Hash b \<rparr>"

lemma ex_insert_checks:
  "insert_checks ex_support (ex_pool_tx b) p =
     (if length (tp_map p) \<ge> tp_pool_capacity p then (Err (TxPoolError (InsertError (ExceedCapacity (tp_pool_capacity p)))), p)
      else if contain (Hash b) p then (Err (duplicated_tx ex_support (Hash b)), p) else (Ok (ex_ftx b), p))"
  by (auto simp: insert_checks_def bind_def check_capacity_def check_pool_exist_def pool_validate_transaction_def
      ex_support_def ex_pool_tx_def ex_ftx_def fail_if_def)

section \<open>Properties\<close>

text \<open>An insertion succeeds exactly when the pool has room, does not have the transaction, the chain accepts it, and both
  channels are open; it then adds the transaction to the map, to the channel towards the queue and announces it, and
  changes nothing else.\<close>

theorem txpool_insert_spec:
  "txpool_insert supp tx p = (Ok (), p') \<longleftrightarrow>
   (\<exists>h. tps_hash_transaction supp tx = Ok h \<and> length (tp_map p) < tp_pool_capacity p \<and> \<not> contain h p \<and>
      tps_validate_transaction supp h tx True = Ok () \<and> tp_buffer_open p \<and> tp_message_open p \<and>
      p' = p\<lparr>tp_map := hm_insert h \<lparr>ftx_tx = tx, ftx_hash = h\<rparr> (tp_map p),
             tp_buffer := tp_buffer p @ [\<lparr>ftx_tx = tx, ftx_hash = h\<rparr>], tp_messages := tp_messages p @ [TxInserted h]\<rparr>)"
  (is "?l \<longleftrightarrow> ?r")
proof
  assume ?l
  then obtain ftx where "insert_checks supp tx p = (Ok ftx, p)"
    by (auto simp: txpool_insert_def bind_def dest: insert_checks_Ok split: prod.splits result.splits)
  then obtain h where c: "insert_checks supp tx p = (Ok \<lparr>ftx_tx = tx, ftx_hash = h\<rparr>, p)"
    using insert_checks_Ok [of supp tx p ftx p] by (cases ftx) auto
  then show ?r
    using insert_checks_Ok [OF c] \<open>?l\<close>
    by (intro exI [of _ h])
      (auto simp: txpool_insert_def bind_def map_insert_def buffer_send_def map_remove_def on_tx_inserted_def contain_def
        hm_contains_def split: if_splits)
next
  assume ?r
  then show ?l
    by (auto simp: txpool_insert_def insert_checks_def bind_def check_capacity_def check_pool_exist_def
        pool_validate_transaction_def fail_if_def map_insert_def buffer_send_def on_tx_inserted_def contain_def hm_contains_def)
qed

text \<open>an insertion that fails leaves the contents of the pool as they were: the same transactions in the map, the
  channel and the queue (a failure to announce is the one error after the transaction is in).\<close>

theorem txpool_insert_error_frame:
  assumes "txpool_insert supp tx p = (Err e, p')" "tp_message_open p"
  shows "hm_get (tp_map p') = hm_get (tp_map p) \<and> tp_queue p' = tp_queue p \<and> tp_buffer p' = tp_buffer p \<and>
    tp_messages p' = tp_messages p"
proof (cases "insert_checks supp tx p")
  case (Pair r q)
  show ?thesis
  proof (cases r)
    case (Ok ftx)
    note chk = insert_checks_Ok [OF Pair [unfolded Ok]]
    then show ?thesis
      using assms by (auto simp: txpool_insert_def bind_def Pair Ok map_insert_def buffer_send_def map_remove_def
          on_tx_inserted_def fun_eq_iff split: if_splits)
  next
    case (Err e')
    then show ?thesis
      using assms insert_checks_Err [OF Pair [unfolded Err]] by (simp add: txpool_insert_def bind_def Pair)
  qed
qed

theorem txpool_insert_error_frame_witness:
  "\<exists>e p'. txpool_insert ex_support (ex_pool_tx [1]) (txpool_new 0) = (Err e, p') \<and> tp_queue p' = [] \<and> tp_buffer p' = []"
proof -
  obtain e p' where run: "txpool_insert ex_support (ex_pool_tx [1]) (txpool_new 0) = (Err e, p')"
    by (simp add: txpool_insert_def bind_def ex_insert_checks txpool_new_def)
  moreover have "tp_message_open (txpool_new 0)"
    by (simp add: txpool_new_def)
  ultimately show ?thesis
    using txpool_insert_error_frame [OF run] by (auto simp: txpool_new_def)
qed

text \<open>C39: with \<open>n\<close> threads inserting at once, in any interleaving with each other, the channel task and
  removals, the pool never holds \<open>n\<close> or more transactions beyond its capacity; a single inserting thread keeps it
  within the capacity.\<close>

theorem txpool_capacity_bound:
  assumes "pool_reach quiet n supp capacity ps" "0 < n"
  shows "length (tp_map (ps_pool ps)) < capacity + n"
  using capacity_inv_reach [OF assms(1)] assms(2) by (simp add: capacity_inv_def)

text \<open>Two threads that pass the check of the capacity before either inserts.\<close>

definition ex_race :: pool_sys where
  "ex_race = (sys_new 1)\<lparr>ps_pc := (\<lambda>_. Idle)(0 := Sized (ex_pool_tx [1]), 1 := Sized (ex_pool_tx [2]))\<rparr>"

lemma ex_race_reach: "pool_reach True 2 ex_support 1 ex_race"
proof -
  let ?s1 = "(sys_new 1)\<lparr>ps_pool := txpool_new 1, ps_pc := (\<lambda>_. Idle)(0 := Sized (ex_pool_tx [1]))\<rparr>"
  have ok: "check_capacity (txpool_new 1) = (Ok (), txpool_new 1)"
    by (simp add: check_capacity_def txpool_new_def fail_if_def)
  have "pool_step True 2 ex_support (sys_new 1) ?s1"
    using step_capacity [of 0 2 "sys_new 1" "txpool_new 1" True ex_support "ex_pool_tx [1]"] ok by (simp add: sys_new_def)
  moreover have "pool_step True 2 ex_support ?s1 ex_race"
    using step_capacity [of 1 2 ?s1 "txpool_new 1" True ex_support "ex_pool_tx [2]"] ok by (simp add: sys_new_def ex_race_def)
  ultimately show ?thesis
    using reach_new reach_step by metis
qed

theorem txpool_capacity_bound_witness:
  "pool_reach True 2 ex_support 1 ex_race \<and> length (tp_map (ps_pool ex_race)) < 1 + 2"
  using txpool_capacity_bound [OF ex_race_reach] ex_race_reach by simp

text \<open>A thread inserts a transaction, which arrives in the queue, and begins to remove it.\<close>

definition ex_sys :: "txpool \<Rightarrow> pc \<Rightarrow> pool_sys" where
  "ex_sys p c = \<lparr> ps_pool = p, ps_pc = (\<lambda>_. Idle)(0 := c) \<rparr>"

definition ex_inserted :: txpool where
  "ex_inserted = (txpool_new 5)\<lparr>tp_map := [(Hash [1], ex_ftx [1])], tp_buffer := [ex_ftx [1]]\<rparr>"

lemma ex_sys_simps [simp]: "ps_pc (ex_sys p c) 0 = c" "ps_pool (ex_sys p c) = p"
  "(ex_sys p c)\<lparr>ps_pool := p', ps_pc := (ps_pc (ex_sys p c))(0 := c')\<rparr> = ex_sys p' c'" "(ex_sys p c)\<lparr>ps_pool := p'\<rparr> = ex_sys p' c"
  "(ex_sys p c)\<lparr>ps_pc := (ps_pc (ex_sys q d))(0 := c')\<rparr> = ex_sys p c'"
  by (simp_all add: ex_sys_def)

lemma ex_sys_removing: "mapped (ex_sys p c) = pc_hash c" "removing (ex_sys p c) = pc_removing c"
  by (auto simp: mapped_def removing_def ex_sys_def split: if_splits)

lemma ex_steps:
  "check_capacity p = (Ok (), p') \<Longrightarrow> pool_step q 1 supp (ex_sys p Idle) (ex_sys p' (Sized tx))"
  "tps_hash_transaction supp tx = Ok h \<Longrightarrow> check_pool_exist supp h p = (Ok (), p') \<Longrightarrow>
    pool_step q 1 supp (ex_sys p (Sized tx)) (ex_sys p' (Fresh \<lparr> ftx_tx = tx, ftx_hash = h \<rparr>))"
  "pool_validate_transaction supp (ftx_hash f) (ftx_tx f) p = (Ok (), p') \<Longrightarrow> pool_step q 1 supp (ex_sys p (Fresh f)) (ex_sys p' (Checked f))"
  "map_insert (ftx_hash f) f p = (Ok None, p') \<Longrightarrow> pool_step q 1 supp (ex_sys p (Checked f)) (ex_sys p' (Mapped f))"
  "buffer_send f p = (Ok True, p') \<Longrightarrow> pool_step q 1 supp (ex_sys p (Mapped f)) (ex_sys p' (Sent f))"
  "on_tx_inserted (ftx_hash f) p = (r, p') \<Longrightarrow> pool_step q 1 supp (ex_sys p (Sent f)) (ex_sys p' Idle)"
  "buffer_turn p = p' \<Longrightarrow> pool_step q 1 supp (ex_sys p c) (ex_sys p' c)"
  "queue_retain hs p = (Ok (), p') \<Longrightarrow> (q \<Longrightarrow> set hs \<inter> ftx_hash ` set (tp_buffer p) = {}) \<Longrightarrow> pool_step q 1 supp (ex_sys p Idle) (ex_sys p' (Removing hs))"
  "map_retain hs p = (Ok (), p') \<Longrightarrow> pool_step q 1 supp (ex_sys p (Removing hs)) (ex_sys p' Idle)"
  using step_capacity [of 0 1 "ex_sys p Idle" p' q supp tx] step_exist [of 0 1 "ex_sys p (Sized tx)" tx supp h p' q]
    step_check [of 0 1 "ex_sys p (Fresh f)" f supp p' q] step_map [of 0 1 "ex_sys p (Checked f)" f None p' q supp]
    step_send [of 0 1 "ex_sys p (Mapped f)" f True p' q supp] step_notify [of 0 1 "ex_sys p (Sent f)" f r p' q supp]
    step_buffer [of q 1 supp "ex_sys p c"] step_remove [of 0 1 "ex_sys p Idle" hs p' q supp] step_removed [of 0 1 "ex_sys p (Removing hs)" hs p' q supp]
  by (simp_all add: in_flight_def ex_sys_removing)

lemma ex_inserted_reach: "pool_reach quiet 1 ex_support 5 (ex_sys ex_inserted (Sent (ex_ftx [1])))"
proof -
  let ?f = "ex_ftx [1]" and ?p0 = "txpool_new 5" and ?tx = "ex_pool_tx [1]"
  let ?p1 = "?p0\<lparr>tp_map := [(Hash [1], ?f)]\<rparr>"
  have f: "\<lparr> ftx_tx = ?tx, ftx_hash = Hash [1] \<rparr> = ?f" "ftx_hash ?f = Hash [1]"
    by (simp_all add: ex_ftx_def)
  have "sys_new 5 = ex_sys ?p0 Idle"
    by (simp add: sys_new_def ex_sys_def fun_eq_iff)
  then have "pool_reach quiet 1 ex_support 5 (ex_sys ?p0 Idle)"
    using reach_new by metis
  moreover have "pool_step quiet 1 ex_support (ex_sys ?p0 Idle) (ex_sys ?p0 (Sized ?tx))"
    by (rule ex_steps) (simp add: check_capacity_def txpool_new_def fail_if_def)
  moreover have "pool_step quiet 1 ex_support (ex_sys ?p0 (Sized ?tx)) (ex_sys ?p0 (Fresh ?f))"
    unfolding f(1) [symmetric]
    by (rule ex_steps) (simp_all add: check_pool_exist_def contain_def hm_contains_def txpool_new_def fail_if_def ex_support_def ex_pool_tx_def)
  moreover have "pool_step quiet 1 ex_support (ex_sys ?p0 (Fresh ?f)) (ex_sys ?p0 (Checked ?f))"
    by (rule ex_steps) (simp add: pool_validate_transaction_def ex_support_def)
  moreover have "pool_step quiet 1 ex_support (ex_sys ?p0 (Checked ?f)) (ex_sys ?p1 (Mapped ?f))"
    by (rule ex_steps) (simp add: map_insert_def f(2) txpool_new_def hm_insert_def)
  moreover have "pool_step quiet 1 ex_support (ex_sys ?p1 (Mapped ?f)) (ex_sys ex_inserted (Sent ?f))"
    by (rule ex_steps) (simp add: buffer_send_def txpool_new_def ex_inserted_def)
  ultimately show ?thesis
    by (rule reach_step [OF reach_step [OF reach_step [OF reach_step [OF reach_step]]]])
qed

lemma ex_removing_reach: "pool_reach True 1 ex_support 5 (ex_sys (ex_inserted\<lparr>tp_buffer := [], tp_messages := [TxInserted (Hash [1])]\<rparr>) (Removing [Hash [1]]))"
proof -
  let ?p1 = "ex_inserted\<lparr>tp_buffer := [], tp_queue := [ex_ftx [1]]\<rparr>"
  let ?p2 = "?p1\<lparr>tp_messages := [TxInserted (Hash [1])]\<rparr>"
  have "pool_step True 1 ex_support (ex_sys ex_inserted (Sent (ex_ftx [1]))) (ex_sys ?p1 (Sent (ex_ftx [1])))"
    by (rule ex_steps) (simp add: buffer_turn_def ex_inserted_def txpool_new_def)
  moreover have "pool_step True 1 ex_support (ex_sys ?p1 (Sent (ex_ftx [1]))) (ex_sys ?p2 Idle)"
    by (rule ex_steps) (simp add: on_tx_inserted_def ex_inserted_def txpool_new_def ex_ftx_def)
  moreover have "pool_step True 1 ex_support (ex_sys ?p2 Idle) (ex_sys (ex_inserted\<lparr>tp_buffer := [], tp_messages := [TxInserted (Hash [1])]\<rparr>) (Removing [Hash [1]]))"
    by (rule ex_steps) (simp_all add: queue_retain_def ex_inserted_def txpool_new_def ex_ftx_def)
  ultimately show ?thesis
    by (rule reach_step [OF reach_step [OF reach_step [OF ex_inserted_reach]]])
qed

text \<open>C38: as long as no transaction is removed while it is between the map and the queue, or inserted again while it is being removed,
  every interleaving keeps the pool consistent: no transaction is queued twice; every transaction in the queue, in the channel behind it
  or about to be sent there is in the map; and the map has beside them only those that a removal has already taken from the queue.\<close>

theorem txpool_consistent:
  assumes "pool_reach True n supp capacity ps"
  shows "distinct (map ftx_hash (tp_queue (ps_pool ps) @ tp_buffer (ps_pool ps))) \<and>
    (\<forall>h. h \<notin> removing ps \<longrightarrow> (contain h (ps_pool ps) \<longleftrightarrow>
      h \<in> ftx_hash ` set (tp_queue (ps_pool ps)) \<union> ftx_hash ` set (tp_buffer (ps_pool ps)) \<union> mapped ps)) \<and>
    (\<forall>h\<in>removing ps. h \<notin> ftx_hash ` set (tp_queue (ps_pool ps)) \<union> ftx_hash ` set (tp_buffer (ps_pool ps)) \<union> mapped ps)"
proof -
  have l: "set (listed p) = ftx_hash ` set (tp_queue p) \<union> ftx_hash ` set (tp_buffer p)" for p
    by (auto simp: listed_def)
  have c: "consistent ps"
    by (rule consistent_reach [OF assms])
  then show ?thesis
    unfolding consistent_def l [symmetric] contain_def hm_contains_def listed_def [symmetric] by blast
qed

theorem txpool_consistent_witness:
  "\<exists>ps. pool_reach True 1 ex_support 5 ps \<and> contain (Hash [1]) (ps_pool ps) \<and> Hash [1] \<in> removing ps \<and>
     Hash [1] \<notin> ftx_hash ` set (tp_queue (ps_pool ps))"
proof -
  let ?ps = "ex_sys (ex_inserted\<lparr>tp_buffer := [], tp_messages := [TxInserted (Hash [1])]\<rparr>) (Removing [Hash [1]])"
  have "Hash [1] \<in> removing ?ps" "contain (Hash [1]) (ps_pool ?ps)"
    by (simp_all add: ex_sys_removing contain_def hm_contains_def ex_inserted_def hm_get_def)
  then show ?thesis
    using txpool_consistent [OF ex_removing_reach] ex_removing_reach by blast
qed

text \<open>The queue keeps the transactions in the order of insertion: a step removes transactions from the sequence of
  queued and buffered transactions without reordering the others, or adds one at its end.\<close>

theorem txpool_insertion_order:
  assumes "pool_step quiet n supp ps ps'"
  shows "(\<exists>P. tp_queue (ps_pool ps') @ tp_buffer (ps_pool ps') =
      filter P (tp_queue (ps_pool ps)) @ tp_buffer (ps_pool ps)) \<or>
    (\<exists>x. tp_queue (ps_pool ps') @ tp_buffer (ps_pool ps') = tp_queue (ps_pool ps) @ tp_buffer (ps_pool ps) @ [x])"
  (is "(\<exists>P. ?seq = _ P) \<or> _")
proof -
  have same: "?seq = tp_queue (ps_pool ps) @ tp_buffer (ps_pool ps) \<Longrightarrow> ?thesis"
    by (intro disjI1 exI [of _ "\<lambda>_. True"]) simp
  show ?thesis
    using assms
  proof cases
    case step_buffer
    then show ?thesis
      using same by (auto simp: buffer_turn_def split: list.splits)
  next
    case (step_remove i hs p')
    then show ?thesis
      by (intro disjI1 exI [of _ "\<lambda>x. ftx_hash x \<notin> set hs"]) (auto simp: queue_retain_def)
  qed (use same in \<open>auto dest!: check_steps_pool simp: map_insert_def buffer_send_def map_remove_def map_retain_def on_tx_inserted_def split: if_splits\<close>)
qed

theorem txpool_insertion_order_witness:
  "\<exists>x. tp_buffer (snd (buffer_send (ex_ftx [1]) (txpool_new 1))) = [x]"
proof -
  let ?ps = "(sys_new 1)\<lparr>ps_pc := (\<lambda>_. Idle)(0 := Mapped (ex_ftx [1]))\<rparr>"
  have run: "buffer_send (ex_ftx [1]) (txpool_new 1) = (Ok True, (txpool_new 1)\<lparr>tp_buffer := [ex_ftx [1]]\<rparr>)"
    by (simp add: buffer_send_def txpool_new_def)
  then have step: "pool_step True 1 ex_support ?ps (?ps\<lparr>ps_pool := (txpool_new 1)\<lparr>tp_buffer := [ex_ftx [1]]\<rparr>,
      ps_pc := (ps_pc ?ps)(0 := Sent (ex_ftx [1]))\<rparr>)"
    using step_send [of 0 1 ?ps "ex_ftx [1]" True "(txpool_new 1)\<lparr>tp_buffer := [ex_ftx [1]]\<rparr>" True ex_support] by (simp add: sys_new_def)
  show ?thesis
    using txpool_insertion_order [OF step] run by (auto simp: sys_new_def txpool_new_def)
qed

text \<open>A removal that meets a transaction in the channel takes it from the map only: the transaction then arrives in
  the queue without being in the map, so that it is not found by the duplicate check any more.\<close>

lemma txpool_remove_race:
  "\<exists>ps x. pool_reach False 1 ex_support 5 ps \<and> x \<in> set (tp_queue (ps_pool ps)) \<and> \<not> contain (ftx_hash x) (ps_pool ps)"
proof -
  let ?f = "ex_ftx [1]"
  let ?p1 = "ex_inserted\<lparr>tp_messages := [TxInserted (Hash [1])]\<rparr>"
  let ?p2 = "?p1\<lparr>tp_map := []\<rparr>"
  have "pool_step False 1 ex_support (ex_sys ex_inserted (Sent ?f)) (ex_sys ?p1 Idle)"
    by (rule ex_steps) (simp add: on_tx_inserted_def ex_inserted_def txpool_new_def ex_ftx_def)
  moreover have "pool_step False 1 ex_support (ex_sys ?p1 Idle) (ex_sys ?p1 (Removing [Hash [1]]))"
    by (rule ex_steps) (simp_all add: queue_retain_def ex_inserted_def txpool_new_def)
  moreover have "pool_step False 1 ex_support (ex_sys ?p1 (Removing [Hash [1]])) (ex_sys ?p2 Idle)"
    by (rule ex_steps) (simp add: map_retain_def ex_inserted_def)
  moreover have "pool_step False 1 ex_support (ex_sys ?p2 Idle) (ex_sys (?p2\<lparr>tp_buffer := [], tp_queue := [?f]\<rparr>) Idle)"
    by (rule ex_steps) (simp add: buffer_turn_def ex_inserted_def txpool_new_def)
  ultimately have "pool_reach False 1 ex_support 5 (ex_sys (?p2\<lparr>tp_buffer := [], tp_queue := [?f]\<rparr>) Idle)"
    by (rule reach_step [OF reach_step [OF reach_step [OF reach_step [OF ex_inserted_reach]]]])
  then show ?thesis
    by (intro exI [of _ "ex_sys (?p2\<lparr>tp_buffer := [], tp_queue := [?f]\<rparr>) Idle"] exI [of _ ?f]) (simp add: contain_def hm_contains_def)
qed

end
