(* ===== verification/Peer_Manager.thy ===== *)
theory Peer_Manager
  imports Primitives
begin

text \<open>
  The peer manager (\<^verbatim>\<open>core/node/peer-manager\<close>): which peers are active (with their direction and
  type), which are known but inactive, and the messages it sends to the network.

  \<open>LinkedHashMap\<close> is third-party: a map is its entries in iteration order, and \<open>insert\<close>, whose effect on the
  order of an existing key the source does not rely on, is an argument (\<open>lhm\<close>) with \<open>lhm_ok\<close> as the law of a map.
  The loop of \<open>activate\<close> is a partial function; that it returns is a theorem.
\<close>

section \<open>State\<close>

definition MIN_SCORE :: int where
  "MIN_SCORE = -100"

record peer_manager_config =
  cfg_max_in_peers :: u32
  cfg_max_out_peers :: u32
  cfg_bootnodes :: "(peer_id, unit) hmap"
  cfg_reserved :: "(peer_id, unit) hmap"
  cfg_reserved_only :: bool

datatype peer_state = In | Out
datatype peer_type = Reserved | Normal

record peer_info =
  pi_state :: peer_state
  pi_type :: peer_type

datatype incoming_id = IncomingId u64

datatype out_message =
    Connect peer_id
  | Drop peer_id
  | Accept incoming_id
  | Reject incoming_id

record peer_report =
  rep_score_diff :: "32 word"
  rep_desc :: string

datatype in_message =
    AddReservedPeer peer_id
  | RemoveReservedPeer peer_id
  | SetReservedOnly bool
  | ReportPeer peer_id peer_report

record active_peers =
  ap_peers :: "(peer_id, peer_info) hmap"
  ap_in_peers :: u32
  ap_out_peers :: u32

record peer_manager =
  pm_config :: peer_manager_config
  pm_active :: active_peers
  pm_inactive :: "(peer_id, unit) hmap"
  pm_in_rx :: "in_message list"
  pm_out_messages :: "out_message list"
  pm_scores :: "(peer_id, 32 word) hmap"

text \<open>\<open>LinkedHashMap::insert\<close> at the two value types the manager uses.\<close>

record lhm =
  ins_info :: "peer_id \<Rightarrow> peer_info \<Rightarrow> (peer_id, peer_info) hmap \<Rightarrow> (peer_id, peer_info) hmap"
  ins_unit :: "peer_id \<Rightarrow> (peer_id, unit) hmap \<Rightarrow> (peer_id, unit) hmap"

definition report_new :: "32 word \<Rightarrow> string \<Rightarrow> peer_report" where
  "report_new score_diff desc = \<lparr> rep_score_diff = score_diff, rep_desc = desc \<rparr>"

definition report_new_fatal :: "string \<Rightarrow> peer_report" where
  "report_new_fatal desc = \<lparr> rep_score_diff = of_int MIN_SCORE, rep_desc = desc \<rparr>"

section \<open>Active peers\<close>

datatype insert_peer_result =
    Inserted peer_id
  | Replaced peer_id peer_id
  | Exist peer_id
  | Full peer_id

definition is_reserved :: "peer_manager_config \<Rightarrow> peer_id \<Rightarrow> bool" where
  "is_reserved config peer = hm_contains (cfg_reserved config) peer"

definition count_up :: "peer_state \<Rightarrow> active_peers \<Rightarrow> active_peers" where
  "count_up st a = (case st of In \<Rightarrow> a\<lparr>ap_in_peers := ap_in_peers a + 1\<rparr> | Out \<Rightarrow> a\<lparr>ap_out_peers := ap_out_peers a + 1\<rparr>)"

definition count_down :: "peer_state \<Rightarrow> active_peers \<Rightarrow> active_peers" where
  "count_down st a = (case st of In \<Rightarrow> a\<lparr>ap_in_peers := ap_in_peers a - 1\<rparr> | Out \<Rightarrow> a\<lparr>ap_out_peers := ap_out_peers a - 1\<rparr>)"

definition active_insert :: "lhm \<Rightarrow> peer_manager_config \<Rightarrow> peer_id \<Rightarrow> peer_state \<Rightarrow> active_peers
    \<Rightarrow> insert_peer_result \<times> active_peers" where
  "active_insert lib config peer st a =
     (let ptype = (if is_reserved config peer then Reserved else Normal) in
      if hm_get (ap_peers a) peer \<noteq> None then (Exist peer, a)
      else
        let exceed = (case st of In \<Rightarrow> ap_in_peers a \<ge> cfg_max_in_peers config
                               | Out \<Rightarrow> ap_out_peers a \<ge> cfg_max_out_peers config) in
        if exceed then
          (case (if ptype = Reserved
                 then find (\<lambda>(_, info). pi_state info = st \<and> pi_type info = Normal) (ap_peers a) else None) of
             Some (victim, info) \<Rightarrow>
               let a = count_up st a;
                   a = a\<lparr>ap_peers := ins_info lib peer \<lparr> pi_state = st, pi_type = ptype \<rparr> (ap_peers a)\<rparr>;
                   a = count_down (pi_state info) a;
                   a = a\<lparr>ap_peers := hm_remove victim (ap_peers a)\<rparr>
               in (Replaced peer victim, a)
           | None \<Rightarrow> (Full peer, a))
        else
          let a = count_up st a;
              a = a\<lparr>ap_peers := ins_info lib peer \<lparr> pi_state = st, pi_type = ptype \<rparr> (ap_peers a)\<rparr>
          in (Inserted peer, a))"

definition active_remove :: "peer_id \<Rightarrow> active_peers \<Rightarrow> active_peers" where
  "active_remove peer a = (case hm_get (ap_peers a) peer of
     Some info \<Rightarrow> let a = count_down (pi_state info) a in a\<lparr>ap_peers := hm_remove peer (ap_peers a)\<rparr>
   | None \<Rightarrow> a)"

definition active_contains :: "peer_id \<Rightarrow> active_peers \<Rightarrow> bool" where
  "active_contains peer a = hm_contains (ap_peers a) peer"

section \<open>Inactive peers\<close>

definition take_peer :: "peer_manager_config \<Rightarrow> (peer_id, unit) hmap \<Rightarrow> (peer_id \<times> (peer_id, unit) hmap) option" where
  "take_peer config peers =
     (case find (\<lambda>(peer, _). is_reserved config peer) peers of
        Some (peer, _) \<Rightarrow> Some (peer, hm_remove peer peers)
      | None \<Rightarrow>
          if cfg_reserved_only config then None
          else (case find (\<lambda>(peer, _). \<not> is_reserved config peer) peers of
                  Some (peer, _) \<Rightarrow> Some (peer, hm_remove peer peers)
                | None \<Rightarrow> None))"

section \<open>The manager\<close>

definition send :: "out_message \<Rightarrow> peer_manager \<Rightarrow> peer_manager" where
  "send msg pm = pm\<lparr>pm_out_messages := pm_out_messages pm @ [msg]\<rparr>"

definition inactive_insert :: "lhm \<Rightarrow> peer_id \<Rightarrow> peer_manager \<Rightarrow> peer_manager" where
  "inactive_insert lib peer pm = pm\<lparr>pm_inactive := ins_unit lib peer (pm_inactive pm)\<rparr>"

definition inactive_remove :: "peer_id \<Rightarrow> peer_manager \<Rightarrow> peer_manager" where
  "inactive_remove peer pm = pm\<lparr>pm_inactive := hm_remove peer (pm_inactive pm)\<rparr>"

definition deactivate :: "peer_id \<Rightarrow> peer_manager \<Rightarrow> peer_manager" where
  "deactivate peer pm = pm\<lparr>pm_active := active_remove peer (pm_active pm)\<rparr>"

text \<open>One turn of the loop: the new state and whether the loop goes on; \<open>None\<close> when no peer can be taken.\<close>

definition activate_turn :: "lhm \<Rightarrow> peer_manager \<Rightarrow> (bool \<times> peer_manager) option" where
  "activate_turn lib pm = (case take_peer (pm_config pm) (pm_inactive pm) of
     None \<Rightarrow> None
   | Some (peer, inactive) \<Rightarrow>
       let (r, active) = active_insert lib (pm_config pm) peer Out (pm_active pm);
           pm = pm\<lparr>pm_inactive := inactive, pm_active := active\<rparr> in
       Some (case r of
         Inserted peer \<Rightarrow> (True, send (Connect peer) pm)
       | Replaced inserted removed \<Rightarrow>
           (True, send (Drop removed) (send (Connect inserted) (inactive_insert lib removed pm)))
       | Exist peer \<Rightarrow> (True, pm)
       | Full peer \<Rightarrow> (False, inactive_insert lib peer pm)))"

partial_function (option) activate :: "lhm \<Rightarrow> peer_manager \<Rightarrow> peer_manager option" where
  "activate lib pm = (case activate_turn lib pm of
     None \<Rightarrow> Some pm
   | Some (continue, pm') \<Rightarrow> if continue then activate lib pm' else Some pm')"

definition peer_manager_new :: "lhm \<Rightarrow> peer_manager_config \<Rightarrow> peer_manager option" where
  "peer_manager_new lib config = activate lib \<lparr>
     pm_config = config,
     pm_active = \<lparr> ap_peers = [], ap_in_peers = 0, ap_out_peers = 0 \<rparr>,
     pm_inactive = fold (\<lambda>(peer, _). ins_unit lib peer) (cfg_reserved config @ cfg_bootnodes config) [],
     pm_in_rx = [], pm_out_messages = [], pm_scores = [] \<rparr>"

definition discovered :: "lhm \<Rightarrow> peer_id \<Rightarrow> peer_manager \<Rightarrow> peer_manager option" where
  "discovered lib peer pm =
     (if active_contains peer (pm_active pm) then Some pm else activate lib (inactive_insert lib peer pm))"

definition dropped :: "lhm \<Rightarrow> peer_id \<Rightarrow> peer_manager \<Rightarrow> peer_manager option" where
  "dropped lib peer pm = activate lib (inactive_insert lib peer (deactivate peer pm))"

definition incoming :: "lhm \<Rightarrow> peer_id \<Rightarrow> incoming_id \<Rightarrow> peer_manager \<Rightarrow> peer_manager" where
  "incoming lib peer iid pm =
     (if cfg_reserved_only (pm_config pm) \<and> \<not> is_reserved (pm_config pm) peer then send (Reject iid) pm
      else
        let (r, active) = active_insert lib (pm_config pm) peer In (pm_active pm); pm = pm\<lparr>pm_active := active\<rparr> in
        (case r of
           Inserted peer \<Rightarrow> send (Accept iid) (inactive_remove peer pm)
         | Replaced inserted removed \<Rightarrow>
             send (Drop removed) (send (Accept iid) (inactive_insert lib removed (inactive_remove inserted pm)))
         | Exist peer \<Rightarrow> send (Accept iid) pm
         | Full peer \<Rightarrow> send (Reject iid) (inactive_insert lib peer pm)))"

definition on_add_reserved_peer :: "lhm \<Rightarrow> peer_id \<Rightarrow> peer_manager \<Rightarrow> peer_manager option" where
  "on_add_reserved_peer lib peer pm =
     (let pm = pm\<lparr>pm_config := (pm_config pm)\<lparr>cfg_reserved := ins_unit lib peer (cfg_reserved (pm_config pm))\<rparr>\<rparr> in
      if active_contains peer (pm_active pm) then Some pm else activate lib (inactive_insert lib peer pm))"

definition on_remove_reserved_peer :: "lhm \<Rightarrow> peer_id \<Rightarrow> peer_manager \<Rightarrow> peer_manager option" where
  "on_remove_reserved_peer lib peer pm =
     (let pm = pm\<lparr>pm_config := (pm_config pm)\<lparr>cfg_reserved := hm_remove peer (cfg_reserved (pm_config pm))\<rparr>\<rparr>;
          pm = (if cfg_reserved_only (pm_config pm)
                then send (Drop peer) (inactive_insert lib peer (deactivate peer pm)) else pm) in
      activate lib pm)"

definition on_set_reserved_only :: "lhm \<Rightarrow> bool \<Rightarrow> peer_manager \<Rightarrow> peer_manager option" where
  "on_set_reserved_only lib reserved_only pm =
     (let pm = pm\<lparr>pm_config := (pm_config pm)\<lparr>cfg_reserved_only := reserved_only\<rparr>\<rparr>;
          pm = (if cfg_reserved_only (pm_config pm) then
                  fold (\<lambda>peer pm. send (Drop peer) (inactive_insert lib peer (deactivate peer pm)))
                    (filter (\<lambda>peer. \<not> is_reserved (pm_config pm) peer) (map fst (ap_peers (pm_active pm)))) pm
                else pm) in
      activate lib pm)"

definition saturating_score :: "32 word \<Rightarrow> 32 word \<Rightarrow> 32 word" where
  "saturating_score v d =
     (if - (2 ^ 31) \<le> sint v + sint d \<and> sint v + sint d < 2 ^ 31 then v + d
      else if sint d \<ge> 0 then of_int (2 ^ 31 - 1) else of_int (- (2 ^ 31)))"

definition on_report_peer :: "lhm \<Rightarrow> peer_id \<Rightarrow> peer_report \<Rightarrow> peer_manager \<Rightarrow> peer_manager option" where
  "on_report_peer lib peer report pm =
     (let score_diff = rep_score_diff report;
          new_score = (case hm_get (pm_scores pm) peer of
             None \<Rightarrow> score_diff | Some v \<Rightarrow> saturating_score v score_diff);
          pm = pm\<lparr>pm_scores := hm_insert peer new_score (pm_scores pm)\<rparr>;
          should_drop = (sint new_score < MIN_SCORE) in
      if should_drop then
        let is_active = active_contains peer (pm_active pm);
            pm = inactive_remove peer (deactivate peer pm);
            pm = (if is_active then send (Drop peer) pm else pm) in
        activate lib pm
      else Some pm)"

definition handle_in_message :: "lhm \<Rightarrow> in_message \<Rightarrow> peer_manager \<Rightarrow> peer_manager option" where
  "handle_in_message lib msg pm = (case msg of
     AddReservedPeer peer \<Rightarrow> on_add_reserved_peer lib peer pm
   | RemoveReservedPeer peer \<Rightarrow> on_remove_reserved_peer lib peer pm
   | SetReservedOnly b \<Rightarrow> on_set_reserved_only lib b pm
   | ReportPeer peer report \<Rightarrow> on_report_peer lib peer report pm)"

text \<open>\<open>poll_next\<close>: the next out message, or \<open>None\<close> (pending) when no message is left to handle.\<close>

partial_function (option) poll_next :: "lhm \<Rightarrow> peer_manager \<Rightarrow> (out_message option \<times> peer_manager) option" where
  "poll_next lib pm = (case pm_out_messages pm of
     m # ms \<Rightarrow> Some (Some m, pm\<lparr>pm_out_messages := ms\<rparr>)
   | [] \<Rightarrow> (case pm_in_rx pm of
       [] \<Rightarrow> Some (None, pm)
     | msg # rest \<Rightarrow> Option.bind (handle_in_message lib msg (pm\<lparr>pm_in_rx := rest\<rparr>)) (poll_next lib)))"

section \<open>Counting peers\<close>

text \<open>The law of a map for \<open>LinkedHashMap::insert\<close>.\<close>

definition lhm_ok :: "lhm \<Rightarrow> bool" where
  "lhm_ok lib \<longleftrightarrow>
     (\<forall>k v m. hm_wf m \<longrightarrow> hm_wf (ins_info lib k v m) \<and>
        (\<forall>k'. hm_get (ins_info lib k v m) k' = (if k' = k then Some v else hm_get m k'))) \<and>
     (\<forall>k m. hm_wf m \<longrightarrow> hm_wf (ins_unit lib k m) \<and>
        (\<forall>k'. hm_get (ins_unit lib k m) k' = (if k' = k then Some () else hm_get m k')))"

text \<open>An insertion at the end, and one in place.\<close>

definition lhm_back :: lhm where
  "lhm_back = \<lparr> ins_info = (\<lambda>k v m. hm_remove k m @ [(k, v)]), ins_unit = (\<lambda>k m. hm_remove k m @ [(k, ())]) \<rparr>"

lemma hm_get_append_new: "hm_get (hm_remove k m @ [(k, v)]) k' = (if k' = k then Some v else hm_get m k')"
  using hm_get_remove [of k m k'] by (auto simp: hm_get_def map_add_def split: option.splits)

lemma hm_wf_append_new: "hm_wf m \<Longrightarrow> hm_wf (hm_remove k m @ [(k, v)])"
  using hm_wf_remove [of m k] hm_get_remove [of k m k]
  by (auto simp: hm_wf_def hm_get_def map_of_eq_None_iff)

lemma lhm_back_ok [simp]: "lhm_ok lhm_back"
  by (simp add: lhm_ok_def lhm_back_def hm_get_append_new hm_wf_append_new)

definition hkeys :: "('k, 'v) hmap \<Rightarrow> 'k set" where
  "hkeys m = {k. hm_get m k \<noteq> None}"

definition select :: "('v \<Rightarrow> bool) \<Rightarrow> ('k, 'v) hmap \<Rightarrow> 'k set" where
  "select P m = {k. \<exists>v. hm_get m k = Some v \<and> P v}"

lemma hkeys_finite [simp]: "finite (hkeys m)"
proof -
  have "hkeys m \<subseteq> fst ` set m"
    by (auto simp: hkeys_def hm_get_def dest: map_of_SomeD intro!: image_eqI)
  then show ?thesis by (rule finite_subset) simp
qed

lemma select_finite [simp]: "finite (select P m)"
  by (rule finite_subset [OF _ hkeys_finite [of m]]) (auto simp: select_def hkeys_def)

text \<open>Entering a new key and removing a key change the number of selected keys by one or not at all.\<close>

lemma card_select_new:
  assumes "hm_get m k = None" "\<And>k'. hm_get m' k' = (if k' = k then Some v else hm_get m k')"
  shows "card (select P m') = card (select P m) + (if P v then 1 else 0)"
proof -
  have "select P m' = (if P v then insert k (select P m) else select P m)"
    using assms by (auto simp: select_def split: if_splits)
  moreover have "k \<notin> select P m"
    using assms(1) by (simp add: select_def)
  ultimately show ?thesis by simp
qed

lemma card_select_remove:
  assumes "hm_get m k = Some v"
  shows "card (select P (hm_remove k m)) + (if P v then 1 else 0) = card (select P m)"
proof -
  have "select P m = (if P v then insert k (select P (hm_remove k m)) else select P (hm_remove k m))"
    using assms by (auto simp: select_def split: if_splits)
  moreover have "k \<notin> select P (hm_remove k m)"
    by (simp add: select_def)
  ultimately show ?thesis by (cases "P v") simp_all
qed

lemma card_hkeys_new:
  "(\<And>k'. hm_get m' k' = (if k' = k then Some v else hm_get m k')) \<Longrightarrow>
     hkeys m' = insert k (hkeys m)"
  by (auto simp: hkeys_def split: if_splits)

lemma hkeys_remove [simp]: "hkeys (hm_remove k m) = hkeys m - {k}"
  by (auto simp: hkeys_def)

definition cnt :: "peer_state \<Rightarrow> active_peers \<Rightarrow> nat" where
  "cnt st a = card (select (\<lambda>info. pi_state info = st) (ap_peers a))"

definition normals :: "active_peers \<Rightarrow> nat" where
  "normals a = card (select (\<lambda>info. pi_type info = Normal) (ap_peers a))"

section \<open>The invariant of the active peers\<close>

text \<open>The counters count; and neither direction exceeds its maximum.\<close>

definition counts_ok :: "active_peers \<Rightarrow> bool" where
  "counts_ok a \<longleftrightarrow> hm_wf (ap_peers a) \<and> ap_in_peers a = of_nat (cnt In a) \<and> ap_out_peers a = of_nat (cnt Out a)"

definition active_inv :: "peer_manager_config \<Rightarrow> active_peers \<Rightarrow> bool" where
  "active_inv config a \<longleftrightarrow> counts_ok a \<and>
     cnt In a \<le> unat (cfg_max_in_peers config) \<and> cnt Out a \<le> unat (cfg_max_out_peers config)"

definition enter :: "lhm \<Rightarrow> peer_id \<Rightarrow> peer_info \<Rightarrow> active_peers \<Rightarrow> active_peers" where
  "enter lib peer info a = (count_up (pi_state info) a)\<lparr>ap_peers := ins_info lib peer info (ap_peers a)\<rparr>"

lemma counter_simps [simp]:
  "ap_peers (count_up st a) = ap_peers a" "ap_peers (count_down st a) = ap_peers a"
  "ap_in_peers (count_up st a) = (if st = In then ap_in_peers a + 1 else ap_in_peers a)"
  "ap_out_peers (count_up st a) = (if st = Out then ap_out_peers a + 1 else ap_out_peers a)"
  "ap_in_peers (count_down st a) = (if st = In then ap_in_peers a - 1 else ap_in_peers a)"
  "ap_out_peers (count_down st a) = (if st = Out then ap_out_peers a - 1 else ap_out_peers a)"
  by (cases st; simp add: count_up_def count_down_def)+

lemma enter_facts:
  assumes "lhm_ok lib" "counts_ok a" "peer \<notin> hkeys (ap_peers a)"
  shows "counts_ok (enter lib peer info a)" "cnt st (enter lib peer info a) = cnt st a + (if pi_state info = st then 1 else 0)"
    "normals (enter lib peer info a) = normals a + (if pi_type info = Normal then 1 else 0)"
    "hkeys (ap_peers (enter lib peer info a)) = insert peer (hkeys (ap_peers a))"
    "hm_get (ap_peers (enter lib peer info a)) k = (if k = peer then Some info else hm_get (ap_peers a) k)"
proof -
  have new: "hm_get (ap_peers a) peer = None" using assms(3) by (simp add: hkeys_def)
  have wf: "hm_wf (ins_info lib peer info (ap_peers a))"
    and get: "\<And>k. hm_get (ins_info lib peer info (ap_peers a)) k = (if k = peer then Some info else hm_get (ap_peers a) k)"
    using assms(1,2) by (simp_all add: lhm_ok_def counts_ok_def)
  show c: "cnt st (enter lib peer info a) = cnt st a + (if pi_state info = st then 1 else 0)" for st
    by (simp add: cnt_def enter_def card_select_new [OF new get])
  show "normals (enter lib peer info a) = normals a + (if pi_type info = Normal then 1 else 0)"
    by (simp add: normals_def enter_def card_select_new [OF new get])
  show "hkeys (ap_peers (enter lib peer info a)) = insert peer (hkeys (ap_peers a))"
    by (simp add: enter_def card_hkeys_new [OF get])
  show "hm_get (ap_peers (enter lib peer info a)) k = (if k = peer then Some info else hm_get (ap_peers a) k)"
    by (simp add: enter_def get)
  show "counts_ok (enter lib peer info a)"
    using assms(2) c by (cases "pi_state info") (auto simp: counts_ok_def enter_def wf)
qed

lemma active_remove_facts:
  assumes "counts_ok a"
  shows "counts_ok (active_remove peer a)" "hkeys (ap_peers (active_remove peer a)) = hkeys (ap_peers a) - {peer}"
    "cnt st (active_remove peer a) \<le> cnt st a" "normals (active_remove peer a) \<le> normals a"
    "hm_get (ap_peers a) peer = Some info \<Longrightarrow>
       cnt st (active_remove peer a) + (if pi_state info = st then 1 else 0) = cnt st a"
    "hm_get (ap_peers a) peer = Some info \<Longrightarrow>
       normals (active_remove peer a) + (if pi_type info = Normal then 1 else 0) = normals a"
proof -
  have rem: "active_remove peer a = (count_down (pi_state i) a)\<lparr>ap_peers := hm_remove peer (ap_peers a)\<rparr>"
    if "hm_get (ap_peers a) peer = Some i" for i
    using that by (simp add: active_remove_def)
  have c: "cnt st (active_remove peer a) + (if pi_state i = st then 1 else 0) = cnt st a"
    if "hm_get (ap_peers a) peer = Some i" for i st
    using card_select_remove [OF that, of "\<lambda>info. pi_state info = st"] by (simp add: cnt_def rem [OF that])
  have n: "normals (active_remove peer a) + (if pi_type i = Normal then 1 else 0) = normals a"
    if "hm_get (ap_peers a) peer = Some i" for i
    using card_select_remove [OF that, of "\<lambda>info. pi_type info = Normal"] by (simp add: normals_def rem [OF that])
  have none: "active_remove peer a = a" if "hm_get (ap_peers a) peer = None"
    using that by (simp add: active_remove_def)
  show "hm_get (ap_peers a) peer = Some info \<Longrightarrow>
       cnt st (active_remove peer a) + (if pi_state info = st then 1 else 0) = cnt st a" by (rule c)
  show "hm_get (ap_peers a) peer = Some info \<Longrightarrow>
       normals (active_remove peer a) + (if pi_type info = Normal then 1 else 0) = normals a" by (rule n)
  have le: "cnt st (active_remove peer a) \<le> cnt st a \<and> normals (active_remove peer a) \<le> normals a"
  proof (cases "hm_get (ap_peers a) peer")
    case (Some i)
    show ?thesis
      using c [OF Some, of st] n [OF Some] by linarith
  qed (simp add: none)
  show "cnt st (active_remove peer a) \<le> cnt st a" "normals (active_remove peer a) \<le> normals a"
    using le by auto
  show "hkeys (ap_peers (active_remove peer a)) = hkeys (ap_peers a) - {peer}"
    by (cases "hm_get (ap_peers a) peer") (auto simp: rem none hkeys_def)
  show "counts_ok (active_remove peer a)"
  proof (cases "hm_get (ap_peers a) peer")
    case (Some i)
    have "(of_nat (cnt st (active_remove peer a)) :: u32) = of_nat (cnt st a) - (if pi_state i = st then 1 else 0)" for st
      using arg_cong [OF c [OF Some, of st], of "of_nat :: nat \<Rightarrow> u32"]
      by (cases "pi_state i = st") (simp_all add: eq_diff_eq add.commute)
    then show ?thesis
      using assms by (cases "pi_state i") (auto simp: counts_ok_def rem [OF Some])
  qed (use assms none in simp)
qed

lemma active_insert_eq:
  assumes "lhm_ok lib" "counts_ok a"
  shows "active_insert lib config peer st a =
    (let info = \<lparr> pi_state = st, pi_type = (if is_reserved config peer then Reserved else Normal) \<rparr> in
     if peer \<in> hkeys (ap_peers a) then (Exist peer, a)
     else if \<not> (case st of In \<Rightarrow> ap_in_peers a \<ge> cfg_max_in_peers config | Out \<Rightarrow> ap_out_peers a \<ge> cfg_max_out_peers config)
     then (Inserted peer, enter lib peer info a)
     else (case (if is_reserved config peer
                 then find (\<lambda>(_, info). pi_state info = st \<and> pi_type info = Normal) (ap_peers a) else None) of
             Some (victim, _) \<Rightarrow> (Replaced peer victim, active_remove victim (enter lib peer info a))
           | None \<Rightarrow> (Full peer, a)))"
proof (cases "peer \<in> hkeys (ap_peers a)")
  case False
  have "hm_get (ap_peers (enter lib peer j a)) v = Some i"
    if "find (\<lambda>(_, info). pi_state info = st \<and> pi_type info = Normal) (ap_peers a) = Some (v, i)" for v i j
  proof -
    have "(v, i) \<in> set (ap_peers a)"
      using that by (metis find_Some_iff nth_mem)
    then have "hm_get (ap_peers a) v = Some i"
      using assms(2) by (simp add: counts_ok_def hm_wf_def hm_get_def)
    then show ?thesis
      using enter_facts(5) [OF assms False] False by (auto simp: hkeys_def)
  qed
  then show ?thesis
    using False
    by (auto simp: active_insert_def Let_def hkeys_def enter_def active_remove_def split: option.splits peer_state.splits)
qed (simp add: active_insert_def hkeys_def)

definition max_peers :: "peer_manager_config \<Rightarrow> peer_state \<Rightarrow> nat" where
  "max_peers config st = unat (case st of In \<Rightarrow> cfg_max_in_peers config | Out \<Rightarrow> cfg_max_out_peers config)"

lemma active_inv_max: "active_inv config a \<longleftrightarrow> counts_ok a \<and> (\<forall>st. cnt st a \<le> max_peers config st)"
proof -
  have "(\<forall>st. cnt st a \<le> max_peers config st) \<longleftrightarrow> cnt In a \<le> max_peers config In \<and> cnt Out a \<le> max_peers config Out"
    by (metis peer_state.exhaust)
  then show ?thesis by (simp add: active_inv_def max_peers_def)
qed

lemma exceed_iff:
  assumes "active_inv config a"
  shows "(case st of In \<Rightarrow> ap_in_peers a \<ge> cfg_max_in_peers config | Out \<Rightarrow> ap_out_peers a \<ge> cfg_max_out_peers config)
    \<longleftrightarrow> cnt st a = max_peers config st"
proof -
  have "(x :: u32) \<le> of_nat n \<longleftrightarrow> n = unat x" if "n \<le> unat x" for n x
  proof -
    have "unat x < 2 ^ 32" using unsigned_less [of x] by simp
    then show ?thesis using that by (auto simp: word_le_nat_alt unat_of_nat take_bit_nat_eq_self)
  qed
  then show ?thesis
    using assms by (cases st) (simp_all add: active_inv_def counts_ok_def max_peers_def)
qed

text \<open>What \<open>insert_peer\<close> does, one case per result.\<close>

lemma active_insert_cases:
  assumes "lhm_ok lib" "active_inv config a"
  obtains (Exist) "peer \<in> hkeys (ap_peers a)" "active_insert lib config peer st a = (Exist peer, a)"
  | (Inserted) a' where "peer \<notin> hkeys (ap_peers a)" "active_insert lib config peer st a = (Inserted peer, a')"
      "active_inv config a'" "hkeys (ap_peers a') = insert peer (hkeys (ap_peers a))" "normals a' \<le> normals a + 1"
      "cnt st a < max_peers config st"
  | (Replaced) victim a' where "peer \<notin> hkeys (ap_peers a)" "active_insert lib config peer st a = (Replaced peer victim, a')"
      "active_inv config a'" "victim \<in> hkeys (ap_peers a)" "hkeys (ap_peers a') = insert peer (hkeys (ap_peers a)) - {victim}"
      "is_reserved config peer" "normals a' < normals a"
  | (Full) "peer \<notin> hkeys (ap_peers a)" "active_insert lib config peer st a = (Full peer, a)"
      "cnt st a = max_peers config st"
      "is_reserved config peer \<Longrightarrow> select (\<lambda>info. pi_state info = st \<and> pi_type info = Normal) (ap_peers a) = {}"
proof -
  let ?info = "\<lparr> pi_state = st, pi_type = (if is_reserved config peer then Reserved else Normal) \<rparr>"
  let ?a = "enter lib peer ?info a"
  let ?P = "\<lambda>(_ :: peer_id, info). pi_state info = st \<and> pi_type info = Normal"
  have ok: "counts_ok a" and le: "\<And>st. cnt st a \<le> max_peers config st"
    using assms(2) by (auto simp: active_inv_max)
  note eq = active_insert_eq [OF assms(1) ok, of config peer st, unfolded exceed_iff [OF assms(2)] Let_def]
  show thesis
  proof (cases "peer \<in> hkeys (ap_peers a)")
    case True
    then show thesis using Exist eq by simp
  next
    case new: False
    note ent = enter_facts [OF assms(1) ok new, where info = ?info]
    show thesis
    proof (cases "cnt st a = max_peers config st")
      case False
      then have lt: "cnt st a < max_peers config st" using le [of st] by linarith
      have "active_inv config ?a"
        using ent(1,2) lt le by (auto simp: active_inv_max intro: Suc_leI)
      then show thesis
        using Inserted [of ?a] new False lt ent(3,4) eq by simp
    next
      case full: True
      show thesis
      proof (cases "is_reserved config peer \<and> (\<exists>v i. find ?P (ap_peers a) = Some (v, i))")
        case True
        then obtain v i where f: "find ?P (ap_peers a) = Some (v, i)" and r: "is_reserved config peer" by blast
        then have "(v, i) \<in> set (ap_peers a)" and i: "pi_state i = st" "pi_type i = Normal"
          by (auto simp: find_Some_iff) (metis nth_mem)
        then have v: "hm_get (ap_peers a) v = Some i" "v \<in> hkeys (ap_peers a)" "v \<noteq> peer"
          using ok new by (auto simp: counts_ok_def hm_wf_def hm_get_def hkeys_def)
        then have v': "hm_get (ap_peers ?a) v = Some i" using ent(5) by simp
        note rem = active_remove_facts [OF ent(1), where peer = v]
        have "cnt st' (active_remove v ?a) \<le> max_peers config st'" for st'
          using rem(5) [OF v', of st'] ent(2) [of st'] le [of st'] i by (auto split: if_splits)
        then have "active_inv config (active_remove v ?a)"
          using rem(1) by (simp add: active_inv_max)
        moreover have "normals (active_remove v ?a) < normals a"
          using rem(6) [OF v'] ent(3) r i by simp
        ultimately show thesis
          using Replaced [of v "active_remove v ?a"] new full r f v eq rem(2) ent(4) by auto
      next
        case False
        have "select (\<lambda>info. pi_state info = st \<and> pi_type info = Normal) (ap_peers a) = {}" if "is_reserved config peer"
        proof -
          have "find ?P (ap_peers a) = None" using False that by (cases "find ?P (ap_peers a)") auto
          then show ?thesis
            by (fastforce simp: find_None_iff select_def hm_get_def dest: map_of_SomeD)
        qed
        moreover have "active_insert lib config peer st a = (Full peer, a)"
          using False new full eq by (auto split: option.splits)
        ultimately show thesis
          using Full new full by blast
      qed
    qed
  qed
qed

section \<open>The invariant of the manager\<close>

abbreviation active_set :: "peer_manager \<Rightarrow> peer_id set" where
  "active_set pm \<equiv> hkeys (ap_peers (pm_active pm))"

abbreviation inactive_set :: "peer_manager \<Rightarrow> peer_id set" where
  "inactive_set pm \<equiv> hkeys (pm_inactive pm)"

abbreviation reserved_set :: "peer_manager \<Rightarrow> peer_id set" where
  "reserved_set pm \<equiv> hkeys (cfg_reserved (pm_config pm))"

definition pm_ok :: "peer_manager \<Rightarrow> bool" where
  "pm_ok pm \<longleftrightarrow> active_inv (pm_config pm) (pm_active pm) \<and> hm_wf (pm_inactive pm) \<and> hm_wf (cfg_reserved (pm_config pm)) \<and>
     active_set pm \<inter> inactive_set pm = {} \<and> (cfg_reserved_only (pm_config pm) \<longrightarrow> active_set pm \<subseteq> reserved_set pm)"

text \<open>The set of connected peers the network reaches by carrying out the messages; \<open>who\<close> is the peer of an incoming
  connection.\<close>

definition net_apply :: "(incoming_id \<Rightarrow> peer_id) \<Rightarrow> out_message \<Rightarrow> peer_id set \<Rightarrow> peer_id set" where
  "net_apply who m S = (case m of Connect p \<Rightarrow> insert p S | Drop p \<Rightarrow> S - {p} | Accept i \<Rightarrow> insert (who i) S | Reject i \<Rightarrow> S)"

definition sends :: "(incoming_id \<Rightarrow> peer_id) \<Rightarrow> peer_id set \<Rightarrow> peer_manager \<Rightarrow> peer_manager \<Rightarrow> bool" where
  "sends who S pm pm' \<longleftrightarrow>
     (\<exists>ms. pm_out_messages pm' = pm_out_messages pm @ ms \<and> fold (net_apply who) ms S = active_set pm')"

text \<open>No more outgoing connection is possible: every eligible peer is active, or all outgoing slots are taken, and
  then none of them by a normal peer while a reserved one waits.\<close>

definition saturated :: "peer_manager \<Rightarrow> bool" where
  "saturated pm \<longleftrightarrow>
     (\<forall>p \<in> inactive_set pm. cfg_reserved_only (pm_config pm) \<and> \<not> is_reserved (pm_config pm) p) \<or>
     (cnt Out (pm_active pm) = max_peers (pm_config pm) Out \<and>
      ((\<exists>p \<in> inactive_set pm. is_reserved (pm_config pm) p) \<longrightarrow>
         select (\<lambda>info. pi_state info = Out \<and> pi_type info = Normal) (ap_peers (pm_active pm)) = {}))"

lemma sends_refl: "active_set pm' = S \<Longrightarrow> pm_out_messages pm' = pm_out_messages pm \<Longrightarrow> sends who S pm pm'"
  by (auto simp: sends_def)

lemma sends_trans: "sends who S pm pm1 \<Longrightarrow> sends who (active_set pm1) pm1 pm2 \<Longrightarrow> sends who S pm pm2"
  unfolding sends_def by (metis append.assoc fold_append o_apply)

lemma is_reserved_iff: "is_reserved (pm_config pm) p \<longleftrightarrow> p \<in> reserved_set pm"
  by (simp add: is_reserved_def hm_contains_def hkeys_def)

lemma active_contains_iff: "active_contains p (pm_active pm) \<longleftrightarrow> p \<in> active_set pm"
  by (simp add: active_contains_def hm_contains_def hkeys_def)

lemma ins_unit_facts:
  assumes "lhm_ok lib" "hm_wf m"
  shows "hm_wf (ins_unit lib k m)" "hkeys (ins_unit lib k m) = insert k (hkeys m)"
  using assms by (auto simp: lhm_ok_def intro!: card_hkeys_new)

lemma hkeys_find_entry:
  assumes "find (\<lambda>(p, _). P p) (m :: (peer_id, unit) hmap) = Some (k, v)"
  shows "k \<in> hkeys m \<and> P k"
proof -
  have "(k, v) \<in> set m \<and> P k" using assms by (auto simp: find_Some_iff) (metis nth_mem)
  then show ?thesis by (auto simp: hkeys_def hm_get_def map_of_eq_None_iff rev_image_eqI)
qed

lemma hkeys_find_none:
  assumes "find (\<lambda>(p, _). P p) (m :: (peer_id, unit) hmap) = None" "k \<in> hkeys m"
  shows "\<not> P k"
  using assms by (fastforce simp: find_None_iff hkeys_def hm_get_def dest: map_of_SomeD)

lemma take_peer_some:
  assumes "take_peer config m = Some (p, m')"
  shows "p \<in> hkeys m" "m' = hm_remove p m" "cfg_reserved_only config \<longrightarrow> is_reserved config p"
    "is_reserved config p \<or> (\<forall>q \<in> hkeys m. \<not> is_reserved config q)"
proof -
  have "p \<in> hkeys m \<and> m' = hm_remove p m \<and> (cfg_reserved_only config \<longrightarrow> is_reserved config p) \<and>
    (is_reserved config p \<or> (\<forall>q \<in> hkeys m. \<not> is_reserved config q))"
  proof (cases "find (\<lambda>(peer, _). is_reserved config peer) m")
    case (Some e)
    then show ?thesis
      using assms hkeys_find_entry [of "is_reserved config" m] by (cases e) (simp add: take_peer_def)
  next
    case None
    then obtain v where "find (\<lambda>(peer, _). \<not> is_reserved config peer) m = Some (p, v)" "\<not> cfg_reserved_only config"
        "m' = hm_remove p m"
      using assms by (auto simp: take_peer_def split: if_splits option.splits)
    then show ?thesis
      using hkeys_find_entry [of "\<lambda>p. \<not> is_reserved config p" m] hkeys_find_none [OF None] by blast
  qed
  then show "p \<in> hkeys m" "m' = hm_remove p m" "cfg_reserved_only config \<longrightarrow> is_reserved config p"
    "is_reserved config p \<or> (\<forall>q \<in> hkeys m. \<not> is_reserved config q)" by blast+
qed

lemma take_peer_none:
  assumes "take_peer config m = None" "q \<in> hkeys m"
  shows "cfg_reserved_only config \<and> \<not> is_reserved config q"
proof -
  have a: "find (\<lambda>(peer, _). is_reserved config peer) m = None"
    "cfg_reserved_only config \<or> find (\<lambda>(peer, _). \<not> is_reserved config peer) m = None"
    using assms(1) by (auto simp: take_peer_def split: option.splits if_splits)
  then show ?thesis
    using hkeys_find_none [OF a(1) assms(2)] hkeys_find_none [of "\<lambda>p. \<not> is_reserved config p" m q] assms(2) by blast
qed

section \<open>The loop of \<open>activate\<close>\<close>

definition load :: "peer_manager \<Rightarrow> nat" where
  "load pm = 2 * card (inactive_set pm) + normals (pm_active pm)"

text \<open>What a turn, and so the whole loop, leaves as it is.\<close>

definition same_rest :: "peer_manager \<Rightarrow> peer_manager \<Rightarrow> bool" where
  "same_rest pm pm' \<longleftrightarrow> pm_config pm' = pm_config pm \<and> pm_in_rx pm' = pm_in_rx pm \<and> pm_scores pm' = pm_scores pm \<and>
     active_set pm' \<union> inactive_set pm' = active_set pm \<union> inactive_set pm"

lemma activate_turn_ok:
  assumes "lhm_ok lib" "pm_ok pm" "activate_turn lib pm = Some (continue, pm')"
  shows "pm_ok pm' \<and> same_rest pm pm' \<and> sends who (active_set pm) pm pm' \<and>
    (if continue then load pm' < load pm else saturated pm')"
proof -
  obtain p m where t: "take_peer (pm_config pm) (pm_inactive pm) = Some (p, m)"
    using assms(3) by (auto simp: activate_turn_def split: option.splits)
  note tp = take_peer_some [OF t]
  have inv: "active_inv (pm_config pm) (pm_active pm)" and wf: "hm_wf (pm_inactive pm)" "hm_wf (cfg_reserved (pm_config pm))"
    and disj: "active_set pm \<inter> inactive_set pm = {}"
    and res: "cfg_reserved_only (pm_config pm) \<longrightarrow> active_set pm \<subseteq> reserved_set pm"
    using assms(2) by (auto simp: pm_ok_def)
  have m: "hm_wf m" "hkeys m = inactive_set pm - {p}" using tp wf by (simp_all add: hm_wf_remove)
  have p: "p \<in> inactive_set pm" "p \<notin> active_set pm" using tp disj by auto
  have c: "card (inactive_set pm) = Suc (card (inactive_set pm - {p}))" by (rule card.remove) (use p in simp_all)
  note ins = ins_unit_facts [OF assms(1) m(1)]
  from assms(1) inv show ?thesis
  proof (cases rule: active_insert_cases [where peer = p and st = Out])
    case Exist
    then show ?thesis using p by simp
  next
    case (Inserted a')
    have pm': "pm' = send (Connect p) (pm\<lparr>pm_inactive := m, pm_active := a'\<rparr>)" and "continue"
      using assms(3) t Inserted(2) by (auto simp: activate_turn_def)
    then show ?thesis
      using Inserted m p c res disj wf tp(3)
      by (auto simp: pm_ok_def same_rest_def sends_def net_apply_def load_def send_def is_reserved_iff)
  next
    case (Replaced v a')
    have pm': "pm' = send (Drop v) (send (Connect p) (inactive_insert lib v (pm\<lparr>pm_inactive := m, pm_active := a'\<rparr>)))"
      and "continue"
      using assms(3) t Replaced(2) by (auto simp: activate_turn_def)
    have v: "v \<notin> inactive_set pm - {p}" "v \<noteq> p" using Replaced(1,4) disj by auto
    then show ?thesis
      using Replaced m p c res disj wf ins pm' \<open>continue\<close>
      by (auto simp: pm_ok_def same_rest_def sends_def net_apply_def load_def send_def is_reserved_iff inactive_insert_def)
  next
    case Full
    have pm': "pm' = inactive_insert lib p (pm\<lparr>pm_inactive := m\<rparr>)" and nc: "\<not> continue"
      using assms(3) t Full(2) by (auto simp: activate_turn_def)
    have keys: "inactive_set pm' = inactive_set pm" using pm' ins m p by (auto simp: inactive_insert_def)
    have "saturated pm'"
      using Full(3,4) tp(4) keys pm' p unfolding saturated_def by (auto simp: inactive_insert_def)
    then show ?thesis
      using pm' nc keys res disj wf ins inv
      by (auto simp: pm_ok_def same_rest_def sends_def inactive_insert_def)
  qed
qed

lemma activate_ok:
  assumes "lhm_ok lib" "pm_ok pm"
  shows "\<exists>pm'. activate lib pm = Some pm' \<and> pm_ok pm' \<and> same_rest pm pm' \<and> sends who (active_set pm) pm pm' \<and> saturated pm'"
  using assms(2)
proof (induction "load pm" arbitrary: pm rule: less_induct)
  case less
  show ?case
  proof (cases "activate_turn lib pm")
    case None
    then have "take_peer (pm_config pm) (pm_inactive pm) = None"
      by (auto simp: activate_turn_def Let_def split: option.splits prod.splits)
    then have "saturated pm"
      by (auto simp: saturated_def dest: take_peer_none)
    then show ?thesis
      using None less.prems by (subst activate.simps) (auto simp: same_rest_def intro: sends_refl)
  next
    case (Some r)
    obtain continue pm1 where r: "r = (continue, pm1)" by (cases r)
    note turn = activate_turn_ok [OF assms(1) less.prems Some [unfolded r], of who]
    show ?thesis
    proof (cases continue)
      case True
      then obtain pm' where "activate lib pm1 = Some pm' \<and> pm_ok pm' \<and> same_rest pm1 pm' \<and>
          sends who (active_set pm1) pm1 pm' \<and> saturated pm'"
        using less.hyps [of pm1] turn by auto
      moreover have "activate lib pm = activate lib pm1"
        using Some r True by (subst activate.simps) simp
      ultimately show ?thesis
        using turn by (auto simp: same_rest_def intro: sends_trans)
    next
      case False
      then show ?thesis
        using Some r turn by (subst activate.simps) simp
    qed
  qed
qed

section \<open>The operations\<close>

text \<open>The invariant without its clause on \<open>reserved_only\<close>, which holds in the middle of an operation too.\<close>

definition pm_core :: "peer_manager \<Rightarrow> bool" where
  "pm_core pm \<longleftrightarrow> active_inv (pm_config pm) (pm_active pm) \<and> hm_wf (pm_inactive pm) \<and> hm_wf (cfg_reserved (pm_config pm)) \<and>
     active_set pm \<inter> inactive_set pm = {}"

lemma pm_ok_core: "pm_ok pm \<longleftrightarrow> pm_core pm \<and> (cfg_reserved_only (pm_config pm) \<longrightarrow> active_set pm \<subseteq> reserved_set pm)"
  by (auto simp: pm_ok_def pm_core_def)

lemma active_inv_remove: "active_inv config a \<Longrightarrow> active_inv config (active_remove p a)"
  by (auto simp: active_inv_max active_remove_facts intro: le_trans [OF active_remove_facts(3)])

lemma active_inv_config [simp]:
  "active_inv (config\<lparr>cfg_reserved := r\<rparr>) a = active_inv config a"
  "active_inv (config\<lparr>cfg_reserved_only := b\<rparr>) a = active_inv config a"
  by (simp_all add: active_inv_def)

lemma pm_core_counts: "pm_core pm \<Longrightarrow> counts_ok (pm_active pm)"
  by (simp add: pm_core_def active_inv_def)

lemma deactivate_core:
  assumes "pm_core pm"
  shows "pm_core (deactivate p pm)" "active_set (deactivate p pm) = active_set pm - {p}"
  using assms active_remove_facts(2) [OF pm_core_counts [OF assms], of p]
  by (auto simp: pm_core_def deactivate_def active_inv_remove)

lemma inactive_insert_core:
  assumes "lhm_ok lib" "pm_core pm" "p \<notin> active_set pm"
  shows "pm_core (inactive_insert lib p pm)" "inactive_set (inactive_insert lib p pm) = insert p (inactive_set pm)"
  using assms by (auto simp: pm_core_def inactive_insert_def ins_unit_facts)

lemma op_simps [simp]:
  "pm_config (deactivate p pm) = pm_config pm" "pm_config (inactive_insert lib p pm) = pm_config pm"
  "pm_config (inactive_remove p pm) = pm_config pm" "pm_config (send m pm) = pm_config pm"
  "pm_active (inactive_insert lib p pm) = pm_active pm" "pm_active (inactive_remove p pm) = pm_active pm"
  "pm_active (send m pm) = pm_active pm" "pm_inactive (deactivate p pm) = pm_inactive pm"
  "pm_inactive (inactive_remove p pm) = hm_remove p (pm_inactive pm)" "pm_inactive (send m pm) = pm_inactive pm"
  "pm_out_messages (deactivate p pm) = pm_out_messages pm" "pm_out_messages (inactive_insert lib p pm) = pm_out_messages pm"
  "pm_out_messages (inactive_remove p pm) = pm_out_messages pm" "pm_out_messages (send m pm) = pm_out_messages pm @ [m]"
  "pm_in_rx (deactivate p pm) = pm_in_rx pm" "pm_in_rx (inactive_insert lib p pm) = pm_in_rx pm"
  "pm_in_rx (inactive_remove p pm) = pm_in_rx pm" "pm_in_rx (send m pm) = pm_in_rx pm"
  "pm_core (send m pm) = pm_core pm"
  by (simp_all add: deactivate_def inactive_insert_def inactive_remove_def send_def pm_core_def)

text \<open>Moving a peer out of the active ones and telling the network.\<close>

definition evict :: "lhm \<Rightarrow> peer_id \<Rightarrow> peer_manager \<Rightarrow> peer_manager" where
  "evict lib p pm = send (Drop p) (inactive_insert lib p (deactivate p pm))"

lemma evict_eq: "(\<lambda>p pm. send (Drop p) (inactive_insert lib p (deactivate p pm))) = evict lib"
  by (intro ext) (simp add: evict_def)

lemma evict_core:
  assumes "lhm_ok lib" "pm_core pm"
  shows "pm_core (evict lib p pm)" "active_set (evict lib p pm) = active_set pm - {p}"
    "sends who (active_set pm) pm (evict lib p pm)" "pm_config (evict lib p pm) = pm_config pm"
    "pm_in_rx (evict lib p pm) = pm_in_rx pm"
  using deactivate_core [OF assms(2), of p] inactive_insert_core(1) [OF assms(1) deactivate_core(1) [OF assms(2)], of p p]
  by (auto simp: evict_def sends_def net_apply_def)

lemma evict_all:
  assumes "lhm_ok lib" "pm_core pm"
  shows "pm_core (fold (evict lib) ps pm) \<and> active_set (fold (evict lib) ps pm) = active_set pm - set ps \<and>
    sends who (active_set pm) pm (fold (evict lib) ps pm) \<and> pm_config (fold (evict lib) ps pm) = pm_config pm \<and>
    pm_in_rx (fold (evict lib) ps pm) = pm_in_rx pm"
  using assms(2)
proof (induction ps arbitrary: pm)
  case (Cons p ps)
  note e = evict_core [OF assms(1) Cons.prems, where p = p]
  show ?case
    using Cons.IH [OF e(1)] e(2,4,5) sends_trans [OF e(3) [of who], of "fold (evict lib) ps (evict lib p pm)"] by auto
qed (simp add: sends_refl)

text \<open>After some steps that keep the invariant, \<open>activate\<close> returns and the messages still account for the active peers.\<close>

definition done_from :: "(incoming_id \<Rightarrow> peer_id) \<Rightarrow> peer_id set \<Rightarrow> peer_manager \<Rightarrow> peer_manager \<Rightarrow> bool" where
  "done_from who S pm pm' \<longleftrightarrow> pm_ok pm' \<and> sends who S pm pm' \<and> pm_in_rx pm' = pm_in_rx pm"

lemma activate_after:
  assumes "lhm_ok lib" "pm_ok pm1" "sends who S pm pm1" "pm_in_rx pm1 = pm_in_rx pm"
  shows "\<exists>pm'. activate lib pm1 = Some pm' \<and> done_from who S pm pm'"
  using activate_ok [OF assms(1,2), of who] assms(3,4)
  by (auto simp: done_from_def same_rest_def intro: sends_trans)

lemma discovered_done:
  assumes "lhm_ok lib" "pm_ok pm"
  shows "\<exists>pm'. discovered lib p pm = Some pm' \<and> done_from who (active_set pm) pm pm'"
proof (cases "p \<in> active_set pm")
  case True
  then show ?thesis using assms(2) by (simp add: discovered_def active_contains_iff done_from_def sends_refl)
next
  case False
  have "pm_ok (inactive_insert lib p pm)"
    using assms(2) inactive_insert_core [OF assms(1) _ False] by (simp add: pm_ok_core)
  then show ?thesis
    using False activate_after [OF assms(1), of "inactive_insert lib p pm"]
    by (simp add: discovered_def active_contains_iff sends_refl)
qed

lemma dropped_done:
  assumes "lhm_ok lib" "pm_ok pm"
  shows "\<exists>pm'. dropped lib p pm = Some pm' \<and> done_from who (active_set pm - {p}) pm pm'"
proof -
  have c: "pm_core pm" using assms(2) by (simp add: pm_ok_core)
  note d = deactivate_core [OF c, of p]
  have "pm_ok (inactive_insert lib p (deactivate p pm))"
    using inactive_insert_core(1) [OF assms(1) d(1), of p] d(2) assms(2) by (auto simp: pm_ok_core)
  then show ?thesis
    using activate_after [OF assms(1), of "inactive_insert lib p (deactivate p pm)"] d(2)
    by (simp add: dropped_def sends_refl)
qed

lemma incoming_done:
  assumes "lhm_ok lib" "pm_ok pm" "who i = p"
  shows "done_from who (active_set pm) pm (incoming lib p i pm)"
proof (cases "cfg_reserved_only (pm_config pm) \<and> \<not> is_reserved (pm_config pm) p")
  case True
  then show ?thesis using assms(2) by (simp add: incoming_def done_from_def sends_def net_apply_def pm_ok_core)
next
  case False
  have inv: "active_inv (pm_config pm) (pm_active pm)" using assms(2) by (simp add: pm_ok_def)
  from assms(1) inv show ?thesis
  proof (cases rule: active_insert_cases [where peer = p and st = In])
    case Exist
    then show ?thesis
      using False assms(2,3) by (auto simp: incoming_def done_from_def sends_def net_apply_def pm_ok_core)
  next
    case (Inserted a')
    then show ?thesis
      using False assms(2,3) by (auto simp: incoming_def done_from_def sends_def net_apply_def pm_ok_def hm_wf_remove is_reserved_iff)
  next
    case (Replaced v a')
    have "hm_wf (hm_remove p (pm_inactive pm))" using assms(2) by (simp add: pm_ok_def hm_wf_remove)
    note ins = ins_unit_facts [OF assms(1) this]
    show ?thesis
      using Replaced False assms(2,3) ins
      by (auto simp: incoming_def done_from_def sends_def net_apply_def pm_ok_def is_reserved_iff inactive_insert_def inactive_remove_def send_def)
  next
    case Full
    then show ?thesis
      using False assms(2,3) inactive_insert_core [OF assms(1), of pm p]
      by (auto simp: incoming_def done_from_def sends_def net_apply_def pm_ok_core)
  qed
qed

lemma on_add_reserved_peer_done:
  assumes "lhm_ok lib" "pm_ok pm"
  shows "\<exists>pm'. on_add_reserved_peer lib p pm = Some pm' \<and> done_from who (active_set pm) pm pm'"
proof -
  let ?pm = "pm\<lparr>pm_config := (pm_config pm)\<lparr>cfg_reserved := ins_unit lib p (cfg_reserved (pm_config pm))\<rparr>\<rparr>"
  have ok: "pm_ok ?pm"
    using assms ins_unit_facts [OF assms(1), of "cfg_reserved (pm_config pm)" p] by (auto simp: pm_ok_def)
  show ?thesis
  proof (cases "p \<in> active_set pm")
    case True
    then show ?thesis
      using ok by (simp add: on_add_reserved_peer_def Let_def active_contains_def hm_contains_def hkeys_def done_from_def sends_refl)
  next
    case False
    have "pm_ok (inactive_insert lib p ?pm)"
      using ok inactive_insert_core [OF assms(1), of ?pm p] False by (simp add: pm_ok_core)
    then show ?thesis
      using False activate_after [OF assms(1), of "inactive_insert lib p ?pm"]
      by (simp add: on_add_reserved_peer_def Let_def active_contains_iff sends_refl)
  qed
qed

lemma on_remove_reserved_peer_done:
  assumes "lhm_ok lib" "pm_ok pm"
  shows "\<exists>pm'. on_remove_reserved_peer lib p pm = Some pm' \<and> done_from who (active_set pm) pm pm'"
proof -
  let ?pm = "pm\<lparr>pm_config := (pm_config pm)\<lparr>cfg_reserved := hm_remove p (cfg_reserved (pm_config pm))\<rparr>\<rparr>"
  let ?pm1 = "if cfg_reserved_only (pm_config pm) then evict lib p ?pm else ?pm"
  have core: "pm_core ?pm" using assms(2) by (simp add: pm_ok_core pm_core_def hm_wf_remove)
  note e = evict_core [OF assms(1) core, where p = p]
  have "pm_ok ?pm1"
    using assms(2) core e by (auto simp: pm_ok_core)
  moreover have "sends who (active_set pm) pm ?pm1" "pm_in_rx ?pm1 = pm_in_rx pm"
    using e(3) [of who] e(5) by (auto simp: sends_def)
  moreover have "on_remove_reserved_peer lib p pm = activate lib ?pm1"
    by (simp add: on_remove_reserved_peer_def Let_def evict_def)
  ultimately show ?thesis
    using activate_after [OF assms(1), of ?pm1 who "active_set pm" pm] by simp
qed

lemma on_set_reserved_only_done:
  assumes "lhm_ok lib" "pm_ok pm"
  shows "\<exists>pm'. on_set_reserved_only lib b pm = Some pm' \<and> done_from who (active_set pm) pm pm'"
proof -
  let ?pm = "pm\<lparr>pm_config := (pm_config pm)\<lparr>cfg_reserved_only := b\<rparr>\<rparr>"
  let ?ps = "filter (\<lambda>p. \<not> is_reserved (pm_config ?pm) p) (map fst (ap_peers (pm_active pm)))"
  let ?pm1 = "if b then fold (evict lib) ?ps ?pm else ?pm"
  have core: "pm_core ?pm" using assms(2) by (simp add: pm_ok_core pm_core_def)
  note e = evict_all [OF assms(1) core, of ?ps who]
  have "active_set pm \<subseteq> set (map fst (ap_peers (pm_active pm)))"
    by (auto simp: hkeys_def hm_get_def dest!: map_of_SomeD intro!: image_eqI)
  then have "active_set pm - set ?ps \<subseteq> reserved_set pm"
    by (auto simp: is_reserved_def hm_contains_def hkeys_def)
  then have "pm_ok ?pm1"
    using core e by (auto simp: pm_ok_core)
  moreover have "sends who (active_set pm) pm ?pm1" "pm_in_rx ?pm1 = pm_in_rx pm"
    using e by (auto simp: sends_def)
  moreover have "on_set_reserved_only lib b pm = activate lib ?pm1"
    by (simp add: on_set_reserved_only_def Let_def evict_eq)
  ultimately show ?thesis
    using activate_after [OF assms(1), of ?pm1 who "active_set pm" pm] by simp
qed

text \<open>Forgetting a peer and telling the network when it was active.\<close>

definition expel :: "peer_id \<Rightarrow> peer_manager \<Rightarrow> peer_manager" where
  "expel p pm = (if p \<in> active_set pm then send (Drop p) (inactive_remove p (deactivate p pm))
                 else inactive_remove p (deactivate p pm))"

lemma expel_ok:
  assumes "pm_ok pm"
  shows "pm_ok (expel p pm)" "active_set (expel p pm) = active_set pm - {p}" "inactive_set (expel p pm) = inactive_set pm - {p}"
    "sends who (active_set pm) pm (expel p pm)" "pm_in_rx (expel p pm) = pm_in_rx pm"
proof -
  have core: "pm_core pm" using assms by (simp add: pm_ok_core)
  note d = deactivate_core [OF core, of p]
  have out: "pm_core (inactive_remove p (deactivate p pm))"
    using d by (auto simp: pm_core_def hm_wf_remove)
  show act: "active_set (expel p pm) = active_set pm - {p}" using d(2) by (simp add: expel_def)
  then show "pm_ok (expel p pm)" using out assms by (auto simp: pm_ok_core expel_def)
  show "sends who (active_set pm) pm (expel p pm)" using d(2) by (auto simp: sends_def expel_def net_apply_def)
qed (simp_all add: expel_def)

definition with_score :: "peer_id \<Rightarrow> peer_report \<Rightarrow> peer_manager \<Rightarrow> 32 word" where
  "with_score p rep pm = (case hm_get (pm_scores pm) p of
     None \<Rightarrow> rep_score_diff rep | Some v \<Rightarrow> saturating_score v (rep_score_diff rep))"

lemma on_report_peer_eq:
  "on_report_peer lib p rep pm =
     (let pm1 = pm\<lparr>pm_scores := hm_insert p (with_score p rep pm) (pm_scores pm)\<rparr> in
      if sint (with_score p rep pm) < MIN_SCORE then activate lib (expel p pm1) else Some pm1)"
  by (simp add: on_report_peer_def with_score_def [symmetric] expel_def active_contains_iff Let_def)

lemma on_report_peer_done:
  assumes "lhm_ok lib" "pm_ok pm"
  shows "\<exists>pm'. on_report_peer lib p rep pm = Some pm' \<and> done_from who (active_set pm) pm pm'"
proof -
  let ?pm = "pm\<lparr>pm_scores := hm_insert p (with_score p rep pm) (pm_scores pm)\<rparr>"
  have ok: "pm_ok ?pm" using assms(2) by (simp add: pm_ok_def)
  note e = expel_ok [OF ok, where p = p]
  have "sends who (active_set pm) pm (expel p ?pm)" using e(4) [of who] by (simp add: sends_def)
  then have "\<exists>pm'. activate lib (expel p ?pm) = Some pm' \<and> done_from who (active_set pm) pm pm'"
    using activate_after [OF assms(1) e(1), of who _ pm] e(5) by simp
  moreover have "done_from who (active_set pm) pm ?pm"
    using ok by (simp add: done_from_def sends_def)
  ultimately show ?thesis
    by (simp add: on_report_peer_eq Let_def)
qed

lemmas handler_done = on_add_reserved_peer_done on_remove_reserved_peer_done on_set_reserved_only_done on_report_peer_done

lemma handle_in_message_done:
  assumes "lhm_ok lib" "pm_ok pm"
  shows "\<exists>pm'. handle_in_message lib msg pm = Some pm' \<and> done_from who (active_set pm) pm pm'"
  using handler_done [OF assms] by (cases msg) (simp_all add: handle_in_message_def)

section \<open>Operations as one step function\<close>

datatype pm_op = OpDiscovered peer_id | OpDropped peer_id | OpIncoming peer_id incoming_id | OpHandle in_message

definition pm_run :: "lhm \<Rightarrow> pm_op \<Rightarrow> peer_manager \<Rightarrow> peer_manager option" where
  "pm_run lib op pm = (case op of
     OpDiscovered p \<Rightarrow> discovered lib p pm
   | OpDropped p \<Rightarrow> dropped lib p pm
   | OpIncoming p i \<Rightarrow> Some (incoming lib p i pm)
   | OpHandle msg \<Rightarrow> handle_in_message lib msg pm)"

text \<open>The peers the network has lost by itself when it calls the operation.\<close>

definition lost :: "pm_op \<Rightarrow> peer_id set" where
  "lost op = (case op of OpDropped p \<Rightarrow> {p} | _ \<Rightarrow> {})"

definition names_incoming :: "(incoming_id \<Rightarrow> peer_id) \<Rightarrow> pm_op \<Rightarrow> bool" where
  "names_incoming who op = (case op of OpIncoming p i \<Rightarrow> who i = p | _ \<Rightarrow> True)"

lemma pm_run_done:
  assumes "lhm_ok lib" "pm_ok pm" "names_incoming who op"
  shows "\<exists>pm'. pm_run lib op pm = Some pm' \<and> done_from who (active_set pm - lost op) pm pm'"
  using discovered_done [OF assms(1,2)] dropped_done [OF assms(1,2)] incoming_done [OF assms(1,2), of who]
    handle_in_message_done [OF assms(1,2)] assms(3)
  by (cases op) (auto simp: pm_run_def lost_def names_incoming_def)

lemma names_incoming_ex: "\<exists>who. names_incoming who op"
  by (cases op) (auto simp: names_incoming_def intro: exI [of _ "\<lambda>_. p" for p])

lemma pm_new_ok:
  assumes "lhm_ok lib" "hm_wf (cfg_reserved config)"
  shows "\<exists>pm. peer_manager_new lib config = Some pm \<and> pm_ok pm \<and> saturated pm \<and>
    fold (net_apply who) (pm_out_messages pm) {} = active_set pm"
proof -
  have wf: "hm_wf (fold (\<lambda>(p, _). ins_unit lib p) ps m)" if "hm_wf m" for ps :: "(peer_id, unit) hmap" and m
    using that
  proof (induction ps arbitrary: m)
    case (Cons e ps)
    have "hm_wf (ins_unit lib (fst e) m)" by (rule ins_unit_facts(1) [OF assms(1) Cons.prems])
    from Cons.IH [OF this] show ?case by (simp add: case_prod_beta)
  qed simp
  let ?pm = "\<lparr> pm_config = config, pm_active = \<lparr> ap_peers = [], ap_in_peers = 0, ap_out_peers = 0 \<rparr>,
     pm_inactive = fold (\<lambda>(peer, _). ins_unit lib peer) (cfg_reserved config @ cfg_bootnodes config) [],
     pm_in_rx = [], pm_out_messages = [], pm_scores = [] \<rparr>"
  have "pm_ok ?pm"
    using assms(2) wf [of "[]" "cfg_reserved config @ cfg_bootnodes config"]
    by (simp add: pm_ok_def active_inv_def counts_ok_def cnt_def select_def hkeys_def hm_get_def hm_wf_def)
  then show ?thesis
    using activate_ok [OF assms(1), of ?pm who]
    by (auto simp: peer_manager_new_def sends_def hkeys_def hm_get_def)
qed

lemma poll_next_ok:
  assumes "lhm_ok lib" "pm_ok pm"
  shows "\<exists>r pm'. poll_next lib pm = Some (r, pm') \<and> pm_ok pm' \<and>
    (r = None \<longrightarrow> pm_out_messages pm' = [] \<and> pm_in_rx pm' = [])"
  using assms(2)
proof (induction "length (pm_in_rx pm)" arbitrary: pm)
  case 0
  then show ?case
    by (cases "pm_out_messages pm") (subst poll_next.simps, simp add: pm_ok_def)+
next
  case (Suc n)
  show ?case
  proof (cases "pm_out_messages pm")
    case Nil
    obtain msg rest where rx: "pm_in_rx pm = msg # rest" using Suc.hyps(2) by (cases "pm_in_rx pm") auto
    have "pm_ok (pm\<lparr>pm_in_rx := rest\<rparr>)" using Suc.prems by (simp add: pm_ok_def)
    from handle_in_message_done [OF assms(1) this, of msg]
    obtain pm1 where h: "handle_in_message lib msg (pm\<lparr>pm_in_rx := rest\<rparr>) = Some pm1" "pm_ok pm1" "pm_in_rx pm1 = rest"
      by (auto simp: done_from_def)
    have "poll_next lib pm = poll_next lib pm1" using Nil rx h(1) by (subst poll_next.simps) simp
    then show ?thesis using Suc.hyps(1) [of pm1] Suc.hyps(2) h rx by simp
  next
    case (Cons m ms)
    then show ?thesis using Suc.prems by (subst poll_next.simps) (simp add: pm_ok_def)
  qed
qed

section \<open>A concrete manager\<close>

definition peer_a :: peer_id where "peer_a = PeerId [1]"
definition peer_b :: peer_id where "peer_b = PeerId [2]"

text \<open>One outgoing slot, taken by the normal peer \<open>b\<close>; the reserved peer \<open>a\<close> is inactive.\<close>

definition ex_manager :: peer_manager where
  "ex_manager = \<lparr>
     pm_config = \<lparr> cfg_max_in_peers = 1, cfg_max_out_peers = 1, cfg_bootnodes = [], cfg_reserved = [(peer_a, ())],
                   cfg_reserved_only = False \<rparr>,
     pm_active = \<lparr> ap_peers = [(peer_b, \<lparr> pi_state = Out, pi_type = Normal \<rparr>)], ap_in_peers = 0, ap_out_peers = 1 \<rparr>,
     pm_inactive = [(peer_a, ())], pm_in_rx = [], pm_out_messages = [], pm_scores = [(peer_b, of_int (- 60))] \<rparr>"

lemma ex_manager_ok [simp]: "pm_ok ex_manager"
proof -
  have "select P [(peer_b, v)] = (if P v then {peer_b} else {})" for P and v :: peer_info
    by (auto simp: select_def hm_get_def)
  then show ?thesis
    by (simp add: pm_ok_def active_inv_def counts_ok_def cnt_def ex_manager_def hm_wf_def hkeys_def hm_get_def)
      (auto simp: peer_a_def peer_b_def)
qed

lemma ex_manager_sets [simp]: "active_set ex_manager = {peer_b}" "inactive_set ex_manager = {peer_a}"
  by (auto simp: ex_manager_def hkeys_def hm_get_def)

section \<open>Properties\<close>

text \<open>C36: every operation of the manager returns (the loop of \<open>activate\<close> ends), and keeps its invariant: the
  counters are the numbers of incoming and outgoing active peers, neither exceeds its maximum, no peer is both active
  and inactive, and in reserved-only mode every active peer is reserved.\<close>

theorem peer_manager_invariant:
  assumes "lhm_ok lib" "pm_ok pm"
  shows "\<exists>pm'. pm_run lib op pm = Some pm' \<and> pm_ok pm'"
  using names_incoming_ex [of op] pm_run_done [OF assms] by (auto simp: done_from_def)

theorem peer_manager_invariant_witness:
  "lhm_ok lhm_back \<and> pm_ok ex_manager \<and> (\<exists>pm'. pm_run lhm_back (OpDropped peer_b) ex_manager = Some pm' \<and> pm_ok pm')"
  using peer_manager_invariant [OF lhm_back_ok ex_manager_ok] by simp

text \<open>C37: a network that carries out the messages an operation queues, in their order, is connected to exactly
  the peers the manager holds active afterwards.\<close>

theorem peer_manager_messages:
  assumes "lhm_ok lib" "pm_ok pm" "names_incoming who op" "pm_run lib op pm = Some pm'"
  shows "\<exists>ms. pm_out_messages pm' = pm_out_messages pm @ ms \<and>
    fold (net_apply who) ms (active_set pm - lost op) = active_set pm'"
  using pm_run_done [OF assms(1-3)] assms(4) by (auto simp: done_from_def sends_def)

theorem peer_manager_messages_witness:
  "\<exists>pm' ms. pm_run lhm_back (OpIncoming peer_a (IncomingId 7)) ex_manager = Some pm' \<and>
     pm_out_messages pm' = pm_out_messages ex_manager @ ms \<and>
     fold (net_apply (\<lambda>_. peer_a)) ms {peer_b} = active_set pm'"
proof -
  have n: "names_incoming (\<lambda>_. peer_a) (OpIncoming peer_a (IncomingId 7))" by (simp add: names_incoming_def)
  have r: "pm_run lhm_back (OpIncoming peer_a (IncomingId 7)) ex_manager =
      Some (incoming lhm_back peer_a (IncomingId 7) ex_manager)" by (simp add: pm_run_def)
  show ?thesis
    using peer_manager_messages [OF lhm_back_ok ex_manager_ok n r] r by (auto simp: lost_def)
qed

text \<open>\<open>activate\<close> leaves no outgoing connection to be made: every inactive peer is excluded by reserved-only mode,
  or all outgoing slots are taken, and none by a normal peer while a reserved peer waits. No known peer is lost.\<close>

theorem activate_saturates:
  assumes "lhm_ok lib" "pm_ok pm"
  shows "\<exists>pm'. activate lib pm = Some pm' \<and> saturated pm' \<and>
    active_set pm' \<union> inactive_set pm' = active_set pm \<union> inactive_set pm"
  using activate_ok [OF assms] by (auto simp: same_rest_def)

theorem activate_saturates_witness:
  "pm_ok ex_manager \<and> (\<exists>pm'. activate lhm_back ex_manager = Some pm' \<and> saturated pm' \<and>
     active_set pm' \<union> inactive_set pm' = {peer_b} \<union> {peer_a})"
  using activate_saturates [OF lhm_back_ok ex_manager_ok] by simp

text \<open>C40: polling the manager returns: it handles queued requests until there is a message to hand out, and says it
  is pending only when both queues are empty; the invariant is kept.\<close>

theorem poll_next_returns:
  assumes "lhm_ok lib" "pm_ok pm"
  shows "\<exists>r pm'. poll_next lib pm = Some (r, pm') \<and> pm_ok pm' \<and>
    (r = None \<longrightarrow> pm_out_messages pm' = [] \<and> pm_in_rx pm' = [])"
  by (rule poll_next_ok [OF assms])

theorem poll_next_returns_witness:
  "pm_ok ex_manager \<and> (\<exists>r pm'. poll_next lhm_back ex_manager = Some (r, pm') \<and> pm_ok pm' \<and>
     (r = None \<longrightarrow> pm_out_messages pm' = [] \<and> pm_in_rx pm' = []))"
  using poll_next_returns [OF lhm_back_ok ex_manager_ok] by simp

text \<open>a reported peer whose score falls below the minimum is neither active nor inactive afterwards, and the
  network is told to drop it when it was active.\<close>

theorem report_drops_peer:
  assumes "lhm_ok lib" "pm_ok pm" "hm_get (pm_scores pm) p = Some v"
    "sint (saturating_score v (rep_score_diff rep)) < MIN_SCORE"
  shows "\<exists>pm'. on_report_peer lib p rep pm = Some pm' \<and> p \<notin> active_set pm' \<union> inactive_set pm' \<and>
    (p \<in> active_set pm \<longrightarrow> Drop p \<in> set (pm_out_messages pm'))"
proof -
  let ?pm = "pm\<lparr>pm_scores := hm_insert p (with_score p rep pm) (pm_scores pm)\<rparr>"
  have ok: "pm_ok ?pm" using assms(2) by (simp add: pm_ok_def)
  note e = expel_ok [OF ok, where p = p]
  obtain pm' where a: "activate lib (expel p ?pm) = Some pm'" "same_rest (expel p ?pm) pm'"
      "sends (\<lambda>_. p) (active_set (expel p ?pm)) (expel p ?pm) pm'"
    using activate_ok [OF assms(1) e(1)] by blast
  have "on_report_peer lib p rep pm = Some pm'"
    using a(1) assms(3,4) by (simp add: on_report_peer_eq Let_def with_score_def)
  moreover have "p \<notin> active_set pm' \<union> inactive_set pm'"
    using a(2) e(2,3) by (simp add: same_rest_def)
  moreover have "p \<in> active_set pm \<longrightarrow> Drop p \<in> set (pm_out_messages pm')"
    using a(3) by (auto simp: sends_def expel_def)
  ultimately show ?thesis by auto
qed

theorem report_drops_peer_witness:
  "\<exists>pm'. on_report_peer lhm_back peer_b (report_new_fatal ''bad block'') ex_manager = Some pm' \<and>
     peer_b \<notin> active_set pm' \<union> inactive_set pm' \<and> Drop peer_b \<in> set (pm_out_messages pm')"
proof -
  have s: "hm_get (pm_scores ex_manager) peer_b = Some (of_int (- 60))" by (simp add: ex_manager_def hm_get_def)
  have "sint (saturating_score (of_int (- 60)) (rep_score_diff (report_new_fatal ''bad block''))) < MIN_SCORE"
    by (simp add: saturating_score_def report_new_fatal_def MIN_SCORE_def)
  from report_drops_peer [OF lhm_back_ok ex_manager_ok s this] show ?thesis by simp
qed

text \<open>A fatal report is worth exactly the minimum, and only a score below it drops the peer: a peer with no score
  yet survives a fatal report.\<close>

lemma fatal_report_survived:
  assumes "hm_get (pm_scores pm) p = None"
  shows "on_report_peer lib p (report_new_fatal desc) pm = Some (pm\<lparr>pm_scores := hm_insert p (of_int MIN_SCORE) (pm_scores pm)\<rparr>)"
  using assms by (simp add: on_report_peer_def report_new_fatal_def MIN_SCORE_def Let_def)

end
