(* ===== verification/Chain_Backend.thy ===== *)
theory Chain_Backend
  imports Executor System_Module
begin

text \<open>
  The chain backend (\<^verbatim>\<open>core/node/chain/src/backend.rs\<close>): the blocks, transactions, receipts and executions
  in the database, the current state derived from them, building and committing blocks and executions,
  validating transactions, and calls on a block.

  The state is the record \<open>backend\<close>. What the backend is given from outside is the record \<open>chain_lib\<close>: RocksDB, the
  trie library, the modules of the dispatcher, the codecs and the printer of errors. The system clock is the argument
  \<open>now\<close> (\<open>None\<close> for a clock before 1970). The lock around \<open>commit_block\<close> makes it one step.
\<close>

section \<open>State\<close>

record chain_codecs =
  cc_exec :: exec_codecs
  cc_message :: "message codec"
  cc_number :: "block_number codec"
  cc_hash :: "hash codec"
  cc_hashes :: "hash list codec"
  cc_header :: "header codec"
  cc_transaction :: "transaction codec"
  cc_receipt :: "receipt codec"
  cc_execution :: "execution codec"
  cc_proof :: "proof_data codec"
  cc_string :: "string codec"
  cc_empty_params :: "empty_params codec"
  cc_system_meta :: "system_meta codec"

record ('d, 't) chain_lib =
  cl_rocks :: "'d rocks"
  cl_tries :: "hash_length \<Rightarrow> 't trie_lib"
  cl_dispatcher :: "exec_context dispatcher"
  cl_codecs :: chain_codecs
  cl_show_error :: "common_error \<Rightarrow> string"

record current_state =
  cur_genesis_hash :: hash
  cur_context_essence :: context_essence
  cur_system_meta :: system_meta
  cur_confirmed_number :: block_number
  cur_confirmed_block_hash :: hash
  cur_executed_number :: block_number
  cur_executed_block_hash :: hash

datatype chain_out_message = BlockCommitted u64 hash | ExecutionCommitted u64 hash

text \<open>The message channel is its pending messages and whether its receiver still exists.\<close>

record ('d, 'kp, 'ver) backend =
  bk_db :: 'd
  bk_meta_statedb :: statedb
  bk_payload_statedb :: statedb
  bk_trie_root :: trie_root
  bk_executor :: "('kp, 'ver) executor"
  bk_current_state :: "current_state option"
  bk_messages :: "chain_out_message list"
  bk_message_open :: bool
  bk_message_rx :: bool

type_synonym ('d, 'kp, 'ver, 'a) chain_comp = "(('d, 'kp, 'ver) backend, 'a, common_error) comp"

type_synonym chain_commit_block_params = "db_transaction commit_block_params"
type_synonym chain_commit_execution_params = "db_transaction commit_execution_params"

abbreviation data_error :: "string \<Rightarrow> common_error" where
  "data_error s \<equiv> ChainError (ChainData s)"

definition show_hash :: "('d, 'kp, 'ver) backend \<Rightarrow> hash \<Rightarrow> string" where
  "show_hash b h = xe_hex (bk_executor b) (hash_bytes h)"

section \<open>Reading the database\<close>

definition read_with :: "('d, 't) chain_lib \<Rightarrow> u32 \<Rightarrow> bytes \<Rightarrow> 'a codec \<Rightarrow> ('d, 'kp, 'ver) backend \<Rightarrow> 'a option common_result" where
  "read_with lib col key c b = db_get_with (cl_rocks lib) col key (decode c) (bk_db b)"

definition get_confirmed_number :: "('d, 't) chain_lib \<Rightarrow> ('d, 'kp, 'ver) backend \<Rightarrow> block_number option common_result" where
  "get_confirmed_number lib = read_with lib GLOBAL CONFIRMED_NUMBER (cc_number (cl_codecs lib))"

definition get_execution_number :: "('d, 't) chain_lib \<Rightarrow> ('d, 'kp, 'ver) backend \<Rightarrow> block_number option common_result" where
  "get_execution_number lib = read_with lib GLOBAL EXECUTION_NUMBER (cc_number (cl_codecs lib))"

definition get_block_hash :: "('d, 't) chain_lib \<Rightarrow> block_number \<Rightarrow> ('d, 'kp, 'ver) backend \<Rightarrow> hash option common_result" where
  "get_block_hash lib number = read_with lib BLOCK_HASH (enc (cc_number (cl_codecs lib)) number) (cc_hash (cl_codecs lib))"

definition get_header :: "('d, 't) chain_lib \<Rightarrow> hash \<Rightarrow> ('d, 'kp, 'ver) backend \<Rightarrow> header option common_result" where
  "get_header lib block_hash = read_with lib HEADER (hash_bytes block_hash) (cc_header (cl_codecs lib))"

definition get_body :: "('d, 't) chain_lib \<Rightarrow> hash \<Rightarrow> ('d, 'kp, 'ver) backend \<Rightarrow> body option common_result" where
  "get_body lib block_hash b =
     and_then (read_with lib META_TXS (hash_bytes block_hash) (cc_hashes (cl_codecs lib)) b) (\<lambda>m. case m of
       None \<Rightarrow> Ok None
     | Some meta_txs \<Rightarrow>
     and_then (read_with lib PAYLOAD_TXS (hash_bytes block_hash) (cc_hashes (cl_codecs lib)) b) (\<lambda>p. case p of
       None \<Rightarrow> Ok None
     | Some payload_txs \<Rightarrow> Ok (Some \<lparr> body_meta_txs = meta_txs, body_payload_txs = payload_txs \<rparr>)))"

definition get_block :: "('d, 't) chain_lib \<Rightarrow> hash \<Rightarrow> ('d, 'kp, 'ver) backend \<Rightarrow> block option common_result" where
  "get_block lib block_hash b = and_then (get_header lib block_hash b) (\<lambda>h. case h of
     None \<Rightarrow> Ok None
   | Some header \<Rightarrow>
     and_then (get_body lib block_hash b) (\<lambda>body.
     and_then (ok_or_else (data_error (''Block missing body: block_hash: '' @ show_hash b block_hash)) body) (\<lambda>body.
     Ok (Some \<lparr> blk_header = header, blk_body = body \<rparr>))))"

definition get_execution :: "('d, 't) chain_lib \<Rightarrow> hash \<Rightarrow> ('d, 'kp, 'ver) backend \<Rightarrow> execution option common_result" where
  "get_execution lib block_hash = read_with lib EXECUTION (hash_bytes block_hash) (cc_execution (cl_codecs lib))"

definition get_proof :: "('d, 't) chain_lib \<Rightarrow> hash \<Rightarrow> ('d, 'kp, 'ver) backend \<Rightarrow> proof_data option common_result" where
  "get_proof lib block_hash = read_with lib PROOF (hash_bytes block_hash) (cc_proof (cl_codecs lib))"

definition get_transaction :: "('d, 't) chain_lib \<Rightarrow> hash \<Rightarrow> ('d, 'kp, 'ver) backend \<Rightarrow> transaction option common_result" where
  "get_transaction lib tx_hash = read_with lib TX (hash_bytes tx_hash) (cc_transaction (cl_codecs lib))"

definition get_raw_transaction :: "('d, 't) chain_lib \<Rightarrow> hash \<Rightarrow> ('d, 'kp, 'ver) backend \<Rightarrow> bytes option common_result" where
  "get_raw_transaction lib tx_hash b = db_get (cl_rocks lib) TX (hash_bytes tx_hash) (bk_db b)"

definition get_receipt :: "('d, 't) chain_lib \<Rightarrow> hash \<Rightarrow> ('d, 'kp, 'ver) backend \<Rightarrow> receipt option common_result" where
  "get_receipt lib tx_hash = read_with lib RECEIPT (hash_bytes tx_hash) (cc_receipt (cl_codecs lib))"

text \<open>The gap in the header is an \<open>i8\<close>, extended with its sign to \<open>u64\<close>.\<close>

definition get_confirmed_executed_number :: "('d, 't) chain_lib \<Rightarrow> ('d, 'kp, 'ver) backend
    \<Rightarrow> block_number option common_result" where
  "get_confirmed_executed_number lib b = and_then (get_confirmed_number lib b) (\<lambda>n. case n of
     None \<Rightarrow> Ok None
   | Some confirmed_number \<Rightarrow>
     and_then (get_block_hash lib confirmed_number b) (\<lambda>h.
     and_then (ok_or_else (data_error (''Missing block hash: number: '' @ show_word confirmed_number)) h) (\<lambda>block_hash.
     and_then (get_header lib block_hash b) (\<lambda>h.
     and_then (ok_or_else (data_error (''Missing header: block_hash: '' @ show_hash b block_hash)) h) (\<lambda>header.
     Ok (if confirmed_number = 0 then None
         else Some (confirmed_number - scast (hdr_payload_execution_gap header))))))))"

section \<open>Consensus data\<close>

definition get_consensus_data :: "('d, 't) chain_lib \<Rightarrow> 'a codec \<Rightarrow> bytes \<Rightarrow> ('d, 'kp, 'ver) backend \<Rightarrow> 'a option common_result" where
  "get_consensus_data lib c key = read_with lib CONSENSUS key c"

definition put_consensus_data :: "'a codec \<Rightarrow> bytes \<Rightarrow> 'a \<Rightarrow> db_transaction \<Rightarrow> db_transaction" where
  "put_consensus_data c key v t = put_owned CONSENSUS key (enc c v) t"

definition delete_consensus_data :: "bytes \<Rightarrow> db_transaction \<Rightarrow> db_transaction" where
  "delete_consensus_data key t = delete_key CONSENSUS key t"

definition write_db :: "('d, 't) chain_lib \<Rightarrow> db_transaction \<Rightarrow> ('d, 'kp, 'ver, unit) chain_comp" where
  "write_db lib t b = (let (r, d) = db_write (cl_rocks lib) t (bk_db b) in (r, b\<lparr>bk_db := d\<rparr>))"

definition commit_consensus_data :: "('d, 't) chain_lib \<Rightarrow> db_transaction \<Rightarrow> ('d, 'kp, 'ver, unit) chain_comp" where
  "commit_consensus_data lib t = write_db lib t"

section \<open>Calls on a block\<close>

definition new_essence :: "('d, 'kp, 'ver) backend \<Rightarrow> context_env \<Rightarrow> hash \<Rightarrow> hash \<Rightarrow> context_essence common_result" where
  "new_essence b env meta_state_root payload_state_root = context_essence_new env (bk_trie_root b)
     (bk_meta_statedb b) meta_state_root (bk_payload_statedb b) payload_state_root"

definition new_context :: "('d, 't) chain_lib \<Rightarrow> ('d, 'kp, 'ver) backend \<Rightarrow> context_essence \<Rightarrow> exec_context common_result" where
  "new_context lib b e = context_new (cl_rocks lib) (cl_tries lib) (bk_db b) e"

definition backend_execute_call :: "('d, 't) chain_lib \<Rightarrow> hash \<Rightarrow> address option \<Rightarrow> call \<Rightarrow> ('d, 'kp, 'ver) backend
    \<Rightarrow> opaque_call_result common_result" where
  "backend_execute_call lib block_hash sender call b =
     and_then (get_header lib block_hash b) (\<lambda>h.
     and_then (ok_or_else (data_error (''Unknown block hash: '' @ show_hash b block_hash)) h) (\<lambda>header.
     and_then (get_execution lib block_hash b) (\<lambda>execution.
     and_then (case execution of
         Some execution \<Rightarrow> Ok (Some execution)
       | None \<Rightarrow> and_then (is_meta_call (cl_dispatcher lib) call) (\<lambda>is_meta.
           Ok (if is_meta then Some \<lparr> exe_payload_execution_state_root = default_hash (bk_executor b),
                                     exe_payload_execution_receipts_root = default_hash (bk_executor b) \<rparr>
               else None))) (\<lambda>execution.
     and_then (ok_or_else (data_error (''Not execution block hash: '' @ show_hash b block_hash)) execution) (\<lambda>execution.
     and_then (new_essence b \<lparr> env_number = hdr_number header, env_timestamp = hdr_timestamp header \<rparr>
                 (hdr_meta_state_root header) (exe_payload_execution_state_root execution)) (\<lambda>essence.
     and_then (new_context lib b essence) (\<lambda>context.
     fst (execute_call (cl_dispatcher lib) sender call context))))))))"

definition execute_call_with_block_hash :: "('d, 't) chain_lib \<Rightarrow> 'p codec \<Rightarrow> 'r codec \<Rightarrow> hash \<Rightarrow> address option
    \<Rightarrow> string \<Rightarrow> string \<Rightarrow> 'p \<Rightarrow> ('d, 'kp, 'ver) backend \<Rightarrow> 'r call_result common_result" where
  "execute_call_with_block_hash lib cp cr block_hash sender module_name method_name params b =
     and_then (build_call cp module_name method_name params) (\<lambda>call.
     and_then (backend_execute_call lib block_hash sender call b) (\<lambda>result. case result of
       Ok result \<Rightarrow> and_then (decode cr result) (\<lambda>r. Ok (Ok r))
     | Err e \<Rightarrow> Ok (Err e)))"

definition execute_call_with_block_number :: "('d, 't) chain_lib \<Rightarrow> 'p codec \<Rightarrow> 'r codec \<Rightarrow> block_number \<Rightarrow> address option
    \<Rightarrow> string \<Rightarrow> string \<Rightarrow> 'p \<Rightarrow> ('d, 'kp, 'ver) backend \<Rightarrow> 'r call_result common_result" where
  "execute_call_with_block_number lib cp cr block_number sender module_name method_name params b =
     and_then (get_block_hash lib block_number b) (\<lambda>h.
     and_then (ok_or_else (data_error (''Unknown block number: '' @ show_word block_number)) h) (\<lambda>block_hash.
     execute_call_with_block_hash lib cp cr block_hash sender module_name method_name params b))"

section \<open>The current state\<close>

definition derive_current_state :: "('d, 't) chain_lib \<Rightarrow> u64 option \<Rightarrow> ('d, 'kp, 'ver) backend \<Rightarrow> current_state common_result" where
  "derive_current_state lib now b =
     and_then (get_confirmed_number lib b) (\<lambda>n.
     and_then (ok_or_else (data_error ''Confirmed number not found'') n) (\<lambda>confirmed_number.
     and_then (get_block_hash lib confirmed_number b) (\<lambda>h.
     and_then (ok_or_else (data_error (''Invalid block number: '' @ show_word confirmed_number)) h) (\<lambda>confirmed_block_hash.
     and_then (get_header lib confirmed_block_hash b) (\<lambda>h.
     and_then (ok_or_else (data_error (''Invalid block hash: '' @ show_word confirmed_number)) h) (\<lambda>header.
     and_then (get_execution_number lib b) (\<lambda>n.
     and_then (ok_or_else (data_error ''Executed number not found'') n) (\<lambda>executed_number.
     and_then (get_block_hash lib executed_number b) (\<lambda>h.
     and_then (ok_or_else (data_error (''Invalid block number: '' @ show_word executed_number)) h) (\<lambda>executed_block_hash.
     and_then (get_execution lib executed_block_hash b) (\<lambda>x.
     and_then (ok_or_else (data_error (''Not executed block hash: '' @ show_hash b executed_block_hash)) x) (\<lambda>execution.
     and_then (ok_or_else (data_error ''Timestamp error'') now) (\<lambda>timestamp.
     and_then (new_essence b \<lparr> env_number = confirmed_number + 1, env_timestamp = timestamp \<rparr>
                 (hdr_meta_state_root header) (exe_payload_execution_state_root execution)) (\<lambda>context_essence.
     and_then (execute_call_with_block_hash lib (cc_empty_params (cl_codecs lib)) (cc_system_meta (cl_codecs lib))
                 confirmed_block_hash None ''system'' ''get_meta'' EmptyParams b) (\<lambda>r.
     and_then (map_err (\<lambda>e. ChainError (ChainCall e)) r) (\<lambda>system_meta.
     and_then (get_block_hash lib 0 b) (\<lambda>h.
     and_then (ok_or_else (data_error ''Missing genesis block'') h) (\<lambda>genesis_hash.
     Ok \<lparr> cur_genesis_hash = genesis_hash, cur_context_essence = context_essence, cur_system_meta = system_meta,
          cur_confirmed_number = confirmed_number, cur_confirmed_block_hash = confirmed_block_hash,
          cur_executed_number = executed_number, cur_executed_block_hash = executed_block_hash \<rparr>))))))))))))))))))"

definition update_current_state :: "('d, 't) chain_lib \<Rightarrow> u64 option \<Rightarrow> ('d, 'kp, 'ver, unit) chain_comp" where
  "update_current_state lib now = bind (query (derive_current_state lib now)) (\<lambda>current_state.
     \<lambda>b. (Ok (), b\<lparr>bk_current_state := Some current_state\<rparr>))"

definition send_message :: "chain_out_message \<Rightarrow> ('d, 'kp, 'ver, unit) chain_comp" where
  "send_message m b = (if bk_message_open b then (Ok (), b\<lparr>bk_messages := bk_messages b @ [m]\<rparr>)
     else (Err (ChainError ChainChannel), b))"

definition on_block_committed :: "('d, 't) chain_lib \<Rightarrow> u64 option \<Rightarrow> u64 \<Rightarrow> hash \<Rightarrow> ('d, 'kp, 'ver, unit) chain_comp" where
  "on_block_committed lib now number block_hash =
     bind (update_current_state lib now) (\<lambda>_. send_message (BlockCommitted number block_hash))"

definition on_execution_committed :: "('d, 't) chain_lib \<Rightarrow> u64 option \<Rightarrow> u64 \<Rightarrow> hash \<Rightarrow> ('d, 'kp, 'ver, unit) chain_comp" where
  "on_execution_committed lib now number block_hash =
     bind (update_current_state lib now) (\<lambda>_. send_message (ExecutionCommitted number block_hash))"

definition chain_message_rx :: "('d, 'kp, 'ver, bool) chain_comp" where
  "chain_message_rx b = (Ok (bk_message_rx b), b\<lparr>bk_message_rx := False\<rparr>)"

definition get_current_state :: "('d, 'kp, 'ver) backend \<Rightarrow> current_state common_result" where
  "get_current_state b = ok_or_else (Panic ''qed'') (bk_current_state b)"

section \<open>Validating a transaction\<close>

fun validate_error :: "executor_error \<Rightarrow> validate_tx_error option" where
  "validate_error (InvalidTxWitness e) = Some (VInvalidTxWitness e)"
| "validate_error (InvalidTxModule e) = Some (VInvalidTxModule e)"
| "validate_error (InvalidTxMethod e) = Some (VInvalidTxMethod e)"
| "validate_error (InvalidTxParams e) = Some (VInvalidTxParams e)"
| "validate_error (ExecApplication e) = Some (VApplication e)"
| "validate_error _ = None"

definition validate_until :: "current_state \<Rightarrow> transaction \<Rightarrow> unit common_result" where
  "validate_until cur tx = (case tx_witness tx of
     None \<Rightarrow> Ok ()
   | Some w \<Rightarrow>
       let until = wit_until w; confirmed_number = cur_confirmed_number cur;
           max_until = confirmed_number + sys_max_until_gap (cur_system_meta cur) in
       if until > max_until
       then Err (ChainError (ValidateTxError (VInvalidTxUntil (''Exceed max until: '' @ show_word until))))
       else if until \<le> confirmed_number
       then Err (ChainError (ValidateTxError (VInvalidTxUntil (''Exceed min until: '' @ show_word until))))
       else Ok ())"

definition backend_validate_transaction :: "('d, 't) chain_lib \<Rightarrow> hash \<Rightarrow> transaction \<Rightarrow> bool \<Rightarrow> ('d, 'kp, 'ver) backend
    \<Rightarrow> unit common_result" where
  "backend_validate_transaction lib tx_hash tx witness_required b =
     and_then (get_current_state b) (\<lambda>cur.
     and_then (new_context lib b (cur_context_essence cur)) (\<lambda>context.
     and_then (validate_until cur tx) (\<lambda>_.
     and_then (get_transaction lib tx_hash b) (\<lambda>old.
     if old \<noteq> None then Err (ChainError (ValidateTxError (VDuplicatedTx (show_hash b tx_hash))))
     else or_else_catch as_executor_error
       (\<lambda>e. map_option (\<lambda>v. Err (ChainError (ValidateTxError v))) (validate_error e))
       (fst (validate_tx (bk_executor b) (cc_message (cl_codecs lib)) (cl_dispatcher lib) tx witness_required context))))))"

section \<open>Building and committing blocks\<close>

definition backend_hash_header :: "('d, 't) chain_lib \<Rightarrow> ('d, 'kp, 'ver) backend \<Rightarrow> header \<Rightarrow> hash common_result" where
  "backend_hash_header lib b header = exec_hash (bk_executor b) (cc_header (cl_codecs lib)) header"

text \<open>The block of a context in which the meta transactions have been executed.\<close>

definition seal_block :: "('d, 't) chain_lib \<Rightarrow> build_block_params \<Rightarrow> hash \<Rightarrow> execution \<Rightarrow> exec_context \<Rightarrow> ('d, 'kp, 'ver) backend
    \<Rightarrow> chain_commit_block_params common_result" where
  "seal_block lib p parent_hash execution context b =
     (let tries = cl_tries lib; ecs = cc_exec (cl_codecs lib) in
     and_then (get_meta_update (cl_rocks lib) tries (bk_db b) context) (\<lambda>(meta_state_root, meta_transaction).
     and_then (get_meta_txs tries ecs context) (\<lambda>(meta_txs_root, meta_txs).
     and_then (get_meta_receipts tries ecs context) (\<lambda>(meta_receipts_root, meta_receipts).
     and_then (get_txs_root tries ecs context (bb_payload_txs p)) (\<lambda>payload_txs_root.
     let header = \<lparr> hdr_number = bb_number p, hdr_timestamp = bb_timestamp p, hdr_parent_hash = parent_hash,
           hdr_meta_txs_root = meta_txs_root, hdr_meta_state_root = meta_state_root,
           hdr_meta_receipts_root = meta_receipts_root, hdr_payload_txs_root = payload_txs_root,
           hdr_payload_execution_gap = ucast (bb_number p - bb_execution_number p),
           hdr_payload_execution_state_root = exe_payload_execution_state_root execution,
           hdr_payload_execution_receipts_root = exe_payload_execution_receipts_root execution \<rparr> in
     and_then (backend_hash_header lib b header) (\<lambda>block_hash.
     Ok \<lparr> cb_block_hash = block_hash, cb_header = header,
          cb_body = \<lparr> body_meta_txs = map ftx_hash meta_txs, body_payload_txs = map ftx_hash (bb_payload_txs p) \<rparr>,
          cb_meta_txs = meta_txs, cb_meta_receipts = meta_receipts, cb_payload_txs = bb_payload_txs p,
          cb_meta_transaction = meta_transaction, cb_proof = proof_default \<rparr>))))))"

definition build_block :: "('d, 't) chain_lib \<Rightarrow> build_block_params \<Rightarrow> ('d, 'kp, 'ver) backend
    \<Rightarrow> chain_commit_block_params common_result" where
  "build_block lib p b =
     (let number = bb_number p; timestamp = bb_timestamp p; parent_number = number - 1;
          execution_number = bb_execution_number p in
     and_then (get_block_hash lib parent_number b) (\<lambda>h.
     and_then (ok_or_else (data_error (''Invalid block number: '' @ show_word parent_number)) h) (\<lambda>parent_hash.
     and_then (get_header lib parent_hash b) (\<lambda>h.
     and_then (ok_or_else (data_error (''Invalid block hash: '' @ show_hash b parent_hash)) h) (\<lambda>parent_header.
     and_then (get_block_hash lib execution_number b) (\<lambda>h.
     and_then (ok_or_else (data_error (''Invalid block number: '' @ show_word execution_number)) h) (\<lambda>execution_block_hash.
     and_then (get_execution lib execution_block_hash b) (\<lambda>x.
     and_then (ok_or_else (data_error (''Not execution block hash: '' @ show_hash b execution_block_hash)) x) (\<lambda>execution.
     and_then (new_essence b \<lparr> env_number = number, env_timestamp = timestamp \<rparr>
                 (hdr_meta_state_root parent_header) (exe_payload_execution_state_root execution)) (\<lambda>essence.
     and_then (new_context lib b essence) (\<lambda>context.
     let (r, context) = execute_txs (bk_executor b) (cl_dispatcher lib) (bb_meta_txs p) context in
     and_then r (\<lambda>_. seal_block lib p parent_hash execution context b))))))))))))"

definition put_txs :: "chain_codecs \<Rightarrow> full_transaction list \<Rightarrow> db_transaction \<Rightarrow> db_transaction" where
  "put_txs cs txs t = fold (\<lambda>tx. put_owned TX (hash_bytes (ftx_hash tx)) (enc (cc_transaction cs) (ftx_tx tx))) txs t"

definition put_receipts :: "chain_codecs \<Rightarrow> full_receipt list \<Rightarrow> db_transaction \<Rightarrow> db_transaction" where
  "put_receipts cs receipts t =
     fold (\<lambda>r. put_owned RECEIPT (hash_bytes (frc_tx_hash r)) (enc (cc_receipt cs) (frc_receipt r))) receipts t"

text \<open>The function \<open>commit_block\<close> at the end of the file: the operations of a block in one transaction.\<close>

definition commit_block_ops :: "chain_codecs \<Rightarrow> chain_commit_block_params \<Rightarrow> db_transaction \<Rightarrow> db_transaction" where
  "commit_block_ops cs p t =
     (let t = Database.extend (cb_meta_transaction p) t;
          key = hash_bytes (cb_block_hash p);
          t = put_owned HEADER key (enc (cc_header cs) (cb_header p)) t;
          t = put_owned META_TXS key (enc (cc_hashes cs) (body_meta_txs (cb_body p))) t;
          t = put_owned PAYLOAD_TXS key (enc (cc_hashes cs) (body_payload_txs (cb_body p))) t;
          t = put_txs cs (cb_meta_txs p) t;
          t = put_txs cs (cb_payload_txs p) t;
          t = put_receipts cs (cb_meta_receipts p) t;
          t = put_owned PROOF key (enc (cc_proof cs) (cb_proof p)) t;
          t = put_owned BLOCK_HASH (enc (cc_number cs) (hdr_number (cb_header p))) (enc (cc_hash cs) (cb_block_hash p)) t
      in put_owned GLOBAL CONFIRMED_NUMBER (enc (cc_number cs) (hdr_number (cb_header p))) t)"

definition backend_commit_block :: "('d, 't) chain_lib \<Rightarrow> u64 option \<Rightarrow> chain_commit_block_params
    \<Rightarrow> ('d, 'kp, 'ver, unit) chain_comp" where
  "backend_commit_block lib now p =
     (let number = hdr_number (cb_header p); block_hash = cb_block_hash p; parent_hash = hdr_parent_hash (cb_header p) in
     bind (query (get_header lib block_hash)) (\<lambda>old.
     bind (fail_if (old \<noteq> None) (ChainError (CommitBlockError Duplicated))) (\<lambda>_.
     bind (query (get_confirmed_number lib)) (\<lambda>n.
     bind (ok_or (data_error ''Confirmed number not found'') n) (\<lambda>confirmed_number.
     bind (query (get_block_hash lib confirmed_number)) (\<lambda>h.
     bind (ok_or (data_error (''Invalid block number: '' @ show_word confirmed_number)) h) (\<lambda>confirmed_hash.
     bind (fail_if (\<not> (number = confirmed_number + 1 \<and> parent_hash = confirmed_hash)) (ChainError (CommitBlockError NotBest))) (\<lambda>_.
     bind (write_db lib (commit_block_ops (cl_codecs lib) p transaction_new)) (\<lambda>_.
     on_block_committed lib now number block_hash)))))))))"

section \<open>Building and committing executions\<close>

definition build_execution :: "('d, 't) chain_lib \<Rightarrow> build_execution_params \<Rightarrow> ('d, 'kp, 'ver) backend
    \<Rightarrow> chain_commit_execution_params common_result" where
  "build_execution lib p b =
     and_then (new_essence b \<lparr> env_number = be_number p, env_timestamp = be_timestamp p \<rparr>
                 (be_meta_state_root p) (be_payload_state_root p)) (\<lambda>essence.
     and_then (new_context lib b essence) (\<lambda>context.
     let (r, context) = execute_txs (bk_executor b) (cl_dispatcher lib) (be_payload_txs p) context in
     and_then r (\<lambda>_.
     and_then (get_payload_update (cl_rocks lib) (cl_tries lib) (bk_db b) context) (\<lambda>(payload_state_root, payload_transaction).
     and_then (get_payload_receipts (cl_tries lib) (cc_exec (cl_codecs lib)) context) (\<lambda>(payload_receipts_root, payload_receipts).
     Ok \<lparr> ce_block_hash = be_block_hash p, ce_number = be_number p,
          ce_execution = \<lparr> exe_payload_execution_state_root = payload_state_root,
                           exe_payload_execution_receipts_root = payload_receipts_root \<rparr>,
          ce_payload_receipts = payload_receipts, ce_payload_transaction = payload_transaction \<rparr>)))))"

definition commit_execution_ops :: "chain_codecs \<Rightarrow> chain_commit_execution_params \<Rightarrow> db_transaction \<Rightarrow> db_transaction" where
  "commit_execution_ops cs p t =
     (let t = Database.extend (ce_payload_transaction p) t;
          t = put_owned EXECUTION (hash_bytes (ce_block_hash p)) (enc (cc_execution cs) (ce_execution p)) t;
          t = put_receipts cs (ce_payload_receipts p) t
      in put_owned GLOBAL EXECUTION_NUMBER (enc (cc_number cs) (ce_number p)) t)"

definition commit_execution :: "('d, 't) chain_lib \<Rightarrow> u64 option \<Rightarrow> chain_commit_execution_params
    \<Rightarrow> ('d, 'kp, 'ver, unit) chain_comp" where
  "commit_execution lib now p =
     bind (write_db lib (commit_execution_ops (cl_codecs lib) p transaction_new)) (\<lambda>_.
     on_execution_committed lib now (ce_number p) (ce_block_hash p))"

definition commit_spec_ops :: "chain_codecs \<Rightarrow> string \<Rightarrow> db_transaction \<Rightarrow> db_transaction" where
  "commit_spec_ops cs spec_str t = put_owned GLOBAL SPEC (enc (cc_string cs) spec_str) t"

end
