(* ===== verification/Chain.thy ===== *)
theory Chain
  imports Chain_Backend
begin

text \<open>
  The chain (\<^verbatim>\<open>core/node/chain/src/lib.rs\<close>) and its execute queue (\<^verbatim>\<open>core/node/chain/src/execute.rs\<close>): a committed
  block becomes a task, and a task stream executes the payload transactions of the blocks one by one.

  The state is the backend with the tasks in the channel. \<open>task_turn\<close> is one turn of the loop of the stream.
\<close>

section \<open>The execute queue\<close>

record execute_task =
  et_number :: block_number
  et_timestamp :: u64
  et_block_hash :: hash
  et_parent_hash :: hash
  et_meta_state_root :: hash
  et_payload_txs :: "full_transaction list"

record ('d, 'kp, 'ver) chain =
  ch_backend :: "('d, 'kp, 'ver) backend"
  ch_tasks :: "execute_task list"
  ch_task_open :: bool

abbreviation queue_error :: "string \<Rightarrow> common_error" where
  "queue_error s \<equiv> ChainError (ChainExecuteQueue s)"

definition insert_task :: "execute_task \<Rightarrow> (('d, 'kp, 'ver) chain, unit, common_error) comp" where
  "insert_task task c = (if ch_task_open c then (Ok (), c\<lparr>ch_tasks := ch_tasks c @ [task]\<rparr>)
     else (Err (queue_error ''Insert task error''), c))"

definition load_tx :: "('d, 't) chain_lib \<Rightarrow> ('d, 'kp, 'ver) backend \<Rightarrow> hash \<Rightarrow> full_transaction common_result" where
  "load_tx lib b tx_hash = and_then (get_transaction lib tx_hash b) (\<lambda>x.
     and_then (ok_or_else (queue_error (''Unable to get transaction: '' @ show_hash b tx_hash)) x) (\<lambda>tx.
     Ok \<lparr> ftx_tx = tx, ftx_hash = tx_hash \<rparr>))"

text \<open>The task of a block that is in the database already.\<close>

definition rebuild_task :: "('d, 't) chain_lib \<Rightarrow> block_number \<Rightarrow> ('d, 'kp, 'ver) backend \<Rightarrow> execute_task common_result" where
  "rebuild_task lib current_number b =
     and_then (get_block_hash lib current_number b) (\<lambda>h.
     and_then (ok_or_else (queue_error (''Unable to get block hash: '' @ show_word current_number)) h) (\<lambda>block_hash.
     and_then (get_block lib block_hash b) (\<lambda>blk.
     and_then (ok_or_else (queue_error (''Unable to get block header: '' @ show_hash b block_hash)) blk) (\<lambda>block.
     and_then (collect_results (map (load_tx lib b) (body_payload_txs (blk_body block)))) (\<lambda>payload_txs.
     Ok \<lparr> et_number = current_number, et_timestamp = hdr_timestamp (blk_header block), et_block_hash = block_hash,
          et_parent_hash = hdr_parent_hash (blk_header block),
          et_meta_state_root = hdr_meta_state_root (blk_header block), et_payload_txs = payload_txs \<rparr>)))))"

definition pick_task :: "('d, 't) chain_lib \<Rightarrow> block_number \<Rightarrow> execute_task option \<Rightarrow> ('d, 'kp, 'ver) backend
    \<Rightarrow> execute_task common_result" where
  "pick_task lib current_number task b = (case task of
     Some task \<Rightarrow> if et_number task = current_number then Ok task else rebuild_task lib current_number b
   | None \<Rightarrow> rebuild_task lib current_number b)"

definition process_number :: "('d, 't) chain_lib \<Rightarrow> u64 option \<Rightarrow> block_number \<Rightarrow> execute_task option
    \<Rightarrow> ('d, 'kp, 'ver, unit) chain_comp" where
  "process_number lib now current_number task =
     bind (query (pick_task lib current_number task)) (\<lambda>current_task.
     bind (ask (\<lambda>b. \<lambda>s. s @ '': block number: '' @ show_word (et_number current_task) @ '', block hash: ''
                       @ show_hash b (et_block_hash current_task))) (\<lambda>msg.
     bind (map_err_comp (\<lambda>e. queue_error (msg ''Unable to get execution'' @ '', '' @ cl_show_error lib e))
             (query (get_execution lib (et_parent_hash current_task)))) (\<lambda>execution.
     bind (ok_or (queue_error (msg ''Block not execution'')) execution) (\<lambda>execution.
     bind (map_err_comp (\<lambda>e. queue_error (msg ''Build execution error'' @ '', '' @ cl_show_error lib e))
             (query (build_execution lib \<lparr> be_number = et_number current_task, be_timestamp = et_timestamp current_task,
                be_block_hash = et_block_hash current_task, be_meta_state_root = et_meta_state_root current_task,
                be_payload_state_root = exe_payload_execution_state_root execution,
                be_payload_txs = et_payload_txs current_task \<rparr>))) (\<lambda>commit_execution_params.
     map_err_comp (\<lambda>e. queue_error (msg ''Commit execution error'' @ '', '' @ cl_show_error lib e))
       (commit_execution lib now commit_execution_params))))))"

definition u64_range :: "u64 \<Rightarrow> u64 \<Rightarrow> u64 list" where
  "u64_range a b = map of_nat [unat a..<unat b]"

definition process_task :: "('d, 't) chain_lib \<Rightarrow> u64 option \<Rightarrow> execute_task \<Rightarrow> ('d, 'kp, 'ver, unit) chain_comp" where
  "process_task lib now task =
     bind (query (get_execution_number lib)) (\<lambda>n.
     bind (ok_or (queue_error ''Unable to get execution_number'') n) (\<lambda>execution_number.
     bind (for_each (\<lambda>current_number. process_number lib now current_number None)
             (u64_range (execution_number + 1) (et_number task))) (\<lambda>_.
     process_number lib now (et_number task) (Some task))))"

text \<open>An error of a task is logged and the loop goes on.\<close>

definition task_turn :: "('d, 't) chain_lib \<Rightarrow> u64 option \<Rightarrow> ('d, 'kp, 'ver) chain \<Rightarrow> ('d, 'kp, 'ver) chain" where
  "task_turn lib now c = (case ch_tasks c of
     [] \<Rightarrow> c
   | task # rest \<Rightarrow> c\<lparr>ch_tasks := rest, ch_backend := snd (process_task lib now task (ch_backend c))\<rparr>)"

section \<open>The chain\<close>

definition on_backend :: "('d, 'kp, 'ver, 'a) chain_comp \<Rightarrow> (('d, 'kp, 'ver) chain, 'a, common_error) comp" where
  "on_backend m c = (let (r, b) = m (ch_backend c) in (r, c\<lparr>ch_backend := b\<rparr>))"

definition chain_commit_block :: "('d, 't) chain_lib \<Rightarrow> u64 option \<Rightarrow> chain_commit_block_params
    \<Rightarrow> (('d, 'kp, 'ver) chain, unit, common_error) comp" where
  "chain_commit_block lib now p =
     bind (on_backend (backend_commit_block lib now p)) (\<lambda>_.
     insert_task \<lparr> et_number = hdr_number (cb_header p), et_timestamp = hdr_timestamp (cb_header p),
       et_block_hash = cb_block_hash p, et_parent_hash = hdr_parent_hash (cb_header p),
       et_meta_state_root = hdr_meta_state_root (cb_header p), et_payload_txs = cb_payload_txs p \<rparr>)"

end
