(* ===== verification/Genesis.thy ===== *)
theory Genesis
  imports Chain
begin

text \<open>
  Building the genesis block from the spec (\<^verbatim>\<open>core/node/chain/src/genesis.rs\<close>), committing it and opening the backend
  (\<open>init_genesis\<close>, \<open>get_spec\<close> and \<open>new\<close> of \<^verbatim>\<open>core/node/chain/src/backend.rs\<close>), with the spec of
  \<^verbatim>\<open>bin/main/base/src/spec.rs\<close>.

  The parsers (\<open>toml\<close>, \<open>serde_json\<close>, \<open>chrono\<close>) and the choice of an algorithm by name end in third-party code: they are the
  record \<open>genesis_lib\<close>. The spec file is its contents, or \<open>None\<close> when it cannot be read.
\<close>

record spec_tx =
  stx_module :: string
  stx_method :: string
  stx_params :: string

record spec =
  spec_basic_hash :: string
  spec_basic_dsa :: string
  spec_basic_address :: string
  spec_genesis_txs :: "spec_tx list"

record system_init_params =
  sip_chain_id :: string
  sip_timestamp :: string
  sip_max_until_gap :: block_number
  sip_max_execution_gap :: execution_gap
  sip_consensus :: string

text \<open>\<open>gl_init_params\<close> reads the JSON parameters of \<open>init\<close> of a module other than \<open>system\<close> and encodes them;
  \<open>gl_parse_time\<close> is \<open>parse_from_rfc3339\<close> with the milliseconds as \<open>u64\<close>.\<close>

record ('kp, 'ver) genesis_lib =
  gl_parse_spec :: "string \<Rightarrow> (spec, string) result"
  gl_system_init_params :: "string \<Rightarrow> (system_init_params, string) result"
  gl_parse_time :: "string \<Rightarrow> (u64, string) result"
  gl_init_params :: "string \<Rightarrow> string \<Rightarrow> (bytes, string) result"
  gl_hash_impl :: "string \<Rightarrow> hash_impl common_result"
  gl_dsa_impl :: "string \<Rightarrow> ('kp, 'ver) dsa_impl common_result"
  gl_address_impl :: "string \<Rightarrow> address_impl common_result"
  gl_hex :: "bytes \<Rightarrow> string"

abbreviation spec_error :: "string \<Rightarrow> common_error" where
  "spec_error s \<equiv> ChainError (ChainSpec s)"

section \<open>Building the genesis transactions\<close>

definition get_module_params :: "(string \<Rightarrow> ('p, string) result) \<Rightarrow> string \<Rightarrow> 'p common_result" where
  "get_module_params parse params = map_err (\<lambda>e. spec_error (''Invalid json: '' @ e)) (parse params)"

definition system_init_try_from :: "('kp, 'ver) genesis_lib \<Rightarrow> system_init_params \<Rightarrow> system_meta common_result" where
  "system_init_try_from gl v =
     and_then (map_err (\<lambda>e. spec_error (''Invalid time format: '' @ e)) (gl_parse_time gl (sip_timestamp v))) (\<lambda>timestamp.
     Ok \<lparr> sys_chain_id = sip_chain_id v, sys_timestamp = timestamp, sys_max_until_gap = sip_max_until_gap v,
          sys_max_execution_gap = sip_max_execution_gap v, sys_consensus = sip_consensus v \<rparr>)"

definition build_validate_tx :: "('d, 't) chain_lib \<Rightarrow> ('kp, 'ver) executor \<Rightarrow> spec_tx \<Rightarrow> bytes
    \<Rightarrow> (exec_context, transaction, common_error) comp" where
  "build_validate_tx lib xe stx module_params =
     (let invalid = (\<lambda>e. spec_error (''Invalid params for '' @ stx_module stx @ ''.'' @ stx_method stx @ '': '' @ stx_params stx
                     @ '' cause: '' @ cl_show_error lib e)) in
     bind (lift_result (build_call bytes_codec (stx_module stx) (stx_method stx) module_params)) (\<lambda>call.
     bind (lift_result (map_err invalid (build_tx xe (cc_message (cl_codecs lib)) (cl_dispatcher lib) None call))) (\<lambda>tx.
     bind (map_err_comp invalid (validate_tx xe (cc_message (cl_codecs lib)) (cl_dispatcher lib) tx False)) (\<lambda>_.
     ret tx))))"

text \<open>The result has the timestamp the transaction sets, if it sets one.\<close>

definition genesis_build_tx :: "('d, 't) chain_lib \<Rightarrow> ('kp, 'ver) genesis_lib \<Rightarrow> ('kp, 'ver) executor \<Rightarrow> spec_tx \<Rightarrow> u64 option
    \<Rightarrow> (exec_context, transaction \<times> u64 option, common_error) comp" where
  "genesis_build_tx lib gl xe stx timestamp =
     (if stx_module stx = ''system'' \<and> stx_method stx = ''init'' then
        bind (lift_result (get_module_params (gl_system_init_params gl) (stx_params stx))) (\<lambda>p.
        bind (lift_result (system_init_try_from gl p)) (\<lambda>module_params.
        bind (build_validate_tx lib xe stx (enc (cc_system_meta (cl_codecs lib)) module_params)) (\<lambda>tx.
        ret (tx, Some (sys_timestamp module_params)))))
      else if stx_module stx \<in> {''balance'', ''poa'', ''raft'', ''hotstuff'', ''contract''} \<and> stx_method stx = ''init'' then
        bind (lift_result (get_module_params (gl_init_params gl (stx_module stx)) (stx_params stx))) (\<lambda>module_params.
        bind (build_validate_tx lib xe stx module_params) (\<lambda>tx. ret (tx, timestamp)))
      else fail (spec_error (''Unknown module or method: '' @ stx_module stx @ ''.'' @ stx_method stx)))"

fun build_genesis_loop :: "('d, 't) chain_lib \<Rightarrow> ('kp, 'ver) genesis_lib \<Rightarrow> ('kp, 'ver) executor \<Rightarrow> spec_tx list
    \<Rightarrow> u64 option \<times> full_transaction list \<times> full_transaction list
    \<Rightarrow> (exec_context, u64 option \<times> full_transaction list \<times> full_transaction list, common_error) comp" where
  "build_genesis_loop lib gl xe [] acc = ret acc"
| "build_genesis_loop lib gl xe (stx # txs) (timestamp, meta_txs, payload_txs) =
     bind (genesis_build_tx lib gl xe stx timestamp) (\<lambda>(tx, timestamp).
     bind (lift_result (is_meta_call (cl_dispatcher lib) (tx_call tx))) (\<lambda>is_meta.
     bind (lift_result (hash_transaction xe (cc_exec (cl_codecs lib)) tx)) (\<lambda>tx_hash.
     let ftx = \<lparr> ftx_tx = tx, ftx_hash = tx_hash \<rparr> in
     build_genesis_loop lib gl xe txs
       (if is_meta then (timestamp, meta_txs @ [ftx], payload_txs) else (timestamp, meta_txs, payload_txs @ [ftx])))))"

definition build_genesis :: "('d, 't) chain_lib \<Rightarrow> ('kp, 'ver) genesis_lib \<Rightarrow> ('kp, 'ver) executor \<Rightarrow> spec
    \<Rightarrow> (exec_context, build_block_params, common_error) comp" where
  "build_genesis lib gl xe sp =
     bind (build_genesis_loop lib gl xe (spec_genesis_txs sp) (None, [], [])) (\<lambda>(timestamp, meta_txs, payload_txs).
     bind (ok_or (spec_error ''No timestamp specified'') timestamp) (\<lambda>timestamp.
     ret \<lparr> bb_number = 0, bb_timestamp = timestamp, bb_meta_txs = meta_txs, bb_payload_txs = payload_txs,
           bb_execution_number = 0 \<rparr>))"

section \<open>Committing the genesis block\<close>

definition read_spec :: "('kp, 'ver) genesis_lib \<Rightarrow> string option \<Rightarrow> (string \<times> spec) common_result" where
  "read_spec gl spec_file =
     and_then (ok_or_else (spec_error ''Failed to read spec file'') spec_file) (\<lambda>spec_str.
     and_then (map_err (\<lambda>e. spec_error (''Failed to parse spec file: '' @ e)) (gl_parse_spec gl spec_str)) (\<lambda>sp.
     Ok (spec_str, sp)))"

text \<open>Validating and executing the genesis transactions: what is committed with the block.\<close>

definition execute_genesis :: "('d, 't) chain_lib \<Rightarrow> ('kp, 'ver) executor \<Rightarrow> build_block_params \<Rightarrow> (exec_context, unit, common_error) comp" where
  "execute_genesis lib xe p =
     bind (for_each (\<lambda>tx. validate_tx xe (cc_message (cl_codecs lib)) (cl_dispatcher lib) (ftx_tx tx) False) (bb_meta_txs p)) (\<lambda>_.
     bind (for_each (\<lambda>tx. validate_tx xe (cc_message (cl_codecs lib)) (cl_dispatcher lib) (ftx_tx tx) False) (bb_payload_txs p)) (\<lambda>_.
     bind (execute_txs xe (cl_dispatcher lib) (bb_meta_txs p)) (\<lambda>_.
     execute_txs xe (cl_dispatcher lib) (bb_payload_txs p))))"

definition genesis_params :: "('d, 't) chain_lib \<Rightarrow> build_block_params \<Rightarrow> exec_context \<Rightarrow> ('d, 'kp, 'ver) backend
    \<Rightarrow> (chain_commit_block_params \<times> chain_commit_execution_params) common_result" where
  "genesis_params lib p s b =
     (let tries = cl_tries lib; ecs = cc_exec (cl_codecs lib); zero_hash = default_hash (bk_executor b) in
     and_then (get_meta_update (cl_rocks lib) tries (bk_db b) s) (\<lambda>(meta_state_root, meta_transaction).
     and_then (get_meta_txs tries ecs s) (\<lambda>(meta_txs_root, meta_txs).
     and_then (get_meta_receipts tries ecs s) (\<lambda>(meta_receipts_root, meta_receipts).
     and_then (get_payload_update (cl_rocks lib) tries (bk_db b) s) (\<lambda>(payload_state_root, payload_transaction).
     and_then (get_payload_txs tries ecs s) (\<lambda>(payload_txs_root, payload_txs).
     and_then (get_payload_receipts tries ecs s) (\<lambda>(payload_receipts_root, payload_receipts).
     let header = \<lparr> hdr_number = bb_number p, hdr_timestamp = bb_timestamp p, hdr_parent_hash = zero_hash,
           hdr_meta_txs_root = meta_txs_root, hdr_meta_state_root = meta_state_root,
           hdr_meta_receipts_root = meta_receipts_root, hdr_payload_txs_root = payload_txs_root,
           hdr_payload_execution_gap = ucast (bb_number p - bb_execution_number p),
           hdr_payload_execution_state_root = zero_hash, hdr_payload_execution_receipts_root = zero_hash \<rparr> in
     and_then (backend_hash_header lib b header) (\<lambda>block_hash.
     Ok (\<lparr> cb_block_hash = block_hash, cb_header = header,
           cb_body = \<lparr> body_meta_txs = map ftx_hash meta_txs, body_payload_txs = map ftx_hash payload_txs \<rparr>,
           cb_meta_txs = meta_txs, cb_meta_receipts = meta_receipts, cb_payload_txs = payload_txs,
           cb_meta_transaction = meta_transaction, cb_proof = proof_default \<rparr>,
         \<lparr> ce_block_hash = block_hash, ce_number = bb_number p,
           ce_execution = \<lparr> exe_payload_execution_state_root = payload_state_root,
                            exe_payload_execution_receipts_root = payload_receipts_root \<rparr>,
           ce_payload_receipts = payload_receipts, ce_payload_transaction = payload_transaction \<rparr>)))))))))"

definition genesis_ops :: "chain_codecs \<Rightarrow> string \<Rightarrow> chain_commit_block_params \<Rightarrow> chain_commit_execution_params \<Rightarrow> db_transaction" where
  "genesis_ops cs spec_str p q = commit_spec_ops cs spec_str (commit_execution_ops cs q (commit_block_ops cs p transaction_new))"

definition prepare_genesis :: "('d, 't) chain_lib \<Rightarrow> ('kp, 'ver) genesis_lib \<Rightarrow> spec \<Rightarrow> ('d, 'kp, 'ver) backend
    \<Rightarrow> (chain_commit_block_params \<times> chain_commit_execution_params) common_result" where
  "prepare_genesis lib gl sp b =
     (let context_at = (\<lambda>env. and_then (new_essence b env (Hash (default_root (bk_meta_statedb b)))
            (Hash (default_root (bk_payload_statedb b)))) (new_context lib b)) in
      and_then (context_at \<lparr> env_number = 0, env_timestamp = 0 \<rparr>) (\<lambda>build_context.
      and_then (fst (build_genesis lib gl (bk_executor b) sp build_context)) (\<lambda>p.
      and_then (context_at \<lparr> env_number = bb_number p, env_timestamp = bb_timestamp p \<rparr>) (\<lambda>context.
      let (r, context) = execute_genesis lib (bk_executor b) p context in
      and_then r (\<lambda>_. genesis_params lib p context b)))))"

definition init_genesis :: "('d, 't) chain_lib \<Rightarrow> ('kp, 'ver) genesis_lib \<Rightarrow> u64 option \<Rightarrow> string option
    \<Rightarrow> ('d, 'kp, 'ver, unit) chain_comp" where
  "init_genesis lib gl now spec_file =
     bind (lift_result (read_spec gl spec_file)) (\<lambda>(spec_str, sp).
     bind (query (prepare_genesis lib gl sp)) (\<lambda>(p, q).
     bind (write_db lib (genesis_ops (cl_codecs lib) spec_str p q)) (\<lambda>_.
     on_execution_committed lib now (ce_number q) (cb_block_hash p))))"

section \<open>Opening the backend\<close>

text \<open>Whether the genesis block is there, and the spec: from the database if it is, else from the file.\<close>

definition get_spec :: "('d, 't) chain_lib \<Rightarrow> ('kp, 'ver) genesis_lib \<Rightarrow> string option \<Rightarrow> 'd \<Rightarrow> (bool \<times> spec) common_result" where
  "get_spec lib gl spec_file d =
     and_then (db_get (cl_rocks lib) GLOBAL CONFIRMED_NUMBER d) (\<lambda>v.
     let genesis_inited = (v \<noteq> None) in
     and_then (if genesis_inited then
         and_then (db_get (cl_rocks lib) GLOBAL SPEC d) (\<lambda>v.
         and_then (ok_or_else (spec_error ''Missing spec in db'') v) (\<lambda>v.
         map_err (\<lambda>_. spec_error ''Serde error'') (decode (cc_string (cl_codecs lib)) v)))
       else ok_or_else (spec_error ''Failed to read spec file'') spec_file) (\<lambda>spec_str.
     and_then (map_err (\<lambda>e. spec_error (''Failed to parse spec file: '' @ e)) (gl_parse_spec gl spec_str)) (\<lambda>sp.
     Ok (genesis_inited, sp))))"

definition trie_root_new :: "hash_impl \<Rightarrow> (hasher_slots, trie_root, common_error) comp" where
  "trie_root_new hi = bind (load_hasher hi) (\<lambda>_. ret \<lparr> tr_hash_length = hi_length hi \<rparr>)"

text \<open>The state databases, the trie root and the executor of the algorithms of the spec.\<close>

definition backend_setup :: "('kp, 'ver) genesis_lib \<Rightarrow> spec \<Rightarrow> 'd \<Rightarrow> (hasher_slots, ('d, 'kp, 'ver) backend, common_error) comp" where
  "backend_setup gl sp d =
     bind (lift_result (gl_hash_impl gl (spec_basic_hash sp))) (\<lambda>hash.
     bind (lift_result (gl_dsa_impl gl (spec_basic_dsa sp))) (\<lambda>dsa.
     bind (lift_result (gl_address_impl gl (spec_basic_address sp))) (\<lambda>address.
     bind (statedb_new META_STATE hash) (\<lambda>meta_statedb.
     bind (statedb_new PAYLOAD_STATE hash) (\<lambda>payload_statedb.
     bind (trie_root_new hash) (\<lambda>trie_root.
     ret \<lparr> bk_db = d, bk_meta_statedb = meta_statedb, bk_payload_statedb = payload_statedb, bk_trie_root = trie_root,
           bk_executor = executor_new hash dsa address (gl_hex gl), bk_current_state = None,
           bk_messages = [], bk_message_open = True, bk_message_rx = True \<rparr>))))))"

definition backend_open :: "('d, 't) chain_lib \<Rightarrow> ('kp, 'ver) genesis_lib \<Rightarrow> u64 option \<Rightarrow> string option \<Rightarrow> bool
    \<Rightarrow> ('d, 'kp, 'ver, unit) chain_comp" where
  "backend_open lib gl now spec_file genesis_inited =
     bind (if genesis_inited then ret () else init_genesis lib gl now spec_file) (\<lambda>_.
     bind (query (get_block_hash lib 0)) (\<lambda>h.
     bind (ok_or (data_error ''Missing genesis block'') h) (\<lambda>genesis_hash.
     bind (\<lambda>b. (Ok (), b\<lparr>bk_executor := set_genesis_hash genesis_hash (bk_executor b)\<rparr>)) (\<lambda>_.
     bind (update_current_state lib now) (\<lambda>_.
     bind (query (get_confirmed_number lib)) (\<lambda>_. ret ()))))))"

definition backend_new :: "('d, 't) chain_lib \<Rightarrow> ('kp, 'ver) genesis_lib \<Rightarrow> u64 option \<Rightarrow> string option \<Rightarrow> 'd \<Rightarrow> hasher_slots
    \<Rightarrow> ('d, 'kp, 'ver) backend common_result" where
  "backend_new lib gl now spec_file d slots =
     and_then (get_spec lib gl spec_file d) (\<lambda>(genesis_inited, sp).
     and_then (fst (backend_setup gl sp d slots)) (\<lambda>b.
     let (r, b) = backend_open lib gl now spec_file genesis_inited b in
     and_then r (\<lambda>_. Ok b)))"

end
