(* ===== verification/Chain_Laws.thy ===== *)
theory Chain_Laws
  imports Chain Executor_Laws
begin

text \<open>
  What the chain keeps: the blocks up to the confirmed number form a chain linked by parent hashes, which only grows, and
  the executions follow it without a hole. \<open>chain_step\<close> is one action on the chain; \<open>chain_ok\<close> is the
  invariant of all reachable states.
\<close>

section \<open>Reading after writing\<close>

definition chain_lib_ok :: "('d, 't) chain_lib \<Rightarrow> ('d \<Rightarrow> string \<Rightarrow> bytes \<Rightarrow> bytes option) \<Rightarrow> bool" where
  "chain_lib_ok lib absd \<longleftrightarrow> rocks_ok (cl_rocks lib) absd \<and>
     (let cs = cl_codecs lib in
      codec_ok (cc_number cs) \<and> codec_ok (cc_hash cs) \<and> codec_ok (cc_hashes cs) \<and> codec_ok (cc_header cs) \<and>
      codec_ok (cc_transaction cs) \<and> codec_ok (cc_receipt cs) \<and> codec_ok (cc_execution cs) \<and> codec_ok (cc_proof cs))"

lemma chain_lib_okD:
  assumes "chain_lib_ok lib absd"
  shows "rocks_ok (cl_rocks lib) absd" "codec_ok (cc_number (cl_codecs lib))" "codec_ok (cc_hash (cl_codecs lib))"
    "codec_ok (cc_hashes (cl_codecs lib))" "codec_ok (cc_header (cl_codecs lib))" "codec_ok (cc_transaction (cl_codecs lib))"
    "codec_ok (cc_receipt (cl_codecs lib))" "codec_ok (cc_execution (cl_codecs lib))" "codec_ok (cc_proof (cl_codecs lib))"
  using assms by (simp_all add: chain_lib_ok_def Let_def)

abbreviation cell :: "('d \<Rightarrow> string \<Rightarrow> bytes \<Rightarrow> bytes option) \<Rightarrow> ('d, 'kp, 'ver) backend \<Rightarrow> u32 \<Rightarrow> bytes \<Rightarrow> bytes option" where
  "cell absd b \<equiv> db_abs absd (bk_db b)"

definition decoded :: "'a codec \<Rightarrow> bytes option \<Rightarrow> 'a option common_result" where
  "decoded c v = (case v of None \<Rightarrow> Ok None | Some v \<Rightarrow> and_then (decode c v) (\<lambda>u. Ok (Some u)))"

lemma decoded_simps [simp]: "decoded c None = Ok None" "codec_ok c \<Longrightarrow> decoded c (Some (enc c x)) = Ok (Some x)"
  by (simp_all add: decoded_def decode_encode)

lemma read_with_eq:
  "chain_lib_ok lib absd \<Longrightarrow> valid_col col \<Longrightarrow> read_with lib col key c b = decoded c (cell absd b col key)"
  by (simp add: read_with_def db_get_with_def db_get_eq [OF chain_lib_okD(1)] decoded_def)

text \<open>Only the operations on a column decide what is read from it.\<close>

lemma fold_apply_op_column:
  "fold apply_op ops m c k = fold apply_op (filter (\<lambda>op. op_col op = c) ops) m c k"
proof (induction ops rule: rev_induct)
  case (snoc op ops)
  then show ?case by (cases op) auto
qed simp

lemma column_neq [simp]:
  "HEADER \<noteq> META_TXS" "HEADER \<noteq> PAYLOAD_TXS" "HEADER \<noteq> TX" "HEADER \<noteq> RECEIPT" "HEADER \<noteq> PROOF" "HEADER \<noteq> BLOCK_HASH"
  "HEADER \<noteq> GLOBAL" "HEADER \<noteq> EXECUTION" "META_TXS \<noteq> PAYLOAD_TXS" "META_TXS \<noteq> TX" "META_TXS \<noteq> RECEIPT" "META_TXS \<noteq> PROOF"
  "META_TXS \<noteq> BLOCK_HASH" "META_TXS \<noteq> GLOBAL" "META_TXS \<noteq> EXECUTION" "PAYLOAD_TXS \<noteq> TX" "PAYLOAD_TXS \<noteq> RECEIPT"
  "PAYLOAD_TXS \<noteq> PROOF" "PAYLOAD_TXS \<noteq> BLOCK_HASH" "PAYLOAD_TXS \<noteq> GLOBAL" "PAYLOAD_TXS \<noteq> EXECUTION" "TX \<noteq> RECEIPT" "TX \<noteq> PROOF"
  "TX \<noteq> BLOCK_HASH" "TX \<noteq> GLOBAL" "TX \<noteq> EXECUTION" "RECEIPT \<noteq> PROOF" "RECEIPT \<noteq> BLOCK_HASH" "RECEIPT \<noteq> GLOBAL"
  "RECEIPT \<noteq> EXECUTION" "PROOF \<noteq> BLOCK_HASH" "PROOF \<noteq> GLOBAL" "PROOF \<noteq> EXECUTION" "BLOCK_HASH \<noteq> GLOBAL"
  "BLOCK_HASH \<noteq> EXECUTION" "GLOBAL \<noteq> EXECUTION" "META_STATE \<noteq> PAYLOAD_STATE"
  by (simp_all add: column_defs)

lemmas column_neq' [simp] = column_neq [symmetric]

lemma state_column_neq [simp]:
  "c \<in> {HEADER, META_TXS, PAYLOAD_TXS, TX, RECEIPT, PROOF, BLOCK_HASH, GLOBAL, EXECUTION, CONSENSUS} \<Longrightarrow>
     META_STATE \<noteq> c \<and> PAYLOAD_STATE \<noteq> c \<and> c \<noteq> META_STATE \<and> c \<noteq> PAYLOAD_STATE"
  by (auto simp: column_defs)

text \<open>The operations of a transaction as lists.\<close>

definition tx_ops :: "chain_codecs \<Rightarrow> full_transaction list \<Rightarrow> db_op list" where
  "tx_ops cs txs = map (\<lambda>tx. Insert TX (hash_bytes (ftx_hash tx)) (enc (cc_transaction cs) (ftx_tx tx))) txs"

definition receipt_ops :: "chain_codecs \<Rightarrow> full_receipt list \<Rightarrow> db_op list" where
  "receipt_ops cs rs = map (\<lambda>r. Insert RECEIPT (hash_bytes (frc_tx_hash r)) (enc (cc_receipt cs) (frc_receipt r))) rs"

lemma put_txs_eq: "put_txs cs txs t = t @ tx_ops cs txs"
  by (induction txs arbitrary: t) (simp_all add: put_txs_def tx_ops_def put_owned_def)

lemma put_receipts_eq: "put_receipts cs rs t = t @ receipt_ops cs rs"
  by (induction rs arbitrary: t) (simp_all add: put_receipts_def receipt_ops_def put_owned_def)

lemma commit_block_ops_eq:
  "commit_block_ops cs p transaction_new =
     cb_meta_transaction p @
     [Insert HEADER (hash_bytes (cb_block_hash p)) (enc (cc_header cs) (cb_header p)),
      Insert META_TXS (hash_bytes (cb_block_hash p)) (enc (cc_hashes cs) (body_meta_txs (cb_body p))),
      Insert PAYLOAD_TXS (hash_bytes (cb_block_hash p)) (enc (cc_hashes cs) (body_payload_txs (cb_body p)))] @
     tx_ops cs (cb_meta_txs p @ cb_payload_txs p) @ receipt_ops cs (cb_meta_receipts p) @
     [Insert PROOF (hash_bytes (cb_block_hash p)) (enc (cc_proof cs) (cb_proof p)),
      Insert BLOCK_HASH (enc (cc_number cs) (hdr_number (cb_header p))) (enc (cc_hash cs) (cb_block_hash p)),
      Insert GLOBAL CONFIRMED_NUMBER (enc (cc_number cs) (hdr_number (cb_header p)))]"
  by (simp add: commit_block_ops_def Let_def put_owned_def Database.extend_def transaction_new_def put_txs_eq put_receipts_eq tx_ops_def)

lemma commit_execution_ops_eq:
  "commit_execution_ops cs p transaction_new =
     ce_payload_transaction p @
     [Insert EXECUTION (hash_bytes (ce_block_hash p)) (enc (cc_execution cs) (ce_execution p))] @
     receipt_ops cs (ce_payload_receipts p) @
     [Insert GLOBAL EXECUTION_NUMBER (enc (cc_number cs) (ce_number p))]"
  by (simp add: commit_execution_ops_def Let_def put_owned_def Database.extend_def transaction_new_def put_receipts_eq)

lemma filter_ops [simp]:
  "filter (\<lambda>op. op_col op = c) (tx_ops cs txs) = (if c = TX then tx_ops cs txs else [])"
  "filter (\<lambda>op. op_col op = c) (receipt_ops cs rs) = (if c = RECEIPT then receipt_ops cs rs else [])"
  by (auto simp: tx_ops_def receipt_ops_def filter_map o_def)

section \<open>What a commit writes\<close>

text \<open>The operations of a state update touch one column.\<close>

definition only_col :: "u32 \<Rightarrow> db_transaction \<Rightarrow> bool" where
  "only_col c t \<longleftrightarrow> (\<forall>op\<in>set t. op_col op = c)"

lemma filter_only_col: "only_col c t \<Longrightarrow> filter (\<lambda>op. op_col op = c') t = (if c' = c then t else [])"
  by (auto simp: only_col_def filter_id_conv filter_empty_conv)

lemma write_db_eq:
  assumes "chain_lib_ok lib absd" "\<forall>op\<in>set t. valid_col (op_col op)"
  shows "\<exists>d. write_db lib t b = (Ok (), b\<lparr>bk_db := d\<rparr>) \<and>
    (\<forall>c k. valid_col c \<longrightarrow> db_abs absd d c k = fold apply_op (filter (\<lambda>op. op_col op = c) t) (cell absd b) c k)"
  using db_write_eq [OF chain_lib_okD(1) [OF assms(1)] assms(2), of "bk_db b"]
  by (auto simp: write_db_def Let_def fold_apply_op_column [symmetric])

text \<open>Two backends that differ in the database, the current state and the messages only.\<close>

definition same_setup :: "('d, 'kp, 'ver) backend \<Rightarrow> ('d, 'kp, 'ver) backend \<Rightarrow> bool" where
  "same_setup b b' \<longleftrightarrow> bk_executor b' = bk_executor b \<and> bk_meta_statedb b' = bk_meta_statedb b \<and>
     bk_payload_statedb b' = bk_payload_statedb b \<and> bk_trie_root b' = bk_trie_root b"

text \<open>The block of \<open>p\<close> is there and everything else is as before.\<close>

definition block_added :: "('d, 't) chain_lib \<Rightarrow> chain_commit_block_params \<Rightarrow> ('d, 'kp, 'ver) backend \<Rightarrow> ('d, 'kp, 'ver) backend \<Rightarrow> bool" where
  "block_added lib p b b' \<longleftrightarrow> same_setup b b' \<and>
     (\<forall>h. get_header lib h b' = (if h = cb_block_hash p then Ok (Some (cb_header p)) else get_header lib h b)) \<and>
     (\<forall>h. get_body lib h b' = (if h = cb_block_hash p then Ok (Some (cb_body p)) else get_body lib h b)) \<and>
     (\<forall>h. get_proof lib h b' = (if h = cb_block_hash p then Ok (Some (cb_proof p)) else get_proof lib h b)) \<and>
     (\<forall>n. get_block_hash lib n b' = (if n = hdr_number (cb_header p) then Ok (Some (cb_block_hash p)) else get_block_hash lib n b)) \<and>
     get_confirmed_number lib b' = Ok (Some (hdr_number (cb_header p))) \<and>
     get_execution_number lib b' = get_execution_number lib b \<and>
     (\<forall>h. get_execution lib h b' = get_execution lib h b)"

definition execution_added :: "('d, 't) chain_lib \<Rightarrow> chain_commit_execution_params \<Rightarrow> ('d, 'kp, 'ver) backend \<Rightarrow> ('d, 'kp, 'ver) backend \<Rightarrow> bool" where
  "execution_added lib p b b' \<longleftrightarrow> same_setup b b' \<and>
     (\<forall>h. get_header lib h b' = get_header lib h b) \<and> (\<forall>h. get_body lib h b' = get_body lib h b) \<and>
     (\<forall>h. get_proof lib h b' = get_proof lib h b) \<and> (\<forall>n. get_block_hash lib n b' = get_block_hash lib n b) \<and>
     get_confirmed_number lib b' = get_confirmed_number lib b \<and>
     get_execution_number lib b' = Ok (Some (ce_number p)) \<and>
     (\<forall>h. get_execution lib h b' = (if h = ce_block_hash p then Ok (Some (ce_execution p)) else get_execution lib h b))"

lemma hash_bytes_inject [simp]: "hash_bytes h = hash_bytes h' \<longleftrightarrow> h = h'"
  by (cases h; cases h') simp

lemma global_keys [simp]: "CONFIRMED_NUMBER \<noteq> EXECUTION_NUMBER" "EXECUTION_NUMBER \<noteq> CONFIRMED_NUMBER"
  by (simp_all add: CONFIRMED_NUMBER_def EXECUTION_NUMBER_def)

lemmas read_defs = get_header_def get_body_def get_proof_def get_block_hash_def get_confirmed_number_def
  get_execution_number_def get_execution_def

text \<open>The state and transaction columns after a block.\<close>

definition block_stored :: "('d, 't) chain_lib \<Rightarrow> ('d \<Rightarrow> string \<Rightarrow> bytes \<Rightarrow> bytes option) \<Rightarrow> chain_commit_block_params
    \<Rightarrow> ('d, 'kp, 'ver) backend \<Rightarrow> ('d, 'kp, 'ver) backend \<Rightarrow> bool" where
  "block_stored lib absd p b b' \<longleftrightarrow>
     (\<forall>k. cell absd b' META_STATE k = fold apply_op (cb_meta_transaction p) (cell absd b) META_STATE k) \<and>
     (\<forall>k. cell absd b' PAYLOAD_STATE k = cell absd b PAYLOAD_STATE k) \<and>
     (\<forall>k. cell absd b' TX k = fold apply_op (tx_ops (cl_codecs lib) (cb_meta_txs p @ cb_payload_txs p)) (cell absd b) TX k)"

lemma commit_block_written:
  assumes ok: "chain_lib_ok lib absd" and meta: "only_col META_STATE (cb_meta_transaction p)"
  shows "\<exists>d. write_db lib (commit_block_ops (cl_codecs lib) p transaction_new) b = (Ok (), b\<lparr>bk_db := d\<rparr>) \<and>
    block_added lib p b (b\<lparr>bk_db := d\<rparr>) \<and>
    block_stored lib absd p b (b\<lparr>bk_db := d\<rparr>)"
proof -
  let ?ops = "commit_block_ops (cl_codecs lib) p transaction_new"
  have "\<forall>op\<in>set ?ops. valid_col (op_col op)"
    using meta by (auto simp: commit_block_ops_eq only_col_def tx_ops_def receipt_ops_def)
  from write_db_eq [OF ok this] obtain d where w: "write_db lib ?ops b = (Ok (), b\<lparr>bk_db := d\<rparr>)"
    and c: "\<And>c k. valid_col c \<Longrightarrow> db_abs absd d c k = fold apply_op (filter (\<lambda>op. op_col op = c) ?ops) (cell absd b) c k"
    by blast
  note c' = c [unfolded commit_block_ops_eq, simplified filter_append filter_ops filter_only_col [OF meta]]
  note cok = chain_lib_okD [OF ok]
  have "block_added lib p b (b\<lparr>bk_db := d\<rparr>)"
    using cok by (simp add: block_added_def same_setup_def read_defs read_with_eq [OF ok] c' codec_ok_inj)
  moreover have "block_stored lib absd p b (b\<lparr>bk_db := d\<rparr>)"
    by (simp add: block_stored_def c' filter_append)
  ultimately show ?thesis using w by blast
qed

lemma commit_execution_written:
  assumes ok: "chain_lib_ok lib absd" and payload: "only_col PAYLOAD_STATE (ce_payload_transaction p)"
  shows "\<exists>d. write_db lib (commit_execution_ops (cl_codecs lib) p transaction_new) b = (Ok (), b\<lparr>bk_db := d\<rparr>) \<and>
    execution_added lib p b (b\<lparr>bk_db := d\<rparr>) \<and>
    (\<forall>k. db_abs absd d PAYLOAD_STATE k = fold apply_op (ce_payload_transaction p) (cell absd b) PAYLOAD_STATE k) \<and>
    (\<forall>k. db_abs absd d META_STATE k = cell absd b META_STATE k)"
proof -
  let ?ops = "commit_execution_ops (cl_codecs lib) p transaction_new"
  have "\<forall>op\<in>set ?ops. valid_col (op_col op)"
    using payload by (auto simp: commit_execution_ops_eq only_col_def tx_ops_def receipt_ops_def)
  from write_db_eq [OF ok this] obtain d where w: "write_db lib ?ops b = (Ok (), b\<lparr>bk_db := d\<rparr>)"
    and c: "\<And>c k. valid_col c \<Longrightarrow> db_abs absd d c k = fold apply_op (filter (\<lambda>op. op_col op = c) ?ops) (cell absd b) c k"
    by blast
  note c' = c [unfolded commit_execution_ops_eq, simplified filter_append filter_ops filter_only_col [OF payload]]
  note cok = chain_lib_okD [OF ok]
  have "execution_added lib p b (b\<lparr>bk_db := d\<rparr>)"
    using cok by (simp add: execution_added_def same_setup_def read_defs read_with_eq [OF ok] c' codec_ok_inj)
  moreover have "db_abs absd d PAYLOAD_STATE k = fold apply_op (ce_payload_transaction p) (cell absd b) PAYLOAD_STATE k"
    "db_abs absd d META_STATE k = cell absd b META_STATE k" for k
    by (simp_all add: c')
  ultimately show ?thesis using w by blast
qed

text \<open>The notifications at the end of a commit do not touch the database.\<close>

definition notified :: "('d, 'kp, 'ver) backend \<Rightarrow> ('d, 'kp, 'ver) backend \<Rightarrow> bool" where
  "notified b b' \<longleftrightarrow> bk_db b' = bk_db b \<and> same_setup b b'"

lemma keeps_notified:
  "keeps (notified b) (on_block_committed lib now n h)" "keeps (notified b) (on_execution_committed lib now n h)"
  by (auto simp: keeps_def on_block_committed_def on_execution_committed_def update_current_state_def send_message_def
      bind_apply notified_def same_setup_def split: result.splits prod.splits)

lemma notified_refl [simp]: "notified b b"
  by (simp add: notified_def same_setup_def)

lemma read_with_notified: "notified b b' \<Longrightarrow> read_with lib c k cd b' = read_with lib c k cd b"
  by (simp add: read_with_def notified_def)

lemma read_notified:
  assumes "notified b b'"
  shows "get_header lib h b' = get_header lib h b" "get_body lib h b' = get_body lib h b" "get_proof lib h b' = get_proof lib h b"
    "get_block_hash lib n b' = get_block_hash lib n b" "get_confirmed_number lib b' = get_confirmed_number lib b"
    "get_execution_number lib b' = get_execution_number lib b" "get_execution lib h b' = get_execution lib h b"
  by (simp_all add: read_defs read_with_notified [OF assms] cong: option.case_cong)

lemma added_notified:
  assumes "notified b1 b2"
  shows "block_added lib p b b1 \<Longrightarrow> block_added lib p b b2" "execution_added lib q b b1 \<Longrightarrow> execution_added lib q b b2"
  using assms by (auto simp: block_added_def execution_added_def read_notified [OF assms] same_setup_def notified_def)

text \<open>The outcomes of \<open>commit_block\<close>: refused with nothing changed, or written. An error after the write, from the notifications,
  leaves the block written.\<close>

lemma backend_commit_block_cases:
  assumes ok: "chain_lib_ok lib absd" and meta: "only_col META_STATE (cb_meta_transaction p)"
    and run: "backend_commit_block lib now p b = (r, b')"
  obtains (refused) e where "r = Err e" "b' = b"
  | (added) n h where "get_header lib (cb_block_hash p) b = Ok None" "get_confirmed_number lib b = Ok (Some n)"
      "get_block_hash lib n b = Ok (Some h)" "hdr_number (cb_header p) = n + 1" "hdr_parent_hash (cb_header p) = h"
      "block_added lib p b b'" "block_stored lib absd p b b'"
proof -
  obtain d where w: "write_db lib (commit_block_ops (cl_codecs lib) p transaction_new) b = (Ok (), b\<lparr>bk_db := d\<rparr>)"
      "block_added lib p b (b\<lparr>bk_db := d\<rparr>)" "block_stored lib absd p b (b\<lparr>bk_db := d\<rparr>)"
    using commit_block_written [OF ok meta] by blast
  let ?n = "on_block_committed lib now (hdr_number (cb_header p)) (cb_block_hash p) (b\<lparr>bk_db := d\<rparr>)"
  have n: "notified (b\<lparr>bk_db := d\<rparr>) (snd ?n)"
    by (rule keepsD [OF keeps_notified(1) notified_refl surjective_pairing])
  have add: "block_added lib p b (snd ?n)" "block_stored lib absd p b (snd ?n)"
    using added_notified(1) [OF n w(2)] w(3) n by (simp_all add: block_stored_def notified_def)
  have cases: "(\<exists>e. r = Err e \<and> b' = b) \<or>
      (\<exists>n h. get_header lib (cb_block_hash p) b = Ok None \<and> get_confirmed_number lib b = Ok (Some n) \<and>
        get_block_hash lib n b = Ok (Some h) \<and> hdr_number (cb_header p) = n + 1 \<and> hdr_parent_hash (cb_header p) = h \<and>
        (r, b') = ?n)"
    using run
    by (auto simp: backend_commit_block_def Let_def bind_apply fail_if_apply w(1) ok_or_else_def
        split: result.splits if_splits option.splits)
  show thesis
  proof (cases "\<exists>e. r = Err e \<and> b' = b")
    case True
    then show thesis using refused by blast
  next
    case False
    then show thesis using cases added add by (metis snd_conv)
  qed
qed

section \<open>The invariant\<close>

definition linked :: "('d, 't) chain_lib \<Rightarrow> block_number \<Rightarrow> ('d, 'kp, 'ver) backend \<Rightarrow> bool" where
  "linked lib n b \<longleftrightarrow> (\<forall>i\<le>n. \<exists>h hdr body. get_block_hash lib i b = Ok (Some h) \<and> get_header lib h b = Ok (Some hdr) \<and>
     get_body lib h b = Ok (Some body) \<and> hdr_number hdr = i \<and>
     (i \<noteq> 0 \<longrightarrow> get_block_hash lib (i - 1) b = Ok (Some (hdr_parent_hash hdr))))"

definition executed :: "('d, 't) chain_lib \<Rightarrow> block_number \<Rightarrow> ('d, 'kp, 'ver) backend \<Rightarrow> bool" where
  "executed lib e b \<longleftrightarrow> (\<forall>i\<le>e. \<exists>h x. get_block_hash lib i b = Ok (Some h) \<and> get_execution lib h b = Ok (Some x))"

definition chain_ok :: "('d, 't) chain_lib \<Rightarrow> ('d, 'kp, 'ver) backend \<Rightarrow> bool" where
  "chain_ok lib b \<longleftrightarrow> sd_column (bk_meta_statedb b) = META_STATE \<and> sd_column (bk_payload_statedb b) = PAYLOAD_STATE \<and>
     (\<exists>n e. get_confirmed_number lib b = Ok (Some n) \<and> get_execution_number lib b = Ok (Some e) \<and> e \<le> n \<and>
        n + 1 \<noteq> 0 \<and> linked lib n b \<and> executed lib e b)"

text \<open>The task of a block that has been committed.\<close>

definition task_ok :: "('d, 't) chain_lib \<Rightarrow> ('d, 'kp, 'ver) backend \<Rightarrow> execute_task \<Rightarrow> bool" where
  "task_ok lib b task \<longleftrightarrow> (\<exists>n hdr. get_confirmed_number lib b = Ok (Some n) \<and> et_number task \<le> n \<and> et_number task \<noteq> 0 \<and>
     get_block_hash lib (et_number task) b = Ok (Some (et_block_hash task)) \<and>
     get_header lib (et_block_hash task) b = Ok (Some hdr) \<and> hdr_parent_hash hdr = et_parent_hash task)"

text \<open>Blocks up to the confirmed number are never changed.\<close>

definition extends :: "('d, 't) chain_lib \<Rightarrow> ('d, 'kp, 'ver) backend \<Rightarrow> ('d, 'kp, 'ver) backend \<Rightarrow> bool" where
  "extends lib b b' \<longleftrightarrow> (\<forall>n. get_confirmed_number lib b = Ok (Some n) \<longrightarrow>
     (\<exists>n'. get_confirmed_number lib b' = Ok (Some n') \<and> n \<le> n') \<and>
     (\<forall>i\<le>n. get_block_hash lib i b' = get_block_hash lib i b \<and>
       (\<forall>h. get_block_hash lib i b = Ok (Some h) \<longrightarrow>
          get_header lib h b' = get_header lib h b \<and> get_body lib h b' = get_body lib h b)))"

lemma extends_refl [simp]: "extends lib b b"
  by (auto simp: extends_def)

lemma extendsD:
  assumes "extends lib b b'" "get_confirmed_number lib b = Ok (Some n)"
  shows "\<exists>n'. get_confirmed_number lib b' = Ok (Some n') \<and> n \<le> n'"
    "i \<le> n \<Longrightarrow> get_block_hash lib i b' = get_block_hash lib i b"
    "i \<le> n \<Longrightarrow> get_block_hash lib i b = Ok (Some h) \<Longrightarrow> get_header lib h b' = get_header lib h b"
    "i \<le> n \<Longrightarrow> get_block_hash lib i b = Ok (Some h) \<Longrightarrow> get_body lib h b' = get_body lib h b"
  using assms unfolding extends_def by blast+

lemma extends_trans:
  assumes "extends lib b1 b2" "extends lib b2 b3"
  shows "extends lib b1 b3"
  unfolding extends_def
proof (intro allI impI conjI)
  fix n assume n: "get_confirmed_number lib b1 = Ok (Some n)"
  obtain n2 where n2: "get_confirmed_number lib b2 = Ok (Some n2)" "n \<le> n2" using extendsD(1) [OF assms(1) n] by blast
  note e1 = extendsD [OF assms(1) n] and e2 = extendsD [OF assms(2) n2(1)]
  show "\<exists>n'. get_confirmed_number lib b3 = Ok (Some n') \<and> n \<le> n'" using e2(1) n2(2) by force
  fix i assume i: "i \<le> n"
  then have i2: "i \<le> n2" using n2(2) by (rule order_trans)
  show "get_block_hash lib i b3 = get_block_hash lib i b1" using e1(2) [OF i] e2(2) [OF i2] by simp
  fix h assume h: "get_block_hash lib i b1 = Ok (Some h)"
  then have h2: "get_block_hash lib i b2 = Ok (Some h)" using e1(2) [OF i] by simp
  show "get_header lib h b3 = get_header lib h b1" using e1(3) [OF i h] e2(3) [OF i2 h2] by simp
  show "get_body lib h b3 = get_body lib h b1" using e1(4) [OF i h] e2(4) [OF i2 h2] by simp
qed

lemma task_ok_extends:
  assumes "extends lib b b'" "task_ok lib b task"
  shows "task_ok lib b' task"
proof -
  obtain n hdr where t: "get_confirmed_number lib b = Ok (Some n)" "et_number task \<le> n" "et_number task \<noteq> 0"
     "get_block_hash lib (et_number task) b = Ok (Some (et_block_hash task))"
     "get_header lib (et_block_hash task) b = Ok (Some hdr)" "hdr_parent_hash hdr = et_parent_hash task"
    using assms(2) unfolding task_ok_def by blast
  note e = extendsD [OF assms(1) t(1)]
  show ?thesis
    using e(1) e(2) [OF t(2)] e(3) [OF t(2,4)] t(2-6) unfolding task_ok_def by force
qed

text \<open>The successor of the confirmed number.\<close>

lemma unat_Suc_word: "(n :: u64) + 1 \<noteq> 0 \<Longrightarrow> unat (n + 1) = Suc (unat n)"
  using unatSuc [of n] by (simp add: add.commute)

lemma word_le_Suc_iff: "(n :: u64) + 1 \<noteq> 0 \<Longrightarrow> i \<le> n + 1 \<longleftrightarrow> i \<le> n \<or> i = n + 1"
  by (auto simp: word_le_nat_alt word_unat_eq_iff unat_Suc_word)

lemma word_less_Suc: "(n :: u64) + 1 \<noteq> 0 \<Longrightarrow> n < n + 1"
  by (simp add: word_less_nat_alt unat_Suc_word)

lemma word_pred_less: "(i :: u64) \<noteq> 0 \<Longrightarrow> i - 1 < i"
  using word_less_Suc [of "i - 1"] by simp

lemma block_added_extends:
  assumes "chain_ok lib b" "block_added lib p b b'" "get_header lib (cb_block_hash p) b = Ok None"
    "get_confirmed_number lib b = Ok (Some n)" "hdr_number (cb_header p) = n + 1" "n + 1 \<noteq> 0"
  shows "extends lib b b'"
proof -
  note lt = word_less_Suc [OF assms(6)]
  have "get_block_hash lib i b' = get_block_hash lib i b" if "i \<le> n" for i
    using assms(2,5) lt that by (auto simp: block_added_def)
  moreover have "h \<noteq> cb_block_hash p" if "i \<le> n" "get_block_hash lib i b = Ok (Some h)" for i h
    using assms(1,3,4) that unfolding chain_ok_def linked_def by force
  ultimately show ?thesis
    using assms(2,4,5) lt unfolding extends_def block_added_def by auto
qed

lemma block_added_chain_ok:
  assumes inv: "chain_ok lib b" and add: "block_added lib p b b'" and new: "get_header lib (cb_block_hash p) b = Ok None"
    and n: "get_confirmed_number lib b = Ok (Some n)" "get_block_hash lib n b = Ok (Some (hdr_parent_hash (cb_header p)))"
      "hdr_number (cb_header p) = n + 1" "n + 1 \<noteq> 0" "hdr_number (cb_header p) + 1 \<noteq> 0"
  shows "chain_ok lib b'"
proof -
  obtain e where e: "get_execution_number lib b = Ok (Some e)" "e \<le> n" "linked lib n b" "executed lib e b"
    using inv n(1) by (auto simp: chain_ok_def)
  have ext: "extends lib b b'" by (rule block_added_extends [OF inv add new n(1,3,4)])
  note old = extendsD [OF ext n(1)]
  note lt = word_less_Suc [OF n(4)]
  have "linked lib (n + 1) b'"
    unfolding linked_def
  proof (intro allI impI)
    fix i :: block_number assume "i \<le> n + 1"
    then consider "i = n + 1" | (old) "i \<le> n" using word_le_Suc_iff [OF n(4)] by blast
    then show "\<exists>h hdr body. get_block_hash lib i b' = Ok (Some h) \<and> get_header lib h b' = Ok (Some hdr) \<and>
       get_body lib h b' = Ok (Some body) \<and> hdr_number hdr = i \<and>
       (i \<noteq> 0 \<longrightarrow> get_block_hash lib (i - 1) b' = Ok (Some (hdr_parent_hash hdr)))"
    proof cases
      case 1
      then show ?thesis using add n lt by (auto simp: block_added_def)
    next
      case old
      then obtain h hdr body where i: "get_block_hash lib i b = Ok (Some h)" "get_header lib h b = Ok (Some hdr)"
          "get_body lib h b = Ok (Some body)" "hdr_number hdr = i"
          "i \<noteq> 0 \<longrightarrow> get_block_hash lib (i - 1) b = Ok (Some (hdr_parent_hash hdr))"
        using e(3) unfolding linked_def by blast
      have "i - 1 \<le> n" if "i \<noteq> 0" using word_pred_less [OF that] old by simp
      then show ?thesis
        using i old(1) extendsD(2-4) [OF ext n(1)] by auto
    qed
  qed
  moreover have "executed lib e b'"
    using e(2,4) extendsD(2) [OF ext n(1)] add unfolding executed_def block_added_def by (metis order_trans)
  ultimately show ?thesis
    using inv add n e lt by (auto simp: chain_ok_def block_added_def same_setup_def)
qed

section \<open>Executions\<close>

lemma prepare_update_only_col:
  assumes "prepare_update rk tries sd root data d = Ok (root', t)"
  shows "only_col (sd_column sd) t"
proof -
  obtain x y buf where "t = extract_buffer (sd_column sd) buf" by (rule prepare_update_parts [OF assms])
  then show ?thesis by (auto simp: only_col_def extract_buffer_eq)
qed

lemma context_of_essence:
  assumes "new_essence b env mr pr = Ok e" "new_context lib b e = Ok s"
  shows "exec_inv s" "xc_env s = env" "xc_meta_statedb s = bk_meta_statedb b" "xc_meta_state_root s = mr"
    "xc_payload_statedb s = bk_payload_statedb b" "xc_payload_state_root s = pr" "xc_meta_txs s = []" "xc_meta_receipts s = []"
    "xc_payload_txs s = []" "xc_payload_receipts s = []" "\<not> xc_payload_phase s"
    "idle s" "cs_buffer (xc_meta_state s) = []" "cs_buffer (xc_payload_state s) = []"
  using assms context_new_inv [of "cl_rocks lib" "cl_tries lib" "bk_db b" e s]
  by (auto simp: new_essence_def context_essence_new_def new_context_def context_new_def context_state_new_def and_then_eq_Ok idle_def)

lemma build_execution_Ok:
  assumes "well_behaved (cl_dispatcher lib)" "build_execution lib p b = Ok q"
  shows "only_col (sd_column (bk_payload_statedb b)) (ce_payload_transaction q)" "ce_block_hash q = be_block_hash p"
    "ce_number q = be_number p"
proof -
  obtain e s s' root t where e: "new_essence b \<lparr> env_number = be_number p, env_timestamp = be_timestamp p \<rparr>
        (be_meta_state_root p) (be_payload_state_root p) = Ok e" "new_context lib b e = Ok s"
      and run: "execute_txs (bk_executor b) (cl_dispatcher lib) (be_payload_txs p) s = (Ok (), s')"
      and upd: "get_payload_update (cl_rocks lib) (cl_tries lib) (bk_db b) s' = Ok (root, t)"
      and q: "ce_payload_transaction q = t" "ce_block_hash q = be_block_hash p" "ce_number q = be_number p"
    using assms(2) by (auto simp: build_execution_def and_then_eq_Ok Let_def case_prod_unfold prod_eq_iff)
  note c = context_of_essence [OF e]
  have "xc_payload_statedb s' = bk_payload_statedb b"
    using execute_txs_frame [OF assms(1) c(1) run] c(5) by (simp add: same_base_def)
  then show "only_col (sd_column (bk_payload_statedb b)) (ce_payload_transaction q)"
    using upd q(1) by (auto simp: get_payload_update_def and_then_eq_Ok dest!: prepare_update_only_col)
qed (use assms(2) in \<open>auto simp: build_execution_def and_then_eq_Ok Let_def case_prod_unfold\<close>)

lemma commit_execution_added:
  assumes "chain_lib_ok lib absd" "only_col PAYLOAD_STATE (ce_payload_transaction p)" "commit_execution lib now p b = (r, b')"
  shows "execution_added lib p b b'"
proof -
  obtain d where w: "write_db lib (commit_execution_ops (cl_codecs lib) p transaction_new) b = (Ok (), b\<lparr>bk_db := d\<rparr>)"
      "execution_added lib p b (b\<lparr>bk_db := d\<rparr>)"
    using commit_execution_written [OF assms(1,2)] by blast
  have "on_execution_committed lib now (ce_number p) (ce_block_hash p) (b\<lparr>bk_db := d\<rparr>) = (r, b')"
    using assms(3) by (simp add: commit_execution_def bind_apply w(1))
  then have "notified (b\<lparr>bk_db := d\<rparr>) b'"
    by (rule keepsD [OF keeps_notified(2) notified_refl])
  then show ?thesis by (rule added_notified(2) [OF _ w(2)])
qed

text \<open>The task of the block with a number.\<close>

lemma pick_task_Ok:
  assumes "pick_task lib i task b = Ok t" "\<And>t'. task = Some t' \<Longrightarrow> task_ok lib b t'"
  shows "et_number t = i \<and> get_block_hash lib i b = Ok (Some (et_block_hash t))"
proof -
  have "et_number t = i \<and> get_block_hash lib i b = Ok (Some (et_block_hash t))" if "rebuild_task lib i b = Ok t"
    using that by (auto simp: rebuild_task_def and_then_eq_Ok)
  then show ?thesis
    using assms by (auto simp: pick_task_def task_ok_def split: option.splits if_splits)
qed

lemma process_number_cases:
  assumes ok: "chain_lib_ok lib absd" and wb: "well_behaved (cl_dispatcher lib)"
    and col: "sd_column (bk_payload_statedb b) = PAYLOAD_STATE"
    and task: "\<And>t. task = Some t \<Longrightarrow> task_ok lib b t"
    and run: "process_number lib now i task b = (r, b')"
  obtains (unchanged) e where "r = Err e" "b' = b"
  | (executed) q where "execution_added lib q b b'" "ce_number q = i" "get_block_hash lib i b = Ok (Some (ce_block_hash q))"
proof -
  have "(\<exists>e. r = Err e \<and> b' = b) \<or> (\<exists>t p q r'. pick_task lib i task b = Ok t \<and> be_number p = et_number t \<and>
      be_block_hash p = et_block_hash t \<and> build_execution lib p b = Ok q \<and> commit_execution lib now q b = (r', b'))"
  proof (cases "pick_task lib i task b")
    case (Err e)
    then show ?thesis using run by (auto simp: process_number_def bind_apply)
  next
    case t: (Ok t)
    show ?thesis
    proof (cases "\<exists>x. get_execution lib (et_parent_hash t) b = Ok (Some x)")
      case False
      then show ?thesis using run t
        by (cases "get_execution lib (et_parent_hash t) b")
          (auto simp: process_number_def bind_apply map_err_comp_def ok_or_else_def split: option.splits)
    next
      case True
      then obtain x where x: "get_execution lib (et_parent_hash t) b = Ok (Some x)" by blast
      let ?p = "\<lparr> be_number = et_number t, be_timestamp = et_timestamp t, be_block_hash = et_block_hash t,
        be_meta_state_root = et_meta_state_root t, be_payload_state_root = exe_payload_execution_state_root x,
        be_payload_txs = et_payload_txs t \<rparr>"
      show ?thesis
      proof (cases "build_execution lib ?p b")
        case (Err e)
        then show ?thesis using run t x by (auto simp: process_number_def bind_apply map_err_comp_def)
      next
        case q: (Ok q)
        have "commit_execution lib now q b = (fst (commit_execution lib now q b), b')"
          using run t x q by (auto simp: process_number_def bind_apply map_err_comp_def split: prod.splits)
        then show ?thesis
          using t q by (intro disjI2 exI [of _ t] exI [of _ ?p]) auto
      qed
    qed
  qed
  then consider (unchanged) e where "r = Err e" "b' = b"
    | (go) t p q r' where "pick_task lib i task b = Ok t" "be_number p = et_number t" "be_block_hash p = et_block_hash t"
      "build_execution lib p b = Ok q" "commit_execution lib now q b = (r', b')"
    by blast
  then show thesis
  proof cases
    case unchanged
    then show thesis by (rule that(1))
  next
    case go
    note q = build_execution_Ok [OF wb go(4)]
    have "execution_added lib q b b'" by (rule commit_execution_added [OF ok q(1) [unfolded col] go(5)])
    then show thesis using pick_task_Ok [OF go(1) task] go(2,3) q(2,3) that(2) [of q] by auto
  qed
qed

lemma execution_added_extends: "execution_added lib q b b' \<Longrightarrow> extends lib b b'"
  by (auto simp: execution_added_def extends_def)

lemma execution_added_chain_ok:
  assumes inv: "chain_ok lib b" and add: "execution_added lib q b b'"
    and n: "get_confirmed_number lib b = Ok (Some n)" "get_execution_number lib b = Ok (Some e)"
    and i: "ce_number q \<noteq> 0" "ce_number q - 1 \<le> e" "ce_number q \<le> n" "get_block_hash lib (ce_number q) b = Ok (Some (ce_block_hash q))"
  shows "chain_ok lib b'"
proof -
  have ex: "executed lib e b" and li: "linked lib n b" and nz: "n + 1 \<noteq> 0" using inv n by (auto simp: chain_ok_def)
  have "executed lib (ce_number q) b'"
    unfolding executed_def
  proof (intro allI impI)
    fix j :: block_number assume j: "j \<le> ce_number q"
    show "\<exists>h x. get_block_hash lib j b' = Ok (Some h) \<and> get_execution lib h b' = Ok (Some x)"
    proof (cases "j = ce_number q")
      case True
      then show ?thesis using add i(4) by (auto simp: execution_added_def)
    next
      case False
      then have "j \<le> ce_number q - 1" using j i(1) word_le_Suc_iff [of "ce_number q - 1" j] by auto
      then have "j \<le> e" using i(2) by (rule order_trans)
      then show ?thesis using ex add unfolding executed_def execution_added_def by (metis (no_types, lifting))
    qed
  qed
  moreover have "linked lib n b'" using li add unfolding linked_def execution_added_def by simp
  ultimately show ?thesis
    using inv add n i nz by (auto simp: chain_ok_def execution_added_def same_setup_def)
qed

text \<open>Processing a number: nothing changes, or the execution of the block is committed.\<close>

lemma process_number_ok:
  assumes "chain_lib_ok lib absd" "well_behaved (cl_dispatcher lib)" "chain_ok lib b"
    and task: "\<And>t. task = Some t \<Longrightarrow> task_ok lib b t"
    and run: "process_number lib now i task b = (r, b')"
    and n: "get_confirmed_number lib b = Ok (Some n)" "get_execution_number lib b = Ok (Some e)" "i \<noteq> 0" "i - 1 \<le> e" "i \<le> n"
  shows "chain_ok lib b' \<and> extends lib b b' \<and> get_confirmed_number lib b' = Ok (Some n) \<and>
    (get_execution_number lib b' = Ok (Some i) \<or> (b' = b \<and> \<not> is_ok r))"
proof -
  have col: "sd_column (bk_payload_statedb b) = PAYLOAD_STATE" using assms(3) by (simp add: chain_ok_def)
  consider (unchanged) "b' = b" "\<not> is_ok r"
    | (executed) q where "execution_added lib q b b'" "ce_number q = i" "get_block_hash lib i b = Ok (Some (ce_block_hash q))"
    by (rule process_number_cases [OF assms(1,2) col task run]) auto
  then show ?thesis
  proof cases
    case (executed q)
    have "chain_ok lib b'"
      by (rule execution_added_chain_ok [OF assms(3) executed(1) n(1,2)]) (use executed n in simp_all)
    then show ?thesis using executed n execution_added_extends [OF executed(1)] by (auto simp: execution_added_def)
  qed (use assms(3) n in simp)
qed

lemma process_loop_ok:
  assumes lib: "chain_lib_ok lib absd" "well_behaved (cl_dispatcher lib)"
    and "chain_ok lib b" "get_confirmed_number lib b = Ok (Some n)" "get_execution_number lib b = Ok (Some e)"
    and "i \<noteq> 0" "i = e + 1" "j \<le> unat n + 1"
    and "for_each (\<lambda>current_number. process_number lib now current_number None) (map of_nat [unat i..<j]) b = (r, b')"
  shows "chain_ok lib b' \<and> extends lib b b' \<and> get_confirmed_number lib b' = Ok (Some n) \<and>
    (is_ok r \<longrightarrow> get_execution_number lib b' = Ok (Some (if unat i < j then of_nat (j - 1) else e)))"
  using assms(3-)
proof (induction "j - unat i" arbitrary: b i e)
  case 0
  then show ?case by simp
next
  case (Suc k)
  then have ij: "unat i < j" by simp
  have i: "(of_nat (unat i) :: u64) = i" by simp
  obtain r1 b1 where p: "process_number lib now i None b = (r1, b1)" by fastforce
  have "i \<le> n" using ij Suc.prems(6) by (simp add: word_le_nat_alt)
  then have ok: "chain_ok lib b1 \<and> extends lib b b1 \<and> get_confirmed_number lib b1 = Ok (Some n) \<and>
      (get_execution_number lib b1 = Ok (Some i) \<or> (b1 = b \<and> \<not> is_ok r1))"
    using Suc.prems by (intro process_number_ok [OF lib _ _ p]) auto
  have list: "map of_nat [unat i..<j] = i # map of_nat [Suc (unat i)..<j]"
    using ij by (simp add: upt_conv_Cons)
  show ?case
  proof (cases r1)
    case (Err x)
    then show ?thesis using Suc.prems(7) ok p by (auto simp: list bind_apply)
  next
    case (Ok u)
    have nz: "i + 1 \<noteq> 0"
    proof
      assume "i + 1 = 0"
      then have "i = - 1" by (simp add: eq_neg_iff_add_eq_0)
      then have "n = - 1" using \<open>i \<le> n\<close> word_n1_ge [of n] by (simp add: order.antisym)
      then show False using Suc.prems(1,2) by (auto simp: chain_ok_def)
    qed
    have s: "unat (i + 1) = Suc (unat i)" by (rule unat_Suc_word [OF nz])
    have "for_each (\<lambda>current_number. process_number lib now current_number None) (map of_nat [unat (i + 1)..<j]) b1 = (r, b')"
      using Suc.prems(7) p Ok by (simp add: list bind_apply s)
    from Suc.hyps(1) [OF _ _ _ _ nz refl Suc.prems(6) this] have ih: "chain_ok lib b' \<and> extends lib b1 b' \<and> get_confirmed_number lib b' = Ok (Some n) \<and>
        (is_ok r \<longrightarrow> get_execution_number lib b' = Ok (Some (if unat (i + 1) < j then of_nat (j - 1) else i)))"
      using ok Ok Suc.hyps(2) s by auto
    have "(if unat (i + 1) < j then of_nat (j - 1) else i) = (of_nat (j - 1) :: u64)"
    proof (cases "unat (i + 1) < j")
      case False
      then have "j - 1 = unat i" using ij s by linarith
      then show ?thesis using False by simp
    qed simp
    then show ?thesis using ih ok ij extends_trans [of lib b b1 b'] by simp
  qed
qed

lemma process_task_ok:
  assumes lib: "chain_lib_ok lib absd" "well_behaved (cl_dispatcher lib)"
    and inv: "chain_ok lib b" and task: "task_ok lib b task" and run: "process_task lib now task b = (r, b')"
  shows "chain_ok lib b' \<and> extends lib b b' \<and> (is_ok r \<longrightarrow> get_execution_number lib b' = Ok (Some (et_number task)))"
proof -
  obtain n e where n: "get_confirmed_number lib b = Ok (Some n)" "get_execution_number lib b = Ok (Some e)" "e \<le> n" "n + 1 \<noteq> 0"
    using inv by (auto simp: chain_ok_def)
  have t: "et_number task \<le> n" "et_number task \<noteq> 0" using task n(1) by (auto simp: task_ok_def)
  have nz: "e + 1 \<noteq> 0" using n(3,4) by (metis add_diff_cancel diff_0 order.antisym word_n1_ge)
  obtain r1 b1 where loop: "for_each (\<lambda>i. process_number lib now i None) (map of_nat [unat (e + 1)..<unat (et_number task)]) b = (r1, b1)"
    by fastforce
  have "unat (et_number task) \<le> unat n + 1" using t(1) by (simp add: word_le_nat_alt)
  note l = process_loop_ok [OF lib inv n(1,2) nz refl this loop]
  have run': "process_task lib now task b = (case r1 of Err x \<Rightarrow> (Err x, b1) | Ok _ \<Rightarrow> process_number lib now (et_number task) (Some task) b1)"
    using loop by (cases r1) (auto simp: process_task_def bind_apply n(2) u64_range_def)
  show ?thesis
  proof (cases r1)
    case (Err x)
    then show ?thesis using run run' l by auto
  next
    case (Ok u)
    then have p: "process_number lib now (et_number task) (Some task) b1 = (r, b')" using run run' by simp
    define e1 where "e1 = (if unat (e + 1) < unat (et_number task) then of_nat (unat (et_number task) - 1) else e)"
    have e1: "get_execution_number lib b1 = Ok (Some e1)" using l Ok by (simp add: e1_def)
    have "et_number task - 1 \<le> e1"
    proof (cases "unat (e + 1) < unat (et_number task)")
      case True
      have "(of_nat (unat (et_number task - 1)) :: u64) = et_number task - 1" by simp
      then have "of_nat (unat (et_number task) - 1) = et_number task - 1" by (simp only: unat_minus_one [OF t(2)])
      then show ?thesis using True by (simp add: e1_def)
    next
      case False
      then show ?thesis
        using unat_Suc_word [OF nz] unat_minus_one [OF t(2)] by (auto simp: e1_def word_le_nat_alt)
    qed
    then have "chain_ok lib b' \<and> extends lib b1 b' \<and> get_confirmed_number lib b' = Ok (Some n) \<and>
        (get_execution_number lib b' = Ok (Some (et_number task)) \<or> (b' = b1 \<and> \<not> is_ok r))"
      using l t e1 task_ok_extends [OF _ task] by (intro process_number_ok [OF lib _ _ p]) auto
    then show ?thesis using l extends_trans [of lib b b1 b'] by auto
  qed
qed

section \<open>Reachable states\<close>

definition sys_ok :: "('d, 't) chain_lib \<Rightarrow> ('d, 'kp, 'ver) chain \<Rightarrow> bool" where
  "sys_ok lib c \<longleftrightarrow> chain_ok lib (ch_backend c) \<and> (\<forall>task\<in>set (ch_tasks c). task_ok lib (ch_backend c) task)"

text \<open>The actions on a chain: committing a block whose state update was made for the meta column and whose number is in
  range, a turn of the task stream, and writing consensus data.\<close>

inductive chain_step :: "('d, 't) chain_lib \<Rightarrow> ('d, 'kp, 'ver) chain \<Rightarrow> ('d, 'kp, 'ver) chain \<Rightarrow> bool" for lib where
  step_commit: "only_col META_STATE (cb_meta_transaction p) \<Longrightarrow> hdr_number (cb_header p) \<noteq> 0 \<Longrightarrow> hdr_number (cb_header p) + 1 \<noteq> 0 \<Longrightarrow>
    chain_commit_block lib now p c = (r, c') \<Longrightarrow> chain_step lib c c'"
| step_task: "chain_step lib c (task_turn lib now c)"
| step_consensus: "only_col CONSENSUS t \<Longrightarrow> on_backend (commit_consensus_data lib t) c = (r, c') \<Longrightarrow> chain_step lib c c'"

inductive chain_run :: "('d, 't) chain_lib \<Rightarrow> ('d, 'kp, 'ver) chain \<Rightarrow> ('d, 'kp, 'ver) chain \<Rightarrow> bool" for lib where
  run_refl: "chain_run lib c c"
| run_step: "chain_run lib c c' \<Longrightarrow> chain_step lib c' c'' \<Longrightarrow> chain_run lib c c''"

lemma commit_block_ok:
  assumes "chain_lib_ok lib absd" "only_col META_STATE (cb_meta_transaction p)" "hdr_number (cb_header p) \<noteq> 0"
    "hdr_number (cb_header p) + 1 \<noteq> 0" "chain_ok lib b" "backend_commit_block lib now p b = (r, b')"
  shows "chain_ok lib b' \<and> extends lib b b' \<and> (is_ok r \<longrightarrow> block_added lib p b b')"
proof -
  consider (refused) "b' = b" "\<not> is_ok r"
    | (added) n where "get_header lib (cb_block_hash p) b = Ok None" "get_confirmed_number lib b = Ok (Some n)"
      "get_block_hash lib n b = Ok (Some (hdr_parent_hash (cb_header p)))" "hdr_number (cb_header p) = n + 1" "block_added lib p b b'"
    by (rule backend_commit_block_cases [OF assms(1,2,6)]) auto
  then show ?thesis
  proof cases
    case (added n)
    have nz: "n + 1 \<noteq> 0" using added(4) assms(3) by simp
    show ?thesis
      using block_added_chain_ok [OF assms(5) added(5,1,2,3,4) nz assms(4)]
        block_added_extends [OF assms(5) added(5,1,2,4) nz] added(5) by simp
  qed (use assms(5) in simp)
qed

lemma commit_block_task_ok:
  assumes "chain_ok lib b'" "block_added lib p b b'" "hdr_number (cb_header p) \<noteq> 0"
  shows "task_ok lib b' \<lparr> et_number = hdr_number (cb_header p), et_timestamp = hdr_timestamp (cb_header p),
       et_block_hash = cb_block_hash p, et_parent_hash = hdr_parent_hash (cb_header p),
       et_meta_state_root = hdr_meta_state_root (cb_header p), et_payload_txs = cb_payload_txs p \<rparr>"
  using assms by (auto simp: task_ok_def block_added_def)

lemma consensus_data_same:
  assumes "chain_lib_ok lib absd" "only_col CONSENSUS t" "chain_ok lib b"
  shows "chain_ok lib (snd (commit_consensus_data lib t b)) \<and> extends lib b (snd (commit_consensus_data lib t b))"
proof -
  have "\<forall>op\<in>set t. valid_col (op_col op)" using assms(2) by (auto simp: only_col_def)
  from write_db_eq [OF assms(1) this, of b] obtain d where w: "write_db lib t b = (Ok (), b\<lparr>bk_db := d\<rparr>)"
    and c: "\<And>c k. valid_col c \<Longrightarrow> db_abs absd d c k = fold apply_op (filter (\<lambda>op. op_col op = c) t) (cell absd b) c k"
    by blast
  have neq: "CONSENSUS \<noteq> c" if "c \<in> {HEADER, META_TXS, PAYLOAD_TXS, PROOF, BLOCK_HASH, GLOBAL, EXECUTION}" for c
    using that by (auto simp: column_defs)
  have same: "get_header lib h (b\<lparr>bk_db := d\<rparr>) = get_header lib h b" "get_body lib h (b\<lparr>bk_db := d\<rparr>) = get_body lib h b"
    "get_block_hash lib i (b\<lparr>bk_db := d\<rparr>) = get_block_hash lib i b" "get_execution lib h (b\<lparr>bk_db := d\<rparr>) = get_execution lib h b"
    "get_confirmed_number lib (b\<lparr>bk_db := d\<rparr>) = get_confirmed_number lib b"
    "get_execution_number lib (b\<lparr>bk_db := d\<rparr>) = get_execution_number lib b" for h i
    using neq [symmetric]
    by (simp_all add: read_defs read_with_eq [OF assms(1)] c filter_only_col [OF assms(2)] cong: option.case_cong)
  show ?thesis
    using assms(3) by (simp add: commit_consensus_data_def w chain_ok_def linked_def executed_def extends_def same)
qed

lemma chain_step_ok:
  assumes lib: "chain_lib_ok lib absd" "well_behaved (cl_dispatcher lib)" and "sys_ok lib c" "chain_step lib c c'"
  shows "sys_ok lib c' \<and> extends lib (ch_backend c) (ch_backend c')"
  using assms(4)
proof (cases rule: chain_step.cases)
  case (step_commit p now r)
  obtain q b' where run: "backend_commit_block lib now p (ch_backend c) = (q, b')" by fastforce
  have inv: "chain_ok lib (ch_backend c)" "\<forall>task\<in>set (ch_tasks c). task_ok lib (ch_backend c) task"
    using assms(3) by (auto simp: sys_ok_def)
  note ok = commit_block_ok [OF lib(1) step_commit(1-3) inv(1) run]
  have "\<forall>task\<in>set (ch_tasks c). task_ok lib b' task" using inv(2) ok task_ok_extends by blast
  then show ?thesis
    using step_commit(4) ok commit_block_task_ok [of lib b' p "ch_backend c"] step_commit(2)
    by (auto simp: chain_commit_block_def on_backend_def bind_apply run insert_task_def sys_ok_def split: result.splits if_splits)
next
  case (step_task now)
  show ?thesis
  proof (cases "ch_tasks c")
    case Nil
    then show ?thesis using step_task assms(3) by (simp add: task_turn_def)
  next
    case (Cons task rest)
    obtain r b' where run: "process_task lib now task (ch_backend c) = (r, b')" by fastforce
    have "chain_ok lib b' \<and> extends lib (ch_backend c) b'"
      using process_task_ok [OF lib _ _ run] assms(3) Cons by (simp add: sys_ok_def)
    then show ?thesis
      using step_task assms(3) Cons run by (auto simp: task_turn_def sys_ok_def intro: task_ok_extends)
  qed
next
  case (step_consensus t r)
  then show ?thesis
    using consensus_data_same [OF lib(1) step_consensus(1), of "ch_backend c"] assms(3)
    by (auto simp: on_backend_def sys_ok_def split: prod.splits intro: task_ok_extends)
qed

end
