(* ===== verification/Genesis_Laws.thy ===== *)
theory Genesis_Laws
  imports Genesis Chain_Laws
begin

text \<open>
  The genesis block starts the chain: after \<open>init_genesis\<close>, and so after opening the backend, the invariant of \<open>Chain_Laws\<close>
  holds.
\<close>

lemma ops_append:
  "commit_execution_ops cs q t = t @ commit_execution_ops cs q transaction_new"
  "commit_spec_ops cs sp t = t @ [Insert GLOBAL SPEC (enc (cc_string cs) sp)]"
  by (simp_all add: commit_execution_ops_def commit_spec_ops_def Let_def put_owned_def Database.extend_def transaction_new_def put_receipts_eq)

lemma spec_key [simp]: "CONFIRMED_NUMBER \<noteq> SPEC" "EXECUTION_NUMBER \<noteq> SPEC"
  by (simp_all add: CONFIRMED_NUMBER_def EXECUTION_NUMBER_def SPEC_def)

lemma genesis_written:
  assumes ok: "chain_lib_ok lib absd" and meta: "only_col META_STATE (cb_meta_transaction p)"
    and payload: "only_col PAYLOAD_STATE (ce_payload_transaction q)"
    and zero: "hdr_number (cb_header p) = 0" "ce_number q = 0" "ce_block_hash q = cb_block_hash p"
    and cols: "sd_column (bk_meta_statedb b) = META_STATE" "sd_column (bk_payload_statedb b) = PAYLOAD_STATE"
  shows "\<exists>d. write_db lib (genesis_ops (cl_codecs lib) sp p q) b = (Ok (), b\<lparr>bk_db := d\<rparr>) \<and>
    chain_ok lib (b\<lparr>bk_db := d\<rparr>) \<and>
    get_confirmed_number lib (b\<lparr>bk_db := d\<rparr>) = Ok (Some 0) \<and> get_execution_number lib (b\<lparr>bk_db := d\<rparr>) = Ok (Some 0) \<and>
    get_block_hash lib 0 (b\<lparr>bk_db := d\<rparr>) = Ok (Some (cb_block_hash p)) \<and>
    get_header lib (cb_block_hash p) (b\<lparr>bk_db := d\<rparr>) = Ok (Some (cb_header p)) \<and>
    get_body lib (cb_block_hash p) (b\<lparr>bk_db := d\<rparr>) = Ok (Some (cb_body p)) \<and>
    get_execution lib (cb_block_hash p) (b\<lparr>bk_db := d\<rparr>) = Ok (Some (ce_execution q)) \<and>
    (\<forall>h. h \<noteq> cb_block_hash p \<longrightarrow> get_header lib h (b\<lparr>bk_db := d\<rparr>) = get_header lib h b \<and>
       get_execution lib h (b\<lparr>bk_db := d\<rparr>) = get_execution lib h b) \<and>
    (\<forall>k. cell absd (b\<lparr>bk_db := d\<rparr>) TX k =
       fold apply_op (tx_ops (cl_codecs lib) (cb_meta_txs p @ cb_payload_txs p)) (cell absd b) TX k)"
proof -
  let ?ops = "genesis_ops (cl_codecs lib) sp p q"
  have ops: "?ops = commit_block_ops (cl_codecs lib) p transaction_new @ commit_execution_ops (cl_codecs lib) q transaction_new
      @ [Insert GLOBAL SPEC (enc (cc_string (cl_codecs lib)) sp)]"
    by (simp add: genesis_ops_def ops_append(2) ops_append(1) [of _ _ "commit_block_ops _ _ _"])
  have "\<forall>op\<in>set ?ops. valid_col (op_col op)"
    using meta payload by (auto simp: ops commit_block_ops_eq commit_execution_ops_eq only_col_def tx_ops_def receipt_ops_def)
  from write_db_eq [OF ok this] obtain d where w: "write_db lib ?ops b = (Ok (), b\<lparr>bk_db := d\<rparr>)"
    and c: "\<And>c k. valid_col c \<Longrightarrow> db_abs absd d c k = fold apply_op (filter (\<lambda>op. op_col op = c) ?ops) (cell absd b) c k"
    by blast
  note c' = c [unfolded ops commit_block_ops_eq commit_execution_ops_eq,
      simplified filter_append filter_ops filter_only_col [OF meta] filter_only_col [OF payload]]
  note cok = chain_lib_okD [OF ok]
  have reads: "get_confirmed_number lib (b\<lparr>bk_db := d\<rparr>) = Ok (Some 0)" "get_execution_number lib (b\<lparr>bk_db := d\<rparr>) = Ok (Some 0)"
    "get_block_hash lib 0 (b\<lparr>bk_db := d\<rparr>) = Ok (Some (cb_block_hash p))"
    "get_header lib (cb_block_hash p) (b\<lparr>bk_db := d\<rparr>) = Ok (Some (cb_header p))"
    "get_body lib (cb_block_hash p) (b\<lparr>bk_db := d\<rparr>) = Ok (Some (cb_body p))"
    "get_execution lib (cb_block_hash p) (b\<lparr>bk_db := d\<rparr>) = Ok (Some (ce_execution q))"
    using cok zero by (simp_all add: read_defs read_with_eq [OF ok] c')
  have other: "\<forall>h. h \<noteq> cb_block_hash p \<longrightarrow> get_header lib h (b\<lparr>bk_db := d\<rparr>) = get_header lib h b \<and>
      get_execution lib h (b\<lparr>bk_db := d\<rparr>) = get_execution lib h b"
    using zero by (auto simp: read_defs read_with_eq [OF ok] c')
  have txs: "\<forall>k. cell absd (b\<lparr>bk_db := d\<rparr>) TX k =
      fold apply_op (tx_ops (cl_codecs lib) (cb_meta_txs p @ cb_payload_txs p)) (cell absd b) TX k"
    by (simp add: c' tx_ops_def)
  from reads have "linked lib 0 (b\<lparr>bk_db := d\<rparr>)" "executed lib 0 (b\<lparr>bk_db := d\<rparr>)"
    using zero(1) by (simp_all add: linked_def executed_def)
  then have "chain_ok lib (b\<lparr>bk_db := d\<rparr>)"
    using reads cols by (simp add: chain_ok_def)
  then show ?thesis using w reads other txs by blast
qed

lemma chain_ok_notified:
  assumes "notified b b'" "chain_ok lib b"
  shows "chain_ok lib b'"
proof -
  have "bk_meta_statedb b' = bk_meta_statedb b" "bk_payload_statedb b' = bk_payload_statedb b"
    using assms(1) by (simp_all add: notified_def same_setup_def)
  then show ?thesis
    using assms(2) by (simp add: chain_ok_def linked_def executed_def read_notified [OF assms(1)])
qed

text \<open>The parameters of the genesis block.\<close>

definition based :: "exec_context \<Rightarrow> exec_context \<Rightarrow> bool" where
  "based s0 s \<longleftrightarrow> exec_inv s \<and> same_base s0 s"

lemma same_base_trans: "same_base s t \<Longrightarrow> same_base t u \<Longrightarrow> same_base s u"
  by (simp add: same_base_def)

lemma validate_call_local:
  assumes "well_behaved ds"
  shows "keeps (tx_local s0) (dispatch_validate_call ds name sender call)"
proof -
  have "keeps (tx_local s0) (module_validate_call (dm_methods m) sender call)" if "find_module name ds = Ok m" for m
    using assms find_module_set [OF that]
    by (auto simp: module_validate_call_def well_behaved_def local_method_def dest: find_method_set split: option.splits)
  then show ?thesis
    by (cases "find_module name ds")
      (auto simp: dispatch_validate_call_def keeps_def bind_def dispatch_result_def
        split: prod.splits result.splits module_error.splits)
qed

lemma validate_tx_based:
  assumes "well_behaved ds"
  shows "keeps (based s0) (validate_tx xe cm ds tx w)"
proof -
  have "keeps (tx_local s) (validate_tx xe cm ds tx w)" for s
    unfolding validate_tx_def Let_def by (intro keeps_rules validate_call_local [OF assms])
  then show ?thesis
    using rollback_same_batch same_base_trans unfolding keeps_def based_def tx_local_def same_batch_def by metis
qed

lemma execute_txs_based: "well_behaved ds \<Longrightarrow> keeps (based s0) (execute_txs xe ds txs)"
  unfolding keeps_def based_def by (metis execute_txs_frame prod.collapse same_base_trans)

lemma execute_genesis_based: "well_behaved (cl_dispatcher lib) \<Longrightarrow> keeps (based s0) (execute_genesis lib xe p)"
  unfolding execute_genesis_def by (intro keeps_rules validate_tx_based execute_txs_based)

lemma build_genesis_zero:
  assumes "build_genesis lib gl xe sp s = (Ok p, s')"
  shows "bb_number p = 0"
  using assms by (auto simp: build_genesis_def bind_eq_Ok)

lemma genesis_params_Ok:
  assumes "genesis_params lib p s b = Ok (cb, ce)"
  shows "only_col (sd_column (xc_meta_statedb s)) (cb_meta_transaction cb)"
    "only_col (sd_column (xc_payload_statedb s)) (ce_payload_transaction ce)"
    "hdr_number (cb_header cb) = bb_number p" "ce_number ce = bb_number p" "ce_block_hash ce = cb_block_hash cb"
  using assms
  by (auto simp: genesis_params_def get_meta_update_def get_payload_update_def Let_def and_then_eq_Ok case_prod_unfold
      dest: prepare_update_only_col)

lemma prepare_genesis_Ok:
  assumes wb: "well_behaved (cl_dispatcher lib)" and run: "prepare_genesis lib gl sp b = Ok (cb, ce)"
  shows "only_col (sd_column (bk_meta_statedb b)) (cb_meta_transaction cb)"
    "only_col (sd_column (bk_payload_statedb b)) (ce_payload_transaction ce)"
    "hdr_number (cb_header cb) = 0" "ce_number ce = 0" "ce_block_hash ce = cb_block_hash cb"
proof -
  obtain s0 p e s where g: "fst (build_genesis lib gl (bk_executor b) sp s0) = Ok p"
    and e: "new_essence b \<lparr> env_number = bb_number p, env_timestamp = bb_timestamp p \<rparr>
        (Hash (default_root (bk_meta_statedb b))) (Hash (default_root (bk_payload_statedb b))) = Ok e" "new_context lib b e = Ok s"
    and par: "genesis_params lib p (snd (execute_genesis lib (bk_executor b) p s)) b = Ok (cb, ce)"
    using run by (auto simp: prepare_genesis_def and_then_eq_Ok Let_def case_prod_unfold)
  let ?s = "snd (execute_genesis lib (bk_executor b) p s)"
  note c = context_of_essence [OF e]
  have "based s s" using c(1) by (simp add: based_def same_base_def)
  then have "based s ?s" by (rule keepsD [OF execute_genesis_based [OF wb] _ surjective_pairing])
  then have s2: "xc_meta_statedb ?s = bk_meta_statedb b" "xc_payload_statedb ?s = bk_payload_statedb b"
    using c by (simp_all add: based_def same_base_def)
  have z: "bb_number p = 0"
    using build_genesis_zero [of lib gl "bk_executor b" sp s0 p] g by (metis prod.collapse)
  show "only_col (sd_column (bk_meta_statedb b)) (cb_meta_transaction cb)"
    "only_col (sd_column (bk_payload_statedb b)) (ce_payload_transaction ce)"
    "hdr_number (cb_header cb) = 0" "ce_number ce = 0" "ce_block_hash ce = cb_block_hash cb"
    using genesis_params_Ok [OF par] by (simp_all add: s2 z)
qed

text \<open>What \<open>init_genesis\<close> writes, when its checks pass.\<close>

lemma init_genesis_written:
  assumes lib: "chain_lib_ok lib absd" "well_behaved (cl_dispatcher lib)"
    and cols: "sd_column (bk_meta_statedb b) = META_STATE" "sd_column (bk_payload_statedb b) = PAYLOAD_STATE"
    and run: "init_genesis lib gl now spec_file b = (Ok (), b')"
  shows "chain_ok lib b' \<and> get_confirmed_number lib b' = Ok (Some 0) \<and> get_execution_number lib b' = Ok (Some 0) \<and> same_setup b b'"
proof -
  obtain spec_str sp cb ce where par: "prepare_genesis lib gl sp b = Ok (cb, ce)"
    and w: "bind (write_db lib (genesis_ops (cl_codecs lib) spec_str cb ce)) (\<lambda>_.
        on_execution_committed lib now (ce_number ce) (cb_block_hash cb)) b = (Ok (), b')"
    using run by (auto simp: init_genesis_def bind_query_eq_Ok bind_eq_Ok [of "lift_result _"] split: prod.splits)
  note gp = prepare_genesis_Ok [OF lib(2) par, unfolded cols]
  from genesis_written [OF lib(1) gp cols, of spec_str] obtain d where
    d: "write_db lib (genesis_ops (cl_codecs lib) spec_str cb ce) b = (Ok (), b\<lparr>bk_db := d\<rparr>)" "chain_ok lib (b\<lparr>bk_db := d\<rparr>)"
      "get_confirmed_number lib (b\<lparr>bk_db := d\<rparr>) = Ok (Some 0)" "get_execution_number lib (b\<lparr>bk_db := d\<rparr>) = Ok (Some 0)"
    by blast
  have "on_execution_committed lib now (ce_number ce) (cb_block_hash cb) (b\<lparr>bk_db := d\<rparr>) = (Ok (), b')"
    using w d(1) by (simp add: bind_apply)
  then have n: "notified (b\<lparr>bk_db := d\<rparr>) b'"
    by (rule keepsD [OF keeps_notified(2) notified_refl])
  then have "same_setup b b'" by (simp add: notified_def same_setup_def)
  then show ?thesis
    using chain_ok_notified [OF n d(2)] d(3,4) by (simp add: read_notified [OF n])
qed

end
