(* ===== verification/Chain_Example.thy ===== *)
theory Chain_Example
  imports Genesis_Laws Governance
begin

text \<open>
  A concrete chain for the witnesses: an in-memory database and trie, codecs with the round trip, a system module that answers
  with a fixed configuration, and a spec with one transaction.
\<close>

definition hash_codec :: "hash codec" where
  "hash_codec = iso_codec hash_bytes Hash bytes_codec"

definition ex_header_codec :: "header codec" where
  "ex_header_codec = iso_codec
     (\<lambda>h. (hdr_number h, hdr_timestamp h, hdr_parent_hash h, hdr_meta_txs_root h, hdr_meta_state_root h, hdr_meta_receipts_root h,
        hdr_payload_txs_root h, hdr_payload_execution_gap h, hdr_payload_execution_state_root h, hdr_payload_execution_receipts_root h))
     (\<lambda>(n, t, ph, a, b, c, d, g, e, f). \<lparr> hdr_number = n, hdr_timestamp = t, hdr_parent_hash = ph, hdr_meta_txs_root = a,
        hdr_meta_state_root = b, hdr_meta_receipts_root = c, hdr_payload_txs_root = d, hdr_payload_execution_gap = g,
        hdr_payload_execution_state_root = e, hdr_payload_execution_receipts_root = f \<rparr>)
     (pair_codec word_codec (pair_codec word_codec (pair_codec hash_codec (pair_codec hash_codec (pair_codec hash_codec
       (pair_codec hash_codec (pair_codec hash_codec (pair_codec word_codec (pair_codec hash_codec hash_codec)))))))))"

definition ex_call_codec :: "call codec" where
  "ex_call_codec = iso_codec (\<lambda>c. (call_module c, call_method c, params_bytes (call_params c)))
     (\<lambda>(m, t, p). \<lparr> call_module = m, call_method = t, call_params = Params p \<rparr>)
     (pair_codec string_codec (pair_codec string_codec bytes_codec))"

definition ex_witness_codec :: "witness codec" where
  "ex_witness_codec = iso_codec
     (\<lambda>w. (public_key_bytes (wit_public_key w), signature_bytes (wit_signature w), wit_nonce w, wit_until w))
     (\<lambda>(k, s, n, u). \<lparr> wit_public_key = PublicKey k, wit_signature = Signature s, wit_nonce = n, wit_until = u \<rparr>)
     (pair_codec bytes_codec (pair_codec bytes_codec (pair_codec word_codec word_codec)))"

definition ex_transaction_codec :: "transaction codec" where
  "ex_transaction_codec = iso_codec (\<lambda>t. (tx_witness t, tx_call t)) (\<lambda>(w, c). \<lparr> tx_witness = w, tx_call = c \<rparr>)
     (pair_codec (option_codec ex_witness_codec) ex_call_codec)"

definition ex_result_codec :: "opaque_call_result codec" where
  "ex_result_codec = iso_codec (\<lambda>r. case r of Ok b \<Rightarrow> (Some b, '''') | Err e \<Rightarrow> (None, e))
     (\<lambda>(b, e). case b of Some b \<Rightarrow> Ok b | None \<Rightarrow> Err e) (pair_codec (option_codec bytes_codec) string_codec)"

definition ex_receipt_codec :: "receipt codec" where
  "ex_receipt_codec = iso_codec (\<lambda>r. (rc_block_number r, map (\<lambda>e. case e of Event b \<Rightarrow> b) (rc_events r), rc_result r))
     (\<lambda>(n, es, r). \<lparr> rc_block_number = n, rc_events = map Event es, rc_result = r \<rparr>)
     (pair_codec word_codec (pair_codec (list_codec bytes_codec) ex_result_codec))"

definition ex_execution_codec :: "execution codec" where
  "ex_execution_codec = iso_codec (\<lambda>x. (exe_payload_execution_state_root x, exe_payload_execution_receipts_root x))
     (\<lambda>(a, b). \<lparr> exe_payload_execution_state_root = a, exe_payload_execution_receipts_root = b \<rparr>) (pair_codec hash_codec hash_codec)"

definition ex_proof_codec :: "proof_data codec" where
  "ex_proof_codec = iso_codec (\<lambda>p. (pf_name p, pf_data p)) (\<lambda>(n, d). \<lparr> pf_name = n, pf_data = d \<rparr>) (pair_codec string_codec bytes_codec)"

definition ex_chain_codecs :: chain_codecs where
  "ex_chain_codecs = \<lparr>
     cc_exec = \<lparr> ec_transaction_for_hash = \<lparr> enc = (\<lambda>t. enc ex_call_codec (tfh_call t)), dec = (\<lambda>_. None) \<rparr>,
                 ec_receipt = ex_receipt_codec, ec_u32 = word_codec \<rparr>,
     cc_message = \<lparr> enc = (\<lambda>(n, u, c, h). enc ex_call_codec c), dec = (\<lambda>_. None) \<rparr>,
     cc_number = word_codec, cc_hash = hash_codec, cc_hashes = list_codec hash_codec, cc_header = ex_header_codec,
     cc_transaction = ex_transaction_codec, cc_receipt = ex_receipt_codec, cc_execution = ex_execution_codec,
     cc_proof = ex_proof_codec, cc_string = string_codec, cc_empty_params = unit_codec EmptyParams,
     cc_system_meta = sysc_meta ex_system_codecs \<rparr>"

definition ex_meta :: system_meta where
  "ex_meta = \<lparr> sys_chain_id = ''abc'', sys_timestamp = 3, sys_max_until_gap = 20, sys_max_execution_gap = 8, sys_consensus = ''poa'' \<rparr>"

definition ex_authorities_codec :: "hotstuff_authorities codec" where
  "ex_authorities_codec = iso_codec ha_members (\<lambda>m. \<lparr> ha_members = m \<rparr>) (list_codec (pair_codec address_codec word_codec))"

definition ex_authorities :: hotstuff_authorities where
  "ex_authorities = \<lparr> ha_members = [(Address [7], 1)] \<rparr>"

definition ex_hs_meta_codec :: "hotstuff_meta codec" where
  "ex_hs_meta_codec = iso_codec (\<lambda>m. (hsm_block_interval m, hsm_view_timeout m)) (\<lambda>(i, t). \<lparr> hsm_block_interval = i, hsm_view_timeout = t \<rparr>)
     (pair_codec (option_codec word_codec) word_codec)"

definition ex_hs_meta :: hotstuff_meta where
  "ex_hs_meta = \<lparr> hsm_block_interval = None, hsm_view_timeout = 5 \<rparr>"

definition ex_raft_authorities_codec :: "raft_authorities codec" where
  "ex_raft_authorities_codec = iso_codec ra_members (\<lambda>m. \<lparr> ra_members = m \<rparr>) (list_codec address_codec)"

definition ex_raft_authorities :: raft_authorities where
  "ex_raft_authorities = \<lparr> ra_members = [Address [7]] \<rparr>"

definition ex_raft_meta_codec :: "raft_meta codec" where
  "ex_raft_meta_codec = iso_codec (\<lambda>m. (raftm_block_interval m, raftm_heartbeat_interval m, raftm_election_timeout_min m, raftm_election_timeout_max m))
     (\<lambda>(i, h, a, b). \<lparr> raftm_block_interval = i, raftm_heartbeat_interval = h, raftm_election_timeout_min = a, raftm_election_timeout_max = b \<rparr>)
     (pair_codec (option_codec word_codec) (pair_codec word_codec (pair_codec word_codec word_codec)))"

definition ex_raft_meta :: raft_meta where
  "ex_raft_meta = \<lparr> raftm_block_interval = None, raftm_heartbeat_interval = 10, raftm_election_timeout_min = 50, raftm_election_timeout_max = 51 \<rparr>"

definition fixed_system :: "exec_context dispatcher" where
  "fixed_system = [\<lparr> dm_name = ''system'', dm_meta = True, dm_methods = [
     mk_method ''init'' True bytes_codec (unit_codec ()) None (\<lambda>_ _. ret ()),
     mk_method ''get_meta'' False (unit_codec EmptyParams) (sysc_meta ex_system_codecs) None (\<lambda>_ _. ret ex_meta)] \<rparr>,
     \<lparr> dm_name = ''poa'', dm_meta = True, dm_methods = [
     mk_method ''get_authority'' False (unit_codec EmptyParams) address_codec None (\<lambda>_ _. ret (Address [7]))] \<rparr>,
     \<lparr> dm_name = ''hotstuff'', dm_meta = True, dm_methods = [
     mk_method ''get_authorities'' False (unit_codec EmptyParams) ex_authorities_codec None (\<lambda>_ _. ret ex_authorities),
     mk_method ''get_meta'' False (unit_codec EmptyParams) ex_hs_meta_codec None (\<lambda>_ _. ret ex_hs_meta)] \<rparr>,
     \<lparr> dm_name = ''raft'', dm_meta = True, dm_methods = [
     mk_method ''get_authorities'' False (unit_codec EmptyParams) ex_raft_authorities_codec None (\<lambda>_ _. ret ex_raft_authorities),
     mk_method ''get_meta'' False (unit_codec EmptyParams) ex_raft_meta_codec None (\<lambda>_ _. ret ex_raft_meta)] \<rparr>]"

definition ex_chain_lib :: "(hash_length \<Rightarrow> 't trie_lib) \<Rightarrow> (mem_db, 't) chain_lib" where
  "ex_chain_lib tries = \<lparr> cl_rocks = mem_rocks, cl_tries = tries, cl_dispatcher = fixed_system,
     cl_codecs = ex_chain_codecs, cl_show_error = (\<lambda>_. '''') \<rparr>"

text \<open>A hash that tells byte strings of different length apart.\<close>

definition ex_hash :: hash_impl where
  "ex_hash = \<lparr> hi_name = ''length'', hi_length = HashLength32, hi_hash = (\<lambda>b. replicate 31 9 @ [of_nat (length b)]) \<rparr>"

lemma wrap_bytes [simp]:
  "Hash (hash_bytes h) = h" "Params (params_bytes p) = p" "PublicKey (public_key_bytes k) = k" "Signature (signature_bytes g) = g"
  by (cases h, simp, cases p, simp, cases k, simp, cases g, simp)

lemma hash_codec_ok [simp]: "codec_ok hash_codec"
  unfolding hash_codec_def by (rule iso_codec_ok) simp_all

lemma ex_codec_oks [simp]:
  "codec_ok ex_header_codec" "codec_ok ex_call_codec" "codec_ok ex_witness_codec" "codec_ok ex_execution_codec" "codec_ok ex_proof_codec"
  unfolding ex_header_codec_def ex_call_codec_def ex_witness_codec_def ex_execution_codec_def ex_proof_codec_def
  by (rule iso_codec_ok; simp)+

lemma ex_codec_oks' [simp]: "codec_ok ex_transaction_codec" "codec_ok ex_result_codec" "codec_ok (sysc_meta ex_system_codecs)"
  unfolding ex_transaction_codec_def ex_result_codec_def ex_system_codecs_def
  by (auto intro!: iso_codec_ok split: result.splits)

lemma ex_receipt_codec_ok [simp]: "codec_ok ex_receipt_codec"
  unfolding ex_receipt_codec_def
proof (rule iso_codec_ok)
  fix r :: receipt
  have "map (Event \<circ> (\<lambda>e. case e of Event b \<Rightarrow> b)) es = es" for es by (induction es) (auto split: event.splits)
  then show "(case (rc_block_number r, map (\<lambda>e. case e of Event b \<Rightarrow> b) (rc_events r), rc_result r) of
      (n, es, q) \<Rightarrow> \<lparr> rc_block_number = n, rc_events = map Event es, rc_result = q \<rparr>) = r" by simp
qed simp

lemma ex_authorities_codec_ok [simp]: "codec_ok ex_authorities_codec"
  unfolding ex_authorities_codec_def by (rule iso_codec_ok) simp_all

lemma ex_hs_meta_codec_ok [simp]: "codec_ok ex_hs_meta_codec"
  unfolding ex_hs_meta_codec_def by (rule iso_codec_ok) simp_all

lemma ex_raft_codecs_ok [simp]: "codec_ok ex_raft_authorities_codec" "codec_ok ex_raft_meta_codec"
  unfolding ex_raft_authorities_codec_def ex_raft_meta_codec_def by (rule iso_codec_ok; simp)+

lemma ex_chain_lib_ok [simp]: "chain_lib_ok (ex_chain_lib tries) (\<lambda>d. d)"
  by (simp add: chain_lib_ok_def ex_chain_lib_def ex_chain_codecs_def)

lemma fixed_system_well_behaved [simp]: "well_behaved (cl_dispatcher (ex_chain_lib tries))"
  by (auto simp: ex_chain_lib_def fixed_system_def well_behaved_def intro!: local_method_mk)

section \<open>The current state of a concrete chain\<close>

text \<open>The state roots open.\<close>

definition opens :: "('d, 't) chain_lib \<Rightarrow> ('d, 'kp, 'ver) backend \<Rightarrow> hash \<Rightarrow> hash \<Rightarrow> bool" where
  "opens lib b mr pr \<longleftrightarrow> (\<forall>env. \<exists>e s. new_essence b env mr pr = Ok e \<and> new_context lib b e = Ok s)"

definition get_meta_call :: call where
  "get_meta_call = \<lparr> call_module = ''system'', call_method = ''get_meta'', call_params = Params [] \<rparr>"

lemma call_get_meta:
  "execute_call (cl_dispatcher (ex_chain_lib tries)) None get_meta_call s = (Ok (Ok (enc (sysc_meta ex_system_codecs) ex_meta)), s)"
proof -
  have "dispatch_validate_call fixed_system ''system'' None get_meta_call s = (Ok (Ok ()), s)"
    by (simp add: dispatch_validate_call_def fixed_system_def bind_apply dispatch_result_def module_validate_call_def
        get_meta_call_def mk_method_def decode_params_def decode_def unit_codec_def)
  moreover have "dispatch_execute_call fixed_system ''system'' None get_meta_call s = (Ok (Ok (enc (sysc_meta ex_system_codecs) ex_meta)), s)"
    by (simp add: dispatch_execute_call_def fixed_system_def bind_apply dispatch_result_def module_execute_call_def
        get_meta_call_def mk_method_def decode_params_def decode_def encode_def unit_codec_def)
  ultimately show ?thesis
    by (simp add: execute_call_def ex_chain_lib_def get_meta_call_def bind_apply)
qed

lemma derive_current_state_Ok:
  fixes b :: "(mem_db, bytes, bytes) backend"
  assumes "get_confirmed_number (ex_chain_lib tries) b = Ok (Some n)" "get_block_hash (ex_chain_lib tries) n b = Ok (Some h)"
    "get_header (ex_chain_lib tries) h b = Ok (Some hdr)" "get_execution_number (ex_chain_lib tries) b = Ok (Some e)"
    "get_block_hash (ex_chain_lib tries) e b = Ok (Some h')" "get_execution (ex_chain_lib tries) h' b = Ok (Some x)"
    "get_execution (ex_chain_lib tries) h b = Ok xo" "get_block_hash (ex_chain_lib tries) 0 b = Ok (Some h0)"
    "opens (ex_chain_lib tries) b (hdr_meta_state_root hdr) (exe_payload_execution_state_root x)"
    "opens (ex_chain_lib tries) b (hdr_meta_state_root hdr)
       (case xo of Some y \<Rightarrow> exe_payload_execution_state_root y | None \<Rightarrow> default_hash (bk_executor b))"
  shows "\<exists>cur s. derive_current_state (ex_chain_lib tries) (Some t) b = Ok cur \<and> cur_confirmed_number cur = n \<and>
    cur_system_meta cur = ex_meta \<and> new_context (ex_chain_lib tries) b (cur_context_essence cur) = Ok s"
proof -
  let ?lib = "ex_chain_lib tries"
  obtain e1 s1 where e1: "new_essence b \<lparr> env_number = n + 1, env_timestamp = t \<rparr> (hdr_meta_state_root hdr)
      (exe_payload_execution_state_root x) = Ok e1" "new_context ?lib b e1 = Ok s1"
    using assms(9) unfolding opens_def by blast
  obtain e2 s2 where e2: "new_essence b \<lparr> env_number = hdr_number hdr, env_timestamp = hdr_timestamp hdr \<rparr> (hdr_meta_state_root hdr)
      (case xo of Some y \<Rightarrow> exe_payload_execution_state_root y | None \<Rightarrow> default_hash (bk_executor b)) = Ok e2" "new_context ?lib b e2 = Ok s2"
    using assms(10) unfolding opens_def by blast
  have "is_meta_call (cl_dispatcher ?lib) get_meta_call = Ok True"
    by (simp add: is_meta_call_def dispatch_is_meta_def ex_chain_lib_def fixed_system_def get_meta_call_def)
  then have "backend_execute_call ?lib h None get_meta_call b = Ok (Ok (enc (sysc_meta ex_system_codecs) ex_meta))"
    using assms(3,7) e2 call_get_meta [of tries s2]
    by (cases xo) (simp_all add: backend_execute_call_def)
  moreover have "build_call (cc_empty_params (cl_codecs ?lib)) ''system'' ''get_meta'' EmptyParams = Ok get_meta_call"
    by (simp add: build_call_def get_meta_call_def ex_chain_lib_def ex_chain_codecs_def unit_codec_def)
  moreover have "decode (cc_system_meta (cl_codecs ?lib)) (enc (sysc_meta ex_system_codecs) ex_meta) = Ok ex_meta"
    by (simp add: ex_chain_lib_def ex_chain_codecs_def decode_encode)
  ultimately have "execute_call_with_block_hash ?lib (cc_empty_params (cl_codecs ?lib)) (cc_system_meta (cl_codecs ?lib)) h None
      ''system'' ''get_meta'' EmptyParams b = Ok (Ok ex_meta)"
    by (simp add: execute_call_with_block_hash_def)
  then show ?thesis
    using assms(1-8) e1 by (simp add: derive_current_state_def)
qed

section \<open>The first blocks\<close>

definition ex_backend :: "mem_db \<Rightarrow> (mem_db, bytes, bytes) backend" where
  "ex_backend d = \<lparr> bk_db = d, bk_meta_statedb = \<lparr> sd_column = META_STATE, sd_hash_length = HashLength32 \<rparr>,
     bk_payload_statedb = \<lparr> sd_column = PAYLOAD_STATE, sd_hash_length = HashLength32 \<rparr>,
     bk_trie_root = \<lparr> tr_hash_length = HashLength32 \<rparr>,
     bk_executor = executor_new ex_hash ex_dsa \<lparr> ai_length = AddressLength20, ai_address = (\<lambda>b. b) \<rparr> (\<lambda>_. ''''),
     bk_current_state = None, bk_messages = [], bk_message_open = True, bk_message_rx = True \<rparr>"

definition zero_hash :: hash where
  "zero_hash = Hash (replicate 32 0)"

definition ex_header :: "block_number \<Rightarrow> hash \<Rightarrow> header" where
  "ex_header n parent = \<lparr> hdr_number = n, hdr_timestamp = 3, hdr_parent_hash = parent, hdr_meta_txs_root = zero_hash,
     hdr_meta_state_root = zero_hash, hdr_meta_receipts_root = zero_hash, hdr_payload_txs_root = zero_hash,
     hdr_payload_execution_gap = 0, hdr_payload_execution_state_root = zero_hash, hdr_payload_execution_receipts_root = zero_hash \<rparr>"

definition ex_block :: "bytes \<Rightarrow> header \<Rightarrow> chain_commit_block_params" where
  "ex_block h header = \<lparr> cb_block_hash = Hash h, cb_header = header, cb_body = \<lparr> body_meta_txs = [], body_payload_txs = [] \<rparr>,
     cb_meta_txs = [], cb_meta_receipts = [], cb_payload_txs = [], cb_meta_transaction = [], cb_proof = proof_default \<rparr>"

definition ex_genesis_execution :: chain_commit_execution_params where
  "ex_genesis_execution = \<lparr> ce_block_hash = Hash [0], ce_number = 0,
     ce_execution = \<lparr> exe_payload_execution_state_root = zero_hash, exe_payload_execution_receipts_root = zero_hash \<rparr>,
     ce_payload_receipts = [], ce_payload_transaction = [] \<rparr>"

definition ex_chain0 :: "(hash_length \<Rightarrow> 't trie_lib) \<Rightarrow> (mem_db, bytes, bytes) backend" where
  "ex_chain0 tries = snd (write_db (ex_chain_lib tries)
     (genesis_ops ex_chain_codecs '''' (ex_block [0] (ex_header 0 zero_hash)) ex_genesis_execution) (ex_backend (\<lambda>_ _. None)))"

definition ex_setup :: "(mem_db, bytes, bytes) backend \<Rightarrow> bool" where
  "ex_setup b \<longleftrightarrow> same_setup (ex_backend (\<lambda>_ _. None)) b \<and> bk_message_open b"

lemma ex_simps [simp]:
  "cb_block_hash (ex_block h hdr) = Hash h" "cb_header (ex_block h hdr) = hdr" "cb_meta_transaction (ex_block h hdr) = []"
  "hdr_number (ex_header n ph) = n" "hdr_parent_hash (ex_header n ph) = ph" "hdr_meta_state_root (ex_header n ph) = zero_hash"
  "ce_number ex_genesis_execution = 0" "ce_block_hash ex_genesis_execution = Hash [0]" "ce_payload_transaction ex_genesis_execution = []"
  "exe_payload_execution_state_root (ce_execution ex_genesis_execution) = zero_hash" "only_col c []"
  "cl_codecs (ex_chain_lib tries) = ex_chain_codecs" "cl_rocks (ex_chain_lib tries) = mem_rocks" "cl_tries (ex_chain_lib tries) = tries"
  by (simp_all add: ex_block_def ex_header_def ex_genesis_execution_def only_col_def ex_chain_lib_def)

lemma ex_chain0_facts:
  "chain_ok (ex_chain_lib tries) (ex_chain0 tries)" "ex_setup (ex_chain0 tries)"
  "get_confirmed_number (ex_chain_lib tries) (ex_chain0 tries) = Ok (Some 0)"
  "get_execution_number (ex_chain_lib tries) (ex_chain0 tries) = Ok (Some 0)"
  "get_block_hash (ex_chain_lib tries) 0 (ex_chain0 tries) = Ok (Some (Hash [0]))"
  "get_header (ex_chain_lib tries) (Hash [0]) (ex_chain0 tries) = Ok (Some (ex_header 0 zero_hash))"
  "get_execution (ex_chain_lib tries) (Hash [0]) (ex_chain0 tries) = Ok (Some (ce_execution ex_genesis_execution))"
  "h \<noteq> Hash [0] \<Longrightarrow> get_header (ex_chain_lib tries) h (ex_chain0 tries) = Ok None"
  "h \<noteq> Hash [0] \<Longrightarrow> get_execution (ex_chain_lib tries) h (ex_chain0 tries) = Ok None"
  "cell (\<lambda>d. d) (ex_chain0 tries) TX k = None"
proof -
  let ?p = "ex_block [0] (ex_header 0 zero_hash)"
  obtain d where d: "write_db (ex_chain_lib tries) (genesis_ops (cl_codecs (ex_chain_lib tries)) '''' ?p ex_genesis_execution) (ex_backend (\<lambda>_ _. None))
      = (Ok (), (ex_backend (\<lambda>_ _. None))\<lparr>bk_db := d\<rparr>)"
    and f: "chain_ok (ex_chain_lib tries) ((ex_backend (\<lambda>_ _. None))\<lparr>bk_db := d\<rparr>)"
    "get_confirmed_number (ex_chain_lib tries) ((ex_backend (\<lambda>_ _. None))\<lparr>bk_db := d\<rparr>) = Ok (Some 0)"
    "get_execution_number (ex_chain_lib tries) ((ex_backend (\<lambda>_ _. None))\<lparr>bk_db := d\<rparr>) = Ok (Some 0)"
    "get_block_hash (ex_chain_lib tries) 0 ((ex_backend (\<lambda>_ _. None))\<lparr>bk_db := d\<rparr>) = Ok (Some (Hash [0]))"
    "get_header (ex_chain_lib tries) (Hash [0]) ((ex_backend (\<lambda>_ _. None))\<lparr>bk_db := d\<rparr>) = Ok (Some (ex_header 0 zero_hash))"
    "get_execution (ex_chain_lib tries) (Hash [0]) ((ex_backend (\<lambda>_ _. None))\<lparr>bk_db := d\<rparr>) = Ok (Some (ce_execution ex_genesis_execution))"
    "\<And>h. h \<noteq> Hash [0] \<Longrightarrow> get_header (ex_chain_lib tries) h ((ex_backend (\<lambda>_ _. None))\<lparr>bk_db := d\<rparr>) = get_header (ex_chain_lib tries) h (ex_backend (\<lambda>_ _. None)) \<and>
       get_execution (ex_chain_lib tries) h ((ex_backend (\<lambda>_ _. None))\<lparr>bk_db := d\<rparr>) = get_execution (ex_chain_lib tries) h (ex_backend (\<lambda>_ _. None))"
    "cell (\<lambda>d. d) ((ex_backend (\<lambda>_ _. None))\<lparr>bk_db := d\<rparr>) TX k = cell (\<lambda>d. d) (ex_backend (\<lambda>_ _. None)) TX k"
    using genesis_written [OF ex_chain_lib_ok [of tries], of ?p ex_genesis_execution "ex_backend (\<lambda>_ _. None)" "''''"]
    by (auto simp: ex_backend_def ex_block_def tx_ops_def)
  have empty: "get_header (ex_chain_lib tries) h (ex_backend (\<lambda>_ _. None)) = Ok None"
    "get_execution (ex_chain_lib tries) h (ex_backend (\<lambda>_ _. None)) = Ok None"
    "cell (\<lambda>d. d) (ex_backend (\<lambda>_ _. None)) TX k = None" for h
    by (simp_all add: read_defs read_with_eq [OF ex_chain_lib_ok] ex_backend_def db_abs_def)
  have "ex_chain0 tries = (ex_backend (\<lambda>_ _. None))\<lparr>bk_db := d\<rparr>" using d by (simp add: ex_chain0_def)
  then show "chain_ok (ex_chain_lib tries) (ex_chain0 tries)" "ex_setup (ex_chain0 tries)"
    "get_confirmed_number (ex_chain_lib tries) (ex_chain0 tries) = Ok (Some 0)"
    "get_execution_number (ex_chain_lib tries) (ex_chain0 tries) = Ok (Some 0)"
    "get_block_hash (ex_chain_lib tries) 0 (ex_chain0 tries) = Ok (Some (Hash [0]))"
    "get_header (ex_chain_lib tries) (Hash [0]) (ex_chain0 tries) = Ok (Some (ex_header 0 zero_hash))"
    "get_execution (ex_chain_lib tries) (Hash [0]) (ex_chain0 tries) = Ok (Some (ce_execution ex_genesis_execution))"
    "h \<noteq> Hash [0] \<Longrightarrow> get_header (ex_chain_lib tries) h (ex_chain0 tries) = Ok None"
    "h \<noteq> Hash [0] \<Longrightarrow> get_execution (ex_chain_lib tries) h (ex_chain0 tries) = Ok None"
    "cell (\<lambda>d. d) (ex_chain0 tries) TX k = None"
    using f empty by (simp_all add: ex_setup_def same_setup_def ex_backend_def)
qed

text \<open>When a pair of roots opens: the roots of the empty state always, any root with a trie library that opens everything.\<close>

definition null_trie :: "hash_length \<Rightarrow> unit trie_lib" where
  "null_trie l = \<lparr> tl_open = (\<lambda>_ _. Ok ()), tl_get = (\<lambda>_ _ _. Ok None), tl_mut_new = (\<lambda>_. ()), tl_mut_from_existing = (\<lambda>_ _. Ok ()),
     tl_insert = (\<lambda>_ _ _. Ok ()), tl_remove = (\<lambda>_ _. Ok ()), tl_commit = (\<lambda>_. (replicate (hash_length_usize l) 1, [])),
     tl_trie_root = (\<lambda>_. replicate (hash_length_usize l) 1) \<rparr>"

lemma opens_iff:
  assumes "ex_setup b"
  shows "opens (ex_chain_lib tries) b (Hash mr) (Hash pr) \<longleftrightarrow> length mr = 32 \<and> length pr = 32 \<and>
    (replicate 32 0 = mr \<or> is_ok (tl_open (tries HashLength32) (proxy_get mem_rocks META_STATE (\<lambda>_. None) (bk_db b)) mr)) \<and>
    (replicate 32 0 = pr \<or> is_ok (tl_open (tries HashLength32) (proxy_get mem_rocks PAYLOAD_STATE (\<lambda>_. None) (bk_db b)) pr))"
proof -
  have sd: "bk_meta_statedb b = \<lparr> sd_column = META_STATE, sd_hash_length = HashLength32 \<rparr>"
    "bk_payload_statedb b = \<lparr> sd_column = PAYLOAD_STATE, sd_hash_length = HashLength32 \<rparr>"
    using assms by (simp_all add: ex_setup_def same_setup_def ex_backend_def)
  have get: "(\<exists>g. prepare_get mem_rocks tries \<lparr> stmt_column = c, stmt_hash_length = HashLength32, stmt_root = r, stmt_new = n \<rparr> (bk_db b) = Ok g)
      \<longleftrightarrow> n \<or> is_ok (tl_open (tries HashLength32) (proxy_get mem_rocks c (\<lambda>_. None) (bk_db b)) r)" for c r n
    by (cases "tl_open (tries HashLength32) (proxy_get mem_rocks c (\<lambda>_. None) (bk_db b)) r") (simp_all add: prepare_get_def Let_def)
  show ?thesis
    unfolding opens_def new_essence_def context_essence_new_def new_context_def context_new_def context_state_new_def
    by (auto simp: sd prepare_stmt_def typed_root_def default_root_def and_then_eq_Ok get [symmetric])
qed

lemma opens_zero: "ex_setup b \<Longrightarrow> opens (ex_chain_lib tries) b zero_hash zero_hash"
  by (simp add: zero_hash_def opens_iff)

lemma opens_null: "ex_setup b \<Longrightarrow> length (hash_bytes mr) = 32 \<Longrightarrow> length (hash_bytes pr) = 32 \<Longrightarrow> opens (ex_chain_lib null_trie) b mr pr"
  using opens_iff [of b null_trie "hash_bytes mr" "hash_bytes pr"] by (simp add: null_trie_def)

lemma ex_setup_same: "ex_setup b \<Longrightarrow> same_setup b b' \<Longrightarrow> bk_message_open b' \<Longrightarrow> ex_setup b'"
  by (simp add: ex_setup_def same_setup_def)

lemma ex_default_hash: "ex_setup b \<Longrightarrow> default_hash (bk_executor b) = zero_hash"
  by (simp add: ex_setup_def same_setup_def ex_backend_def default_hash_def executor_new_def ex_hash_def zero_hash_def)

text \<open>A first block on the genesis block is committed, and the current state follows.\<close>

lemma ex_commit_first_on:
  assumes n: "notified (ex_chain0 tries) b0" "bk_message_open b0"
    and p: "only_col META_STATE (cb_meta_transaction p)" "hdr_number (cb_header p) = 1" "hdr_parent_hash (cb_header p) = Hash [0]"
      "cb_block_hash p \<noteq> Hash [0]"
    and roots: "\<And>b. block_stored (ex_chain_lib tries) (\<lambda>d. d) p b0 b \<Longrightarrow> ex_setup b \<Longrightarrow>
      opens (ex_chain_lib tries) b (hdr_meta_state_root (cb_header p)) zero_hash"
  shows "\<exists>b' cur s. backend_commit_block (ex_chain_lib tries) (Some 5) p b0 = (Ok (), b') \<and> ex_setup b' \<and>
    bk_current_state b' = Some cur \<and> cur_confirmed_number cur = 1 \<and> cur_system_meta cur = ex_meta \<and>
    new_context (ex_chain_lib tries) b' (cur_context_essence cur) = Ok s"
proof -
  let ?lib = "ex_chain_lib tries"
  have f: "get_confirmed_number ?lib b0 = Ok (Some 0)" "get_execution_number ?lib b0 = Ok (Some 0)"
    "get_block_hash ?lib 0 b0 = Ok (Some (Hash [0]))" "get_header ?lib (cb_block_hash p) b0 = Ok None"
    "get_execution ?lib (Hash [0]) b0 = Ok (Some (ce_execution ex_genesis_execution))" "get_execution ?lib (cb_block_hash p) b0 = Ok None"
    using ex_chain0_facts [where tries = tries] p(4) by (simp_all add: read_notified [OF n(1)])
  have su0: "ex_setup b0" using ex_chain0_facts(2) [of tries] n by (simp add: ex_setup_def notified_def same_setup_def)
  obtain d where w: "write_db ?lib (commit_block_ops (cl_codecs ?lib) p transaction_new) b0 = (Ok (), b0\<lparr>bk_db := d\<rparr>)"
      "block_added ?lib p b0 (b0\<lparr>bk_db := d\<rparr>)" "block_stored ?lib (\<lambda>d. d) p b0 (b0\<lparr>bk_db := d\<rparr>)"
    using commit_block_written [OF ex_chain_lib_ok p(1)] by blast
  let ?b1 = "b0\<lparr>bk_db := d\<rparr>"
  have su: "ex_setup ?b1" using su0 by (simp add: same_setup_def ex_setup_def)
  have g: "get_confirmed_number ?lib ?b1 = Ok (Some 1)" "get_block_hash ?lib 1 ?b1 = Ok (Some (cb_block_hash p))"
    "get_header ?lib (cb_block_hash p) ?b1 = Ok (Some (cb_header p))" "get_execution_number ?lib ?b1 = Ok (Some 0)"
    "get_block_hash ?lib 0 ?b1 = Ok (Some (Hash [0]))" "get_execution ?lib (Hash [0]) ?b1 = Ok (Some (ce_execution ex_genesis_execution))"
    "get_execution ?lib (cb_block_hash p) ?b1 = Ok None"
    using w(2) p f by (auto simp: block_added_def)
  have o: "opens ?lib ?b1 (hdr_meta_state_root (cb_header p)) (exe_payload_execution_state_root (ce_execution ex_genesis_execution))"
      "opens ?lib ?b1 (hdr_meta_state_root (cb_header p))
         (case None of Some y \<Rightarrow> exe_payload_execution_state_root y | None \<Rightarrow> default_hash (bk_executor ?b1))"
    using roots [OF w(3) su] ex_default_hash [OF su] by simp_all
  obtain cur s where cur: "derive_current_state ?lib (Some 5) ?b1 = Ok cur" "cur_confirmed_number cur = 1"
    "cur_system_meta cur = ex_meta" "new_context ?lib ?b1 (cur_context_essence cur) = Ok s"
    using derive_current_state_Ok [OF g(1-6) g(7) g(5) o] by blast
  let ?b' = "?b1\<lparr>bk_current_state := Some cur, bk_messages := bk_messages ?b1 @ [BlockCommitted 1 (cb_block_hash p)]\<rparr>"
  have "backend_commit_block ?lib (Some 5) p b0 = (Ok (), ?b')"
    using p f n(2) w(1) cur(1) by (simp add: backend_commit_block_def Let_def bind_apply on_block_committed_def update_current_state_def send_message_def)
  moreover have "ex_setup ?b'" using su by (simp add: ex_setup_def same_setup_def)
  moreover have "new_context ?lib ?b' (cur_context_essence cur) = Ok s" using cur(4) by (simp add: new_context_def)
  ultimately show ?thesis using cur(2,3) by (intro exI [of _ ?b'] exI [of _ cur] exI [of _ s]) simp
qed

lemma ex_chain0_open: "bk_message_open (ex_chain0 tries)"
  using ex_chain0_facts(2) [of tries] by (simp add: ex_setup_def)

lemmas ex_commit_first = ex_commit_first_on [OF notified_refl ex_chain0_open]

abbreviation first_block :: chain_commit_block_params where
  "first_block \<equiv> ex_block [1] (ex_header 1 (Hash [0]))"

lemma first_block_committed:
  "\<exists>b' cur s. backend_commit_block (ex_chain_lib tries) (Some 5) first_block (ex_chain0 tries) = (Ok (), b') \<and> ex_setup b' \<and>
    bk_current_state b' = Some cur \<and> cur_confirmed_number cur = 1 \<and> cur_system_meta cur = ex_meta \<and>
    new_context (ex_chain_lib tries) b' (cur_context_essence cur) = Ok s"
  by (rule ex_commit_first) (simp_all add: opens_zero)

definition ex_tx :: transaction where
  "ex_tx = (let c = \<lparr> call_module = ''system'', call_method = ''init'', call_params = Params [1] \<rparr> in
     \<lparr> tx_witness = Some \<lparr> wit_public_key = PublicKey [7], wit_signature = Signature (enc ex_call_codec c), wit_nonce = 0, wit_until = 10 \<rparr>,
       tx_call = c \<rparr>)"

definition ex_chain :: "(hash_length \<Rightarrow> 't trie_lib) \<Rightarrow> (mem_db, bytes, bytes) chain" where
  "ex_chain tries = \<lparr> ch_backend = ex_chain0 tries, ch_tasks = [], ch_task_open = True \<rparr>"

lemma first_block_queued:
  "\<exists>c task. chain_commit_block (ex_chain_lib tries) (Some 5) first_block (ex_chain tries) = (Ok (), c) \<and> ch_tasks c = [task]"
proof -
  obtain b' where b': "backend_commit_block (ex_chain_lib tries) (Some 5) first_block (ex_chain0 tries) = (Ok (), b')"
    using first_block_committed [of tries] by blast
  then show ?thesis
    by (simp add: chain_commit_block_def on_backend_def bind_apply insert_task_def ex_chain_def)
qed

lemma execute_no_txs: "execute_txs xe ds [] s = (Ok (), s)"
  by (simp add: execute_txs_def bind_apply fail_if_def)

definition ones_hash :: hash where
  "ones_hash = Hash (replicate 32 1)"

lemma null_trie_apply: "trie_apply (null_trie l) data () = Ok ()"
  by (induction "null_trie l" data "()" rule: trie_apply.induct) (simp_all add: null_trie_def)

lemma null_prepare_update:
  assumes "sd_hash_length sd = HashLength32" "length root = 32"
  shows "prepare_update mem_rocks null_trie sd root data d = Ok (replicate 32 1, [])"
proof -
  have "trie_apply (null_trie HashLength32) data u = Ok ()" for u using null_trie_apply by (cases u) simp
  then show ?thesis
    using assms by (simp add: prepare_update_def typed_root_def Let_def null_trie_def extract_buffer_def transaction_new_def)
qed

lemma ex_new_context:
  assumes "ex_setup b" "opens lib b mr pr"
  shows "\<exists>e s. new_essence b env mr pr = Ok e \<and> new_context lib b e = Ok s \<and> 
    sd_hash_length (xc_meta_statedb s) = HashLength32 \<and> sd_hash_length (xc_payload_statedb s) = HashLength32 \<and>
    tr_hash_length (xc_trie_root s) = HashLength32"
proof -
  obtain e s where e: "new_essence b env mr pr = Ok e" "new_context lib b e = Ok s" using assms(2) unfolding opens_def by blast
  moreover have "tr_hash_length (xc_trie_root s) = HashLength32"
    using e assms(1) by (auto simp: new_essence_def context_essence_new_def new_context_def context_new_def and_then_eq_Ok
        ex_setup_def same_setup_def ex_backend_def)
  ultimately show ?thesis
    using context_of_essence(3,5) [OF e] assms(1) by (auto simp: ex_setup_def same_setup_def ex_backend_def)
qed

definition ex_build :: build_block_params where
  "ex_build = \<lparr> bb_number = 1, bb_timestamp = 4, bb_meta_txs = [], bb_payload_txs = [], bb_execution_number = 0 \<rparr>"

lemma ex_build_first_on:
  assumes b: "ex_setup b" "get_block_hash (ex_chain_lib tries) 0 b = Ok (Some (Hash [0]))"
      "get_header (ex_chain_lib tries) (Hash [0]) b = Ok (Some (ex_header 0 zero_hash))"
      "get_execution (ex_chain_lib tries) (Hash [0]) b = Ok (Some (ce_execution ex_genesis_execution))"
    and upd: "prepare_update mem_rocks tries (bk_meta_statedb b) (replicate 32 0) [] (bk_db b) = Ok (root, t)"
  shows "\<exists>cp. build_block (ex_chain_lib tries) ex_build b = Ok cp \<and> hdr_meta_state_root (cb_header cp) = Hash root \<and>
    cb_meta_transaction cp = t \<and> hdr_number (cb_header cp) = 1 \<and> hdr_parent_hash (cb_header cp) = Hash [0] \<and> cb_block_hash cp \<noteq> Hash [0] \<and>
    only_col META_STATE t"
proof -
  let ?lib = "ex_chain_lib tries"
  obtain e s where e: "new_essence b \<lparr> env_number = 1, env_timestamp = 4 \<rparr> zero_hash zero_hash = Ok e" "new_context ?lib b e = Ok s"
    using opens_zero [OF b(1), of tries] unfolding opens_def by blast
  note c = context_of_essence [OF e]
  have "get_meta_update mem_rocks tries (bk_db b) s = Ok (Hash root, t)"
    using upd c by (simp add: get_meta_update_def zero_hash_def)
  moreover have "xe_hash (bk_executor b) = ex_hash"
    using b(1) by (simp add: ex_setup_def same_setup_def ex_backend_def executor_new_def)
  moreover have "only_col META_STATE t"
    using prepare_update_only_col [OF upd] b(1) by (simp add: ex_setup_def same_setup_def ex_backend_def)
  ultimately show ?thesis
    using b e c by (simp add: build_block_def ex_build_def Let_def execute_no_txs seal_block_def get_meta_txs_def get_txs_root_def
        get_meta_receipts_def receipts_root_def backend_hash_header_def exec_hash_def encode_def hash_slice_def ex_hash_def)
qed

lemma ex_build_first:
  assumes "prepare_update mem_rocks tries (bk_meta_statedb (ex_chain0 tries)) (replicate 32 0) [] (bk_db (ex_chain0 tries)) = Ok (root, t)"
  shows "\<exists>cp. build_block (ex_chain_lib tries) ex_build (ex_chain0 tries) = Ok cp \<and> hdr_meta_state_root (cb_header cp) = Hash root \<and>
    cb_meta_transaction cp = t \<and> hdr_number (cb_header cp) = 1 \<and> hdr_parent_hash (cb_header cp) = Hash [0] \<and> cb_block_hash cp \<noteq> Hash [0] \<and>
    only_col META_STATE t"
  by (rule ex_build_first_on [OF _ _ _ _ assms]) (use ex_chain0_facts [where tries = tries] in simp_all)

lemma ex_build_null:
  "\<exists>cp b'. build_block (ex_chain_lib null_trie) ex_build (ex_chain0 null_trie) = Ok cp \<and>
    backend_commit_block (ex_chain_lib null_trie) (Some 5) cp (ex_chain0 null_trie) = (Ok (), b')"
proof -
  have sd: "sd_hash_length (bk_meta_statedb (ex_chain0 null_trie)) = HashLength32"
    using ex_chain0_facts(2) [of null_trie] by (simp add: ex_setup_def same_setup_def ex_backend_def)
  obtain cp where cp: "build_block (ex_chain_lib null_trie) ex_build (ex_chain0 null_trie) = Ok cp" "hdr_meta_state_root (cb_header cp) = ones_hash"
    "only_col META_STATE (cb_meta_transaction cp)" "hdr_number (cb_header cp) = 1" "hdr_parent_hash (cb_header cp) = Hash [0]" "cb_block_hash cp \<noteq> Hash [0]"
    using ex_build_first [OF null_prepare_update [OF sd]] by (auto simp: ones_hash_def)
  have "opens (ex_chain_lib null_trie) b (hdr_meta_state_root (cb_header cp)) zero_hash" if "ex_setup b" for b
    using opens_null [OF that] by (simp add: cp(2) ones_hash_def zero_hash_def)
  from ex_commit_first [OF cp(3-6) this] obtain b' where
    "backend_commit_block (ex_chain_lib null_trie) (Some 5) cp (ex_chain0 null_trie) = (Ok (), b')" by blast
  then show ?thesis using cp(1) by blast
qed

lemma ex_mem_update:
  "prepare_update mem_rocks mem_trie (bk_meta_statedb (ex_chain0 mem_trie)) (replicate 32 0) [] (bk_db (ex_chain0 mem_trie))
     = Ok (replicate 32 1, [Insert META_STATE (replicate 32 1) (enc node_codec [])])"
  using ex_chain0_facts(2) [of mem_trie]
  by (simp add: ex_setup_def same_setup_def ex_backend_def prepare_update_def typed_root_def default_root_def Let_def mem_trie_def
      extract_buffer_def put_owned_def transaction_new_def)

lemma ex_mem_opens:
  assumes "ex_setup b" "cell (\<lambda>d. d) b META_STATE (replicate 32 1) = Some (enc node_codec [])"
  shows "opens (ex_chain_lib mem_trie) b (Hash (replicate 32 1)) zero_hash"
proof -
  have "proxy_get mem_rocks META_STATE (\<lambda>_. None) (bk_db b) (replicate 32 1) = Some (enc node_codec [])"
    using assms(2) by (simp add: proxy_get_def db_get_eq [where absd = "\<lambda>d. d"])
  then show ?thesis
    by (simp add: opens_iff [OF assms(1)] zero_hash_def mem_trie_def Let_def read_node_def)
qed

definition ones_execution :: execution where
  "ones_execution = \<lparr> exe_payload_execution_state_root = ones_hash, exe_payload_execution_receipts_root = ones_hash \<rparr>"

lemma ex_build_execution:
  assumes "ex_setup b"
  shows "build_execution (ex_chain_lib null_trie) \<lparr> be_number = n, be_timestamp = t, be_block_hash = h, be_meta_state_root = zero_hash,
      be_payload_state_root = zero_hash, be_payload_txs = [] \<rparr> b =
    Ok \<lparr> ce_block_hash = h, ce_number = n, ce_execution = ones_execution, ce_payload_receipts = [], ce_payload_transaction = [] \<rparr>"
proof -
  obtain e s where e: "new_essence b \<lparr> env_number = n, env_timestamp = t \<rparr> zero_hash zero_hash = Ok e" "new_context (ex_chain_lib null_trie) b e = Ok s"
    "sd_hash_length (xc_payload_statedb s) = HashLength32" "tr_hash_length (xc_trie_root s) = HashLength32"
    using ex_new_context [OF assms opens_zero [OF assms]] by blast
  note c = context_of_essence [OF e(1,2)]
  have "get_payload_update mem_rocks null_trie (bk_db b) s = Ok (ones_hash, [])"
    using null_prepare_update [OF e(3)] c(6) by (simp add: get_payload_update_def zero_hash_def ones_hash_def)
  moreover have "get_payload_receipts null_trie ecs s = Ok (ones_hash, [])" for ecs
    using c e(4) by (simp add: get_payload_receipts_def receipts_root_def calc_ordered_trie_root_def calc_trie_root_def null_trie_def ones_hash_def)
  ultimately show ?thesis
    using e by (simp add: build_execution_def execute_no_txs ones_execution_def)
qed

abbreviation first_task :: execute_task where
  "first_task \<equiv> \<lparr> et_number = 1, et_timestamp = 3, et_block_hash = Hash [1], et_parent_hash = Hash [0],
     et_meta_state_root = zero_hash, et_payload_txs = [] \<rparr>"

lemma ex_process_first:
  assumes run: "backend_commit_block (ex_chain_lib null_trie) (Some 5) first_block (ex_chain0 null_trie) = (Ok (), b)"
    and su: "ex_setup b"
  shows "\<exists>b'. process_task (ex_chain_lib null_trie) (Some 6) first_task b = (Ok (), b')"
proof -
  let ?lib = "ex_chain_lib null_trie"
  let ?q = "\<lparr> ce_block_hash = Hash [1], ce_number = 1, ce_execution = ones_execution, ce_payload_receipts = [], ce_payload_transaction = [] \<rparr>"
  have "block_added ?lib first_block (ex_chain0 null_trie) b"
    by (rule backend_commit_block_cases [OF ex_chain_lib_ok _ run]) simp_all
  then have g: "get_confirmed_number ?lib b = Ok (Some 1)" "get_block_hash ?lib 1 b = Ok (Some (Hash [1]))"
    "get_header ?lib (Hash [1]) b = Ok (Some (ex_header 1 (Hash [0])))" "get_execution_number ?lib b = Ok (Some 0)"
    "get_block_hash ?lib 0 b = Ok (Some (Hash [0]))" "get_execution ?lib (Hash [0]) b = Ok (Some (ce_execution ex_genesis_execution))"
    using ex_chain0_facts [where tries = null_trie] by (auto simp: block_added_def)
  obtain d where w: "write_db ?lib (commit_execution_ops (cl_codecs ?lib) ?q transaction_new) b = (Ok (), b\<lparr>bk_db := d\<rparr>)"
      "execution_added ?lib ?q b (b\<lparr>bk_db := d\<rparr>)"
    using commit_execution_written [OF ex_chain_lib_ok [of null_trie], where p = ?q and b = b] by auto
  let ?b1 = "b\<lparr>bk_db := d\<rparr>"
  have su1: "ex_setup ?b1" using su by (simp add: same_setup_def ex_setup_def)
  have g1: "get_confirmed_number ?lib ?b1 = Ok (Some 1)" "get_block_hash ?lib 1 ?b1 = Ok (Some (Hash [1]))"
    "get_header ?lib (Hash [1]) ?b1 = Ok (Some (ex_header 1 (Hash [0])))" "get_execution_number ?lib ?b1 = Ok (Some 1)"
    "get_block_hash ?lib 0 ?b1 = Ok (Some (Hash [0]))" "get_execution ?lib (Hash [1]) ?b1 = Ok (Some ones_execution)"
    using w(2) g by (auto simp: execution_added_def)
  have o: "opens ?lib ?b1 (hdr_meta_state_root (ex_header 1 (Hash [0]))) (exe_payload_execution_state_root ones_execution)"
    by (rule opens_null [OF su1]) (simp_all add: ones_execution_def ones_hash_def zero_hash_def)
  obtain cur where cur: "derive_current_state ?lib (Some 6) ?b1 = Ok cur"
    using derive_current_state_Ok [OF g1(1-3) g1(4,2,6,6,5) o] o by auto
  have "commit_execution ?lib (Some 6) ?q b = (Ok (), ?b1\<lparr>bk_current_state := Some cur, bk_messages := bk_messages ?b1 @ [ExecutionCommitted 1 (Hash [1])]\<rparr>)"
    using su w(1) cur by (simp add: commit_execution_def bind_apply on_execution_committed_def update_current_state_def send_message_def ex_setup_def)
  then show ?thesis
    using g ex_build_execution [OF su, of 1 3 "Hash [1]"]
    by (simp add: process_task_def bind_apply u64_range_def process_number_def pick_task_def map_err_comp_def)
qed

definition ex_genesis_lib :: "(bytes, bytes) genesis_lib" where
  "ex_genesis_lib = \<lparr>
     gl_parse_spec = (\<lambda>_. Ok \<lparr> spec_basic_hash = ''length'', spec_basic_dsa = ''id'', spec_basic_address = ''id'',
        spec_genesis_txs = [\<lparr> stx_module = ''system'', stx_method = ''init'', stx_params = '''' \<rparr>] \<rparr>),
     gl_system_init_params = (\<lambda>_. Ok \<lparr> sip_chain_id = ''abc'', sip_timestamp = '''', sip_max_until_gap = 20, sip_max_execution_gap = 8, sip_consensus = ''poa'' \<rparr>),
     gl_parse_time = (\<lambda>_. Ok 3), gl_init_params = (\<lambda>_ _. Err ''''),
     gl_hash_impl = (\<lambda>_. Ok ex_hash), gl_dsa_impl = (\<lambda>_. Ok ex_dsa),
     gl_address_impl = (\<lambda>_. Ok \<lparr> ai_length = AddressLength20, ai_address = (\<lambda>b. b) \<rparr>), gl_hex = (\<lambda>_. '''') \<rparr>"

abbreviation ex_spec :: spec where
  "ex_spec \<equiv> \<lparr> spec_basic_hash = ''length'', spec_basic_dsa = ''id'', spec_basic_address = ''id'',
        spec_genesis_txs = [\<lparr> stx_module = ''system'', stx_method = ''init'', stx_params = '''' \<rparr>] \<rparr>"

definition init_tx :: transaction where
  "init_tx = \<lparr> tx_witness = None, tx_call = \<lparr> call_module = ''system'', call_method = ''init'', call_params = Params (enc (sysc_meta ex_system_codecs) ex_meta) \<rparr> \<rparr>"

lemma init_valid: "validate_tx xe cm (cl_dispatcher (ex_chain_lib tries)) init_tx False s = (Ok (), s)"
  by (simp add: validate_tx_def verify_witness_def init_tx_def bind_apply
      dispatch_validate_call_def fixed_system_def dispatch_result_def module_validate_call_def dispatch_is_write_call_def module_is_write_call_def
      mk_method_def decode_params_def bytes_codec_def Let_def decode_def ex_chain_lib_def)

lemma init_built:
  "fst (build_genesis (ex_chain_lib tries) ex_genesis_lib xe ex_spec s) =
     Ok \<lparr> bb_number = 0, bb_timestamp = 3, bb_meta_txs = [\<lparr> ftx_tx = init_tx, ftx_hash = hash_slice xe (enc ex_call_codec (tx_call init_tx)) \<rparr>],
          bb_payload_txs = [], bb_execution_number = 0 \<rparr>"
proof -
  have p: "system_init_try_from ex_genesis_lib \<lparr> sip_chain_id = ''abc'', sip_timestamp = '''', sip_max_until_gap = 20, sip_max_execution_gap = 8, sip_consensus = ''poa'' \<rparr> = Ok ex_meta"
    by (simp add: system_init_try_from_def ex_genesis_lib_def ex_meta_def)
  have c: "build_tx xe cm (cl_dispatcher (ex_chain_lib tries)) None (tx_call init_tx) = Ok init_tx" for cm
    by (simp add: build_tx_def init_tx_def dispatch_check_call_def fixed_system_def ex_chain_lib_def module_check_call_def mk_method_def decode_params_def bytes_codec_def Let_def decode_def)
  have t: "build_validate_tx (ex_chain_lib tries) xe \<lparr> stx_module = ''system'', stx_method = ''init'', stx_params = '''' \<rparr> (enc (sysc_meta ex_system_codecs) ex_meta) s = (Ok init_tx, s)" for s
  proof -
    have i: "\<lparr> call_module = ''system'', call_method = ''init'', call_params = Params (enc (sysc_meta ex_system_codecs) ex_meta) \<rparr> = tx_call init_tx"
      by (simp add: init_tx_def)
    show ?thesis by (simp add: build_validate_tx_def bytes_codec_def build_call_def bind_apply i c init_valid Let_def map_err_comp_def)
  qed
  have g: "genesis_build_tx (ex_chain_lib tries) ex_genesis_lib xe \<lparr> stx_module = ''system'', stx_method = ''init'', stx_params = '''' \<rparr> ts s = (Ok (init_tx, Some 3), s)" for s ts
  proof -
    have "gl_system_init_params ex_genesis_lib x = Ok \<lparr> sip_chain_id = ''abc'', sip_timestamp = '''', sip_max_until_gap = 20,
        sip_max_execution_gap = 8, sip_consensus = ''poa'' \<rparr>" for x
      by (simp add: ex_genesis_lib_def)
    moreover have "sys_timestamp ex_meta = 3" "cc_system_meta ex_chain_codecs = sysc_meta ex_system_codecs"
      by (simp_all add: ex_meta_def ex_chain_codecs_def)
    ultimately show ?thesis by (simp add: genesis_build_tx_def bind_apply get_module_params_def p t)
  qed
  have m: "is_meta_call (cl_dispatcher (ex_chain_lib tries)) (tx_call init_tx) = Ok True"
    by (simp add: is_meta_call_def dispatch_is_meta_def ex_chain_lib_def fixed_system_def init_tx_def)
  have h: "hash_transaction xe (cc_exec ex_chain_codecs) init_tx = Ok (hash_slice xe (enc ex_call_codec (tx_call init_tx)))"
    by (simp add: hash_transaction_def exec_hash_def encode_def ex_chain_codecs_def transaction_for_hash_new_def)
  show ?thesis
    by (simp add: build_genesis_def bind_apply g m h)
qed

lemma init_executed:
  assumes "exec_inv s" "\<not> xc_payload_phase s"
  shows "\<exists>s'. execute_genesis (ex_chain_lib tries) xe \<lparr> bb_number = 0, bb_timestamp = 3, bb_meta_txs = [\<lparr> ftx_tx = init_tx, ftx_hash = h \<rparr>],
          bb_payload_txs = [], bb_execution_number = 0 \<rparr> s = (Ok (), s') \<and> based s s'"
proof -
  have ds: "cl_dispatcher (ex_chain_lib tries) = fixed_system" by (simp add: ex_chain_lib_def)
  have d: "dispatch_execute_call fixed_system ''system'' w (tx_call init_tx) s = (Ok (Ok []), s)" for s w
    by (simp add: dispatch_execute_call_def fixed_system_def bind_apply dispatch_result_def module_execute_call_def
        init_tx_def mk_method_def decode_params_def bytes_codec_def decode_def encode_def unit_codec_def)
  have "\<exists>r s'. execute_tx xe fixed_system \<lparr> ftx_tx = init_tx, ftx_hash = h \<rparr> s = (Ok r, s') \<and> xc_payload_phase s' = xc_payload_phase s"
    using d by (simp add: execute_tx_def Let_def bind_apply set_call_env_def settle_def xc_op_defs map_err_comp_def init_tx_def)
  then obtain s' where "execute_txs xe fixed_system [\<lparr> ftx_tx = init_tx, ftx_hash = h \<rparr>] s = (Ok (), s')"
    using assms(2) by (auto simp: execute_txs_def bind_apply dispatch_is_meta_def fixed_system_def init_tx_def fail_if_def)
  then have e: "execute_genesis (ex_chain_lib tries) xe \<lparr> bb_number = 0, bb_timestamp = 3, bb_meta_txs = [\<lparr> ftx_tx = init_tx, ftx_hash = h \<rparr>],
          bb_payload_txs = [], bb_execution_number = 0 \<rparr> s = (Ok (), s')"
    by (simp add: execute_genesis_def bind_apply execute_no_txs init_valid ds [symmetric])
  moreover have "based s s'"
    by (rule keepsD [OF execute_genesis_based [OF fixed_system_well_behaved] _ e(1)]) (use assms(1) in \<open>simp add: based_def same_base_def\<close>)
  ultimately show ?thesis by blast
qed

lemma collect_all_Ok: "collect_results (map (\<lambda>x. Ok (f x)) xs) = Ok (map f xs)"
  by (induction xs) simp_all

lemma genesis_params_null:
  assumes "length (hash_bytes (xc_meta_state_root s)) = 32" "length (hash_bytes (xc_payload_state_root s)) = 32"
    "sd_hash_length (xc_meta_statedb s) = HashLength32" "sd_hash_length (xc_payload_statedb s) = HashLength32"
    "tr_hash_length (xc_trie_root s) = HashLength32"
  shows "\<exists>cb ce. genesis_params (ex_chain_lib null_trie) p s b = Ok (cb, ce) \<and> hdr_meta_state_root (cb_header cb) = ones_hash \<and>
    ce_execution ce = ones_execution"
  using assms
  by (simp add: genesis_params_def Let_def get_meta_update_def get_payload_update_def null_prepare_update get_meta_txs_def get_payload_txs_def
      get_txs_root_def get_meta_receipts_def get_payload_receipts_def receipts_root_def collect_all_Ok backend_hash_header_def exec_hash_def encode_def
      calc_ordered_trie_root_def calc_trie_root_def) (simp add: null_trie_def ones_execution_def ones_hash_def)

lemma ex_prepare_genesis:
  "\<exists>cb ce. prepare_genesis (ex_chain_lib null_trie) ex_genesis_lib ex_spec (ex_backend (\<lambda>_ _. None)) = Ok (cb, ce) \<and>
     hdr_meta_state_root (cb_header cb) = ones_hash \<and> ce_execution ce = ones_execution"
proof -
  let ?b = "ex_backend (\<lambda>_ _. None)" and ?lib = "ex_chain_lib null_trie"
  have su: "ex_setup ?b" by (simp add: ex_setup_def same_setup_def ex_backend_def)
  have r: "Hash (default_root (bk_meta_statedb ?b)) = zero_hash" "Hash (default_root (bk_payload_statedb ?b)) = zero_hash"
    by (simp_all add: ex_backend_def default_root_def zero_hash_def)
  have ctx: "\<exists>e s. new_essence ?b env zero_hash zero_hash = Ok e \<and> new_context ?lib ?b e = Ok s \<and>
    sd_hash_length (xc_meta_statedb s) = HashLength32 \<and> sd_hash_length (xc_payload_statedb s) = HashLength32 \<and>
    tr_hash_length (xc_trie_root s) = HashLength32" for env
    using ex_new_context [OF su opens_zero [OF su]] by blast
  obtain e0 s0 where e0: "new_essence ?b \<lparr> env_number = 0, env_timestamp = 0 \<rparr> zero_hash zero_hash = Ok e0" "new_context ?lib ?b e0 = Ok s0"
    using ctx by blast
  obtain e s where e: "new_essence ?b \<lparr> env_number = 0, env_timestamp = 3 \<rparr> zero_hash zero_hash = Ok e" "new_context ?lib ?b e = Ok s"
    "sd_hash_length (xc_meta_statedb s) = HashLength32" "sd_hash_length (xc_payload_statedb s) = HashLength32"
    "tr_hash_length (xc_trie_root s) = HashLength32"
    using ctx by blast
  note c = context_of_essence [OF e(1,2)]
  let ?p = "\<lparr> bb_number = 0, bb_timestamp = 3, bb_meta_txs = [\<lparr> ftx_tx = init_tx, ftx_hash = hash_slice (bk_executor ?b) (enc ex_call_codec (tx_call init_tx)) \<rparr>],
          bb_payload_txs = [], bb_execution_number = 0 \<rparr>"
  obtain s' where s': "execute_genesis ?lib (bk_executor ?b) ?p s = (Ok (), s')" "based s s'"
    using init_executed [OF c(1,11)] by blast
  have "\<exists>cb ce. genesis_params ?lib ?p s' ?b = Ok (cb, ce) \<and> hdr_meta_state_root (cb_header cb) = ones_hash \<and> ce_execution ce = ones_execution"
    by (rule genesis_params_null) (use s'(2) c e in \<open>simp_all add: based_def same_base_def zero_hash_def\<close>)
  then show ?thesis
    using e0 e(1,2) s'(1) by (simp add: prepare_genesis_def Let_def r init_built)
qed

text \<open>The database after the genesis block of \<open>ex_spec\<close>.\<close>

lemma ex_genesis_written:
  "\<exists>d cb ce. prepare_genesis (ex_chain_lib null_trie) ex_genesis_lib ex_spec (ex_backend (\<lambda>_ _. None)) = Ok (cb, ce) \<and>
     write_db (ex_chain_lib null_trie) (genesis_ops ex_chain_codecs ''spec'' cb ce) (ex_backend (\<lambda>_ _. None)) = (Ok (), ex_backend d) \<and>
     get_block_hash (ex_chain_lib null_trie) 0 (ex_backend d) = Ok (Some (cb_block_hash cb)) \<and>
     get_confirmed_number (ex_chain_lib null_trie) (ex_backend d) = Ok (Some 0) \<and>
     (\<forall>b. bk_db b = d \<longrightarrow> same_setup (ex_backend d) (b\<lparr>bk_executor := bk_executor (ex_backend d)\<rparr>) \<longrightarrow>
        (\<exists>cur. derive_current_state (ex_chain_lib null_trie) (Some 5) b = Ok cur))"
proof -
  let ?b = "ex_backend (\<lambda>_ _. None)" and ?lib = "ex_chain_lib null_trie"
  obtain cb ce where g: "prepare_genesis ?lib ex_genesis_lib ex_spec ?b = Ok (cb, ce)" "hdr_meta_state_root (cb_header cb) = ones_hash"
      "ce_execution ce = ones_execution"
    using ex_prepare_genesis by blast
  have cols: "sd_column (bk_meta_statedb ?b) = META_STATE" "sd_column (bk_payload_statedb ?b) = PAYLOAD_STATE"
    by (simp_all add: ex_backend_def)
  obtain d where d: "write_db ?lib (genesis_ops ex_chain_codecs ''spec'' cb ce) ?b = (Ok (), ex_backend d)"
     "get_confirmed_number ?lib (ex_backend d) = Ok (Some 0)" "get_execution_number ?lib (ex_backend d) = Ok (Some 0)"
     "get_block_hash ?lib 0 (ex_backend d) = Ok (Some (cb_block_hash cb))"
     "get_header ?lib (cb_block_hash cb) (ex_backend d) = Ok (Some (cb_header cb))"
     "get_execution ?lib (cb_block_hash cb) (ex_backend d) = Ok (Some ones_execution)"
    using genesis_written [OF ex_chain_lib_ok [of null_trie] prepare_genesis_Ok [OF fixed_system_well_behaved g(1), unfolded cols] cols, of "''spec''"] g(3)
    by (auto simp: ex_backend_def)
  have "\<exists>cur. derive_current_state ?lib (Some 5) b = Ok cur"
    if b: "bk_db b = d" "same_setup (ex_backend d) (b\<lparr>bk_executor := bk_executor (ex_backend d)\<rparr>)" for b
  proof -
    have same: "read_with ?lib c k cd b = read_with ?lib c k cd (ex_backend d)" for c k cd
      using b(1) by (simp add: read_with_def ex_backend_def)
    have r: "get_confirmed_number ?lib b = Ok (Some 0)" "get_block_hash ?lib 0 b = Ok (Some (cb_block_hash cb))"
      "get_header ?lib (cb_block_hash cb) b = Ok (Some (cb_header cb))" "get_execution_number ?lib b = Ok (Some 0)"
      "get_execution ?lib (cb_block_hash cb) b = Ok (Some ones_execution)"
      using d by (simp_all add: read_defs same)
    have "opens ?lib (ex_backend d) ones_hash ones_hash"
      by (rule opens_null) (simp_all add: ex_setup_def same_setup_def ex_backend_def ones_hash_def)
    then have o: "opens ?lib b (hdr_meta_state_root (cb_header cb)) (exe_payload_execution_state_root ones_execution)"
      using b by (simp add: g(2) ones_execution_def opens_def new_essence_def new_context_def same_setup_def ex_backend_def)
    show ?thesis using derive_current_state_Ok [OF r(1-4) r(2,5,5,2) o] o by auto
  qed
  then show ?thesis using g(1) d(1,2,4) by blast
qed

lemma ex_backend_new:
  "\<exists>b. backend_new (ex_chain_lib null_trie) ex_genesis_lib (Some 5) (Some ''spec'') (\<lambda>_ _. None) (\<lambda>_. None) = Ok b"
proof -
  let ?b = "ex_backend (\<lambda>_ _. None)" and ?lib = "ex_chain_lib null_trie"
  obtain d cb ce where g: "prepare_genesis ?lib ex_genesis_lib ex_spec ?b = Ok (cb, ce)"
     "write_db ?lib (genesis_ops ex_chain_codecs ''spec'' cb ce) ?b = (Ok (), ex_backend d)"
     "get_block_hash ?lib 0 (ex_backend d) = Ok (Some (cb_block_hash cb))" "get_confirmed_number ?lib (ex_backend d) = Ok (Some 0)"
    and dc: "\<And>b. bk_db b = d \<Longrightarrow> same_setup (ex_backend d) (b\<lparr>bk_executor := bk_executor (ex_backend d)\<rparr>) \<Longrightarrow>
        \<exists>cur. derive_current_state ?lib (Some 5) b = Ok cur"
    using ex_genesis_written by blast
  obtain cur where cur: "derive_current_state ?lib (Some 5) (ex_backend d) = Ok cur"
    using dc [of "ex_backend d"] by (auto simp: same_setup_def ex_backend_def)
  define b2 where "b2 = (ex_backend d)\<lparr>bk_current_state := Some cur, bk_messages := [ExecutionCommitted (ce_number ce) (cb_block_hash cb)]\<rparr>"
  have sp: "gl_parse_spec ex_genesis_lib x = Ok ex_spec" for x by (simp add: ex_genesis_lib_def)
  have m: "bk_message_open (ex_backend d)" "bk_messages (ex_backend d) = []" by (simp_all add: ex_backend_def)
  have i: "init_genesis ?lib ex_genesis_lib (Some 5) (Some ''spec'') ?b = (Ok (), b2)"
    using g cur m by (simp add: init_genesis_def bind_apply read_spec_def sp on_execution_committed_def update_current_state_def send_message_def b2_def)
  define b3 where "b3 = b2\<lparr>bk_executor := set_genesis_hash (cb_block_hash cb) (bk_executor b2)\<rparr>"
  obtain cur3 where "derive_current_state ?lib (Some 5) b3 = Ok cur3"
    using dc [of b3] by (auto simp: same_setup_def ex_backend_def b3_def b2_def)
  moreover have "get_block_hash ?lib 0 b2 = Ok (Some (cb_block_hash cb))"
    using g(3) by (simp add: b2_def get_block_hash_def read_with_def)
  moreover have "get_confirmed_number ?lib (b3\<lparr>bk_current_state := x\<rparr>) = Ok (Some 0)" for x
    using g(4) by (simp add: b3_def b2_def get_confirmed_number_def read_with_def)
  ultimately have "fst (backend_open ?lib ex_genesis_lib (Some 5) (Some ''spec'') False ?b) = Ok ()"
    using i by (simp add: backend_open_def bind_apply b3_def update_current_state_def)
  moreover have "fst (backend_setup ex_genesis_lib ex_spec (\<lambda>_ _. None) (\<lambda>_. None)) = Ok ?b"
    by (simp add: backend_setup_def ex_genesis_lib_def bind_apply statedb_new_def trie_root_new_def load_hasher_def ex_backend_def ex_hash_def)
  moreover have "get_spec ?lib ex_genesis_lib (Some ''spec'') (\<lambda>_ _. None) = Ok (False, ex_spec)"
    by (simp add: get_spec_def sp db_get_eq [OF mem_rocks_ok] db_abs_def)
  ultimately show ?thesis by (simp add: backend_new_def case_prod_unfold)
qed

end
