(* ===== verification/Chain_Theorems.thy ===== *)
theory Chain_Theorems
  imports Chain_Example
begin

text \<open>
  The properties of the chain: committing blocks, executing them, the state a block commits to, validating transactions,
  and the genesis block; with a concrete chain on which they are witnessed.
\<close>

section \<open>Building a block\<close>

lemma seal_block_Ok:
  assumes "seal_block lib p parent_hash x s b = Ok cp"
  shows "get_meta_update (cl_rocks lib) (cl_tries lib) (bk_db b) s = Ok (hdr_meta_state_root (cb_header cp), cb_meta_transaction cp)"
    "hdr_number (cb_header cp) = bb_number p" "hdr_parent_hash (cb_header cp) = parent_hash"
    "hdr_payload_execution_gap (cb_header cp) = ucast (bb_number p - bb_execution_number p)"
    "cb_body cp = \<lparr> body_meta_txs = map ftx_hash (xc_meta_txs s), body_payload_txs = map ftx_hash (bb_payload_txs p) \<rparr>"
    "cb_payload_txs cp = bb_payload_txs p" "cb_meta_txs cp = xc_meta_txs s"
    "backend_hash_header lib b (cb_header cp) = Ok (cb_block_hash cp)"
  using assms by (auto simp: seal_block_def Let_def and_then_eq_Ok case_prod_unfold get_meta_txs_def)

lemma build_block_Ok:
  assumes wb: "well_behaved (cl_dispatcher lib)" and run: "build_block lib p b = Ok cp"
  obtains parent_hash parent x e s s' where
    "get_block_hash lib (bb_number p - 1) b = Ok (Some parent_hash)" "get_header lib parent_hash b = Ok (Some parent)"
    "new_essence b \<lparr> env_number = bb_number p, env_timestamp = bb_timestamp p \<rparr>
       (hdr_meta_state_root parent) (exe_payload_execution_state_root x) = Ok e"
    "new_context lib b e = Ok s"
    "execute_txs (bk_executor b) (cl_dispatcher lib) (bb_meta_txs p) s = (Ok (), s')"
    "seal_block lib p parent_hash x s' b = Ok cp"
    "exec_inv s'" "same_base s s'"
    "only_col (sd_column (bk_meta_statedb b)) (cb_meta_transaction cp)"
proof -
  from run obtain parent_hash parent x e s where
    a: "get_block_hash lib (bb_number p - 1) b = Ok (Some parent_hash)" "get_header lib parent_hash b = Ok (Some parent)"
      "new_essence b \<lparr> env_number = bb_number p, env_timestamp = bb_timestamp p \<rparr>
         (hdr_meta_state_root parent) (exe_payload_execution_state_root x) = Ok e" "new_context lib b e = Ok s"
    and r: "fst (execute_txs (bk_executor b) (cl_dispatcher lib) (bb_meta_txs p) s) = Ok ()"
    and u: "seal_block lib p parent_hash x (snd (execute_txs (bk_executor b) (cl_dispatcher lib) (bb_meta_txs p) s)) b = Ok cp"
    by (auto simp: build_block_def Let_def and_then_eq_Ok case_prod_unfold)
  let ?s = "snd (execute_txs (bk_executor b) (cl_dispatcher lib) (bb_meta_txs p) s)"
  have ex: "execute_txs (bk_executor b) (cl_dispatcher lib) (bb_meta_txs p) s = (Ok (), ?s)" using r by (simp add: prod_eq_iff)
  note c = context_of_essence [OF a(3,4)]
  have fr: "exec_inv ?s" "same_base s ?s" using execute_txs_frame [OF wb c(1) ex] by auto
  then have "only_col (sd_column (bk_meta_statedb b)) (cb_meta_transaction cp)"
    using seal_block_Ok(1) [OF u] c(3)
    by (auto simp: get_meta_update_def and_then_eq_Ok same_base_def dest!: prepare_update_only_col)
  then show thesis using that [OF a ex u fr] by blast
qed

section \<open>Helper lemmas\<close>

lemma get_block_eq:
  "get_header lib h b = Ok (Some hdr) \<Longrightarrow> get_body lib h b = Ok (Some bd) \<Longrightarrow>
     get_block lib h b = Ok (Some \<lparr> blk_header = hdr, blk_body = bd \<rparr>)"
  by (simp add: get_block_def)

lemma context_meta_getter:
  assumes "new_essence b env mr pr = Ok e" "new_context lib b e = Ok s"
  shows "\<exists>stmt g. prepare_stmt (bk_meta_statedb b) (hash_bytes mr) = Ok stmt \<and>
    prepare_get (cl_rocks lib) (cl_tries lib) stmt (bk_db b) = Ok g \<and>
    cs_getter (xc_meta_state s) = getter_get (cl_rocks lib) (cl_tries lib) g (bk_db b)"
  using assms
  by (auto simp: new_essence_def context_essence_new_def new_context_def context_new_def context_state_new_def and_then_eq_Ok)

lemma wf_rev: "hm_wf m \<Longrightarrow> map_of (rev m) k = hm_get m k"
  using hm_get_extend_wf [of m "[]" k] hm_get_extend [of m "[]" k] by (auto split: option.splits)

lemma tx_ops_get:
  "fold apply_op (tx_ops cs txs) m TX (hash_bytes h) =
     (case map_of (rev (map (\<lambda>tx. (ftx_hash tx, ftx_tx tx)) txs)) h of
        Some tx \<Rightarrow> Some (enc (cc_transaction cs) tx) | None \<Rightarrow> m TX (hash_bytes h))"
proof (induction txs rule: rev_induct)
  case (snoc tx txs)
  then show ?case by (auto simp: tx_ops_def)
qed (simp add: tx_ops_def)

lemma map_of_consistent:
  assumes "\<forall>x\<in>set txs. \<forall>y\<in>set txs. ftx_hash x = ftx_hash y \<longrightarrow> ftx_tx x = ftx_tx y" "tx \<in> set txs"
  shows "map_of (rev (map (\<lambda>tx. (ftx_hash tx, ftx_tx tx)) txs)) (ftx_hash tx) = Some (ftx_tx tx)"
proof -
  have "ftx_hash tx \<in> fst ` set (rev (map (\<lambda>tx. (ftx_hash tx, ftx_tx tx)) txs))"
    using assms(2) by force
  then have "map_of (rev (map (\<lambda>tx. (ftx_hash tx, ftx_tx tx)) txs)) (ftx_hash tx) \<noteq> None"
    unfolding map_of_eq_None_iff by blast
  then obtain t where t: "map_of (rev (map (\<lambda>tx. (ftx_hash tx, ftx_tx tx)) txs)) (ftx_hash tx) = Some t" by blast
  then have "(ftx_hash tx, t) \<in> set (rev (map (\<lambda>tx. (ftx_hash tx, ftx_tx tx)) txs))" by (rule map_of_SomeD)
  then obtain y where "y \<in> set txs" "ftx_hash y = ftx_hash tx" "t = ftx_tx y" by auto
  then show ?thesis using t assms(1) [rule_format, of y tx] assms(2) by simp
qed

text \<open>An \<open>i8\<close> holds the gap when it is less than 128.\<close>

lemma gap_sint:
  assumes "(x :: u64) < 128"
  shows "sint (ucast x :: execution_gap) = uint x"
proof -
  have "uint x < 128" "- 128 \<le> uint x"
    using assms order_trans [OF _ uint_nonnegative [of x], of "- 128"] by (simp_all add: word_less_alt)
  then show ?thesis
    using signed_take_bit_int_eq_self [of 7 "uint x"] by (simp add: signed_ucast_eq)
qed

lemma gap_roundtrip:
  assumes "(x :: u64) < 128"
  shows "scast (ucast x :: execution_gap) = x"
  by (metis gap_sint [OF assms] scast_eq word_of_int_uint)

section \<open>Properties\<close>

text \<open>C8: a block that is committed extends the chain by one: its number follows the confirmed number and its parent is the
  confirmed block, it can be read back with its body, it becomes the confirmed block, and no block of the chain up to the
  old confirmed number changes.\<close>

theorem commit_block_extends_chain:
  assumes "chain_lib_ok lib absd" "chain_ok lib b" "only_col META_STATE (cb_meta_transaction p)"
    "hdr_number (cb_header p) \<noteq> 0" "hdr_number (cb_header p) + 1 \<noteq> 0" "backend_commit_block lib now p b = (Ok (), b')"
  shows "\<exists>n. get_confirmed_number lib b = Ok (Some n) \<and> hdr_number (cb_header p) = n + 1 \<and>
    get_block_hash lib n b = Ok (Some (hdr_parent_hash (cb_header p))) \<and>
    get_confirmed_number lib b' = Ok (Some (n + 1)) \<and> get_block_hash lib (n + 1) b' = Ok (Some (cb_block_hash p)) \<and>
    get_block lib (cb_block_hash p) b' = Ok (Some \<lparr> blk_header = cb_header p, blk_body = cb_body p \<rparr>) \<and>
    (\<forall>i\<le>n. \<exists>h blk. get_block_hash lib i b = Ok (Some h) \<and> get_block_hash lib i b' = Ok (Some h) \<and>
       get_block lib h b = Ok (Some blk) \<and> get_block lib h b' = Ok (Some blk)) \<and>
    chain_ok lib b'"
proof -
  obtain n where add: "get_confirmed_number lib b = Ok (Some n)"
      "get_block_hash lib n b = Ok (Some (hdr_parent_hash (cb_header p)))" "hdr_number (cb_header p) = n + 1" "block_added lib p b b'"
    by (rule backend_commit_block_cases [OF assms(1,3,6)]) auto
  have ok: "chain_ok lib b'" "extends lib b b'"
    using commit_block_ok [OF assms(1,3,4,5,2,6)] by auto
  have li: "linked lib n b" using assms(2) add(1) by (auto simp: chain_ok_def)
  have "\<exists>h blk. get_block_hash lib i b = Ok (Some h) \<and> get_block_hash lib i b' = Ok (Some h) \<and>
       get_block lib h b = Ok (Some blk) \<and> get_block lib h b' = Ok (Some blk)" if i: "i \<le> n" for i
  proof -
    obtain h hdr bd where h: "get_block_hash lib i b = Ok (Some h)" "get_header lib h b = Ok (Some hdr)" "get_body lib h b = Ok (Some bd)"
      using li i unfolding linked_def by blast
    then show ?thesis
      using extendsD(2) [OF ok(2) add(1) i] extendsD(3,4) [OF ok(2) add(1) i h(1)] get_block_eq by metis
  qed
  then show ?thesis
    using add ok(1) get_block_eq [of lib "cb_block_hash p" b'] by (simp add: block_added_def)
qed

theorem commit_block_extends_chain_witness:
  "\<exists>b'. backend_commit_block (ex_chain_lib null_trie) (Some 5) first_block (ex_chain0 null_trie) = (Ok (), b') \<and>
    get_confirmed_number (ex_chain_lib null_trie) b' = Ok (Some 1) \<and>
    get_block (ex_chain_lib null_trie) (Hash [1]) b' = Ok (Some \<lparr> blk_header = ex_header 1 (Hash [0]), blk_body = \<lparr> body_meta_txs = [], body_payload_txs = [] \<rparr> \<rparr>) \<and>
    get_block_hash (ex_chain_lib null_trie) 0 b' = Ok (Some (Hash [0]))"
proof -
  obtain b' where b': "backend_commit_block (ex_chain_lib null_trie) (Some 5) first_block (ex_chain0 null_trie) = (Ok (), b')"
    using first_block_committed [of null_trie] by blast
  show ?thesis
    using commit_block_extends_chain [OF ex_chain_lib_ok ex_chain0_facts(1) _ _ _ b'] b' ex_chain0_facts(3,5) [of null_trie]
    by (auto simp: ex_block_def)
qed

text \<open>C13: a block that is already there is refused as a duplicate, one that does not follow the confirmed block as not best; a
  refused block changes nothing.\<close>

theorem commit_block_refused:
  assumes "get_header lib (cb_block_hash p) b = Ok old" "get_confirmed_number lib b = Ok (Some n)" "get_block_hash lib n b = Ok (Some h)"
    "old \<noteq> None \<or> hdr_number (cb_header p) \<noteq> n + 1 \<or> hdr_parent_hash (cb_header p) \<noteq> h"
  shows "backend_commit_block lib now p b = (Err (ChainError (CommitBlockError (if old \<noteq> None then Duplicated else NotBest))), b)"
  using assms by (auto simp: backend_commit_block_def Let_def bind_apply)

theorem commit_block_refused_witness:
  "backend_commit_block (ex_chain_lib null_trie) (Some 5) (ex_block [1] (ex_header 2 (Hash [0]))) (ex_chain0 null_trie)
     = (Err (ChainError (CommitBlockError NotBest)), ex_chain0 null_trie) \<and>
   backend_commit_block (ex_chain_lib null_trie) (Some 5) (ex_block [0] (ex_header 1 (Hash [0]))) (ex_chain0 null_trie)
     = (Err (ChainError (CommitBlockError Duplicated)), ex_chain0 null_trie)"
proof
  note f = ex_chain0_facts(3,5) [of null_trie]
  show "backend_commit_block (ex_chain_lib null_trie) (Some 5) (ex_block [1] (ex_header 2 (Hash [0]))) (ex_chain0 null_trie)
     = (Err (ChainError (CommitBlockError NotBest)), ex_chain0 null_trie)"
    using commit_block_refused [OF _ f, where p = "ex_block [1] (ex_header 2 (Hash [0]))"] ex_chain0_facts(8) [of "Hash [1]" null_trie] by simp
  show "backend_commit_block (ex_chain_lib null_trie) (Some 5) (ex_block [0] (ex_header 1 (Hash [0]))) (ex_chain0 null_trie)
     = (Err (ChainError (CommitBlockError Duplicated)), ex_chain0 null_trie)"
    using commit_block_refused [OF _ f, where p = "ex_block [0] (ex_header 1 (Hash [0]))"] ex_chain0_facts(6) [of null_trie] by simp
qed

text \<open>C7: whatever blocks are committed, tasks processed and consensus data written, in whatever order and with whatever
  result, the chain stays a chain: every number up to the confirmed one has a block that is linked to its parent, every
  block up to the executed one has an execution, the tasks in the queue are those of blocks of the chain, and the blocks that
  were confirmed before are still there unchanged.\<close>

theorem chain_invariant:
  assumes "chain_lib_ok lib absd" "well_behaved (cl_dispatcher lib)" "sys_ok lib c" "chain_run lib c c'"
  shows "sys_ok lib c' \<and> extends lib (ch_backend c) (ch_backend c')"
  using assms(4,3)
proof (induction rule: chain_run.induct)
  case (run_step c c' c'')
  then show ?case
    using chain_step_ok [OF assms(1,2) _ run_step(2)] by (blast intro: extends_trans)
qed simp

theorem chain_invariant_witness:
  "\<exists>c. chain_commit_block (ex_chain_lib null_trie) (Some 5) first_block (ex_chain null_trie) = (Ok (), c) \<and>
    sys_ok (ex_chain_lib null_trie) (task_turn (ex_chain_lib null_trie) (Some 6) c) \<and>
    extends (ex_chain_lib null_trie) (ex_chain0 null_trie) (ch_backend (task_turn (ex_chain_lib null_trie) (Some 6) c))"
proof -
  let ?lib = "ex_chain_lib null_trie"
  obtain c where c: "chain_commit_block ?lib (Some 5) first_block (ex_chain null_trie) = (Ok (), c)"
    using first_block_queued [of null_trie] by blast
  have "chain_step ?lib (ex_chain null_trie) c" by (rule step_commit [OF _ _ _ c]) simp_all
  then have "chain_run ?lib (ex_chain null_trie) (task_turn ?lib (Some 6) c)"
    by (meson run_refl run_step step_task)
  moreover have "sys_ok ?lib (ex_chain null_trie)" by (simp add: sys_ok_def ex_chain_def ex_chain0_facts)
  ultimately show ?thesis
    using chain_invariant [OF ex_chain_lib_ok [of null_trie] fixed_system_well_behaved, of "ex_chain null_trie"] c by (simp add: ex_chain_def)
qed

text \<open>C10: a task that is processed leaves its block and all blocks before it executed, also those whose tasks failed or were never
  queued, and the executed number at its block.\<close>

theorem process_task_executes:
  assumes "chain_lib_ok lib absd" "well_behaved (cl_dispatcher lib)" "chain_ok lib b" "task_ok lib b task"
    "process_task lib now task b = (Ok (), b')"
  shows "get_execution_number lib b' = Ok (Some (et_number task)) \<and>
    (\<forall>i\<le>et_number task. \<exists>h x. get_block_hash lib i b' = Ok (Some h) \<and> get_execution lib h b' = Ok (Some x))"
proof -
  have p: "chain_ok lib b'" "get_execution_number lib b' = Ok (Some (et_number task))"
    using process_task_ok [OF assms(1-5)] by auto
  then show ?thesis by (auto simp: chain_ok_def executed_def)
qed

theorem process_task_executes_witness:
  "\<exists>b b' h x. backend_commit_block (ex_chain_lib null_trie) (Some 5) first_block (ex_chain0 null_trie) = (Ok (), b) \<and>
    process_task (ex_chain_lib null_trie) (Some 6) first_task b = (Ok (), b') \<and>
    get_execution_number (ex_chain_lib null_trie) b' = Ok (Some 1) \<and>
    get_block_hash (ex_chain_lib null_trie) 1 b' = Ok (Some h) \<and> get_execution (ex_chain_lib null_trie) h b' = Ok (Some x)"
proof -
  let ?lib = "ex_chain_lib null_trie" and ?b0 = "ex_chain0 null_trie"
  obtain b where b: "backend_commit_block ?lib (Some 5) first_block ?b0 = (Ok (), b)" "ex_setup b"
    using first_block_committed [of null_trie] by blast
  obtain b' where b': "process_task ?lib (Some 6) first_task b = (Ok (), b')" using ex_process_first [OF b] by blast
  have "chain_ok ?lib b \<and> block_added ?lib first_block ?b0 b"
    using commit_block_ok [OF ex_chain_lib_ok _ _ _ ex_chain0_facts(1) b(1)] by simp
  moreover from this have "task_ok ?lib b first_task" by (auto simp: task_ok_def block_added_def)
  ultimately show ?thesis
    using process_task_executes [OF ex_chain_lib_ok fixed_system_well_behaved _ _ b'] b(1) b' by fastforce
qed

text \<open>C9: the state root of a committed block opens to the state that its meta transactions produced: what they wrote, over the
  state of the parent block.\<close>

theorem committed_block_meta_state:
  assumes "chain_lib_ok lib absd" "well_behaved (cl_dispatcher lib)" "chain_ok lib b"
    and tr: "trie_ok (hash_length_usize (sd_hash_length (bk_meta_statedb b))) (cl_tries lib (sd_hash_length (bk_meta_statedb b))) contents base"
    and build: "build_block lib p b = Ok cp" and commit: "backend_commit_block lib now cp b = (Ok (), b')"
  shows "\<exists>parent root e s s' stmt g. get_header lib (hdr_parent_hash (cb_header cp)) b = Ok (Some parent) \<and>
    new_essence b \<lparr> env_number = bb_number p, env_timestamp = bb_timestamp p \<rparr> (hdr_meta_state_root parent) root = Ok e \<and>
    new_context lib b e = Ok s \<and>
    execute_txs (bk_executor b) (cl_dispatcher lib) (bb_meta_txs p) s = (Ok (), s') \<and>
    prepare_stmt (bk_meta_statedb b') (hash_bytes (hdr_meta_state_root (cb_header cp))) = Ok stmt \<and>
    prepare_get (cl_rocks lib) (cl_tries lib) stmt (bk_db b') = Ok g \<and>
    (\<forall>k. map_err ESystem (getter_get (cl_rocks lib) (cl_tries lib) g (bk_db b') k) = committed_get (xc_meta_state s') k)"
proof -
  let ?rk = "cl_rocks lib" and ?tr = "cl_tries lib" and ?sd = "bk_meta_statedb b"
  obtain ph parent x e s s' where a: "get_header lib ph b = Ok (Some parent)"
    "new_essence b \<lparr> env_number = bb_number p, env_timestamp = bb_timestamp p \<rparr>
       (hdr_meta_state_root parent) (exe_payload_execution_state_root x) = Ok e" "new_context lib b e = Ok s"
    "execute_txs (bk_executor b) (cl_dispatcher lib) (bb_meta_txs p) s = (Ok (), s')"
    "seal_block lib p ph x s' b = Ok cp" "exec_inv s'" "same_base s s'" "only_col (sd_column ?sd) (cb_meta_transaction cp)"
    by (rule build_block_Ok [OF assms(2) build])
  have col: "sd_column ?sd = META_STATE" using assms(3) by (simp add: chain_ok_def)
  have b': "block_added lib cp b b'" "block_stored lib absd cp b b'"
    by (rule backend_commit_block_cases [OF assms(1) a(8) [unfolded col] commit]; simp)+
  obtain stmt0 g0 where g0: "prepare_stmt ?sd (hash_bytes (hdr_meta_state_root parent)) = Ok stmt0"
      "prepare_get ?rk ?tr stmt0 (bk_db b) = Ok g0" "cs_getter (xc_meta_state s) = getter_get ?rk ?tr g0 (bk_db b)"
    using context_meta_getter [OF a(2,3)] by blast
  note seal = seal_block_Ok [OF a(5)]
  have s': "xc_meta_statedb s' = ?sd" "xc_meta_state_root s' = hdr_meta_state_root parent"
      "cs_getter (xc_meta_state s') = getter_get ?rk ?tr g0 (bk_db b)"
    using a(7) context_of_essence(3,4) [OF a(2,3)] g0(3) by (auto simp: same_base_def)
  have upd: "prepare_update ?rk ?tr ?sd (hash_bytes (hdr_meta_state_root parent)) (cs_buffer (xc_meta_state s')) (bk_db b)
      = Ok (hash_bytes (hdr_meta_state_root (cb_header cp)), cb_meta_transaction cp)"
    using seal(1) s' by (auto simp: get_meta_update_def and_then_eq_Ok) (metis hash_bytes.simps)
  have w: "cell absd b' (sd_column ?sd) k = fold apply_op (cb_meta_transaction cp) (cell absd b) (sd_column ?sd) k" for k
    using b'(2) by (simp add: block_stored_def col)
  have vc: "valid_col (sd_column ?sd)" by (simp add: col)
  obtain stmt g where g: "prepare_stmt ?sd (hash_bytes (hdr_meta_state_root (cb_header cp))) = Ok stmt"
      "prepare_get ?rk ?tr stmt (bk_db b') = Ok g"
      "\<And>k. getter_get ?rk ?tr g (bk_db b') k = (case map_of (rev (cs_buffer (xc_meta_state s'))) k of
         Some v \<Rightarrow> Ok v | None \<Rightarrow> getter_get ?rk ?tr g0 (bk_db b) k)"
    using statedb_update_reads [OF tr chain_lib_okD(1) [OF assms(1)] vc g0(1,2) upd w] by blast
  have "map_err ESystem (getter_get ?rk ?tr g (bk_db b') k) = committed_get (xc_meta_state s') k" for k
    using a(6) s'(3) by (simp add: g(3) committed_get_def wf_rev exec_inv_def state_wf_def split: option.splits)
  then show ?thesis
    using a seal(3) g(1,2) b'(1) by (auto simp: block_added_def same_setup_def)
qed

theorem committed_block_meta_state_witness:
  "\<exists>cp b' stmt g. build_block (ex_chain_lib mem_trie) ex_build (ex_chain0 mem_trie) = Ok cp \<and>
    backend_commit_block (ex_chain_lib mem_trie) (Some 5) cp (ex_chain0 mem_trie) = (Ok (), b') \<and>
    prepare_stmt (bk_meta_statedb b') (hash_bytes (hdr_meta_state_root (cb_header cp))) = Ok stmt \<and>
    prepare_get mem_rocks mem_trie stmt (bk_db b') = Ok g"
proof -
  let ?lib = "ex_chain_lib mem_trie" and ?b = "ex_chain0 mem_trie"
  obtain cp where cp: "build_block ?lib ex_build ?b = Ok cp" "hdr_meta_state_root (cb_header cp) = Hash (replicate 32 1)"
    "cb_meta_transaction cp = [Insert META_STATE (replicate 32 1) (enc node_codec [])]" "only_col META_STATE (cb_meta_transaction cp)"
    "hdr_number (cb_header cp) = 1" "hdr_parent_hash (cb_header cp) = Hash [0]" "cb_block_hash cp \<noteq> Hash [0]"
    using ex_build_first [OF ex_mem_update] by auto
  have "opens ?lib b (hdr_meta_state_root (cb_header cp)) zero_hash" if "block_stored ?lib (\<lambda>d. d) cp ?b b" "ex_setup b" for b
    using that ex_mem_opens by (simp add: cp(2,3) block_stored_def)
  then obtain b' where b': "backend_commit_block ?lib (Some 5) cp ?b = (Ok (), b')"
    using ex_commit_first [OF cp(4-7)] by blast
  have sd: "sd_hash_length (bk_meta_statedb ?b) = HashLength32"
    using ex_chain0_facts(2) [of mem_trie] by (simp add: ex_setup_def same_setup_def ex_backend_def)
  have "trie_ok (hash_length_usize (sd_hash_length (bk_meta_statedb ?b))) (cl_tries ?lib (sd_hash_length (bk_meta_statedb ?b)))
      (\<lambda>t. map_of (snd t)) fst"
    using mem_trie_ok [of HashLength32] by (simp add: sd)
  from committed_block_meta_state [OF ex_chain_lib_ok fixed_system_well_behaved ex_chain0_facts(1) this cp(1) b'] show ?thesis
    using cp(1) b' by auto
qed

text \<open>C11: the task the queue rebuilds from the database for a committed block is the task that was queued when the block was
  committed, so catching up executes what the direct task would have executed. The transactions of the block have to be
  consistent: one transaction per hash.\<close>

theorem rebuilt_task_is_queued_task:
  assumes "chain_lib_ok lib absd" "chain_ok (lib :: ('d, 't) chain_lib) (ch_backend c)" "only_col META_STATE (cb_meta_transaction p)"
    "ch_task_open c" "chain_commit_block lib now p c = (Ok (), c')"
    "body_payload_txs (cb_body p) = map ftx_hash (cb_payload_txs p)"
    "\<forall>x\<in>set (cb_meta_txs p @ cb_payload_txs p). \<forall>y\<in>set (cb_meta_txs p @ cb_payload_txs p). ftx_hash x = ftx_hash y \<longrightarrow> ftx_tx x = ftx_tx y"
  shows "\<exists>task. ch_tasks c' = ch_tasks c @ [task] \<and> rebuild_task lib (hdr_number (cb_header p)) (ch_backend c') = Ok task"
proof -
  let ?b' = "ch_backend c'"
  let ?task = "\<lparr> et_number = hdr_number (cb_header p), et_timestamp = hdr_timestamp (cb_header p),
       et_block_hash = cb_block_hash p, et_parent_hash = hdr_parent_hash (cb_header p),
       et_meta_state_root = hdr_meta_state_root (cb_header p), et_payload_txs = cb_payload_txs p \<rparr>"
  have run: "backend_commit_block lib now p (ch_backend c) = (Ok (), ?b')" and tasks: "ch_tasks c' = ch_tasks c @ [?task]"
    using assms(4,5) by (auto simp: chain_commit_block_def on_backend_def bind_apply insert_task_def Let_def
        split: prod.splits result.splits if_splits)
  have b': "block_added lib p (ch_backend c) ?b'" "block_stored lib absd p (ch_backend c) ?b'"
    by (rule backend_commit_block_cases [OF assms(1,3) run]; simp)+
  have tx: "get_transaction lib (ftx_hash tx) ?b' = Ok (Some (ftx_tx tx))" if "tx \<in> set (cb_payload_txs p)" for tx
    using that b'(2) map_of_consistent [OF assms(7), of tx] chain_lib_okD(6) [OF assms(1)]
    by (simp add: get_transaction_def read_with_eq [OF assms(1)] block_stored_def tx_ops_get)
  have "map (load_tx lib ?b') (map ftx_hash (cb_payload_txs p)) = map Ok (cb_payload_txs p)"
    by (simp add: load_tx_def tx)
  then have "collect_results (map (load_tx lib ?b') (map ftx_hash (cb_payload_txs p))) = Ok (cb_payload_txs p)"
    by (simp only: collect_results_eq_Ok)
  then have "rebuild_task lib (hdr_number (cb_header p)) ?b' = Ok ?task"
    using b'(1) get_block_eq [of lib "cb_block_hash p" ?b'] assms(6)
    by (simp add: rebuild_task_def block_added_def del: map_map)
  then show ?thesis using tasks by blast
qed

theorem rebuilt_task_is_queued_task_witness:
  "\<exists>c task. chain_commit_block (ex_chain_lib null_trie) (Some 5) first_block (ex_chain null_trie) = (Ok (), c) \<and>
    ch_tasks c = [task] \<and> rebuild_task (ex_chain_lib null_trie) 1 (ch_backend c) = Ok task"
proof -
  obtain c where c: "chain_commit_block (ex_chain_lib null_trie) (Some 5) first_block (ex_chain null_trie) = (Ok (), c)"
    using first_block_queued [of null_trie] by blast
  show ?thesis
    using rebuilt_task_is_queued_task [OF ex_chain_lib_ok _ _ _ c] c
    by (simp add: ex_chain_def ex_chain0_facts) (simp add: ex_block_def)
qed

text \<open>C14: a transaction is accepted only if it can still be included: its validity ends after the confirmed block and within the
  gap the system allows, the chain does not have it yet, and its witness verifies (and is there when one is required).\<close>

theorem validate_transaction_accepts:
  assumes "backend_validate_transaction lib tx_hash tx witness_required b = Ok ()"
  shows "\<exists>cur. bk_current_state b = Some cur \<and>
    (\<forall>w. tx_witness tx = Some w \<longrightarrow> cur_confirmed_number cur < wit_until w \<and>
       wit_until w \<le> cur_confirmed_number cur + sys_max_until_gap (cur_system_meta cur)) \<and>
    get_transaction lib tx_hash b = Ok None \<and> (witness_required \<longrightarrow> tx_witness tx \<noteq> None) \<and>
    verify_witness (bk_executor b) (cc_message (cl_codecs lib)) tx witness_required = Ok ()"
proof -
  obtain cur s where cur: "bk_current_state b = Some cur" "validate_until cur tx = Ok ()" "get_transaction lib tx_hash b = Ok None"
    and v: "or_else_catch as_executor_error (\<lambda>e. map_option (\<lambda>v. Err (ChainError (ValidateTxError v))) (validate_error e))
       (fst (validate_tx (bk_executor b) (cc_message (cl_codecs lib)) (cl_dispatcher lib) tx witness_required s)) = Ok ()"
    using assms by (auto simp: backend_validate_transaction_def get_current_state_def and_then_eq_Ok split: if_splits)
  have "fst (validate_tx (bk_executor b) (cc_message (cl_codecs lib)) (cl_dispatcher lib) tx witness_required s) = Ok ()"
    using v by (cases "fst (validate_tx (bk_executor b) (cc_message (cl_codecs lib)) (cl_dispatcher lib) tx witness_required s)")
      (auto split: option.splits)
  then have vw: "verify_witness (bk_executor b) (cc_message (cl_codecs lib)) tx witness_required = Ok ()"
    by (auto simp: validate_tx_def bind_apply split: result.splits)
  then have "witness_required \<longrightarrow> tx_witness tx \<noteq> None"
    by (cases "tx_witness tx") (auto simp: verify_witness_def)
  then show ?thesis
    using cur vw by (auto simp: validate_until_def Let_def not_less not_le split: if_splits)
qed

theorem validate_transaction_accepts_witness:
  "\<exists>b cur. backend_commit_block (ex_chain_lib null_trie) (Some 5) first_block (ex_chain0 null_trie) = (Ok (), b) \<and>
    backend_validate_transaction (ex_chain_lib null_trie) (Hash [8]) ex_tx True b = Ok () \<and>
    bk_current_state b = Some cur \<and> cur_confirmed_number cur < 10 \<and>
    10 \<le> cur_confirmed_number cur + sys_max_until_gap (cur_system_meta cur) \<and>
    verify_witness (bk_executor b) (cc_message (cl_codecs (ex_chain_lib null_trie))) ex_tx True = Ok ()"
proof -
  let ?lib = "ex_chain_lib null_trie"
  obtain b cur s where b: "backend_commit_block ?lib (Some 5) first_block (ex_chain0 null_trie) = (Ok (), b)" "ex_setup b"
    "bk_current_state b = Some cur" "cur_confirmed_number cur = 1" "cur_system_meta cur = ex_meta"
    "new_context ?lib b (cur_context_essence cur) = Ok s"
    using first_block_committed [of null_trie] by blast
  have st: "block_stored ?lib (\<lambda>d. d) first_block (ex_chain0 null_trie) b"
    by (rule backend_commit_block_cases [OF ex_chain_lib_ok _ b(1)]) simp_all
  have "get_transaction ?lib (Hash [8]) b = Ok None"
    using st by (simp add: get_transaction_def read_with_eq [OF ex_chain_lib_ok] block_stored_def ex_block_def tx_ops_def ex_chain0_facts)
  moreover have "validate_until cur ex_tx = Ok ()"
    by (simp add: validate_until_def ex_tx_def Let_def b ex_meta_def word_le_nat_alt)
  moreover have xe: "xe_dsa (bk_executor b) = ex_dsa" using b(2) by (simp add: ex_setup_def same_setup_def ex_backend_def executor_new_def)
  have "validate_tx (bk_executor b) (cc_message (cl_codecs ?lib)) (cl_dispatcher ?lib) ex_tx True s = (Ok (), s)"
    by (simp add: validate_tx_def verify_witness_def ex_tx_def Let_def xe ex_dsa_def ex_chain_codecs_def encode_def bind_apply
      dispatch_validate_call_def fixed_system_def dispatch_result_def module_validate_call_def dispatch_is_write_call_def module_is_write_call_def bytes_codec_def
        get_meta_call_def mk_method_def decode_params_def decode_def ex_chain_lib_def)
  ultimately have "backend_validate_transaction ?lib (Hash [8]) ex_tx True b = Ok ()"
    using b by (simp add: backend_validate_transaction_def get_current_state_def)
  from validate_transaction_accepts [OF this] this show ?thesis
    using b by (simp add: ex_meta_def)
qed

text \<open>The gap in the header of a built block leads back to the executed block it was built on, as long as the gap is less than
  128, the range of its type.\<close>

theorem confirmed_executed_number_roundtrip:
  assumes "chain_lib_ok lib absd" "well_behaved (cl_dispatcher lib)" "chain_ok lib b" "build_block lib p b = Ok cp"
    "backend_commit_block lib now cp b = (Ok (), b')" "bb_number p \<noteq> 0" "bb_number p - bb_execution_number p < 128"
  shows "get_confirmed_executed_number lib b' = Ok (Some (bb_execution_number p))"
proof -
  obtain ph x s' where seal: "seal_block lib p ph x s' b = Ok cp" and col: "only_col (sd_column (bk_meta_statedb b)) (cb_meta_transaction cp)"
    by (rule build_block_Ok [OF assms(2,4)])
  have "sd_column (bk_meta_statedb b) = META_STATE" using assms(3) by (simp add: chain_ok_def)
  then have "only_col META_STATE (cb_meta_transaction cp)" using col by simp
  then have b': "block_added lib cp b b'"
    by (rule backend_commit_block_cases [OF assms(1) _ assms(5)]) simp_all
  show ?thesis
    using b' seal_block_Ok(2,4) [OF seal] assms(6) gap_roundtrip [OF assms(7)]
    by (simp add: get_confirmed_executed_number_def block_added_def)
qed

theorem confirmed_executed_number_roundtrip_witness:
  "\<exists>cp b'. build_block (ex_chain_lib null_trie) ex_build (ex_chain0 null_trie) = Ok cp \<and>
    backend_commit_block (ex_chain_lib null_trie) (Some 5) cp (ex_chain0 null_trie) = (Ok (), b') \<and>
    get_confirmed_executed_number (ex_chain_lib null_trie) b' = Ok (Some 0)"
proof -
  obtain cp b' where r: "build_block (ex_chain_lib null_trie) ex_build (ex_chain0 null_trie) = Ok cp"
    "backend_commit_block (ex_chain_lib null_trie) (Some 5) cp (ex_chain0 null_trie) = (Ok (), b')"
    using ex_build_null by (elim exE conjE)
  show ?thesis
    using confirmed_executed_number_roundtrip [OF ex_chain_lib_ok fixed_system_well_behaved ex_chain0_facts(1) r] r
    by (auto simp: ex_build_def)
qed

text \<open>C12: opening the backend on an empty database builds the genesis block and leaves a chain of that one block, confirmed and
  executed; the backend is ready to extend it.\<close>

theorem backend_new_starts_chain:
  assumes "chain_lib_ok lib absd" "well_behaved (cl_dispatcher lib)" "db_abs absd d GLOBAL CONFIRMED_NUMBER = None"
    "backend_new lib gl now spec_file d slots = Ok b"
  shows "sys_ok lib \<lparr> ch_backend = b, ch_tasks = [], ch_task_open = True \<rparr> \<and>
    get_confirmed_number lib b = Ok (Some 0) \<and> get_execution_number lib b = Ok (Some 0)"
proof -
  obtain sp b0 where su: "fst (backend_setup gl sp d slots) = Ok b0"
    and open0: "backend_open lib gl now spec_file False b0 = (Ok (), b)"
    using assms(3,4) by (auto simp: backend_new_def get_spec_def db_get_eq [OF chain_lib_okD(1) [OF assms(1)]] and_then_eq_Ok Let_def
        case_prod_unfold prod_eq_iff)
  have cols: "sd_column (bk_meta_statedb b0) = META_STATE" "sd_column (bk_payload_statedb b0) = PAYLOAD_STATE"
    using su by (auto simp: backend_setup_def bind_apply statedb_new_def trie_root_new_def split: result.splits prod.splits)
  obtain b1 h where g: "init_genesis lib gl now spec_file b0 = (Ok (), b1)"
    and b: "update_current_state lib now (b1\<lparr>bk_executor := set_genesis_hash h (bk_executor b1)\<rparr>) = (Ok (), b)"
    using open0 by (auto simp: backend_open_def bind_eq_Ok)
  have i: "chain_ok lib b1" "get_confirmed_number lib b1 = Ok (Some 0)" "get_execution_number lib b1 = Ok (Some 0)"
    using init_genesis_written [OF assms(1,2) cols g] by auto
  have f: "bk_db b = bk_db b1" "bk_meta_statedb b = bk_meta_statedb b1" "bk_payload_statedb b = bk_payload_statedb b1"
    using b by (auto simp: update_current_state_def bind_apply split: result.splits)
  have same: "read_with lib c k cd b = read_with lib c k cd b1" for c k cd by (simp add: read_with_def f(1))
  have "chain_ok lib b"
    using i(1) by (simp add: chain_ok_def linked_def executed_def read_defs same f cong: option.case_cong)
  moreover have "get_confirmed_number lib b = Ok (Some 0)" "get_execution_number lib b = Ok (Some 0)"
    using i(2,3) by (simp_all add: read_defs same)
  ultimately show ?thesis by (simp add: sys_ok_def)
qed

theorem backend_new_starts_chain_witness:
  "\<exists>b. backend_new (ex_chain_lib null_trie) ex_genesis_lib (Some 5) (Some ''spec'') (\<lambda>_ _. None) (\<lambda>_. None) = Ok b \<and>
    sys_ok (ex_chain_lib null_trie) \<lparr> ch_backend = b, ch_tasks = [], ch_task_open = True \<rparr> \<and>
    get_confirmed_number (ex_chain_lib null_trie) b = Ok (Some 0)"
proof -
  obtain b where b: "backend_new (ex_chain_lib null_trie) ex_genesis_lib (Some 5) (Some ''spec'') (\<lambda>_ _. None) (\<lambda>_. None) = Ok b"
    using ex_backend_new by blast
  show ?thesis
    using backend_new_starts_chain [OF ex_chain_lib_ok fixed_system_well_behaved _ b] b by (auto simp: db_abs_def)
qed

end
