(* ===== verification/Consensus_Base.thy ===== *)
theory Consensus_Base
  imports Chain Txpool
begin

text \<open>
  What the consensus protocols share: the support they get from the chain and the transaction pool
  (\<^verbatim>\<open>core/node/consensus/base/src/support.rs\<close>), the choice of the transactions of a block, the schedule of the
  block interval (\<^verbatim>\<open>scheduler.rs\<close>), and the verification of proposals
  (\<^verbatim>\<open>core/node/consensus/hotstuff/src/verifier.rs\<close>, \<^verbatim>\<open>core/node/consensus/raft/src/verifier.rs\<close>), which the coordinator
  repeats for the blocks it synchronizes (\<^verbatim>\<open>core/node/coordinator/src/verifier.rs\<close>).

  The three verifiers differ in the type of their errors and in a few checks. The parts they share take the injection of
  \<open>verify_error\<close> into the common error as their first argument.
\<close>

section \<open>The support\<close>

record ('d, 'kp, 'ver) support =
  sup_chain :: "('d, 'kp, 'ver) chain"
  sup_txpool :: txpool

type_synonym ('d, 'kp, 'ver, 'a) sup_comp = "(('d, 'kp, 'ver) support, 'a, common_error) comp"

abbreviation sup_backend :: "('d, 'kp, 'ver) support \<Rightarrow> ('d, 'kp, 'ver) backend" where
  "sup_backend s \<equiv> ch_backend (sup_chain s)"

definition on_chain :: "(('d, 'kp, 'ver) chain, 'a, common_error) comp \<Rightarrow> ('d, 'kp, 'ver, 'a) sup_comp" where
  "on_chain m s = (let (r, c) = m (sup_chain s) in (r, s\<lparr>sup_chain := c\<rparr>))"

definition on_txpool :: "(txpool, 'a, common_error) comp \<Rightarrow> ('d, 'kp, 'ver, 'a) sup_comp" where
  "on_txpool m s = (let (r, p) = m (sup_txpool s) in (r, s\<lparr>sup_txpool := p\<rparr>))"

lemma on_chain_eq: "on_chain m s = (r, s') \<longleftrightarrow> (\<exists>c. m (sup_chain s) = (r, c) \<and> s' = s\<lparr>sup_chain := c\<rparr>)"
  by (auto simp: on_chain_def split: prod.splits)

lemma on_txpool_eq: "on_txpool m s = (r, s') \<longleftrightarrow> (\<exists>p. m (sup_txpool s) = (r, p) \<and> s' = s\<lparr>sup_txpool := p\<rparr>)"
  by (auto simp: on_txpool_def split: prod.splits)

lemma on_backend_eq: "on_backend m c = (r, c') \<longleftrightarrow> (\<exists>b. m (ch_backend c) = (r, b) \<and> c' = c\<lparr>ch_backend := b\<rparr>)"
  by (auto simp: on_backend_def split: prod.splits)

definition read_chain :: "(('d, 'kp, 'ver) backend \<Rightarrow> 'a common_result) \<Rightarrow> ('d, 'kp, 'ver, 'a) sup_comp" where
  "read_chain f = query (\<lambda>s. f (sup_backend s))"

definition support_commit_block :: "('d, 't) chain_lib \<Rightarrow> u64 option \<Rightarrow> chain_commit_block_params
    \<Rightarrow> ('d, 'kp, 'ver, unit) sup_comp" where
  "support_commit_block lib now p = on_chain (chain_commit_block lib now p)"

definition support_commit_consensus_data :: "('d, 't) chain_lib \<Rightarrow> db_transaction \<Rightarrow> ('d, 'kp, 'ver, unit) sup_comp" where
  "support_commit_consensus_data lib t = on_chain (on_backend (commit_consensus_data lib t))"

definition txpool_get_transactions :: "('d, 'kp, 'ver) support \<Rightarrow> full_transaction list" where
  "txpool_get_transactions s = tp_queue (sup_txpool s)"

definition txpool_remove_transactions :: "hash list \<Rightarrow> ('d, 'kp, 'ver, unit) sup_comp" where
  "txpool_remove_transactions tx_hash_set = on_txpool (txpool_remove tx_hash_set)"

section \<open>The messages to a protocol\<close>

datatype consensus_in_message =
    NetworkProtocolOpen peer_id u64 u64
  | NetworkProtocolClose peer_id
  | NetworkMessage peer_id bytes
  | BlockCommitted block_number hash
  | Generate
  | GetConsensusState
  | SyncLatencyUpdated block_number

text \<open>A handler whose error is logged and a check whose error is dropped; a panic is neither.\<close>

definition log_error :: "('s, unit, common_error) comp \<Rightarrow> ('s, unit, common_error) comp" where
  "log_error m s = (case m s of
     (Err (Panic p), s') \<Rightarrow> (Err (Panic p), s')
   | (_, s') \<Rightarrow> (Ok (), s'))"

definition when_ok :: "'a common_result \<Rightarrow> ('a \<Rightarrow> ('s, unit, common_error) comp) \<Rightarrow> ('s, unit, common_error) comp" where
  "when_ok r k = (case r of Ok x \<Rightarrow> k x | Err (Panic p) \<Rightarrow> fail (Panic p) | Err _ \<Rightarrow> ret ())"

lemma keeps_log_error [keeps_rules, intro]: "keeps I m \<Longrightarrow> keeps I (log_error m)"
  by (auto simp: keeps_def log_error_def split: prod.splits result.splits common_error.splits)

lemma keeps_when_ok [keeps_rules, intro]: "(\<And>x. r = Ok x \<Longrightarrow> keeps I (k x)) \<Longrightarrow> keeps I (when_ok r k)"
  by (auto simp: when_ok_def split: result.splits common_error.splits)

section \<open>The modules of the protocols\<close>

definition CONSENSUS_POA :: string where "CONSENSUS_POA = ''poa''"
definition CONSENSUS_RAFT :: string where "CONSENSUS_RAFT = ''raft''"
definition CONSENSUS_HOTSTUFF :: string where "CONSENSUS_HOTSTUFF = ''hotstuff''"

text \<open>A call without parameters on a block; an application error hits the \<open>expect\<close>.\<close>

definition consensus_call :: "('d, 't) chain_lib \<Rightarrow> string \<Rightarrow> string \<Rightarrow> 'r codec \<Rightarrow> block_number \<Rightarrow> ('d, 'kp, 'ver) backend
    \<Rightarrow> 'r common_result" where
  "consensus_call lib module_name method_name c number b =
     and_then (execute_call_with_block_number lib (cc_empty_params (cl_codecs lib)) c number None module_name method_name EmptyParams b)
       (map_err (\<lambda>_. Panic ''qed''))"

section \<open>Choosing the transactions of a block\<close>

text \<open>The loop over the pool: the invalid, the meta and the payload transactions.\<close>

definition tx_invalid :: "('d, 't) chain_lib \<Rightarrow> ('d, 'kp, 'ver) backend \<Rightarrow> full_transaction \<Rightarrow> bool common_result" where
  "tx_invalid lib b tx = or_else_catch as_chain_error
     (\<lambda>e. case e of ValidateTxError _ \<Rightarrow> Some (Ok True) | _ \<Rightarrow> None)
     (and_then (backend_validate_transaction lib (ftx_hash tx) (ftx_tx tx) True b) (\<lambda>_. Ok False))"

fun sort_txs :: "('d, 't) chain_lib \<Rightarrow> ('d, 'kp, 'ver) backend \<Rightarrow> full_transaction list
    \<Rightarrow> full_transaction list \<times> full_transaction list \<times> full_transaction list
    \<Rightarrow> (full_transaction list \<times> full_transaction list \<times> full_transaction list) common_result" where
  "sort_txs lib b [] acc = Ok acc"
| "sort_txs lib b (tx # txs) (invalid_txs, meta_txs, payload_txs) =
     and_then (tx_invalid lib b tx) (\<lambda>invalid.
     if invalid then sort_txs lib b txs (invalid_txs @ [tx], meta_txs, payload_txs)
     else and_then (is_meta_call (cl_dispatcher lib) (tx_call (ftx_tx tx))) (\<lambda>is_meta.
       if is_meta then sort_txs lib b txs (invalid_txs, meta_txs @ [tx], payload_txs)
       else sort_txs lib b txs (invalid_txs, meta_txs, payload_txs @ [tx])))"

definition show_gap :: "execution_gap \<Rightarrow> string" where
  "show_gap g = (if sint g < 0 then ''-'' @ show_nat (nat (- sint g)) else show_nat (nat (sint g)))"

text \<open>\<open>timestamp\<close> is the schedule information. The gap is an \<open>i8\<close> and compared as such.\<close>

definition prepare_block :: "('d, 't) chain_lib \<Rightarrow> u64 \<Rightarrow> ('d, 'kp, 'ver, build_block_params) sup_comp" where
  "prepare_block lib timestamp =
     bind (read_chain get_current_state) (\<lambda>cur.
     let number = cur_confirmed_number cur + 1; execution_number = cur_executed_number cur in
     bind (ask txpool_get_transactions) (\<lambda>txs.
     bind (read_chain (\<lambda>b. sort_txs lib b txs ([], [], []))) (\<lambda>(invalid_txs, meta_txs, payload_txs).
     bind (txpool_remove_transactions (map ftx_hash invalid_txs)) (\<lambda>_.
     let gap = ucast (number - execution_number) :: execution_gap in
     bind (fail_if (sint gap > sint (sys_max_execution_gap (cur_system_meta cur)))
             (ConsensusError (ConsensusData (''execution gap exceed max: '' @ show_gap gap @ '', max: ''
                @ show_gap (sys_max_execution_gap (cur_system_meta cur)))))) (\<lambda>_.
     ret \<lparr> bb_number = number, bb_timestamp = timestamp, bb_meta_txs = meta_txs, bb_payload_txs = payload_txs,
           bb_execution_number = execution_number \<rparr>)))))"

section \<open>The schedule\<close>

text \<open>The milliseconds to wait for a block interval; an interval of 0 divides by 0.\<close>

definition time_until_next :: "u64 \<Rightarrow> u64 \<Rightarrow> u64 common_result" where
  "time_until_next now duration = (if duration = 0 then Err (Panic ''attempt to calculate the remainder with a divisor of zero'')
     else Ok (duration - now mod duration - 1))"

section \<open>Verifying a proposal\<close>

type_synonym verify_err = "verify_error \<Rightarrow> common_error"

definition verify_not_repeat :: "verify_err \<Rightarrow> ('d, 't) chain_lib \<Rightarrow> hash \<Rightarrow> ('d, 'kp, 'ver) backend \<Rightarrow> unit common_result" where
  "verify_not_repeat err lib block_hash b = and_then (get_header lib block_hash b) (\<lambda>h.
     if h \<noteq> None then Err (err VeDuplicated) else Ok ())"

text \<open>The confirmed block: number, hash and header.\<close>

definition confirmed_block :: "(string \<Rightarrow> common_error) \<Rightarrow> ('d, 't) chain_lib \<Rightarrow> ('d, 'kp, 'ver) backend
    \<Rightarrow> (block_number \<times> hash \<times> header) common_result" where
  "confirmed_block data_err lib b = and_then (get_current_state b) (\<lambda>cur.
     and_then (get_header lib (cur_confirmed_block_hash cur) b) (\<lambda>h.
     and_then (ok_or_else (data_err (''Missing header: block_hash: '' @ show_hash b (cur_confirmed_block_hash cur))) h) (\<lambda>header.
     Ok (cur_confirmed_number cur, cur_confirmed_block_hash cur, header))))"

definition verify_best :: "('d, 't) chain_lib \<Rightarrow> block_number \<Rightarrow> hash \<Rightarrow> ('d, 'kp, 'ver) backend
    \<Rightarrow> (block_number \<times> hash \<times> header) common_result" where
  "verify_best lib number parent_hash b = and_then (confirmed_block (ConsensusError \<circ> ConsensusData) lib b) (\<lambda>confirmed.
     if number \<noteq> fst confirmed + 1 then Err (HotStuffError (HotStuffVerify VeNotBest))
     else if parent_hash \<noteq> fst (snd confirmed) then Err (HotStuffError (HotStuffVerify VeNotBest))
     else Ok confirmed)"

definition raft_verify_best :: "('d, 't) chain_lib \<Rightarrow> block_number \<Rightarrow> ('d, 'kp, 'ver) backend
    \<Rightarrow> (block_number \<times> hash \<times> header) common_result" where
  "raft_verify_best lib number b = and_then (confirmed_block (ConsensusError \<circ> ConsensusData) lib b) (\<lambda>confirmed.
     if number \<noteq> fst confirmed + 1 then Err (RaftError (RaftVerify VeNotBest)) else Ok confirmed)"

text \<open>The checks of the gap (an \<open>i8\<close>) and of the executed block it leads to.\<close>

definition verify_gap :: "verify_err \<Rightarrow> execution_gap \<Rightarrow> block_number \<Rightarrow> header \<Rightarrow> ('d, 'kp, 'ver) backend \<Rightarrow> unit common_result" where
  "verify_gap err gap execution_number confirmed_header b = and_then (get_current_state b) (\<lambda>cur.
     if sint gap < 1 then Err (err VeInvalidExecutionGap)
     else if sint gap > sint (sys_max_execution_gap (cur_system_meta cur)) then Err (err VeInvalidExecutionGap)
     else if execution_number < hdr_number confirmed_header - scast (hdr_payload_execution_gap confirmed_header)
       then Err (err VeInvalidExecutionGap)
     else if execution_number > cur_executed_number cur then Err (err VeShouldWait)
     else Ok ())"

definition verify_execution :: "verify_err \<Rightarrow> block_number \<Rightarrow> block_number \<Rightarrow> header \<Rightarrow> ('d, 'kp, 'ver) backend \<Rightarrow> unit common_result" where
  "verify_execution err number execution_number confirmed_header b =
     verify_gap err (ucast (number - execution_number)) execution_number confirmed_header b"

definition verify_transaction :: "verify_err \<Rightarrow> ('d, 't) chain_lib \<Rightarrow> hash \<Rightarrow> transaction \<Rightarrow> hash list \<Rightarrow> ('d, 'kp, 'ver) backend
    \<Rightarrow> hash list common_result" where
  "verify_transaction err lib tx_hash tx set_hash b =
     (if tx_hash \<in> set set_hash then Err (err (VeDuplicatedTx (''Duplicated tx: '' @ show_hash b tx_hash)))
      else and_then (or_else_catch as_chain_error
             (\<lambda>e. case e of ValidateTxError e \<Rightarrow> Some (Err (err (VeInvalidTx e))) | _ \<Rightarrow> None)
             (backend_validate_transaction lib tx_hash tx True b)) (\<lambda>_.
           Ok (tx_hash # set_hash)))"

fun get_verified_txs :: "verify_err \<Rightarrow> ('d, 't) chain_lib \<Rightarrow> ('d, 'kp, 'ver) backend \<Rightarrow> transaction list \<Rightarrow> hash list
    \<Rightarrow> full_transaction list common_result" where
  "get_verified_txs err lib b [] set_hash = Ok []"
| "get_verified_txs err lib b (tx # txs) set_hash =
     and_then (hash_transaction (bk_executor b) (cc_exec (cl_codecs lib)) tx) (\<lambda>tx_hash.
     and_then (verify_transaction err lib tx_hash tx set_hash b) (\<lambda>set_hash.
     and_then (get_verified_txs err lib b txs set_hash) (\<lambda>result.
     Ok (\<lparr> ftx_tx = tx, ftx_hash = tx_hash \<rparr> # result))))"

definition verify_body :: "verify_err \<Rightarrow> ('d, 't) chain_lib \<Rightarrow> transaction list \<Rightarrow> transaction list \<Rightarrow> ('d, 'kp, 'ver) backend
    \<Rightarrow> (full_transaction list \<times> full_transaction list) common_result" where
  "verify_body err lib meta_txs payload_txs b =
     and_then (get_verified_txs err lib b meta_txs []) (\<lambda>meta_txs.
     and_then (get_verified_txs err lib b payload_txs []) (\<lambda>payload_txs.
     Ok (meta_txs, payload_txs)))"

definition verify_header :: "verify_err \<Rightarrow> ('d, 't) chain_lib \<Rightarrow> hash \<Rightarrow> build_block_params \<Rightarrow> ('d, 'kp, 'ver) backend
    \<Rightarrow> chain_commit_block_params common_result" where
  "verify_header err lib block_hash p b = and_then (build_block lib p b) (\<lambda>commit_block_params.
     if cb_block_hash commit_block_params \<noteq> block_hash
     then Err (err (VeInvalidHeader (''Invalid block_hash: '' @ show_hash b block_hash @ '', expected: ''
                 @ show_hash b (cb_block_hash commit_block_params))))
     else Ok commit_block_params)"

text \<open>A proposal of HotStuff; that of Raft has no parent hash.\<close>

record proposal =
  pro_parent_hash :: hash
  pro_block_hash :: hash
  pro_number :: block_number
  pro_timestamp :: u64
  pro_meta_txs :: "transaction list"
  pro_payload_txs :: "transaction list"
  pro_execution_number :: block_number

definition verify_proposal :: "('d, 't) chain_lib \<Rightarrow> proposal \<Rightarrow> ('d, 'kp, 'ver) backend
    \<Rightarrow> (proposal \<times> chain_commit_block_params) common_result" where
  "verify_proposal lib p b = (let err = HotStuffError \<circ> HotStuffVerify in
     and_then (verify_not_repeat err lib (pro_block_hash p) b) (\<lambda>_.
     and_then (verify_best lib (pro_number p) (pro_parent_hash p) b) (\<lambda>(_, _, confirmed_header).
     and_then (verify_execution err (pro_number p) (pro_execution_number p) confirmed_header b) (\<lambda>_.
     and_then (verify_body err lib (pro_meta_txs p) (pro_payload_txs p) b) (\<lambda>(meta_txs, payload_txs).
     and_then (verify_header err lib (pro_block_hash p) \<lparr> bb_number = pro_number p, bb_timestamp = pro_timestamp p,
                 bb_meta_txs = meta_txs, bb_payload_txs = payload_txs, bb_execution_number = pro_execution_number p \<rparr> b)
       (\<lambda>commit_block_params. Ok (p, commit_block_params)))))))"

record raft_proposal =
  rpro_block_hash :: hash
  rpro_number :: block_number
  rpro_timestamp :: u64
  rpro_meta_txs :: "transaction list"
  rpro_payload_txs :: "transaction list"
  rpro_execution_number :: block_number

text \<open>The verifier of Raft repeats the other checks with its own error.\<close>

definition raft_verify_not_repeat :: "('d, 't) chain_lib \<Rightarrow> hash \<Rightarrow> ('d, 'kp, 'ver) backend \<Rightarrow> unit common_result" where
  "raft_verify_not_repeat = verify_not_repeat (RaftError \<circ> RaftVerify)"

definition raft_verify_execution :: "block_number \<Rightarrow> block_number \<Rightarrow> header \<Rightarrow> ('d, 'kp, 'ver) backend \<Rightarrow> unit common_result" where
  "raft_verify_execution = verify_execution (RaftError \<circ> RaftVerify)"

definition raft_verify_body :: "('d, 't) chain_lib \<Rightarrow> transaction list \<Rightarrow> transaction list \<Rightarrow> ('d, 'kp, 'ver) backend
    \<Rightarrow> (full_transaction list \<times> full_transaction list) common_result" where
  "raft_verify_body = verify_body (RaftError \<circ> RaftVerify)"

definition raft_verify_header :: "('d, 't) chain_lib \<Rightarrow> hash \<Rightarrow> build_block_params \<Rightarrow> ('d, 'kp, 'ver) backend
    \<Rightarrow> chain_commit_block_params common_result" where
  "raft_verify_header = verify_header (RaftError \<circ> RaftVerify)"

definition raft_verify_proposal :: "('d, 't) chain_lib \<Rightarrow> raft_proposal \<Rightarrow> ('d, 'kp, 'ver) backend
    \<Rightarrow> (raft_proposal \<times> chain_commit_block_params) common_result" where
  "raft_verify_proposal lib p b =
     and_then (raft_verify_not_repeat lib (rpro_block_hash p) b) (\<lambda>_.
     and_then (raft_verify_best lib (rpro_number p) b) (\<lambda>(_, _, confirmed_header).
     and_then (raft_verify_execution (rpro_number p) (rpro_execution_number p) confirmed_header b) (\<lambda>_.
     and_then (raft_verify_body lib (rpro_meta_txs p) (rpro_payload_txs p) b) (\<lambda>(meta_txs, payload_txs).
     and_then (raft_verify_header lib (rpro_block_hash p) \<lparr> bb_number = rpro_number p, bb_timestamp = rpro_timestamp p,
                 bb_meta_txs = meta_txs, bb_payload_txs = payload_txs, bb_execution_number = rpro_execution_number p \<rparr> b)
       (\<lambda>commit_block_params. Ok (p, commit_block_params))))))"

section \<open>Verifying a synchronized block\<close>

record body_data =
  bd_meta_txs :: "transaction list"
  bd_payload_txs :: "transaction list"

record block_data =
  bda_number :: block_number
  bda_block_hash :: hash
  bda_header :: "header option"
  bda_body :: "body_data option"
  bda_proof :: "proof_data option"

definition coordinator_verify_not_repeat :: "('d, 't) chain_lib \<Rightarrow> hash \<Rightarrow> ('d, 'kp, 'ver) backend \<Rightarrow> unit common_result" where
  "coordinator_verify_not_repeat = verify_not_repeat (CoordinatorError \<circ> CoordinatorVerify)"

definition coordinator_verify_best :: "('d, 't) chain_lib \<Rightarrow> header \<Rightarrow> ('d, 'kp, 'ver) backend
    \<Rightarrow> (block_number \<times> hash \<times> header) common_result" where
  "coordinator_verify_best lib header b =
     and_then (confirmed_block (CoordinatorError \<circ> CoordinatorData) lib b) (\<lambda>confirmed.
     if \<not> (hdr_number header = fst confirmed + 1 \<and> hdr_parent_hash header = fst (snd confirmed))
     then Err (CoordinatorError (CoordinatorVerify VeNotBest)) else Ok confirmed)"

definition coordinator_verify_execution :: "header \<Rightarrow> header \<Rightarrow> ('d, 'kp, 'ver) backend \<Rightarrow> unit common_result" where
  "coordinator_verify_execution header confirmed_header b =
     verify_gap (CoordinatorError \<circ> CoordinatorVerify) (hdr_payload_execution_gap header)
       (hdr_number header - scast (hdr_payload_execution_gap header)) confirmed_header b"

definition coordinator_verify_body :: "('d, 't) chain_lib \<Rightarrow> body_data \<Rightarrow> ('d, 'kp, 'ver) backend
    \<Rightarrow> (full_transaction list \<times> full_transaction list) common_result" where
  "coordinator_verify_body lib body = verify_body (CoordinatorError \<circ> CoordinatorVerify) lib (bd_meta_txs body) (bd_payload_txs body)"

text \<open>\<open>verify_proof\<close> is the check of the consensus. The message of \<open>InvalidHeader\<close> leaves out the two headers.\<close>

definition coordinator_verify_proof :: "(header \<Rightarrow> proof_data \<Rightarrow> ('d, 'kp, 'ver) backend \<Rightarrow> unit common_result) \<Rightarrow> header
    \<Rightarrow> proof_data \<Rightarrow> ('d, 'kp, 'ver) backend \<Rightarrow> unit common_result" where
  "coordinator_verify_proof verify_proof header pf b = or_else_catch as_consensus_error
     (\<lambda>e. case e of VerifyProofError e \<Rightarrow> Some (Err (CoordinatorError (CoordinatorVerify (VeInvalidProof e)))) | _ \<Rightarrow> None)
     (verify_proof header pf b)"

definition coordinator_verify_header :: "('d, 't) chain_lib \<Rightarrow> header \<Rightarrow> proof_data \<Rightarrow> full_transaction list \<Rightarrow> full_transaction list
    \<Rightarrow> ('d, 'kp, 'ver) backend \<Rightarrow> chain_commit_block_params common_result" where
  "coordinator_verify_header lib header pf meta_txs payload_txs b =
     and_then (build_block lib \<lparr> bb_number = hdr_number header, bb_timestamp = hdr_timestamp header, bb_meta_txs = meta_txs,
        bb_payload_txs = payload_txs,
        bb_execution_number = hdr_number header - scast (hdr_payload_execution_gap header) \<rparr> b) (\<lambda>commit_block_params.
     if cb_header commit_block_params \<noteq> header
     then Err (CoordinatorError (CoordinatorVerify (VeInvalidHeader ''Invalid header'')))
     else Ok (commit_block_params\<lparr>cb_proof := pf\<rparr>))"

definition verify_block :: "('d, 't) chain_lib \<Rightarrow> (header \<Rightarrow> proof_data \<Rightarrow> ('d, 'kp, 'ver) backend \<Rightarrow> unit common_result)
    \<Rightarrow> block_data \<Rightarrow> ('d, 'kp, 'ver) backend \<Rightarrow> chain_commit_block_params common_result" where
  "verify_block lib verify_proof data b = (case (bda_header data, bda_body data, bda_proof data) of
       (Some header, Some body, Some pf) \<Rightarrow>
         and_then (coordinator_verify_not_repeat lib (bda_block_hash data) b) (\<lambda>_.
         and_then (coordinator_verify_best lib header b) (\<lambda>(_, _, confirmed_header).
         and_then (coordinator_verify_execution header confirmed_header b) (\<lambda>_.
         and_then (coordinator_verify_proof verify_proof header pf b) (\<lambda>_.
         and_then (coordinator_verify_body lib body b) (\<lambda>(meta_txs, payload_txs).
         coordinator_verify_header lib header pf meta_txs payload_txs b)))))
     | _ \<Rightarrow> Err (CoordinatorError (CoordinatorVerify VeBad)))"

end
