(* ===== verification/Consensus_Base_Laws.thy ===== *)
theory Consensus_Base_Laws
  imports Consensus_Base Chain_Theorems
begin

text \<open>
  What verification guarantees: a verified proposal or block can be committed to the chain it was verified on, and a
  proposal that was prepared and built on a chain verifies on every chain in the same state.
\<close>

text \<open>The current state in memory is that of the database.\<close>

definition current_ok :: "('d, 't) chain_lib \<Rightarrow> ('d, 'kp, 'ver) backend \<Rightarrow> bool" where
  "current_ok lib b \<longleftrightarrow> (\<exists>cur. bk_current_state b = Some cur \<and>
     get_confirmed_number lib b = Ok (Some (cur_confirmed_number cur)) \<and>
     get_block_hash lib (cur_confirmed_number cur) b = Ok (Some (cur_confirmed_block_hash cur)) \<and>
     get_execution_number lib b = Ok (Some (cur_executed_number cur)) \<and>
     get_block_hash lib (cur_executed_number cur) b = Ok (Some (cur_executed_block_hash cur)))"

lemma update_current_state_ok:
  assumes "update_current_state lib now b = (Ok (), b')"
  shows "current_ok lib b'"
proof -
  obtain cur where d: "derive_current_state lib now b = Ok cur" and b': "b' = b\<lparr>bk_current_state := Some cur\<rparr>"
    using assms by (auto simp: update_current_state_def bind_apply split: result.splits)
  have same: "read_with lib c k cd b' = read_with lib c k cd b" for c k cd by (simp add: read_with_def b')
  have "get_confirmed_number lib b = Ok (Some (cur_confirmed_number cur))"
     "get_block_hash lib (cur_confirmed_number cur) b = Ok (Some (cur_confirmed_block_hash cur))"
     "get_execution_number lib b = Ok (Some (cur_executed_number cur))"
     "get_block_hash lib (cur_executed_number cur) b = Ok (Some (cur_executed_block_hash cur))"
    using d by (auto simp: derive_current_state_def and_then_eq_Ok)
  then show ?thesis by (simp add: current_ok_def b' read_defs same [unfolded b'])
qed

section \<open>Verified blocks can be committed\<close>

lemma confirmed_block_Ok:
  assumes "current_ok lib b" "confirmed_block e lib b = Ok (n, h, hdr)"
  shows "get_confirmed_number lib b = Ok (Some n)" "get_block_hash lib n b = Ok (Some h)" "get_header lib h b = Ok (Some hdr)"
  using assms by (auto simp: current_ok_def confirmed_block_def get_current_state_def and_then_eq_Ok)

text \<open>A built block is on the block with the number before it.\<close>

lemma built_on_parent:
  assumes "build_block lib p b = Ok cp"
  shows "hdr_number (cb_header cp) = bb_number p"
    "get_block_hash lib (bb_number p - 1) b = Ok (Some (hdr_parent_hash (cb_header cp)))"
  using assms by (auto simp: build_block_def Let_def and_then_eq_Ok case_prod_unfold seal_block_Ok)

lemma chain_commit_block_Ok:
  "chain_commit_block lib now p c = (Ok (), c') \<Longrightarrow> backend_commit_block lib now p (ch_backend c) = (Ok (), ch_backend c')"
  by (auto simp: chain_commit_block_def on_backend_def bind_apply insert_task_def Let_def split: prod.splits result.splits if_splits)

lemma built_only_col:
  assumes "well_behaved (cl_dispatcher lib)" "chain_ok lib b" "build_block lib p b = Ok cp"
  shows "only_col META_STATE (cb_meta_transaction cp)"
  by (rule build_block_Ok [OF assms(1,3)]) (use assms(2) in \<open>simp add: chain_ok_def\<close>)

lemma commit_block_not_refused:
  assumes "get_header lib (cb_block_hash cp) b = Ok None" "get_confirmed_number lib b = Ok (Some n)"
    "get_block_hash lib n b = Ok (Some (hdr_parent_hash (cb_header cp)))" "hdr_number (cb_header cp) = n + 1"
  shows "backend_commit_block lib now cp b =
    bind (write_db lib (commit_block_ops (cl_codecs lib) cp transaction_new)) (\<lambda>_.
      on_block_committed lib now (n + 1) (cb_block_hash cp)) b"
  using assms by (simp add: backend_commit_block_def Let_def bind_apply)

lemma sort_txs_filter:
  "sort_txs lib b txs (i, m, p) = Ok (i', m', p') \<Longrightarrow>
    i' = i @ filter (\<lambda>tx. tx_invalid lib b tx = Ok True) txs \<and>
    m' = m @ filter (\<lambda>tx. tx_invalid lib b tx = Ok False \<and> is_meta_call (cl_dispatcher lib) (tx_call (ftx_tx tx)) = Ok True) txs \<and>
    p' = p @ filter (\<lambda>tx. tx_invalid lib b tx = Ok False \<and> is_meta_call (cl_dispatcher lib) (tx_call (ftx_tx tx)) = Ok False) txs"
proof (induction txs arbitrary: i m p)
  case (Cons tx txs)
  then obtain inv where inv: "tx_invalid lib b tx = Ok inv" by (auto simp: and_then_eq_Ok)
  show ?case
  proof (cases inv)
    case True
    then show ?thesis using Cons.IH [of "i @ [tx]" m p] Cons.prems inv by simp
  next
    case False
    then obtain q where q: "is_meta_call (cl_dispatcher lib) (tx_call (ftx_tx tx)) = Ok q"
      using Cons.prems inv by (auto simp: and_then_eq_Ok)
    then show ?thesis
      using Cons.IH [of i "m @ [tx]" p] Cons.IH [of i m "p @ [tx]"] Cons.prems inv False by (cases q) simp_all
  qed
qed simp

lemma tx_invalid_False: "tx_invalid lib b tx = Ok False \<longleftrightarrow> backend_validate_transaction lib (ftx_hash tx) (ftx_tx tx) True b = Ok ()"
  by (cases "backend_validate_transaction lib (ftx_hash tx) (ftx_tx tx) True b")
    (auto simp: tx_invalid_def split: option.splits chain_error.splits)

definition pool_hashes :: "('d, 't) chain_lib \<Rightarrow> ('d, 'kp, 'ver) backend \<Rightarrow> full_transaction list \<Rightarrow> bool" where
  "pool_hashes lib b txs \<longleftrightarrow> distinct (map ftx_hash txs) \<and>
     (\<forall>tx\<in>set txs. hash_transaction (bk_executor b) (cc_exec (cl_codecs lib)) (ftx_tx tx) = Ok (ftx_hash tx))"

lemma get_verified_txs_valid:
  assumes "pool_hashes lib b txs" "\<forall>tx\<in>set txs. backend_validate_transaction lib (ftx_hash tx) (ftx_tx tx) True b = Ok ()"
    "set sh \<inter> ftx_hash ` set txs = {}"
  shows "get_verified_txs err lib b (map ftx_tx txs) sh = Ok txs"
  using assms by (induction txs arbitrary: sh) (auto simp: pool_hashes_def verify_transaction_def)

lemma prepare_block_Ok:
  assumes "prepare_block lib ts s = (Ok p, s')"
  obtains cur where "bk_current_state (sup_backend s) = Some cur" "bb_number p = cur_confirmed_number cur + 1"
    "bb_timestamp p = ts" "bb_execution_number p = cur_executed_number cur"
    "bb_meta_txs p = filter (\<lambda>tx. tx_invalid lib (sup_backend s) tx = Ok False \<and>
       is_meta_call (cl_dispatcher lib) (tx_call (ftx_tx tx)) = Ok True) (tp_queue (sup_txpool s))"
    "bb_payload_txs p = filter (\<lambda>tx. tx_invalid lib (sup_backend s) tx = Ok False \<and>
       is_meta_call (cl_dispatcher lib) (tx_call (ftx_tx tx)) = Ok False) (tp_queue (sup_txpool s))"
    "sint (ucast (bb_number p - bb_execution_number p) :: execution_gap) \<le> sint (sys_max_execution_gap (cur_system_meta cur))"
    "sup_chain s' = sup_chain s"
  using assms
  by (auto simp: prepare_block_def bind_apply read_chain_def get_current_state_def Let_def txpool_get_transactions_def
      txpool_remove_transactions_def on_txpool_def txpool_remove_def fail_if_apply not_less
      split: result.splits if_splits option.splits dest!: sort_txs_filter)

lemma chain_ok_current:
  assumes "chain_ok lib b" "current_ok lib b" "bk_current_state b = Some cur"
  shows "cur_executed_number cur \<le> cur_confirmed_number cur" "cur_confirmed_number cur + 1 \<noteq> 0"
    "\<exists>hdr. get_header lib (cur_confirmed_block_hash cur) b = Ok (Some hdr) \<and> hdr_number hdr = cur_confirmed_number cur"
  using assms by (auto simp: chain_ok_def current_ok_def linked_def)

lemma commit_block_fresh:
  assumes "chain_lib_ok lib absd" "only_col META_STATE (cb_meta_transaction cp)"
    and c: "get_header lib (cb_block_hash cp) b = Ok None" "get_confirmed_number lib b = Ok (Some n)"
    "get_block_hash lib n b = Ok (Some (hdr_parent_hash (cb_header cp)))" "hdr_number (cb_header cp) = n + 1"
    and run: "backend_commit_block lib now cp b = (r, b')"
  shows "block_added lib cp b b'"
proof -
  obtain d where w: "write_db lib (commit_block_ops (cl_codecs lib) cp transaction_new) b = (Ok (), b\<lparr>bk_db := d\<rparr>)"
      "block_added lib cp b (b\<lparr>bk_db := d\<rparr>)"
    using commit_block_written [OF assms(1,2)] by blast
  have "on_block_committed lib now (n + 1) (cb_block_hash cp) (b\<lparr>bk_db := d\<rparr>) = (r, b')"
    using run by (simp add: commit_block_not_refused [OF c] bind_apply w(1))
  then have "notified (b\<lparr>bk_db := d\<rparr>) b'"
    by (rule keepsD [OF keeps_notified(1) notified_refl])
  then show ?thesis by (rule added_notified(1) [OF _ w(2)])
qed

definition ex_proposal :: "chain_commit_block_params \<Rightarrow> proposal" where
  "ex_proposal cp = \<lparr> pro_parent_hash = Hash [0], pro_block_hash = cb_block_hash cp, pro_number = 1, pro_timestamp = 4,
     pro_meta_txs = [], pro_payload_txs = [], pro_execution_number = 0 \<rparr>"

lemma build_block_notified:
  assumes "notified b b'"
  shows "build_block lib p b' = build_block lib p b"
proof -
  have s: "bk_executor b' = bk_executor b" "bk_db b' = bk_db b" "bk_meta_statedb b' = bk_meta_statedb b"
    "bk_payload_statedb b' = bk_payload_statedb b" "bk_trie_root b' = bk_trie_root b"
    using assms by (simp_all add: notified_def same_setup_def)
  have "new_essence b' = new_essence b" "new_context lib b' = new_context lib b" "show_hash b' = show_hash b"
    by (simp_all add: fun_eq_iff new_essence_def new_context_def show_hash_def s)
  moreover have "seal_block lib p ph x c b' = seal_block lib p ph x c b" for ph x c
    by (simp add: seal_block_def backend_hash_header_def s)
  ultimately show ?thesis
    by (simp add: build_block_def read_notified [OF assms] s)
qed

lemma ex_chain_state:
  "\<exists>cur s. let b = (ex_chain0 null_trie)\<lparr>bk_current_state := Some cur\<rparr> in notified (ex_chain0 null_trie) b \<and>
     cur_confirmed_number cur = 0 \<and> cur_executed_number cur = 0 \<and> cur_confirmed_block_hash cur = Hash [0] \<and> cur_system_meta cur = ex_meta \<and>
     chain_ok (ex_chain_lib null_trie) b \<and> current_ok (ex_chain_lib null_trie) b \<and>
     new_context (ex_chain_lib null_trie) b (cur_context_essence cur) = Ok s"
proof -
  let ?lib = "ex_chain_lib null_trie" and ?b = "ex_chain0 null_trie"
  note f = ex_chain0_facts [where tries = null_trie]
  have o: "opens ?lib ?b (hdr_meta_state_root (ex_header 0 zero_hash)) (exe_payload_execution_state_root (ce_execution ex_genesis_execution))"
    using opens_zero [OF f(2)] by simp
  obtain cur s where d: "derive_current_state ?lib (Some 5) ?b = Ok cur" "cur_system_meta cur = ex_meta"
      "new_context ?lib ?b (cur_context_essence cur) = Ok s"
    using derive_current_state_Ok [where t = 5, OF f(3,5,6) f(4,5,7) f(7) f(5) o] o by auto
  have u: "update_current_state ?lib (Some 5) ?b = (Ok (), ?b\<lparr>bk_current_state := Some cur\<rparr>)"
    using d(1) by (simp add: update_current_state_def bind_apply)
  have n: "notified ?b (?b\<lparr>bk_current_state := Some cur\<rparr>)"
    by (simp add: notified_def same_setup_def)
  have "cur_confirmed_number cur = 0" "cur_executed_number cur = 0" "cur_confirmed_block_hash cur = Hash [0]"
    using d(1) f(3-5) by (auto simp: derive_current_state_def and_then_eq_Ok)
  moreover have "chain_ok ?lib (?b\<lparr>bk_current_state := Some cur\<rparr>)" "current_ok ?lib (?b\<lparr>bk_current_state := Some cur\<rparr>)"
    using chain_ok_notified [OF n f(1)] update_current_state_ok [OF u] by auto
  ultimately show ?thesis
    using n d(2,3) by (intro exI [of _ cur] exI [of _ s]) (simp add: Let_def new_context_def)
qed

lemma ex_chain_current:
  "\<exists>cur cp. let b = (ex_chain0 null_trie)\<lparr>bk_current_state := Some cur\<rparr> in
     cur_confirmed_number cur = 0 \<and> cur_executed_number cur = 0 \<and> cur_confirmed_block_hash cur = Hash [0] \<and> cur_system_meta cur = ex_meta \<and>
     chain_ok (ex_chain_lib null_trie) b \<and> current_ok (ex_chain_lib null_trie) b \<and>
     build_block (ex_chain_lib null_trie) ex_build b = Ok cp \<and> cb_block_hash cp \<noteq> Hash [0] \<and>
     get_header (ex_chain_lib null_trie) (Hash [0]) b = Ok (Some (ex_header 0 zero_hash)) \<and>
     get_header (ex_chain_lib null_trie) (cb_block_hash cp) b = Ok None \<and>
     hdr_meta_state_root (cb_header cp) = ones_hash \<and> only_col META_STATE (cb_meta_transaction cp) \<and>
     hdr_number (cb_header cp) = 1 \<and> hdr_parent_hash (cb_header cp) = Hash [0]"
proof -
  let ?lib = "ex_chain_lib null_trie" and ?b = "ex_chain0 null_trie"
  note f = ex_chain0_facts [where tries = null_trie]
  obtain cur s where n: "notified ?b (?b\<lparr>bk_current_state := Some cur\<rparr>)"
    and c: "cur_confirmed_number cur = 0" "cur_executed_number cur = 0" "cur_confirmed_block_hash cur = Hash [0]" "cur_system_meta cur = ex_meta"
      "chain_ok ?lib (?b\<lparr>bk_current_state := Some cur\<rparr>)" "current_ok ?lib (?b\<lparr>bk_current_state := Some cur\<rparr>)"
    using ex_chain_state by (auto simp: Let_def)
  have sd: "sd_hash_length (bk_meta_statedb ?b) = HashLength32"
    using f(2) by (simp add: ex_setup_def same_setup_def ex_backend_def)
  obtain cp where cp: "build_block ?lib ex_build ?b = Ok cp" "cb_block_hash cp \<noteq> Hash [0]"
      "hdr_meta_state_root (cb_header cp) = ones_hash" "only_col META_STATE (cb_meta_transaction cp)"
      "hdr_number (cb_header cp) = 1" "hdr_parent_hash (cb_header cp) = Hash [0]"
    using ex_build_first [OF null_prepare_update [OF sd]] by (auto simp: ones_hash_def)
  show ?thesis
    using c cp f(6) f(8) [OF cp(2)] by (intro exI [of _ cur] exI [of _ cp]) (simp add: Let_def read_notified [OF n] build_block_notified [OF n])
qed

text \<open>The same block with a transaction: a signed call of a method of the system module.\<close>

definition ex_ftx :: full_transaction where
  "ex_ftx = \<lparr> ftx_tx = ex_tx, ftx_hash = Hash (hi_hash ex_hash (enc ex_call_codec (tx_call ex_tx))) \<rparr>"

definition ex_build_tx :: build_block_params where
  "ex_build_tx = ex_build\<lparr>bb_meta_txs := [ex_ftx]\<rparr>"

lemma ex_ftx_meta: "is_meta_call (cl_dispatcher (ex_chain_lib tries)) (tx_call ex_tx) = Ok True"
  by (simp add: is_meta_call_def dispatch_is_meta_def ex_chain_lib_def fixed_system_def ex_tx_def Let_def)

lemma ex_ftx_executed:
  assumes "exec_inv s" "\<not> xc_payload_phase s"
  shows "\<exists>s'. execute_txs xe (cl_dispatcher (ex_chain_lib tries)) [ex_ftx] s = (Ok (), s') \<and> based s s'"
proof -
  have d: "dispatch_execute_call fixed_system ''system'' w (tx_call ex_tx) s = (Ok (Ok []), s)" for s w
    by (simp add: dispatch_execute_call_def fixed_system_def bind_apply dispatch_result_def module_execute_call_def
        ex_tx_def Let_def mk_method_def decode_params_def bytes_codec_def decode_def encode_def unit_codec_def)
  have "\<exists>r s'. execute_tx xe fixed_system ex_ftx s = (Ok r, s') \<and> xc_payload_phase s' = xc_payload_phase s"
    using d by (simp add: execute_tx_def Let_def bind_apply set_call_env_def settle_def xc_op_defs map_err_comp_def ex_ftx_def ex_tx_def)
  then obtain s' where "execute_txs xe fixed_system [ex_ftx] s = (Ok (), s')"
    using assms(2) by (auto simp: execute_txs_def bind_apply dispatch_is_meta_def fixed_system_def ex_ftx_def ex_tx_def Let_def fail_if_def)
  then have e: "execute_txs xe (cl_dispatcher (ex_chain_lib tries)) [ex_ftx] s = (Ok (), s')"
    by (simp add: ex_chain_lib_def)
  moreover have "based s s'"
    by (rule keepsD [OF execute_txs_based [OF fixed_system_well_behaved] _ e]) (use assms(1) in \<open>simp add: based_def same_base_def\<close>)
  ultimately show ?thesis by blast
qed

lemma ex_build_tx_on:
  assumes b: "ex_setup b" "get_block_hash (ex_chain_lib null_trie) 0 b = Ok (Some (Hash [0]))"
      "get_header (ex_chain_lib null_trie) (Hash [0]) b = Ok (Some (ex_header 0 zero_hash))"
      "get_execution (ex_chain_lib null_trie) (Hash [0]) b = Ok (Some (ce_execution ex_genesis_execution))"
  shows "\<exists>cp. build_block (ex_chain_lib null_trie) ex_build_tx b = Ok cp \<and> hdr_meta_state_root (cb_header cp) = ones_hash \<and>
    cb_meta_transaction cp = [] \<and> hdr_number (cb_header cp) = 1 \<and> hdr_parent_hash (cb_header cp) = Hash [0] \<and> cb_block_hash cp \<noteq> Hash [0]"
proof -
  let ?lib = "ex_chain_lib null_trie"
  obtain e s where e: "new_essence b \<lparr> env_number = 1, env_timestamp = 4 \<rparr> zero_hash zero_hash = Ok e" "new_context ?lib b e = Ok s"
    using opens_zero [OF b(1), of null_trie] unfolding opens_def by blast
  note c = context_of_essence [OF e]
  obtain s' where s': "execute_txs (bk_executor b) (cl_dispatcher ?lib) [ex_ftx] s = (Ok (), s')" "based s s'"
    using ex_ftx_executed [OF c(1,11)] by blast
  have "sd_hash_length (bk_meta_statedb b) = HashLength32" "xe_hash (bk_executor b) = ex_hash"
    using b(1) by (simp_all add: ex_setup_def same_setup_def ex_backend_def executor_new_def)
  moreover have "get_meta_update mem_rocks null_trie (bk_db b) s' = Ok (ones_hash, [])"
    using s'(2) c(3,4) calculation(1) by (simp add: get_meta_update_def null_prepare_update based_def same_base_def zero_hash_def ones_hash_def)
  ultimately show ?thesis
    using b e s'(1)
    by (simp add: build_block_def ex_build_tx_def ex_build_def Let_def seal_block_def get_meta_txs_def get_txs_root_def get_meta_receipts_def
        receipts_root_def collect_all_Ok encode_def backend_hash_header_def exec_hash_def hash_slice_def ex_hash_def ex_chain_codecs_def)
qed

lemma ex_chain_current_tx:
  "\<exists>cur cp. let b = (ex_chain0 null_trie)\<lparr>bk_current_state := Some cur\<rparr> in
     cur_confirmed_number cur = 0 \<and> cur_executed_number cur = 0 \<and> cur_confirmed_block_hash cur = Hash [0] \<and> cur_system_meta cur = ex_meta \<and>
     chain_ok (ex_chain_lib null_trie) b \<and> current_ok (ex_chain_lib null_trie) b \<and>
     build_block (ex_chain_lib null_trie) ex_build_tx b = Ok cp \<and> cb_block_hash cp \<noteq> Hash [0] \<and>
     get_header (ex_chain_lib null_trie) (Hash [0]) b = Ok (Some (ex_header 0 zero_hash)) \<and>
     get_header (ex_chain_lib null_trie) (cb_block_hash cp) b = Ok None \<and>
     hdr_meta_state_root (cb_header cp) = ones_hash \<and> cb_meta_transaction cp = [] \<and>
     hdr_number (cb_header cp) = 1 \<and> hdr_parent_hash (cb_header cp) = Hash [0] \<and>
     hash_transaction (bk_executor b) (cc_exec (cl_codecs (ex_chain_lib null_trie))) ex_tx = Ok (ftx_hash ex_ftx) \<and>
     backend_validate_transaction (ex_chain_lib null_trie) (ftx_hash ex_ftx) ex_tx True b = Ok ()"
proof -
  let ?lib = "ex_chain_lib null_trie" and ?b = "ex_chain0 null_trie"
  note f = ex_chain0_facts [where tries = null_trie]
  obtain cur s where n: "notified ?b (?b\<lparr>bk_current_state := Some cur\<rparr>)"
    and c: "cur_confirmed_number cur = 0" "cur_executed_number cur = 0" "cur_confirmed_block_hash cur = Hash [0]" "cur_system_meta cur = ex_meta"
      "chain_ok ?lib (?b\<lparr>bk_current_state := Some cur\<rparr>)" "current_ok ?lib (?b\<lparr>bk_current_state := Some cur\<rparr>)"
    and ctx: "new_context ?lib (?b\<lparr>bk_current_state := Some cur\<rparr>) (cur_context_essence cur) = Ok s"
    using ex_chain_state by (auto simp: Let_def)
  obtain cp where cp: "build_block ?lib ex_build_tx ?b = Ok cp" "cb_block_hash cp \<noteq> Hash [0]"
      "hdr_meta_state_root (cb_header cp) = ones_hash" "cb_meta_transaction cp = []"
      "hdr_number (cb_header cp) = 1" "hdr_parent_hash (cb_header cp) = Hash [0]"
    using ex_build_tx_on [OF f(2,5-7)] by auto
  have xe: "xe_dsa (bk_executor ?b) = ex_dsa" "xe_hash (bk_executor ?b) = ex_hash"
    using f(2) by (simp_all add: ex_setup_def same_setup_def ex_backend_def executor_new_def)
  have "get_transaction ?lib h (?b\<lparr>bk_current_state := Some cur\<rparr>) = Ok None" for h
    using f(10) by (simp add: get_transaction_def read_with_eq [OF ex_chain_lib_ok])
  moreover have "validate_until cur ex_tx = Ok ()"
    by (simp add: validate_until_def ex_tx_def Let_def c ex_meta_def word_le_nat_alt)
  moreover have "validate_tx (bk_executor ?b) (cc_message (cl_codecs ?lib)) (cl_dispatcher ?lib) ex_tx True s = (Ok (), s)"
    by (simp add: validate_tx_def verify_witness_def ex_tx_def Let_def xe ex_dsa_def ex_chain_codecs_def encode_def bind_apply
      dispatch_validate_call_def fixed_system_def dispatch_result_def module_validate_call_def dispatch_is_write_call_def module_is_write_call_def bytes_codec_def
        get_meta_call_def mk_method_def decode_params_def decode_def ex_chain_lib_def)
  ultimately have "backend_validate_transaction ?lib (ftx_hash ex_ftx) ex_tx True (?b\<lparr>bk_current_state := Some cur\<rparr>) = Ok ()"
    using ctx by (simp add: backend_validate_transaction_def get_current_state_def read_notified [OF n])
  moreover have "hash_transaction (bk_executor ?b) (cc_exec (cl_codecs ?lib)) ex_tx = Ok (ftx_hash ex_ftx)"
    by (simp add: hash_transaction_def exec_hash_def encode_def ex_chain_codecs_def transaction_for_hash_new_def hash_slice_def xe ex_ftx_def)
  ultimately show ?thesis
    using c cp f(6) f(8) [OF cp(2)] by (intro exI [of _ cur] exI [of _ cp]) (simp add: Let_def read_notified [OF n] build_block_notified [OF n])
qed

lemma ex_proposal_verifies:
  assumes "bk_current_state b = Some cur" "cur_confirmed_number cur = 0" "cur_executed_number cur = 0" "cur_confirmed_block_hash cur = Hash [0]"
    "cur_system_meta cur = ex_meta" "build_block (ex_chain_lib null_trie) ex_build b = Ok cp"
    "get_header (ex_chain_lib null_trie) (Hash [0]) b = Ok (Some (ex_header 0 zero_hash))"
    "get_header (ex_chain_lib null_trie) (cb_block_hash cp) b = Ok None"
  shows "verify_proposal (ex_chain_lib null_trie) (ex_proposal cp) b = Ok (ex_proposal cp, cp)"
  using assms
  by (simp add: verify_proposal_def ex_proposal_def Let_def verify_not_repeat_def verify_best_def confirmed_block_def get_current_state_def
      verify_execution_def verify_gap_def ex_meta_def verify_body_def verify_header_def ex_build_def ex_header_def)

lemma ex_consensus_call:
  assumes "get_block_hash (ex_chain_lib tries) n b = Ok (Some h)" "get_header (ex_chain_lib tries) h b = Ok (Some hdr)"
    "get_execution (ex_chain_lib tries) h b = Ok (Some x)" "opens (ex_chain_lib tries) b (hdr_meta_state_root hdr) (exe_payload_execution_state_root x)"
    "\<And>s. execute_call (cl_dispatcher (ex_chain_lib tries)) None \<lparr> call_module = m, call_method = f, call_params = Params [] \<rparr> s = (Ok (Ok (enc c v)), s)"
    "codec_ok c"
  shows "consensus_call (ex_chain_lib tries) m f c n b = Ok v"
proof -
  let ?lib = "ex_chain_lib tries"
  obtain e s where e: "new_essence b \<lparr> env_number = hdr_number hdr, env_timestamp = hdr_timestamp hdr \<rparr> (hdr_meta_state_root hdr)
      (exe_payload_execution_state_root x) = Ok e" "new_context ?lib b e = Ok s"
    using assms(4) unfolding opens_def by blast
  then have "backend_execute_call ?lib h None \<lparr> call_module = m, call_method = f, call_params = Params [] \<rparr> b = Ok (Ok (enc c v))"
    using assms(2,3,5) by (simp add: backend_execute_call_def)
  then show ?thesis
    using assms(1,6) by (simp add: consensus_call_def execute_call_with_block_number_def execute_call_with_block_hash_def build_call_def
        ex_chain_codecs_def unit_codec_def decode_encode)
qed

lemma ex_fixed_calls:
  "execute_call (cl_dispatcher (ex_chain_lib tries)) None \<lparr> call_module = ''poa'', call_method = ''get_authority'', call_params = Params [] \<rparr> s
     = (Ok (Ok (enc address_codec (Address [7]))), s)"
  "execute_call (cl_dispatcher (ex_chain_lib tries)) None \<lparr> call_module = ''hotstuff'', call_method = ''get_authorities'', call_params = Params [] \<rparr> s
     = (Ok (Ok (enc ex_authorities_codec ex_authorities)), s)"
  "execute_call (cl_dispatcher (ex_chain_lib tries)) None \<lparr> call_module = ''hotstuff'', call_method = ''get_meta'', call_params = Params [] \<rparr> s
     = (Ok (Ok (enc ex_hs_meta_codec ex_hs_meta)), s)"
  "execute_call (cl_dispatcher (ex_chain_lib tries)) None \<lparr> call_module = ''raft'', call_method = ''get_authorities'', call_params = Params [] \<rparr> s
     = (Ok (Ok (enc ex_raft_authorities_codec ex_raft_authorities)), s)"
  "execute_call (cl_dispatcher (ex_chain_lib tries)) None \<lparr> call_module = ''raft'', call_method = ''get_meta'', call_params = Params [] \<rparr> s
     = (Ok (Ok (enc ex_raft_meta_codec ex_raft_meta)), s)"
  by (simp_all add: execute_call_def ex_chain_lib_def bind_apply dispatch_validate_call_def dispatch_execute_call_def fixed_system_def
      dispatch_result_def module_validate_call_def module_execute_call_def mk_method_def decode_params_def decode_def encode_def unit_codec_def)

text \<open>C21: a proposal that verifies can be committed: whatever the notifications report afterwards, the block is on the chain
  as its confirmed block, with the hash and the number of the proposal, and the chain below it is unchanged.\<close>

theorem verified_proposal_commits:
  assumes lib: "chain_lib_ok lib absd" "well_behaved (cl_dispatcher lib)" and b: "chain_ok lib b" "current_ok lib b"
    and v: "verify_proposal lib p b = Ok (p', cp)" and num: "pro_number p + 1 \<noteq> 0"
    and run: "backend_commit_block lib now cp b = (r, b')"
  shows "get_confirmed_number lib b' = Ok (Some (pro_number p)) \<and> get_block_hash lib (pro_number p) b' = Ok (Some (pro_block_hash p)) \<and>
    get_header lib (pro_block_hash p) b' = Ok (Some (cb_header cp)) \<and> hdr_parent_hash (cb_header cp) = pro_parent_hash p \<and>
    chain_ok lib b' \<and> extends lib b b'"
proof -
  obtain n h hdr m q where
    fresh: "get_header lib (pro_block_hash p) b = Ok None" and
    cb: "confirmed_block (ConsensusError \<circ> ConsensusData) lib b = Ok (n, h, hdr)" "pro_number p = n + 1" "pro_parent_hash p = h" and
    build: "build_block lib \<lparr> bb_number = pro_number p, bb_timestamp = pro_timestamp p, bb_meta_txs = m, bb_payload_txs = q,
        bb_execution_number = pro_execution_number p \<rparr> b = Ok cp" and
    hash: "cb_block_hash cp = pro_block_hash p"
    using v by (auto simp: verify_proposal_def Let_def and_then_eq_Ok verify_not_repeat_def verify_best_def verify_header_def
        split: if_splits)
  note c = confirmed_block_Ok [OF b(2) cb(1)]
  note o = built_on_parent [OF build]
  have p: "hdr_number (cb_header cp) = n + 1" "hdr_parent_hash (cb_header cp) = h" using o cb(2) c(2) by simp_all
  note col = built_only_col [OF lib(2) b(1) build]
  have "n + 1 \<noteq> 0" using b(1) c(1) by (auto simp: chain_ok_def)
  then have ok: "chain_ok lib b' \<and> extends lib b b'"
    using commit_block_ok [OF lib(1) col _ _ b(1) run] num p(1) cb(2) by simp
  have "block_added lib cp b b'"
    by (rule commit_block_fresh [OF lib(1) col _ c(1) _ p(1) run]) (simp_all add: fresh hash c(2) p(2))
  then show ?thesis using ok hash p cb(2,3) by (simp add: block_added_def)
qed


theorem verified_proposal_commits_witness:
  "\<exists>b cp b' r. verify_proposal (ex_chain_lib null_trie) (ex_proposal cp) b = Ok (ex_proposal cp, cp) \<and>
    backend_commit_block (ex_chain_lib null_trie) (Some 5) cp (b :: (mem_db, bytes, bytes) backend) = (r, b') \<and>
    get_confirmed_number (ex_chain_lib null_trie) b' = Ok (Some 1) \<and>
    get_block_hash (ex_chain_lib null_trie) 1 b' = Ok (Some (cb_block_hash cp)) \<and> chain_ok (ex_chain_lib null_trie) b'"
proof -
  let ?lib = "ex_chain_lib null_trie"
  obtain cur cp where e: "cur_confirmed_number cur = 0" "cur_executed_number cur = 0" "cur_confirmed_block_hash cur = Hash [0]"
      "cur_system_meta cur = ex_meta"
    and b: "chain_ok ?lib ((ex_chain0 null_trie)\<lparr>bk_current_state := Some cur\<rparr>)" "current_ok ?lib ((ex_chain0 null_trie)\<lparr>bk_current_state := Some cur\<rparr>)"
      "build_block ?lib ex_build ((ex_chain0 null_trie)\<lparr>bk_current_state := Some cur\<rparr>) = Ok cp"
      "get_header ?lib (Hash [0]) ((ex_chain0 null_trie)\<lparr>bk_current_state := Some cur\<rparr>) = Ok (Some (ex_header 0 zero_hash))"
      "get_header ?lib (cb_block_hash cp) ((ex_chain0 null_trie)\<lparr>bk_current_state := Some cur\<rparr>) = Ok None"
    using ex_chain_current by (auto simp: Let_def)
  let ?b = "(ex_chain0 null_trie)\<lparr>bk_current_state := Some cur\<rparr>"
  have v: "verify_proposal ?lib (ex_proposal cp) ?b = Ok (ex_proposal cp, cp)"
    by (rule ex_proposal_verifies [OF _ e b(3-5)]) simp
  obtain r b' where c: "backend_commit_block ?lib (Some 5) cp ?b = (r, b')" by fastforce
  show ?thesis
    using verified_proposal_commits [OF ex_chain_lib_ok fixed_system_well_behaved b(1,2) v _ c] v c by (auto simp: ex_proposal_def)
qed

lemma gap_pos:
  assumes "(c :: u64) - e < 127"
  shows "1 \<le> sint (ucast (c + 1 - e) :: execution_gap)"
proof -
  have d: "unat (c - e) < 127" using assms by (simp add: word_less_nat_alt)
  have eq: "c + 1 - e = (c - e) + 1" by simp
  have x: "unat (c + 1 - e) = Suc (unat (c - e))"
    unfolding eq using d unat_add_lem [of "c - e" 1] by simp
  then have "c + 1 - e < 128" using d by (simp add: word_less_nat_alt)
  then have "sint (ucast (c + 1 - e) :: execution_gap) = int (Suc (unat (c - e)))"
    using gap_sint x by (metis uint_nat)
  then show ?thesis by simp
qed

text \<open>C22: a block that is prepared from the pool and built is accepted by the verifier of a node whose chain is in the same
  state: its proposal verifies and gives the same block. This holds when the transactions of the pool are distinct and listed under
  their hashes, the executed block is less than 127 blocks behind the confirmed one and not before the one that the confirmed
  block recorded, and the chain has no block with the new block's hash.\<close>

theorem prepared_block_verifies:
  assumes b: "chain_ok lib (sup_backend s)" "current_ok lib (sup_backend s)" and cur: "bk_current_state (sup_backend s) = Some cur"
    and pool: "pool_hashes lib (sup_backend s) (tp_queue (sup_txpool s))"
    and prep: "prepare_block lib ts s = (Ok p, s')" and build: "build_block lib p (sup_backend s) = Ok cp"
    and fresh: "get_header lib (cb_block_hash cp) (sup_backend s) = Ok None"
    and gap: "cur_confirmed_number cur - cur_executed_number cur < 127"
    and rec: "\<And>hdr. get_header lib (cur_confirmed_block_hash cur) (sup_backend s) = Ok (Some hdr) \<Longrightarrow>
      hdr_number hdr - scast (hdr_payload_execution_gap hdr) \<le> cur_executed_number cur"
  shows "\<exists>pr. pro_block_hash pr = cb_block_hash cp \<and> pro_number pr = bb_number p \<and>
    pro_meta_txs pr = map ftx_tx (bb_meta_txs p) \<and> pro_payload_txs pr = map ftx_tx (bb_payload_txs p) \<and>
    verify_proposal lib pr (sup_backend s) = Ok (pr, cp)"
proof -
  let ?b = "sup_backend s"
  obtain cur' where p: "bk_current_state ?b = Some cur'" "bb_number p = cur_confirmed_number cur' + 1"
    "bb_execution_number p = cur_executed_number cur'"
    "bb_meta_txs p = filter (\<lambda>tx. tx_invalid lib ?b tx = Ok False \<and> is_meta_call (cl_dispatcher lib) (tx_call (ftx_tx tx)) = Ok True) (tp_queue (sup_txpool s))"
    "bb_payload_txs p = filter (\<lambda>tx. tx_invalid lib ?b tx = Ok False \<and> is_meta_call (cl_dispatcher lib) (tx_call (ftx_tx tx)) = Ok False) (tp_queue (sup_txpool s))"
    "sint (ucast (bb_number p - bb_execution_number p) :: execution_gap) \<le> sint (sys_max_execution_gap (cur_system_meta cur'))"
    by (rule prepare_block_Ok [OF prep])
  have [simp]: "cur' = cur" using p(1) cur by simp
  note co = chain_ok_current [OF b cur]
  obtain hdr where hdr: "get_header lib (cur_confirmed_block_hash cur) ?b = Ok (Some hdr)" using co(3) by blast
  note o = built_on_parent [OF build]
  have parent: "hdr_parent_hash (cb_header cp) = cur_confirmed_block_hash cur"
    using o(2) b(2) cur by (auto simp: current_ok_def p(2))
  have body: "pool_hashes lib ?b (filter P (tp_queue (sup_txpool s)))" for P
    using pool by (auto simp: pool_hashes_def distinct_map_filter)
  have txs: "get_verified_txs err lib ?b (map ftx_tx (bb_meta_txs p)) [] = Ok (bb_meta_txs p)"
    "get_verified_txs err lib ?b (map ftx_tx (bb_payload_txs p)) [] = Ok (bb_payload_txs p)" for err
    by (rule get_verified_txs_valid; use body in \<open>simp add: p(4,5) tx_invalid_False\<close>)+
  have gap1: "1 \<le> sint (ucast (bb_number p - bb_execution_number p) :: execution_gap)"
    using gap_pos [OF gap] by (simp add: p(2,3))
  let ?pr = "\<lparr> pro_parent_hash = hdr_parent_hash (cb_header cp), pro_block_hash = cb_block_hash cp, pro_number = bb_number p,
     pro_timestamp = bb_timestamp p, pro_meta_txs = map ftx_tx (bb_meta_txs p), pro_payload_txs = map ftx_tx (bb_payload_txs p),
     pro_execution_number = bb_execution_number p \<rparr>"
  have eta: "\<lparr> bb_number = bb_number p, bb_timestamp = bb_timestamp p, bb_meta_txs = bb_meta_txs p, bb_payload_txs = bb_payload_txs p,
      bb_execution_number = bb_execution_number p \<rparr> = p" by simp
  have "verify_execution err (bb_number p) (bb_execution_number p) hdr ?b = Ok ()" for err
    using p(3,6) gap1 rec [OF hdr] cur by (simp add: verify_execution_def verify_gap_def get_current_state_def not_less)
  moreover have "verify_best lib (bb_number p) (hdr_parent_hash (cb_header cp)) ?b = Ok (cur_confirmed_number cur, cur_confirmed_block_hash cur, hdr)"
    using cur hdr parent p(2) by (simp add: verify_best_def confirmed_block_def get_current_state_def)
  ultimately have "verify_proposal lib ?pr ?b = Ok (?pr, cp)"
    using fresh build by (simp add: verify_proposal_def Let_def verify_not_repeat_def verify_body_def txs verify_header_def eta)
  then show ?thesis by (intro exI [of _ ?pr]) simp
qed

theorem prepared_block_verifies_witness:
  "\<exists>s p s' cp pr. prepare_block (ex_chain_lib null_trie) 4 (s :: (mem_db, bytes, bytes) support) = (Ok p, s') \<and> bb_meta_txs p = [ex_ftx] \<and>
    build_block (ex_chain_lib null_trie) p (sup_backend s) = Ok cp \<and> pro_block_hash pr = cb_block_hash cp \<and> pro_meta_txs pr = [ex_tx] \<and>
    verify_proposal (ex_chain_lib null_trie) pr (sup_backend s) = Ok (pr, cp)"
proof -
  let ?lib = "ex_chain_lib null_trie"
  obtain cur cp where e: "cur_confirmed_number cur = 0" "cur_executed_number cur = 0" "cur_confirmed_block_hash cur = Hash [0]"
      "cur_system_meta cur = ex_meta"
    and b: "chain_ok ?lib ((ex_chain0 null_trie)\<lparr>bk_current_state := Some cur\<rparr>)" "current_ok ?lib ((ex_chain0 null_trie)\<lparr>bk_current_state := Some cur\<rparr>)"
      "build_block ?lib ex_build_tx ((ex_chain0 null_trie)\<lparr>bk_current_state := Some cur\<rparr>) = Ok cp"
      "get_header ?lib (Hash [0]) ((ex_chain0 null_trie)\<lparr>bk_current_state := Some cur\<rparr>) = Ok (Some (ex_header 0 zero_hash))"
      "get_header ?lib (cb_block_hash cp) ((ex_chain0 null_trie)\<lparr>bk_current_state := Some cur\<rparr>) = Ok None"
    and tx: "hash_transaction (bk_executor ((ex_chain0 null_trie)\<lparr>bk_current_state := Some cur\<rparr>)) (cc_exec (cl_codecs ?lib)) ex_tx = Ok (ftx_hash ex_ftx)"
      "backend_validate_transaction ?lib (ftx_hash ex_ftx) ex_tx True ((ex_chain0 null_trie)\<lparr>bk_current_state := Some cur\<rparr>) = Ok ()"
    using ex_chain_current_tx by (auto simp: Let_def)
  let ?b = "(ex_chain0 null_trie)\<lparr>bk_current_state := Some cur\<rparr>"
  let ?s = "\<lparr> sup_chain = \<lparr> ch_backend = ?b, ch_tasks = [], ch_task_open = True \<rparr>, sup_txpool = (txpool_new 10)\<lparr>tp_queue := [ex_ftx]\<rparr> \<rparr>"
  have [simp]: "ftx_tx ex_ftx = ex_tx"
    by (simp add: ex_ftx_def)
  have sorted: "sort_txs ?lib ?b [ex_ftx] ([], [], []) = Ok ([], [ex_ftx], [])"
    using tx(2) ex_ftx_meta [of null_trie] by (simp add: tx_invalid_def)
  have p: "prepare_block ?lib 4 ?s = (Ok ex_build_tx, ?s)"
    using e by (simp add: prepare_block_def bind_apply read_chain_def get_current_state_def txpool_get_transactions_def txpool_new_def sorted
        txpool_remove_transactions_def on_txpool_def txpool_remove_def Let_def ex_meta_def ex_build_def ex_build_tx_def del: sort_txs.simps)
  have "\<exists>pr. pro_block_hash pr = cb_block_hash cp \<and> pro_number pr = bb_number ex_build_tx \<and>
    pro_meta_txs pr = map ftx_tx (bb_meta_txs ex_build_tx) \<and> pro_payload_txs pr = map ftx_tx (bb_payload_txs ex_build_tx) \<and>
    verify_proposal ?lib pr (sup_backend ?s) = Ok (pr, cp)"
    by (rule prepared_block_verifies [OF _ _ _ _ p, where cur = cur])
      (use b e tx in \<open>auto simp: pool_hashes_def ex_header_def\<close>)
  then show ?thesis using p b(3) by (intro exI [of _ ?s] exI [of _ ex_build_tx] exI [of _ cp]) (auto simp: ex_build_tx_def)
qed

end
