(* ===== verification/Poa.thy ===== *)
theory Poa
  imports Consensus_Base_Laws Governance
begin

text \<open>
  Proof of authority (\<^verbatim>\<open>core/node/consensus/poa\<close>): the authority of the confirmed block builds the next one, signs its hash
  and commits it. The stream keeps no state of its own, so its operations are computations on the support.
\<close>

section \<open>State\<close>

record poa_proof =
  poap_public_key :: public_key
  poap_signature :: signature

record poa_lib =
  poal_proof :: "poa_proof codec"
  poal_address :: "address codec"
  poal_meta :: "poa_meta codec"

record poa_stream =
  poas_meta :: poa_meta
  poas_secret_key :: secret_key
  poas_address :: address

definition get_poa_meta :: "('d, 't) chain_lib \<Rightarrow> poa_lib \<Rightarrow> block_number \<Rightarrow> ('d, 'kp, 'ver) backend \<Rightarrow> poa_meta common_result" where
  "get_poa_meta lib pl = consensus_call lib ''poa'' ''get_meta'' (poal_meta pl)"

definition get_poa_authority :: "('d, 't) chain_lib \<Rightarrow> poa_lib \<Rightarrow> block_number \<Rightarrow> ('d, 'kp, 'ver) backend \<Rightarrow> address common_result" where
  "get_poa_authority lib pl = consensus_call lib ''poa'' ''get_authority'' (poal_address pl)"

definition poa_get_address :: "secret_key \<Rightarrow> ('d, 'kp, 'ver) backend \<Rightarrow> address common_result" where
  "poa_get_address secret_key b =
     and_then (dsa_key_pair_from_secret_key (xe_dsa (bk_executor b)) (secret_key_bytes secret_key)) (\<lambda>key_pair.
     Ok (Address (ai_address (xe_address (bk_executor b)) (dsa_public_key (xe_dsa (bk_executor b)) key_pair))))"

text \<open>Without a secret key no stream is started.\<close>

definition poa_spawn :: "poa_meta \<Rightarrow> secret_key option \<Rightarrow> ('d, 'kp, 'ver) backend \<Rightarrow> poa_stream option common_result" where
  "poa_spawn meta secret_key b = (case secret_key of
     None \<Rightarrow> Ok None
   | Some secret_key \<Rightarrow> and_then (poa_get_address secret_key b) (\<lambda>address.
       Ok (Some \<lparr> poas_meta = meta, poas_secret_key = secret_key, poas_address = address \<rparr>)))"

definition poa_start :: "('d, 't) chain_lib \<Rightarrow> poa_lib \<Rightarrow> secret_key option \<Rightarrow> ('d, 'kp, 'ver) backend \<Rightarrow> poa_stream option common_result" where
  "poa_start lib pl secret_key b = and_then (get_poa_meta lib pl 0 b) (\<lambda>meta. poa_spawn meta secret_key b)"

section \<open>Proofs\<close>

definition poa_proof_new :: "hash codec \<Rightarrow> hash \<Rightarrow> secret_key \<Rightarrow> ('kp, 'ver) dsa_impl \<Rightarrow> poa_proof common_result" where
  "poa_proof_new ch block_hash secret_key dsa =
     and_then (dsa_key_pair_from_secret_key dsa (secret_key_bytes secret_key)) (\<lambda>key_pair.
     and_then (encode ch block_hash) (\<lambda>message.
     Ok \<lparr> poap_public_key = PublicKey (dsa_public_key dsa key_pair), poap_signature = Signature (dsa_sign dsa key_pair message) \<rparr>))"

definition poa_proof_into :: "poa_lib \<Rightarrow> poa_proof \<Rightarrow> proof_data common_result" where
  "poa_proof_into pl pf = and_then (encode (poal_proof pl) pf) (\<lambda>data. Ok \<lparr> pf_name = CONSENSUS_POA, pf_data = data \<rparr>)"

definition poa_verify_proof :: "('d, 't) chain_lib \<Rightarrow> poa_lib \<Rightarrow> header \<Rightarrow> proof_data \<Rightarrow> ('d, 'kp, 'ver) backend \<Rightarrow> unit common_result" where
  "poa_verify_proof lib pl header pf b =
     (if pf_name pf \<noteq> CONSENSUS_POA
      then Err (ConsensusError (VerifyProofError (''Unexpected consensus: '' @ pf_name pf)))
      else and_then (map_err (\<lambda>_. ConsensusError (VerifyProofError ''Decode error'')) (decode (poal_proof pl) (pf_data pf))) (\<lambda>pf.
       let address = Address (ai_address (xe_address (bk_executor b)) (public_key_bytes (poap_public_key pf))) in
       and_then (get_poa_authority lib pl (hdr_number header - 1) b) (\<lambda>authority_address.
       if address \<noteq> authority_address then Err (ConsensusError (VerifyProofError ''Not authority'')) else Ok ())))"

section \<open>Working\<close>

definition poa_work :: "('d, 't) chain_lib \<Rightarrow> poa_lib \<Rightarrow> poa_stream \<Rightarrow> u64 option \<Rightarrow> u64 \<Rightarrow> ('d, 'kp, 'ver, unit) sup_comp" where
  "poa_work lib pl st now timestamp =
     bind (read_chain get_current_state) (\<lambda>cur.
     bind (read_chain (get_poa_authority lib pl (cur_confirmed_number cur))) (\<lambda>authority_address.
     if poas_address st \<noteq> authority_address then ret ()
     else
       bind (prepare_block lib timestamp) (\<lambda>build_block_params.
       let tx_hash_set = map ftx_hash (bb_meta_txs build_block_params) @ map ftx_hash (bb_payload_txs build_block_params) in
       bind (read_chain (build_block lib build_block_params)) (\<lambda>commit_block_params.
       bind (read_chain (\<lambda>b. poa_proof_new (cc_hash (cl_codecs lib)) (cb_block_hash commit_block_params) (poas_secret_key st)
               (xe_dsa (bk_executor b)))) (\<lambda>pf.
       bind (lift_result (poa_proof_into pl pf)) (\<lambda>pf.
       bind (support_commit_block lib now (commit_block_params\<lparr>cb_proof := pf\<rparr>)) (\<lambda>_.
       txpool_remove_transactions tx_hash_set)))))))"

definition poa_generate :: "('d, 't) chain_lib \<Rightarrow> poa_lib \<Rightarrow> poa_stream \<Rightarrow> u64 option \<Rightarrow> ('d, 'kp, 'ver, unit) sup_comp" where
  "poa_generate lib pl st now =
     bind (ok_or (ConsensusError ConsensusTime) now) (\<lambda>timestamp. poa_work lib pl st now timestamp)"

record poa_consensus_state =
  poacs_consensus_name :: string
  poacs_address :: address
  poacs_meta :: poa_meta
  poacs_authority :: address

definition poa_consensus_state :: "('d, 't) chain_lib \<Rightarrow> poa_lib \<Rightarrow> poa_stream \<Rightarrow> ('d, 'kp, 'ver) backend \<Rightarrow> poa_consensus_state common_result" where
  "poa_consensus_state lib pl st b = and_then (get_current_state b) (\<lambda>cur.
     and_then (get_poa_authority lib pl (cur_confirmed_number cur) b) (\<lambda>authority.
     Ok \<lparr> poacs_consensus_name = CONSENSUS_POA, poacs_address = poas_address st, poacs_meta = poas_meta st, poacs_authority = authority \<rparr>))"

text \<open>The value is what is sent to the asker.\<close>

definition poa_on_in_message :: "('d, 't) chain_lib \<Rightarrow> poa_lib \<Rightarrow> poa_stream \<Rightarrow> u64 option \<Rightarrow> consensus_in_message
    \<Rightarrow> ('d, 'kp, 'ver, poa_consensus_state option) sup_comp" where
  "poa_on_in_message lib pl st now in_message = (case in_message of
     Generate \<Rightarrow> bind (poa_generate lib pl st now) (\<lambda>_. ret None)
   | GetConsensusState \<Rightarrow> bind (read_chain (poa_consensus_state lib pl st)) (\<lambda>x. ret (Some x))
   | _ \<Rightarrow> ret None)"

text \<open>A turn of the loop: the schedule fires or a message arrives; errors are logged.\<close>

datatype poa_event = PoaSchedule u64 | PoaIn consensus_in_message

definition poa_turn :: "('d, 't) chain_lib \<Rightarrow> poa_lib \<Rightarrow> poa_stream \<Rightarrow> u64 option \<Rightarrow> poa_event \<Rightarrow> ('d, 'kp, 'ver, unit) sup_comp" where
  "poa_turn lib pl st now ev = log_error (case ev of
     PoaSchedule schedule_info \<Rightarrow> poa_work lib pl st now schedule_info
   | PoaIn in_message \<Rightarrow> bind (poa_on_in_message lib pl st now in_message) (\<lambda>_. ret ()))"

section \<open>Properties\<close>

text \<open>The signature is never looked at: whatever it is, a proof with the public key of the authority is accepted for every header
  with the number.\<close>

lemma poa_proof_signature_ignored:
  assumes "codec_ok (poal_proof pl)" "get_poa_authority lib pl (hdr_number header - 1) b = Ok a"
    "a = Address (ai_address (xe_address (bk_executor b)) (public_key_bytes pk))"
  shows "poa_verify_proof lib pl header \<lparr> pf_name = CONSENSUS_POA, pf_data = enc (poal_proof pl) \<lparr> poap_public_key = pk, poap_signature = sig \<rparr> \<rparr> b = Ok ()"
  using assms by (simp add: poa_verify_proof_def decode_encode)

definition ex_poa_lib :: poa_lib where
  "ex_poa_lib = \<lparr> poal_proof = iso_codec (\<lambda>p. (public_key_bytes (poap_public_key p), signature_bytes (poap_signature p)))
       (\<lambda>(k, s). \<lparr> poap_public_key = PublicKey k, poap_signature = Signature s \<rparr>) (pair_codec bytes_codec bytes_codec),
     poal_address = address_codec, poal_meta = iso_codec (\<lambda>_. ()) (\<lambda>_. \<lparr> poam_block_interval = None \<rparr>) (unit_codec ()) \<rparr>"

definition ex_poa :: poa_stream where
  "ex_poa = \<lparr> poas_meta = \<lparr> poam_block_interval = None \<rparr>, poas_secret_key = SecretKey [7], poas_address = Address [7] \<rparr>"

lemma ex_poa_proof_ok: "codec_ok (poal_proof ex_poa_lib)"
  unfolding ex_poa_lib_def by (simp, rule iso_codec_ok) simp_all

text \<open>C23: what a node with the key of the authority commits carries a proof that verifies: the new confirmed block can be read with
  its header and its proof, and the proof of that header is accepted by every node in the state the block was built on.\<close>

theorem poa_work_block_verifies:
  assumes lib: "chain_lib_ok lib absd" "well_behaved (cl_dispatcher lib)" "codec_ok (poal_proof pl)" and b: "chain_ok lib (sup_backend s)"
    and key: "poa_get_address (poas_secret_key st) (sup_backend s) = Ok (poas_address st)"
    and cur: "bk_current_state (sup_backend s) = Some cur"
    and auth: "get_poa_authority lib pl (cur_confirmed_number cur) (sup_backend s) = Ok (poas_address st)"
    and run: "poa_work lib pl st now ts s = (Ok (), s')"
  shows "\<exists>h hdr pf. get_confirmed_number lib (sup_backend s') = Ok (Some (cur_confirmed_number cur + 1)) \<and>
    get_block_hash lib (cur_confirmed_number cur + 1) (sup_backend s') = Ok (Some h) \<and>
    get_header lib h (sup_backend s') = Ok (Some hdr) \<and> get_proof lib h (sup_backend s') = Ok (Some pf) \<and>
    poa_verify_proof lib pl hdr pf (sup_backend s) = Ok ()"
proof -
  let ?b = "sup_backend s"
  obtain p s1 cp pf pd c where prep: "prepare_block lib ts s = (Ok p, s1)" and build: "build_block lib p (sup_backend s1) = Ok cp"
    and pf: "poa_proof_new (cc_hash (cl_codecs lib)) (cb_block_hash cp) (poas_secret_key st) (xe_dsa (bk_executor (sup_backend s1))) = Ok pf"
    and pd: "poa_proof_into pl pf = Ok pd"
    and com: "chain_commit_block lib now (cp\<lparr>cb_proof := pd\<rparr>) (sup_chain s1) = (Ok (), c)" and s': "sup_chain s' = c"
    using run cur auth
    by (auto simp: poa_work_def bind_eq_Ok read_chain_def get_current_state_def Let_def support_commit_block_def on_chain_eq
        txpool_remove_transactions_def on_txpool_eq txpool_remove_def)
  obtain cur' where p: "bk_current_state ?b = Some cur'" "bb_number p = cur_confirmed_number cur' + 1" "sup_chain s1 = sup_chain s"
    by (rule prepare_block_Ok [OF prep])
  have n: "bb_number p = cur_confirmed_number cur + 1" using p(1,2) cur by simp
  have run1: "backend_commit_block lib now (cp\<lparr>cb_proof := pd\<rparr>) ?b = (Ok (), sup_backend s')"
    using chain_commit_block_Ok [OF com] s' p(3) by simp
  have "only_col META_STATE (cb_meta_transaction (cp\<lparr>cb_proof := pd\<rparr>))"
    using built_only_col [OF lib(2) _ build] b p(3) by simp
  then have add: "block_added lib (cp\<lparr>cb_proof := pd\<rparr>) ?b (sup_backend s')"
    by (rule backend_commit_block_cases [OF lib(1) _ run1]) simp_all
  have "poa_verify_proof lib pl (cb_header cp) pd ?b = Ok ()"
  proof -
    have "poas_address st = Address (ai_address (xe_address (bk_executor ?b)) (public_key_bytes (poap_public_key pf)))"
      "pd = \<lparr> pf_name = CONSENSUS_POA, pf_data = enc (poal_proof pl) pf \<rparr>"
      using pf pd key p(3) by (auto simp: poa_proof_into_def poa_proof_new_def poa_get_address_def and_then_eq_Ok encode_def)
    then show ?thesis
      using poa_proof_signature_ignored [OF lib(3), where lib = lib and header = "cb_header cp" and b = ?b and pk = "poap_public_key pf"
          and sig = "poap_signature pf"] auth built_on_parent(1) [OF build] n by (cases pf) simp
  qed
  then show ?thesis using add built_on_parent(1) [OF build] n by (auto simp: block_added_def)
qed

theorem poa_work_block_verifies_witness:
  "\<exists>s s' h hdr pf. poa_work (ex_chain_lib null_trie) ex_poa_lib ex_poa (Some 5) 4 (s :: (mem_db, bytes, bytes) support) = (Ok (), s') \<and>
    get_block_hash (ex_chain_lib null_trie) 1 (sup_backend s') = Ok (Some h) \<and>
    get_header (ex_chain_lib null_trie) h (sup_backend s') = Ok (Some hdr) \<and>
    get_proof (ex_chain_lib null_trie) h (sup_backend s') = Ok (Some pf) \<and>
    poa_verify_proof (ex_chain_lib null_trie) ex_poa_lib hdr pf (sup_backend s) = Ok ()"
proof -
  let ?lib = "ex_chain_lib null_trie"
  obtain cur cp where e: "cur_confirmed_number cur = 0" "cur_executed_number cur = 0" "cur_system_meta cur = ex_meta"
    and b: "chain_ok ?lib ((ex_chain0 null_trie)\<lparr>bk_current_state := Some cur\<rparr>)"
      "build_block ?lib ex_build ((ex_chain0 null_trie)\<lparr>bk_current_state := Some cur\<rparr>) = Ok cp"
      "cb_block_hash cp \<noteq> Hash [0]"
    and cp: "hdr_meta_state_root (cb_header cp) = ones_hash" "only_col META_STATE (cb_meta_transaction cp)"
      "hdr_number (cb_header cp) = 1" "hdr_parent_hash (cb_header cp) = Hash [0]"
    using ex_chain_current by (auto simp: Let_def)
  let ?b = "(ex_chain0 null_trie)\<lparr>bk_current_state := Some cur\<rparr>"
  let ?s = "\<lparr> sup_chain = \<lparr> ch_backend = ?b, ch_tasks = [], ch_task_open = True \<rparr>, sup_txpool = txpool_new 10 \<rparr>"
  have n: "notified (ex_chain0 null_trie) ?b" by (simp add: notified_def same_setup_def)
  note f = ex_chain0_facts [where tries = null_trie]
  have su: "ex_setup ?b" using f(2) by (simp add: ex_setup_def same_setup_def)
  have au: "get_poa_authority ?lib ex_poa_lib 0 ?b = Ok (Address [7])"
    unfolding get_poa_authority_def
    by (rule ex_consensus_call [where h = "Hash [0]" and hdr = "ex_header 0 zero_hash" and x = "ce_execution ex_genesis_execution"])
      (use f su opens_zero in \<open>simp_all add: read_notified [OF n] ex_poa_lib_def ex_fixed_calls\<close>)
  have p: "prepare_block ?lib 4 ?s = (Ok ex_build, ?s)"
    using e by (simp add: prepare_block_def bind_apply read_chain_def get_current_state_def txpool_get_transactions_def txpool_new_def
        txpool_remove_transactions_def on_txpool_def txpool_remove_def Let_def ex_meta_def ex_build_def)
  obtain pf where pf: "poa_proof_new (cc_hash ex_chain_codecs) (cb_block_hash cp) (SecretKey [7]) (xe_dsa (bk_executor ?b)) = Ok pf"
    using su by (simp add: ex_setup_def same_setup_def ex_backend_def executor_new_def poa_proof_new_def ex_dsa_def encode_def)
  obtain pd where pd: "poa_proof_into ex_poa_lib pf = Ok pd" by (simp add: poa_proof_into_def encode_def)
  have o: "opens ?lib b (hdr_meta_state_root (cb_header (cp\<lparr>cb_proof := pd\<rparr>))) zero_hash" if "ex_setup b" for b
    using opens_null [OF that] by (simp add: cp ones_hash_def zero_hash_def)
  obtain b' where b': "backend_commit_block ?lib (Some 5) (cp\<lparr>cb_proof := pd\<rparr>) ?b = (Ok (), b')"
    using ex_commit_first_on [OF n, where p = "cp\<lparr>cb_proof := pd\<rparr>"] cp b(3) o ex_chain0_open [of null_trie] by auto
  obtain s' where r: "poa_work ?lib ex_poa_lib ex_poa (Some 5) 4 ?s = (Ok (), s')"
    using e au p b(2) pf pd b'
    by (simp add: poa_work_def bind_apply read_chain_def get_current_state_def ex_poa_def support_commit_block_def on_chain_def
        chain_commit_block_def on_backend_def insert_task_def txpool_remove_transactions_def on_txpool_def txpool_remove_def)
  have key: "poa_get_address (poas_secret_key ex_poa) (sup_backend ?s) = Ok (poas_address ex_poa)"
    using su by (simp add: poa_get_address_def ex_poa_def ex_setup_def same_setup_def ex_backend_def executor_new_def ex_dsa_def)
  have "\<exists>h hdr pf. get_confirmed_number ?lib (sup_backend s') = Ok (Some (cur_confirmed_number cur + 1)) \<and>
    get_block_hash ?lib (cur_confirmed_number cur + 1) (sup_backend s') = Ok (Some h) \<and>
    get_header ?lib h (sup_backend s') = Ok (Some hdr) \<and> get_proof ?lib h (sup_backend s') = Ok (Some pf) \<and>
    poa_verify_proof ?lib ex_poa_lib hdr pf (sup_backend ?s) = Ok ()"
    by (rule poa_work_block_verifies [OF ex_chain_lib_ok fixed_system_well_behaved ex_poa_proof_ok _ key _ _ r])
      (use b(1) au e in \<open>simp_all add: ex_poa_def\<close>)
  then show ?thesis using r e(1) by (intro exI [of _ ?s] exI [of _ s']) simp
qed

end
