(* ===== verification/Hotstuff.thy ===== *)
theory Hotstuff
  imports Consensus_Base Governance
begin

text \<open>
  HotStuff: the messages (\<^verbatim>\<open>core/node/consensus/hotstuff/src/protocol.rs\<close>), quorum certificates (\<open>verify_qc\<close>, \<open>verify_tc\<close> and
  the collectors of \<^verbatim>\<open>stream.rs\<close> and \<^verbatim>\<open>stream/state.rs\<close>), the verification of proofs (\<^verbatim>\<open>lib.rs\<close>) and the persistent storage
  (\<^verbatim>\<open>storage.rs\<close>).

  The codecs of the messages are the record \<open>hotstuff_lib\<close>; the algorithms come from the executor of the chain.
\<close>

section \<open>Messages\<close>

type_synonym request_id = u64

datatype message_type = NewView | Prepare | PreCommit | Commit | Decide

record hs_node =
  nd_parent_hash :: hash
  nd_block_hash :: hash

record qc =
  qc_message_type :: message_type
  qc_view :: u64
  qc_node :: hs_node
  qc_leader_address :: address
  qc_sig :: "(public_key \<times> signature) list"

record consensus_message =
  cm_request_id :: request_id
  cm_message_type :: message_type
  cm_view :: u64
  cm_node :: "hs_node option"
  cm_justify :: "qc option"
  cm_sig :: "(public_key \<times> signature) option"

datatype timeout_message_type = NewTimeout | TimeoutDecide

record tc =
  tc_view :: u64
  tc_sig :: "(public_key \<times> signature) list"

record timeout_message =
  tm_request_id :: request_id
  tm_message_type :: timeout_message_type
  tm_view :: u64
  tm_justify :: "tc option"
  tm_sig :: "(public_key \<times> signature) option"

record register_validator_req =
  rvq_request_id :: request_id
  rvq_public_key :: public_key
  rvq_signature :: signature

record register_validator_res =
  rvs_request_id :: request_id
  rvs_success :: bool

record request_proposal_req =
  rpq_request_id :: request_id
  rpq_block_hash :: hash

record request_proposal_res =
  rps_request_id :: request_id
  rps_proposal :: "proposal option"

datatype hotstuff_message =
    RegisterValidatorReq register_validator_req
  | RegisterValidatorRes register_validator_res
  | RequestProposalReq request_proposal_req
  | RequestProposalRes request_proposal_res
  | ConsensusMessage consensus_message
  | TimeoutMessage timeout_message

text \<open>What is signed by a vote: the type, the view, the node and the leader.\<close>

type_synonym sig_message = "message_type \<times> u64 \<times> hs_node option \<times> address"

record hotstuff_lib =
  hl_sig_message :: "sig_message codec"
  hl_timeout_message :: "(timeout_message_type \<times> u64) codec"
  hl_nonce :: "u64 codec"
  hl_view :: "u64 codec"
  hl_qc :: "qc codec"
  hl_nodes :: "(hash \<times> hs_node) list codec"
  hl_proposal :: "proposal codec"
  hl_proof :: "qc codec"
  hl_message :: "hotstuff_message codec"
  hl_authorities :: "hotstuff_authorities codec"
  hl_meta :: "hotstuff_meta codec"

section \<open>Keys and signatures\<close>

definition get_public_key :: "secret_key \<Rightarrow> ('kp, 'ver) executor \<Rightarrow> public_key common_result" where
  "get_public_key secret_key xe = and_then (dsa_key_pair_from_secret_key (xe_dsa xe) (secret_key_bytes secret_key)) (\<lambda>key_pair.
     Ok (PublicKey (dsa_public_key (xe_dsa xe) key_pair)))"

definition get_address :: "public_key \<Rightarrow> ('kp, 'ver) executor \<Rightarrow> address" where
  "get_address public_key xe = Address (ai_address (xe_address xe) (public_key_bytes public_key))"

definition hs_sign :: "bytes \<Rightarrow> secret_key \<Rightarrow> ('kp, 'ver) executor \<Rightarrow> signature common_result" where
  "hs_sign message secret_key xe = and_then (dsa_key_pair_from_secret_key (xe_dsa xe) (secret_key_bytes secret_key)) (\<lambda>key_pair.
     Ok (Signature (dsa_sign (xe_dsa xe) key_pair message)))"

definition hs_verify :: "bytes \<Rightarrow> public_key \<Rightarrow> signature \<Rightarrow> ('kp, 'ver) executor \<Rightarrow> unit common_result" where
  "hs_verify message public_key sig xe =
     and_then (dsa_verifier_from_public_key (xe_dsa xe) (public_key_bytes public_key)) (\<lambda>verifier.
     dsa_verify (xe_dsa xe) verifier message (signature_bytes sig))"

section \<open>Quorums\<close>

text \<open>The total weight \<open>n\<close>, the tolerated weight \<open>f\<close> and the weight of a quorum, all in \<open>u32\<close>.\<close>

definition total_weight :: "hotstuff_authorities \<Rightarrow> u32" where
  "total_weight a = fold (\<lambda>x sum. sum + snd x) (ha_members a) 0"

definition quorum :: "hotstuff_authorities \<Rightarrow> u32" where
  "quorum a = (let n = total_weight a; f = (n - 1) div 3 in n - f)"

definition member_weight :: "hotstuff_authorities \<Rightarrow> (address, u32) hmap" where
  "member_weight a = hm_collect (ha_members a)"

text \<open>The loop over the signatures of a certificate: the weight of the members among the signers. A signature that does not
  verify stops the loop.\<close>

fun verify_sigs :: "('d, 't) chain_lib \<Rightarrow> ('kp, 'ver) executor \<Rightarrow> (address, u32) hmap \<Rightarrow> bytes common_result
    \<Rightarrow> (public_key \<times> signature) list \<Rightarrow> u32 \<Rightarrow> u32 common_result" where
  "verify_sigs lib xe weights message [] weight_sum = Ok weight_sum"
| "verify_sigs lib xe weights message ((public_key, sig) # sigs) weight_sum =
     (let weight_sum = (case hm_get weights (get_address public_key xe) of Some weight \<Rightarrow> weight_sum + weight | None \<Rightarrow> weight_sum) in
     and_then message (\<lambda>sig_message.
     and_then (map_err (\<lambda>e. HotStuffError (HotStuffQC (cl_show_error lib e))) (hs_verify sig_message public_key sig xe)) (\<lambda>_.
     verify_sigs lib xe weights message sigs weight_sum)))"

definition not_enough_weight :: common_error where
  "not_enough_weight = HotStuffError (HotStuffQC ''No enough weight'')"

definition verify_qc :: "('d, 't) chain_lib \<Rightarrow> hotstuff_lib \<Rightarrow> ('kp, 'ver) executor \<Rightarrow> qc \<Rightarrow> message_type option \<Rightarrow> hotstuff_authorities
    \<Rightarrow> unit common_result" where
  "verify_qc lib hl xe q expected_message_type authorities =
     (if qc_view q = 0 then Ok ()
      else if (case expected_message_type of Some t \<Rightarrow> qc_message_type q \<noteq> t | None \<Rightarrow> False)
      then Err (HotStuffError (HotStuffQC ''Unexpected message type''))
      else and_then (verify_sigs lib xe (member_weight authorities)
             (encode (hl_sig_message hl) (qc_message_type q, qc_view q, Some (qc_node q), qc_leader_address q)) (qc_sig q) 0) (\<lambda>weight_sum.
        if weight_sum < quorum authorities then Err not_enough_weight else Ok ()))"

definition verify_tc :: "('d, 't) chain_lib \<Rightarrow> hotstuff_lib \<Rightarrow> ('kp, 'ver) executor \<Rightarrow> tc \<Rightarrow> hotstuff_authorities
    \<Rightarrow> unit common_result" where
  "verify_tc lib hl xe t authorities =
     and_then (verify_sigs lib xe (member_weight authorities) (encode (hl_timeout_message hl) (NewTimeout, tc_view t)) (tc_sig t) 0) (\<lambda>weight_sum.
     if weight_sum < quorum authorities then Err not_enough_weight else Ok ())"

section \<open>The collectors\<close>

type_synonym message_collector = "(address, consensus_message) hmap"

definition collector_add :: "address \<Rightarrow> consensus_message \<Rightarrow> message_collector \<Rightarrow> message_collector" where
  "collector_add address message c = hm_insert address message c"

text \<open>A missing certificate or signature hits the \<open>expect\<close>.\<close>

fun high_qc_loop :: "(address, u32) hmap \<Rightarrow> u32 \<Rightarrow> (address \<times> consensus_message) list \<Rightarrow> u32 \<Rightarrow> qc option
    \<Rightarrow> qc option common_result" where
  "high_qc_loop weights q [] weight_sum high_qc = Ok None"
| "high_qc_loop weights q ((address, message) # messages) weight_sum high_qc =
     and_then (ok_or_else (Panic ''qed'') (cm_justify message)) (\<lambda>justify.
     let (weight_sum, high_qc) = (case hm_get weights address of
           Some weight \<Rightarrow> (weight_sum + weight, (case high_qc of
             None \<Rightarrow> Some justify
           | Some h \<Rightarrow> if qc_view justify > qc_view h then Some justify else Some h))
         | None \<Rightarrow> (weight_sum, high_qc)) in
     if weight_sum \<ge> q then Ok high_qc else high_qc_loop weights q messages weight_sum high_qc)"

definition get_high_qc :: "hotstuff_authorities \<Rightarrow> message_collector \<Rightarrow> qc option common_result" where
  "get_high_qc authorities c = high_qc_loop (member_weight authorities) (quorum authorities) c 0 None"

definition get_high_qc_addresses :: "qc \<Rightarrow> message_collector \<Rightarrow> address list" where
  "get_high_qc_addresses q c = map fst (filter (\<lambda>(_, message). cm_justify message = Some q) c)"

fun qc_loop :: "(address, u32) hmap \<Rightarrow> u32 \<Rightarrow> address \<Rightarrow> (address \<times> consensus_message) list \<Rightarrow> u32 \<Rightarrow> (public_key \<times> signature) list
    \<Rightarrow> qc option common_result" where
  "qc_loop weights q leader_address [] weight_sum sigs = Ok None"
| "qc_loop weights q leader_address ((address, message) # messages) weight_sum sigs =
     and_then (case hm_get weights address of
         Some weight \<Rightarrow> and_then (ok_or_else (Panic ''qed'') (cm_sig message)) (\<lambda>sig. Ok (weight_sum + weight, sigs @ [sig]))
       | None \<Rightarrow> Ok (weight_sum, sigs)) (\<lambda>(weight_sum, sigs).
     if weight_sum \<ge> q then
       and_then (ok_or_else (Panic ''qed'') (cm_node message)) (\<lambda>node.
       Ok (Some \<lparr> qc_message_type = cm_message_type message, qc_view = cm_view message, qc_node = node,
                  qc_leader_address = leader_address, qc_sig = sigs \<rparr>))
     else qc_loop weights q leader_address messages weight_sum sigs)"

definition get_qc :: "hotstuff_authorities \<Rightarrow> address \<Rightarrow> message_collector \<Rightarrow> qc option common_result" where
  "get_qc authorities leader_address c = qc_loop (member_weight authorities) (quorum authorities) leader_address c 0 []"

type_synonym timeout_collector = "(u64, (address, timeout_message) hmap) hmap"

definition timeout_add :: "address \<Rightarrow> timeout_message \<Rightarrow> timeout_collector \<Rightarrow> timeout_collector" where
  "timeout_add address m c = (let messages = (case hm_get c (tm_view m) of Some x \<Rightarrow> x | None \<Rightarrow> []) in
     hm_insert (tm_view m) (if hm_contains messages address then messages else hm_insert address m messages) c)"

fun tc_loop :: "(address, u32) hmap \<Rightarrow> u32 \<Rightarrow> (address \<times> timeout_message) list \<Rightarrow> u32 \<Rightarrow> (public_key \<times> signature) list
    \<Rightarrow> tc option common_result" where
  "tc_loop weights q [] weight_sum sigs = Ok None"
| "tc_loop weights q ((address, message) # messages) weight_sum sigs =
     and_then (case hm_get weights address of
         Some weight \<Rightarrow> and_then (ok_or_else (Panic ''qed'') (tm_sig message)) (\<lambda>sig. Ok (weight_sum + weight, sigs @ [sig]))
       | None \<Rightarrow> Ok (weight_sum, sigs)) (\<lambda>(weight_sum, sigs).
     if weight_sum \<ge> q then Ok (Some \<lparr> tc_view = tm_view message, tc_sig = sigs \<rparr>)
     else tc_loop weights q messages weight_sum sigs)"

definition get_tc :: "hotstuff_authorities \<Rightarrow> u64 \<Rightarrow> timeout_collector \<Rightarrow> tc option common_result" where
  "get_tc authorities view c = (case hm_get c view of
     Some messages \<Rightarrow> tc_loop (member_weight authorities) (quorum authorities) messages 0 []
   | None \<Rightarrow> Ok None)"

definition timeout_cleanup :: "u64 \<Rightarrow> timeout_collector \<Rightarrow> timeout_collector" where
  "timeout_cleanup view c = filter (\<lambda>(k, _). k > view) c"

section \<open>The module\<close>

definition get_hotstuff_meta :: "('d, 't) chain_lib \<Rightarrow> hotstuff_lib \<Rightarrow> block_number \<Rightarrow> ('d, 'kp, 'ver) backend
    \<Rightarrow> hotstuff_meta common_result" where
  "get_hotstuff_meta lib hl = consensus_call lib ''hotstuff'' ''get_meta'' (hl_meta hl)"

definition aggregate_authorities :: "hotstuff_authorities \<Rightarrow> hotstuff_authorities" where
  "aggregate_authorities a = \<lparr> ha_members = aggregate_members [] (ha_members a) \<rparr>"

definition get_hotstuff_authorities :: "('d, 't) chain_lib \<Rightarrow> hotstuff_lib \<Rightarrow> block_number \<Rightarrow> ('d, 'kp, 'ver) backend
    \<Rightarrow> hotstuff_authorities common_result" where
  "get_hotstuff_authorities lib hl number b =
     and_then (consensus_call lib ''hotstuff'' ''get_authorities'' (hl_authorities hl) number b) (\<lambda>a. Ok (aggregate_authorities a))"

section \<open>Proofs\<close>

definition hotstuff_proof_into :: "hotstuff_lib \<Rightarrow> qc \<Rightarrow> proof_data common_result" where
  "hotstuff_proof_into hl commit_qc = and_then (encode (hl_proof hl) commit_qc) (\<lambda>data.
     Ok \<lparr> pf_name = CONSENSUS_HOTSTUFF, pf_data = data \<rparr>)"

definition hotstuff_verify_proof :: "('d, 't) chain_lib \<Rightarrow> hotstuff_lib \<Rightarrow> header \<Rightarrow> proof_data \<Rightarrow> ('d, 'kp, 'ver) backend
    \<Rightarrow> unit common_result" where
  "hotstuff_verify_proof lib hl header pf b =
     (if pf_name pf \<noteq> CONSENSUS_HOTSTUFF
      then Err (ConsensusError (VerifyProofError (''Unexpected consensus: '' @ pf_name pf)))
      else and_then (map_err (\<lambda>_. ConsensusError (VerifyProofError ''Decode error'')) (decode (hl_proof hl) (pf_data pf))) (\<lambda>commit_qc.
        and_then (get_hotstuff_authorities lib hl (hdr_number header - 1) b) (\<lambda>authorities.
        map_err (\<lambda>e. ConsensusError (VerifyProofError (''Verify commit qc error: '' @ cl_show_error lib e)))
          (verify_qc lib hl (bk_executor b) commit_qc None authorities))))"

section \<open>Storage\<close>

definition DB_KEY_VIEW :: bytes where "DB_KEY_VIEW = byte_str ''view''"
definition DB_KEY_PREPARE_QC :: bytes where "DB_KEY_PREPARE_QC = byte_str ''prepare_qc''"
definition DB_KEY_LOCKED_QC :: bytes where "DB_KEY_LOCKED_QC = byte_str ''locked_qc''"
definition DB_KEY_NODES :: bytes where "DB_KEY_NODES = byte_str ''nodes''"
definition DB_KEY_PROPOSALS :: bytes where "DB_KEY_PROPOSALS = byte_str ''proposals''"
definition DB_KEY_PROPOSAL_PREFIX :: bytes where "DB_KEY_PROPOSAL_PREFIX = byte_str ''proposal_''"

record ('d, 'kp, 'ver) hs_storage =
  st_base_commit_qc :: qc
  st_base_block_hash :: hash
  st_view :: u64
  st_prepare_qc :: qc
  st_locked_qc :: qc
  st_nodes :: "(hash, hs_node) hmap"
  st_proposals :: "(hash, hs_node) hmap"
  st_support :: "('d, 'kp, 'ver) support"

type_synonym ('d, 'kp, 'ver, 'a) st_comp = "(('d, 'kp, 'ver) hs_storage, 'a, common_error) comp"

definition on_support :: "('d, 'kp, 'ver, 'a) sup_comp \<Rightarrow> ('d, 'kp, 'ver, 'a) st_comp" where
  "on_support m s = (let (r, x) = m (st_support s) in (r, s\<lparr>st_support := x\<rparr>))"

definition read_support :: "(('d, 'kp, 'ver) backend \<Rightarrow> 'a common_result) \<Rightarrow> ('d, 'kp, 'ver, 'a) st_comp" where
  "read_support f = query (\<lambda>s. f (sup_backend (st_support s)))"

text \<open>A transaction with one write.\<close>

definition storage_put :: "('d, 't) chain_lib \<Rightarrow> 'a codec \<Rightarrow> bytes \<Rightarrow> 'a \<Rightarrow> ('d, 'kp, 'ver, unit) st_comp" where
  "storage_put lib c key v = on_support (support_commit_consensus_data lib (put_consensus_data c key v transaction_new))"

definition storage_delete :: "('d, 't) chain_lib \<Rightarrow> bytes \<Rightarrow> ('d, 'kp, 'ver, unit) st_comp" where
  "storage_delete lib key = on_support (support_commit_consensus_data lib (delete_consensus_data key transaction_new))"

definition storage_read :: "('d, 't) chain_lib \<Rightarrow> 'a codec \<Rightarrow> bytes \<Rightarrow> ('d, 'kp, 'ver, 'a option) st_comp" where
  "storage_read lib c key = read_support (get_consensus_data lib c key)"

definition get_genesis_qc :: "('d, 't) chain_lib \<Rightarrow> hotstuff_lib \<Rightarrow> ('d, 'kp, 'ver) backend \<Rightarrow> qc common_result" where
  "get_genesis_qc lib hl b =
     and_then (get_current_state b) (\<lambda>cur.
     and_then (get_hotstuff_authorities lib hl 0 b) (\<lambda>authorities. case ha_members authorities of
       [] \<Rightarrow> Err (Panic ''index out of bounds'')
     | m # _ \<Rightarrow> Ok \<lparr> qc_message_type = Decide, qc_view = 0,
         qc_node = \<lparr> nd_parent_hash = Hash [], nd_block_hash = cur_genesis_hash cur \<rparr>, qc_leader_address = fst m, qc_sig = [] \<rparr>))"

text \<open>The certificate in the proof of the confirmed block.\<close>

definition storage_get_proof :: "('d, 't) chain_lib \<Rightarrow> hotstuff_lib \<Rightarrow> ('d, 'kp, 'ver) backend \<Rightarrow> qc option common_result" where
  "storage_get_proof lib hl b =
     and_then (get_current_state b) (\<lambda>cur.
     if cur_confirmed_number cur = 0 then Ok None
     else
       and_then (get_proof lib (cur_confirmed_block_hash cur) b) (\<lambda>pf.
       and_then (ok_or_else (ConsensusError (ConsensusData (''Missing proof: block_hash: ''
                   @ show_hash b (cur_confirmed_block_hash cur)))) pf) (\<lambda>pf.
       and_then (map_err (\<lambda>_. ConsensusError (ConsensusData ''Decode proof error'')) (decode (hl_proof hl) (pf_data pf))) (\<lambda>q.
       Ok (Some q)))))"

text \<open>The nodes of a stored list that are not on the base block are dropped.\<close>

definition off_base :: "hash \<Rightarrow> (hash, hs_node) hmap \<Rightarrow> hash list" where
  "off_base base_block_hash nodes = map fst (filter (\<lambda>(_, v). nd_parent_hash v \<noteq> base_block_hash) nodes)"

definition remove_all_keys :: "'k list \<Rightarrow> ('k, 'v) hmap \<Rightarrow> ('k, 'v) hmap" where
  "remove_all_keys ks m = fold hm_remove ks m"

text \<open>The parts of \<open>refresh\<close>: a stored view or certificate that is behind the base is brought up to it, and the nodes and proposals that
  are not on the base are dropped.\<close>

definition refresh_view :: "('d, 't) chain_lib \<Rightarrow> hotstuff_lib \<Rightarrow> qc \<Rightarrow> ('d, 'kp, 'ver, u64) st_comp" where
  "refresh_view lib hl base_commit_qc =
     bind (storage_read lib (hl_view hl) DB_KEY_VIEW) (\<lambda>v.
     let view = (case v of Some v \<Rightarrow> v | None \<Rightarrow> 0) in
     if view < qc_view base_commit_qc + 1 then
       let view = qc_view base_commit_qc + 1 in
       bind (storage_put lib (hl_view hl) DB_KEY_VIEW view) (\<lambda>_. ret view)
     else ret view)"

definition refresh_qc :: "('d, 't) chain_lib \<Rightarrow> hotstuff_lib \<Rightarrow> bytes \<Rightarrow> qc \<Rightarrow> qc \<Rightarrow> ('d, 'kp, 'ver, qc) st_comp" where
  "refresh_qc lib hl key genesis_qc base_commit_qc =
     bind (storage_read lib (hl_qc hl) key) (\<lambda>q.
     let q = (case q of Some q \<Rightarrow> q | None \<Rightarrow> genesis_qc) in
     if qc_view q \<le> qc_view base_commit_qc then
       bind (storage_put lib (hl_qc hl) key base_commit_qc) (\<lambda>_. ret base_commit_qc)
     else ret q)"

definition refresh_nodes :: "('d, 't) chain_lib \<Rightarrow> hotstuff_lib \<Rightarrow> hash \<Rightarrow> ('d, 'kp, 'ver, (hash, hs_node) hmap) st_comp" where
  "refresh_nodes lib hl base_block_hash =
     bind (storage_read lib (hl_nodes hl) DB_KEY_NODES) (\<lambda>ns.
     let nodes = hm_collect (case ns of Some ns \<Rightarrow> ns | None \<Rightarrow> []); to_remove_key = off_base base_block_hash nodes;
         nodes = remove_all_keys to_remove_key nodes in
     bind (if to_remove_key \<noteq> [] then storage_put lib (hl_nodes hl) DB_KEY_NODES nodes else ret ()) (\<lambda>_. ret nodes))"

text \<open>What is written at the end are the nodes, under the key of the nodes.\<close>

definition refresh_proposals :: "('d, 't) chain_lib \<Rightarrow> hotstuff_lib \<Rightarrow> hash \<Rightarrow> (hash, hs_node) hmap
    \<Rightarrow> ('d, 'kp, 'ver, (hash, hs_node) hmap) st_comp" where
  "refresh_proposals lib hl base_block_hash nodes =
     bind (storage_read lib (hl_nodes hl) DB_KEY_PROPOSALS) (\<lambda>ps.
     let proposals = hm_collect (case ps of Some ps \<Rightarrow> ps | None \<Rightarrow> []); to_remove_key = off_base base_block_hash proposals in
     bind (for_each (\<lambda>k. storage_delete lib (DB_KEY_PROPOSAL_PREFIX @ hash_bytes k)) to_remove_key) (\<lambda>_.
     bind (if to_remove_key \<noteq> [] then storage_put lib (hl_nodes hl) DB_KEY_NODES nodes else ret ()) (\<lambda>_.
     ret (remove_all_keys to_remove_key proposals))))"

definition refresh :: "('d, 't) chain_lib \<Rightarrow> hotstuff_lib \<Rightarrow> ('d, 'kp, 'ver, unit) st_comp" where
  "refresh lib hl =
     bind (read_support (storage_get_proof lib hl)) (\<lambda>pf.
     bind (read_support (get_genesis_qc lib hl)) (\<lambda>genesis_qc.
     let base_commit_qc = (case pf of Some q \<Rightarrow> q | None \<Rightarrow> genesis_qc) in
     bind (read_support get_current_state) (\<lambda>cur.
     let base_block_hash = cur_confirmed_block_hash cur in
     bind (refresh_view lib hl base_commit_qc) (\<lambda>view.
     bind (refresh_qc lib hl DB_KEY_PREPARE_QC genesis_qc base_commit_qc) (\<lambda>prepare_qc.
     bind (refresh_qc lib hl DB_KEY_LOCKED_QC genesis_qc base_commit_qc) (\<lambda>locked_qc.
     bind (refresh_nodes lib hl base_block_hash) (\<lambda>nodes.
     bind (refresh_proposals lib hl base_block_hash nodes) (\<lambda>proposals.
     (\<lambda>s. (Ok (), s\<lparr>st_base_commit_qc := base_commit_qc, st_base_block_hash := base_block_hash, st_view := view,
        st_prepare_qc := prepare_qc, st_locked_qc := locked_qc, st_nodes := nodes, st_proposals := proposals\<rparr>))))))))))"

definition storage_new :: "('d, 't) chain_lib \<Rightarrow> hotstuff_lib \<Rightarrow> ('d, 'kp, 'ver) support \<Rightarrow> ('d, 'kp, 'ver) hs_storage common_result" where
  "storage_new lib hl supp =
     and_then (get_genesis_qc lib hl (sup_backend supp)) (\<lambda>genesis_qc.
     let (r, s) = refresh lib hl \<lparr> st_base_commit_qc = genesis_qc, st_base_block_hash = Hash [], st_view = 0, st_prepare_qc = genesis_qc,
           st_locked_qc = genesis_qc, st_nodes = [], st_proposals = [], st_support = supp \<rparr> in
     and_then r (\<lambda>_. Ok s))"

definition update_view :: "('d, 't) chain_lib \<Rightarrow> hotstuff_lib \<Rightarrow> u64 \<Rightarrow> ('d, 'kp, 'ver, unit) st_comp" where
  "update_view lib hl view = bind (storage_put lib (hl_view hl) DB_KEY_VIEW view) (\<lambda>_. (\<lambda>s. (Ok (), s\<lparr>st_view := view\<rparr>)))"

definition update_prepare_qc :: "('d, 't) chain_lib \<Rightarrow> hotstuff_lib \<Rightarrow> qc \<Rightarrow> ('d, 'kp, 'ver, unit) st_comp" where
  "update_prepare_qc lib hl q = bind (storage_put lib (hl_qc hl) DB_KEY_PREPARE_QC q) (\<lambda>_. (\<lambda>s. (Ok (), s\<lparr>st_prepare_qc := q\<rparr>)))"

definition update_locked_qc :: "('d, 't) chain_lib \<Rightarrow> hotstuff_lib \<Rightarrow> qc \<Rightarrow> ('d, 'kp, 'ver, unit) st_comp" where
  "update_locked_qc lib hl q = bind (storage_put lib (hl_qc hl) DB_KEY_LOCKED_QC q) (\<lambda>_. (\<lambda>s. (Ok (), s\<lparr>st_locked_qc := q\<rparr>)))"

definition get_proposal :: "('d, 't) chain_lib \<Rightarrow> hotstuff_lib \<Rightarrow> hash \<Rightarrow> ('d, 'kp, 'ver, proposal option) st_comp" where
  "get_proposal lib hl block_hash = storage_read lib (hl_proposal hl) (DB_KEY_PROPOSAL_PREFIX @ hash_bytes block_hash)"

definition put_proposal :: "('d, 't) chain_lib \<Rightarrow> hotstuff_lib \<Rightarrow> proposal \<Rightarrow> ('d, 'kp, 'ver, unit) st_comp" where
  "put_proposal lib hl p =
     (let node = \<lparr> nd_parent_hash = pro_parent_hash p, nd_block_hash = pro_block_hash p \<rparr> in
     bind (\<lambda>s. (Ok (), s\<lparr>st_proposals := hm_insert (pro_block_hash p) node (st_proposals s)\<rparr>)) (\<lambda>_.
     bind (ask st_proposals) (\<lambda>proposals_vec.
     bind (storage_put lib (hl_nodes hl) DB_KEY_PROPOSALS proposals_vec) (\<lambda>_.
     storage_put lib (hl_proposal hl) (DB_KEY_PROPOSAL_PREFIX @ hash_bytes (pro_block_hash p)) p))))"

end
