(* ===== verification/Hotstuff_Stream.thy ===== *)
theory Hotstuff_Stream
  imports Hotstuff
begin

text \<open>
  The stream of HotStuff (\<^verbatim>\<open>core/node/consensus/hotstuff/src/stream.rs\<close>): what a validator keeps across views, the choice of the
  leader, the messages of the network, timeouts and the change of the view.

  A record \<open>hs_world\<close> holds what the stream gets from outside: the codecs, the clock and the random choice. The channel of internal
  messages is owned by the stream on both ends, so that sending on it does not fail; the channel of messages to the network may be closed.
\<close>

section \<open>State\<close>

datatype hs_state = HsLeader | HsReplica | HsObserver

record hs_peer_info =
  hpi_local_nonce :: u64
  hpi_remote_nonce :: u64
  hpi_address :: "address option"

datatype verify_action =
    VerifyOk proposal chain_commit_block_params
  | VerifyWait
  | VerifyDiscard

datatype internal_message =
    ValidatorRegistered address peer_id
  | InternalConsensus consensus_message peer_id
  | InternalProposal address proposal

record hs_consensus_state =
  hcs_consensus_name :: string
  hcs_address :: address
  hcs_meta :: hotstuff_meta
  hcs_authorities :: hotstuff_authorities
  hcs_current_leader :: "address option"

record hotstuff_config =
  hc_secret_key :: "secret_key option"
  hc_init_extra_timeout :: "u64 option"

definition DEFAULT_INIT_EXTRA_TIMEOUT :: u64 where
  "DEFAULT_INIT_EXTRA_TIMEOUT = 10000"

record ('d, 'kp, 'ver) hotstuff =
  hs_meta :: hotstuff_meta
  hs_config :: hotstuff_config
  hs_secret_key :: secret_key
  hs_public_key :: public_key
  hs_address :: address
  hs_out :: "(peer_id \<times> bytes) list"
  hs_out_open :: bool
  hs_peers :: "(peer_id, hs_peer_info) hmap"
  hs_known_validators :: "(address, peer_id) hmap"
  hs_next_request_id :: request_id
  hs_store :: "('d, 'kp, 'ver) hs_storage"
  hs_next_timeout_instant :: "nat option"
  hs_current_leader :: "address option"
  hs_role :: hs_state
  hs_authorities :: hotstuff_authorities
  hs_last_authorities :: hotstuff_authorities
  hs_internal :: "internal_message list"
  hs_commit_block_params :: "chain_commit_block_params option"
  hs_pending_consensus :: "(peer_id, consensus_message list) hmap"
  hs_pending_new_view :: "(consensus_message \<times> address) list"
  hs_timeout_collector :: timeout_collector
  hs_timeout_tc :: "tc option"
  hs_shutdown :: bool
  hs_answers :: "hs_consensus_state list"

record ('d, 't) hs_world =
  hw_lib :: "('d, 't) chain_lib"
  hw_hl :: hotstuff_lib
  hw_now :: "u64 option"
  hw_instant :: nat
  hw_rand :: "nat \<Rightarrow> nat"

type_synonym ('d, 'kp, 'ver, 'a) hs_comp = "(('d, 'kp, 'ver) hotstuff, 'a, common_error) comp"

abbreviation hs_supp :: "('d, 'kp, 'ver) hotstuff \<Rightarrow> ('d, 'kp, 'ver) support" where
  "hs_supp s \<equiv> st_support (hs_store s)"

abbreviation hs_backend :: "('d, 'kp, 'ver) hotstuff \<Rightarrow> ('d, 'kp, 'ver) backend" where
  "hs_backend s \<equiv> sup_backend (hs_supp s)"

abbreviation hs_executor :: "('d, 'kp, 'ver) hotstuff \<Rightarrow> ('kp, 'ver) executor" where
  "hs_executor s \<equiv> bk_executor (hs_backend s)"

abbreviation hs_view :: "('d, 'kp, 'ver) hotstuff \<Rightarrow> u64" where
  "hs_view s \<equiv> st_view (hs_store s)"

definition on_storage :: "('d, 'kp, 'ver, 'a) st_comp \<Rightarrow> ('d, 'kp, 'ver, 'a) hs_comp" where
  "on_storage m s = (let (r, x) = m (hs_store s) in (r, s\<lparr>hs_store := x\<rparr>))"

section \<open>Starting and choosing the leader\<close>

definition hotstuff_spawn :: "('d, 't) hs_world \<Rightarrow> hotstuff_meta \<Rightarrow> hotstuff_config \<Rightarrow> ('d, 'kp, 'ver) support
    \<Rightarrow> ('d, 'kp, 'ver) hotstuff option common_result" where
  "hotstuff_spawn w meta config supp = (case hc_secret_key config of
     None \<Rightarrow> Ok None
   | Some secret_key \<Rightarrow>
       let xe = bk_executor (sup_backend supp) in
       and_then (get_public_key secret_key xe) (\<lambda>public_key.
       and_then (storage_new (hw_lib w) (hw_hl w) supp) (\<lambda>storage.
       let b = sup_backend (st_support storage) in
       and_then (get_current_state b) (\<lambda>cur.
       let confirmed_number = cur_confirmed_number cur in
       and_then (get_hotstuff_authorities (hw_lib w) (hw_hl w) confirmed_number b) (\<lambda>authorities.
       let last_confirmed_number = (if confirmed_number > 0 then confirmed_number - 1 else 0) in
       and_then (get_hotstuff_authorities (hw_lib w) (hw_hl w) last_confirmed_number b) (\<lambda>last_authorities.
       Ok (Some \<lparr> hs_meta = meta, hs_config = config, hs_secret_key = secret_key, hs_public_key = public_key,
         hs_address = get_address public_key xe, hs_out = [], hs_out_open = True, hs_peers = [], hs_known_validators = [],
         hs_next_request_id = 0, hs_store = storage, hs_next_timeout_instant = None, hs_current_leader = None,
         hs_role = HsObserver, hs_authorities = authorities, hs_last_authorities = last_authorities, hs_internal = [],
         hs_commit_block_params = None, hs_pending_consensus = [], hs_pending_new_view = [], hs_timeout_collector = [],
         hs_timeout_tc = None, hs_shutdown = False, hs_answers = [] \<rparr>)))))))"

definition HotStuff_new :: "('d, 't) hs_world \<Rightarrow> hotstuff_config \<Rightarrow> ('d, 'kp, 'ver) support
    \<Rightarrow> ('d, 'kp, 'ver) hotstuff option common_result" where
  "HotStuff_new w config supp = and_then (get_hotstuff_meta (hw_lib w) (hw_hl w) 0 (sup_backend supp)) (\<lambda>meta.
     hotstuff_spawn w meta config supp)"

text \<open>The position of the last leader plus the views since then, in \<open>u64\<close> and \<open>usize\<close>, around the list of the members.\<close>

definition compute_leader :: "('d, 'kp, 'ver) hotstuff \<Rightarrow> address common_result" where
  "compute_leader s =
     (let members = ha_members (hs_authorities s); base = st_base_commit_qc (hs_store s) in
     and_then (if hs_last_authorities s = hs_authorities s
               then ok_or_else (Panic ''base commit qc is verified'')
                      (map_option of_nat (find_index (\<lambda>m. fst m = qc_leader_address base) members))
               else Ok (of_nat (length members) - 1)) (\<lambda>last_leader_index :: u64.
     let view_diff = hs_view s - qc_view base; leader_index = last_leader_index + view_diff in
     if members = [] then Err (Panic ''attempt to calculate the remainder with a divisor of zero'')
     else Ok (fst (members ! (unat leader_index mod length members)))))"

definition next_timeout_instant :: "('d, 't) hs_world \<Rightarrow> ('d, 'kp, 'ver, nat) hs_comp" where
  "next_timeout_instant w s = (case hs_next_timeout_instant s of
     Some inst \<Rightarrow> (Ok inst, s)
   | None \<Rightarrow> let inst = hw_instant w + unat (hsm_view_timeout (hs_meta s)) in
       (Ok inst, s\<lparr>hs_next_timeout_instant := Some inst\<rparr>))"

definition update_next_timeout_instant :: "('d, 't) hs_world \<Rightarrow> u64 \<Rightarrow> ('d, 'kp, 'ver, unit) hs_comp" where
  "update_next_timeout_instant w extra =
     modify (\<lambda>s. s\<lparr>hs_next_timeout_instant := Some (hw_instant w + unat (hsm_view_timeout (hs_meta s)) + unat extra)\<rparr>)"

definition update_current_leader :: "address option \<Rightarrow> ('d, 'kp, 'ver, unit) hs_comp" where
  "update_current_leader leader = modify (\<lambda>s. s\<lparr>hs_current_leader := leader\<rparr>)"

definition is_member :: "address \<Rightarrow> hotstuff_authorities \<Rightarrow> bool" where
  "is_member address a \<longleftrightarrow> list_ex (\<lambda>m. fst m = address) (ha_members a)"

definition update_state :: "hs_state \<Rightarrow> ('d, 'kp, 'ver, unit) hs_comp" where
  "update_state st = modify (\<lambda>s.
     if st = HsReplica \<and> \<not> is_member (hs_address s) (hs_authorities s) then s\<lparr>hs_role := HsObserver\<rparr>
     else s\<lparr>hs_role := st\<rparr>)"

definition consensus_state :: "('d, 'kp, 'ver) hotstuff \<Rightarrow> hs_consensus_state" where
  "consensus_state s = \<lparr> hcs_consensus_name = CONSENSUS_HOTSTUFF, hcs_address = hs_address s, hcs_meta = hs_meta s,
     hcs_authorities = hs_authorities s, hcs_current_leader = hs_current_leader s \<rparr>"

text \<open>The start of the work and of a view, up to the loop of the chosen role.\<close>

definition start_work :: "('d, 't) hs_world \<Rightarrow> ('d, 'kp, 'ver, unit) hs_comp" where
  "start_work w = bind (ask (\<lambda>s. case hc_init_extra_timeout (hs_config s) of Some t \<Rightarrow> t | None \<Rightarrow> DEFAULT_INIT_EXTRA_TIMEOUT))
     (update_next_timeout_instant w)"

definition choose_role :: "('d, 'kp, 'ver, unit) hs_comp" where
  "choose_role =
     bind (query compute_leader) (\<lambda>current_leader.
     bind (ask hs_address) (\<lambda>address.
     bind (if address = current_leader then update_state HsLeader else update_state HsReplica) (\<lambda>_.
     update_current_leader (Some current_leader))))"

section \<open>Messages out\<close>

definition send_out_message :: "peer_id \<Rightarrow> bytes \<Rightarrow> ('d, 'kp, 'ver, unit) hs_comp" where
  "send_out_message peer_id message s =
     (if hs_out_open s then (Ok (), s\<lparr>hs_out := hs_out s @ [(peer_id, message)]\<rparr>)
      else (Err (ConsensusError ConsensusChannel), s))"

definition next_request_id :: "('d, 'kp, 'ver, request_id) hs_comp" where
  "next_request_id s = (let request_id = hs_next_request_id s; new = (if request_id = - 1 then 0 else request_id + 1) in
     (Ok request_id, s\<lparr>hs_next_request_id := new\<rparr>))"

text \<open>\<open>request\<close> is the message as a function of its request id.\<close>

definition request :: "('d, 't) hs_world \<Rightarrow> peer_id \<Rightarrow> (request_id \<Rightarrow> hotstuff_message) \<Rightarrow> ('d, 'kp, 'ver, request_id) hs_comp" where
  "request w peer_id req =
     bind next_request_id (\<lambda>request_id.
     bind (send_out_message peer_id (enc (hl_message (hw_hl w)) (req request_id))) (\<lambda>_.
     ret request_id))"

definition response :: "('d, 't) hs_world \<Rightarrow> peer_id \<Rightarrow> hotstuff_message \<Rightarrow> ('d, 'kp, 'ver, unit) hs_comp" where
  "response w peer_id res = send_out_message peer_id (enc (hl_message (hw_hl w)) res)"

definition get_peer_address :: "peer_id \<Rightarrow> ('d, 'kp, 'ver) hotstuff \<Rightarrow> address option" where
  "get_peer_address peer_id s = (case hm_get (hs_peers s) peer_id of Some peer_info \<Rightarrow> hpi_address peer_info | None \<Rightarrow> None)"

definition register_validator :: "('d, 't) hs_world \<Rightarrow> peer_id \<Rightarrow> ('d, 'kp, 'ver, request_id option) hs_comp" where
  "register_validator w peer_id =
     bind (ask (\<lambda>s. hm_get (hs_peers s) peer_id)) (\<lambda>p. case p of
       None \<Rightarrow> ret None
     | Some peer_info \<Rightarrow>
         bind (lift_result (encode (hl_nonce (hw_hl w)) (hpi_remote_nonce peer_info))) (\<lambda>message.
         bind (query (\<lambda>s. hs_sign message (hs_secret_key s) (hs_executor s))) (\<lambda>sig.
         bind (ask hs_public_key) (\<lambda>public_key.
         bind (request w peer_id (\<lambda>id. RegisterValidatorReq
                 \<lparr> rvq_request_id = id, rvq_public_key = public_key, rvq_signature = sig \<rparr>)) (\<lambda>request_id.
         ret (Some request_id))))))"

text \<open>A request to a known validator; nothing is sent to an unknown one.\<close>

definition request_validator :: "('d, 't) hs_world \<Rightarrow> address \<Rightarrow> (request_id \<Rightarrow> hotstuff_message)
    \<Rightarrow> ('d, 'kp, 'ver, request_id option) hs_comp" where
  "request_validator w address req =
     bind (ask (\<lambda>s. hm_get (hs_known_validators s) address)) (\<lambda>p. case p of
       None \<Rightarrow> ret None
     | Some peer_id \<Rightarrow> bind (request w peer_id req) (\<lambda>request_id. ret (Some request_id)))"

definition request_proposal :: "('d, 't) hs_world \<Rightarrow> address \<Rightarrow> request_proposal_req \<Rightarrow> ('d, 'kp, 'ver, request_id option) hs_comp" where
  "request_proposal w address req = request_validator w address (\<lambda>id. RequestProposalReq (req\<lparr>rpq_request_id := id\<rparr>))"

definition stream_consensus_message :: "('d, 't) hs_world \<Rightarrow> address \<Rightarrow> consensus_message
    \<Rightarrow> ('d, 'kp, 'ver, request_id option) hs_comp" where
  "stream_consensus_message w address req = request_validator w address (\<lambda>id. ConsensusMessage (req\<lparr>cm_request_id := id\<rparr>))"

definition stream_timeout_message :: "('d, 't) hs_world \<Rightarrow> address \<Rightarrow> timeout_message
    \<Rightarrow> ('d, 'kp, 'ver, request_id option) hs_comp" where
  "stream_timeout_message w address req = request_validator w address (\<lambda>id. TimeoutMessage (req\<lparr>tm_request_id := id\<rparr>))"

text \<open>The members other than the validator itself, in their order.\<close>

definition other_members :: "('d, 'kp, 'ver) hotstuff \<Rightarrow> address list" where
  "other_members s = filter (\<lambda>a. a \<noteq> hs_address s) (map fst (ha_members (hs_authorities s)))"

section \<open>Timeouts\<close>

definition advance_view :: "('d, 't) hs_world \<Rightarrow> u64 \<Rightarrow> ('d, 'kp, 'ver, unit) hs_comp" where
  "advance_view w view =
     bind (on_storage (update_view (hw_lib w) (hw_hl w) (view + 1))) (\<lambda>_.
     modify (\<lambda>s. s\<lparr>hs_timeout_collector := timeout_cleanup view (hs_timeout_collector s)\<rparr>))"

text \<open>The sender and the signature of a timeout message.\<close>

definition timeout_sig_ok :: "('d, 't) hs_world \<Rightarrow> timeout_message \<Rightarrow> address \<Rightarrow> ('d, 'kp, 'ver) hotstuff \<Rightarrow> bool common_result" where
  "timeout_sig_ok w message address s = (case tm_sig message of
     None \<Rightarrow> Ok False
   | Some (public_key, sig) \<Rightarrow>
       if get_address public_key (hs_executor s) \<noteq> address then Ok False
       else and_then (encode (hl_timeout_message (hw_hl w)) (tm_message_type message, tm_view message)) (\<lambda>sig_message.
         Ok (is_ok (hs_verify sig_message public_key sig (hs_executor s)))))"

definition timeout_process_tc :: "('d, 't) hs_world \<Rightarrow> timeout_message \<Rightarrow> ('d, 'kp, 'ver, bool) hs_comp" where
  "timeout_process_tc w message = (case tm_justify message of
     None \<Rightarrow> ret True
   | Some justify \<Rightarrow> bind (ask (\<lambda>s. (tc_view justify \<ge> hs_view s,
         is_ok (verify_tc (hw_lib w) (hw_hl w) (hs_executor s) justify (hs_authorities s))))) (\<lambda>(higher, valid).
       if higher then if valid then bind (advance_view w (tc_view justify)) (\<lambda>_. ret True) else ret False
       else ret True))"

definition on_timeout_new_timeout :: "('d, 't) hs_world \<Rightarrow> timeout_message \<Rightarrow> address \<Rightarrow> ('d, 'kp, 'ver, unit) hs_comp" where
  "on_timeout_new_timeout w message address =
     bind (query (timeout_sig_ok w message address)) (\<lambda>valid.
     if \<not> valid then ret () else
     bind (timeout_process_tc w message) (\<lambda>valid.
     if \<not> valid then ret () else
     bind (modify (\<lambda>s. s\<lparr>hs_timeout_collector := timeout_add address message (hs_timeout_collector s)\<rparr>)) (\<lambda>_.
     bind (query (\<lambda>s. get_tc (hs_authorities s) (tm_view message) (hs_timeout_collector s))) (\<lambda>t. case t of
       None \<Rightarrow> ret ()
     | Some t \<Rightarrow>
         bind (modify (\<lambda>s. s\<lparr>hs_timeout_tc := Some t\<rparr>)) (\<lambda>_.
         bind (advance_view w (tc_view t)) (\<lambda>_.
         bind (ask other_members) (\<lambda>addresses.
         for_each (\<lambda>address. bind (stream_timeout_message w address
             \<lparr> tm_request_id = 0, tm_message_type = TimeoutDecide, tm_view = tc_view t, tm_justify = Some t, tm_sig = None \<rparr>)
             (\<lambda>_. ret ())) addresses)))))))"

definition on_timeout_decide :: "('d, 't) hs_world \<Rightarrow> timeout_message \<Rightarrow> address \<Rightarrow> ('d, 'kp, 'ver, unit) hs_comp" where
  "on_timeout_decide w message address = (case tm_justify message of
     None \<Rightarrow> ret ()
   | Some justify \<Rightarrow> bind (ask (\<lambda>s. is_ok (verify_tc (hw_lib w) (hw_hl w) (hs_executor s) justify (hs_authorities s)))) (\<lambda>valid.
       if valid then advance_view w (tc_view justify) else ret ()))"

definition on_timeout_message :: "('d, 't) hs_world \<Rightarrow> timeout_message \<Rightarrow> address \<Rightarrow> ('d, 'kp, 'ver, unit) hs_comp" where
  "on_timeout_message w message address =
     bind (ask hs_view) (\<lambda>view.
     if tm_view message < view then ret ()
     else case tm_message_type message of
       NewTimeout \<Rightarrow> on_timeout_new_timeout w message address
     | TimeoutDecide \<Rightarrow> on_timeout_decide w message address)"

definition on_timeout :: "('d, 't) hs_world \<Rightarrow> ('d, 'kp, 'ver, unit) hs_comp" where
  "on_timeout w =
     bind (ask (\<lambda>s. \<lparr> tm_request_id = 0, tm_message_type = NewTimeout, tm_view = hs_view s, tm_justify = hs_timeout_tc s,
                      tm_sig = None \<rparr>)) (\<lambda>message.
     bind (lift_result (encode (hl_timeout_message (hw_hl w)) (tm_message_type message, tm_view message))) (\<lambda>sig_message.
     bind (query (\<lambda>s. hs_sign sig_message (hs_secret_key s) (hs_executor s))) (\<lambda>sig.
     bind (ask hs_public_key) (\<lambda>public_key.
     let message = message\<lparr>tm_sig := Some (public_key, sig)\<rparr> in
     bind (ask other_members) (\<lambda>addresses.
     bind (ask hs_address) (\<lambda>address.
     bind (on_timeout_message w message address) (\<lambda>_.
     bind (for_each (\<lambda>address. bind (stream_timeout_message w address message) (\<lambda>_. ret ())) addresses) (\<lambda>_.
     update_next_timeout_instant w 0))))))))"

section \<open>Proposals\<close>

text \<open>The errors of \<open>VerifyError\<close>; \<open>VeBad\<close> and \<open>VeInvalidProof\<close> are not among those of HotStuff.\<close>

fun on_proposal_verify_err :: "verify_error \<Rightarrow> verify_action common_result" where
  "on_proposal_verify_err VeShouldWait = Ok VerifyWait"
| "on_proposal_verify_err _ = Ok VerifyDiscard"

definition on_proposal_verify_result :: "(proposal \<times> chain_commit_block_params) common_result \<Rightarrow> verify_action common_result" where
  "on_proposal_verify_result r = or_else_catch as_hotstuff_error
     (\<lambda>e. case e of HotStuffVerify e \<Rightarrow> Some (on_proposal_verify_err e) | _ \<Rightarrow> None)
     (and_then r (\<lambda>(p, commit_block_params). Ok (VerifyOk p commit_block_params)))"

definition stream_on_proposal :: "('d, 't) hs_world \<Rightarrow> proposal \<Rightarrow> ('d, 'kp, 'ver, unit) hs_comp" where
  "stream_on_proposal w p =
     bind (query (\<lambda>s. on_proposal_verify_result (verify_proposal (hw_lib w) p (hs_backend s)))) (\<lambda>action. case action of
       VerifyOk p commit_block_params \<Rightarrow>
         bind (modify (\<lambda>s. s\<lparr>hs_commit_block_params := Some commit_block_params\<rparr>)) (\<lambda>_.
         on_storage (put_proposal (hw_lib w) (hw_hl w) p))
     | VerifyWait \<Rightarrow> ret ()
     | VerifyDiscard \<Rightarrow> ret ())"

definition on_req_request_proposal :: "('d, 't) hs_world \<Rightarrow> address \<Rightarrow> request_proposal_req
    \<Rightarrow> ('d, 'kp, 'ver, request_proposal_res) hs_comp" where
  "on_req_request_proposal w address req =
     bind (on_storage (get_proposal (hw_lib w) (hw_hl w) (rpq_block_hash req))) (\<lambda>p.
     bind (ok_or (ConsensusError (ConsensusData ''Missing proposal on req request proposal'')) p) (\<lambda>p.
     ret \<lparr> rps_request_id = rpq_request_id req, rps_proposal = Some p \<rparr>))"

definition internal_send :: "internal_message \<Rightarrow> ('d, 'kp, 'ver, unit) hs_comp" where
  "internal_send m = modify (\<lambda>s. s\<lparr>hs_internal := hs_internal s @ [m]\<rparr>)"

definition on_res_request_proposal :: "('d, 't) hs_world \<Rightarrow> address \<Rightarrow> request_proposal_res \<Rightarrow> ('d, 'kp, 'ver, unit) hs_comp" where
  "on_res_request_proposal w address res = (case rps_proposal res of
     None \<Rightarrow> ret ()
   | Some p \<Rightarrow> bind (stream_on_proposal w p) (\<lambda>_. internal_send (InternalProposal address p)))"

section \<open>Validators\<close>

definition on_req_register_validator :: "('d, 't) hs_world \<Rightarrow> peer_id \<Rightarrow> register_validator_req
    \<Rightarrow> ('d, 'kp, 'ver, register_validator_res) hs_comp" where
  "on_req_register_validator w peer_id req =
     bind (ask (\<lambda>s. hm_get (hs_peers s) peer_id)) (\<lambda>p.
     bind (case p of
         None \<Rightarrow> ret False
       | Some peer_info \<Rightarrow>
           bind (lift_result (encode (hl_nonce (hw_hl w)) (hpi_local_nonce peer_info))) (\<lambda>message.
           bind (ask (\<lambda>s. is_ok (hs_verify message (rvq_public_key req) (rvq_signature req) (hs_executor s)))) (\<lambda>success.
           if success then
             bind (ask (\<lambda>s. get_address (rvq_public_key req) (hs_executor s))) (\<lambda>address.
             bind (modify (\<lambda>s. s\<lparr>hs_peers := hm_insert peer_id (peer_info\<lparr>hpi_address := Some address\<rparr>) (hs_peers s),
                hs_known_validators := hm_insert address peer_id (hs_known_validators s)\<rparr>)) (\<lambda>_.
             bind (internal_send (ValidatorRegistered address peer_id)) (\<lambda>_. ret True)))
           else ret False))) (\<lambda>success.
     ret \<lparr> rvs_request_id = rvq_request_id req, rvs_success = success \<rparr>))"

definition on_res_register_validator :: "peer_id \<Rightarrow> register_validator_res \<Rightarrow> ('d, 'kp, 'ver, unit) hs_comp" where
  "on_res_register_validator peer_id res = ret ()"

section \<open>Messages in\<close>

definition on_network_protocol_open :: "('d, 't) hs_world \<Rightarrow> peer_id \<Rightarrow> u64 \<Rightarrow> u64 \<Rightarrow> ('d, 'kp, 'ver, unit) hs_comp" where
  "on_network_protocol_open w peer_id local_nonce remote_nonce =
     bind (modify (\<lambda>s. s\<lparr>hs_peers := hm_insert peer_id
        \<lparr> hpi_local_nonce = local_nonce, hpi_remote_nonce = remote_nonce, hpi_address = None \<rparr> (hs_peers s)\<rparr>)) (\<lambda>_.
     bind (register_validator w peer_id) (\<lambda>_. ret ()))"

definition on_network_protocol_close :: "peer_id \<Rightarrow> ('d, 'kp, 'ver, unit) hs_comp" where
  "on_network_protocol_close peer_id = modify (\<lambda>s. s\<lparr>
     hs_known_validators := (case get_peer_address peer_id s of
        Some address \<Rightarrow> hm_remove address (hs_known_validators s) | None \<Rightarrow> hs_known_validators s),
     hs_peers := hm_remove peer_id (hs_peers s)\<rparr>)"

definition for_known_peer :: "peer_id \<Rightarrow> (address \<Rightarrow> ('d, 'kp, 'ver, unit) hs_comp) \<Rightarrow> ('d, 'kp, 'ver, unit) hs_comp" where
  "for_known_peer peer_id k = bind (ask (get_peer_address peer_id)) (\<lambda>a. case a of Some address \<Rightarrow> k address | None \<Rightarrow> ret ())"

definition on_network_message :: "('d, 't) hs_world \<Rightarrow> peer_id \<Rightarrow> bytes \<Rightarrow> ('d, 'kp, 'ver, unit) hs_comp" where
  "on_network_message w peer_id message =
     bind (lift_result (decode (hl_message (hw_hl w)) message)) (\<lambda>m. case m of
       RegisterValidatorReq req \<Rightarrow>
         bind (on_req_register_validator w peer_id req) (\<lambda>res. response w peer_id (RegisterValidatorRes res))
     | RegisterValidatorRes res \<Rightarrow> on_res_register_validator peer_id res
     | RequestProposalReq req \<Rightarrow> for_known_peer peer_id (\<lambda>address.
         bind (on_req_request_proposal w address req) (\<lambda>res. response w peer_id (RequestProposalRes res)))
     | RequestProposalRes res \<Rightarrow> for_known_peer peer_id (\<lambda>address. on_res_request_proposal w address res)
     | ConsensusMessage m \<Rightarrow> internal_send (InternalConsensus m peer_id)
     | TimeoutMessage m \<Rightarrow> for_known_peer peer_id (\<lambda>address. on_timeout_message w m address))"

definition stream_on_block_committed :: "('d, 't) hs_world \<Rightarrow> block_number \<Rightarrow> hash \<Rightarrow> ('d, 'kp, 'ver, unit) hs_comp" where
  "stream_on_block_committed w number block_hash =
     bind (on_storage (refresh (hw_lib w) (hw_hl w))) (\<lambda>_.
     bind (query (\<lambda>s. get_current_state (hs_backend s))) (\<lambda>cur.
     bind (query (\<lambda>s. get_hotstuff_authorities (hw_lib w) (hw_hl w) (cur_confirmed_number cur) (hs_backend s))) (\<lambda>authorities.
     modify (\<lambda>s. s\<lparr>hs_last_authorities := hs_authorities s, hs_authorities := authorities\<rparr>))))"

definition on_in_message :: "('d, 't) hs_world \<Rightarrow> consensus_in_message \<Rightarrow> ('d, 'kp, 'ver, unit) hs_comp" where
  "on_in_message w m = (case m of
     NetworkProtocolOpen peer_id local_nonce remote_nonce \<Rightarrow> on_network_protocol_open w peer_id local_nonce remote_nonce
   | NetworkProtocolClose peer_id \<Rightarrow> on_network_protocol_close peer_id
   | NetworkMessage peer_id message \<Rightarrow> on_network_message w peer_id message
   | BlockCommitted number block_hash \<Rightarrow> stream_on_block_committed w number block_hash
   | GetConsensusState \<Rightarrow> modify (\<lambda>s. s\<lparr>hs_answers := hs_answers s @ [consensus_state s]\<rparr>)
   | _ \<Rightarrow> ret ())"

definition on_internal_message :: "internal_message \<Rightarrow> ('d, 'kp, 'ver, unit) hs_comp" where
  "on_internal_message m = ret ()"

section \<open>Decisions\<close>

text \<open>The block is committed with the certificate as its proof, and its transactions leave the pool.\<close>

definition stream_on_decide :: "('d, 't) hs_world \<Rightarrow> chain_commit_block_params \<Rightarrow> qc \<Rightarrow> ('d, 'kp, 'ver, unit) hs_comp" where
  "stream_on_decide w commit_block_params commit_qc =
     bind (lift_result (hotstuff_proof_into (hw_hl w) commit_qc)) (\<lambda>pf.
     let p = commit_block_params\<lparr>cb_proof := pf\<rparr>;
         tx_hash_set = remdups (body_meta_txs (cb_body p) @ body_payload_txs (cb_body p)) in
     bind (on_storage (on_support (support_commit_block (hw_lib w) (hw_now w) p))) (\<lambda>_.
     on_storage (on_support (txpool_remove_transactions tx_hash_set))))"

end
