(* ===== verification/Hotstuff_State.thy ===== *)
theory Hotstuff_State
  imports Hotstuff_Stream
begin

text \<open>
  The roles of a validator in a view (\<^verbatim>\<open>core/node/consensus/hotstuff/src/stream/state.rs\<close>): the leader proposes a block and collects
  the votes of three phases, a replica votes, an observer only keeps the messages of the next view.

  The loops of the roles and of the stream are the machine \<open>hs_step\<close>: one step is one turn of the innermost loop, with the event that
  \<open>select!\<close> picks as an argument.
\<close>

section \<open>What the roles share\<close>

definition hs_encode_sig :: "('d, 't) hs_world \<Rightarrow> consensus_message \<Rightarrow> address \<Rightarrow> bytes common_result" where
  "hs_encode_sig w message leader_address =
     encode (hl_sig_message (hw_hl w)) (cm_message_type message, cm_view message, cm_node message, leader_address)"

definition sign_message :: "('d, 't) hs_world \<Rightarrow> consensus_message \<Rightarrow> ('d, 'kp, 'ver) hotstuff \<Rightarrow> consensus_message common_result" where
  "sign_message w message s =
     and_then (ok_or_else (Panic ''qed'') (hs_current_leader s)) (\<lambda>leader_address.
     and_then (hs_encode_sig w message leader_address) (\<lambda>sig_message.
     and_then (hs_sign sig_message (hs_secret_key s) (hs_executor s)) (\<lambda>sig.
     Ok (message\<lparr>cm_sig := Some (hs_public_key s, sig)\<rparr>))))"

text \<open>The messages of a peer that has not registered wait until it does.\<close>

definition pend_message :: "consensus_message \<Rightarrow> peer_id \<Rightarrow> ('d, 'kp, 'ver, unit) hs_comp" where
  "pend_message message peer_id = modify (\<lambda>s.
     let messages = (case hm_get (hs_pending_consensus s) peer_id of Some ms \<Rightarrow> ms | None \<Rightarrow> []) in
     s\<lparr>hs_pending_consensus := hm_insert peer_id (messages @ [message]) (hs_pending_consensus s)\<rparr>)"

definition take_pending :: "peer_id \<Rightarrow> ('d, 'kp, 'ver, consensus_message list) hs_comp" where
  "take_pending peer_id s = (Ok (case hm_get (hs_pending_consensus s) peer_id of Some ms \<Rightarrow> ms | None \<Rightarrow> []),
     s\<lparr>hs_pending_consensus := hm_remove peer_id (hs_pending_consensus s)\<rparr>)"

definition new_view_message :: "('d, 'kp, 'ver) hotstuff \<Rightarrow> consensus_message" where
  "new_view_message s = \<lparr> cm_request_id = 0, cm_message_type = NewView, cm_view = hs_view s, cm_node = None,
     cm_justify = Some (st_prepare_qc (hs_store s)), cm_sig = None \<rparr>"

text \<open>The certificate of the base block was made by the authorities before it.\<close>

definition justify_authorities :: "qc \<Rightarrow> ('d, 'kp, 'ver) hotstuff \<Rightarrow> hotstuff_authorities" where
  "justify_authorities justify s =
     (if qc_view justify = qc_view (st_base_commit_qc (hs_store s)) then hs_last_authorities s else hs_authorities s)"

definition hs_verify_qc :: "('d, 't) hs_world \<Rightarrow> qc \<Rightarrow> message_type option \<Rightarrow> hotstuff_authorities \<Rightarrow> ('d, 'kp, 'ver) hotstuff
    \<Rightarrow> unit common_result" where
  "hs_verify_qc w q t authorities s = verify_qc (hw_lib w) (hw_hl w) (hs_executor s) q t authorities"

text \<open>A proposal in the storage and the parameters of its block, which are taken out.\<close>

definition take_decided :: "('d, 't) hs_world \<Rightarrow> qc \<Rightarrow> ('d, 'kp, 'ver, chain_commit_block_params option) hs_comp" where
  "take_decided w commit_qc =
     bind (on_storage (get_proposal (hw_lib w) (hw_hl w) (nd_block_hash (qc_node commit_qc)))) (\<lambda>p. case p of
       None \<Rightarrow> ret None
     | Some p \<Rightarrow>
         bind (ask hs_commit_block_params) (\<lambda>v.
         bind (modify (\<lambda>s. s\<lparr>hs_commit_block_params := None\<rparr>)) (\<lambda>_.
         ret (case v of Some v \<Rightarrow> if cb_block_hash v = pro_block_hash p then Some v else None | None \<Rightarrow> None))))"

definition decide :: "('d, 't) hs_world \<Rightarrow> qc \<Rightarrow> ('d, 'kp, 'ver, unit) hs_comp" where
  "decide w commit_qc = bind (take_decided w commit_qc) (\<lambda>v. case v of
     Some commit_block_params \<Rightarrow> stream_on_decide w commit_block_params commit_qc
   | None \<Rightarrow> ret ())"

section \<open>The leader\<close>

record ('d, 'kp, 'ver) leader =
  ld_stream :: "('d, 'kp, 'ver) hotstuff"
  ld_new_view_collector :: message_collector
  ld_prepare_collector :: message_collector
  ld_pre_commit_collector :: message_collector
  ld_commit_collector :: message_collector
  ld_work_schedule_signal :: "u64 option"
  ld_work_new_view_signal :: "qc option"
  ld_pending_remote_proposal :: "hash option"
  ld_prepare_message :: "consensus_message option"
  ld_pre_commit_message :: "consensus_message option"
  ld_commit_message :: "consensus_message option"
  ld_decide_message :: "consensus_message option"

type_synonym ('d, 'kp, 'ver, 'a) ld_comp = "(('d, 'kp, 'ver) leader, 'a, common_error) comp"

definition on_stream :: "('d, 'kp, 'ver, 'a) hs_comp \<Rightarrow> ('d, 'kp, 'ver, 'a) ld_comp" where
  "on_stream m l = (let (r, s) = m (ld_stream l) in (r, l\<lparr>ld_stream := s\<rparr>))"

definition leader_new :: "('d, 'kp, 'ver) hotstuff \<Rightarrow> ('d, 'kp, 'ver) leader" where
  "leader_new s = \<lparr> ld_stream = s, ld_new_view_collector = [], ld_prepare_collector = [], ld_pre_commit_collector = [],
     ld_commit_collector = [], ld_work_schedule_signal = None, ld_work_new_view_signal = None, ld_pending_remote_proposal = None,
     ld_prepare_message = None, ld_pre_commit_message = None, ld_commit_message = None, ld_decide_message = None \<rparr>"

definition broadcast_message :: "('d, 't) hs_world \<Rightarrow> consensus_message \<Rightarrow> ('d, 'kp, 'ver, unit) ld_comp" where
  "broadcast_message w message =
     bind (ask (\<lambda>l. other_members (ld_stream l))) (\<lambda>addresses.
     for_each (\<lambda>address. bind (on_stream (stream_consensus_message w address message)) (\<lambda>_. ret ())) addresses)"

text \<open>The leader's own message is completed and signed; the message of another validator is checked. The node of the proposal is read
  last: without a proposal the \<open>expect\<close> fails.\<close>

definition verify_message :: "('d, 't) hs_world \<Rightarrow> consensus_message \<Rightarrow> address \<Rightarrow> ('d, 'kp, 'ver) leader \<Rightarrow> consensus_message common_result" where
  "verify_message w message address l = (let s = ld_stream l in
     if hs_address s = address then
       and_then (ok_or_else (Panic ''qed'') (ld_prepare_message l)) (\<lambda>pm.
       sign_message w (message\<lparr>cm_node := cm_node pm, cm_justify := None\<rparr>) s)
     else case cm_sig message of
       None \<Rightarrow> Err (HotStuffError (HotStuffMessage ''Missing sig''))
     | Some (public_key, sig) \<Rightarrow>
         if get_address public_key (hs_executor s) \<noteq> address then Err (HotStuffError (HotStuffMessage ''Unexpected address''))
         else
           and_then (hs_encode_sig w message (hs_address s)) (\<lambda>sig_message.
           and_then (hs_verify sig_message public_key sig (hs_executor s)) (\<lambda>_.
           and_then (ok_or_else (Panic ''qed'') (ld_prepare_message l)) (\<lambda>pm.
           if cm_node message \<noteq> cm_node pm then Err (HotStuffError (HotStuffMessage ''Unexpected node''))
           else Ok message))))"

text \<open>The message of a phase carries the certificate of the phase before it.\<close>

definition phase_message :: "message_type \<Rightarrow> qc \<Rightarrow> ('d, 'kp, 'ver) leader \<Rightarrow> consensus_message" where
  "phase_message t q l = \<lparr> cm_request_id = 0, cm_message_type = t, cm_view = hs_view (ld_stream l), cm_node = None, cm_justify = Some q,
     cm_sig = None \<rparr>"

definition collected :: "(('d, 'kp, 'ver) leader \<Rightarrow> message_collector) \<Rightarrow> ('d, 'kp, 'ver) leader \<Rightarrow> qc option common_result" where
  "collected sel l = get_qc (hs_authorities (ld_stream l)) (hs_address (ld_stream l)) (sel l)"

definition leader_on_decide :: "('d, 't) hs_world \<Rightarrow> qc \<Rightarrow> ('d, 'kp, 'ver, unit) ld_comp" where
  "leader_on_decide w commit_qc = on_stream (decide w commit_qc)"

definition leader_on_commit :: "('d, 't) hs_world \<Rightarrow> consensus_message \<Rightarrow> address \<Rightarrow> ('d, 'kp, 'ver, unit) ld_comp" where
  "leader_on_commit w message address =
     bind (ask (verify_message w message address)) (\<lambda>r. when_ok r (\<lambda>message.
     bind (modify (\<lambda>l. l\<lparr>ld_commit_collector := collector_add address message (ld_commit_collector l)\<rparr>)) (\<lambda>_.
     bind (query (collected ld_commit_collector)) (\<lambda>q.
     bind (ask ld_decide_message) (\<lambda>m. case (q, m) of
       (Some commit_qc, None) \<Rightarrow>
         bind (ask (phase_message Decide commit_qc)) (\<lambda>decide_message.
         bind (modify (\<lambda>l. l\<lparr>ld_decide_message := Some decide_message\<rparr>)) (\<lambda>_.
         bind (leader_on_decide w commit_qc) (\<lambda>_.
         broadcast_message w decide_message)))
     | _ \<Rightarrow> ret ())))))"

definition leader_on_pre_commit :: "('d, 't) hs_world \<Rightarrow> consensus_message \<Rightarrow> address \<Rightarrow> ('d, 'kp, 'ver, unit) ld_comp" where
  "leader_on_pre_commit w message address =
     bind (ask (verify_message w message address)) (\<lambda>r. when_ok r (\<lambda>message.
     bind (modify (\<lambda>l. l\<lparr>ld_pre_commit_collector := collector_add address message (ld_pre_commit_collector l)\<rparr>)) (\<lambda>_.
     bind (query (collected ld_pre_commit_collector)) (\<lambda>q.
     bind (ask ld_commit_message) (\<lambda>m. case (q, m) of
       (Some pre_commit_qc, None) \<Rightarrow>
         bind (on_stream (on_storage (update_locked_qc (hw_lib w) (hw_hl w) pre_commit_qc))) (\<lambda>_.
         bind (ask (phase_message Commit pre_commit_qc)) (\<lambda>commit_message.
         bind (modify (\<lambda>l. l\<lparr>ld_commit_message := Some commit_message\<rparr>)) (\<lambda>_.
         bind (ask (\<lambda>l. hs_address (ld_stream l))) (\<lambda>own.
         bind (leader_on_commit w commit_message own) (\<lambda>_.
         broadcast_message w commit_message)))))
     | _ \<Rightarrow> ret ())))))"

definition leader_on_prepare :: "('d, 't) hs_world \<Rightarrow> consensus_message \<Rightarrow> address \<Rightarrow> ('d, 'kp, 'ver, unit) ld_comp" where
  "leader_on_prepare w message address =
     bind (ask (verify_message w message address)) (\<lambda>r. when_ok r (\<lambda>message.
     bind (modify (\<lambda>l. l\<lparr>ld_prepare_collector := collector_add address message (ld_prepare_collector l)\<rparr>)) (\<lambda>_.
     bind (query (collected ld_prepare_collector)) (\<lambda>q.
     bind (ask ld_pre_commit_message) (\<lambda>m. case (q, m) of
       (Some prepare_qc, None) \<Rightarrow>
         bind (on_stream (on_storage (update_prepare_qc (hw_lib w) (hw_hl w) prepare_qc))) (\<lambda>_.
         bind (ask (phase_message PreCommit prepare_qc)) (\<lambda>pre_commit_message.
         bind (modify (\<lambda>l. l\<lparr>ld_pre_commit_message := Some pre_commit_message\<rparr>)) (\<lambda>_.
         bind (ask (\<lambda>l. hs_address (ld_stream l))) (\<lambda>own.
         bind (leader_on_pre_commit w pre_commit_message own) (\<lambda>_.
         broadcast_message w pre_commit_message)))))
     | _ \<Rightarrow> ret ())))))"

subsection \<open>Proposing\<close>

definition prepare_message_of :: "proposal \<Rightarrow> qc \<Rightarrow> ('d, 'kp, 'ver) leader \<Rightarrow> consensus_message" where
  "prepare_message_of p high_qc l = \<lparr> cm_request_id = 0, cm_message_type = Prepare, cm_view = hs_view (ld_stream l),
     cm_node = Some \<lparr> nd_parent_hash = pro_parent_hash p, nd_block_hash = pro_block_hash p \<rparr>, cm_justify = Some high_qc,
     cm_sig = None \<rparr>"

definition leader_on_proposal :: "('d, 't) hs_world \<Rightarrow> proposal \<Rightarrow> ('d, 'kp, 'ver, unit) ld_comp" where
  "leader_on_proposal w p =
     bind (query (\<lambda>l. ok_or_else (Panic ''qed'') (ld_work_new_view_signal l))) (\<lambda>high_qc.
     bind (ask (prepare_message_of p high_qc)) (\<lambda>prepare_message.
     bind (modify (\<lambda>l. l\<lparr>ld_prepare_message := Some prepare_message\<rparr>)) (\<lambda>_.
     bind (ask (\<lambda>l. hs_address (ld_stream l))) (\<lambda>own.
     bind (leader_on_prepare w prepare_message own) (\<lambda>_.
     bind (ask (\<lambda>l. other_members (ld_stream l))) (\<lambda>addresses.
     for_each (\<lambda>address.
       bind (ask (\<lambda>l. hm_get (hs_known_validators (ld_stream l)) address)) (\<lambda>known.
       bind (case known of
           Some peer_id \<Rightarrow> on_stream (response w peer_id (RequestProposalRes \<lparr> rps_request_id = 0, rps_proposal = Some p \<rparr>))
         | None \<Rightarrow> ret ()) (\<lambda>_.
       bind (on_stream (stream_consensus_message w address prepare_message)) (\<lambda>_. ret ())))) addresses))))))"

definition create_proposal :: "('d, 't) hs_world \<Rightarrow> u64 \<Rightarrow> ('d, 'kp, 'ver, unit) ld_comp" where
  "create_proposal w schedule_info =
     bind (on_stream (on_storage (on_support (prepare_block (hw_lib w) schedule_info)))) (\<lambda>bb.
     bind (query (\<lambda>l. build_block (hw_lib w) bb (hs_backend (ld_stream l)))) (\<lambda>commit_block_params.
     let p = \<lparr> pro_parent_hash = hdr_parent_hash (cb_header commit_block_params), pro_block_hash = cb_block_hash commit_block_params,
           pro_number = bb_number bb, pro_timestamp = bb_timestamp bb, pro_meta_txs = map ftx_tx (bb_meta_txs bb),
           pro_payload_txs = map ftx_tx (bb_payload_txs bb), pro_execution_number = bb_execution_number bb \<rparr> in
     bind (on_stream (modify (\<lambda>s. s\<lparr>hs_commit_block_params := Some commit_block_params\<rparr>))) (\<lambda>_.
     bind (on_stream (on_storage (put_proposal (hw_lib w) (hw_hl w) p))) (\<lambda>_.
     leader_on_proposal w p))))"

definition get_txs :: "('d, 't) hs_world \<Rightarrow> ('d, 'kp, 'ver) hotstuff \<Rightarrow> transaction list \<Rightarrow> full_transaction list common_result" where
  "get_txs w s txs = collect_results (map (\<lambda>tx. and_then (hash_transaction (hs_executor s) (cc_exec (cl_codecs (hw_lib w))) tx) (\<lambda>tx_hash.
     Ok \<lparr> ftx_tx = tx, ftx_hash = tx_hash \<rparr>)) txs)"

text \<open>The parameters of the block are built again unless they are those of the proposal.\<close>

definition on_local_proposal :: "('d, 't) hs_world \<Rightarrow> proposal \<Rightarrow> ('d, 'kp, 'ver, unit) ld_comp" where
  "on_local_proposal w p =
     bind (ask (\<lambda>l. map_option cb_block_hash (hs_commit_block_params (ld_stream l)))) (\<lambda>block_hash.
     bind (if block_hash \<noteq> Some (pro_block_hash p) then
         bind (query (\<lambda>l. let s = ld_stream l in
           and_then (get_txs w s (pro_meta_txs p)) (\<lambda>meta_txs.
           and_then (get_txs w s (pro_payload_txs p)) (\<lambda>payload_txs.
           build_block (hw_lib w) \<lparr> bb_number = pro_number p, bb_timestamp = pro_timestamp p, bb_meta_txs = meta_txs,
             bb_payload_txs = payload_txs, bb_execution_number = pro_execution_number p \<rparr> (hs_backend s))))) (\<lambda>commit_block_params.
         on_stream (modify (\<lambda>s. s\<lparr>hs_commit_block_params := Some commit_block_params\<rparr>)))
       else ret ()) (\<lambda>_.
     leader_on_proposal w p))"

text \<open>The random index of the address to ask; with no address but the leader's own \<open>gen_range(0, 0)\<close> panics.\<close>

definition reuse_proposal :: "('d, 't) hs_world \<Rightarrow> qc \<Rightarrow> ('d, 'kp, 'ver, unit) ld_comp" where
  "reuse_proposal w high_qc =
     bind (on_stream (on_storage (get_proposal (hw_lib w) (hw_hl w) (nd_block_hash (qc_node high_qc))))) (\<lambda>p. case p of
       Some p \<Rightarrow> on_local_proposal w p
     | None \<Rightarrow>
         bind (ask (\<lambda>l. filter (\<lambda>a. a \<noteq> hs_address (ld_stream l)) (get_high_qc_addresses high_qc (ld_new_view_collector l))))
           (\<lambda>remote_addresses. let rand = hw_rand w (length remote_addresses) in
         if rand < length remote_addresses then
           bind (on_stream (request_proposal w (remote_addresses ! rand)
                   \<lparr> rpq_request_id = 0, rpq_block_hash = nd_block_hash (qc_node high_qc) \<rparr>)) (\<lambda>_.
           modify (\<lambda>l. l\<lparr>ld_pending_remote_proposal := Some (nd_block_hash (qc_node high_qc))\<rparr>))
         else fail (Panic ''gen_range'')))"

definition leader_work :: "('d, 't) hs_world \<Rightarrow> ('d, 'kp, 'ver, unit) ld_comp" where
  "leader_work w =
     bind (query (\<lambda>l. ok_or_else (Panic ''qed'') (ld_work_new_view_signal l))) (\<lambda>high_qc.
     bind (ask (\<lambda>l. st_base_commit_qc (hs_store (ld_stream l)))) (\<lambda>base_commit_qc.
     if nd_block_hash (qc_node high_qc) = nd_block_hash (qc_node base_commit_qc) then
       bind (query (\<lambda>l. ok_or_else (Panic ''qed'') (ld_work_schedule_signal l))) (create_proposal w)
     else if nd_parent_hash (qc_node high_qc) = nd_block_hash (qc_node base_commit_qc) then reuse_proposal w high_qc
     else ret ()))"

definition try_work :: "('d, 't) hs_world \<Rightarrow> u64 option \<Rightarrow> qc option \<Rightarrow> ('d, 'kp, 'ver, unit) ld_comp" where
  "try_work w work_schedule_signal work_new_view_signal =
     bind (if work_schedule_signal \<noteq> None then modify (\<lambda>l. l\<lparr>ld_work_schedule_signal := work_schedule_signal\<rparr>) else ret ()) (\<lambda>_.
     bind (if work_new_view_signal \<noteq> None then modify (\<lambda>l. l\<lparr>ld_work_new_view_signal := work_new_view_signal\<rparr>) else ret ()) (\<lambda>_.
     bind (ask (\<lambda>l. ld_work_new_view_signal l \<noteq> None \<and> ld_work_schedule_signal l \<noteq> None \<and> ld_prepare_message l = None
                    \<and> ld_pending_remote_proposal l = None)) (\<lambda>ready.
     if ready then leader_work w else ret ())))"

subsection \<open>Messages\<close>

definition leader_on_new_view :: "('d, 't) hs_world \<Rightarrow> consensus_message \<Rightarrow> address \<Rightarrow> ('d, 'kp, 'ver, unit) ld_comp" where
  "leader_on_new_view w message address = (case cm_justify message of
     None \<Rightarrow> ret ()
   | Some justify \<Rightarrow>
       bind (ask (\<lambda>l. hs_verify_qc w justify None (justify_authorities justify (ld_stream l)) (ld_stream l))) (\<lambda>r. when_ok r (\<lambda>_.
       bind (modify (\<lambda>l. l\<lparr>ld_new_view_collector := collector_add address message (ld_new_view_collector l)\<rparr>)) (\<lambda>_.
       bind (query (\<lambda>l. get_high_qc (hs_authorities (ld_stream l)) (ld_new_view_collector l))) (\<lambda>q.
       bind (ask ld_work_new_view_signal) (\<lambda>sig. case (q, sig) of
         (Some high_qc, None) \<Rightarrow> try_work w None (Some high_qc)
       | _ \<Rightarrow> ret ()))))))"

definition leader_on_validator_consensus_message :: "('d, 't) hs_world \<Rightarrow> consensus_message \<Rightarrow> address \<Rightarrow> ('d, 'kp, 'ver, unit) ld_comp" where
  "leader_on_validator_consensus_message w message address =
     bind (ask (\<lambda>l. hs_view (ld_stream l))) (\<lambda>view.
     if cm_view message \<noteq> view then ret ()
     else case cm_message_type message of
       NewView \<Rightarrow> leader_on_new_view w message address
     | Prepare \<Rightarrow> leader_on_prepare w message address
     | PreCommit \<Rightarrow> leader_on_pre_commit w message address
     | Commit \<Rightarrow> leader_on_commit w message address
     | Decide \<Rightarrow> ret ())"

definition leader_on_consensus_message :: "('d, 't) hs_world \<Rightarrow> consensus_message \<Rightarrow> peer_id \<Rightarrow> ('d, 'kp, 'ver, unit) ld_comp" where
  "leader_on_consensus_message w message peer_id =
     bind (ask (\<lambda>l. (get_peer_address peer_id (ld_stream l), hs_authorities (ld_stream l)))) (\<lambda>(a, authorities). case a of
       Some address \<Rightarrow> if is_member address authorities then leader_on_validator_consensus_message w message address else ret ()
     | None \<Rightarrow> on_stream (pend_message message peer_id))"

definition leader_on_validator_registered :: "('d, 't) hs_world \<Rightarrow> address \<Rightarrow> peer_id \<Rightarrow> ('d, 'kp, 'ver, unit) ld_comp" where
  "leader_on_validator_registered w address peer_id =
     bind (on_stream (take_pending peer_id)) (\<lambda>messages.
     for_each (\<lambda>message. leader_on_validator_consensus_message w message address) messages)"

definition on_remote_proposal :: "('d, 't) hs_world \<Rightarrow> address \<Rightarrow> proposal \<Rightarrow> ('d, 'kp, 'ver, unit) ld_comp" where
  "on_remote_proposal w address p =
     bind (ask ld_pending_remote_proposal) (\<lambda>pending. case pending of
       None \<Rightarrow> ret ()
     | Some block_hash \<Rightarrow>
         if block_hash \<noteq> pro_block_hash p then ret ()
         else bind (modify (\<lambda>l. l\<lparr>ld_pending_remote_proposal := None\<rparr>)) (\<lambda>_. on_local_proposal w p))"

definition process_pending_new_view :: "('d, 't) hs_world \<Rightarrow> ('d, 'kp, 'ver, unit) ld_comp" where
  "process_pending_new_view w =
     bind (ask (\<lambda>l. hs_pending_new_view (ld_stream l))) (\<lambda>messages.
     bind (on_stream (modify (\<lambda>s. s\<lparr>hs_pending_new_view := []\<rparr>))) (\<lambda>_.
     for_each (\<lambda>(message, address). leader_on_new_view w message address) messages))"

definition send_new_view_to_self :: "('d, 't) hs_world \<Rightarrow> ('d, 'kp, 'ver, unit) ld_comp" where
  "send_new_view_to_self w =
     bind (ask (\<lambda>l. (new_view_message (ld_stream l), hs_address (ld_stream l)))) (\<lambda>(message, own). leader_on_new_view w message own)"

definition leader_start :: "('d, 't) hs_world \<Rightarrow> ('d, 'kp, 'ver, unit) ld_comp" where
  "leader_start w = bind (process_pending_new_view w) (\<lambda>_. send_new_view_to_self w)"

section \<open>The replica\<close>

definition send_new_view :: "('d, 't) hs_world \<Rightarrow> ('d, 'kp, 'ver, unit) hs_comp" where
  "send_new_view w =
     bind (query (\<lambda>s. ok_or_else (Panic ''qed'') (hs_current_leader s))) (\<lambda>leader_address.
     bind (ask new_view_message) (\<lambda>message.
     bind (stream_consensus_message w leader_address message) (\<lambda>_. ret ())))"

text \<open>A signed vote for the leader.\<close>

definition send_vote :: "('d, 't) hs_world \<Rightarrow> consensus_message \<Rightarrow> hs_node option \<Rightarrow> ('d, 'kp, 'ver, unit) hs_comp" where
  "send_vote w message node =
     bind (query (sign_message w \<lparr> cm_request_id = 0, cm_message_type = cm_message_type message, cm_view = cm_view message,
        cm_node = node, cm_justify = None, cm_sig = None \<rparr>)) (\<lambda>vote_message.
     bind (query (\<lambda>s. ok_or_else (Panic ''qed'') (hs_current_leader s))) (\<lambda>leader_address.
     bind (stream_consensus_message w leader_address vote_message) (\<lambda>_. ret ())))"

definition safe_node :: "hs_node \<Rightarrow> qc \<Rightarrow> ('d, 'kp, 'ver) hotstuff \<Rightarrow> bool" where
  "safe_node node justify s =
     (let base = nd_block_hash (qc_node (st_base_commit_qc (hs_store s))); locked_qc = st_locked_qc (hs_store s);
          extend_from_justify_node = (if nd_block_hash (qc_node justify) = base then nd_parent_hash node = base
            else nd_block_hash node = nd_block_hash (qc_node justify));
          extend_from_locked_qc_node = (if nd_block_hash (qc_node locked_qc) = base then nd_parent_hash node = base
            else nd_block_hash node = nd_block_hash (qc_node locked_qc));
          higher_view = qc_view justify > qc_view locked_qc in
      extend_from_justify_node \<and> (extend_from_locked_qc_node \<or> higher_view))"

definition replica_on_prepare :: "('d, 't) hs_world \<Rightarrow> consensus_message \<Rightarrow> address \<Rightarrow> ('d, 'kp, 'ver, unit) hs_comp" where
  "replica_on_prepare w message address = (case cm_justify message of
     None \<Rightarrow> ret ()
   | Some justify \<Rightarrow>
       bind (ask (\<lambda>s. hs_verify_qc w justify None (justify_authorities justify s) s)) (\<lambda>r. when_ok r (\<lambda>_. case cm_node message of
         None \<Rightarrow> ret ()
       | Some node \<Rightarrow>
           bind (on_storage (get_proposal (hw_lib w) (hw_hl w) (nd_block_hash node))) (\<lambda>p. case p of
             None \<Rightarrow> ret ()
           | Some p \<Rightarrow>
               if nd_parent_hash node \<noteq> pro_parent_hash p then ret ()
               else bind (ask (safe_node node justify)) (\<lambda>safe.
                 if safe then send_vote w message (cm_node message) else ret ())))))"

definition replica_on_pre_commit :: "('d, 't) hs_world \<Rightarrow> consensus_message \<Rightarrow> address \<Rightarrow> ('d, 'kp, 'ver, unit) hs_comp" where
  "replica_on_pre_commit w message address = (case cm_justify message of
     None \<Rightarrow> ret ()
   | Some justify \<Rightarrow>
       bind (ask (\<lambda>s. hs_verify_qc w justify (Some Prepare) (hs_authorities s) s)) (\<lambda>r. when_ok r (\<lambda>_.
       bind (on_storage (update_prepare_qc (hw_lib w) (hw_hl w) justify)) (\<lambda>_.
       send_vote w message (Some (qc_node justify))))))"

definition replica_on_commit :: "('d, 't) hs_world \<Rightarrow> consensus_message \<Rightarrow> address \<Rightarrow> ('d, 'kp, 'ver, unit) hs_comp" where
  "replica_on_commit w message address = (case cm_justify message of
     None \<Rightarrow> ret ()
   | Some justify \<Rightarrow>
       bind (ask (\<lambda>s. hs_verify_qc w justify (Some PreCommit) (hs_authorities s) s)) (\<lambda>r. when_ok r (\<lambda>_.
       bind (on_storage (update_locked_qc (hw_lib w) (hw_hl w) justify)) (\<lambda>_.
       send_vote w message (Some (qc_node justify))))))"

definition replica_on_decide :: "('d, 't) hs_world \<Rightarrow> consensus_message \<Rightarrow> address \<Rightarrow> ('d, 'kp, 'ver, unit) hs_comp" where
  "replica_on_decide w message address = (case cm_justify message of
     None \<Rightarrow> ret ()
   | Some justify \<Rightarrow>
       bind (ask (\<lambda>s. hs_verify_qc w justify (Some Commit) (hs_authorities s) s)) (\<lambda>r. when_ok r (\<lambda>_.
       decide w justify)))"

definition on_new_view :: "consensus_message \<Rightarrow> address \<Rightarrow> ('d, 'kp, 'ver, unit) hs_comp" where
  "on_new_view message address = modify (\<lambda>s. s\<lparr>hs_pending_new_view := hs_pending_new_view s @ [(message, address)]\<rparr>)"

definition replica_on_validator_consensus_message :: "('d, 't) hs_world \<Rightarrow> consensus_message \<Rightarrow> address \<Rightarrow> ('d, 'kp, 'ver, unit) hs_comp" where
  "replica_on_validator_consensus_message w message address =
     bind (if cm_message_type message = NewView then on_new_view message address else ret ()) (\<lambda>_.
     bind (ask hs_view) (\<lambda>view.
     if cm_view message \<noteq> view then ret ()
     else case cm_message_type message of
       NewView \<Rightarrow> ret ()
     | Prepare \<Rightarrow> replica_on_prepare w message address
     | PreCommit \<Rightarrow> replica_on_pre_commit w message address
     | Commit \<Rightarrow> replica_on_commit w message address
     | Decide \<Rightarrow> replica_on_decide w message address))"

text \<open>A message of a registered peer is handled when it is a member, that of an unknown peer is kept.\<close>

definition on_peer_message :: "(consensus_message \<Rightarrow> address \<Rightarrow> ('d, 'kp, 'ver, unit) hs_comp) \<Rightarrow> consensus_message \<Rightarrow> peer_id
    \<Rightarrow> ('d, 'kp, 'ver, unit) hs_comp" where
  "on_peer_message handle message peer_id =
     bind (ask (\<lambda>s. (get_peer_address peer_id s, hs_authorities s))) (\<lambda>(a, authorities). case a of
       Some address \<Rightarrow> if is_member address authorities then handle message address else ret ()
     | None \<Rightarrow> pend_message message peer_id)"

definition replica_on_consensus_message :: "('d, 't) hs_world \<Rightarrow> consensus_message \<Rightarrow> peer_id \<Rightarrow> ('d, 'kp, 'ver, unit) hs_comp" where
  "replica_on_consensus_message w = on_peer_message (replica_on_validator_consensus_message w)"

definition replica_on_validator_registered :: "('d, 't) hs_world \<Rightarrow> address \<Rightarrow> peer_id \<Rightarrow> ('d, 'kp, 'ver, unit) hs_comp" where
  "replica_on_validator_registered w address peer_id =
     bind (ask hs_current_leader) (\<lambda>leader.
     bind (if leader = Some address then send_new_view w else ret ()) (\<lambda>_.
     bind (take_pending peer_id) (\<lambda>messages.
     for_each (\<lambda>message. replica_on_validator_consensus_message w message address) messages)))"

section \<open>The observer\<close>

definition observer_on_validator_consensus_message :: "consensus_message \<Rightarrow> address \<Rightarrow> ('d, 'kp, 'ver, unit) hs_comp" where
  "observer_on_validator_consensus_message message address =
     (if cm_message_type message = NewView then on_new_view message address else ret ())"

definition observer_on_consensus_message :: "consensus_message \<Rightarrow> peer_id \<Rightarrow> ('d, 'kp, 'ver, unit) hs_comp" where
  "observer_on_consensus_message = on_peer_message observer_on_validator_consensus_message"

definition observer_on_validator_registered :: "address \<Rightarrow> peer_id \<Rightarrow> ('d, 'kp, 'ver, unit) hs_comp" where
  "observer_on_validator_registered address peer_id =
     bind (take_pending peer_id) (\<lambda>messages.
     for_each (\<lambda>message. observer_on_validator_consensus_message message address) messages)"

section \<open>The loops\<close>

datatype hs_event = EvTimeout | EvSchedule u64 | EvInternal | EvIn "consensus_in_message option"

definition pop_internal :: "('d, 'kp, 'ver, internal_message option) hs_comp" where
  "pop_internal s = (case hs_internal s of
     [] \<Rightarrow> (Ok None, s)
   | m # ms \<Rightarrow> (Ok (Some m), s\<lparr>hs_internal := ms\<rparr>))"

definition turn_in :: "('d, 't) hs_world \<Rightarrow> consensus_in_message option \<Rightarrow> ('d, 'kp, 'ver, unit) hs_comp" where
  "turn_in w in_message = (case in_message of
     Some m \<Rightarrow> log_error (on_in_message w m)
   | None \<Rightarrow> modify (\<lambda>s. s\<lparr>hs_shutdown := True\<rparr>))"

definition turn_timeout :: "('d, 't) hs_world \<Rightarrow> nat \<Rightarrow> ('d, 'kp, 'ver, unit) hs_comp" where
  "turn_timeout w inst = (if inst \<le> hw_instant w then on_timeout w else ret ())"

definition leader_turn :: "('d, 't) hs_world \<Rightarrow> hs_event \<Rightarrow> ('d, 'kp, 'ver, unit) ld_comp" where
  "leader_turn w ev = bind (on_stream (next_timeout_instant w)) (\<lambda>inst. case ev of
     EvTimeout \<Rightarrow> on_stream (turn_timeout w inst)
   | EvSchedule t \<Rightarrow> log_error (try_work w (Some t) None)
   | EvInternal \<Rightarrow> bind (on_stream pop_internal) (\<lambda>m. case m of
       None \<Rightarrow> ret ()
     | Some (ValidatorRegistered address peer_id) \<Rightarrow> log_error (leader_on_validator_registered w address peer_id)
     | Some (InternalProposal address p) \<Rightarrow> log_error (on_remote_proposal w address p)
     | Some (InternalConsensus message peer_id) \<Rightarrow> log_error (leader_on_consensus_message w message peer_id))
   | EvIn m \<Rightarrow> on_stream (turn_in w m))"

definition replica_turn :: "('d, 't) hs_world \<Rightarrow> hs_event \<Rightarrow> ('d, 'kp, 'ver, unit) hs_comp" where
  "replica_turn w ev = bind (next_timeout_instant w) (\<lambda>inst. case ev of
     EvTimeout \<Rightarrow> turn_timeout w inst
   | EvSchedule t \<Rightarrow> ret ()
   | EvInternal \<Rightarrow> bind pop_internal (\<lambda>m. case m of
       None \<Rightarrow> ret ()
     | Some (ValidatorRegistered address peer_id) \<Rightarrow> log_error (replica_on_validator_registered w address peer_id)
     | Some (InternalConsensus message peer_id) \<Rightarrow> log_error (replica_on_consensus_message w message peer_id)
     | Some m \<Rightarrow> log_error (on_internal_message m))
   | EvIn m \<Rightarrow> turn_in w m)"

definition observer_turn :: "('d, 't) hs_world \<Rightarrow> hs_event \<Rightarrow> ('d, 'kp, 'ver, unit) hs_comp" where
  "observer_turn w ev = (case ev of
     EvTimeout \<Rightarrow> ret ()
   | EvSchedule t \<Rightarrow> ret ()
   | EvInternal \<Rightarrow> bind pop_internal (\<lambda>m. case m of
       None \<Rightarrow> ret ()
     | Some (ValidatorRegistered address peer_id) \<Rightarrow> log_error (observer_on_validator_registered address peer_id)
     | Some (InternalConsensus message peer_id) \<Rightarrow> log_error (observer_on_consensus_message message peer_id)
     | Some m \<Rightarrow> log_error (on_internal_message m))
   | EvIn m \<Rightarrow> turn_in w m)"

text \<open>Where the task is: between two views, in the loop of a role with the view it started in, or at its end.\<close>

datatype ('d, 'kp, 'ver) hs_machine =
    Between "('d, 'kp, 'ver) hotstuff"
  | Leading u64 "('d, 'kp, 'ver) leader"
  | Following u64 "('d, 'kp, 'ver) hotstuff"
  | Observing u64 "('d, 'kp, 'ver) hotstuff"
  | Finished "unit common_result" "('d, 'kp, 'ver) hotstuff"

definition run_view :: "('d, 't) hs_world \<Rightarrow> ('d, 'kp, 'ver) hotstuff \<Rightarrow> ('d, 'kp, 'ver) hs_machine" where
  "run_view w s = (case choose_role s of
     (Err e, s) \<Rightarrow> Finished (Err e) s
   | (Ok _, s) \<Rightarrow> (case hs_role s of
       HsLeader \<Rightarrow> (case leader_start w (leader_new s) of
         (Ok _, l) \<Rightarrow> Leading (hs_view s) l
       | (Err e, l) \<Rightarrow> Finished (Err e) (ld_stream l))
     | HsReplica \<Rightarrow> (case send_new_view w s of
         (Ok _, s') \<Rightarrow> Following (hs_view s) s'
       | (Err e, s') \<Rightarrow> Finished (Err e) s')
     | HsObserver \<Rightarrow> Observing (hs_view s) s))"

definition left_view :: "u64 \<Rightarrow> ('d, 'kp, 'ver) hotstuff \<Rightarrow> bool" where
  "left_view v s \<longleftrightarrow> hs_shutdown s \<or> hs_view s \<noteq> v"

fun hs_step :: "('d, 't) hs_world \<Rightarrow> hs_event \<Rightarrow> ('d, 'kp, 'ver) hs_machine \<Rightarrow> ('d, 'kp, 'ver) hs_machine" where
  "hs_step w ev (Between s) = (if hs_shutdown s then Finished (Ok ()) s else run_view w s)"
| "hs_step w ev (Leading v l) = (if left_view v (ld_stream l) then Between (ld_stream l)
     else case leader_turn w ev l of (Ok _, l) \<Rightarrow> Leading v l | (Err e, l) \<Rightarrow> Finished (Err e) (ld_stream l))"
| "hs_step w ev (Following v s) = (if left_view v s then Between s
     else case replica_turn w ev s of (Ok _, s) \<Rightarrow> Following v s | (Err e, s) \<Rightarrow> Finished (Err e) s)"
| "hs_step w ev (Observing v s) = (if left_view v s then Between s
     else case observer_turn w ev s of (Ok _, s) \<Rightarrow> Observing v s | (Err e, s) \<Rightarrow> Finished (Err e) s)"
| "hs_step w ev (Finished r s) = Finished r s"

end
