(* ===== verification/Consensus_Frame.thy ===== *)
theory Consensus_Frame
  imports Consensus_Base_Laws
begin

text \<open>
  The consensus column of the database, which belongs to the protocol: what the operations of the chain and the pool leave of it, and
  what a write of the protocol does.
\<close>

section \<open>What the chain leaves alone\<close>

text \<open>The part of a support that a protocol owns: the algorithms and the consensus column of the database.\<close>

definition supp_frame :: "('d \<Rightarrow> string \<Rightarrow> bytes \<Rightarrow> bytes option) \<Rightarrow> ('d, 'kp, 'ver) backend \<Rightarrow> (bytes \<Rightarrow> bytes option)
    \<Rightarrow> ('d, 'kp, 'ver) backend \<Rightarrow> bool" where
  "supp_frame absd b0 m b \<longleftrightarrow> same_setup b0 b \<and> (\<forall>k. cell absd b CONSENSUS k = m k)"

lemma CONSENSUS_neq [simp]:
  "HEADER \<noteq> CONSENSUS" "META_TXS \<noteq> CONSENSUS" "PAYLOAD_TXS \<noteq> CONSENSUS" "TX \<noteq> CONSENSUS" "RECEIPT \<noteq> CONSENSUS" "PROOF \<noteq> CONSENSUS"
  "BLOCK_HASH \<noteq> CONSENSUS" "GLOBAL \<noteq> CONSENSUS" "META_STATE \<noteq> CONSENSUS" "CONSENSUS \<noteq> META_STATE" "CONSENSUS \<noteq> TX" "CONSENSUS \<noteq> RECEIPT" "valid_col CONSENSUS"
  by (simp_all add: column_defs valid_col_def COLUMN_NAMES_def)

lemma keeps_frame_notifications: "keeps (supp_frame absd b0 m) (on_block_committed lib now n h)"
  by (auto simp: keeps_def on_block_committed_def update_current_state_def send_message_def bind_apply supp_frame_def same_setup_def
      split: result.splits prod.splits)

lemma keeps_frame_write:
  assumes "chain_lib_ok lib absd" "only_col META_STATE (cb_meta_transaction p)"
  shows "keeps (supp_frame absd b0 m) (write_db lib (commit_block_ops (cl_codecs lib) p transaction_new))"
proof (unfold keeps_def, intro allI impI)
  fix b
  assume b: "supp_frame absd b0 m b"
  let ?ops = "commit_block_ops (cl_codecs lib) p transaction_new"
  have "\<forall>op\<in>set ?ops. valid_col (op_col op)"
    using assms(2) by (auto simp: commit_block_ops_eq only_col_def tx_ops_def receipt_ops_def)
  from write_db_eq [OF assms(1) this] obtain d where w: "write_db lib ?ops b = (Ok (), b\<lparr>bk_db := d\<rparr>)"
    and c: "\<And>c k. valid_col c \<Longrightarrow> db_abs absd d c k = fold apply_op (filter (\<lambda>op. op_col op = c) ?ops) (cell absd b) c k"
    by blast
  have "filter (\<lambda>op. op_col op = CONSENSUS) ?ops = []"
    by (simp add: commit_block_ops_eq filter_only_col [OF assms(2)])
  then show "supp_frame absd b0 m (snd (write_db lib ?ops b))"
    using b by (simp add: w supp_frame_def same_setup_def c)
qed

lemma keeps_frame_commit_block:
  assumes "chain_lib_ok lib absd" "only_col META_STATE (cb_meta_transaction p)"
  shows "keeps (supp_frame absd b0 m) (backend_commit_block lib now p)"
  unfolding backend_commit_block_def Let_def
  by (intro keeps_rules keeps_frame_write [OF assms] keeps_frame_notifications)

lemma keeps_on_backend: "keeps I m \<Longrightarrow> keeps (\<lambda>c. I (ch_backend c)) (on_backend m)"
  by (auto simp: keeps_def on_backend_def split: prod.splits)

lemma keeps_on_chain: "keeps I m \<Longrightarrow> keeps (\<lambda>s. I (sup_chain s)) (on_chain m)"
  by (auto simp: keeps_def on_chain_def split: prod.splits)

lemma keeps_insert_task: "keeps (\<lambda>c. I (ch_backend c)) (insert_task t)"
  by (simp add: keeps_def insert_task_def)

lemma keeps_support_commit_block:
  assumes "chain_lib_ok lib absd" "only_col META_STATE (cb_meta_transaction p)"
  shows "keeps (\<lambda>s. supp_frame absd b0 m (sup_backend s)) (support_commit_block lib now p)"
  unfolding support_commit_block_def chain_commit_block_def
  by (rule keeps_on_chain) (intro keeps_bind keeps_on_backend keeps_frame_commit_block [OF assms] keeps_insert_task)

lemma keeps_txpool_remove: "keeps (\<lambda>s. I (sup_chain s)) (txpool_remove_transactions hs)"
  by (auto simp: keeps_def txpool_remove_transactions_def on_txpool_def split: prod.splits)

lemma keeps_prepare_block: "keeps (\<lambda>s. I (sup_chain s)) (prepare_block lib t)"
  unfolding prepare_block_def read_chain_def Let_def case_prod_unfold
  by (intro keeps_rules keeps_txpool_remove)

text \<open>What the rest of the node does beside a protocol: it leaves its part of the support alone.\<close>

definition beside :: "('d \<Rightarrow> string \<Rightarrow> bytes \<Rightarrow> bytes option) \<Rightarrow> ('d, 'kp, 'ver) support \<Rightarrow> ('d, 'kp, 'ver) support \<Rightarrow> bool" where
  "beside absd x y \<longleftrightarrow> same_setup (sup_backend x) (sup_backend y) \<and>
     (\<forall>k. cell absd (sup_backend y) CONSENSUS k = cell absd (sup_backend x) CONSENSUS k)"

section \<open>Writes\<close>

text \<open>A write replaces the database of the support.\<close>

definition set_db :: "'d \<Rightarrow> ('d, 'kp, 'ver) support \<Rightarrow> ('d, 'kp, 'ver) support" where
  "set_db d x = x\<lparr>sup_chain := (sup_chain x)\<lparr>ch_backend := (sup_backend x)\<lparr>bk_db := d\<rparr>\<rparr>\<rparr>"

lemma support_write_db:
  assumes "chain_lib_ok lib absd" "only_col CONSENSUS t"
  obtains d where "support_commit_consensus_data lib t x = (Ok (), set_db d x)"
    "\<And>col k. valid_col col \<Longrightarrow> db_abs absd d col k = fold apply_op (filter (\<lambda>op. op_col op = col) t) (cell absd (sup_backend x)) col k"
proof -
  have "\<forall>op\<in>set t. valid_col (op_col op)"
    using assms(2) by (auto simp: only_col_def)
  from write_db_eq [OF assms(1) this, of "sup_backend x"] obtain d where "write_db lib t (sup_backend x) = (Ok (), sup_backend x\<lparr>bk_db := d\<rparr>)"
    "\<And>col k. valid_col col \<Longrightarrow> db_abs absd d col k = fold apply_op (filter (\<lambda>op. op_col op = col) t) (cell absd (sup_backend x)) col k"
    by auto
  then show thesis
    by (intro that [of d]) (simp_all add: support_commit_consensus_data_def on_chain_def on_backend_def commit_consensus_data_def set_db_def)
qed

lemma support_put_db:
  assumes "chain_lib_ok lib absd"
  obtains d where "support_commit_consensus_data lib (put_consensus_data c key v transaction_new) x = (Ok (), set_db d x)"
    "\<And>col k. valid_col col \<Longrightarrow> db_abs absd d col k = (if col = CONSENSUS \<and> k = key then Some (enc c v) else cell absd (sup_backend x) col k)"
proof (rule support_write_db [OF assms, of "put_consensus_data c key v transaction_new" x])
  show "only_col CONSENSUS (put_consensus_data c key v transaction_new)"
    by (simp add: only_col_def put_consensus_data_def put_owned_def transaction_new_def)
qed (rule that, auto simp: put_consensus_data_def put_owned_def transaction_new_def)

end
