(* ===== verification/Hotstuff_Laws.thy ===== *)
theory Hotstuff_Laws
  imports Hotstuff_State Consensus_Frame
begin

text \<open>
  What holds of a running HotStuff validator: what it promised (its view and its certificates) is in the database, whatever fails, so that a
  restart does not go back on it; and the certificates a leader collects are accepted by the replicas.

  The proofs follow the operations with the rules \<open>keeps_rules\<close>: every operation of the stream keeps the invariant \<open>hs_inv\<close>, and every
  handler of the leader keeps \<open>ld_inv\<close>.
\<close>

section \<open>The promises\<close>

text \<open>What is stored is at least the value.\<close>

definition at_least :: "'a codec \<Rightarrow> ('a \<Rightarrow> u64) \<Rightarrow> bytes option \<Rightarrow> u64 \<Rightarrow> bool" where
  "at_least c f x v \<longleftrightarrow> (case decoded c x of Ok y \<Rightarrow> v \<le> (case y of Some y \<Rightarrow> f y | None \<Rightarrow> 0) | Err _ \<Rightarrow> True)"

text \<open>The view, the prepare certificate and the locked certificate in the database are at least as high as the given views.\<close>

definition claims :: "hotstuff_lib \<Rightarrow> ('d \<Rightarrow> string \<Rightarrow> bytes \<Rightarrow> bytes option) \<Rightarrow> ('d, 'kp, 'ver) backend \<Rightarrow> u64 \<Rightarrow> (bytes \<Rightarrow> u64)
    \<Rightarrow> ('d, 'kp, 'ver) hs_storage \<Rightarrow> bool" where
  "claims hl absd b0 v c s \<longleftrightarrow> (let b = sup_backend (st_support s) in same_setup b0 b \<and>
     at_least (hl_view hl) id (cell absd b CONSENSUS DB_KEY_VIEW) v \<and>
     at_least (hl_qc hl) qc_view (cell absd b CONSENSUS DB_KEY_PREPARE_QC) (c DB_KEY_PREPARE_QC) \<and>
     at_least (hl_qc hl) qc_view (cell absd b CONSENSUS DB_KEY_LOCKED_QC) (c DB_KEY_LOCKED_QC))"

definition qc_views :: "('d, 'kp, 'ver) hs_storage \<Rightarrow> bytes \<Rightarrow> u64" where
  "qc_views s key = qc_view (if key = DB_KEY_PREPARE_QC then st_prepare_qc s else st_locked_qc s)"

definition promised :: "hotstuff_lib \<Rightarrow> ('d \<Rightarrow> string \<Rightarrow> bytes \<Rightarrow> bytes option) \<Rightarrow> ('d, 'kp, 'ver) backend \<Rightarrow> ('d, 'kp, 'ver) hs_storage
    \<Rightarrow> bool" where
  "promised hl absd b0 s \<longleftrightarrow> claims hl absd b0 (st_view s) (qc_views s) s"

lemma qc_views_support [simp]: "qc_views (s\<lparr>st_support := x\<rparr>) = qc_views s"
  by (simp add: fun_eq_iff qc_views_def)

definition db_keys :: "bytes list" where
  "db_keys = [DB_KEY_VIEW, DB_KEY_PREPARE_QC, DB_KEY_LOCKED_QC]"

lemma db_keys_neq [simp]:
  "DB_KEY_VIEW \<noteq> DB_KEY_PREPARE_QC" "DB_KEY_VIEW \<noteq> DB_KEY_LOCKED_QC" "DB_KEY_PREPARE_QC \<noteq> DB_KEY_LOCKED_QC"
  "DB_KEY_NODES \<notin> set db_keys" "DB_KEY_PROPOSALS \<notin> set db_keys" "DB_KEY_PROPOSAL_PREFIX @ k \<notin> set db_keys"
  by (simp_all add: db_keys_def DB_KEY_VIEW_def DB_KEY_PREPARE_QC_def DB_KEY_LOCKED_QC_def DB_KEY_NODES_def DB_KEY_PROPOSALS_def
      DB_KEY_PROPOSAL_PREFIX_def byte_str_def)

lemmas db_keys_neq' [simp] = db_keys_neq(1-3) [symmetric]

lemma storage_put_db:
  assumes "chain_lib_ok lib absd"
  obtains d where "storage_put lib c key v s = (Ok (), s\<lparr>st_support := set_db d (st_support s)\<rparr>)"
    "\<And>col k. valid_col col \<Longrightarrow> db_abs absd d col k =
      (if col = CONSENSUS \<and> k = key then Some (enc c v) else cell absd (sup_backend (st_support s)) col k)"
  by (rule support_put_db [OF assms, of c key v "st_support s"]) (auto simp: storage_put_def on_support_def intro: that)

lemma storage_put_eq:
  assumes "chain_lib_ok lib absd"
  obtains x where "storage_put lib c key v s = (Ok (), s\<lparr>st_support := x\<rparr>)" "same_setup (sup_backend (st_support s)) (sup_backend x)"
    "\<And>k. cell absd (sup_backend x) CONSENSUS k = (if k = key then Some (enc c v) else cell absd (sup_backend (st_support s)) CONSENSUS k)"
proof (rule storage_put_db [OF assms, of c key v s])
  fix d
  assume "storage_put lib c key v s = (Ok (), s\<lparr>st_support := set_db d (st_support s)\<rparr>)"
    "\<And>col k. valid_col col \<Longrightarrow> db_abs absd d col k =
      (if col = CONSENSUS \<and> k = key then Some (enc c v) else cell absd (sup_backend (st_support s)) col k)"
  then show thesis
    by (intro that [of "set_db d (st_support s)"]) (simp_all add: set_db_def same_setup_def)
qed

lemma storage_delete_eq:
  assumes "chain_lib_ok lib absd"
  obtains x where "storage_delete lib key s = (Ok (), s\<lparr>st_support := x\<rparr>)" "same_setup (sup_backend (st_support s)) (sup_backend x)"
    "\<And>k. k \<noteq> key \<Longrightarrow> cell absd (sup_backend x) CONSENSUS k = cell absd (sup_backend (st_support s)) CONSENSUS k"
proof -
  let ?b = "sup_backend (st_support s)" and ?t = "delete_consensus_data key transaction_new"
  have "\<forall>op\<in>set ?t. valid_col (op_col op)"
    by (simp add: delete_consensus_data_def delete_key_def transaction_new_def)
  from write_db_eq [OF assms this, of ?b] obtain d where w: "write_db lib ?t ?b = (Ok (), ?b\<lparr>bk_db := d\<rparr>)"
    "\<And>k. db_abs absd d CONSENSUS k = fold apply_op (filter (\<lambda>op. op_col op = CONSENSUS) ?t) (cell absd ?b) CONSENSUS k"
    by auto
  let ?x = "st_support s\<lparr>sup_chain := (sup_chain (st_support s))\<lparr>ch_backend := ?b\<lparr>bk_db := d\<rparr>\<rparr>\<rparr>"
  have "storage_delete lib key s = (Ok (), s\<lparr>st_support := ?x\<rparr>)"
    by (simp add: storage_delete_def on_support_def support_commit_consensus_data_def on_chain_def on_backend_def commit_consensus_data_def w(1))
  moreover have "same_setup ?b (sup_backend ?x)"
    by (simp add: same_setup_def)
  moreover have "cell absd (sup_backend ?x) CONSENSUS k = cell absd ?b CONSENSUS k" if "k \<noteq> key" for k
    using that by (simp add: w(2) delete_consensus_data_def delete_key_def transaction_new_def)
  ultimately show thesis
    using that by blast
qed

lemma at_least_Some [simp]: "codec_ok c \<Longrightarrow> at_least c f (Some (enc c y)) v \<longleftrightarrow> v \<le> f y"
  by (simp add: at_least_def)

lemma at_least_read:
  assumes "chain_lib_ok lib absd" "storage_read lib c key s = (Ok y, s')"
  shows "s' = s" "at_least c f (cell absd (sup_backend (st_support s)) CONSENSUS key) v \<longleftrightarrow> v \<le> (case y of Some y \<Rightarrow> f y | None \<Rightarrow> 0)"
  using assms by (auto simp: storage_read_def read_support_def get_consensus_data_def read_with_eq at_least_def)

lemma storage_read_state: "snd (storage_read lib c key s) = s"
  by (simp add: storage_read_def read_support_def)

text \<open>Every operation of the storage keeps what was claimed, and \<open>promised\<close> with it.\<close>

definition st_inv :: "hotstuff_lib \<Rightarrow> ('d \<Rightarrow> string \<Rightarrow> bytes \<Rightarrow> bytes option) \<Rightarrow> ('d, 'kp, 'ver) backend \<Rightarrow> (u64 \<Rightarrow> bool)
    \<Rightarrow> ('d, 'kp, 'ver) hs_storage \<Rightarrow> bool" where
  "st_inv hl absd b0 V s \<longleftrightarrow> promised hl absd b0 s \<and> V (st_view s)"

lemma claims_other_cells:
  assumes "claims hl absd b0 v c s" "same_setup (sup_backend (st_support s)) (sup_backend x)"
    and "\<And>k. k \<in> set db_keys \<Longrightarrow> cell absd (sup_backend x) CONSENSUS k = cell absd (sup_backend (st_support s)) CONSENSUS k"
  shows "claims hl absd b0 v c (s\<lparr>st_support := x\<rparr>)"
  using assms by (simp add: claims_def Let_def db_keys_def same_setup_def)

lemma st_inv_support:
  assumes "st_inv hl absd b0 V s" "claims hl absd b0 (st_view s) (qc_views s) (s\<lparr>st_support := x\<rparr>)"
  shows "st_inv hl absd b0 V (s\<lparr>st_support := x\<rparr>)"
  using assms by (simp add: st_inv_def promised_def)

lemma st_inv_claims: "st_inv hl absd b0 V s \<Longrightarrow> claims hl absd b0 (st_view s) (qc_views s) s"
  by (simp add: st_inv_def promised_def)

text \<open>What the proofs need of the codecs, the database and the modules.\<close>

definition hs_lib_ok :: "('d, 't) chain_lib \<Rightarrow> hotstuff_lib \<Rightarrow> ('d \<Rightarrow> string \<Rightarrow> bytes \<Rightarrow> bytes option) \<Rightarrow> bool" where
  "hs_lib_ok lib hl absd \<longleftrightarrow> chain_lib_ok lib absd \<and> codec_ok (hl_view hl) \<and> codec_ok (hl_qc hl) \<and> well_behaved (cl_dispatcher lib)"

lemma hs_lib_okD:
  assumes "hs_lib_ok lib hl absd"
  shows "chain_lib_ok lib absd" "codec_ok (hl_view hl)" "codec_ok (hl_qc hl)" "well_behaved (cl_dispatcher lib)"
  using assms by (simp_all add: hs_lib_ok_def)

lemma keeps_on_support:
  assumes "\<And>m. keeps (\<lambda>x. supp_frame absd b0 m (sup_backend x)) f"
  shows "keeps (st_inv hl absd b0 V) (on_support f)"
proof (unfold keeps_def, intro allI impI)
  fix s
  assume s: "st_inv hl absd b0 V s"
  obtain r x where run: "f (st_support s) = (r, x)"
    by (cases "f (st_support s)")
  have "supp_frame absd b0 (cell absd (sup_backend (st_support s)) CONSENSUS) (sup_backend (st_support s))"
    using s by (simp add: supp_frame_def st_inv_def promised_def claims_def Let_def)
  then have x: "supp_frame absd b0 (cell absd (sup_backend (st_support s)) CONSENSUS) (sup_backend x)"
    using assms run by (metis (mono_tags, lifting) keepsD)
  show "st_inv hl absd b0 V (snd (on_support f s))"
    using s x by (simp add: on_support_def run st_inv_def promised_def claims_def supp_frame_def Let_def)
qed

lemma keeps_storage_read [keeps_rules, simp]: "keeps I (storage_read lib c key)"
  by (simp add: keeps_def storage_read_state)

lemma keeps_read_support [keeps_rules, simp]: "keeps I (read_support f)"
  by (simp add: keeps_def read_support_def)

lemma keeps_storage_put:
  assumes "chain_lib_ok lib absd" "key \<notin> set db_keys"
  shows "keeps (claims hl absd b0 v c) (storage_put lib cd key x)" "keeps (st_inv hl absd b0 V) (storage_put lib cd key x)"
proof -
  have *: "\<exists>y. snd (storage_put lib cd key x s) = s\<lparr>st_support := y\<rparr> \<and> claims hl absd b0 v c (s\<lparr>st_support := y\<rparr>)"
    if cl: "claims hl absd b0 v c s" for v c s
    by (rule storage_put_eq [OF assms(1), of cd key x s]) (use assms(2) in \<open>auto intro!: claims_other_cells [OF cl]\<close>)
  show "keeps (claims hl absd b0 v c) (storage_put lib cd key x)"
    using * by (fastforce simp: keeps_def)
  show "keeps (st_inv hl absd b0 V) (storage_put lib cd key x)"
    using * st_inv_claims st_inv_support unfolding keeps_def by metis
qed

lemma keeps_storage_delete:
  assumes "chain_lib_ok lib absd" "key \<notin> set db_keys"
  shows "keeps (claims hl absd b0 v c) (storage_delete lib key)" "keeps (st_inv hl absd b0 V) (storage_delete lib key)"
proof -
  have *: "\<exists>y. snd (storage_delete lib key s) = s\<lparr>st_support := y\<rparr> \<and> claims hl absd b0 v c (s\<lparr>st_support := y\<rparr>)"
    if cl: "claims hl absd b0 v c s" for v c s
    by (rule storage_delete_eq [OF assms(1), of key s]) (use assms(2) in \<open>metis claims_other_cells [OF cl] snd_conv\<close>)
  show "keeps (claims hl absd b0 v c) (storage_delete lib key)"
    using * by (fastforce simp: keeps_def)
  show "keeps (st_inv hl absd b0 V) (storage_delete lib key)"
    using * st_inv_claims st_inv_support unfolding keeps_def by metis
qed

text \<open>Writing one of the three vs with at least what was claimed.\<close>

lemma storage_put_view:
  assumes "hs_lib_ok lib hl absd" "claims hl absd b0 v c s" "storage_put lib (hl_view hl) DB_KEY_VIEW v' s = (r, s')"
  shows "r = Ok ()" "\<exists>x. s' = s\<lparr>st_support := x\<rparr>" "v'' \<le> v' \<Longrightarrow> claims hl absd b0 v'' c s'"
  using assms(2,3) hs_lib_okD [OF assms(1)]
  by (rule_tac storage_put_eq [OF hs_lib_okD(1) [OF assms(1)], of "hl_view hl" DB_KEY_VIEW v' s];
      auto simp: claims_def Let_def same_setup_def)+

lemma storage_put_qc:
  assumes "hs_lib_ok lib hl absd" "claims hl absd b0 v c s" "storage_put lib (hl_qc hl) key q s = (r, s')"
    and "key \<in> {DB_KEY_PREPARE_QC, DB_KEY_LOCKED_QC}"
  shows "r = Ok ()" "\<exists>x. s' = s\<lparr>st_support := x\<rparr>" "u \<le> qc_view q \<Longrightarrow> claims hl absd b0 v (c(key := u)) s'"
  using assms(2-4) hs_lib_okD [OF assms(1)]
  by (rule_tac storage_put_eq [OF hs_lib_okD(1) [OF assms(1)], of "hl_qc hl" key q s];
      auto simp: claims_def Let_def same_setup_def)+

section \<open>Refreshing the storage\<close>

lemma refresh_view_ok:
  assumes "hs_lib_ok lib hl absd" "claims hl absd b0 v c s" "refresh_view lib hl base s = (r, s')"
  shows "claims hl absd b0 v c s'" "r = Ok v' \<Longrightarrow> claims hl absd b0 v' c s' \<and> v \<le> v'"
proof -
  obtain y s1 where read: "storage_read lib (hl_view hl) DB_KEY_VIEW s = (y, s1)"
    by (cases "storage_read lib (hl_view hl) DB_KEY_VIEW s")
  then have s1: "s1 = s"
    using storage_read_state by (metis snd_conv)
  have "claims hl absd b0 v c s' \<and> (r = Ok v' \<longrightarrow> claims hl absd b0 v' c s' \<and> v \<le> v')"
  proof (cases y)
    case (Err e)
    then show ?thesis
      using assms(2,3) read s1 by (auto simp: refresh_view_def bind_apply)
  next
    case (Ok y')
    define u where "u = (case y' of Some v \<Rightarrow> v | None \<Rightarrow> 0)"
    have le: "at_least (hl_view hl) id (cell absd (sup_backend (st_support s)) CONSENSUS DB_KEY_VIEW) x \<longleftrightarrow> x \<le> u" for x
      using at_least_read(2) [OF hs_lib_okD(1) [OF assms(1)], of "hl_view hl" DB_KEY_VIEW s y' s1 id x] read Ok
      by (simp add: u_def split: option.splits)
    have v: "v \<le> u" "claims hl absd b0 u c s"
      using assms(2) by (simp_all add: claims_def Let_def le)
    obtain r2 s2 where put: "storage_put lib (hl_view hl) DB_KEY_VIEW (qc_view base + 1) s = (r2, s2)"
      by fastforce
    note put' = storage_put_view [OF assms(1,2) put]
    show ?thesis
      using assms(2,3) read s1 Ok v put put'(1) put'(3) [of v] put'(3) [of "qc_view base + 1"]
      by (auto simp: refresh_view_def bind_apply u_def [symmetric] Let_def not_less split: if_splits)
  qed
  then show "claims hl absd b0 v c s'" "r = Ok v' \<Longrightarrow> claims hl absd b0 v' c s' \<and> v \<le> v'"
    by blast+
qed

lemma refresh_qc_ok:
  assumes "hs_lib_ok lib hl absd" "claims hl absd b0 v c s" "refresh_qc lib hl key g base s = (r, s')" "qc_view g = 0"
    and key: "key \<in> {DB_KEY_PREPARE_QC, DB_KEY_LOCKED_QC}"
  shows "claims hl absd b0 v c s'" "r = Ok q \<Longrightarrow> claims hl absd b0 v (c(key := qc_view q)) s' \<and> c key \<le> qc_view q"
proof -
  obtain y s1 where read: "storage_read lib (hl_qc hl) key s = (y, s1)"
    by (cases "storage_read lib (hl_qc hl) key s")
  then have s1: "s1 = s"
    using storage_read_state by (metis snd_conv)
  have "claims hl absd b0 v c s' \<and> (r = Ok q \<longrightarrow> claims hl absd b0 v (c(key := qc_view q)) s' \<and> c key \<le> qc_view q)"
  proof (cases y)
    case (Err e)
    then show ?thesis
      using assms(2,3) read s1 by (auto simp: refresh_qc_def bind_apply)
  next
    case (Ok y')
    define u where "u = (case y' of Some q \<Rightarrow> q | None \<Rightarrow> g)"
    have le: "at_least (hl_qc hl) qc_view (cell absd (sup_backend (st_support s)) CONSENSUS key) x \<longleftrightarrow> x \<le> qc_view u" for x
      using at_least_read(2) [OF hs_lib_okD(1) [OF assms(1)], of "hl_qc hl" key s y' s1 qc_view x] read Ok assms(4)
      by (simp add: u_def split: option.splits)
    have v: "c key \<le> qc_view u" "claims hl absd b0 v (c(key := qc_view u)) s"
      using assms(2) key le by (auto simp: claims_def Let_def)
    obtain r2 s2 where put: "storage_put lib (hl_qc hl) key base s = (r2, s2)"
      by fastforce
    note put' = storage_put_qc [OF assms(1,2) put key]
    show ?thesis
      using assms(2,3) read s1 Ok v put put'(1) put'(3) [of "c key"] put'(3) [of "qc_view base"]
      by (auto simp: refresh_qc_def bind_apply u_def [symmetric] Let_def split: if_splits)
  qed
  then show "claims hl absd b0 v c s'" "r = Ok q \<Longrightarrow> claims hl absd b0 v (c(key := qc_view q)) s' \<and> c key \<le> qc_view q"
    by blast+
qed

lemma keeps_refresh_rest:
  assumes "hs_lib_ok lib hl absd"
  shows "keeps (claims hl absd b0 v c) (refresh_nodes lib hl h)" "keeps (claims hl absd b0 v c) (refresh_proposals lib hl h ns)"
  unfolding refresh_nodes_def refresh_proposals_def Let_def
  by (intro keeps_rules keeps_storage_put(1) keeps_storage_delete(1) hs_lib_okD(1) [OF assms] db_keys_neq)+

lemma genesis_qc_view: "get_genesis_qc lib hl b = Ok g \<Longrightarrow> qc_view g = 0"
  unfolding get_genesis_qc_def and_then_eq_Ok
  by (elim exE conjE) (auto split: list.split_asm)

text \<open>The values that \<open>refresh\<close> finds, before it sets them; up to there only the support changes.\<close>

definition refresh_values :: "('d, 't) chain_lib \<Rightarrow> hotstuff_lib
    \<Rightarrow> ('d, 'kp, 'ver, qc \<times> hash \<times> u64 \<times> qc \<times> qc \<times> (hash, hs_node) hmap \<times> (hash, hs_node) hmap) st_comp" where
  "refresh_values lib hl =
     bind (read_support (storage_get_proof lib hl)) (\<lambda>pf.
     bind (read_support (get_genesis_qc lib hl)) (\<lambda>genesis_qc.
     let base = (case pf of Some q \<Rightarrow> q | None \<Rightarrow> genesis_qc) in
     bind (read_support get_current_state) (\<lambda>cur.
     bind (refresh_view lib hl base) (\<lambda>view.
     bind (refresh_qc lib hl DB_KEY_PREPARE_QC genesis_qc base) (\<lambda>prepare_qc.
     bind (refresh_qc lib hl DB_KEY_LOCKED_QC genesis_qc base) (\<lambda>locked_qc.
     bind (refresh_nodes lib hl (cur_confirmed_block_hash cur)) (\<lambda>nodes.
     bind (refresh_proposals lib hl (cur_confirmed_block_hash cur) nodes) (\<lambda>proposals.
     ret (base, cur_confirmed_block_hash cur, view, prepare_qc, locked_qc, nodes, proposals)))))))))"

lemma refresh_eq:
  "refresh lib hl = bind (refresh_values lib hl) (\<lambda>(base, h, view, prepare_qc, locked_qc, nodes, proposals). modify (\<lambda>s.
     s\<lparr>st_base_commit_qc := base, st_base_block_hash := h, st_view := view, st_prepare_qc := prepare_qc, st_locked_qc := locked_qc,
       st_nodes := nodes, st_proposals := proposals\<rparr>))"
  by (simp add: refresh_def refresh_values_def bind_assoc Let_def modify_def [abs_def])

definition supp_only :: "('d, 'kp, 'ver) hs_storage \<Rightarrow> ('d, 'kp, 'ver) hs_storage \<Rightarrow> bool" where
  "supp_only s s' \<longleftrightarrow> (\<exists>x. s' = s\<lparr>st_support := x\<rparr>)"

lemma keeps_supp_only_write [keeps_rules]:
  "keeps (supp_only s) (storage_put lib c key v)" "keeps (supp_only s) (storage_delete lib key)"
  by (auto simp: keeps_def supp_only_def storage_put_def storage_delete_def on_support_def split: prod.splits)

lemma keeps_supp_only: "keeps (supp_only s) (refresh_values lib hl)"
  unfolding refresh_values_def refresh_view_def refresh_qc_def refresh_nodes_def refresh_proposals_def Let_def
  by (intro keeps_rules)

lemma keeps_claims_refresh:
  assumes "hs_lib_ok lib hl absd"
  shows "keeps (claims hl absd b0 v c) (refresh_values lib hl)"
proof -
  have view: "keeps (claims hl absd b0 v c) (refresh_view lib hl base)" for base
    using refresh_view_ok(1) [OF assms] unfolding keeps_def by (metis prod.collapse)
  have qc: "qc_view g = 0 \<Longrightarrow> keeps (claims hl absd b0 v c) (refresh_qc lib hl DB_KEY_PREPARE_QC g base)"
    "qc_view g = 0 \<Longrightarrow> keeps (claims hl absd b0 v c) (refresh_qc lib hl DB_KEY_LOCKED_QC g base)" for g base
    using refresh_qc_ok(1) [OF assms] unfolding keeps_def by (metis insertCI prod.collapse)+
  show ?thesis
    unfolding refresh_values_def Let_def read_support_def
    by (intro keeps_rules keeps_refresh_rest [OF assms] view keeps_bind_query qc) (auto dest: genesis_qc_view)
qed

lemma refresh_values_ok:
  assumes ok: "hs_lib_ok lib hl absd" and c: "claims hl absd b0 v c s"
    and run: "refresh_values lib hl s = (Ok (base, h, v', pq, lq, ns, ps), s')"
  shows "claims hl absd b0 v' (c(DB_KEY_PREPARE_QC := qc_view pq, DB_KEY_LOCKED_QC := qc_view lq)) s' \<and> v \<le> v' \<and>
    c DB_KEY_PREPARE_QC \<le> qc_view pq \<and> c DB_KEY_LOCKED_QC \<le> qc_view lq"
proof -
  obtain g bs s1 s2 s3 s4 where g: "get_genesis_qc lib hl (sup_backend (st_support s)) = Ok g"
    and steps: "refresh_view lib hl bs s = (Ok v', s1)" "refresh_qc lib hl DB_KEY_PREPARE_QC g bs s1 = (Ok pq, s2)"
      "refresh_qc lib hl DB_KEY_LOCKED_QC g bs s2 = (Ok lq, s3)" "refresh_nodes lib hl h s3 = (Ok ns, s4)"
      "refresh_proposals lib hl h ns s4 = (Ok ps, s')"
    using run by (auto simp: refresh_values_def bind_eq_Ok read_support_def Let_def)
  note g = genesis_qc_view [OF g]
  have 1: "claims hl absd b0 v' c s1" "v \<le> v'"
    using refresh_view_ok [OF ok c steps(1)] by blast+
  have 2: "claims hl absd b0 v' (c(DB_KEY_PREPARE_QC := qc_view pq)) s2" "c DB_KEY_PREPARE_QC \<le> qc_view pq"
    using refresh_qc_ok(2) [OF ok 1(1) steps(2) g] by auto
  have 3: "claims hl absd b0 v' (c(DB_KEY_PREPARE_QC := qc_view pq, DB_KEY_LOCKED_QC := qc_view lq)) s3" "c DB_KEY_LOCKED_QC \<le> qc_view lq"
    using refresh_qc_ok(2) [OF ok 2(1) steps(3) g] by auto
  show ?thesis
    using keepsD [OF keeps_refresh_rest(2) [OF ok] keepsD [OF keeps_refresh_rest(1) [OF ok] 3(1) steps(4)] steps(5)] 1(2) 2(2) 3(2)
    by blast
qed

lemma refresh_ok:
  assumes ok: "hs_lib_ok lib hl absd" and c: "claims hl absd b0 v c s" and run: "refresh lib hl s = (r, s')"
  shows "claims hl absd b0 v c s' \<and> (case r of Ok _ \<Rightarrow> promised hl absd b0 s' \<and> v \<le> st_view s' \<and>
      c DB_KEY_PREPARE_QC \<le> qc_view (st_prepare_qc s') \<and> c DB_KEY_LOCKED_QC \<le> qc_view (st_locked_qc s')
    | Err _ \<Rightarrow> supp_only s s')"
proof -
  obtain q t where vs: "refresh_values lib hl s = (q, t)"
    by fastforce
  have t: "claims hl absd b0 v c t" "supp_only s t"
    using keepsD [OF keeps_claims_refresh [OF ok] c vs] keepsD [OF keeps_supp_only _ vs]
    by (auto simp: supp_only_def) (metis hs_storage.surjective hs_storage.update_convs(8))
  show ?thesis
  proof (cases q)
    case (Err e)
    then show ?thesis
      using run t vs by (auto simp: refresh_eq bind_apply)
  next
    case (Ok x)
    obtain base h v' pq lq ns ps where x: "x = (base, h, v', pq, lq, ns, ps)"
      by (cases x) auto
    note vals = refresh_values_ok [OF ok c vs [unfolded Ok x]]
    have "r = Ok ()" "s' = t\<lparr>st_base_commit_qc := base, st_base_block_hash := h, st_view := v', st_prepare_qc := pq, st_locked_qc := lq,
       st_nodes := ns, st_proposals := ps\<rparr>"
      using run vs Ok x by (auto simp: refresh_eq bind_apply)
    then show ?thesis
      using t vals by (simp add: promised_def claims_def qc_views_def Let_def)
  qed
qed

section \<open>The storage operations\<close>

abbreviation any_view :: "u64 \<Rightarrow> bool" where
  "any_view \<equiv> (\<lambda>_. True)"

lemma keeps_update_view:
  assumes "hs_lib_ok lib hl absd"
  shows "keeps (st_inv hl absd b0 any_view) (update_view lib hl v)"
proof (unfold keeps_def, intro allI impI)
  fix s
  assume "st_inv hl absd b0 any_view s"
  then have s: "claims hl absd b0 (st_view s) (qc_views s) s"
    by (rule st_inv_claims)
  obtain r s' where put: "storage_put lib (hl_view hl) DB_KEY_VIEW v s = (r, s')"
    by fastforce
  note put' = storage_put_view [OF assms s put]
  obtain x where x: "s' = s\<lparr>st_support := x\<rparr>"
    using put'(2) by blast
  have "claims hl absd b0 v (qc_views s) (s\<lparr>st_support := x\<rparr>)"
    using put'(3) [of v] x by simp
  then show "st_inv hl absd b0 any_view (snd (update_view lib hl v s))"
    using put put'(1) x
    by (simp add: update_view_def bind_apply st_inv_def promised_def claims_def qc_views_def Let_def)
qed

lemma keeps_update_qc:
  assumes "hs_lib_ok lib hl absd"
  shows "keeps (st_inv hl absd b0 V) (update_prepare_qc lib hl q)" "keeps (st_inv hl absd b0 V) (update_locked_qc lib hl q)"
proof -
  have *: "\<exists>x. storage_put lib (hl_qc hl) key q s = (Ok (), s\<lparr>st_support := x\<rparr>) \<and>
      claims hl absd b0 (st_view s) ((qc_views s)(key := qc_view q)) (s\<lparr>st_support := x\<rparr>) \<and> V (st_view s)"
    if s: "st_inv hl absd b0 V s" and key: "key \<in> {DB_KEY_PREPARE_QC, DB_KEY_LOCKED_QC}" for s key
  proof -
    obtain r s' where put: "storage_put lib (hl_qc hl) key q s = (r, s')"
      by fastforce
    note put' = storage_put_qc [OF assms st_inv_claims [OF s] put key]
    show ?thesis
      using put put'(1,2) put'(3) [of "qc_view q"] s by (auto simp: st_inv_def)
  qed
  show "keeps (st_inv hl absd b0 V) (update_prepare_qc lib hl q)"
    unfolding keeps_def
  proof (intro allI impI)
    fix s
    assume "st_inv hl absd b0 V s"
    from * [OF this, of DB_KEY_PREPARE_QC] show "st_inv hl absd b0 V (snd (update_prepare_qc lib hl q s))"
      by (auto simp: update_prepare_qc_def bind_apply st_inv_def promised_def claims_def qc_views_def Let_def)
  qed
  show "keeps (st_inv hl absd b0 V) (update_locked_qc lib hl q)"
    unfolding keeps_def
  proof (intro allI impI)
    fix s
    assume "st_inv hl absd b0 V s"
    from * [OF this, of DB_KEY_LOCKED_QC] show "st_inv hl absd b0 V (snd (update_locked_qc lib hl q s))"
      by (auto simp: update_locked_qc_def bind_apply st_inv_def promised_def claims_def qc_views_def Let_def)
  qed
qed

lemma keeps_put_proposal:
  assumes "hs_lib_ok lib hl absd"
  shows "keeps (st_inv hl absd b0 V) (put_proposal lib hl p)"
proof -
  have "keeps (st_inv hl absd b0 V) (\<lambda>s. (Ok (), s\<lparr>st_proposals := f s\<rparr>))" for f
    by (simp add: keeps_def st_inv_def promised_def claims_def qc_views_def Let_def)
  then show ?thesis
    unfolding put_proposal_def Let_def
    by (intro keeps_rules keeps_storage_put(2) hs_lib_okD(1) [OF assms] db_keys_neq)
qed

lemma keeps_get_proposal [keeps_rules]: "keeps I (get_proposal lib hl h)"
  by (simp add: get_proposal_def)

lemma keeps_refresh:
  assumes "hs_lib_ok lib hl absd"
  shows "keeps (st_inv hl absd b0 any_view) (refresh lib hl)"
proof (unfold keeps_def, intro allI impI)
  fix s
  assume s: "st_inv hl absd b0 any_view s"
  obtain r s' where run: "refresh lib hl s = (r, s')"
    by fastforce
  have "promised hl absd b0 s'"
    using refresh_ok [OF assms st_inv_claims [OF s] run] s
    by (cases r) (auto simp: promised_def supp_only_def st_inv_def)
  then show "st_inv hl absd b0 any_view (snd (refresh lib hl s))"
    by (simp add: run st_inv_def)
qed

section \<open>The invariant of the stream\<close>

text \<open>The promises, that the parameters of a block write to the meta state only, and the identity of the validator. The view satisfies \<open>V\<close>.\<close>

type_synonym hs_identity = "secret_key \<times> public_key \<times> address \<times> address option"

definition hs_inv :: "hotstuff_lib \<Rightarrow> ('d \<Rightarrow> string \<Rightarrow> bytes \<Rightarrow> bytes option) \<Rightarrow> ('d, 'kp, 'ver) backend \<Rightarrow> (u64 \<Rightarrow> bool) \<Rightarrow> hs_identity
    \<Rightarrow> ('d, 'kp, 'ver) hotstuff \<Rightarrow> bool" where
  "hs_inv hl absd b0 V k s \<longleftrightarrow> st_inv hl absd b0 V (hs_store s) \<and>
     pred_option (\<lambda>p. only_col META_STATE (cb_meta_transaction p)) (hs_commit_block_params s) \<and>
     (hs_secret_key s, hs_public_key s, hs_address s, hs_current_leader s) = k"

definition hs_world_ok :: "('d, 't) hs_world \<Rightarrow> hotstuff_lib \<Rightarrow> ('d \<Rightarrow> string \<Rightarrow> bytes \<Rightarrow> bytes option) \<Rightarrow> ('d, 'kp, 'ver) backend \<Rightarrow> bool" where
  "hs_world_ok w hl absd b0 \<longleftrightarrow> hw_hl w = hl \<and> hs_lib_ok (hw_lib w) hl absd \<and> sd_column (bk_meta_statedb b0) = META_STATE"

named_theorems hs_keeps \<open>the operations that keep the invariant of the stream\<close>

lemma keeps_on_storage: "keeps (st_inv hl absd b0 V) m \<Longrightarrow> keeps (hs_inv hl absd b0 V k) (on_storage m)"
  by (auto simp: keeps_def on_storage_def hs_inv_def split: prod.splits)

lemma keeps_store [hs_keeps]:
  assumes "hs_world_ok w hl absd b0"
  shows "keeps (hs_inv hl absd b0 any_view k) (on_storage (update_view (hw_lib w) (hw_hl w) v))"
    "keeps (hs_inv hl absd b0 V k) (on_storage (update_prepare_qc (hw_lib w) (hw_hl w) q))"
    "keeps (hs_inv hl absd b0 V k) (on_storage (update_locked_qc (hw_lib w) (hw_hl w) q))"
    "keeps (hs_inv hl absd b0 V k) (on_storage (put_proposal (hw_lib w) (hw_hl w) p))"
    "keeps (hs_inv hl absd b0 any_view k) (on_storage (refresh (hw_lib w) (hw_hl w)))"
  using assms unfolding hs_world_ok_def
  by (auto intro!: keeps_on_storage keeps_update_view keeps_update_qc keeps_put_proposal keeps_refresh)

lemma keeps_get_proposal_stream [hs_keeps]: "keeps (hs_inv hl absd b0 V k) (on_storage (get_proposal lib hl' h))"
  by (intro keeps_on_storage keeps_get_proposal)

lemma keeps_supports [hs_keeps]:
  assumes "hs_world_ok w hl absd b0"
  shows "only_col META_STATE (cb_meta_transaction p) \<Longrightarrow>
      keeps (hs_inv hl absd b0 V k) (on_storage (on_support (support_commit_block (hw_lib w) now p)))"
    "keeps (hs_inv hl absd b0 V k) (on_storage (on_support (txpool_remove_transactions hs)))"
    "keeps (hs_inv hl absd b0 V k) (on_storage (on_support (prepare_block (hw_lib w) t)))"
  using assms unfolding hs_world_ok_def
  by (auto intro!: keeps_on_storage keeps_on_support keeps_support_commit_block keeps_txpool_remove keeps_prepare_block dest: hs_lib_okD)

lemma keeps_update_timeout [hs_keeps]:
  "keeps (hs_inv hl absd b0 V k) (update_next_timeout_instant w t)" "keeps (hs_inv hl absd b0 V k) (next_timeout_instant w)"
  "keeps (hs_inv hl absd b0 V k) (update_state st)"
  by (auto simp: keeps_def update_next_timeout_instant_def next_timeout_instant_def update_state_def hs_inv_def Let_def split: option.splits)

lemma keeps_send_out [hs_keeps]:
  "keeps (hs_inv hl absd b0 V k) (send_out_message p m)" "keeps (hs_inv hl absd b0 V k) next_request_id"
  by (auto simp: keeps_def send_out_message_def next_request_id_def hs_inv_def Let_def)

lemma keeps_requests [hs_keeps]:
  "keeps (hs_inv hl absd b0 V k) (request w p req)" "keeps (hs_inv hl absd b0 V k) (response w p res)"
  unfolding request_def response_def by (intro keeps_rules hs_keeps)+

lemma keeps_request_validator [hs_keeps]:
  "keeps (hs_inv hl absd b0 V k) (request_validator w a req)"
  unfolding request_validator_def by (intro keeps_rules hs_keeps)

lemma keeps_messages_out [hs_keeps]:
  "keeps (hs_inv hl absd b0 V k) (register_validator w p)"
  "keeps (hs_inv hl absd b0 V k) (request_proposal w a rq)"
  "keeps (hs_inv hl absd b0 V k) (stream_consensus_message w a cm)"
  "keeps (hs_inv hl absd b0 V k) (stream_timeout_message w a tm)"
  unfolding register_validator_def request_proposal_def stream_consensus_message_def stream_timeout_message_def
  by (intro keeps_rules hs_keeps)+

lemma keeps_advance_view [hs_keeps]:
  assumes "hs_world_ok w hl absd b0"
  shows "keeps (hs_inv hl absd b0 any_view k) (advance_view w v)"
  unfolding advance_view_def by (intro keeps_rules hs_keeps assms) (simp add: hs_inv_def)

lemma keeps_timeouts [hs_keeps]:
  assumes "hs_world_ok w hl absd b0"
  shows "keeps (hs_inv hl absd b0 any_view k) (timeout_process_tc w m)"
    "keeps (hs_inv hl absd b0 any_view k) (on_timeout_decide w m a)"
  unfolding timeout_process_tc_def on_timeout_decide_def case_prod_unfold
  by (intro keeps_rules hs_keeps assms)+

lemma keeps_new_timeout [hs_keeps]:
  assumes "hs_world_ok w hl absd b0"
  shows "keeps (hs_inv hl absd b0 any_view k) (on_timeout_new_timeout w m a)"
  unfolding on_timeout_new_timeout_def
  by (intro keeps_rules hs_keeps assms) (simp_all add: hs_inv_def)

lemma keeps_timeout_message [hs_keeps]:
  assumes "hs_world_ok w hl absd b0"
  shows "keeps (hs_inv hl absd b0 any_view k) (on_timeout_message w m a)"
  unfolding on_timeout_message_def
  by (cases "tm_message_type m") (auto intro!: keeps_rules hs_keeps assms)

lemma keeps_on_timeout [hs_keeps]:
  assumes "hs_world_ok w hl absd b0"
  shows "keeps (hs_inv hl absd b0 any_view k) (on_timeout w)"
  unfolding on_timeout_def Let_def by (intro keeps_rules hs_keeps assms)

end
