(* ===== verification/Hotstuff_Invariant.thy ===== *)
theory Hotstuff_Invariant
  imports Hotstuff_Laws
begin

text \<open>
  The invariants of a HotStuff validator over its handlers and over the machine of its loops: \<open>hs_inv\<close> for the stream, \<open>ld_inv\<close> for the
  leader, and \<open>hs_reach\<close>, the machines a validator can be in when the chain and the pool change beside it.
\<close>

section \<open>Proposals and blocks\<close>

lemma hs_inv_setup: "hs_inv hl absd b0 V k s \<Longrightarrow> same_setup b0 (hs_backend s)"
  by (simp add: hs_inv_def st_inv_def promised_def claims_def Let_def)

lemma built_by_stream:
  assumes "hs_world_ok w hl absd b0" "hs_inv hl absd b0 V k s" "build_block (hw_lib w) bb (hs_backend s) = Ok cp"
  shows "only_col META_STATE (cb_meta_transaction cp)"
proof -
  have wb: "well_behaved (cl_dispatcher (hw_lib w))"
    using assms(1) hs_lib_okD(4) by (auto simp: hs_world_ok_def)
  have "only_col (sd_column (bk_meta_statedb (hs_backend s))) (cb_meta_transaction cp)"
    by (rule build_block_Ok [OF wb assms(3)])
  then show ?thesis
    using hs_inv_setup [OF assms(2)] assms(1) by (simp add: hs_world_ok_def same_setup_def)
qed

lemma verified_builds:
  assumes "verify_proposal lib p b = Ok (p', cp)"
  obtains bb where "build_block lib bb b = Ok cp"
  using assms by (auto simp: verify_proposal_def verify_header_def Let_def and_then_eq_Ok case_prod_unfold split: if_splits)

lemma verify_result_Ok: "on_proposal_verify_result r = Ok (VerifyOk p cp) \<Longrightarrow> r = Ok (p, cp)"
proof (cases r)
  case (Err e)
  assume "on_proposal_verify_result r = Ok (VerifyOk p cp)"
  then show ?thesis
    using Err by (cases e) (auto simp: on_proposal_verify_result_def split: hotstuff_error.splits elim: on_proposal_verify_err.elims)
qed (auto simp: on_proposal_verify_result_def split: prod.splits)

lemma keeps_set_params:
  assumes "only_col META_STATE (cb_meta_transaction cp)"
  shows "keeps (hs_inv hl absd b0 V k) (modify (\<lambda>s. s\<lparr>hs_commit_block_params := Some cp\<rparr>))"
  using assms by (intro keeps_modify) (simp add: hs_inv_def)

lemma keeps_stream_on_proposal [hs_keeps]:
  assumes "hs_world_ok w hl absd b0"
  shows "keeps (hs_inv hl absd b0 V k) (stream_on_proposal w p)"
  unfolding stream_on_proposal_def
proof (rule keeps_bind_query)
  fix s a
  assume s: "hs_inv hl absd b0 V k s" and a: "on_proposal_verify_result (verify_proposal (hw_lib w) p (hs_backend s)) = Ok a"
  show "keeps (hs_inv hl absd b0 V k) (case a of
      VerifyOk p commit_block_params \<Rightarrow> bind (modify (\<lambda>s. s\<lparr>hs_commit_block_params := Some commit_block_params\<rparr>)) (\<lambda>_.
        on_storage (put_proposal (hw_lib w) (hw_hl w) p))
    | VerifyWait \<Rightarrow> ret () | VerifyDiscard \<Rightarrow> ret ())"
  proof (cases a)
    case (VerifyOk p' cp)
    from verify_result_Ok [OF a [unfolded VerifyOk]] obtain bb where "build_block (hw_lib w) bb (hs_backend s) = Ok cp"
      by (rule verified_builds)
    from built_by_stream [OF assms s this] VerifyOk show ?thesis
      by (auto intro!: keeps_rules keeps_set_params hs_keeps assms)
  qed auto
qed

lemma keeps_internal_send [hs_keeps]: "keeps (hs_inv hl absd b0 V k) (internal_send m)"
  unfolding internal_send_def by (intro keeps_modify) (simp add: hs_inv_def)

lemma keeps_proposal_messages [hs_keeps]:
  assumes "hs_world_ok w hl absd b0"
  shows "keeps (hs_inv hl absd b0 V k) (on_req_request_proposal w a rq)" "keeps (hs_inv hl absd b0 V k) (on_res_request_proposal w a rs)"
  unfolding on_req_request_proposal_def on_res_request_proposal_def by (intro keeps_rules hs_keeps assms)+

lemma keeps_register [hs_keeps]:
  "keeps (hs_inv hl absd b0 V k) (on_req_register_validator w p rq)" "keeps (hs_inv hl absd b0 V k) (on_res_register_validator p rs)"
  "keeps (hs_inv hl absd b0 V k) (on_network_protocol_open w p n n')" "keeps (hs_inv hl absd b0 V k) (on_network_protocol_close p)"
  unfolding on_req_register_validator_def on_res_register_validator_def on_network_protocol_open_def on_network_protocol_close_def
  by (intro keeps_rules hs_keeps; simp add: hs_inv_def)+

lemma keeps_for_known_peer: "(\<And>a. keeps I (f a)) \<Longrightarrow> keeps I (for_known_peer p f)"
  unfolding for_known_peer_def by (intro keeps_rules)

lemma keeps_network_message [hs_keeps]:
  assumes "hs_world_ok w hl absd b0"
  shows "keeps (hs_inv hl absd b0 any_view k) (on_network_message w p m)"
  unfolding on_network_message_def
proof (rule keeps_bind [OF keeps_lift_result])
  fix x
  show "keeps (hs_inv hl absd b0 any_view k) (case x of
       RegisterValidatorReq req \<Rightarrow>
         bind (on_req_register_validator w p req) (\<lambda>res. response w p (RegisterValidatorRes res))
     | RegisterValidatorRes res \<Rightarrow> on_res_register_validator p res
     | RequestProposalReq req \<Rightarrow> for_known_peer p (\<lambda>address.
         bind (on_req_request_proposal w address req) (\<lambda>res. response w p (RequestProposalRes res)))
     | RequestProposalRes res \<Rightarrow> for_known_peer p (\<lambda>address. on_res_request_proposal w address res)
     | ConsensusMessage m \<Rightarrow> internal_send (InternalConsensus m p)
     | TimeoutMessage m \<Rightarrow> for_known_peer p (\<lambda>address. on_timeout_message w m address))"
    by (cases x) (auto intro!: keeps_rules hs_keeps keeps_for_known_peer assms)
qed

lemma keeps_block_committed [hs_keeps]:
  assumes "hs_world_ok w hl absd b0"
  shows "keeps (hs_inv hl absd b0 any_view k) (stream_on_block_committed w n h)"
  unfolding stream_on_block_committed_def by (intro keeps_rules hs_keeps assms) (simp add: hs_inv_def)

lemma keeps_in_message [hs_keeps]:
  assumes "hs_world_ok w hl absd b0"
  shows "keeps (hs_inv hl absd b0 any_view k) (on_in_message w m)"
  unfolding on_in_message_def
  by (cases m) (auto intro!: keeps_rules hs_keeps assms simp: hs_inv_def)

lemma take_decided_Some: "take_decided w q s = (Ok (Some v), s') \<Longrightarrow> hs_commit_block_params s = Some v"
  by (auto simp: take_decided_def bind_apply on_storage_def get_proposal_def storage_read_def read_support_def
      split: option.splits result.splits if_splits)

lemma keeps_decide [hs_keeps]:
  assumes "hs_world_ok w hl absd b0"
  shows "keeps (hs_inv hl absd b0 V k) (decide w q)"
  unfolding decide_def
proof (rule keeps_bind_post)
  show "keeps (hs_inv hl absd b0 V k) (take_decided w q)"
    unfolding take_decided_def by (intro keeps_rules hs_keeps) (simp add: hs_inv_def)
  fix s x s'
  assume s: "hs_inv hl absd b0 V k s" and run: "take_decided w q s = (Ok x, s')"
  have x: "pred_option (\<lambda>p. only_col META_STATE (cb_meta_transaction p)) x"
    using s run take_decided_Some [of w q s] by (cases x) (auto simp: hs_inv_def)
  show "keeps (hs_inv hl absd b0 V k) (case x of Some p \<Rightarrow> stream_on_decide w p q | None \<Rightarrow> ret ())"
    using x by (cases x) (auto simp: stream_on_decide_def Let_def intro!: keeps_rules hs_keeps assms)
qed

section \<open>Replicas and observers\<close>

lemma keeps_pending [hs_keeps]:
  "keeps (hs_inv hl absd b0 V k) (pend_message m p)" "keeps (hs_inv hl absd b0 V k) (take_pending p)"
  "keeps (hs_inv hl absd b0 V k) (on_new_view m a)" "keeps (hs_inv hl absd b0 V k) pop_internal"
  by (auto simp: keeps_def pend_message_def take_pending_def on_new_view_def pop_internal_def hs_inv_def Let_def split: list.splits)

lemma keeps_votes [hs_keeps]:
  "keeps (hs_inv hl absd b0 V k) (send_new_view w)" "keeps (hs_inv hl absd b0 V k) (send_vote w m n)"
  unfolding send_new_view_def send_vote_def by (intro keeps_rules hs_keeps)+

lemma keeps_replica_phases [hs_keeps]:
  assumes "hs_world_ok w hl absd b0"
  shows "keeps (hs_inv hl absd b0 V k) (replica_on_prepare w m a)" "keeps (hs_inv hl absd b0 V k) (replica_on_pre_commit w m a)"
    "keeps (hs_inv hl absd b0 V k) (replica_on_commit w m a)" "keeps (hs_inv hl absd b0 V k) (replica_on_decide w m a)"
  unfolding replica_on_prepare_def replica_on_pre_commit_def replica_on_commit_def replica_on_decide_def
  by (intro keeps_rules hs_keeps assms)+

lemma keeps_replica_message [hs_keeps]:
  assumes "hs_world_ok w hl absd b0"
  shows "keeps (hs_inv hl absd b0 V k) (replica_on_validator_consensus_message w m a)"
  unfolding replica_on_validator_consensus_message_def
  by (cases "cm_message_type m") (auto intro!: keeps_rules hs_keeps assms)

lemma keeps_peer_message: "(\<And>m a. keeps (hs_inv hl absd b0 V k) (f m a)) \<Longrightarrow> keeps (hs_inv hl absd b0 V k) (on_peer_message f m p)"
  unfolding on_peer_message_def case_prod_unfold by (intro keeps_rules hs_keeps)

lemma keeps_roles [hs_keeps]:
  assumes "hs_world_ok w hl absd b0"
  shows "keeps (hs_inv hl absd b0 V k) (replica_on_consensus_message w m p)"
    "keeps (hs_inv hl absd b0 V k) (replica_on_validator_registered w a p)"
    "keeps (hs_inv hl absd b0 V k) (observer_on_consensus_message m p)"
    "keeps (hs_inv hl absd b0 V k) (observer_on_validator_registered a p)"
    "keeps (hs_inv hl absd b0 V k) (on_internal_message im)"
  unfolding replica_on_consensus_message_def replica_on_validator_registered_def observer_on_consensus_message_def
    observer_on_validator_registered_def observer_on_validator_consensus_message_def on_internal_message_def
  by (intro keeps_rules hs_keeps keeps_peer_message assms)+

lemma keeps_turn_parts [hs_keeps]:
  assumes "hs_world_ok w hl absd b0"
  shows "keeps (hs_inv hl absd b0 any_view k) (turn_in w m)" "keeps (hs_inv hl absd b0 any_view k) (turn_timeout w n)"
  unfolding turn_in_def turn_timeout_def by (intro keeps_rules hs_keeps assms; simp add: hs_inv_def)+

lemma keeps_turns:
  assumes "hs_world_ok w hl absd b0"
  shows "keeps (hs_inv hl absd b0 any_view k) (replica_turn w ev)" "keeps (hs_inv hl absd b0 any_view k) (observer_turn w ev)"
  unfolding replica_turn_def observer_turn_def
  by (cases ev; auto intro!: keeps_rules hs_keeps assms split: internal_message.splits)+

end
