(* ===== verification/Hotstuff_Example.thy ===== *)
theory Hotstuff_Example
  imports Hotstuff_Laws
begin

text \<open>
  A concrete HotStuff validator: codecs, and the single authority of the example chain, from its start to the first block it proposes.
\<close>

section \<open>Codecs\<close>

definition ex_mt_codec :: "message_type codec" where
  "ex_mt_codec = iso_codec (\<lambda>t. case t of NewView \<Rightarrow> [0] | Prepare \<Rightarrow> [1] | PreCommit \<Rightarrow> [2] | Commit \<Rightarrow> [3] | Decide \<Rightarrow> [4])
     (\<lambda>b. if b = [0] then NewView else if b = [1] then Prepare else if b = [2] then PreCommit else if b = [3] then Commit else Decide)
     bytes_codec"

definition ex_node_codec :: "hs_node codec" where
  "ex_node_codec = iso_codec (\<lambda>n. (nd_parent_hash n, nd_block_hash n)) (\<lambda>(p, b). \<lparr> nd_parent_hash = p, nd_block_hash = b \<rparr>)
     (pair_codec hash_codec hash_codec)"

definition ex_sigs_codec :: "(public_key \<times> signature) list codec" where
  "ex_sigs_codec = list_codec (pair_codec (iso_codec public_key_bytes PublicKey bytes_codec) (iso_codec signature_bytes Signature bytes_codec))"

definition ex_qc_codec :: "qc codec" where
  "ex_qc_codec = iso_codec (\<lambda>q. (qc_message_type q, qc_view q, qc_node q, qc_leader_address q, qc_sig q))
     (\<lambda>(t, v, n, a, s). \<lparr> qc_message_type = t, qc_view = v, qc_node = n, qc_leader_address = a, qc_sig = s \<rparr>)
     (pair_codec ex_mt_codec (pair_codec word_codec (pair_codec ex_node_codec (pair_codec address_codec ex_sigs_codec))))"

text \<open>Proposals and messages are not read back here.\<close>

definition ex_hl :: hotstuff_lib where
  "ex_hl = \<lparr> hl_sig_message = pair_codec ex_mt_codec (pair_codec word_codec (pair_codec (option_codec ex_node_codec) address_codec)),
     hl_timeout_message = \<lparr> enc = (\<lambda>_. []), dec = (\<lambda>_. None) \<rparr>, hl_nonce = word_codec, hl_view = word_codec, hl_qc = ex_qc_codec,
     hl_nodes = list_codec (pair_codec hash_codec ex_node_codec), hl_proposal = \<lparr> enc = (\<lambda>_. []), dec = (\<lambda>_. None) \<rparr>,
     hl_proof = ex_qc_codec, hl_message = \<lparr> enc = (\<lambda>_. []), dec = (\<lambda>_. None) \<rparr>, hl_authorities = ex_authorities_codec,
     hl_meta = ex_hs_meta_codec \<rparr>"

definition ex_world :: "(mem_db, unit) hs_world" where
  "ex_world = \<lparr> hw_lib = ex_chain_lib null_trie, hw_hl = ex_hl, hw_now = Some 5, hw_instant = 0, hw_rand = (\<lambda>_. 0) \<rparr>"

lemma ex_hs_codecs [simp]: "codec_ok ex_mt_codec" "codec_ok ex_node_codec" "codec_ok ex_sigs_codec"
  unfolding ex_mt_codec_def ex_node_codec_def ex_sigs_codec_def
  by (auto intro!: iso_codec_ok list_codec_ok pair_codec_ok split: message_type.splits)

lemma ex_qc_codec_ok [simp]: "codec_ok ex_qc_codec"
  unfolding ex_qc_codec_def by (rule iso_codec_ok) simp_all

lemma ex_hs_lib_ok: "hs_lib_ok (ex_chain_lib null_trie) ex_hl (\<lambda>d. d)"
  by (simp add: hs_lib_ok_def ex_hl_def)

lemma ex_world_sel [simp]: "hw_lib ex_world = ex_chain_lib null_trie" "hw_hl ex_world = ex_hl" "hw_now ex_world = Some 5" "hw_instant ex_world = 0"
  by (simp_all add: ex_world_def)

section \<open>The support\<close>

text \<open>The example chain with another content of the consensus column.\<close>

definition ex_db :: "mem_db \<Rightarrow> bool" where
  "ex_db d \<longleftrightarrow> (\<forall>c k. valid_col c \<longrightarrow> c \<noteq> CONSENSUS \<longrightarrow> db_abs (\<lambda>d. d) d c k = cell (\<lambda>d. d) (ex_chain0 null_trie) c k)"

definition ex_supp :: "current_state \<Rightarrow> mem_db \<Rightarrow> (mem_db, bytes, bytes) support" where
  "ex_supp cur d = \<lparr> sup_chain = \<lparr> ch_backend = (ex_chain0 null_trie)\<lparr>bk_current_state := Some cur, bk_db := d\<rparr>, ch_tasks = [], ch_task_open = True \<rparr>,
     sup_txpool = txpool_new 10 \<rparr>"

abbreviation ex_b :: "current_state \<Rightarrow> mem_db \<Rightarrow> (mem_db, bytes, bytes) backend" where
  "ex_b cur d \<equiv> sup_backend (ex_supp cur d)"

lemma set_db_ex [simp]: "set_db d' (ex_supp cur d) = ex_supp cur d'"
  by (simp add: set_db_def ex_supp_def)

lemma ex_db0: "ex_db (bk_db (ex_chain0 null_trie))"
  by (simp add: ex_db_def)

lemma ex_setup_b: "ex_setup (ex_b cur d)"
  using ex_chain0_facts(2) [of null_trie] by (simp add: ex_setup_def same_setup_def ex_supp_def)

lemma EXECUTION_neq [simp]: "EXECUTION \<noteq> CONSENSUS"
  by (simp add: column_defs)

lemma ex_facts:
  assumes "ex_db d"
  shows "get_confirmed_number (ex_chain_lib null_trie) (ex_b cur d) = Ok (Some 0)"
    "get_execution_number (ex_chain_lib null_trie) (ex_b cur d) = Ok (Some 0)"
    "get_block_hash (ex_chain_lib null_trie) 0 (ex_b cur d) = Ok (Some (Hash [0]))"
    "get_header (ex_chain_lib null_trie) (Hash [0]) (ex_b cur d) = Ok (Some (ex_header 0 zero_hash))"
    "get_execution (ex_chain_lib null_trie) (Hash [0]) (ex_b cur d) = Ok (Some (ce_execution ex_genesis_execution))"
    "chain_ok (ex_chain_lib null_trie) (ex_b cur d)"
proof -
  let ?lib = "ex_chain_lib null_trie"
  have same: "get_header ?lib h (ex_b cur d) = get_header ?lib h (ex_chain0 null_trie)" "get_body ?lib h (ex_b cur d) = get_body ?lib h (ex_chain0 null_trie)"
    "get_block_hash ?lib n (ex_b cur d) = get_block_hash ?lib n (ex_chain0 null_trie)"
    "get_confirmed_number ?lib (ex_b cur d) = get_confirmed_number ?lib (ex_chain0 null_trie)"
    "get_execution_number ?lib (ex_b cur d) = get_execution_number ?lib (ex_chain0 null_trie)"
    "get_execution ?lib h (ex_b cur d) = get_execution ?lib h (ex_chain0 null_trie)" for h n
    using assms by (simp_all add: read_defs read_with_eq [OF ex_chain_lib_ok] ex_db_def ex_supp_def cong: option.case_cong)
  note f = ex_chain0_facts [where tries = null_trie]
  show "get_confirmed_number ?lib (ex_b cur d) = Ok (Some 0)" "get_execution_number ?lib (ex_b cur d) = Ok (Some 0)"
    "get_block_hash ?lib 0 (ex_b cur d) = Ok (Some (Hash [0]))" "get_header ?lib (Hash [0]) (ex_b cur d) = Ok (Some (ex_header 0 zero_hash))"
    "get_execution ?lib (Hash [0]) (ex_b cur d) = Ok (Some (ce_execution ex_genesis_execution))"
    using f by (simp_all add: same)
  show "chain_ok ?lib (ex_b cur d)"
    using f(1) by (simp add: chain_ok_def linked_def executed_def same) (simp add: ex_supp_def)
qed

lemma ex_consensus_empty: "cell (\<lambda>d. d) (ex_chain0 null_trie) CONSENSUS k = None"
proof -
  let ?lib = "ex_chain_lib null_trie" and ?b = "ex_backend (\<lambda>_ _. None)" and ?p = "ex_block [0] (ex_header 0 zero_hash)"
  let ?ops = "genesis_ops ex_chain_codecs '''' ?p ex_genesis_execution"
  have ops: "?ops = commit_block_ops ex_chain_codecs ?p transaction_new @ commit_execution_ops ex_chain_codecs ex_genesis_execution transaction_new
      @ [Insert GLOBAL SPEC (enc (cc_string ex_chain_codecs) '''')]"
    by (simp add: genesis_ops_def ops_append(2) ops_append(1) [of _ _ "commit_block_ops _ _ _"])
  have "\<forall>op\<in>set ?ops. valid_col (op_col op)"
    by (auto simp: ops commit_block_ops_eq commit_execution_ops_eq tx_ops_def receipt_ops_def)
  from write_db_eq [OF ex_chain_lib_ok [of null_trie] this, of ?b] obtain d where w: "write_db ?lib ?ops ?b = (Ok (), ?b\<lparr>bk_db := d\<rparr>)"
    and c: "db_abs (\<lambda>d. d) d CONSENSUS k = fold apply_op (filter (\<lambda>op. op_col op = CONSENSUS) ?ops) (cell (\<lambda>d. d) ?b) CONSENSUS k"
    by auto
  have "filter (\<lambda>op. op_col op = CONSENSUS) ?ops = []"
    by (simp add: ops commit_block_ops_eq commit_execution_ops_eq)
  then show ?thesis
    using w c by (simp add: ex_chain0_def ex_backend_def db_abs_def)
qed

section \<open>The authorities and the storage\<close>

lemma ex_call:
  assumes "ex_db d" "\<And>s. execute_call (cl_dispatcher (ex_chain_lib null_trie)) None \<lparr> call_module = m, call_method = f, call_params = Params [] \<rparr> s
      = (Ok (Ok (enc c v)), s)" "codec_ok c"
  shows "consensus_call (ex_chain_lib null_trie) m f c 0 (ex_b cur d) = Ok v"
  by (rule ex_consensus_call [where h = "Hash [0]" and hdr = "ex_header 0 zero_hash" and x = "ce_execution ex_genesis_execution"])
    (use ex_facts [OF assms(1)] opens_zero [OF ex_setup_b] assms(2,3) in simp_all)

lemma ex_hotstuff_calls:
  assumes "ex_db d"
  shows "get_hotstuff_authorities (ex_chain_lib null_trie) ex_hl 0 (ex_b cur d) = Ok ex_authorities"
    "get_hotstuff_meta (ex_chain_lib null_trie) ex_hl 0 (ex_b cur d) = Ok ex_hs_meta"
proof -
  have "consensus_call (ex_chain_lib null_trie) ''hotstuff'' ''get_authorities'' ex_authorities_codec 0 (ex_b cur d) = Ok ex_authorities"
    by (rule ex_call [OF assms]) (simp_all add: ex_fixed_calls)
  then show "get_hotstuff_authorities (ex_chain_lib null_trie) ex_hl 0 (ex_b cur d) = Ok ex_authorities"
    by (simp add: get_hotstuff_authorities_def ex_hl_def aggregate_authorities_def ex_authorities_def)
  have "consensus_call (ex_chain_lib null_trie) ''hotstuff'' ''get_meta'' ex_hs_meta_codec 0 (ex_b cur d) = Ok ex_hs_meta"
    by (rule ex_call [OF assms]) (simp_all add: ex_fixed_calls)
  then show "get_hotstuff_meta (ex_chain_lib null_trie) ex_hl 0 (ex_b cur d) = Ok ex_hs_meta"
    by (simp add: get_hotstuff_meta_def ex_hl_def)
qed

definition ex_qc :: "current_state \<Rightarrow> qc" where
  "ex_qc cur = \<lparr> qc_message_type = Decide, qc_view = 0, qc_node = \<lparr> nd_parent_hash = Hash [], nd_block_hash = cur_genesis_hash cur \<rparr>,
     qc_leader_address = Address [7], qc_sig = [] \<rparr>"

lemma ex_b_current [simp]: "get_current_state (ex_b cur d) = Ok cur"
  by (simp add: get_current_state_def ex_supp_def)

lemma ex_genesis_qc: "ex_db d \<Longrightarrow> get_genesis_qc (ex_chain_lib null_trie) ex_hl (ex_b cur d) = Ok (ex_qc cur)"
  by (simp add: get_genesis_qc_def ex_hotstuff_calls ex_qc_def ex_authorities_def)

text \<open>A write of the example keeps its shape.\<close>

lemma ex_put:
  assumes "ex_db d" "st_support s = ex_supp cur d"
  obtains d' where "storage_put (ex_chain_lib null_trie) c key v s = (Ok (), s\<lparr>st_support := ex_supp cur d'\<rparr>)" "ex_db d'"
    "\<And>k. db_abs (\<lambda>d. d) d' CONSENSUS k = (if k = key then Some (enc c v) else db_abs (\<lambda>d. d) d CONSENSUS k)"
proof (rule storage_put_db [OF ex_chain_lib_ok [of null_trie], of c key v s])
  fix d'
  assume d': "storage_put (ex_chain_lib null_trie) c key v s = (Ok (), s\<lparr>st_support := set_db d' (st_support s)\<rparr>)"
    "\<And>col k. valid_col col \<Longrightarrow> db_abs (\<lambda>d. d) d' col k =
      (if col = CONSENSUS \<and> k = key then Some (enc c v) else cell (\<lambda>d. d) (sup_backend (st_support s)) col k)"
  have "bk_db (sup_backend (st_support s)) = d"
    by (simp add: assms(2) ex_supp_def)
  then show thesis
    using d' assms by (intro that [of d']) (simp_all add: ex_db_def)
qed

text \<open>Opening the storage on the example chain, when the stored values are those of the genesis block or missing.\<close>

definition ex_stored :: "current_state \<Rightarrow> mem_db \<Rightarrow> bool" where
  "ex_stored cur d \<longleftrightarrow> db_abs (\<lambda>d. d) d CONSENSUS DB_KEY_VIEW \<in> {None, Some (enc (hl_view ex_hl) 1)} \<and>
     db_abs (\<lambda>d. d) d CONSENSUS DB_KEY_PREPARE_QC \<in> {None, Some (enc (hl_qc ex_hl) (ex_qc cur))} \<and>
     db_abs (\<lambda>d. d) d CONSENSUS DB_KEY_LOCKED_QC \<in> {None, Some (enc (hl_qc ex_hl) (ex_qc cur))} \<and>
     db_abs (\<lambda>d. d) d CONSENSUS DB_KEY_NODES = None \<and> db_abs (\<lambda>d. d) d CONSENSUS DB_KEY_PROPOSALS = None"

definition ex_storage :: "current_state \<Rightarrow> mem_db \<Rightarrow> (mem_db, bytes, bytes) hs_storage" where
  "ex_storage cur d = \<lparr> st_base_commit_qc = ex_qc cur, st_base_block_hash = Hash [0], st_view = 1, st_prepare_qc = ex_qc cur,
     st_locked_qc = ex_qc cur, st_nodes = [], st_proposals = [], st_support = ex_supp cur d \<rparr>"

lemma ex_hl_sel [simp]: "hl_view ex_hl = word_codec" "hl_qc ex_hl = ex_qc_codec"
  by (simp_all add: ex_hl_def)

lemma ex_read:
  assumes "st_support s = ex_supp cur d"
  shows "storage_read (ex_chain_lib null_trie) c key s = (decoded c (db_abs (\<lambda>d. d) d CONSENSUS key), s)"
  using assms by (simp add: storage_read_def read_support_def get_consensus_data_def read_with_eq [OF ex_chain_lib_ok]) (simp add: ex_supp_def)

lemma same_support: "st_support s = x \<Longrightarrow> s\<lparr>st_support := x\<rparr> = s"
  by (cases s) simp

lemma ex_refresh_view:
  assumes s: "st_support s = ex_supp cur d" and d: "ex_db d" "ex_stored cur d"
  obtains d' where "refresh_view (ex_chain_lib null_trie) ex_hl (ex_qc cur) s = (Ok 1, s\<lparr>st_support := ex_supp cur d'\<rparr>)" "ex_db d'" "ex_stored cur d'"
proof (cases "db_abs (\<lambda>d. d) d CONSENSUS DB_KEY_VIEW")
  case None
  show thesis
  proof (rule ex_put [OF d(1) s, of "hl_view ex_hl" DB_KEY_VIEW 1])
    fix d'
    assume d': "storage_put (ex_chain_lib null_trie) (hl_view ex_hl) DB_KEY_VIEW 1 s = (Ok (), s\<lparr>st_support := ex_supp cur d'\<rparr>)" "ex_db d'"
      "\<And>k. db_abs (\<lambda>d. d) d' CONSENSUS k = (if k = DB_KEY_VIEW then Some (enc (hl_view ex_hl) 1) else db_abs (\<lambda>d. d) d CONSENSUS k)"
    have keys: "DB_KEY_NODES \<noteq> DB_KEY_VIEW" "DB_KEY_PROPOSALS \<noteq> DB_KEY_VIEW"
      using db_keys_neq(4,5) by (auto simp: db_keys_def)
    show thesis
      using None d' d(2) keys by (intro that [of d']) (auto simp: refresh_view_def bind_apply ex_read [OF s] ex_qc_def ex_stored_def)
  qed
next
  case (Some b)
  then have "b = enc word_codec (1 :: u64)"
    using d(2) by (simp add: ex_stored_def)
  then show thesis
    using Some d by (intro that [of d]) (simp_all add: refresh_view_def bind_apply ex_read [OF s] ex_qc_def same_support s)
qed

lemma ex_refresh_qc:
  assumes s: "st_support s = ex_supp cur d" and d: "ex_db d" "ex_stored cur d" and key: "key \<in> {DB_KEY_PREPARE_QC, DB_KEY_LOCKED_QC}"
  obtains d' where "refresh_qc (ex_chain_lib null_trie) ex_hl key (ex_qc cur) (ex_qc cur) s = (Ok (ex_qc cur), s\<lparr>st_support := ex_supp cur d'\<rparr>)"
    "ex_db d'" "ex_stored cur d'"
proof (rule ex_put [OF d(1) s, of "hl_qc ex_hl" key "ex_qc cur"])
  fix d'
  assume d': "storage_put (ex_chain_lib null_trie) (hl_qc ex_hl) key (ex_qc cur) s = (Ok (), s\<lparr>st_support := ex_supp cur d'\<rparr>)" "ex_db d'"
    "\<And>k. db_abs (\<lambda>d. d) d' CONSENSUS k = (if k = key then Some (enc (hl_qc ex_hl) (ex_qc cur)) else db_abs (\<lambda>d. d) d CONSENSUS k)"
  have keys: "DB_KEY_NODES \<noteq> key" "DB_KEY_PROPOSALS \<noteq> key" "DB_KEY_VIEW \<noteq> key"
    using db_keys_neq(1,2,4,5) key by (auto simp: db_keys_def)
  have "decoded (hl_qc ex_hl) (db_abs (\<lambda>d. d) d CONSENSUS key) \<in> {Ok None, Ok (Some (ex_qc cur))}"
    using d(2) key by (auto simp: ex_stored_def)
  then show thesis
    using d' d(2) keys key by (intro that [of d']) (auto simp: refresh_qc_def bind_apply ex_read [OF s] ex_stored_def Let_def)
qed

lemma ex_storage_new:
  assumes d: "ex_db d" "ex_stored cur d" and cur: "cur_confirmed_number cur = 0" "cur_confirmed_block_hash cur = Hash [0]"
  shows "\<exists>d'. storage_new (ex_chain_lib null_trie) ex_hl (ex_supp cur d) = Ok (ex_storage cur d') \<and> ex_db d' \<and> ex_stored cur d'"
proof -
  let ?lib = "ex_chain_lib null_trie" and ?g = "ex_qc cur"
  let ?s = "\<lparr> st_base_commit_qc = ?g, st_base_block_hash = Hash [], st_view = 0, st_prepare_qc = ?g, st_locked_qc = ?g, st_nodes = [],
     st_proposals = [], st_support = ex_supp cur d \<rparr>"
  obtain d1 where d1: "refresh_view ?lib ex_hl ?g ?s = (Ok 1, ?s\<lparr>st_support := ex_supp cur d1\<rparr>)" "ex_db d1" "ex_stored cur d1"
    by (rule ex_refresh_view [OF _ d, of ?s]) simp_all
  obtain d2 where d2: "refresh_qc ?lib ex_hl DB_KEY_PREPARE_QC ?g ?g (?s\<lparr>st_support := ex_supp cur d1\<rparr>) = (Ok ?g, ?s\<lparr>st_support := ex_supp cur d2\<rparr>)"
      "ex_db d2" "ex_stored cur d2"
    by (rule ex_refresh_qc [OF _ d1(2,3), of "?s\<lparr>st_support := ex_supp cur d1\<rparr>" DB_KEY_PREPARE_QC]) simp_all
  obtain d3 where d3: "refresh_qc ?lib ex_hl DB_KEY_LOCKED_QC ?g ?g (?s\<lparr>st_support := ex_supp cur d2\<rparr>) = (Ok ?g, ?s\<lparr>st_support := ex_supp cur d3\<rparr>)"
      "ex_db d3" "ex_stored cur d3"
    by (rule ex_refresh_qc [OF _ d2(2,3), of "?s\<lparr>st_support := ex_supp cur d2\<rparr>" DB_KEY_LOCKED_QC]) simp_all
  have rest: "refresh_nodes ?lib ex_hl h (?s\<lparr>st_support := ex_supp cur d3\<rparr>) = (Ok [], ?s\<lparr>st_support := ex_supp cur d3\<rparr>)"
    "refresh_proposals ?lib ex_hl h [] (?s\<lparr>st_support := ex_supp cur d3\<rparr>) = (Ok [], ?s\<lparr>st_support := ex_supp cur d3\<rparr>)" for h
    using d3(3) by (simp_all add: refresh_nodes_def refresh_proposals_def bind_apply ex_read [of _ cur d3] ex_stored_def hm_collect_def off_base_def
        remove_all_keys_def)
  have "storage_new ?lib ex_hl (ex_supp cur d) = Ok (ex_storage cur d3)"
    using d1(1) d2(1) d3(1) rest cur
    by (simp add: storage_new_def refresh_def bind_apply read_support_def storage_get_proof_def ex_genesis_qc [OF d(1)] ex_storage_def Let_def)
  then show ?thesis
    using d3(2,3) by blast
qed

section \<open>The validator\<close>

definition ex_config :: hotstuff_config where
  "ex_config = \<lparr> hc_secret_key = Some (SecretKey [7]), hc_init_extra_timeout = None \<rparr>"

definition ex_stream :: "(mem_db, bytes, bytes) hs_storage \<Rightarrow> nat option \<Rightarrow> address option \<Rightarrow> hs_state \<Rightarrow> (mem_db, bytes, bytes) hotstuff" where
  "ex_stream st inst leader role = \<lparr> hs_meta = ex_hs_meta, hs_config = ex_config, hs_secret_key = SecretKey [7], hs_public_key = PublicKey [7],
     hs_address = Address [7], hs_out = [], hs_out_open = True, hs_peers = [], hs_known_validators = [], hs_next_request_id = 0, hs_store = st,
     hs_next_timeout_instant = inst, hs_current_leader = leader, hs_role = role, hs_authorities = ex_authorities,
     hs_last_authorities = ex_authorities, hs_internal = [], hs_commit_block_params = None, hs_pending_consensus = [],
     hs_pending_new_view = [], hs_timeout_collector = [], hs_timeout_tc = None, hs_shutdown = False, hs_answers = [] \<rparr>"

lemma ex_executor_b: "bk_executor (ex_b cur d) = executor_new ex_hash ex_dsa \<lparr> ai_length = AddressLength20, ai_address = (\<lambda>b. b) \<rparr> (\<lambda>_. '''')"
  using ex_setup_b [of cur d] by (simp add: ex_setup_def same_setup_def ex_backend_def)

lemma ex_keys:
  "get_public_key (SecretKey k) (bk_executor (ex_b cur d)) = Ok (PublicKey k)"
  "get_address (PublicKey k) (bk_executor (ex_b cur d)) = Address k"
  "hs_sign m (SecretKey k) (bk_executor (ex_b cur d)) = Ok (Signature m)"
  "hs_verify m pk (Signature m) (bk_executor (ex_b cur d)) = Ok ()"
  "dsa_ok (xe_dsa (bk_executor (ex_b cur d)))"
  by (simp_all add: ex_executor_b executor_new_def get_public_key_def get_address_def hs_sign_def hs_verify_def ex_dsa_def dsa_ok_def)

lemma ex_new:
  assumes cur: "cur_confirmed_number cur = 0" "cur_confirmed_block_hash cur = Hash [0]"
  shows "\<exists>d. HotStuff_new ex_world ex_config (ex_supp cur (bk_db (ex_chain0 null_trie))) = Ok (Some (ex_stream (ex_storage cur d) None None HsObserver)) \<and>
    ex_db d \<and> ex_stored cur d"
proof -
  have "ex_stored cur (bk_db (ex_chain0 null_trie))"
    using ex_consensus_empty by (simp add: ex_stored_def)
  then obtain d where d: "storage_new (ex_chain_lib null_trie) ex_hl (ex_supp cur (bk_db (ex_chain0 null_trie))) = Ok (ex_storage cur d)"
      "ex_db d" "ex_stored cur d"
    using ex_storage_new [OF ex_db0 _ cur] by blast
  have "st_support (ex_storage cur d) = ex_supp cur d"
    by (simp add: ex_storage_def)
  then show ?thesis
    using d cur by (intro exI [of _ d]) (simp add: HotStuff_new_def hotstuff_spawn_def ex_hotstuff_calls ex_db0 ex_config_def ex_keys ex_stream_def Let_def)
qed

lemma ex_stream_sel [simp]:
  "hs_store (ex_stream st i l r) = st" "hs_authorities (ex_stream st i l r) = ex_authorities" "hs_last_authorities (ex_stream st i l r) = ex_authorities"
  "hs_address (ex_stream st i l r) = Address [7]" "hs_shutdown (ex_stream st i l r) = False" "hs_pending_new_view (ex_stream st i l r) = []"
  "hs_current_leader (ex_stream st i l r) = l" "hs_secret_key (ex_stream st i l r) = SecretKey [7]" "hs_public_key (ex_stream st i l r) = PublicKey [7]"
  "hs_role (ex_stream st i l r) = r" "hs_next_timeout_instant (ex_stream st i l r) = i" "hs_internal (ex_stream st i l r) = []"
  by (simp_all add: ex_stream_def)

lemma ex_storage_sel [simp]:
  "st_view (ex_storage cur d) = 1" "st_base_commit_qc (ex_storage cur d) = ex_qc cur" "st_prepare_qc (ex_storage cur d) = ex_qc cur"
  "st_support (ex_storage cur d) = ex_supp cur d"
  by (simp_all add: ex_storage_def)

definition ex_leading :: "current_state \<Rightarrow> mem_db \<Rightarrow> (mem_db, bytes, bytes) leader" where
  "ex_leading cur d = (let s = ex_stream (ex_storage cur d) (Some 10005) (Some (Address [7])) HsLeader in
     (leader_new s)\<lparr>ld_new_view_collector := [(Address [7], new_view_message s)], ld_work_new_view_signal := Some (ex_qc cur)\<rparr>)"

lemma ex_started: "start_work ex_world (ex_stream (ex_storage cur d) None None HsObserver) = (Ok (), ex_stream (ex_storage cur d) (Some 10005) None HsObserver)"
  by (simp add: start_work_def bind_apply update_next_timeout_instant_def ex_stream_def ex_config_def DEFAULT_INIT_EXTRA_TIMEOUT_def ex_hs_meta_def)

lemma ex_leads: "hs_step ex_world ev (Between (ex_stream (ex_storage cur d) (Some 10005) None HsObserver)) = Leading 1 (ex_leading cur d)"
proof -
  let ?before = "ex_stream (ex_storage cur d) (Some 10005) None HsObserver" and ?s = "ex_stream (ex_storage cur d) (Some 10005) (Some (Address [7])) HsLeader"
  have "compute_leader ?before = Ok (Address [7])"
    by (simp add: compute_leader_def ex_qc_def ex_authorities_def)
  then have role: "choose_role ?before = (Ok (), ?s)"
    by (simp add: choose_role_def bind_apply update_state_def update_current_leader_def) (simp add: ex_stream_def)
  have "leader_start ex_world (leader_new ?s) = (Ok (), ex_leading cur d)"
    by (simp add: leader_start_def process_pending_new_view_def send_new_view_to_self_def bind_apply on_stream_def leader_new_def leader_on_new_view_def
        new_view_message_def hs_verify_qc_def verify_qc_def ex_qc_def when_ok_def collector_add_def hm_insert_def get_high_qc_def member_weight_def
        ex_authorities_def hm_collect_def hm_get_def quorum_def total_weight_def try_work_def ex_leading_def Let_def)
  then show ?thesis
    using role by (simp add: run_view_def)
qed

section \<open>The first proposal\<close>

text \<open>What the turns of the example leader leave of its stream, with the votes it has collected.\<close>

definition ex_at :: "current_state \<Rightarrow> mem_db \<Rightarrow> (mem_db, bytes, bytes) leader \<Rightarrow> bool" where
  "ex_at cur d l \<longleftrightarrow> (let s = ld_stream l in
     hs_address s = Address [7] \<and> hs_secret_key s = SecretKey [7] \<and> hs_public_key s = PublicKey [7] \<and> hs_current_leader s = Some (Address [7]) \<and>
     hs_authorities s = ex_authorities \<and> hs_supp s = ex_supp cur d \<and> ex_db d \<and> ld_prepare_message l \<noteq> None)"

definition ex_quiet :: "('d, 'kp, 'ver) leader \<Rightarrow> unit common_result \<times> ('d, 'kp, 'ver) leader \<Rightarrow> bool" where
  "ex_quiet l x \<longleftrightarrow> (\<forall>p. fst x \<noteq> Err (Panic p)) \<and> ld_prepare_collector (snd x) = ld_prepare_collector l \<and>
     hs_authorities (ld_stream (snd x)) = hs_authorities (ld_stream l) \<and> hs_address (ld_stream (snd x)) = hs_address (ld_stream l)"

lemma ex_own_vote:
  assumes "ex_at cur d l"
  obtains v where "verify_message ex_world m (Address [7]) l = Ok v" "cm_sig v \<noteq> None" "cm_node v = cm_node (the (ld_prepare_message l))"
  using assms by (auto simp: ex_at_def verify_message_def sign_message_def hs_encode_sig_def encode_def ex_keys Let_def)

lemma ex_one_vote:
  assumes "cm_sig v \<noteq> None" "cm_node v \<noteq> None"
  shows "\<exists>q. get_qc ex_authorities a [(Address [7], v)] = Ok (Some q)"
  using assms by (auto simp: get_qc_def ex_authorities_def member_weight_def hm_collect_def hm_insert_def hm_get_def quorum_def total_weight_def Let_def)

lemma ex_alone: "ex_quiet l x \<Longrightarrow> ex_at cur d l \<Longrightarrow> other_members (ld_stream (snd x)) = []"
  by (simp add: other_members_def ex_quiet_def ex_at_def ex_authorities_def Let_def)

text \<open>Nothing is committed, as proposals are not read back.\<close>

lemma ex_on_decide:
  assumes "ex_at cur d l"
  shows "\<exists>r. leader_on_decide ex_world q l = (r, l) \<and> (\<forall>p. r \<noteq> Err (Panic p))"
proof -
  have "st_support (hs_store (ld_stream l)) = ex_supp cur d"
    using assms by (simp add: ex_at_def Let_def)
  note read = ex_read [OF this]
  have same: "s\<lparr>hs_store := hs_store s\<rparr> = s" "l\<lparr>ld_stream := ld_stream l\<rparr> = l" for s :: "(mem_db, bytes, bytes) hotstuff"
    by simp_all
  show ?thesis
    by (cases "db_abs (\<lambda>d. d) d CONSENSUS (DB_KEY_PROPOSAL_PREFIX @ hash_bytes (nd_block_hash (qc_node q)))")
      (auto simp: leader_on_decide_def on_stream_def decide_def take_decided_def bind_apply on_storage_def get_proposal_def read decoded_def
        decode_def ex_hl_def same)
qed

lemma ex_on_commit:
  assumes l: "ex_at cur d l" "cm_node (the (ld_prepare_message l)) \<noteq> None" "ld_commit_collector l = []" "ld_decide_message l = None"
  shows "ex_quiet l (leader_on_commit ex_world m (Address [7]) l)"
proof -
  obtain v where v: "verify_message ex_world m (Address [7]) l = Ok v" "cm_sig v \<noteq> None" "cm_node v = cm_node (the (ld_prepare_message l))"
    using l(1) by (rule ex_own_vote)
  obtain q where q: "get_qc ex_authorities (Address [7]) [(Address [7], v)] = Ok (Some q)"
    using ex_one_vote v(2,3) l(2) by metis
  let ?l = "l\<lparr>ld_commit_collector := [(Address [7], v)]\<rparr>"
  let ?k = "?l\<lparr>ld_decide_message := Some (phase_message Decide q ?l)\<rparr>"
  have "ex_at cur d ?k"
    using l(1) by (simp add: ex_at_def)
  from ex_on_decide [OF this, of q] obtain r where r: "leader_on_decide ex_world q ?k = (r, ?k)" "\<forall>p. r \<noteq> Err (Panic p)"
    by blast
  have "other_members (ld_stream l) = []"
    using ex_alone [of l "(Ok (), l)"] l(1) by (simp add: ex_quiet_def)
  then show ?thesis
    using l v(1) q r by (cases r) (auto simp: leader_on_commit_def bind_apply when_ok_def modify_def collector_add_def hm_insert_def collected_def
        query_def ex_at_def broadcast_message_def ex_quiet_def Let_def)
qed

text \<open>A write to the storage of the leader.\<close>

lemma ex_at_put:
  assumes "ex_at cur d l"
  obtains d' where "\<And>f. on_stream (on_storage (bind (storage_put (ex_chain_lib null_trie) c key v) (\<lambda>_. modify f))) l
      = (Ok (), l\<lparr>ld_stream := (ld_stream l)\<lparr>hs_store := f ((hs_store (ld_stream l))\<lparr>st_support := ex_supp cur d'\<rparr>)\<rparr>\<rparr>)"
    "ex_db d'"
proof (rule ex_put [of d "hs_store (ld_stream l)" cur c key v])
  show "ex_db d" "st_support (hs_store (ld_stream l)) = ex_supp cur d"
    using assms by (simp_all add: ex_at_def Let_def)
  fix d'
  assume "storage_put (ex_chain_lib null_trie) c key v (hs_store (ld_stream l)) = (Ok (), (hs_store (ld_stream l))\<lparr>st_support := ex_supp cur d'\<rparr>)"
    "ex_db d'"
  then show thesis
    by (intro that [of d']) (simp_all add: on_stream_def on_storage_def bind_apply modify_def)
qed

lemma ex_on_pre_commit:
  assumes l: "ex_at cur d l" "cm_node (the (ld_prepare_message l)) \<noteq> None" "ld_pre_commit_collector l = []" "ld_commit_collector l = []"
    "ld_commit_message l = None" "ld_decide_message l = None"
  shows "ex_quiet l (leader_on_pre_commit ex_world m (Address [7]) l)"
proof -
  obtain v where v: "verify_message ex_world m (Address [7]) l = Ok v" "cm_sig v \<noteq> None" "cm_node v = cm_node (the (ld_prepare_message l))"
    using l(1) by (rule ex_own_vote)
  obtain q where q: "get_qc ex_authorities (Address [7]) [(Address [7], v)] = Ok (Some q)"
    using ex_one_vote v(2,3) l(2) by metis
  let ?l = "l\<lparr>ld_pre_commit_collector := [(Address [7], v)]\<rparr>"
  have "ex_at cur d ?l"
    using l(1) by (simp add: ex_at_def)
  from ex_at_put [OF this, of "hl_qc ex_hl" DB_KEY_LOCKED_QC q] obtain d' where
    put: "\<And>f. on_stream (on_storage (bind (storage_put (ex_chain_lib null_trie) (hl_qc ex_hl) DB_KEY_LOCKED_QC q) (\<lambda>_. modify f))) ?l
      = (Ok (), ?l\<lparr>ld_stream := (ld_stream ?l)\<lparr>hs_store := f ((hs_store (ld_stream ?l))\<lparr>st_support := ex_supp cur d'\<rparr>)\<rparr>\<rparr>)"
    and d': "ex_db d'"
    by blast
  have "update_locked_qc (ex_chain_lib null_trie) ex_hl q = bind (storage_put (ex_chain_lib null_trie) (hl_qc ex_hl) DB_KEY_LOCKED_QC q)
      (\<lambda>_. modify (\<lambda>s. s\<lparr>st_locked_qc := q\<rparr>))"
    by (simp add: update_locked_qc_def modify_def [abs_def])
  note upd = put [of "\<lambda>s. s\<lparr>st_locked_qc := q\<rparr>", folded this]
  let ?j = "?l\<lparr>ld_stream := (ld_stream l)\<lparr>hs_store := (hs_store (ld_stream l))\<lparr>st_support := ex_supp cur d', st_locked_qc := q\<rparr>\<rparr>\<rparr>"
  let ?m = "phase_message Commit q ?j"
  let ?k = "?j\<lparr>ld_commit_message := Some ?m\<rparr>"
  have "ex_at cur d' ?k"
    using l(1) d' by (simp add: ex_at_def Let_def)
  then have c: "ex_quiet ?k (leader_on_commit ex_world ?m (Address [7]) ?k)"
    by (rule ex_on_commit) (use l in simp_all)
  obtain r k where k: "leader_on_commit ex_world ?m (Address [7]) ?k = (r, k)"
    by fastforce
  have "other_members (ld_stream k) = []"
    using ex_alone [OF c \<open>ex_at cur d' ?k\<close>] k by simp
  then show ?thesis
    using l v(1) q upd k c by (cases r) (auto simp: leader_on_pre_commit_def bind_apply when_ok_def modify_def collector_add_def hm_insert_def
        collected_def query_def ex_at_def broadcast_message_def ex_quiet_def Let_def)
qed

definition ex_certified :: "(mem_db, bytes, bytes) leader \<Rightarrow> bool" where
  "ex_certified l \<longleftrightarrow> hs_authorities (ld_stream l) = ex_authorities \<and> hs_address (ld_stream l) = Address [7] \<and>
     (\<exists>q. collected ld_prepare_collector l = Ok (Some q))"

lemma ex_on_prepare:
  assumes l: "ex_at cur d l" "cm_node (the (ld_prepare_message l)) \<noteq> None" "ld_prepare_collector l = []" "ld_pre_commit_collector l = []"
    "ld_commit_collector l = []" "ld_pre_commit_message l = None" "ld_commit_message l = None" "ld_decide_message l = None"
  shows "\<exists>r l'. leader_on_prepare ex_world m (Address [7]) l = (r, l') \<and> (\<forall>p. r \<noteq> Err (Panic p)) \<and> ex_certified l'"
proof -
  obtain v where v: "verify_message ex_world m (Address [7]) l = Ok v" "cm_sig v \<noteq> None" "cm_node v = cm_node (the (ld_prepare_message l))"
    using l(1) by (rule ex_own_vote)
  obtain q where q: "get_qc ex_authorities (Address [7]) [(Address [7], v)] = Ok (Some q)"
    using ex_one_vote v(2,3) l(2) by metis
  let ?l = "l\<lparr>ld_prepare_collector := [(Address [7], v)]\<rparr>"
  have "ex_at cur d ?l"
    using l(1) by (simp add: ex_at_def)
  from ex_at_put [OF this, of "hl_qc ex_hl" DB_KEY_PREPARE_QC q] obtain d' where
    put: "\<And>f. on_stream (on_storage (bind (storage_put (ex_chain_lib null_trie) (hl_qc ex_hl) DB_KEY_PREPARE_QC q) (\<lambda>_. modify f))) ?l
      = (Ok (), ?l\<lparr>ld_stream := (ld_stream ?l)\<lparr>hs_store := f ((hs_store (ld_stream ?l))\<lparr>st_support := ex_supp cur d'\<rparr>)\<rparr>\<rparr>)"
    and d': "ex_db d'"
    by blast
  have "update_prepare_qc (ex_chain_lib null_trie) ex_hl q = bind (storage_put (ex_chain_lib null_trie) (hl_qc ex_hl) DB_KEY_PREPARE_QC q)
      (\<lambda>_. modify (\<lambda>s. s\<lparr>st_prepare_qc := q\<rparr>))"
    by (simp add: update_prepare_qc_def modify_def [abs_def])
  note upd = put [of "\<lambda>s. s\<lparr>st_prepare_qc := q\<rparr>", folded this]
  let ?j = "?l\<lparr>ld_stream := (ld_stream l)\<lparr>hs_store := (hs_store (ld_stream l))\<lparr>st_support := ex_supp cur d', st_prepare_qc := q\<rparr>\<rparr>\<rparr>"
  let ?m = "phase_message PreCommit q ?j"
  let ?k = "?j\<lparr>ld_pre_commit_message := Some ?m\<rparr>"
  have "ex_at cur d' ?k"
    using l(1) d' by (simp add: ex_at_def Let_def)
  then have c: "ex_quiet ?k (leader_on_pre_commit ex_world ?m (Address [7]) ?k)"
    by (rule ex_on_pre_commit) (use l in simp_all)
  obtain r k where k: "leader_on_pre_commit ex_world ?m (Address [7]) ?k = (r, k)"
    by fastforce
  have "other_members (ld_stream k) = []"
    using ex_alone [OF c \<open>ex_at cur d' ?k\<close>] k by simp
  then show ?thesis
    using l v(1) q upd k c by (cases r) (auto simp: leader_on_prepare_def bind_apply when_ok_def modify_def collector_add_def hm_insert_def
        collected_def query_def ex_at_def broadcast_message_def ex_quiet_def ex_certified_def Let_def)
qed

lemma ex_on_proposal:
  assumes l: "ex_at cur d (l\<lparr>ld_prepare_message := Some m\<rparr>)" "ld_prepare_collector l = []" "ld_pre_commit_collector l = []" "ld_commit_collector l = []"
    "ld_pre_commit_message l = None" "ld_commit_message l = None" "ld_decide_message l = None" "ld_work_new_view_signal l \<noteq> None"
  shows "\<exists>r l'. leader_on_proposal ex_world p l = (r, l') \<and> (\<forall>p. r \<noteq> Err (Panic p)) \<and> ex_certified l'"
proof -
  obtain high where high: "ld_work_new_view_signal l = Some high"
    using l(8) by blast
  let ?m = "prepare_message_of p high l"
  have "ex_at cur d (l\<lparr>ld_prepare_message := Some ?m\<rparr>)"
    using l(1) by (simp add: ex_at_def Let_def)
  from ex_on_prepare [OF this, of ?m] obtain r l' where prep: "leader_on_prepare ex_world ?m (Address [7]) (l\<lparr>ld_prepare_message := Some ?m\<rparr>) = (r, l')"
    "\<forall>p. r \<noteq> Err (Panic p)" "ex_certified l'"
    using l by (auto simp: prepare_message_of_def)
  have "other_members (ld_stream l') = []" "hs_address (ld_stream l) = Address [7]"
    using prep(3) l(1) by (simp_all add: other_members_def ex_certified_def ex_authorities_def ex_at_def Let_def)
  then show ?thesis
    using prep high by (cases r) (auto simp: leader_on_proposal_def bind_apply query_def modify_def)
qed

lemma ex_prepare_block:
  assumes "cur_confirmed_number cur = 0" "cur_executed_number cur = 0" "cur_system_meta cur = ex_meta"
  shows "prepare_block (ex_chain_lib null_trie) 4 (ex_supp cur d) = (Ok ex_build, ex_supp cur d)"
  using assms by (simp add: prepare_block_def bind_apply read_chain_def get_current_state_def txpool_get_transactions_def txpool_new_def ex_supp_def
      txpool_remove_transactions_def on_txpool_def txpool_remove_def Let_def ex_meta_def ex_build_def)

lemma ex_build_b:
  assumes "ex_db d"
  shows "\<exists>cp. build_block (ex_chain_lib null_trie) ex_build (ex_b cur d) = Ok cp"
proof -
  have "sd_hash_length (bk_meta_statedb (ex_b cur d)) = HashLength32"
    using ex_setup_b [of cur d] by (simp add: ex_setup_def same_setup_def ex_backend_def)
  then have "prepare_update mem_rocks null_trie (bk_meta_statedb (ex_b cur d)) (replicate 32 0) [] (bk_db (ex_b cur d)) = Ok (replicate 32 1, [])"
    by (rule null_prepare_update) simp
  from ex_build_first_on [OF ex_setup_b ex_facts(3,4,5) [OF assms] this] show ?thesis
    by blast
qed

lemma ex_put_proposal:
  assumes "ex_db d" "st_support s = ex_supp cur d"
  obtains d' where "put_proposal (ex_chain_lib null_trie) ex_hl p s =
      (Ok (), s\<lparr>st_proposals := hm_insert (pro_block_hash p) \<lparr> nd_parent_hash = pro_parent_hash p, nd_block_hash = pro_block_hash p \<rparr> (st_proposals s),
        st_support := ex_supp cur d'\<rparr>)" "ex_db d'"
proof -
  let ?s = "s\<lparr>st_proposals := hm_insert (pro_block_hash p) \<lparr> nd_parent_hash = pro_parent_hash p, nd_block_hash = pro_block_hash p \<rparr> (st_proposals s)\<rparr>"
  obtain d1 where d1: "storage_put (ex_chain_lib null_trie) (hl_nodes ex_hl) DB_KEY_PROPOSALS (st_proposals ?s) ?s = (Ok (), ?s\<lparr>st_support := ex_supp cur d1\<rparr>)"
      "ex_db d1"
    by (rule ex_put [OF assms(1), of ?s]) (use assms(2) in simp_all)
  obtain d2 where "storage_put (ex_chain_lib null_trie) (hl_proposal ex_hl) (DB_KEY_PROPOSAL_PREFIX @ hash_bytes (pro_block_hash p)) p
      (?s\<lparr>st_support := ex_supp cur d1\<rparr>) = (Ok (), ?s\<lparr>st_support := ex_supp cur d2\<rparr>)" "ex_db d2"
    by (rule ex_put [OF d1(2), of "?s\<lparr>st_support := ex_supp cur d1\<rparr>"]) simp_all
  then show thesis
    using d1(1) by (intro that [of d2]) (simp_all add: put_proposal_def bind_apply Let_def)
qed

lemma ex_leading_sel [simp]:
  "ld_stream (ex_leading cur d) = ex_stream (ex_storage cur d) (Some 10005) (Some (Address [7])) HsLeader"
  "ld_prepare_collector (ex_leading cur d) = []" "ld_pre_commit_collector (ex_leading cur d) = []" "ld_commit_collector (ex_leading cur d) = []"
  "ld_prepare_message (ex_leading cur d) = None" "ld_pre_commit_message (ex_leading cur d) = None" "ld_commit_message (ex_leading cur d) = None"
  "ld_decide_message (ex_leading cur d) = None" "ld_work_new_view_signal (ex_leading cur d) = Some (ex_qc cur)"
  "ld_pending_remote_proposal (ex_leading cur d) = None"
  by (simp_all add: ex_leading_def leader_new_def Let_def)

lemma ex_create_proposal:
  assumes cur: "cur_confirmed_number cur = 0" "cur_executed_number cur = 0" "cur_system_meta cur = ex_meta" and d: "ex_db d"
  shows "\<exists>r l'. create_proposal ex_world 4 (ex_leading cur d\<lparr>ld_work_schedule_signal := x\<rparr>) = (r, l') \<and> (\<forall>p. r \<noteq> Err (Panic p)) \<and> ex_certified l'"
proof -
  let ?l = "ex_leading cur d\<lparr>ld_work_schedule_signal := x\<rparr>"
  obtain cp where cp: "build_block (ex_chain_lib null_trie) ex_build (ex_b cur d) = Ok cp"
    using ex_build_b [OF d] by blast
  let ?p = "\<lparr> pro_parent_hash = hdr_parent_hash (cb_header cp), pro_block_hash = cb_block_hash cp, pro_number = bb_number ex_build,
    pro_timestamp = bb_timestamp ex_build, pro_meta_txs = map ftx_tx (bb_meta_txs ex_build), pro_payload_txs = map ftx_tx (bb_payload_txs ex_build),
    pro_execution_number = bb_execution_number ex_build \<rparr>"
  obtain st d' where put: "put_proposal (ex_chain_lib null_trie) ex_hl ?p (ex_storage cur d) = (Ok (), st)" "st_support st = ex_supp cur d'" "ex_db d'"
    by (rule ex_put_proposal [OF d, of "ex_storage cur d" cur ?p]) simp_all
  let ?k = "?l\<lparr>ld_stream := (ld_stream ?l)\<lparr>hs_commit_block_params := Some cp, hs_store := st\<rparr>\<rparr>"
  have "ex_at cur d' (?k\<lparr>ld_prepare_message := Some undefined\<rparr>)"
    using put by (simp add: ex_at_def)
  from ex_on_proposal [OF this, of ?p] obtain r l' where sent: "leader_on_proposal ex_world ?p ?k = (r, l')" "\<forall>p. r \<noteq> Err (Panic p)" "ex_certified l'"
    by auto
  have same: "(ex_storage cur d)\<lparr>st_support := ex_supp cur d\<rparr> = ex_storage cur d" "s\<lparr>hs_store := hs_store s\<rparr> = s" "l\<lparr>ld_stream := ld_stream l\<rparr> = l"
    for s :: "(mem_db, bytes, bytes) hotstuff" and l :: "(mem_db, bytes, bytes) leader"
    by (simp_all add: same_support)
  have "on_stream (on_storage (on_support (prepare_block (ex_chain_lib null_trie) 4))) ?l = (Ok ex_build, ?l)"
    using ex_prepare_block [OF cur, of d] same(2) [of "ld_stream ?l"] same(3) [of ?l]
    by (simp add: on_stream_def on_storage_def on_support_def same(1))
  moreover have "on_stream (on_storage (put_proposal (ex_chain_lib null_trie) ex_hl ?p)) (?l\<lparr>ld_stream := (ld_stream ?l)\<lparr>hs_commit_block_params := Some cp\<rparr>\<rparr>)
      = (Ok (), ?k)"
    using put(1) by (simp add: on_stream_def on_storage_def)
  ultimately show ?thesis
    using sent cp by (simp add: create_proposal_def bind_apply query_def Let_def on_stream_def [of "modify _"] modify_def)
qed

lemma ex_proposes:
  assumes "cur_confirmed_number cur = 0" "cur_executed_number cur = 0" "cur_system_meta cur = ex_meta" "ex_db d"
  shows "\<exists>l'. hs_step ex_world (EvSchedule 4) (Leading 1 (ex_leading cur d)) = Leading 1 l' \<and> ex_certified l'"
proof -
  obtain r l' where c: "create_proposal ex_world 4 (ex_leading cur d\<lparr>ld_work_schedule_signal := Some 4\<rparr>) = (r, l')" "\<forall>p. r \<noteq> Err (Panic p)" "ex_certified l'"
    using ex_create_proposal [OF assms] by blast
  have "ex_stream st i a b\<lparr>hs_next_timeout_instant := i\<rparr> = ex_stream st i a b" "ex_leading cur d\<lparr>ld_stream := ld_stream (ex_leading cur d)\<rparr> = ex_leading cur d" for st i a b
    by (simp_all add: ex_stream_def)
  then have "on_stream (next_timeout_instant ex_world) (ex_leading cur d) = (Ok 10005, ex_leading cur d)"
    by (simp add: on_stream_def next_timeout_instant_def)
  moreover have "try_work ex_world (Some 4) None (ex_leading cur d) = (r, l')"
    using c(1) by (simp add: try_work_def bind_apply modify_def leader_work_def query_def)
  ultimately show ?thesis
    using c(2,3) by (cases r) (auto simp: left_view_def leader_turn_def bind_apply log_error_def split: common_error.splits)
qed

end
