(* ===== verification/Quorum_Spec.thy ===== *)
theory Quorum_Spec
  imports Main
begin

text \<open>
  What a protocol promises of its quorums: a configuration (the authorities of a block) has members with weights and a threshold, and a set
  of members is a quorum when its weight reaches the threshold. \<open>quorum_system\<close> asks for thresholds above half of the weight, as Raft needs,
  and \<open>byzantine_quorum\<close> for an overlap above the weight of the members that may be faulty, as HotStuff needs.
\<close>

locale quorum_system =
  fixes ok :: "'c \<Rightarrow> bool"
    and members :: "'c \<Rightarrow> 'a set"
    and weight :: "'c \<Rightarrow> 'a \<Rightarrow> nat"
    and threshold :: "'c \<Rightarrow> nat"
  assumes finite_members: "finite (members c)"
    and majority: "ok c \<Longrightarrow> sum (weight c) (members c) < 2 * threshold c"
begin

lemma overlap:
  assumes "S \<subseteq> members c" "T \<subseteq> members c" "threshold c \<le> sum (weight c) S" "threshold c \<le> sum (weight c) T"
  shows "2 * threshold c \<le> sum (weight c) (members c) + sum (weight c) (S \<inter> T)"
proof -
  have finite: "finite S" "finite T"
    using assms(1,2) finite_members finite_subset by blast+
  then have "sum (weight c) S + sum (weight c) T = sum (weight c) (S \<union> T) + sum (weight c) (S \<inter> T)"
    by (simp add: sum.union_inter)
  moreover have "sum (weight c) (S \<union> T) \<le> sum (weight c) (members c)"
    using assms(1,2) finite_members by (intro sum_mono2) auto
  ultimately show ?thesis
    using assms(3,4) by linarith
qed

lemma common_member:
  assumes "ok c" "S \<subseteq> members c" "T \<subseteq> members c" "threshold c \<le> sum (weight c) S" "threshold c \<le> sum (weight c) T"
  shows "\<exists>x\<in>S \<inter> T. 0 < weight c x"
proof (rule ccontr)
  assume "\<not> ?thesis"
  then have "sum (weight c) (S \<inter> T) = 0"
    by (intro sum.neutral) auto
  then show False
    using overlap [OF assms(2-5)] majority [OF assms(1)] by simp
qed

end

locale byzantine_quorum = quorum_system +
  fixes faulty :: "'c \<Rightarrow> nat"
  assumes tolerance: "ok c \<Longrightarrow> sum (weight c) (members c) + faulty c < 2 * threshold c"
begin

lemma honest_overlap:
  assumes "ok c" "S \<subseteq> members c" "T \<subseteq> members c" "threshold c \<le> sum (weight c) S" "threshold c \<le> sum (weight c) T"
  shows "faulty c < sum (weight c) (S \<inter> T)"
  using overlap [OF assms(2-5)] tolerance [OF assms(1)] by linarith

text \<open>The members that are not faulty decide: among them is one of both quorums.\<close>

lemma honest_member:
  assumes "ok c" "S \<subseteq> members c" "T \<subseteq> members c" "threshold c \<le> sum (weight c) S" "threshold c \<le> sum (weight c) T"
    and "sum (weight c) F \<le> faulty c" "finite F"
  shows "\<exists>x\<in>S \<inter> T. x \<notin> F"
proof (rule ccontr)
  assume "\<not> ?thesis"
  then have "sum (weight c) (S \<inter> T) \<le> sum (weight c) F"
    using assms(7) by (intro sum_mono2) auto
  then show False
    using honest_overlap [OF assms(1-5)] assms(6) by simp
qed

end

end
