(* ===== verification/Hotstuff_Quorum.thy ===== *)
theory Hotstuff_Quorum
  imports Hotstuff_Example Governance_Votes Quorum_Spec
begin

text \<open>
  The quorums of HotStuff: certificates that verify are quorums in the sense of \<open>byzantine_quorum\<close>, and the certificates the
  collectors make of valid votes verify.
\<close>

section \<open>The quorum system of the authorities\<close>

definition hs_weight :: "hotstuff_authorities \<Rightarrow> address \<Rightarrow> nat" where
  "hs_weight a x = (case hm_get (member_weight a) x of Some w \<Rightarrow> unat w | None \<Rightarrow> 0)"

definition hs_members :: "hotstuff_authorities \<Rightarrow> address set" where
  "hs_members a = fst ` set (ha_members a)"

definition max_faulty :: "hotstuff_authorities \<Rightarrow> nat" where
  "max_faulty a = (sum_list (map (unat \<circ> snd) (ha_members a)) - 1) div 3"

text \<open>Each address once, and a total weight that is not 0 and fits \<open>u32\<close>.\<close>

definition authorities_ok :: "hotstuff_authorities \<Rightarrow> bool" where
  "authorities_ok a \<longleftrightarrow> distinct (map fst (ha_members a)) \<and> sum_list (map (unat \<circ> snd) (ha_members a)) < 2 ^ 32
     \<and> 0 < sum_list (map (unat \<circ> snd) (ha_members a))"

lemma unat_fold_weights:
  "unat (acc :: u32) + sum_list (map (unat \<circ> snd) ms) < 2 ^ 32
   \<Longrightarrow> unat (fold (\<lambda>x sum. sum + snd x) ms acc) = unat acc + sum_list (map (unat \<circ> snd) ms)"
proof (induction ms arbitrary: acc)
  case (Cons m ms)
  then have "unat (acc + snd m) = unat acc + unat (snd m)"
    by (intro unat_add_lem [THEN iffD1]) simp
  with Cons show ?case
    by simp
qed simp

lemma hm_collect_distinct:
  assumes "distinct (map fst ms)"
  shows "hm_get (hm_collect ms) x = map_of ms x"
proof -
  have "hm_wf ms"
    using assms by (simp add: hm_wf_def)
  then show ?thesis
    by (simp add: hm_collect_def hm_get_extend_wf split: option.splits) (simp add: hm_get_def)
qed

lemma sum_weights:
  assumes "distinct (map fst ms)"
  shows "(\<Sum>x\<in>fst ` set ms. case map_of ms x of Some w \<Rightarrow> unat w | None \<Rightarrow> 0) = sum_list (map (unat \<circ> snd) ms)"
proof -
  have "inj_on fst (set ms)"
    using assms by (simp add: distinct_map)
  then have "(\<Sum>x\<in>fst ` set ms. case map_of ms x of Some w \<Rightarrow> unat w | None \<Rightarrow> 0)
      = (\<Sum>m\<in>set ms. case map_of ms (fst m) of Some w \<Rightarrow> unat w | None \<Rightarrow> 0)"
    by (simp add: sum.reindex)
  also have "\<dots> = (\<Sum>m\<in>set ms. unat (snd m))"
    using assms by (intro sum.cong) (auto simp: map_of_is_SomeI)
  also have "\<dots> = sum_list (map (unat \<circ> snd) ms)"
    using assms by (simp add: sum.distinct_set_conv_list distinct_map comp_def)
  finally show ?thesis .
qed

lemma sum_hs_weight: "authorities_ok a \<Longrightarrow> sum (hs_weight a) (hs_members a) = sum_list (map (unat \<circ> snd) (ha_members a))"
  unfolding hs_weight_def [abs_def] hs_members_def authorities_ok_def member_weight_def
  by (simp add: hm_collect_distinct sum_weights)

lemma unat_quorum:
  assumes "authorities_ok a"
  shows "unat (quorum a) = sum (hs_weight a) (hs_members a) - max_faulty a"
proof -
  let ?n = "sum_list (map (unat \<circ> snd) (ha_members a))"
  have n: "unat (total_weight a) = ?n"
    using assms unat_fold_weights [of 0 "ha_members a"] by (simp add: total_weight_def authorities_ok_def)
  then have "unat (total_weight a - 1) = ?n - 1"
    using assms by (subst unat_minus_one) (auto simp: authorities_ok_def simp del: sum_list_eq_0_iff)
  then have "unat ((total_weight a - 1) div 3) = max_faulty a"
    by (simp add: max_faulty_def unat_div)
  moreover from this have "(total_weight a - 1) div 3 \<le> total_weight a"
    by (simp add: word_le_nat_alt n max_faulty_def)
  ultimately show ?thesis
    using assms by (simp add: quorum_def Let_def unat_sub n sum_hs_weight)
qed

interpretation hq: byzantine_quorum authorities_ok hs_members hs_weight "\<lambda>a. unat (quorum a)" max_faulty
proof
  fix c
  show "finite (hs_members c)"
    by (simp add: hs_members_def)
  assume ok: "authorities_ok c"
  then have n: "sum (hs_weight c) (hs_members c) \<noteq> 0" "max_faulty c = (sum (hs_weight c) (hs_members c) - 1) div 3"
    by (simp_all add: sum_hs_weight max_faulty_def authorities_ok_def del: sum_list_eq_0_iff)
  show "sum (hs_weight c) (hs_members c) < 2 * unat (quorum c)"
    unfolding unat_quorum [OF ok] using n by linarith
  show "sum (hs_weight c) (hs_members c) + max_faulty c < 2 * unat (quorum c)"
    unfolding unat_quorum [OF ok] using n by linarith
qed

text \<open>What the module reports, with equal addresses aggregated, has each address once.\<close>

lemma aggregate_authorities_distinct: "distinct (map fst (ha_members (aggregate_authorities a)))"
  using aggregate_members_spec [of "[]" "ha_members a"] by (simp add: aggregate_authorities_def)

section \<open>Certificates are quorums\<close>

definition signers :: "('kp, 'ver) executor \<Rightarrow> (public_key \<times> signature) list \<Rightarrow> address list" where
  "signers xe sigs = map (\<lambda>s. get_address (fst s) xe) sigs"

lemma hs_weight_outside:
  assumes "authorities_ok a" "x \<notin> hs_members a"
  shows "hs_weight a x = 0"
proof -
  have "map_of (ha_members a) x = None"
    using assms(2) by (simp add: hs_members_def map_of_eq_None_iff)
  then show ?thesis
    using assms(1) by (simp add: hs_weight_def member_weight_def hm_collect_distinct authorities_ok_def)
qed

lemma sum_signers:
  assumes "authorities_ok a" "distinct xs"
  shows "sum_list (map (hs_weight a) xs) = sum (hs_weight a) (set xs \<inter> hs_members a)"
proof -
  have "sum_list (map (hs_weight a) xs) = sum (hs_weight a) (set xs)"
    using assms(2) by (simp add: sum.distinct_set_conv_list)
  also have "\<dots> = sum (hs_weight a) (set xs \<inter> hs_members a)"
    using assms(1) by (intro sum.mono_neutral_right) (auto simp: hs_weight_outside)
  finally show ?thesis .
qed

lemma signers_weight_bound:
  assumes "authorities_ok a" "distinct xs"
  shows "sum_list (map (hs_weight a) xs) < 2 ^ 32"
proof -
  have "sum (hs_weight a) (set xs \<inter> hs_members a) \<le> sum (hs_weight a) (hs_members a)"
    by (intro sum_mono2) (auto simp: hs_members_def)
  then show ?thesis
    using assms(1) by (simp add: sum_signers [OF assms] sum_hs_weight authorities_ok_def)
qed

lemma verify_sigs_weight:
  assumes "verify_sigs lib xe (member_weight a) message sigs acc = Ok r"
    and "unat acc + sum_list (map (hs_weight a) (signers xe sigs)) < 2 ^ 32"
  shows "unat r = unat acc + sum_list (map (hs_weight a) (signers xe sigs))"
  using assms
proof (induction sigs arbitrary: acc)
  case (Cons s sigs)
  obtain pk sig where s: "s = (pk, sig)"
    by (cases s)
  let ?x = "get_address pk xe"
  let ?acc = "case hm_get (member_weight a) ?x of Some w \<Rightarrow> acc + w | None \<Rightarrow> acc"
  have acc: "unat ?acc = unat acc + hs_weight a ?x"
    using Cons.prems(2) by (cases "hm_get (member_weight a) ?x")
      (auto simp: s signers_def hs_weight_def intro!: unat_add_lem [THEN iffD1])
  have "verify_sigs lib xe (member_weight a) message sigs ?acc = Ok r"
    using Cons.prems(1) by (auto simp: s and_then_eq_Ok Let_def)
  with Cons.IH [of ?acc] Cons.prems(2) acc show ?case
    by (simp add: s signers_def)
qed (simp add: signers_def)

text \<open>A certificate that verifies, each signer once, is a quorum of members.\<close>

lemma verify_qc_quorum:
  assumes "authorities_ok a" "verify_qc lib hl xe q t a = Ok ()" "qc_view q \<noteq> 0" "distinct (signers xe (qc_sig q))"
  shows "unat (quorum a) \<le> sum (hs_weight a) (set (signers xe (qc_sig q)) \<inter> hs_members a)"
proof -
  obtain r where r: "verify_sigs lib xe (member_weight a)
        (encode (hl_sig_message hl) (qc_message_type q, qc_view q, Some (qc_node q), qc_leader_address q)) (qc_sig q) 0 = Ok r"
      "quorum a \<le> r"
    using assms(2,3) by (auto simp: verify_qc_def and_then_eq_Ok split: if_splits)
  have "unat r = sum_list (map (hs_weight a) (signers xe (qc_sig q)))"
    using verify_sigs_weight [OF r(1)] signers_weight_bound [OF assms(1,4)] by simp
  with r(2) show ?thesis
    by (simp add: sum_signers [OF assms(1,4)] word_le_nat_alt)
qed

lemma verify_tc_quorum:
  assumes "authorities_ok a" "verify_tc lib hl xe t a = Ok ()" "distinct (signers xe (tc_sig t))"
  shows "unat (quorum a) \<le> sum (hs_weight a) (set (signers xe (tc_sig t)) \<inter> hs_members a)"
proof -
  obtain r where r: "verify_sigs lib xe (member_weight a) (encode (hl_timeout_message hl) (NewTimeout, tc_view t)) (tc_sig t) 0 = Ok r"
      "quorum a \<le> r"
    using assms(2) by (auto simp: verify_tc_def and_then_eq_Ok split: if_splits)
  have "unat r = sum_list (map (hs_weight a) (signers xe (tc_sig t)))"
    using verify_sigs_weight [OF r(1)] signers_weight_bound [OF assms(1,3)] by simp
  with r(2) show ?thesis
    by (simp add: sum_signers [OF assms(1,3)] word_le_nat_alt)
qed

section \<open>Collected certificates verify\<close>

text \<open>A vote of a phase as the collector of the phase holds it: for the node and the leader, signed by the address it is listed under.\<close>

definition vote_ok :: "hotstuff_lib \<Rightarrow> ('kp, 'ver) executor \<Rightarrow> message_type \<Rightarrow> u64 \<Rightarrow> hs_node \<Rightarrow> address \<Rightarrow> address \<times> consensus_message
    \<Rightarrow> bool" where
  "vote_ok hl xe t v node leader_address vote \<longleftrightarrow> (case vote of (address, m) \<Rightarrow>
     cm_message_type m = t \<and> cm_view m = v \<and> cm_node m = Some node \<and>
     (case cm_sig m of
        None \<Rightarrow> False
      | Some (public_key, sig) \<Rightarrow> get_address public_key xe = address \<and>
          hs_verify (enc (hl_sig_message hl) (t, v, Some node, leader_address)) public_key sig xe = Ok ()))"

lemma verify_sigs_append:
  "verify_sigs lib xe ws message (xs @ ys) acc = and_then (verify_sigs lib xe ws message xs acc) (verify_sigs lib xe ws message ys)"
proof (induction xs arbitrary: acc)
  case (Cons x xs)
  obtain pk sg where "x = (pk, sg)"
    by (cases x)
  with Cons show ?case
    by (cases message; cases "hs_verify (case message of Ok m \<Rightarrow> m) pk sg xe") (simp_all add: Let_def)
qed simp

lemma qc_loop_verifies:
  assumes "qc_loop ws n leader_address c acc sigs = Ok (Some q)" "list_all (vote_ok hl xe t v node leader_address) c"
    and "verify_sigs lib xe ws (encode (hl_sig_message hl) (t, v, Some node, leader_address)) sigs 0 = Ok acc"
  shows "qc_message_type q = t \<and> qc_view q = v \<and> qc_node q = node \<and> qc_leader_address q = leader_address \<and>
    (\<exists>r. verify_sigs lib xe ws (encode (hl_sig_message hl) (t, v, Some node, leader_address)) (qc_sig q) 0 = Ok r \<and> n \<le> r)"
  using assms
proof (induction c arbitrary: acc sigs)
  case (Cons x c)
  obtain a m where x: "x = (a, m)"
    by (cases x)
  from Cons.prems(2) x obtain pk sg where m: "cm_message_type m = t" "cm_view m = v" "cm_node m = Some node"
      "cm_sig m = Some (pk, sg)" "get_address pk xe = a"
      "hs_verify (enc (hl_sig_message hl) (t, v, Some node, leader_address)) pk sg xe = Ok ()"
    by (auto simp: vote_ok_def split: option.splits)
  show ?case
  proof (cases "hm_get ws a")
    case None
    then show ?thesis
      using Cons x m by (auto split: if_splits)
  next
    case (Some weight)
    have "verify_sigs lib xe ws (encode (hl_sig_message hl) (t, v, Some node, leader_address)) (sigs @ [(pk, sg)]) 0 = Ok (acc + weight)"
      using Cons.prems(3) m Some by (simp add: verify_sigs_append encode_def)
    then show ?thesis
      using Cons x m Some by (auto split: if_splits)
  qed
qed simp

lemma get_qc_verifies:
  assumes "get_qc a leader_address c = Ok (Some q)" "list_all (vote_ok hl xe t v node leader_address) c"
  shows "verify_qc lib hl xe q (Some t) a = Ok ()" "qc_view q = v" "qc_node q = node"
proof -
  have "qc_message_type q = t \<and> qc_view q = v \<and> qc_node q = node \<and> qc_leader_address q = leader_address \<and>
      (\<exists>r. verify_sigs lib xe (member_weight a) (encode (hl_sig_message hl) (t, v, Some node, leader_address)) (qc_sig q) 0 = Ok r
        \<and> quorum a \<le> r)"
    using assms(1,2) by (intro qc_loop_verifies) (auto simp: get_qc_def)
  then show "verify_qc lib hl xe q (Some t) a = Ok ()" "qc_view q = v" "qc_node q = node"
    by (auto simp: verify_qc_def)
qed

text \<open>The votes of a collector are those of distinct signers.\<close>

lemma qc_loop_signers:
  assumes "qc_loop ws n leader_address c acc sigs = Ok (Some q)" "list_all (vote_ok hl xe t v node leader_address) c"
    and "distinct (signers xe sigs @ map fst c)"
  shows "distinct (signers xe (qc_sig q))"
  using assms
proof (induction c arbitrary: acc sigs)
  case (Cons x c)
  obtain a m where x: "x = (a, m)"
    by (cases x)
  from Cons.prems(2) x obtain pk sg where m: "cm_sig m = Some (pk, sg)" "get_address pk xe = a"
    by (auto simp: vote_ok_def split: option.splits)
  show ?case
  proof (cases "hm_get ws a")
    case None
    then show ?thesis
      using Cons x m by (auto simp: and_then_eq_Ok split: if_splits)
  next
    case (Some weight)
    have "signers xe (sigs @ [(pk, sg)]) = signers xe sigs @ [a]"
      using m by (simp add: signers_def)
    then show ?thesis
      using Cons.IH [of "acc + weight" "sigs @ [(pk, sg)]"] Cons.prems x m Some
      by (auto simp: and_then_eq_Ok split: if_splits)
  qed
qed simp

text \<open>Four validators of weight 1, one of which may be faulty, and certificates of three of them.\<close>

definition ex_four :: hotstuff_authorities where
  "ex_four = \<lparr> ha_members = [(Address [1], 1), (Address [2], 1), (Address [3], 1), (Address [4], 1)] \<rparr>"

definition ex_xe :: "(bytes, bytes) executor" where
  "ex_xe = executor_new ex_hash ex_dsa \<lparr> ai_length = AddressLength20, ai_address = (\<lambda>b. b) \<rparr> (\<lambda>_. '''')"

definition ex_certificate :: "bytes list \<Rightarrow> hs_node \<Rightarrow> qc" where
  "ex_certificate keys node = (let m = enc (hl_sig_message ex_hl) (Prepare, 1, Some node, Address [1]) in
     \<lparr> qc_message_type = Prepare, qc_view = 1, qc_node = node, qc_leader_address = Address [1],
       qc_sig = map (\<lambda>k. (PublicKey k, Signature m)) keys \<rparr>)"

lemma ex_xe_keys:
  "get_address (PublicKey k) ex_xe = Address k" "hs_verify m pk (Signature m) ex_xe = Ok ()"
  by (simp_all add: ex_xe_def executor_new_def get_address_def hs_verify_def ex_dsa_def)

lemma ex_four_eval:
  "authorities_ok ex_four" "quorum ex_four = 3" "max_faulty ex_four = 1" "hs_weight ex_four (Address [1]) = 1"
  "member_weight ex_four = ha_members ex_four"
  by (simp_all add: authorities_ok_def ex_four_def quorum_def total_weight_def max_faulty_def hs_weight_def member_weight_def hm_collect_def
      hm_insert_def hm_get_def Let_def)

lemma ex_certificate_ok: "verify_qc lib ex_hl ex_xe (ex_certificate [[1], [2], [3]] node) (Some Prepare) ex_four = Ok ()"
  "verify_qc lib ex_hl ex_xe (ex_certificate [[2], [3], [4]] node) (Some Prepare) ex_four = Ok ()"
  by (simp_all add: verify_qc_def ex_certificate_def ex_four_eval ex_xe_keys encode_def Let_def) (simp_all add: ex_four_def hm_get_def)

text \<open>C16: Two certificates of HotStuff of views other than 0 that verify against the same authorities, with no signer counted twice, share
  members whose weight exceeds the weight \<open>f\<close> of members that may be faulty; so whatever the faulty members are, one honest member signed
  both. The authorities are listed once each, with a positive total weight that fits 32 bits. (A certificate of view 0 verifies without
  signatures; and the verification does not check that signers differ.)\<close>

theorem hotstuff_certificates_intersect:
  assumes "authorities_ok a" "verify_qc lib hl xe q t a = Ok ()" "verify_qc lib hl xe q' t' a = Ok ()"
    and "qc_view q \<noteq> 0" "qc_view q' \<noteq> 0" "distinct (signers xe (qc_sig q))" "distinct (signers xe (qc_sig q'))"
    and "sum (hs_weight a) F \<le> max_faulty a" "finite F"
  shows "\<exists>x. x \<in> set (signers xe (qc_sig q)) \<and> x \<in> set (signers xe (qc_sig q')) \<and> x \<in> hs_members a \<and> x \<notin> F"
  using hq.honest_member [OF assms(1) _ _ verify_qc_quorum [OF assms(1,2,4,6)] verify_qc_quorum [OF assms(1,3,5,7)] assms(8,9)]
  by blast

theorem hotstuff_certificates_intersect_witness:
  "\<exists>x. x \<in> {Address [1], Address [2], Address [3]} \<and> x \<in> {Address [2], Address [3], Address [4]} \<and> x \<in> hs_members ex_four \<and>
     x \<notin> {Address [1]}"
proof -
  let ?n = "\<lparr> nd_parent_hash = Hash [], nd_block_hash = Hash [1] \<rparr>" and ?m = "\<lparr> nd_parent_hash = Hash [], nd_block_hash = Hash [2] \<rparr>"
  let ?q = "ex_certificate [[1], [2], [3]] ?n" and ?r = "ex_certificate [[2], [3], [4]] ?m"
  have sg: "signers ex_xe (qc_sig ?q) = [Address [1], Address [2], Address [3]]" "signers ex_xe (qc_sig ?r) = [Address [2], Address [3], Address [4]]"
    "qc_view ?q = 1" "qc_view ?r = 1"
    by (simp_all add: signers_def ex_certificate_def ex_xe_keys Let_def)
  show ?thesis
    using hotstuff_certificates_intersect [OF ex_four_eval(1) ex_certificate_ok(1) [of "ex_chain_lib null_trie" ?n] ex_certificate_ok(2) [of "ex_chain_lib null_trie" ?m],
        of "{Address [1]}"] sg by (simp add: ex_four_eval)
qed

end
