(* ===== verification/Hotstuff_Leader.thy ===== *)
theory Hotstuff_Leader
  imports Hotstuff_Invariant Hotstuff_Quorum
begin

text \<open>
  The leader of a view: its collectors hold valid votes of the phase they are for, all for the proposal of the view, so that every
  certificate it makes verifies.
\<close>

section \<open>The invariant of the leader\<close>

definition phase_ok :: "hotstuff_lib \<Rightarrow> ('kp, 'ver) executor \<Rightarrow> message_type \<Rightarrow> u64 \<Rightarrow> address \<Rightarrow> consensus_message option \<Rightarrow> message_collector
    \<Rightarrow> bool" where
  "phase_ok hl xe t v own pm c \<longleftrightarrow> hm_wf c \<and> (case pm of
     None \<Rightarrow> c = []
   | Some m \<Rightarrow> (\<exists>node. cm_node m = Some node \<and> list_all (vote_ok hl xe t v node own) c))"

text \<open>The stream is that of the leader, and the collectors fit the prepare message \<open>pm\<close>; \<open>pd\<close> is the proposal it waits for.\<close>

definition ld_inv :: "hotstuff_lib \<Rightarrow> ('d \<Rightarrow> string \<Rightarrow> bytes \<Rightarrow> bytes option) \<Rightarrow> ('d, 'kp, 'ver) backend \<Rightarrow> (u64 \<Rightarrow> bool) \<Rightarrow> u64
    \<Rightarrow> secret_key \<times> public_key \<times> address \<Rightarrow> consensus_message option \<Rightarrow> hash option \<Rightarrow> ('d, 'kp, 'ver) leader \<Rightarrow> bool" where
  "ld_inv hl absd b0 V v k pm pd l \<longleftrightarrow> (case k of (sk, pk, own) \<Rightarrow>
     hs_inv hl absd b0 V (sk, pk, own, Some own) (ld_stream l) \<and> ld_prepare_message l = pm \<and> ld_pending_remote_proposal l = pd \<and>
     phase_ok hl (bk_executor b0) Prepare v own pm (ld_prepare_collector l) \<and>
     phase_ok hl (bk_executor b0) PreCommit v own pm (ld_pre_commit_collector l) \<and>
     phase_ok hl (bk_executor b0) Commit v own pm (ld_commit_collector l))"

definition leader_inv :: "hotstuff_lib \<Rightarrow> ('d \<Rightarrow> string \<Rightarrow> bytes \<Rightarrow> bytes option) \<Rightarrow> ('d, 'kp, 'ver) backend \<Rightarrow> (u64 \<Rightarrow> bool) \<Rightarrow> u64
    \<Rightarrow> secret_key \<times> public_key \<times> address \<Rightarrow> ('d, 'kp, 'ver) leader \<Rightarrow> bool" where
  "leader_inv hl absd b0 V v k l \<longleftrightarrow> (\<exists>pm pd. (pd \<noteq> None \<longrightarrow> pm = None) \<and> ld_inv hl absd b0 V v k pm pd l)"

text \<open>The keys of the validator belong together.\<close>

definition identity_ok :: "('kp, 'ver) executor \<Rightarrow> secret_key \<times> public_key \<times> address \<Rightarrow> bool" where
  "identity_ok xe k \<longleftrightarrow> (case k of (sk, pk, own) \<Rightarrow> get_public_key sk xe = Ok pk \<and> get_address pk xe = own \<and> dsa_ok (xe_dsa xe))"

lemma keeps_leader_inv: "(\<And>pm pd. keeps (ld_inv hl absd b0 V v k pm pd) m) \<Longrightarrow> keeps (leader_inv hl absd b0 V v k) m"
  unfolding keeps_def leader_inv_def by blast

lemma keeps_on_stream:
  assumes "\<And>k'. keeps (hs_inv hl absd b0 V k') m"
  shows "keeps (ld_inv hl absd b0 V v k pm pd) (on_stream m)"
  using assms by (auto simp: keeps_def on_stream_def ld_inv_def split: prod.splits) (metis snd_conv)

lemma signed_verifies:
  assumes "identity_ok xe (sk, pk, own)" "hs_sign m sk xe = Ok sig"
  shows "hs_verify m pk sig xe = Ok ()"
  using assms by (auto simp: identity_ok_def hs_sign_def hs_verify_def get_public_key_def and_then_eq_Ok dsa_ok_def) blast

lemma verify_message_vote:
  assumes l: "ld_inv hl absd b0 V v (sk, pk, own) (Some pm) pd l" and id: "identity_ok (bk_executor b0) (sk, pk, own)"
    and run: "verify_message w m a l = Ok m'" and hl: "hw_hl w = hl" and node: "cm_node pm = Some node"
    and m: "cm_message_type m = t" "cm_view m = v"
  shows "vote_ok hl (bk_executor b0) t v node own (a, m')"
proof -
  have own: "hs_address (ld_stream l) = own" "hs_current_leader (ld_stream l) = Some own" "hs_secret_key (ld_stream l) = sk"
    "hs_public_key (ld_stream l) = pk" "hs_executor (ld_stream l) = bk_executor b0" "ld_prepare_message l = Some pm"
    using l hs_inv_setup by (auto simp: ld_inv_def hs_inv_def st_inv_def promised_def claims_def Let_def same_setup_def)
  show ?thesis
  proof (cases "a = own")
    case True
    then obtain sg where "hs_sign (enc (hl_sig_message hl) (t, v, Some node, own)) sk (bk_executor b0) = Ok sg"
        "m' = m\<lparr>cm_node := Some node, cm_justify := None, cm_sig := Some (pk, sg)\<rparr>"
      using run own node m hl by (auto simp: verify_message_def Let_def sign_message_def hs_encode_sig_def encode_def and_then_eq_Ok)
    then show ?thesis
      using True m id signed_verifies [OF id] by (simp add: vote_ok_def identity_ok_def)
  next
    case False
    then show ?thesis
      using run own node m hl
      by (auto simp: verify_message_def Let_def hs_encode_sig_def encode_def and_then_eq_Ok vote_ok_def split: option.splits if_splits)
  qed
qed

lemma verify_message_prepared: "verify_message w m a l = Ok m' \<Longrightarrow> ld_prepare_message l \<noteq> None"
  by (auto simp: verify_message_def Let_def and_then_eq_Ok split: if_splits option.splits)

lemma list_all_update: "list_all P c \<Longrightarrow> P (a, m) \<Longrightarrow> list_all P (AList.update a m c)"
  by (induction c) auto

lemma ld_inv_prepare: "ld_inv hl absd b0 V v k pm pd l \<Longrightarrow> ld_prepare_message l = pm \<and> ld_pending_remote_proposal l = pd"
  by (auto simp: ld_inv_def split: prod.splits)

lemma phase_ok_add:
  assumes "phase_ok hl xe t v own (Some pm) c" "cm_node pm = Some node" "vote_ok hl xe t v node own (a, m)"
  shows "phase_ok hl xe t v own (Some pm) (collector_add a m c)"
proof -
  have "list_all (vote_ok hl xe t v node own) (AList.update a m c)"
    using assms by (intro list_all_update) (auto simp: phase_ok_def)
  then show ?thesis
    using assms by (auto simp: phase_ok_def collector_add_def hm_insert_def [symmetric])
qed

section \<open>The phases\<close>

abbreviation at_view :: "u64 \<Rightarrow> u64 \<Rightarrow> bool" where
  "at_view v \<equiv> (\<lambda>u. u = v)"

text \<open>A handler of a phase: the message is checked, the vote is added, and what follows keeps the invariant.\<close>

lemma keeps_phase:
  assumes id: "identity_ok (bk_executor b0) k" and hl: "hw_hl w = hl" and m: "cm_view m = v"
    and rest: "\<And>x. keeps (ld_inv hl absd b0 V v k pm pd) (rest x)"
    and add: "\<And>x l own. case k of (sk, pk, own) \<Rightarrow> \<forall>node q. pm = Some q \<longrightarrow> cm_node q = Some node \<longrightarrow>
      vote_ok hl (bk_executor b0) (cm_message_type m) v node own (a, x) \<longrightarrow> ld_inv hl absd b0 V v k pm pd l \<longrightarrow>
      ld_inv hl absd b0 V v k pm pd (f x l)"
  shows "keeps (ld_inv hl absd b0 V v k pm pd)
    (bind (ask (verify_message w m a)) (\<lambda>r. when_ok r (\<lambda>x. bind (modify (f x)) (\<lambda>_. rest x))))"
proof (rule keeps_bind_ask, rule keeps_when_ok)
  fix l x
  assume l: "ld_inv hl absd b0 V v k pm pd l" and x: "verify_message w m a l = Ok x"
  obtain sk pk own where k: "k = (sk, pk, own)"
    by (cases k)
  obtain q where q: "pm = Some q"
    using verify_message_prepared [OF x] ld_inv_prepare [OF l] by auto
  then obtain node where node: "cm_node q = Some node"
    using l by (auto simp: ld_inv_def phase_ok_def split: prod.splits)
  have "vote_ok hl (bk_executor b0) (cm_message_type m) v node own (a, x)"
    using verify_message_vote [OF _ _ x hl node refl m] l id k q by blast
  then have "ld_inv hl absd b0 V v k pm pd (f x l')" if "ld_inv hl absd b0 V v k pm pd l'" for l'
    using add [of x l'] k q node that by auto
  then show "keeps (ld_inv hl absd b0 V v k pm pd) (bind (modify (f x)) (\<lambda>_. rest x))"
    by (intro keeps_bind keeps_modify rest)
qed

lemma keeps_broadcast:
  "keeps (ld_inv hl absd b0 V v k pm pd) (broadcast_message w m)"
  unfolding broadcast_message_def by (intro keeps_rules keeps_on_stream hs_keeps)

lemma ld_inv_view: "ld_inv hl absd b0 (at_view v) v k pm pd l \<Longrightarrow> hs_view (ld_stream l) = v"
  by (auto simp: ld_inv_def hs_inv_def st_inv_def split: prod.splits)

lemma keeps_leader_on_decide:
  assumes "hs_world_ok w hl absd b0"
  shows "keeps (ld_inv hl absd b0 V v k pm pd) (leader_on_decide w q)"
  unfolding leader_on_decide_def by (intro keeps_on_stream hs_keeps assms)

lemma keeps_leader_on_commit:
  assumes w: "hs_world_ok w hl absd b0" and id: "identity_ok (bk_executor b0) k" and m: "cm_view m = v" "cm_message_type m = Commit"
  shows "keeps (ld_inv hl absd b0 (at_view v) v k pm pd) (leader_on_commit w m a)"
  unfolding leader_on_commit_def
proof (rule keeps_phase [OF id _ m(1)])
  show "hw_hl w = hl"
    using w by (simp add: hs_world_ok_def)
  have decide: "keeps (ld_inv hl absd b0 (at_view v) v k pm pd) (modify (\<lambda>l. l\<lparr>ld_decide_message := x\<rparr>))" for x
    by (intro keeps_modify) (simp add: ld_inv_def)
  show "keeps (ld_inv hl absd b0 (at_view v) v k pm pd) (bind (query (collected ld_commit_collector)) (\<lambda>q.
     bind (ask ld_decide_message) (\<lambda>m. case (q, m) of
       (Some commit_qc, None) \<Rightarrow>
         bind (ask (phase_message Decide commit_qc)) (\<lambda>decide_message.
         bind (modify (\<lambda>l. l\<lparr>ld_decide_message := Some decide_message\<rparr>)) (\<lambda>_.
         bind (leader_on_decide w commit_qc) (\<lambda>_.
         broadcast_message w decide_message)))
     | _ \<Rightarrow> ret ())))" for x
    by (auto intro!: keeps_bind keeps_rules keeps_leader_on_decide [OF w] keeps_broadcast decide split: option.splits)
qed (auto simp: m ld_inv_def intro!: phase_ok_add)

lemma keeps_leader_on_pre_commit:
  assumes w: "hs_world_ok w hl absd b0" and id: "identity_ok (bk_executor b0) k" and m: "cm_view m = v" "cm_message_type m = PreCommit"
  shows "keeps (ld_inv hl absd b0 (at_view v) v k pm pd) (leader_on_pre_commit w m a)"
  unfolding leader_on_pre_commit_def
proof (rule keeps_phase [OF id _ m(1)])
  show "hw_hl w = hl"
    using w by (simp add: hs_world_ok_def)
  have commit: "keeps (ld_inv hl absd b0 (at_view v) v k pm pd) (modify (\<lambda>l. l\<lparr>ld_commit_message := x\<rparr>))" for x
    by (intro keeps_modify) (simp add: ld_inv_def)
  have self: "keeps (ld_inv hl absd b0 (at_view v) v k pm pd) (bind (ask (phase_message Commit q)) (\<lambda>commit_message.
         bind (modify (\<lambda>l. l\<lparr>ld_commit_message := Some commit_message\<rparr>)) (\<lambda>_.
         bind (ask (\<lambda>l. hs_address (ld_stream l))) (\<lambda>own.
         bind (leader_on_commit w commit_message own) (\<lambda>_.
         broadcast_message w commit_message)))))" for q
    by (rule keeps_bind_ask, intro keeps_rules commit keeps_broadcast keeps_leader_on_commit [OF w id])
      (simp_all add: phase_message_def ld_inv_view)
  show "keeps (ld_inv hl absd b0 (at_view v) v k pm pd) (bind (query (collected ld_pre_commit_collector)) (\<lambda>q.
     bind (ask ld_commit_message) (\<lambda>m. case (q, m) of
       (Some pre_commit_qc, None) \<Rightarrow>
         bind (on_stream (on_storage (update_locked_qc (hw_lib w) (hw_hl w) pre_commit_qc))) (\<lambda>_.
         bind (ask (phase_message Commit pre_commit_qc)) (\<lambda>commit_message.
         bind (modify (\<lambda>l. l\<lparr>ld_commit_message := Some commit_message\<rparr>)) (\<lambda>_.
         bind (ask (\<lambda>l. hs_address (ld_stream l))) (\<lambda>own.
         bind (leader_on_commit w commit_message own) (\<lambda>_.
         broadcast_message w commit_message)))))
     | _ \<Rightarrow> ret ())))" for x
    by (auto intro!: keeps_bind keeps_rules keeps_on_stream hs_keeps w self split: option.splits)
qed (auto simp: m ld_inv_def intro!: phase_ok_add)

lemma keeps_leader_on_prepare:
  assumes w: "hs_world_ok w hl absd b0" and id: "identity_ok (bk_executor b0) k" and m: "cm_view m = v" "cm_message_type m = Prepare"
  shows "keeps (ld_inv hl absd b0 (at_view v) v k pm pd) (leader_on_prepare w m a)"
  unfolding leader_on_prepare_def
proof (rule keeps_phase [OF id _ m(1)])
  show "hw_hl w = hl"
    using w by (simp add: hs_world_ok_def)
  have pre_commit: "keeps (ld_inv hl absd b0 (at_view v) v k pm pd) (modify (\<lambda>l. l\<lparr>ld_pre_commit_message := x\<rparr>))" for x
    by (intro keeps_modify) (simp add: ld_inv_def)
  have self: "keeps (ld_inv hl absd b0 (at_view v) v k pm pd) (bind (ask (phase_message PreCommit q)) (\<lambda>pre_commit_message.
         bind (modify (\<lambda>l. l\<lparr>ld_pre_commit_message := Some pre_commit_message\<rparr>)) (\<lambda>_.
         bind (ask (\<lambda>l. hs_address (ld_stream l))) (\<lambda>own.
         bind (leader_on_pre_commit w pre_commit_message own) (\<lambda>_.
         broadcast_message w pre_commit_message)))))" for q
    by (rule keeps_bind_ask, intro keeps_rules pre_commit keeps_broadcast keeps_leader_on_pre_commit [OF w id])
      (simp_all add: phase_message_def ld_inv_view)
  show "keeps (ld_inv hl absd b0 (at_view v) v k pm pd) (bind (query (collected ld_prepare_collector)) (\<lambda>q.
     bind (ask ld_pre_commit_message) (\<lambda>m. case (q, m) of
       (Some prepare_qc, None) \<Rightarrow>
         bind (on_stream (on_storage (update_prepare_qc (hw_lib w) (hw_hl w) prepare_qc))) (\<lambda>_.
         bind (ask (phase_message PreCommit prepare_qc)) (\<lambda>pre_commit_message.
         bind (modify (\<lambda>l. l\<lparr>ld_pre_commit_message := Some pre_commit_message\<rparr>)) (\<lambda>_.
         bind (ask (\<lambda>l. hs_address (ld_stream l))) (\<lambda>own.
         bind (leader_on_pre_commit w pre_commit_message own) (\<lambda>_.
         broadcast_message w pre_commit_message)))))
     | _ \<Rightarrow> ret ())))" for x
    by (auto intro!: keeps_bind keeps_rules keeps_on_stream hs_keeps w self split: option.splits)
qed (auto simp: m ld_inv_def intro!: phase_ok_add)

section \<open>Proposing\<close>

lemma ld_inv_leader_inv: "ld_inv hl absd b0 V v k pm None l \<Longrightarrow> leader_inv hl absd b0 V v k l"
  "ld_inv hl absd b0 V v k None pd l \<Longrightarrow> leader_inv hl absd b0 V v k l"
  by (auto simp: leader_inv_def)

lemma ensures_on_proposal:
  assumes w: "hs_world_ok w hl absd b0" and id: "identity_ok (bk_executor b0) k"
  shows "ensures (ld_inv hl absd b0 (at_view v) v k None None) (leader_on_proposal w p) (leader_inv hl absd b0 (at_view v) v k)"
  unfolding leader_on_proposal_def
proof (rule ensures_bind_query)
  fix l q
  assume "ld_inv hl absd b0 (at_view v) v k None None l"
  show "ensures (ld_inv hl absd b0 (at_view v) v k None None) (bind (ask (prepare_message_of p q)) (\<lambda>prepare_message.
     bind (modify (\<lambda>l. l\<lparr>ld_prepare_message := Some prepare_message\<rparr>)) (\<lambda>_.
     bind (ask (\<lambda>l. hs_address (ld_stream l))) (\<lambda>own.
     bind (leader_on_prepare w prepare_message own) (\<lambda>_.
     bind (ask (\<lambda>l. other_members (ld_stream l))) (\<lambda>addresses.
     for_each (\<lambda>address.
       bind (ask (\<lambda>l. hm_get (hs_known_validators (ld_stream l)) address)) (\<lambda>known.
       bind (case known of
           Some peer_id \<Rightarrow> on_stream (response w peer_id (RequestProposalRes \<lparr> rps_request_id = 0, rps_proposal = Some p \<rparr>))
         | None \<Rightarrow> ret ()) (\<lambda>_.
       bind (on_stream (stream_consensus_message w address prepare_message)) (\<lambda>_. ret ())))) addresses))))))
     (leader_inv hl absd b0 (at_view v) v k)"
  proof (rule ensures_bind_ask, rule ensures_bind_modify)
    fix l' l
    assume l: "ld_inv hl absd b0 (at_view v) v k None None l'" and l2: "ld_inv hl absd b0 (at_view v) v k None None l"
    show "ld_inv hl absd b0 (at_view v) v k (Some (prepare_message_of p q l')) None (l\<lparr>ld_prepare_message := Some (prepare_message_of p q l')\<rparr>)"
      using l2 by (auto simp: ld_inv_def phase_ok_def prepare_message_of_def split: prod.splits)
  next
    fix l'
    assume l: "ld_inv hl absd b0 (at_view v) v k None None l'"
    have m: "cm_view (prepare_message_of p q l') = v" "cm_message_type (prepare_message_of p q l') = Prepare"
      using ld_inv_view [OF l] by (simp_all add: prepare_message_of_def)
    show "ensures (ld_inv hl absd b0 (at_view v) v k (Some (prepare_message_of p q l')) None)
       (bind (ask (\<lambda>l. hs_address (ld_stream l))) (\<lambda>own.
        bind (leader_on_prepare w (prepare_message_of p q l') own) (\<lambda>_.
        bind (ask (\<lambda>l. other_members (ld_stream l))) (\<lambda>addresses.
        for_each (\<lambda>address.
          bind (ask (\<lambda>l. hm_get (hs_known_validators (ld_stream l)) address)) (\<lambda>known.
          bind (case known of
              Some peer_id \<Rightarrow> on_stream (response w peer_id (RequestProposalRes \<lparr> rps_request_id = 0, rps_proposal = Some p \<rparr>))
            | None \<Rightarrow> ret ()) (\<lambda>_.
          bind (on_stream (stream_consensus_message w address (prepare_message_of p q l'))) (\<lambda>_. ret ())))) addresses))))
       (leader_inv hl absd b0 (at_view v) v k)"
      by (rule ensures_keeps, intro keeps_rules keeps_leader_on_prepare [OF w id m] keeps_on_stream hs_keeps)
        (rule ld_inv_leader_inv)
  qed
qed (rule ld_inv_leader_inv)

lemma keeps_leader_params:
  assumes "only_col META_STATE (cb_meta_transaction cp)"
  shows "keeps (ld_inv hl absd b0 V v k pm pd) (on_stream (modify (\<lambda>s. s\<lparr>hs_commit_block_params := Some cp\<rparr>)))"
  by (intro keeps_on_stream keeps_set_params assms)

lemma built_by_leader:
  assumes "hs_world_ok w hl absd b0" "ld_inv hl absd b0 V v k pm pd l" "build_block (hw_lib w) bb (hs_backend (ld_stream l)) = Ok cp"
  shows "only_col META_STATE (cb_meta_transaction cp)"
  using assms(2) by (auto simp: ld_inv_def split: prod.splits intro: built_by_stream [OF assms(1) _ assms(3)])

lemma ensures_create_proposal:
  assumes w: "hs_world_ok w hl absd b0" and id: "identity_ok (bk_executor b0) k"
  shows "ensures (ld_inv hl absd b0 (at_view v) v k None None) (create_proposal w t) (leader_inv hl absd b0 (at_view v) v k)"
  unfolding create_proposal_def Let_def
  by (intro ensures_bind ensures_bind_query keeps_on_stream hs_keeps w keeps_set_params ensures_on_proposal [OF w id] ld_inv_leader_inv(1))
    (auto intro: built_by_leader [OF w])

lemma ensures_local_proposal:
  assumes w: "hs_world_ok w hl absd b0" and id: "identity_ok (bk_executor b0) k"
  shows "ensures (ld_inv hl absd b0 (at_view v) v k None None) (on_local_proposal w p) (leader_inv hl absd b0 (at_view v) v k)"
  unfolding on_local_proposal_def
  by (intro ensures_bind keeps_rules keeps_bind_query keeps_on_stream keeps_set_params ensures_on_proposal [OF w id] ld_inv_leader_inv(1))
    (auto simp: Let_def and_then_eq_Ok intro: built_by_leader [OF w])

lemma ensures_option: "(x = None \<Longrightarrow> ensures P m Q) \<Longrightarrow> (\<And>y. x = Some y \<Longrightarrow> ensures P (k y) Q) \<Longrightarrow>
    ensures P (case x of None \<Rightarrow> m | Some y \<Rightarrow> k y) Q"
  by (cases x) auto

lemma ensures_reuse_proposal:
  assumes w: "hs_world_ok w hl absd b0" and id: "identity_ok (bk_executor b0) k"
  shows "ensures (ld_inv hl absd b0 (at_view v) v k None None) (reuse_proposal w q) (leader_inv hl absd b0 (at_view v) v k)"
proof -
  have pend: "ensures (ld_inv hl absd b0 (at_view v) v k None None) (modify (\<lambda>l. l\<lparr>ld_pending_remote_proposal := Some h\<rparr>))
      (leader_inv hl absd b0 (at_view v) v k)" for h
    by (auto simp: ensures_def leader_inv_def ld_inv_def split: prod.splits)
  have fail: "ensures (ld_inv hl absd b0 (at_view v) v k None None) (fail e) (leader_inv hl absd b0 (at_view v) v k)" for e
    by (auto simp: ensures_def intro: ld_inv_leader_inv)
  show ?thesis
    unfolding reuse_proposal_def Let_def
    by (intro ensures_bind ensures_option keeps_on_stream hs_keeps ensures_local_proposal [OF w id] ld_inv_leader_inv(1))
      (auto intro!: ensures_bind keeps_on_stream hs_keeps keeps_rules ld_inv_leader_inv(1) pend fail)
qed

lemma ensures_leader_work:
  assumes w: "hs_world_ok w hl absd b0" and id: "identity_ok (bk_executor b0) k"
  shows "ensures (ld_inv hl absd b0 (at_view v) v k None None) (leader_work w) (leader_inv hl absd b0 (at_view v) v k)"
proof -
  have ret: "ensures (ld_inv hl absd b0 (at_view v) v k None None) (ret ()) (leader_inv hl absd b0 (at_view v) v k)"
    by (auto simp: ensures_def intro: ld_inv_leader_inv)
  show ?thesis
    unfolding leader_work_def
    by (auto intro!: ensures_bind keeps_rules ld_inv_leader_inv(1) ensures_create_proposal [OF w id] ensures_reuse_proposal [OF w id] ret)
qed

lemma ensures_leader_inv:
  "(\<And>pm pd. pd \<noteq> None \<longrightarrow> pm = None \<Longrightarrow> ensures (ld_inv hl absd b0 V v k pm pd) m Q) \<Longrightarrow> ensures (leader_inv hl absd b0 V v k) m Q"
  unfolding ensures_def leader_inv_def by blast

lemma keeps_try_work:
  assumes w: "hs_world_ok w hl absd b0" and id: "identity_ok (bk_executor b0) k"
  shows "keeps (leader_inv hl absd b0 (at_view v) v k) (try_work w a b)"
proof -
  have "ensures (ld_inv hl absd b0 (at_view v) v k pm pd) (try_work w a b) (leader_inv hl absd b0 (at_view v) v k)"
    if pd: "pd \<noteq> None \<longrightarrow> pm = None" for pm pd
  proof -
    have ready: "ensures (ld_inv hl absd b0 (at_view v) v k pm pd)
        (bind (ask (\<lambda>l. ld_work_new_view_signal l \<noteq> None \<and> ld_work_schedule_signal l \<noteq> None \<and> ld_prepare_message l = None
            \<and> ld_pending_remote_proposal l = None)) (\<lambda>ready. if ready then leader_work w else ret ()))
        (leader_inv hl absd b0 (at_view v) v k)"
    proof (rule ensures_bind_ask)
      fix l
      assume l: "ld_inv hl absd b0 (at_view v) v k pm pd l"
      show "ensures (ld_inv hl absd b0 (at_view v) v k pm pd)
         (if ld_work_new_view_signal l \<noteq> None \<and> ld_work_schedule_signal l \<noteq> None \<and> ld_prepare_message l = None
            \<and> ld_pending_remote_proposal l = None then leader_work w else ret ()) (leader_inv hl absd b0 (at_view v) v k)"
        using ensures_leader_work [OF w id] ld_inv_prepare [OF l] pd
        by (auto simp: ensures_def leader_inv_def)
    qed
    show ?thesis
      unfolding try_work_def
      by (rule ensures_bind [OF _ _ ensures_bind [OF _ _ ready]])
        (use pd in \<open>auto intro!: keeps_rules simp: ld_inv_def leader_inv_def split: prod.splits\<close>)
  qed
  then show ?thesis
    unfolding keeps_ensures by (intro ensures_leader_inv)
qed

section \<open>Messages to the leader\<close>

lemma keeps_leader_stream:
  "(\<And>k'. keeps (hs_inv hl absd b0 V k') m) \<Longrightarrow> keeps (leader_inv hl absd b0 V v k) (on_stream m)"
  by (intro keeps_leader_inv keeps_on_stream)

lemma leader_inv_new_view [simp]: "leader_inv hl absd b0 V v k (l\<lparr>ld_new_view_collector := c\<rparr>) \<longleftrightarrow> leader_inv hl absd b0 V v k l"
  by (simp add: leader_inv_def ld_inv_def)

lemma keeps_leader_on_new_view:
  assumes w: "hs_world_ok w hl absd b0" and id: "identity_ok (bk_executor b0) k"
  shows "keeps (leader_inv hl absd b0 (at_view v) v k) (leader_on_new_view w m a)"
  unfolding leader_on_new_view_def
  by (cases "cm_justify m") (auto intro!: keeps_rules keeps_try_work [OF w id] split: option.splits)

lemma leader_inv_view: "leader_inv hl absd b0 (at_view v) v k l \<Longrightarrow> hs_view (ld_stream l) = v"
  by (auto simp: leader_inv_def dest: ld_inv_view)

lemma keeps_leader_message:
  assumes w: "hs_world_ok w hl absd b0" and id: "identity_ok (bk_executor b0) k"
  shows "keeps (leader_inv hl absd b0 (at_view v) v k) (leader_on_validator_consensus_message w m a)"
  unfolding leader_on_validator_consensus_message_def
proof (rule keeps_bind_ask)
  fix l
  assume "leader_inv hl absd b0 (at_view v) v k l"
  then have l: "hs_view (ld_stream l) = v"
    by (rule leader_inv_view)
  show "keeps (leader_inv hl absd b0 (at_view v) v k) (if cm_view m \<noteq> hs_view (ld_stream l) then ret ()
     else case cm_message_type m of
       NewView \<Rightarrow> leader_on_new_view w m a
     | Prepare \<Rightarrow> leader_on_prepare w m a
     | PreCommit \<Rightarrow> leader_on_pre_commit w m a
     | Commit \<Rightarrow> leader_on_commit w m a
     | Decide \<Rightarrow> ret ())"
    using l by (cases "cm_message_type m") (auto intro!: keeps_leader_on_new_view [OF w id] keeps_leader_inv
        keeps_leader_on_prepare [OF w id] keeps_leader_on_pre_commit [OF w id] keeps_leader_on_commit [OF w id])
qed

lemma keeps_leader_messages:
  assumes w: "hs_world_ok w hl absd b0" and id: "identity_ok (bk_executor b0) k"
  shows "keeps (leader_inv hl absd b0 (at_view v) v k) (leader_on_consensus_message w m p)"
    "keeps (leader_inv hl absd b0 (at_view v) v k) (leader_on_validator_registered w a p)"
  unfolding leader_on_consensus_message_def leader_on_validator_registered_def case_prod_unfold
  by (intro keeps_rules keeps_leader_message [OF w id] keeps_leader_stream hs_keeps)+

lemma keeps_on_remote_proposal:
  assumes w: "hs_world_ok w hl absd b0" and id: "identity_ok (bk_executor b0) k"
  shows "keeps (leader_inv hl absd b0 (at_view v) v k) (on_remote_proposal w a p)"
  unfolding keeps_ensures
proof (rule ensures_leader_inv)
  fix pm :: "consensus_message option" and pd :: "hash option"
  assume pd: "pd \<noteq> None \<longrightarrow> pm = None"
  have ret: "ensures (ld_inv hl absd b0 (at_view v) v k pm pd) (ret ()) (leader_inv hl absd b0 (at_view v) v k)"
    using pd by (auto simp: ensures_def leader_inv_def)
  have taken: "ensures (ld_inv hl absd b0 (at_view v) v k pm pd)
      (bind (modify (\<lambda>l. l\<lparr>ld_pending_remote_proposal := None\<rparr>)) (\<lambda>_. on_local_proposal w p)) (leader_inv hl absd b0 (at_view v) v k)"
    if "pm = None"
    by (rule ensures_bind_modify [OF _ ensures_local_proposal [OF w id]]) (use that in \<open>auto simp: ld_inv_def split: prod.splits\<close>)
  show "ensures (ld_inv hl absd b0 (at_view v) v k pm pd) (on_remote_proposal w a p) (leader_inv hl absd b0 (at_view v) v k)"
    unfolding on_remote_proposal_def
  proof (rule ensures_bind_ask)
    fix l
    assume "ld_inv hl absd b0 (at_view v) v k pm pd l"
    then have "ld_pending_remote_proposal l = pd"
      by (simp add: ld_inv_prepare)
    then show "ensures (ld_inv hl absd b0 (at_view v) v k pm pd) (case ld_pending_remote_proposal l of
         None \<Rightarrow> ret ()
       | Some block_hash \<Rightarrow> if block_hash \<noteq> pro_block_hash p then ret ()
           else bind (modify (\<lambda>l. l\<lparr>ld_pending_remote_proposal := None\<rparr>)) (\<lambda>_. on_local_proposal w p)) (leader_inv hl absd b0 (at_view v) v k)"
      using ret taken pd by (cases pd) auto
  qed
qed

lemma keeps_leader_start:
  assumes w: "hs_world_ok w hl absd b0" and id: "identity_ok (bk_executor b0) k"
  shows "keeps (leader_inv hl absd b0 (at_view v) v k) (leader_start w)"
  unfolding leader_start_def process_pending_new_view_def send_new_view_to_self_def case_prod_unfold
  by (intro keeps_rules keeps_leader_on_new_view [OF w id] keeps_leader_stream) (simp add: hs_inv_def)

lemma ld_inv_at_view: "ld_inv hl absd b0 (at_view v) v k pm pd l \<longleftrightarrow> ld_inv hl absd b0 any_view v k pm pd l \<and> hs_view (ld_stream l) = v"
  by (cases k) (auto simp: ld_inv_def hs_inv_def st_inv_def)

lemma leader_inv_any: "leader_inv hl absd b0 (at_view v) v k l \<Longrightarrow> leader_inv hl absd b0 any_view v k l"
  unfolding leader_inv_def ld_inv_at_view by blast

lemma leader_inv_at: "leader_inv hl absd b0 any_view v k l \<Longrightarrow> hs_view (ld_stream l) = v \<Longrightarrow> leader_inv hl absd b0 (at_view v) v k l"
  unfolding leader_inv_def ld_inv_at_view by blast

lemma ensures_leader_turn:
  fixes b0 :: "('d, 'kp, 'ver) backend"
  assumes w: "hs_world_ok w hl absd b0" and id: "identity_ok (bk_executor b0) k"
  shows "ensures (leader_inv hl absd b0 (at_view v) v k) (leader_turn w ev) (leader_inv hl absd b0 any_view v k)"
proof -
  have handler: "ensures (leader_inv hl absd b0 (at_view v) v k) m (leader_inv hl absd b0 any_view v k)"
    if "keeps (leader_inv hl absd b0 (at_view v) v k) m" for m :: "('d, 'kp, 'ver, unit) ld_comp"
    using that by (rule ensures_keeps) (rule leader_inv_any)
  have stream: "ensures (leader_inv hl absd b0 (at_view v) v k) (on_stream m) (leader_inv hl absd b0 any_view v k)"
    if "\<And>k'. keeps (hs_inv hl absd b0 any_view k') m" for m :: "('d, 'kp, 'ver, unit) hs_comp"
    using keeps_leader_stream [OF that] leader_inv_any unfolding ensures_def keeps_def by blast
  have internal: "ensures (leader_inv hl absd b0 (at_view v) v k)
      (bind (on_stream pop_internal) (\<lambda>m. case m of
         None \<Rightarrow> ret ()
       | Some (ValidatorRegistered address peer_id) \<Rightarrow> log_error (leader_on_validator_registered w address peer_id)
       | Some (InternalProposal address p) \<Rightarrow> log_error (on_remote_proposal w address p)
       | Some (InternalConsensus message peer_id) \<Rightarrow> log_error (leader_on_consensus_message w message peer_id)))
      (leader_inv hl absd b0 any_view v k)"
    by (rule handler) (auto intro!: keeps_rules keeps_leader_stream hs_keeps keeps_leader_messages [OF w id]
        keeps_on_remote_proposal [OF w id] split: option.splits internal_message.splits)
  show ?thesis
    unfolding leader_turn_def
  proof (rule ensures_bind)
    show "keeps (leader_inv hl absd b0 (at_view v) v k) (on_stream (next_timeout_instant w))"
      by (intro keeps_leader_stream hs_keeps)
    show "ensures (leader_inv hl absd b0 (at_view v) v k) (case ev of
         EvTimeout \<Rightarrow> on_stream (turn_timeout w inst)
       | EvSchedule t \<Rightarrow> log_error (try_work w (Some t) None)
       | EvInternal \<Rightarrow> bind (on_stream pop_internal) (\<lambda>m. case m of
           None \<Rightarrow> ret ()
         | Some (ValidatorRegistered address peer_id) \<Rightarrow> log_error (leader_on_validator_registered w address peer_id)
         | Some (InternalProposal address p) \<Rightarrow> log_error (on_remote_proposal w address p)
         | Some (InternalConsensus message peer_id) \<Rightarrow> log_error (leader_on_consensus_message w message peer_id))
       | EvIn m \<Rightarrow> on_stream (turn_in w m)) (leader_inv hl absd b0 any_view v k)" for inst
    proof (cases ev)
      case (EvSchedule t)
      then show ?thesis
        by (auto intro!: handler keeps_log_error keeps_try_work [OF w id])
    qed (use internal in \<open>auto intro!: stream hs_keeps w\<close>)
  qed (rule leader_inv_any)
qed

end
