(* ===== verification/Hotstuff_Theorems.thy ===== *)
theory Hotstuff_Theorems
  imports Hotstuff_Leader
begin

text \<open>
  The properties of a HotStuff validator over all its runs: \<open>hs_reach\<close> holds of the machines a validator gets to, whatever messages and
  timeouts come, and however the chain and the pool change beside it, as long as they leave the consensus column alone.
\<close>

section \<open>Runs\<close>

fun machine_stream :: "('d, 'kp, 'ver) hs_machine \<Rightarrow> ('d, 'kp, 'ver) hotstuff" where
  "machine_stream (Between s) = s"
| "machine_stream (Leading v l) = ld_stream l"
| "machine_stream (Following v s) = s"
| "machine_stream (Observing v s) = s"
| "machine_stream (Finished r s) = s"

fun with_support :: "('d, 'kp, 'ver) support \<Rightarrow> ('d, 'kp, 'ver) hs_machine \<Rightarrow> ('d, 'kp, 'ver) hs_machine" where
  "with_support x (Between s) = Between (s\<lparr>hs_store := (hs_store s)\<lparr>st_support := x\<rparr>\<rparr>)"
| "with_support x (Leading v l) = Leading v (l\<lparr>ld_stream := (ld_stream l)\<lparr>hs_store := (hs_store (ld_stream l))\<lparr>st_support := x\<rparr>\<rparr>\<rparr>)"
| "with_support x (Following v s) = Following v (s\<lparr>hs_store := (hs_store s)\<lparr>st_support := x\<rparr>\<rparr>)"
| "with_support x (Observing v s) = Observing v (s\<lparr>hs_store := (hs_store s)\<lparr>st_support := x\<rparr>\<rparr>)"
| "with_support x (Finished r s) = Finished r (s\<lparr>hs_store := (hs_store s)\<lparr>st_support := x\<rparr>\<rparr>)"

inductive hs_reach :: "('d, 't) chain_lib \<Rightarrow> hotstuff_lib \<Rightarrow> ('d \<Rightarrow> string \<Rightarrow> bytes \<Rightarrow> bytes option) \<Rightarrow> ('d, 'kp, 'ver) hs_machine \<Rightarrow> bool"
  for lib hl absd where
  reach_start: "HotStuff_new w config supp = Ok (Some s) \<Longrightarrow> hw_lib w = lib \<Longrightarrow> hw_hl w = hl \<Longrightarrow> chain_ok lib (sup_backend supp) \<Longrightarrow>
    dsa_ok (xe_dsa (bk_executor (sup_backend supp))) \<Longrightarrow> start_work w s = (Ok (), s') \<Longrightarrow> hs_reach lib hl absd (Between s')"
| reach_step: "hs_reach lib hl absd m \<Longrightarrow> hw_lib w = lib \<Longrightarrow> hw_hl w = hl \<Longrightarrow> hs_reach lib hl absd (hs_step w ev m)"
| reach_beside: "hs_reach lib hl absd m \<Longrightarrow> beside absd (hs_supp (machine_stream m)) x \<Longrightarrow> hs_reach lib hl absd (with_support x m)"

section \<open>The invariant of the machine\<close>

definition stream_inv :: "hotstuff_lib \<Rightarrow> ('d \<Rightarrow> string \<Rightarrow> bytes \<Rightarrow> bytes option) \<Rightarrow> ('d, 'kp, 'ver) backend \<Rightarrow> secret_key \<times> public_key \<times> address
    \<Rightarrow> ('d, 'kp, 'ver) hotstuff \<Rightarrow> bool" where
  "stream_inv hl absd b0 k s \<longleftrightarrow> (\<exists>leader. hs_inv hl absd b0 any_view (fst k, fst (snd k), snd (snd k), leader) s)"

fun machine_inv :: "hotstuff_lib \<Rightarrow> ('d \<Rightarrow> string \<Rightarrow> bytes \<Rightarrow> bytes option) \<Rightarrow> ('d, 'kp, 'ver) backend \<Rightarrow> secret_key \<times> public_key \<times> address
    \<Rightarrow> ('d, 'kp, 'ver) hs_machine \<Rightarrow> bool" where
  "machine_inv hl absd b0 k (Leading v l) = leader_inv hl absd b0 any_view v k l"
| "machine_inv hl absd b0 k m = stream_inv hl absd b0 k (machine_stream m)"

lemma leader_stream_inv: "leader_inv hl absd b0 V v k l \<Longrightarrow> stream_inv hl absd b0 k (ld_stream l)"
  by (cases k) (auto simp: leader_inv_def ld_inv_def stream_inv_def hs_inv_def st_inv_def)

lemma machine_stream_inv: "machine_inv hl absd b0 k m \<Longrightarrow> stream_inv hl absd b0 k (machine_stream m)"
  by (cases m) (auto dest: leader_stream_inv)

lemma keeps_stream_inv:
  assumes "\<And>k. keeps (hs_inv hl absd b0 any_view k) m"
  shows "keeps (stream_inv hl absd b0 k) m"
  using assms unfolding keeps_def stream_inv_def by blast

lemma leader_new_inv:
  assumes "hs_inv hl absd b0 any_view (sk, pk, own, Some own) s"
  shows "leader_inv hl absd b0 (at_view (hs_view s)) (hs_view s) (sk, pk, own) (leader_new s)"
  using assms by (auto simp: leader_inv_def ld_inv_def leader_new_def phase_ok_def hs_inv_def st_inv_def)

lemma choose_role_inv:
  assumes "stream_inv hl absd b0 (sk, pk, own) s" "choose_role s = (r, s')"
  shows "stream_inv hl absd b0 (sk, pk, own) s'"
    "r = Ok () \<Longrightarrow> hs_role s' = HsLeader \<Longrightarrow> hs_inv hl absd b0 any_view (sk, pk, own, Some own) s'"
  using assms by (auto simp: choose_role_def bind_apply update_state_def update_current_leader_def stream_inv_def hs_inv_def
      split: result.splits if_splits)

lemma run_view_inv:
  assumes w: "hs_world_ok w hl absd b0" and id: "identity_ok (bk_executor b0) k" and s: "stream_inv hl absd b0 k s"
  shows "machine_inv hl absd b0 k (run_view w s)"
proof -
  obtain sk pk own where k: "k = (sk, pk, own)"
    by (cases k)
  obtain r s' where role: "choose_role s = (r, s')"
    by fastforce
  note inv = choose_role_inv [OF s [unfolded k] role, folded k]
  show ?thesis
  proof (cases r)
    case (Err e)
    then show ?thesis
      using role inv(1) by (simp add: run_view_def)
  next
    case (Ok u)
    show ?thesis
    proof (cases "hs_role s'")
      case HsLeader
      obtain q l where start: "leader_start w (leader_new s') = (q, l)"
        by fastforce
      have "leader_inv hl absd b0 (at_view (hs_view s')) (hs_view s') k (leader_new s')"
        unfolding k by (rule leader_new_inv) (use inv(2) Ok HsLeader in simp)
      then have "leader_inv hl absd b0 any_view (hs_view s') k l"
        by (rule leader_inv_any [OF keepsD [OF keeps_leader_start [OF w id] _ start]])
      then show ?thesis
        using role Ok HsLeader start by (cases q) (auto simp: run_view_def intro: leader_stream_inv)
    next
      case HsReplica
      obtain q t where start: "send_new_view w s' = (q, t)"
        by fastforce
      have "keeps (stream_inv hl absd b0 k) (send_new_view w)"
        by (intro keeps_stream_inv hs_keeps)
      then have "stream_inv hl absd b0 k t"
        using inv(1) start by (rule keepsD)
      then show ?thesis
        using role Ok HsReplica start by (cases q) (auto simp: run_view_def)
    next
      case HsObserver
      then show ?thesis
        using role Ok inv(1) by (simp add: run_view_def)
    qed
  qed
qed

lemma hs_step_inv:
  assumes w: "hs_world_ok w hl absd b0" and id: "identity_ok (bk_executor b0) k" and m: "machine_inv hl absd b0 k m"
  shows "machine_inv hl absd b0 k (hs_step w ev m)"
proof (cases m)
  case (Between s)
  then show ?thesis
    using m run_view_inv [OF w id] by simp
next
  case (Leading v l)
  show ?thesis
  proof (cases "left_view v (ld_stream l)")
    case True
    then show ?thesis
      using m Leading by (auto intro: leader_stream_inv)
  next
    case False
    obtain r l' where turn: "leader_turn w ev l = (r, l')"
      by fastforce
    have "leader_inv hl absd b0 (at_view v) v k l"
      using m Leading False by (intro leader_inv_at) (auto simp: left_view_def)
    then have "leader_inv hl absd b0 any_view v k l'"
      using ensures_leader_turn [OF w id, of v ev] turn unfolding ensures_def by (metis snd_conv)
    then show ?thesis
      using False turn Leading by (cases r) (auto intro: leader_stream_inv)
  qed
next
  case (Following v s)
  obtain r s' where turn: "replica_turn w ev s = (r, s')"
    by fastforce
  have "stream_inv hl absd b0 k s'"
    using m Following by (intro keepsD [OF keeps_stream_inv [OF keeps_turns(1) [OF w]] _ turn]) simp
  then show ?thesis
    using m Following turn by (cases r) auto
next
  case (Observing v s)
  obtain r s' where turn: "observer_turn w ev s = (r, s')"
    by fastforce
  have "stream_inv hl absd b0 k s'"
    using m Observing by (intro keepsD [OF keeps_stream_inv [OF keeps_turns(2) [OF w]] _ turn]) simp
  then show ?thesis
    using m Observing turn by (cases r) auto
qed (use m in simp)

lemma with_support_inv:
  assumes "machine_inv hl absd b0 k m" "beside absd (hs_supp (machine_stream m)) x"
  shows "machine_inv hl absd b0 k (with_support x m)"
proof -
  have store: "st_inv hl absd b0 V (s\<lparr>st_support := x\<rparr>)" if "st_inv hl absd b0 V s" "beside absd (st_support s) x" for V s
    using that by (auto simp: st_inv_def promised_def claims_def Let_def beside_def same_setup_def)
  have stream: "stream_inv hl absd b0 k (s\<lparr>hs_store := (hs_store s)\<lparr>st_support := x\<rparr>\<rparr>)"
    if "stream_inv hl absd b0 k s" "beside absd (hs_supp s) x" for s
    using that store by (auto simp: stream_inv_def hs_inv_def)
  show ?thesis
  proof (cases m)
    case (Leading v l)
    then show ?thesis
      using assms store by (cases k) (auto simp: leader_inv_def ld_inv_def hs_inv_def)
  qed (use assms stream in auto)
qed

lemma storage_newD:
  assumes "storage_new lib hl supp = Ok st"
  obtains st0 where "st_support st0 = supp" "refresh lib hl st0 = (Ok (), st)"
proof -
  obtain g where "fst (refresh lib hl \<lparr> st_base_commit_qc = g, st_base_block_hash = Hash [], st_view = 0, st_prepare_qc = g,
           st_locked_qc = g, st_nodes = [], st_proposals = [], st_support = supp \<rparr>) = Ok ()"
      "snd (refresh lib hl \<lparr> st_base_commit_qc = g, st_base_block_hash = Hash [], st_view = 0, st_prepare_qc = g,
           st_locked_qc = g, st_nodes = [], st_proposals = [], st_support = supp \<rparr>) = st"
    using assms by (auto simp: storage_new_def and_then_eq_Ok Let_def case_prod_unfold)
  then show thesis
    by (intro that) (auto intro: prod_eqI)
qed

lemma spawn_inv:
  assumes lib: "hs_lib_ok lib hl absd" and new: "HotStuff_new w config supp = Ok (Some s)" "hw_lib w = lib" "hw_hl w = hl"
    and dsa: "dsa_ok (xe_dsa (bk_executor (sup_backend supp)))"
  shows "\<exists>k. identity_ok (bk_executor (sup_backend supp)) k \<and> stream_inv hl absd (sup_backend supp) k s"
proof -
  obtain sk pk st where sk: "get_public_key sk (bk_executor (sup_backend supp)) = Ok pk" and st: "storage_new lib hl supp = Ok st"
    and s: "hs_store s = st" "hs_commit_block_params s = None" "hs_secret_key s = sk" "hs_public_key s = pk"
      "hs_address s = get_address pk (bk_executor (sup_backend supp))"
    using new by (auto simp: HotStuff_new_def hotstuff_spawn_def Let_def and_then_eq_Ok split: option.splits)
  obtain st0 where st0: "st_support st0 = supp" "refresh lib hl st0 = (Ok (), st)"
    using st by (rule storage_newD)
  have "claims hl absd (sup_backend supp) 0 (\<lambda>_. 0) st0"
    using st0(1) by (simp add: claims_def Let_def same_setup_def at_least_def split: result.splits)
  from refresh_ok [OF lib this st0(2)] have "promised hl absd (sup_backend supp) st"
    by simp
  then have "stream_inv hl absd (sup_backend supp) (sk, pk, get_address pk (bk_executor (sup_backend supp))) s"
    using s by (auto simp: stream_inv_def hs_inv_def st_inv_def)
  then show ?thesis
    using sk dsa by (auto simp: identity_ok_def)
qed

lemma hs_reach_inv:
  assumes lib: "hs_lib_ok lib hl absd" and reach: "hs_reach lib hl absd m"
  shows "\<exists>b0 k. sd_column (bk_meta_statedb b0) = META_STATE \<and> identity_ok (bk_executor b0) k \<and> machine_inv hl absd b0 k m"
  using reach
proof induction
  case (reach_start w config supp s s')
  obtain k where k: "identity_ok (bk_executor (sup_backend supp)) k" "stream_inv hl absd (sup_backend supp) k s"
    using spawn_inv [OF lib reach_start(1-3,5)] by blast
  have "keeps (stream_inv hl absd (sup_backend supp) k) (start_work w)"
    unfolding start_work_def by (intro keeps_stream_inv keeps_rules hs_keeps)
  then have "stream_inv hl absd (sup_backend supp) k s'"
    using k(2) reach_start(6) by (rule keepsD)
  then show ?case
    using k(1) reach_start(4) by (intro exI [of _ "sup_backend supp"] exI [of _ k]) (simp add: chain_ok_def)
next
  case (reach_step m w ev)
  then show ?case
    using hs_step_inv lib by (metis hs_world_ok_def)
next
  case (reach_beside m x)
  then show ?case
    using with_support_inv by blast
qed

section \<open>Properties\<close>

text \<open>The example validator starts, leads the first view and proposes.\<close>

lemma ex_reach:
  "\<exists>cur d. cur_confirmed_number cur = 0 \<and> cur_executed_number cur = 0 \<and> cur_confirmed_block_hash cur = Hash [0] \<and> cur_system_meta cur = ex_meta \<and>
     ex_db d \<and> ex_stored cur d \<and> hs_reach (ex_chain_lib null_trie) ex_hl (\<lambda>d. d) (Leading 1 (ex_leading cur d))"
proof -
  let ?lib = "ex_chain_lib null_trie" and ?d = "bk_db (ex_chain0 null_trie)"
  obtain cur :: current_state where cur: "cur_confirmed_number cur = 0" "cur_executed_number cur = 0" "cur_confirmed_block_hash cur = Hash [0]" "cur_system_meta cur = ex_meta"
    using ex_chain_current unfolding Let_def by blast
  obtain d where d: "HotStuff_new ex_world ex_config (ex_supp cur ?d) = Ok (Some (ex_stream (ex_storage cur d) None None HsObserver))" "ex_db d" "ex_stored cur d"
    using ex_new [OF cur(1,3)] by blast
  have "hs_reach ?lib ex_hl (\<lambda>d. d) (Between (ex_stream (ex_storage cur d) (Some 10005) None HsObserver))"
    by (rule reach_start [OF d(1) _ _ _ _ ex_started]) (simp_all add: ex_facts(6) [OF ex_db0] ex_keys)
  from reach_step [OF this, of ex_world EvInternal] have "hs_reach ?lib ex_hl (\<lambda>d. d) (Leading 1 (ex_leading cur d))"
    using ex_leads [of EvInternal cur d] by simp
  with cur d show ?thesis
    by blast
qed

text \<open>C17: A restart does not go back on what a validator promised. Whatever a validator did, and wherever it stops (between two writes, after an
  error, in any role), a storage that is opened on what it left has at least its view, its prepare certificate and its locked certificate.\<close>

theorem restart_keeps_promises:
  assumes "hs_lib_ok lib hl absd" "hs_reach lib hl absd m" "storage_new lib hl (hs_supp (machine_stream m)) = Ok st"
  shows "st_view (hs_store (machine_stream m)) \<le> st_view st \<and>
    qc_view (st_prepare_qc (hs_store (machine_stream m))) \<le> qc_view (st_prepare_qc st) \<and>
    qc_view (st_locked_qc (hs_store (machine_stream m))) \<le> qc_view (st_locked_qc st)"
proof -
  let ?s = "hs_store (machine_stream m)"
  obtain b0 k where "machine_inv hl absd b0 k m"
    using hs_reach_inv [OF assms(1,2)] by blast
  then have "claims hl absd b0 (st_view ?s) (qc_views ?s) ?s"
    by (auto dest!: machine_stream_inv simp: stream_inv_def hs_inv_def st_inv_def promised_def)
  moreover obtain st0 where st0: "st_support st0 = hs_supp (machine_stream m)" "refresh lib hl st0 = (Ok (), st)"
    using assms(3) by (rule storage_newD)
  ultimately have "claims hl absd b0 (st_view ?s) (qc_views ?s) st0"
    by (simp add: claims_def)
  from refresh_ok [OF assms(1) this st0(2)] show ?thesis
    by (simp add: qc_views_def)
qed

theorem restart_keeps_promises_witness:
  "\<exists>(m :: (mem_db, bytes, bytes) hs_machine) st. hs_reach (ex_chain_lib null_trie) ex_hl (\<lambda>d. d) m \<and>
     storage_new (ex_chain_lib null_trie) ex_hl (hs_supp (machine_stream m)) = Ok st \<and>
     st_view (hs_store (machine_stream m)) = 1 \<and> 1 \<le> st_view st"
proof -
  obtain cur d where cur: "cur_confirmed_number cur = 0" "cur_confirmed_block_hash cur = Hash [0]" and d: "ex_db d" "ex_stored cur d"
    and m: "hs_reach (ex_chain_lib null_trie) ex_hl (\<lambda>d. d) (Leading 1 (ex_leading cur d))"
    using ex_reach by blast
  obtain st where st: "storage_new (ex_chain_lib null_trie) ex_hl (hs_supp (machine_stream (Leading 1 (ex_leading cur d)))) = Ok st"
    using ex_storage_new [OF d cur] by auto
  from restart_keeps_promises [OF ex_hs_lib_ok m st] m st show ?thesis
    by (intro exI [of _ "Leading 1 (ex_leading cur d)"] exI [of _ st]) simp
qed

text \<open>C15: The certificates a leader makes are accepted. In every view that a validator leads, whatever votes came in, a certificate that the
  collector of a phase yields is of that phase and view, is for the proposed block, has each signer once, and verifies against the
  authorities, so that every replica with the same authorities accepts it.\<close>

theorem leader_certificates_verify:
  assumes "hs_lib_ok lib hl absd" "hs_reach lib hl absd (Leading v l)" "collected sel l = Ok (Some q)"
    and "(sel, t) \<in> {(ld_prepare_collector, Prepare), (ld_pre_commit_collector, PreCommit), (ld_commit_collector, Commit)}"
  shows "verify_qc lib hl (hs_executor (ld_stream l)) q (Some t) (hs_authorities (ld_stream l)) = Ok () \<and> qc_view q = v \<and>
    map_option cm_node (ld_prepare_message l) = Some (Some (qc_node q)) \<and>
    distinct (signers (hs_executor (ld_stream l)) (qc_sig q))"
proof -
  obtain b0 sk pk own where inv: "leader_inv hl absd b0 any_view v (sk, pk, own) l"
    using hs_reach_inv [OF assms(1,2)] by auto
  then obtain pm pd where l: "ld_inv hl absd b0 any_view v (sk, pk, own) pm pd l"
    by (auto simp: leader_inv_def)
  have own: "hs_address (ld_stream l) = own" "ld_prepare_message l = pm" "hs_executor (ld_stream l) = bk_executor b0"
    using l hs_inv_setup by (auto simp: ld_inv_def hs_inv_def st_inv_def promised_def claims_def Let_def same_setup_def)
  have phase: "phase_ok hl (bk_executor b0) t v own pm (sel l)"
    using assms(4) l by (auto simp: ld_inv_def)
  have qc: "get_qc (hs_authorities (ld_stream l)) own (sel l) = Ok (Some q)"
    using assms(3) own by (simp add: collected_def)
  then have "sel l \<noteq> []"
    by (auto simp: get_qc_def)
  then obtain m node where m: "pm = Some m" "cm_node m = Some node" "list_all (vote_ok hl (bk_executor b0) t v node own) (sel l)"
    using phase by (auto simp: phase_ok_def split: option.splits)
  have "distinct (signers (bk_executor b0) (qc_sig q))"
    using phase qc by (intro qc_loop_signers [OF _ m(3)]) (auto simp: get_qc_def signers_def phase_ok_def hm_wf_def)
  then show ?thesis
    using get_qc_verifies [OF qc m(3)] own m by simp
qed

theorem leader_certificates_verify_witness:
  "\<exists>(l :: (mem_db, bytes, bytes) leader) q. hs_reach (ex_chain_lib null_trie) ex_hl (\<lambda>d. d) (Leading 1 l) \<and>
     collected ld_prepare_collector l = Ok (Some q) \<and>
     verify_qc (ex_chain_lib null_trie) ex_hl (hs_executor (ld_stream l)) q (Some Prepare) (hs_authorities (ld_stream l)) = Ok () \<and> qc_view q = 1"
proof -
  obtain cur d where cur: "cur_confirmed_number cur = 0" "cur_executed_number cur = 0" "cur_system_meta cur = ex_meta" and d: "ex_db d"
    and m: "hs_reach (ex_chain_lib null_trie) ex_hl (\<lambda>d. d) (Leading 1 (ex_leading cur d))"
    using ex_reach by blast
  obtain l where l: "hs_step ex_world (EvSchedule 4) (Leading 1 (ex_leading cur d)) = Leading 1 l" "ex_certified l"
    using ex_proposes [OF cur d] by blast
  then obtain q where q: "collected ld_prepare_collector l = Ok (Some q)"
    by (auto simp: ex_certified_def)
  have r: "hs_reach (ex_chain_lib null_trie) ex_hl (\<lambda>d. d) (Leading 1 l)"
    using reach_step [OF m, of ex_world "EvSchedule 4"] l(1) by simp
  from leader_certificates_verify [OF ex_hs_lib_ok r q, of Prepare] r q show ?thesis
    by blast
qed

lemma next_timeout_instant_eq:
  obtains inst t where "next_timeout_instant w s = (Ok inst, s\<lparr>hs_next_timeout_instant := t\<rparr>)"
proof (cases "hs_next_timeout_instant s")
  case (Some inst)
  then have "next_timeout_instant w s = (Ok inst, s\<lparr>hs_next_timeout_instant := Some inst\<rparr>)"
    by (cases s) (simp add: next_timeout_instant_def)
  then show thesis
    by (rule that)
qed (auto intro: that simp: next_timeout_instant_def Let_def)

text \<open>C30: Every validator gets to lead. As long as the block does not change, the views after it go through the members in turn: each member is
  the leader of one of any \<open>n\<close> consecutive views, where \<open>n\<close> is the number of members.\<close>

theorem every_member_leads:
  assumes "members = ha_members (hs_authorities s)" "compute_leader s = Ok first" "a \<in> fst ` set members"
    and "unat (hs_view s - qc_view (st_base_commit_qc (hs_store s))) + 2 * length members < 2 ^ 64"
  shows "\<exists>i < length members. compute_leader (s\<lparr>hs_store := (hs_store s)\<lparr>st_view := hs_view s + of_nat i\<rparr>\<rparr>) = Ok a"
  
proof -
  let ?n = "length members"
  define d where "d = hs_view s - qc_view (st_base_commit_qc (hs_store s))"
  obtain x :: u64 where x: "(if hs_last_authorities s = hs_authorities s
        then ok_or_else (Panic ''base commit qc is verified'')
               (map_option of_nat (find_index (\<lambda>m. fst m = qc_leader_address (st_base_commit_qc (hs_store s))) members))
        else Ok (of_nat ?n - 1)) = Ok x" and n: "members \<noteq> []"
    using assms(2) unfolding assms(1) compute_leader_def Let_def and_then_eq_Ok by (auto split: if_splits)
  have lim: "?n < 2 ^ 64"
    using assms(4) by simp
  have "unat x < ?n"
  proof (cases "hs_last_authorities s = hs_authorities s")
    case True
    then obtain p where "find_index (\<lambda>m. fst m = qc_leader_address (st_base_commit_qc (hs_store s))) members = Some p" "x = of_nat p"
      using x by auto
    then show ?thesis
      using find_index_Some lim by (fastforce simp: unat_of_nat)
  next
    case False
    then have "x = of_nat (?n - 1)"
      using x n by (cases members) auto
    then show ?thesis
      using n lim by (simp add: unat_of_nat)
  qed
  then have idx: "unat (x + (d + of_nat i)) = unat x + unat d + i" if "i < ?n" for i
  proof -
    have "x + (d + of_nat i) = of_nat (unat x + unat d + i)"
      by simp
    then show ?thesis
      using that assms(4) \<open>unat x < ?n\<close> by (simp only: unat_of_nat d_def [symmetric]) simp
  qed
  obtain j where j: "j < ?n" "fst (members ! j) = a"
    using assms(3) by (metis imageE in_set_conv_nth)
  let ?c = "(unat x + unat d) mod ?n"
  define i where "i = (j + (?n - ?c)) mod ?n"
  have i: "i < ?n" "(unat x + unat d + i) mod ?n = j"
  proof -
    show "i < ?n"
      using n by (simp add: i_def)
    have c: "?c < ?n"
      using n by simp
    have "(unat x + unat d + i) mod ?n = (?c + (j + (?n - ?c))) mod ?n"
      by (simp add: i_def mod_simps)
    also have "?c + (j + (?n - ?c)) = j + ?n"
      using c by linarith
    finally show "(unat x + unat d + i) mod ?n = j"
      using j(1) by simp
  qed
  have "compute_leader (s\<lparr>hs_store := (hs_store s)\<lparr>st_view := hs_view s + of_nat i\<rparr>\<rparr>) = Ok (fst (members ! ((unat x + unat d + i) mod ?n)))"
    using x n idx [OF i(1)] by (simp add: compute_leader_def Let_def assms(1) d_def algebra_simps cong: if_cong)
  then show ?thesis
    using i j by auto
qed

theorem every_member_leads_witness:
  "\<exists>(s :: (mem_db, bytes, bytes) hotstuff) i. i < 4 \<and> hs_authorities s = ex_four \<and>
     compute_leader (s\<lparr>hs_store := (hs_store s)\<lparr>st_view := hs_view s + of_nat i\<rparr>\<rparr>) = Ok (Address [3])"
proof -
  obtain cur :: current_state and d :: mem_db where True
    by simp
  let ?s = "ex_stream (ex_storage cur d) None None HsObserver\<lparr>hs_authorities := ex_four\<rparr>"
  have "ex_four \<noteq> ex_authorities"
    by (simp add: ex_four_def ex_authorities_def)
  then have "compute_leader ?s = Ok (Address [1])"
    by (simp add: compute_leader_def ex_four_def ex_qc_def)
  moreover have "length (ha_members (hs_authorities ?s)) = 4" "Address [3] \<in> fst ` set (ha_members (hs_authorities ?s))"
    by (simp_all add: ex_four_def)
  moreover have "unat (hs_view ?s - qc_view (st_base_commit_qc (hs_store ?s))) = 1"
    by (simp add: ex_qc_def)
  ultimately obtain i where "i < 4" "compute_leader (?s\<lparr>hs_store := (hs_store ?s)\<lparr>st_view := hs_view ?s + of_nat i\<rparr>\<rparr>) = Ok (Address [3])"
    using every_member_leads [OF refl, of ?s "Address [1]" "Address [3]"] by auto
  then show ?thesis
    by (intro exI [of _ ?s] exI [of _ i] conjI) simp_all
qed


text \<open>C31: A vote that comes before the proposal stops the leader. When a member sends a vote for the current view, signed with its own key,
  before the leader has a proposal, the \<open>expect\<close> on the prepare message fails and the task ends with a panic.\<close>

theorem early_vote_stops_leader:
  assumes "\<not> left_view v (ld_stream l)" "ld_prepare_message l = None" "hs_internal (ld_stream l) = InternalConsensus m peer # rest"
    and "get_peer_address peer (ld_stream l) = Some a" "is_member a (hs_authorities (ld_stream l))" "a \<noteq> hs_address (ld_stream l)"
    and "cm_view m = v" "cm_message_type m \<in> {Prepare, PreCommit, Commit}" "cm_sig m = Some (pk, sig)" "get_address pk (hs_executor (ld_stream l)) = a"
    and "hs_verify (enc (hl_sig_message (hw_hl w)) (cm_message_type m, v, cm_node m, hs_address (ld_stream l))) pk sig (hs_executor (ld_stream l)) = Ok ()"
  shows "\<exists>s. hs_step w EvInternal (Leading v l) = Finished (Err (Panic ''qed'')) s"
  
proof -
  obtain inst t where t: "next_timeout_instant w (ld_stream l) = (Ok inst, (ld_stream l)\<lparr>hs_next_timeout_instant := t\<rparr>)"
    by (rule next_timeout_instant_eq)
  let ?l = "l\<lparr>ld_stream := (ld_stream l)\<lparr>hs_next_timeout_instant := t, hs_internal := rest\<rparr>\<rparr>"
  have v: "verify_message w m a ?l = Err (Panic ''qed'')"
    using assms(2,6,7,9-11) by (simp add: verify_message_def hs_encode_sig_def encode_def)
  have "leader_on_consensus_message w m peer ?l = (Err (Panic ''qed''), ?l)"
  proof -
    have "leader_on_validator_consensus_message w m a ?l = (Err (Panic ''qed''), ?l)"
      using assms(1,7,8) v by (auto simp: leader_on_validator_consensus_message_def left_view_def bind_apply leader_on_prepare_def
          leader_on_pre_commit_def leader_on_commit_def when_ok_def)
    moreover have "get_peer_address peer (ld_stream ?l) = Some a" "is_member a (hs_authorities (ld_stream ?l))"
      using assms(4,5) by (simp_all add: get_peer_address_def)
    ultimately show ?thesis
      by (simp add: leader_on_consensus_message_def bind_apply)
  qed
  then have "leader_turn w EvInternal l = (Err (Panic ''qed''), ?l)"
    using assms(3) t by (simp add: leader_turn_def bind_apply on_stream_def pop_internal_def log_error_def)
  then show ?thesis
    using assms(1) by simp
qed

theorem early_vote_stops_leader_witness:
  "\<exists>(l :: (mem_db, bytes, bytes) leader) m s. ld_prepare_message l = None \<and> cm_message_type m = Prepare \<and> cm_view m = 1 \<and>
     hs_internal (ld_stream l) = [InternalConsensus m (PeerId [2])] \<and>
     hs_step ex_world EvInternal (Leading 1 l) = Finished (Err (Panic ''qed'')) s"
proof -
  obtain cur :: current_state and d :: mem_db where True
    by simp
  let ?node = "Some \<lparr> nd_parent_hash = Hash [0], nd_block_hash = Hash [1] \<rparr>"
  let ?m = "\<lparr> cm_request_id = 0, cm_message_type = Prepare, cm_view = 1, cm_node = ?node, cm_justify = None,
    cm_sig = Some (PublicKey [2], Signature (enc (hl_sig_message ex_hl) (Prepare, 1, ?node, Address [7]))) \<rparr>"
  let ?l = "ex_leading cur d\<lparr>ld_stream := (ld_stream (ex_leading cur d))\<lparr>hs_authorities := \<lparr> ha_members = [(Address [7], 1), (Address [2], 1)] \<rparr>,
    hs_peers := [(PeerId [2], \<lparr> hpi_local_nonce = 0, hpi_remote_nonce = 0, hpi_address = Some (Address [2]) \<rparr>)], hs_internal := [InternalConsensus ?m (PeerId [2])]\<rparr>\<rparr>"
  have "\<exists>s. hs_step ex_world EvInternal (Leading 1 ?l) = Finished (Err (Panic ''qed'')) s"
    by (rule early_vote_stops_leader [where m = ?m and peer = "PeerId [2]" and a = "Address [2]" and rest = "[]" and pk = "PublicKey [2]"
        and sig = "Signature (enc (hl_sig_message ex_hl) (Prepare, 1, ?node, Address [7]))"])
      (simp_all add: left_view_def get_peer_address_def hm_get_def is_member_def ex_keys)
  then obtain s where "hs_step ex_world EvInternal (Leading 1 ?l) = Finished (Err (Panic ''qed'')) s"
    by blast
  then show ?thesis
    by (intro exI [of _ ?l] exI [of _ ?m] exI [of _ s]) simp
qed


end
