(* ===== verification/Ordered_Map.thy ===== *)
theory Ordered_Map
  imports Prelude
begin

text \<open>
  \<open>BTreeMap\<close>: an association list in the strict order of its keys. The order is a condition of the lemmas and kept by all operations;
  the users of a map have it in their invariants.
\<close>

section \<open>Operations\<close>

type_synonym ('k, 'v) bmap = "('k \<times> 'v) list"

fun bm_insert :: "'k::linorder \<Rightarrow> 'v \<Rightarrow> ('k, 'v) bmap \<Rightarrow> ('k, 'v) bmap" where
  "bm_insert k v [] = [(k, v)]"
| "bm_insert k v ((k', v') # m) =
     (if k < k' then (k, v) # (k', v') # m else if k = k' then (k, v) # m else (k', v') # bm_insert k v m)"

definition bm_extend :: "('k::linorder \<times> 'v) list \<Rightarrow> ('k, 'v) bmap \<Rightarrow> ('k, 'v) bmap" where
  "bm_extend items m = fold (\<lambda>(k, v). bm_insert k v) items m"

definition bm_collect :: "('k::linorder \<times> 'v) list \<Rightarrow> ('k, 'v) bmap" where
  "bm_collect items = bm_extend items []"

text \<open>The part of a map whose keys are in a range, and what is left without it.\<close>

definition bm_range :: "('k \<Rightarrow> bool) \<Rightarrow> ('k, 'v) bmap \<Rightarrow> ('k, 'v) bmap" where
  "bm_range R m = filter (\<lambda>(k, _). R k) m"

definition bm_without :: "('k \<Rightarrow> bool) \<Rightarrow> ('k, 'v) bmap \<Rightarrow> ('k, 'v) bmap" where
  "bm_without R m = filter (\<lambda>(k, _). \<not> R k) m"

definition bm_get :: "('k, 'v) bmap \<Rightarrow> 'k \<Rightarrow> 'v option" where
  "bm_get m k = map_of m k"

definition bm_remove :: "'k \<Rightarrow> ('k, 'v) bmap \<Rightarrow> ('k, 'v) bmap" where
  "bm_remove k m = bm_without (\<lambda>k'. k' = k) m"

text \<open>\<open>values_mut\<close>, and the entry with the greatest key (\<open>iter().last()\<close>).\<close>

definition bm_map :: "('v \<Rightarrow> 'v) \<Rightarrow> ('k, 'v) bmap \<Rightarrow> ('k, 'v) bmap" where
  "bm_map f m = map (\<lambda>(k, v). (k, f v)) m"

definition bm_last_key :: "('k, 'v) bmap \<Rightarrow> 'k option" where
  "bm_last_key m = (if m = [] then None else Some (fst (last m)))"

definition bm_wf :: "('k::linorder, 'v) bmap \<Rightarrow> bool" where
  "bm_wf m \<longleftrightarrow> sorted_wrt (<) (map fst m)"

section \<open>Laws\<close>

lemma bm_insert_keys: "fst ` set (bm_insert k v m) = insert k (fst ` set m)"
  by (induction k v m rule: bm_insert.induct) (auto simp: insert_commute)

lemma bm_insert_set: "set (bm_insert k v m) \<subseteq> insert (k, v) (set m)"
  by (induction k v m rule: bm_insert.induct) auto

lemma bm_insert_sorted: "sorted_wrt (<) (map fst m) \<Longrightarrow> sorted_wrt (<) (map fst (bm_insert k v m))"
proof (induction m)
  case (Cons x m)
  obtain a b where x: "x = (a, b)"
    by (cases x)
  have "\<forall>k'\<in>fst ` set (bm_insert k v m). a < k'" if "a < k"
    using Cons.prems that x by (auto simp: bm_insert_keys)
  with Cons x show ?case
    by auto
qed simp

lemma map_of_bm_insert: "sorted_wrt (<) (map fst m) \<Longrightarrow> map_of (bm_insert k v m) = (map_of m)(k \<mapsto> v)"
proof (induction m)
  case (Cons x m)
  obtain a b where x: "x = (a, b)"
    by (cases x)
  show ?case
    using Cons x by (auto simp: fun_eq_iff)
qed simp

lemma bm_extend_simps [simp]: "bm_extend [] m = m" "bm_extend ((k, v) # items) m = bm_extend items (bm_insert k v m)"
  by (simp_all add: bm_extend_def)

lemma map_of_bm_extend: "sorted_wrt (<) (map fst m) \<Longrightarrow> map_of (bm_extend l m) = map_of m ++ map_of (rev l)"
proof (induction l arbitrary: m)
  case (Cons x l)
  obtain k v where x: "x = (k, v)"
    by (cases x)
  show ?case
    using Cons.IH [OF bm_insert_sorted [OF Cons.prems]] Cons.prems x
    by (auto simp: map_of_bm_insert map_add_def fun_eq_iff split: option.splits)
qed simp

lemma map_of_bm_without: "map_of (bm_without R m) = (\<lambda>k. if R k then None else map_of m k)"
  by (induction m) (auto simp: bm_without_def fun_eq_iff)

lemma bm_wf_Nil [simp]: "bm_wf []"
  by (simp add: bm_wf_def)

lemma bm_wf_insert [simp, intro]: "bm_wf m \<Longrightarrow> bm_wf (bm_insert k v m)"
  by (simp add: bm_wf_def bm_insert_sorted)

lemma bm_wf_without [simp, intro]: "bm_wf m \<Longrightarrow> bm_wf (bm_without R m)"
  by (induction m) (auto simp: bm_wf_def bm_without_def)

lemma bm_wf_remove [simp, intro]: "bm_wf m \<Longrightarrow> bm_wf (bm_remove k m)"
  by (simp add: bm_remove_def)

lemma map_fst_bm_map [simp]: "map fst (bm_map f m) = map fst m"
  by (simp add: bm_map_def case_prod_beta comp_def)

lemma length_bm_map [simp]: "length (bm_map f m) = length m"
  by (simp add: bm_map_def)

lemma bm_wf_map [simp]: "bm_wf (bm_map f m) = bm_wf m"
  by (simp add: bm_wf_def)

lemma length_bm_without: "length (bm_without R m) \<le> length m"
  by (simp add: bm_without_def)

lemma length_bm_remove: "length (bm_remove k m) \<le> length m"
  by (simp add: bm_remove_def length_bm_without)

lemma bm_get_insert: "bm_wf m \<Longrightarrow> bm_get (bm_insert k v m) k' = (if k' = k then Some v else bm_get m k')"
  by (simp add: bm_get_def bm_wf_def map_of_bm_insert)

lemma length_bm_insert: "length (bm_insert k v m) \<le> Suc (length m)"
  by (induction k v m rule: bm_insert.induct) auto

lemma length_bm_insert_old: "bm_wf m \<Longrightarrow> k \<in> fst ` set m \<Longrightarrow> length (bm_insert k v m) = length m"
proof (induction m)
  case (Cons x m)
  then show ?case
    by (cases x) (fastforce simp: bm_wf_def)
qed simp

lemma bm_remove_head: "bm_wf ((k, v) # m) \<Longrightarrow> bm_remove k ((k, v) # m) = m"
  by (auto simp: bm_remove_def bm_without_def bm_wf_def filter_id_conv)

lemma bm_insert_head: "bm_wf ((k, v) # m) \<Longrightarrow> bm_insert k v m = (k, v) # m"
  by (cases m) (auto simp: bm_wf_def)

end
