(* ===== verification/Raft.thy ===== *)
theory Raft
  imports Consensus_Base Governance Ordered_Map
begin

text \<open>
  The protocol, the proof and the storage of Raft (\<^verbatim>\<open>core/node/consensus/raft/src\<close>: \<^verbatim>\<open>protocol.rs\<close>, \<^verbatim>\<open>proof.rs\<close>,
  \<^verbatim>\<open>config.rs\<close>, \<^verbatim>\<open>lib.rs\<close>, \<^verbatim>\<open>storage.rs\<close>).

  The log is a \<open>BTreeMap\<close> from indexes to entries, here an association list in the order of its keys.
\<close>

section \<open>Messages\<close>

type_synonym raft_request_id = u64

datatype entry_data = Blank | ProposalEntry hash

record log_entry =
  en_term :: u64
  en_index :: u64
  en_data :: entry_data

record raft_register_validator_req =
  rrvq_request_id :: raft_request_id
  rrvq_public_key :: public_key
  rrvq_signature :: signature

record raft_register_validator_res =
  rrvs_request_id :: raft_request_id
  rrvs_success :: bool

record append_entries_req =
  aeq_request_id :: raft_request_id
  aeq_term :: u64
  aeq_prev_log_index :: u64
  aeq_prev_log_term :: u64
  aeq_commit_log_index :: u64
  aeq_entries :: "log_entry list"

record append_entries_res =
  aes_request_id :: raft_request_id
  aes_success :: bool
  aes_term :: u64
  aes_last_log_index :: u64
  aes_last_log_term :: u64

record request_vote_req =
  vq_request_id :: raft_request_id
  vq_term :: u64
  vq_last_log_index :: u64
  vq_last_log_term :: u64

record request_vote_res =
  vs_request_id :: raft_request_id
  vs_term :: u64
  vs_vote_granted :: bool

record raft_request_proposal_req =
  rrpq_request_id :: raft_request_id

record raft_request_proposal_res =
  rrps_request_id :: raft_request_id
  rrps_extra_election_timeout :: u64
  rrps_proposal :: "raft_proposal option"

datatype raft_message =
    RaftRegisterValidatorReq raft_register_validator_req
  | RaftRegisterValidatorRes raft_register_validator_res
  | AppendEntriesReq append_entries_req
  | AppendEntriesRes append_entries_res
  | RequestVoteReq request_vote_req
  | RequestVoteRes request_vote_res
  | RaftRequestProposalReq raft_request_proposal_req
  | RaftRequestProposalRes raft_request_proposal_res

record raft_proof =
  rap_log_index :: u64
  rap_log_term :: u64
  rap_public_key :: public_key
  rap_signature :: signature

text \<open>The encodings that are used: the message that a proof signs, nonces, what is stored, proofs, messages, and the values of the module.\<close>

record raft_lib =
  rl_proof_message :: "(hash \<times> u64 \<times> u64) codec"
  rl_nonce :: "u64 codec"
  rl_u64 :: "u64 codec"
  rl_voted_for :: "address option codec"
  rl_logs :: "(u64 \<times> log_entry) list codec"
  rl_proposal :: "raft_proposal option codec"
  rl_plain_proposal :: "raft_proposal codec"
  rl_proof :: "raft_proof codec"
  rl_message :: "raft_message codec"
  rl_authorities :: "raft_authorities codec"
  rl_meta :: "raft_meta codec"

section \<open>Configuration\<close>

definition DEFAULT_INIT_EXTRA_ELECTION_TIMEOUT :: u64 where "DEFAULT_INIT_EXTRA_ELECTION_TIMEOUT = 10000"
definition DEFAULT_EXTRA_ELECTION_TIMEOUT_PER_KB :: u64 where "DEFAULT_EXTRA_ELECTION_TIMEOUT_PER_KB = 5"
definition DEFAULT_REQUEST_PROPOSAL_MIN_INTERVAL :: u64 where "DEFAULT_REQUEST_PROPOSAL_MIN_INTERVAL = 1000"

record raft_config =
  rcf_secret_key :: "secret_key option"
  rcf_init_extra_election_timeout :: "u64 option"
  rcf_extra_election_timeout_per_kb :: "u64 option"
  rcf_request_proposal_min_interval :: "u64 option"

section \<open>Calls of the module\<close>

definition get_raft_meta :: "('d, 't) chain_lib \<Rightarrow> raft_lib \<Rightarrow> block_number \<Rightarrow> ('d, 'kp, 'ver) backend \<Rightarrow> raft_meta common_result" where
  "get_raft_meta lib rl = consensus_call lib ''raft'' ''get_meta'' (rl_meta rl)"

definition get_raft_authorities :: "('d, 't) chain_lib \<Rightarrow> raft_lib \<Rightarrow> block_number \<Rightarrow> ('d, 'kp, 'ver) backend
    \<Rightarrow> raft_authorities common_result" where
  "get_raft_authorities lib rl = consensus_call lib ''raft'' ''get_authorities'' (rl_authorities rl)"

section \<open>Proofs\<close>

definition raft_get_public_key :: "secret_key \<Rightarrow> ('kp, 'ver) executor \<Rightarrow> public_key common_result" where
  "raft_get_public_key secret_key xe = and_then (dsa_key_pair_from_secret_key (xe_dsa xe) (secret_key_bytes secret_key)) (\<lambda>key_pair.
     Ok (PublicKey (dsa_public_key (xe_dsa xe) key_pair)))"

definition raft_get_address :: "public_key \<Rightarrow> ('kp, 'ver) executor \<Rightarrow> address" where
  "raft_get_address public_key xe = Address (ai_address (xe_address xe) (public_key_bytes public_key))"

definition raft_proof_new :: "raft_lib \<Rightarrow> hash \<Rightarrow> u64 \<Rightarrow> u64 \<Rightarrow> secret_key \<Rightarrow> ('kp, 'ver) dsa_impl \<Rightarrow> raft_proof common_result" where
  "raft_proof_new rl block_hash log_index log_term secret_key dsa =
     and_then (dsa_key_pair_from_secret_key dsa (secret_key_bytes secret_key)) (\<lambda>key_pair.
     and_then (encode (rl_proof_message rl) (block_hash, log_index, log_term)) (\<lambda>message.
     Ok \<lparr> rap_log_index = log_index, rap_log_term = log_term, rap_public_key = PublicKey (dsa_public_key dsa key_pair),
          rap_signature = Signature (dsa_sign dsa key_pair message) \<rparr>))"

definition raft_proof_into :: "raft_lib \<Rightarrow> raft_proof \<Rightarrow> proof_data common_result" where
  "raft_proof_into rl pf = and_then (encode (rl_proof rl) pf) (\<lambda>data. Ok \<lparr> pf_name = CONSENSUS_RAFT, pf_data = data \<rparr>)"

definition raft_verify_proof :: "('d, 't) chain_lib \<Rightarrow> raft_lib \<Rightarrow> header \<Rightarrow> proof_data \<Rightarrow> ('d, 'kp, 'ver) backend \<Rightarrow> unit common_result" where
  "raft_verify_proof lib rl header pf b =
     (if pf_name pf \<noteq> CONSENSUS_RAFT
      then Err (ConsensusError (VerifyProofError (''Unexpected consensus: '' @ pf_name pf)))
      else and_then (map_err (\<lambda>_. ConsensusError (VerifyProofError ''Decode error'')) (decode (rl_proof rl) (pf_data pf))) (\<lambda>pf.
       let address = Address (ai_address (xe_address (bk_executor b)) (public_key_bytes (rap_public_key pf))) in
       and_then (get_raft_authorities lib rl (hdr_number header - 1) b) (\<lambda>authorities.
       if address \<notin> set (ra_members authorities) then Err (ConsensusError (VerifyProofError ''Not authority'')) else Ok ())))"

section \<open>Storage\<close>

definition DB_KEY_CURRENT_TERM :: bytes where "DB_KEY_CURRENT_TERM = byte_str ''current_term''"
definition DB_KEY_CURRENT_VOTED_FOR :: bytes where "DB_KEY_CURRENT_VOTED_FOR = byte_str ''current_voted_for''"
definition DB_KEY_COMMIT_LOG_INDEX :: bytes where "DB_KEY_COMMIT_LOG_INDEX = byte_str ''commit_log_index''"
definition DB_KEY_LOGS :: bytes where "DB_KEY_LOGS = byte_str ''logs''"
definition DB_KEY_PROPOSAL :: bytes where "DB_KEY_PROPOSAL = byte_str ''proposal''"

record ('d, 'kp, 'ver) raft_storage =
  rst_base_log_index :: u64
  rst_base_log_term :: u64
  rst_current_term :: u64
  rst_current_voted_for :: "address option"
  rst_commit_log_index :: u64
  rst_logs :: "(u64, log_entry) bmap"
  rst_proposal :: "raft_proposal option"
  rst_support :: "('d, 'kp, 'ver) support"

type_synonym ('d, 'kp, 'ver, 'a) rst_comp = "(('d, 'kp, 'ver) raft_storage, 'a, common_error) comp"

definition raft_on_support :: "('d, 'kp, 'ver, 'a) sup_comp \<Rightarrow> ('d, 'kp, 'ver, 'a) rst_comp" where
  "raft_on_support m s = (let (r, x) = m (rst_support s) in (r, s\<lparr>rst_support := x\<rparr>))"

definition raft_read_support :: "(('d, 'kp, 'ver) backend \<Rightarrow> 'a common_result) \<Rightarrow> ('d, 'kp, 'ver, 'a) rst_comp" where
  "raft_read_support f = query (\<lambda>s. f (sup_backend (rst_support s)))"

text \<open>The writes of one transaction.\<close>

definition raft_commit_consensus_data :: "('d, 't) chain_lib \<Rightarrow> (db_transaction \<Rightarrow> db_transaction) \<Rightarrow> ('d, 'kp, 'ver, unit) rst_comp" where
  "raft_commit_consensus_data lib ops = raft_on_support (support_commit_consensus_data lib (ops transaction_new))"

definition raft_read :: "('d, 't) chain_lib \<Rightarrow> 'a codec \<Rightarrow> bytes \<Rightarrow> ('d, 'kp, 'ver, 'a option) rst_comp" where
  "raft_read lib c key = raft_read_support (get_consensus_data lib c key)"

definition raft_get_proof :: "('d, 't) chain_lib \<Rightarrow> raft_lib \<Rightarrow> ('d, 'kp, 'ver) backend \<Rightarrow> raft_proof option common_result" where
  "raft_get_proof lib rl b =
     and_then (get_current_state b) (\<lambda>cur.
     if cur_confirmed_number cur = 0 then Ok None
     else
       and_then (get_proof lib (cur_confirmed_block_hash cur) b) (\<lambda>pf.
       and_then (ok_or_else (ConsensusError (ConsensusData (''Missing proof: block_hash: ''
                   @ show_hash b (cur_confirmed_block_hash cur)))) pf) (\<lambda>pf.
       and_then (map_err (\<lambda>_. ConsensusError (ConsensusData ''Decode proof error'')) (decode (rl_proof rl) (pf_data pf))) (\<lambda>q.
       Ok (Some q)))))"

definition or_default :: "'a \<Rightarrow> 'a option \<Rightarrow> 'a" where
  "or_default d x = (case x of Some y \<Rightarrow> y | None \<Rightarrow> d)"

text \<open>The term and the vote: when the term of the confirmed block is higher, it is taken and the vote is dropped, in one transaction.\<close>

definition refresh_term :: "('d, 't) chain_lib \<Rightarrow> raft_lib \<Rightarrow> u64 \<Rightarrow> ('d, 'kp, 'ver, u64 \<times> address option) rst_comp" where
  "refresh_term lib rl base_log_term =
     bind (raft_read lib (rl_u64 rl) DB_KEY_CURRENT_TERM) (\<lambda>current_term.
     let current_term = or_default 0 current_term in
     bind (raft_read lib (rl_voted_for rl) DB_KEY_CURRENT_VOTED_FOR) (\<lambda>current_voted_for.
     let current_voted_for = or_default None current_voted_for in
     if current_term < base_log_term then
       bind (raft_commit_consensus_data lib (put_consensus_data (rl_voted_for rl) DB_KEY_CURRENT_VOTED_FOR None \<circ>
               put_consensus_data (rl_u64 rl) DB_KEY_CURRENT_TERM base_log_term)) (\<lambda>_.
       ret (base_log_term, None))
     else ret (current_term, current_voted_for)))"

definition refresh_commit :: "('d, 't) chain_lib \<Rightarrow> raft_lib \<Rightarrow> u64 \<Rightarrow> ('d, 'kp, 'ver, u64) rst_comp" where
  "refresh_commit lib rl base_log_index =
     bind (raft_read lib (rl_u64 rl) DB_KEY_COMMIT_LOG_INDEX) (\<lambda>commit_log_index.
     let commit_log_index = or_default 0 commit_log_index in
     if commit_log_index < base_log_index then
       bind (raft_commit_consensus_data lib (put_consensus_data (rl_u64 rl) DB_KEY_COMMIT_LOG_INDEX base_log_index)) (\<lambda>_. ret base_log_index)
     else ret commit_log_index)"

definition refresh_logs :: "('d, 't) chain_lib \<Rightarrow> raft_lib \<Rightarrow> u64 \<Rightarrow> ('d, 'kp, 'ver, (u64, log_entry) bmap) rst_comp" where
  "refresh_logs lib rl base_log_index =
     bind (raft_read lib (rl_logs rl) DB_KEY_LOGS) (\<lambda>logs.
     let logs = bm_collect (or_default [] logs); to_remove = bm_range (\<lambda>k. k \<le> base_log_index) logs;
         logs = bm_without (\<lambda>k. k \<le> base_log_index) logs in
     if to_remove \<noteq> [] then
       bind (raft_commit_consensus_data lib (put_consensus_data (rl_logs rl) DB_KEY_LOGS logs)) (\<lambda>_. ret logs)
     else ret logs)"

definition contained_in_logs :: "raft_proposal option \<Rightarrow> (u64, log_entry) bmap \<Rightarrow> bool" where
  "contained_in_logs p logs \<longleftrightarrow> (\<exists>(_, e)\<in>set logs. case en_data e of ProposalEntry h \<Rightarrow> Some h = map_option rpro_block_hash p | Blank \<Rightarrow> False)"

definition raft_refresh_proposal :: "('d, 't) chain_lib \<Rightarrow> raft_lib \<Rightarrow> (u64, log_entry) bmap \<Rightarrow> ('d, 'kp, 'ver, raft_proposal option) rst_comp" where
  "raft_refresh_proposal lib rl logs =
     bind (raft_read lib (rl_proposal rl) DB_KEY_PROPOSAL) (\<lambda>p.
     let p = or_default None p in
     if \<not> contained_in_logs p logs then
       bind (raft_commit_consensus_data lib (put_consensus_data (rl_proposal rl) DB_KEY_PROPOSAL None)) (\<lambda>_. ret None)
     else ret p)"

definition raft_refresh :: "('d, 't) chain_lib \<Rightarrow> raft_lib \<Rightarrow> ('d, 'kp, 'ver, unit) rst_comp" where
  "raft_refresh lib rl =
     bind (raft_read_support (raft_get_proof lib rl)) (\<lambda>pf.
     let (base_log_index, base_log_term) = (case pf of Some pf \<Rightarrow> (rap_log_index pf, rap_log_term pf) | None \<Rightarrow> (0, 0)) in
     bind (refresh_term lib rl base_log_term) (\<lambda>(current_term, current_voted_for).
     bind (refresh_commit lib rl base_log_index) (\<lambda>commit_log_index.
     bind (refresh_logs lib rl base_log_index) (\<lambda>logs.
     bind (raft_refresh_proposal lib rl logs) (\<lambda>p.
     modify (\<lambda>s. s\<lparr>rst_base_log_index := base_log_index, rst_base_log_term := base_log_term, rst_current_term := current_term,
       rst_current_voted_for := current_voted_for, rst_commit_log_index := commit_log_index, rst_logs := logs, rst_proposal := p\<rparr>))))))"

definition raft_storage_new :: "('d, 't) chain_lib \<Rightarrow> raft_lib \<Rightarrow> ('d, 'kp, 'ver) support \<Rightarrow> ('d, 'kp, 'ver) raft_storage common_result" where
  "raft_storage_new lib rl supp = (case raft_refresh lib rl \<lparr> rst_base_log_index = 0, rst_base_log_term = 0, rst_current_term = 0,
       rst_current_voted_for = None, rst_commit_log_index = 0, rst_logs = [], rst_proposal = None, rst_support = supp \<rparr> of
     (Ok _, s) \<Rightarrow> Ok s
   | (Err e, _) \<Rightarrow> Err e)"

text \<open>The last entry of the log, or the log of the confirmed block.\<close>

definition get_last_log_index_term :: "('d, 'kp, 'ver) raft_storage \<Rightarrow> u64 \<times> u64" where
  "get_last_log_index_term s = (case rev (rst_logs s) of
     (_, e) # _ \<Rightarrow> (en_index e, en_term e)
   | [] \<Rightarrow> (rst_base_log_index s, rst_base_log_term s))"

definition get_log_entries :: "(u64 \<Rightarrow> bool) \<Rightarrow> ('d, 'kp, 'ver) raft_storage \<Rightarrow> log_entry list" where
  "get_log_entries R s = map snd (bm_range R (rst_logs s))"

definition update_current_term :: "('d, 't) chain_lib \<Rightarrow> raft_lib \<Rightarrow> u64 \<Rightarrow> ('d, 'kp, 'ver, unit) rst_comp" where
  "update_current_term lib rl v =
     bind (raft_commit_consensus_data lib (put_consensus_data (rl_u64 rl) DB_KEY_CURRENT_TERM v)) (\<lambda>_. modify (\<lambda>s. s\<lparr>rst_current_term := v\<rparr>))"

definition update_current_voted_for :: "('d, 't) chain_lib \<Rightarrow> raft_lib \<Rightarrow> address option \<Rightarrow> ('d, 'kp, 'ver, unit) rst_comp" where
  "update_current_voted_for lib rl v =
     bind (raft_commit_consensus_data lib (put_consensus_data (rl_voted_for rl) DB_KEY_CURRENT_VOTED_FOR v)) (\<lambda>_.
     modify (\<lambda>s. s\<lparr>rst_current_voted_for := v\<rparr>))"

definition update_commit_log_index :: "('d, 't) chain_lib \<Rightarrow> raft_lib \<Rightarrow> u64 \<Rightarrow> ('d, 'kp, 'ver, unit) rst_comp" where
  "update_commit_log_index lib rl v =
     bind (raft_commit_consensus_data lib (put_consensus_data (rl_u64 rl) DB_KEY_COMMIT_LOG_INDEX v)) (\<lambda>_.
     modify (\<lambda>s. s\<lparr>rst_commit_log_index := v\<rparr>))"

text \<open>The log is changed in memory before it is written.\<close>

definition append_log_entries :: "('d, 't) chain_lib \<Rightarrow> raft_lib \<Rightarrow> log_entry list \<Rightarrow> ('d, 'kp, 'ver, unit) rst_comp" where
  "append_log_entries lib rl entries =
     bind (modify (\<lambda>s. s\<lparr>rst_logs := bm_extend (map (\<lambda>e. (en_index e, e)) entries) (rst_logs s)\<rparr>)) (\<lambda>_.
     bind (ask rst_logs) (\<lambda>logs. raft_commit_consensus_data lib (put_consensus_data (rl_logs rl) DB_KEY_LOGS logs)))"

definition delete_log_entries :: "('d, 't) chain_lib \<Rightarrow> raft_lib \<Rightarrow> (u64 \<Rightarrow> bool) \<Rightarrow> ('d, 'kp, 'ver, unit) rst_comp" where
  "delete_log_entries lib rl R =
     bind (modify (\<lambda>s. s\<lparr>rst_logs := bm_without R (rst_logs s)\<rparr>)) (\<lambda>_.
     bind (ask rst_logs) (\<lambda>logs. raft_commit_consensus_data lib (put_consensus_data (rl_logs rl) DB_KEY_LOGS logs)))"

definition update_proposal :: "('d, 't) chain_lib \<Rightarrow> raft_lib \<Rightarrow> raft_proposal option \<Rightarrow> ('d, 'kp, 'ver, unit) rst_comp" where
  "update_proposal lib rl p =
     bind (raft_commit_consensus_data lib (put_consensus_data (rl_proposal rl) DB_KEY_PROPOSAL p)) (\<lambda>_. modify (\<lambda>s. s\<lparr>rst_proposal := p\<rparr>))"

end
