(* ===== verification/Raft_Stream.thy ===== *)
theory Raft_Stream
  imports Raft
begin

text \<open>
  The stream of a Raft validator (\<^verbatim>\<open>core/node/consensus/raft/src/stream.rs\<close>): its state, the handlers of messages, and what becomes
  of a committed proposal. The roles are in the next theory.

  A world has what a step reads from outside: the libraries, the time of day, the monotonic clock in milliseconds and a source of randomness.
  The out channel is a list with a flag that tells whether its receiver is there; the internal channel always is.
\<close>

section \<open>State\<close>

datatype raft_role = RaftLeader | RaftCandidate | RaftFollower | RaftObserver | RaftShutdown

record raft_peer_info =
  rpi_local_nonce :: u64
  rpi_remote_nonce :: u64
  rpi_address :: "address option"

datatype raft_verify_action =
    RaftVerifyOk raft_proposal chain_commit_block_params
  | RaftVerifyWait
  | RaftVerifyDiscard

datatype raft_internal_message =
    LogUpdated
  | InternalVoteRes address request_vote_res
  | InternalAppendRes address append_entries_res
  | InternalGenerate
  | AuthoritiesUpdated raft_authorities

record raft_consensus_state =
  rcs_consensus_name :: string
  rcs_address :: address
  rcs_meta :: raft_meta
  rcs_authorities :: raft_authorities
  rcs_current_leader :: "address option"

definition SYNC_EXTRA_ELECTION_TIMEOUT :: u64 where "SYNC_EXTRA_ELECTION_TIMEOUT = 1000"

record ('d, 'kp, 'ver) raft =
  rf_meta :: raft_meta
  rf_config :: raft_config
  rf_secret_key :: secret_key
  rf_public_key :: public_key
  rf_address :: address
  rf_out :: "(peer_id \<times> bytes) list"
  rf_out_open :: bool
  rf_peers :: "(peer_id, raft_peer_info) hmap"
  rf_known_validators :: "(address, peer_id) hmap"
  rf_next_request_id :: raft_request_id
  rf_store :: "('d, 'kp, 'ver) raft_storage"
  rf_current_leader :: "address option"
  rf_next_election_instant :: "nat option"
  rf_last_heartbeat_instant :: "nat option"
  rf_role :: raft_role
  rf_authorities :: raft_authorities
  rf_internal :: "raft_internal_message list"
  rf_last_request_proposal_instant :: "nat option"
  rf_pending_proposal :: "raft_proposal option"
  rf_commit_block_params :: "chain_commit_block_params option"
  rf_sync_latency :: block_number
  rf_answers :: "raft_consensus_state list"

record ('d, 't) raft_world =
  rw_lib :: "('d, 't) chain_lib"
  rw_rl :: raft_lib
  rw_now :: "u64 option"
  rw_instant :: nat
  rw_rand :: "nat \<Rightarrow> nat"

type_synonym ('d, 'kp, 'ver, 'a) rf_comp = "(('d, 'kp, 'ver) raft, 'a, common_error) comp"

abbreviation rf_supp :: "('d, 'kp, 'ver) raft \<Rightarrow> ('d, 'kp, 'ver) support" where
  "rf_supp s \<equiv> rst_support (rf_store s)"

abbreviation rf_backend :: "('d, 'kp, 'ver) raft \<Rightarrow> ('d, 'kp, 'ver) backend" where
  "rf_backend s \<equiv> sup_backend (rf_supp s)"

abbreviation rf_executor :: "('d, 'kp, 'ver) raft \<Rightarrow> ('kp, 'ver) executor" where
  "rf_executor s \<equiv> bk_executor (rf_backend s)"

abbreviation rf_term :: "('d, 'kp, 'ver) raft \<Rightarrow> u64" where
  "rf_term s \<equiv> rst_current_term (rf_store s)"

definition raft_on_storage :: "('d, 'kp, 'ver, 'a) rst_comp \<Rightarrow> ('d, 'kp, 'ver, 'a) rf_comp" where
  "raft_on_storage m s = (let (r, x) = m (rf_store s) in (r, s\<lparr>rf_store := x\<rparr>))"

section \<open>Starting\<close>

text \<open>Without a secret key no stream is started.\<close>

definition raft_spawn :: "('d, 't) raft_world \<Rightarrow> raft_meta \<Rightarrow> raft_config \<Rightarrow> ('d, 'kp, 'ver) support
    \<Rightarrow> ('d, 'kp, 'ver) raft option common_result" where
  "raft_spawn w meta config supp = (case rcf_secret_key config of
     None \<Rightarrow> Ok None
   | Some secret_key \<Rightarrow>
       let xe = bk_executor (sup_backend supp) in
       and_then (raft_get_public_key secret_key xe) (\<lambda>public_key.
       and_then (raft_storage_new (rw_lib w) (rw_rl w) supp) (\<lambda>storage.
       let b = sup_backend (rst_support storage) in
       and_then (get_current_state b) (\<lambda>cur.
       and_then (get_raft_authorities (rw_lib w) (rw_rl w) (cur_confirmed_number cur) b) (\<lambda>authorities.
       Ok (Some \<lparr> rf_meta = meta, rf_config = config, rf_secret_key = secret_key, rf_public_key = public_key,
         rf_address = raft_get_address public_key xe, rf_out = [], rf_out_open = True, rf_peers = [], rf_known_validators = [],
         rf_next_request_id = 0, rf_store = storage, rf_current_leader = None, rf_next_election_instant = None,
         rf_last_heartbeat_instant = None, rf_role = RaftObserver, rf_authorities = authorities, rf_internal = [],
         rf_last_request_proposal_instant = None, rf_pending_proposal = None, rf_commit_block_params = None, rf_sync_latency = 0,
         rf_answers = [] \<rparr>))))))"

definition Raft_new :: "('d, 't) raft_world \<Rightarrow> raft_config \<Rightarrow> ('d, 'kp, 'ver) support \<Rightarrow> ('d, 'kp, 'ver) raft option common_result" where
  "Raft_new w config supp = and_then (get_raft_meta (rw_lib w) (rw_rl w) 0 (sup_backend supp)) (\<lambda>meta. raft_spawn w meta config supp)"

text \<open>\<open>gen_range\<close> panics on an empty range.\<close>

definition rand_election_timeout :: "('d, 't) raft_world \<Rightarrow> ('d, 'kp, 'ver) raft \<Rightarrow> u64 common_result" where
  "rand_election_timeout w s =
     (let lo = raftm_election_timeout_min (rf_meta s); hi = raftm_election_timeout_max (rf_meta s) in
     if lo < hi then Ok (lo + of_nat (rw_rand w (unat (hi - lo)) mod unat (hi - lo)))
     else Err (Panic ''cannot sample empty range''))"

definition raft_update_current_leader :: "address option \<Rightarrow> ('d, 'kp, 'ver, unit) rf_comp" where
  "raft_update_current_leader leader = modify (\<lambda>s. s\<lparr>rf_current_leader := leader\<rparr>)"

definition raft_update_state :: "raft_role \<Rightarrow> ('d, 'kp, 'ver, unit) rf_comp" where
  "raft_update_state role = modify (\<lambda>s.
     s\<lparr>rf_role := if role = RaftFollower \<and> rf_address s \<notin> set (ra_members (rf_authorities s)) then RaftObserver else role\<rparr>)"

definition next_election_instant :: "('d, 't) raft_world \<Rightarrow> ('d, 'kp, 'ver, nat) rf_comp" where
  "next_election_instant w = bind (ask rf_next_election_instant) (\<lambda>x. case x of
     Some inst \<Rightarrow> ret inst
   | None \<Rightarrow>
       bind (query (rand_election_timeout w)) (\<lambda>timeout.
       let inst = rw_instant w + unat timeout in
       bind (modify (\<lambda>s. s\<lparr>rf_next_election_instant := Some inst\<rparr>)) (\<lambda>_. ret inst)))"

definition update_next_election_instant :: "('d, 't) raft_world \<Rightarrow> u64 \<Rightarrow> bool \<Rightarrow> ('d, 'kp, 'ver, unit) rf_comp" where
  "update_next_election_instant w extra heartbeat =
     bind (query (rand_election_timeout w)) (\<lambda>timeout.
     bind (modify (\<lambda>s. let sync_extra = (if rf_role s = RaftFollower \<and> rf_sync_latency s > 0 then SYNC_EXTRA_ELECTION_TIMEOUT else 0) in
        s\<lparr>rf_next_election_instant := Some (rw_instant w + unat timeout + unat extra + unat sync_extra)\<rparr>)) (\<lambda>_.
     if heartbeat then modify (\<lambda>s. s\<lparr>rf_last_heartbeat_instant := Some (rw_instant w)\<rparr>) else ret ()))"

definition update_sync_latency :: "('d, 't) raft_world \<Rightarrow> block_number \<Rightarrow> ('d, 'kp, 'ver, unit) rf_comp" where
  "update_sync_latency w latency =
     bind (modify (\<lambda>s. s\<lparr>rf_sync_latency := latency\<rparr>)) (\<lambda>_.
     if latency = 0 then update_next_election_instant w 0 False else ret ())"

definition raft_consensus_state_of :: "('d, 'kp, 'ver) raft \<Rightarrow> raft_consensus_state" where
  "raft_consensus_state_of s = \<lparr> rcs_consensus_name = CONSENSUS_RAFT, rcs_address = rf_address s, rcs_meta = rf_meta s,
     rcs_authorities = rf_authorities s, rcs_current_leader = rf_current_leader s \<rparr>"

text \<open>What \<open>start\<close> does before its loop.\<close>

definition raft_start_work :: "('d, 't) raft_world \<Rightarrow> ('d, 'kp, 'ver, unit) rf_comp" where
  "raft_start_work w =
     bind (raft_update_state RaftFollower) (\<lambda>_.
     bind (ask rf_role) (\<lambda>role.
     if role = RaftFollower then
       bind (ask (\<lambda>s. or_default DEFAULT_INIT_EXTRA_ELECTION_TIMEOUT (rcf_init_extra_election_timeout (rf_config s)))) (\<lambda>extra.
       bind (query (rand_election_timeout w)) (\<lambda>timeout.
       modify (\<lambda>s. s\<lparr>rf_next_election_instant := Some (rw_instant w + unat (timeout + extra))\<rparr>)))
     else ret ()))"

section \<open>Messages out\<close>

definition raft_send_out_message :: "peer_id \<Rightarrow> bytes \<Rightarrow> ('d, 'kp, 'ver, unit) rf_comp" where
  "raft_send_out_message peer_id message =
     bind (ask rf_out_open) (\<lambda>is_open.
     if is_open then modify (\<lambda>s. s\<lparr>rf_out := rf_out s @ [(peer_id, message)]\<rparr>) else fail (ConsensusError ConsensusChannel))"

definition raft_take_request_id :: "('d, 'kp, 'ver, raft_request_id) rf_comp" where
  "raft_take_request_id s = (Ok (rf_next_request_id s),
     s\<lparr>rf_next_request_id := if rf_next_request_id s = - 1 then 0 else rf_next_request_id s + 1\<rparr>)"

definition raft_request :: "('d, 't) raft_world \<Rightarrow> peer_id \<Rightarrow> (raft_request_id \<Rightarrow> raft_message) \<Rightarrow> ('d, 'kp, 'ver, raft_request_id) rf_comp" where
  "raft_request w peer_id req =
     bind raft_take_request_id (\<lambda>request_id.
     bind (raft_send_out_message peer_id (enc (rl_message (rw_rl w)) (req request_id))) (\<lambda>_. ret request_id))"

definition raft_response :: "('d, 't) raft_world \<Rightarrow> peer_id \<Rightarrow> raft_message \<Rightarrow> ('d, 'kp, 'ver, unit) rf_comp" where
  "raft_response w peer_id res = raft_send_out_message peer_id (enc (rl_message (rw_rl w)) res)"

definition raft_get_peer_address :: "peer_id \<Rightarrow> ('d, 'kp, 'ver) raft \<Rightarrow> address option" where
  "raft_get_peer_address peer_id s = (case hm_get (rf_peers s) peer_id of Some peer_info \<Rightarrow> rpi_address peer_info | None \<Rightarrow> None)"

definition raft_sign :: "bytes \<Rightarrow> ('d, 'kp, 'ver) raft \<Rightarrow> signature common_result" where
  "raft_sign message s = and_then (dsa_key_pair_from_secret_key (xe_dsa (rf_executor s)) (secret_key_bytes (rf_secret_key s))) (\<lambda>key_pair.
     Ok (Signature (dsa_sign (xe_dsa (rf_executor s)) key_pair message)))"

definition raft_register_validator :: "('d, 't) raft_world \<Rightarrow> peer_id \<Rightarrow> ('d, 'kp, 'ver, raft_request_id option) rf_comp" where
  "raft_register_validator w peer_id =
     bind (ask (\<lambda>s. hm_get (rf_peers s) peer_id)) (\<lambda>p. case p of
       None \<Rightarrow> ret None
     | Some peer_info \<Rightarrow>
         bind (lift_result (encode (rl_nonce (rw_rl w)) (rpi_remote_nonce peer_info))) (\<lambda>message.
         bind (query (raft_sign message)) (\<lambda>sig.
         bind (ask rf_public_key) (\<lambda>public_key.
         bind (raft_request w peer_id (\<lambda>id. RaftRegisterValidatorReq
                 \<lparr> rrvq_request_id = id, rrvq_public_key = public_key, rrvq_signature = sig \<rparr>)) (\<lambda>request_id.
         ret (Some request_id))))))"

text \<open>A request to a known validator; nothing is sent to an unknown one.\<close>

definition raft_request_validator :: "('d, 't) raft_world \<Rightarrow> address \<Rightarrow> (raft_request_id \<Rightarrow> raft_message)
    \<Rightarrow> ('d, 'kp, 'ver, raft_request_id option) rf_comp" where
  "raft_request_validator w address req =
     bind (ask (\<lambda>s. hm_get (rf_known_validators s) address)) (\<lambda>p. case p of
       None \<Rightarrow> ret None
     | Some peer_id \<Rightarrow> bind (raft_request w peer_id req) (\<lambda>request_id. ret (Some request_id)))"

definition send_append_entries :: "('d, 't) raft_world \<Rightarrow> address \<Rightarrow> append_entries_req \<Rightarrow> ('d, 'kp, 'ver, raft_request_id option) rf_comp" where
  "send_append_entries w address req = raft_request_validator w address (\<lambda>id. AppendEntriesReq (req\<lparr>aeq_request_id := id\<rparr>))"

definition send_request_vote :: "('d, 't) raft_world \<Rightarrow> address \<Rightarrow> request_vote_req \<Rightarrow> ('d, 'kp, 'ver, raft_request_id option) rf_comp" where
  "send_request_vote w address req = raft_request_validator w address (\<lambda>id. RequestVoteReq (req\<lparr>vq_request_id := id\<rparr>))"

definition raft_request_proposal :: "('d, 't) raft_world \<Rightarrow> address \<Rightarrow> raft_request_proposal_req
    \<Rightarrow> ('d, 'kp, 'ver, raft_request_id option) rf_comp" where
  "raft_request_proposal w address req = raft_request_validator w address (\<lambda>id. RaftRequestProposalReq (req\<lparr>rrpq_request_id := id\<rparr>))"

definition raft_internal_send :: "raft_internal_message \<Rightarrow> ('d, 'kp, 'ver, unit) rf_comp" where
  "raft_internal_send m = modify (\<lambda>s. s\<lparr>rf_internal := rf_internal s @ [m]\<rparr>)"

section \<open>Registration\<close>

definition raft_on_req_register_validator :: "('d, 't) raft_world \<Rightarrow> peer_id \<Rightarrow> raft_register_validator_req
    \<Rightarrow> ('d, 'kp, 'ver, raft_register_validator_res) rf_comp" where
  "raft_on_req_register_validator w peer_id req =
     bind (ask (\<lambda>s. hm_get (rf_peers s) peer_id)) (\<lambda>p.
     bind (case p of
         None \<Rightarrow> ret False
       | Some peer_info \<Rightarrow>
           bind (query (\<lambda>s. dsa_verifier_from_public_key (xe_dsa (rf_executor s)) (public_key_bytes (rrvq_public_key req)))) (\<lambda>verifier.
           bind (lift_result (encode (rl_nonce (rw_rl w)) (rpi_local_nonce peer_info))) (\<lambda>message.
           bind (ask (\<lambda>s. is_ok (dsa_verify (xe_dsa (rf_executor s)) verifier message (signature_bytes (rrvq_signature req))))) (\<lambda>success.
           if success then
             bind (ask (\<lambda>s. raft_get_address (rrvq_public_key req) (rf_executor s))) (\<lambda>address.
             bind (modify (\<lambda>s. s\<lparr>rf_peers := hm_insert peer_id (peer_info\<lparr>rpi_address := Some address\<rparr>) (rf_peers s),
                rf_known_validators := hm_insert address peer_id (rf_known_validators s)\<rparr>)) (\<lambda>_. ret True))
           else ret False)))) (\<lambda>success.
     ret \<lparr> rrvs_request_id = rrvq_request_id req, rrvs_success = success \<rparr>))"

definition raft_on_res_register_validator :: "peer_id \<Rightarrow> raft_register_validator_res \<Rightarrow> ('d, 'kp, 'ver, unit) rf_comp" where
  "raft_on_res_register_validator peer_id res = ret ()"

section \<open>Proposals\<close>

text \<open>The errors of \<open>VerifyError\<close>; \<open>VeBad\<close> and \<open>VeInvalidProof\<close> are not among those of Raft.\<close>

fun raft_on_proposal_verify_err :: "verify_error \<Rightarrow> raft_verify_action common_result" where
  "raft_on_proposal_verify_err VeShouldWait = Ok RaftVerifyWait"
| "raft_on_proposal_verify_err _ = Ok RaftVerifyDiscard"

definition raft_on_proposal_verify_result :: "(raft_proposal \<times> chain_commit_block_params) common_result \<Rightarrow> raft_verify_action common_result" where
  "raft_on_proposal_verify_result r = or_else_catch as_raft_error
     (\<lambda>e. case e of RaftVerify e \<Rightarrow> Some (raft_on_proposal_verify_err e))
     (and_then r (\<lambda>(p, commit_block_params). Ok (RaftVerifyOk p commit_block_params)))"

text \<open>A proposal that has to wait has not been taken by the verifier.\<close>

definition raft_on_proposal :: "('d, 't) raft_world \<Rightarrow> raft_proposal \<Rightarrow> ('d, 'kp, 'ver, unit) rf_comp" where
  "raft_on_proposal w p =
     bind (query (\<lambda>s. raft_on_proposal_verify_result (raft_verify_proposal (rw_lib w) p (rf_backend s)))) (\<lambda>action. case action of
       RaftVerifyOk p commit_block_params \<Rightarrow>
         bind (modify (\<lambda>s. s\<lparr>rf_commit_block_params := Some commit_block_params\<rparr>)) (\<lambda>_.
         raft_on_storage (update_proposal (rw_lib w) (rw_rl w) (Some p)))
     | RaftVerifyWait \<Rightarrow> modify (\<lambda>s. s\<lparr>rf_pending_proposal := Some p\<rparr>)
     | RaftVerifyDiscard \<Rightarrow> ret ())"

definition raft_on_req_request_proposal :: "('d, 't) raft_world \<Rightarrow> address \<Rightarrow> raft_request_proposal_req
    \<Rightarrow> ('d, 'kp, 'ver, raft_request_proposal_res) rf_comp" where
  "raft_on_req_request_proposal w address req =
     bind (query (\<lambda>s. ok_or_else (ConsensusError (ConsensusData ''Missing proposal on req request proposal'')) (rst_proposal (rf_store s)))) (\<lambda>p.
     bind (lift_result (encode (rl_plain_proposal (rw_rl w)) p)) (\<lambda>data.
     bind (ask (\<lambda>s. or_default DEFAULT_EXTRA_ELECTION_TIMEOUT_PER_KB (rcf_extra_election_timeout_per_kb (rf_config s)))) (\<lambda>per_kb.
     let extra_election_timeout = per_kb * of_nat (length data) div 1024 in
     bind (ask (\<lambda>s. hm_get (rf_known_validators s) address)) (\<lambda>known.
     bind (case known of
         Some peer_id \<Rightarrow> raft_response w peer_id (RaftRequestProposalRes
           \<lparr> rrps_request_id = 0, rrps_extra_election_timeout = extra_election_timeout, rrps_proposal = None \<rparr>)
       | None \<Rightarrow> ret ()) (\<lambda>_.
     ret \<lparr> rrps_request_id = rrpq_request_id req, rrps_extra_election_timeout = 0, rrps_proposal = Some p \<rparr>)))))"

text \<open>The election is postponed also when the proposal is not accepted.\<close>

definition raft_on_res_request_proposal :: "('d, 't) raft_world \<Rightarrow> address \<Rightarrow> raft_request_proposal_res \<Rightarrow> ('d, 'kp, 'ver, unit) rf_comp" where
  "raft_on_res_request_proposal w address res =
     bind (update_next_election_instant w (rrps_extra_election_timeout res) False) (\<lambda>_. case rrps_proposal res of
       None \<Rightarrow> ret ()
     | Some p \<Rightarrow> (\<lambda>s. case raft_on_proposal w p s of
         (Err (Panic m), s) \<Rightarrow> (Err (Panic m), s)
       | (r, s) \<Rightarrow> bind (update_next_election_instant w 0 False) (\<lambda>_. lift_result r) s))"

section \<open>Appending entries\<close>

definition proposal_hash :: "log_entry \<Rightarrow> hash option" where
  "proposal_hash e = (case en_data e of ProposalEntry h \<Rightarrow> Some h | Blank \<Rightarrow> None)"

fun find_map :: "('a \<Rightarrow> 'b option) \<Rightarrow> 'a list \<Rightarrow> 'b option" where
  "find_map f [] = None"
| "find_map f (x # xs) = (case f x of Some y \<Rightarrow> Some y | None \<Rightarrow> find_map f xs)"

text \<open>What was pending or stored for another proposal is dropped; a pending proposal is verified again.\<close>

definition accord_proposals :: "('d, 't) raft_world \<Rightarrow> hash \<Rightarrow> ('d, 'kp, 'ver, unit) rf_comp" where
  "accord_proposals w remote_hash =
     bind (ask (\<lambda>s. map_option (\<lambda>p. rpro_block_hash p = remote_hash) (rst_proposal (rf_store s)))) (\<lambda>proposal_accordant.
     bind (if proposal_accordant \<noteq> Some True then raft_on_storage (update_proposal (rw_lib w) (rw_rl w) None) else ret ()) (\<lambda>_.
     bind (modify (\<lambda>s. s\<lparr>rf_pending_proposal :=
        (if map_option (\<lambda>p. rpro_block_hash p = remote_hash) (rf_pending_proposal s) \<noteq> Some True then None else rf_pending_proposal s)\<rparr>)) (\<lambda>_.
     bind (ask rf_pending_proposal) (\<lambda>pending. case pending of
       None \<Rightarrow> ret ()
     | Some p \<Rightarrow> bind (modify (\<lambda>s. s\<lparr>rf_pending_proposal := None\<rparr>)) (\<lambda>_. raft_on_proposal w p)))))"

definition should_request_proposal :: "('d, 't) raft_world \<Rightarrow> ('d, 'kp, 'ver) raft \<Rightarrow> bool" where
  "should_request_proposal w s \<longleftrightarrow>
     (case rf_last_request_proposal_instant s of
        Some inst \<Rightarrow> \<not> or_default DEFAULT_REQUEST_PROPOSAL_MIN_INTERVAL (rcf_request_proposal_min_interval (rf_config s)) \<ge> of_nat (rw_instant w - inst)
      | None \<Rightarrow> True) \<and> rf_pending_proposal s = None"

definition append_res :: "append_entries_req \<Rightarrow> bool \<Rightarrow> u64 \<Rightarrow> u64 \<times> u64 \<Rightarrow> append_entries_res" where
  "append_res req success term last_log = \<lparr> aes_request_id = aeq_request_id req, aes_success = success, aes_term = term,
     aes_last_log_index = fst last_log, aes_last_log_term = snd last_log \<rparr>"

definition perform_append_entries :: "('d, 't) raft_world \<Rightarrow> address \<Rightarrow> append_entries_req \<Rightarrow> ('d, 'kp, 'ver, append_entries_res) rf_comp" where
  "perform_append_entries w address req = (
     let append = bind (raft_on_storage (append_log_entries (rw_lib w) (rw_rl w) (aeq_entries req))) (\<lambda>_.
       ask (\<lambda>s. append_res req True (rf_term s) (get_last_log_index_term (rf_store s)))) in
     case find_map proposal_hash (aeq_entries req) of
       None \<Rightarrow> append
     | Some remote_hash \<Rightarrow>
         bind (accord_proposals w remote_hash) (\<lambda>_.
         bind (ask (\<lambda>s. rst_proposal (rf_store s))) (\<lambda>local. case local of
           Some _ \<Rightarrow> append
         | None \<Rightarrow>
             bind (ask (should_request_proposal w)) (\<lambda>now.
             bind (if now then bind (raft_request_proposal w address \<lparr> rrpq_request_id = 0 \<rparr>) (\<lambda>_.
                 modify (\<lambda>s. s\<lparr>rf_last_request_proposal_instant := Some (rw_instant w)\<rparr>)) else ret ()) (\<lambda>_.
             ask (\<lambda>s. append_res req False (rf_term s) (get_last_log_index_term (rf_store s))))))))"

text \<open>A request of a new term: it is taken, without a vote.\<close>

definition adopt_term :: "('d, 't) raft_world \<Rightarrow> u64 \<Rightarrow> ('d, 'kp, 'ver, unit) rf_comp" where
  "adopt_term w t =
     bind (raft_on_storage (update_current_term (rw_lib w) (rw_rl w) t)) (\<lambda>_.
     raft_on_storage (update_current_voted_for (rw_lib w) (rw_rl w) None))"

text \<open>The entries are taken when the log has the entry before them; what it has after that entry goes.\<close>

definition match_entries :: "('d, 't) raft_world \<Rightarrow> address \<Rightarrow> append_entries_req \<Rightarrow> u64 \<Rightarrow> u64 \<times> u64 \<Rightarrow> ('d, 'kp, 'ver, append_entries_res) rf_comp" where
  "match_entries w address req current_term last_log = (case aeq_entries req of
     [] \<Rightarrow> ret (append_res req True current_term last_log)
   | e # _ \<Rightarrow>
       if en_index e \<noteq> aeq_prev_log_index req + 1 then ret (append_res req False current_term last_log)
       else
         bind (ask (\<lambda>s. get_last_log_index_term (rf_store s))) (\<lambda>last_log.
         if (aeq_prev_log_index req, aeq_prev_log_term req) = last_log then perform_append_entries w address req
         else
           bind (ask (\<lambda>s. (rst_base_log_index (rf_store s), rst_base_log_term (rf_store s)))) (\<lambda>base_log.
           bind (ask (\<lambda>s. list_ex (\<lambda>x. en_term x = aeq_prev_log_term req) (get_log_entries (\<lambda>k. k = aeq_prev_log_index req) (rf_store s))
               \<or> (aeq_prev_log_index req, aeq_prev_log_term req) = base_log)) (\<lambda>prev_log_exists.
           if \<not> prev_log_exists then ret (append_res req False current_term base_log)
           else bind (raft_on_storage (delete_log_entries (rw_lib w) (rw_rl w) (\<lambda>k. k \<ge> aeq_prev_log_index req + 1))) (\<lambda>_.
             perform_append_entries w address req)))))"

text \<open>The commit index is taken before the entries are compared. The answers carry the term from before the request.\<close>

definition on_req_append_entries :: "('d, 't) raft_world \<Rightarrow> address \<Rightarrow> append_entries_req \<Rightarrow> ('d, 'kp, 'ver, append_entries_res) rf_comp" where
  "on_req_append_entries w address req =
     bind (ask (\<lambda>s. (get_last_log_index_term (rf_store s), rf_term s))) (\<lambda>(last_log, current_term).
     if aeq_term req < current_term then ret (append_res req False current_term last_log)
     else
       bind (update_next_election_instant w 0 True) (\<lambda>_.
       bind (raft_on_storage (update_commit_log_index (rw_lib w) (rw_rl w) (aeq_commit_log_index req))) (\<lambda>_.
       bind (if aeq_term req \<noteq> current_term then adopt_term w (aeq_term req) else ret ()) (\<lambda>_.
       bind (raft_update_current_leader (Some address)) (\<lambda>_.
       bind (raft_update_state RaftFollower) (\<lambda>_.
       match_entries w address req current_term last_log))))))"

definition on_res_append_entries :: "address \<Rightarrow> append_entries_res \<Rightarrow> ('d, 'kp, 'ver, unit) rf_comp" where
  "on_res_append_entries address res = raft_internal_send (InternalAppendRes address res)"

section \<open>Votes\<close>

definition vote_res :: "request_vote_req \<Rightarrow> u64 \<Rightarrow> bool \<Rightarrow> request_vote_res" where
  "vote_res req term granted = \<lparr> vs_request_id = vq_request_id req, vs_term = term, vs_vote_granted = granted \<rparr>"

text \<open>A leader that was heard from lately keeps its followers.\<close>

definition heard_lately :: "('d, 't) raft_world \<Rightarrow> ('d, 'kp, 'ver) raft \<Rightarrow> bool" where
  "heard_lately w s \<longleftrightarrow> (case rf_last_heartbeat_instant s of
     Some inst \<Rightarrow> raftm_election_timeout_min (rf_meta s) \<ge> of_nat (rw_instant w - inst)
   | None \<Rightarrow> False)"

text \<open>The vote goes to the first candidate of the term whose log is not behind.\<close>

definition decide_vote :: "('d, 't) raft_world \<Rightarrow> address \<Rightarrow> request_vote_req \<Rightarrow> u64 \<Rightarrow> ('d, 'kp, 'ver, request_vote_res) rf_comp" where
  "decide_vote w address req current_term =
     bind (ask (\<lambda>s. get_last_log_index_term (rf_store s))) (\<lambda>(last_log_index, last_log_term).
     if \<not> (vq_last_log_index req \<ge> last_log_index \<and> vq_last_log_term req \<ge> last_log_term) then ret (vote_res req current_term False)
     else bind (ask (\<lambda>s. rst_current_voted_for (rf_store s))) (\<lambda>voted_for. case voted_for of
         Some voted_address \<Rightarrow> ret (vote_res req current_term (voted_address = address))
       | None \<Rightarrow>
           bind (raft_update_state RaftFollower) (\<lambda>_.
           bind (update_next_election_instant w 0 False) (\<lambda>_.
           bind (raft_on_storage (update_current_voted_for (rw_lib w) (rw_rl w) (Some address))) (\<lambda>_.
           ret (vote_res req current_term True))))))"

definition on_req_request_vote :: "('d, 't) raft_world \<Rightarrow> address \<Rightarrow> request_vote_req \<Rightarrow> ('d, 'kp, 'ver, request_vote_res) rf_comp" where
  "on_req_request_vote w address req =
     bind (ask (\<lambda>s. (rf_term s, heard_lately w s))) (\<lambda>(current_term, lately).
     if vq_term req < current_term then ret (vote_res req current_term False)
     else if lately then ret (vote_res req current_term False)
     else
       bind (if vq_term req > current_term then
           bind (update_next_election_instant w 0 False) (\<lambda>_.
           bind (raft_update_state RaftFollower) (\<lambda>_.
           adopt_term w (vq_term req)))
         else ret ()) (\<lambda>_.
       decide_vote w address req current_term))"

definition stream_on_res_request_vote :: "address \<Rightarrow> request_vote_res \<Rightarrow> ('d, 'kp, 'ver, unit) rf_comp" where
  "stream_on_res_request_vote address res = raft_internal_send (InternalVoteRes address res)"

section \<open>Messages in\<close>

definition raft_on_network_protocol_open :: "('d, 't) raft_world \<Rightarrow> peer_id \<Rightarrow> u64 \<Rightarrow> u64 \<Rightarrow> ('d, 'kp, 'ver, unit) rf_comp" where
  "raft_on_network_protocol_open w peer_id local_nonce remote_nonce =
     bind (modify (\<lambda>s. s\<lparr>rf_peers := hm_insert peer_id
        \<lparr> rpi_local_nonce = local_nonce, rpi_remote_nonce = remote_nonce, rpi_address = None \<rparr> (rf_peers s)\<rparr>)) (\<lambda>_.
     bind (raft_register_validator w peer_id) (\<lambda>_. ret ()))"

definition raft_on_network_protocol_close :: "peer_id \<Rightarrow> ('d, 'kp, 'ver, unit) rf_comp" where
  "raft_on_network_protocol_close peer_id = modify (\<lambda>s. s\<lparr>
     rf_known_validators := (case raft_get_peer_address peer_id s of
        Some address \<Rightarrow> hm_remove address (rf_known_validators s) | None \<Rightarrow> rf_known_validators s),
     rf_peers := hm_remove peer_id (rf_peers s)\<rparr>)"

text \<open>A message of a peer that has registered with some address; that the address is a member is not asked.\<close>

definition raft_for_known_peer :: "peer_id \<Rightarrow> (address \<Rightarrow> ('d, 'kp, 'ver, unit) rf_comp) \<Rightarrow> ('d, 'kp, 'ver, unit) rf_comp" where
  "raft_for_known_peer peer_id k = bind (ask (raft_get_peer_address peer_id)) (\<lambda>a. case a of Some address \<Rightarrow> k address | None \<Rightarrow> ret ())"

definition raft_on_network_message :: "('d, 't) raft_world \<Rightarrow> peer_id \<Rightarrow> bytes \<Rightarrow> ('d, 'kp, 'ver, unit) rf_comp" where
  "raft_on_network_message w peer_id message =
     bind (lift_result (decode (rl_message (rw_rl w)) message)) (\<lambda>m. case m of
       RaftRegisterValidatorReq req \<Rightarrow>
         bind (raft_on_req_register_validator w peer_id req) (\<lambda>res. raft_response w peer_id (RaftRegisterValidatorRes res))
     | RaftRegisterValidatorRes res \<Rightarrow> raft_on_res_register_validator peer_id res
     | AppendEntriesReq req \<Rightarrow> raft_for_known_peer peer_id (\<lambda>address.
         bind (on_req_append_entries w address req) (\<lambda>res.
         bind (raft_internal_send LogUpdated) (\<lambda>_. raft_response w peer_id (AppendEntriesRes res))))
     | AppendEntriesRes res \<Rightarrow> raft_for_known_peer peer_id (\<lambda>address. on_res_append_entries address res)
     | RequestVoteReq req \<Rightarrow> raft_for_known_peer peer_id (\<lambda>address.
         bind (on_req_request_vote w address req) (\<lambda>res. raft_response w peer_id (RequestVoteRes res)))
     | RequestVoteRes res \<Rightarrow> raft_for_known_peer peer_id (\<lambda>address. stream_on_res_request_vote address res)
     | RaftRequestProposalReq req \<Rightarrow> raft_for_known_peer peer_id (\<lambda>address.
         bind (raft_on_req_request_proposal w address req) (\<lambda>res. raft_response w peer_id (RaftRequestProposalRes res)))
     | RaftRequestProposalRes res \<Rightarrow> raft_for_known_peer peer_id (\<lambda>address. raft_on_res_request_proposal w address res))"

section \<open>Committed proposals\<close>

definition convert_txs :: "('d, 't) raft_world \<Rightarrow> ('d, 'kp, 'ver) raft \<Rightarrow> transaction list \<Rightarrow> full_transaction list common_result" where
  "convert_txs w s txs = collect_results (map (\<lambda>tx. and_then (hash_transaction (rf_executor s) (cc_exec (cl_codecs (rw_lib w))) tx) (\<lambda>tx_hash.
     Ok \<lparr> ftx_tx = tx, ftx_hash = tx_hash \<rparr>)) txs)"

text \<open>The parameters of the block are those kept from building or verifying the proposal, or are built again.\<close>

definition take_commit_block_params :: "('d, 't) raft_world \<Rightarrow> hash \<Rightarrow> raft_proposal \<Rightarrow> ('d, 'kp, 'ver, chain_commit_block_params) rf_comp" where
  "take_commit_block_params w committed_hash p =
     bind (modify (\<lambda>s. s\<lparr>rf_commit_block_params :=
        (if map_option (\<lambda>x. cb_block_hash x = committed_hash) (rf_commit_block_params s) \<noteq> Some True then None else rf_commit_block_params s)\<rparr>)) (\<lambda>_.
     bind (ask rf_commit_block_params) (\<lambda>kept.
     bind (modify (\<lambda>s. s\<lparr>rf_commit_block_params := None\<rparr>)) (\<lambda>_. case kept of
       Some v \<Rightarrow> ret v
     | None \<Rightarrow> query (\<lambda>s.
         and_then (convert_txs w s (rpro_meta_txs p)) (\<lambda>meta_txs.
         and_then (convert_txs w s (rpro_payload_txs p)) (\<lambda>payload_txs.
         build_block (rw_lib w) \<lparr> bb_number = rpro_number p, bb_timestamp = rpro_timestamp p, bb_meta_txs = meta_txs,
           bb_payload_txs = payload_txs, bb_execution_number = rpro_execution_number p \<rparr> (rf_backend s)))))))"

definition on_log_updated :: "('d, 't) raft_world \<Rightarrow> ('d, 'kp, 'ver, unit) rf_comp" where
  "on_log_updated w =
     bind (ask (\<lambda>s. find_map proposal_hash (get_log_entries (\<lambda>k. k \<le> rst_commit_log_index (rf_store s)) (rf_store s)))) (\<lambda>committed. case committed of
       None \<Rightarrow> ret ()
     | Some committed_hash \<Rightarrow>
         bind (query (\<lambda>s. ok_or_else (ConsensusError (ConsensusData ''Missing proposal'')) (rst_proposal (rf_store s)))) (\<lambda>p.
         bind (take_commit_block_params w committed_hash p) (\<lambda>commit_block_params.
         bind (ask (\<lambda>s. get_last_log_index_term (rf_store s))) (\<lambda>(log_index, log_term).
         bind (query (\<lambda>s. raft_proof_new (rw_rl w) (cb_block_hash commit_block_params) log_index log_term (rf_secret_key s)
                 (xe_dsa (rf_executor s)))) (\<lambda>pf.
         bind (lift_result (raft_proof_into (rw_rl w) pf)) (\<lambda>pf.
         let commit_block_params = commit_block_params\<lparr>cb_proof := pf\<rparr>;
             tx_hash_set = remdups (body_meta_txs (cb_body commit_block_params) @ body_payload_txs (cb_body commit_block_params)) in
         bind (raft_on_storage (raft_on_support (support_commit_block (rw_lib w) (rw_now w) commit_block_params))) (\<lambda>_.
         raft_on_storage (raft_on_support (txpool_remove_transactions tx_hash_set)))))))))"

definition raft_on_block_committed :: "('d, 't) raft_world \<Rightarrow> block_number \<Rightarrow> hash \<Rightarrow> ('d, 'kp, 'ver, unit) rf_comp" where
  "raft_on_block_committed w number block_hash =
     bind (raft_on_storage (raft_refresh (rw_lib w) (rw_rl w))) (\<lambda>_.
     bind (query (\<lambda>s. get_current_state (rf_backend s))) (\<lambda>cur.
     bind (query (\<lambda>s. get_raft_authorities (rw_lib w) (rw_rl w) (cur_confirmed_number cur) (rf_backend s))) (\<lambda>authorities.
     bind (ask rf_authorities) (\<lambda>old.
     if old \<noteq> authorities then
       bind (modify (\<lambda>s. s\<lparr>rf_authorities := authorities\<rparr>)) (\<lambda>_. raft_internal_send (AuthoritiesUpdated authorities))
     else ret ()))))"

definition raft_on_in_message :: "('d, 't) raft_world \<Rightarrow> consensus_in_message \<Rightarrow> ('d, 'kp, 'ver, unit) rf_comp" where
  "raft_on_in_message w m = (case m of
     NetworkProtocolOpen peer_id local_nonce remote_nonce \<Rightarrow> raft_on_network_protocol_open w peer_id local_nonce remote_nonce
   | NetworkProtocolClose peer_id \<Rightarrow> raft_on_network_protocol_close peer_id
   | NetworkMessage peer_id message \<Rightarrow> raft_on_network_message w peer_id message
   | BlockCommitted number block_hash \<Rightarrow> raft_on_block_committed w number block_hash
   | Generate \<Rightarrow> raft_internal_send InternalGenerate
   | GetConsensusState \<Rightarrow> modify (\<lambda>s. s\<lparr>rf_answers := rf_answers s @ [raft_consensus_state_of s]\<rparr>)
   | SyncLatencyUpdated latency \<Rightarrow> update_sync_latency w latency)"

definition raft_on_internal_message :: "('d, 't) raft_world \<Rightarrow> raft_internal_message \<Rightarrow> ('d, 'kp, 'ver, unit) rf_comp" where
  "raft_on_internal_message w m = (case m of LogUpdated \<Rightarrow> on_log_updated w | _ \<Rightarrow> ret ())"

end
