(* ===== verification/Raft_State.thy ===== *)
theory Raft_State
  imports Raft_Stream
begin

text \<open>
  The roles of a Raft validator (\<^verbatim>\<open>core/node/consensus/raft/src/stream/state.rs\<close>): the leader with its replication tasks, the
  candidate, the follower and the observer.

  The loops of the roles and of the stream are the machine \<open>raft_step\<close>: one step is one turn of the innermost loop, or one turn of a
  replication task, with the event that \<open>select!\<close> picks as an argument. A replication task reads the storage of the stream, which it
  shares. It is known by a number, since a task whose target was removed and added again may run beside the new one.
\<close>

section \<open>Replication\<close>

datatype replication_in_message =
    AppendEntriesReqResult "raft_request_id option"
  | ReplicationAppendRes append_entries_res

datatype replication_out_message =
    ReplicationAppendReq address append_entries_req
  | UpdateMatchIndex address u64
  | UpdateState raft_role

text \<open>What the leader holds of a replication: the task behind its channel and the index the target is known to match.\<close>

record replication =
  rep_task :: nat
  rep_match_index :: u64

record replication_stream =
  rs_in :: "replication_in_message list"
  rs_target :: address
  rs_match_index :: u64
  rs_match_term :: u64
  rs_requests :: "(raft_request_id, unit) hmap"

section \<open>The leader\<close>

record ('d, 'kp, 'ver) raft_leader =
  rld_stream :: "('d, 'kp, 'ver) raft"
  rld_replications :: "(address, replication) hmap"
  rld_tasks :: "(nat, replication_stream) hmap"
  rld_next_task :: nat
  rld_out :: "replication_out_message list"

type_synonym ('d, 'kp, 'ver, 'a) rld_comp = "(('d, 'kp, 'ver) raft_leader, 'a, common_error) comp"

abbreviation rld_store :: "('d, 'kp, 'ver) raft_leader \<Rightarrow> ('d, 'kp, 'ver) raft_storage" where
  "rld_store l \<equiv> rf_store (rld_stream l)"

definition raft_on_stream :: "('d, 'kp, 'ver, 'a) rf_comp \<Rightarrow> ('d, 'kp, 'ver, 'a) rld_comp" where
  "raft_on_stream m l = (let (r, s) = m (rld_stream l) in (r, l\<lparr>rld_stream := s\<rparr>))"

definition raft_leader_new :: "('d, 'kp, 'ver) raft \<Rightarrow> ('d, 'kp, 'ver) raft_leader" where
  "raft_leader_new s = \<lparr> rld_stream = s, rld_replications = [], rld_tasks = [], rld_next_task = 0, rld_out = [] \<rparr>"

definition replication_stream_new :: "address \<Rightarrow> u64 \<Rightarrow> u64 \<Rightarrow> replication_stream" where
  "replication_stream_new target match_index match_term = \<lparr> rs_in = [], rs_target = target, rs_match_index = match_index,
     rs_match_term = match_term, rs_requests = [] \<rparr>"

text \<open>\<open>Replication::new\<close> spawns the task; the leader stores the replication for the target.\<close>

definition add_replication :: "address \<Rightarrow> u64 \<Rightarrow> u64 \<Rightarrow> ('d, 'kp, 'ver, unit) rld_comp" where
  "add_replication target match_index match_term = modify (\<lambda>l. l\<lparr>
     rld_tasks := hm_insert (rld_next_task l) (replication_stream_new target match_index match_term) (rld_tasks l),
     rld_replications := hm_insert target \<lparr> rep_task = rld_next_task l, rep_match_index = match_index \<rparr> (rld_replications l),
     rld_next_task := rld_next_task l + 1\<rparr>)"

text \<open>The element in the middle of the indexes in descending order: a majority is not below it.\<close>

definition get_new_commit_log_index :: "u64 list \<Rightarrow> u64 \<Rightarrow> u64" where
  "get_new_commit_log_index match_indices old_commit_log_index =
     max (rev (sort match_indices) ! (length match_indices div 2)) old_commit_log_index"

definition on_maybe_commit :: "('d, 't) raft_world \<Rightarrow> ('d, 'kp, 'ver, unit) rld_comp" where
  "on_maybe_commit w =
     bind (ask (\<lambda>l. map (rep_match_index \<circ> snd) (rld_replications l) @ [fst (get_last_log_index_term (rld_store l))])) (\<lambda>match_indices.
     bind (ask (\<lambda>l. rst_commit_log_index (rld_store l))) (\<lambda>old_commit_log_index.
     let new_commit_log_index = get_new_commit_log_index match_indices old_commit_log_index in
     if new_commit_log_index \<noteq> old_commit_log_index then
       bind (raft_on_stream (raft_on_storage (update_commit_log_index (rw_lib w) (rw_rl w) new_commit_log_index))) (\<lambda>_.
       raft_on_stream (raft_internal_send LogUpdated))
     else ret ()))"

definition on_update_match_index :: "('d, 't) raft_world \<Rightarrow> address \<Rightarrow> u64 \<Rightarrow> ('d, 'kp, 'ver, unit) rld_comp" where
  "on_update_match_index w address match_index =
     bind (modify (\<lambda>l. case hm_get (rld_replications l) address of
         Some r \<Rightarrow> l\<lparr>rld_replications := hm_insert address (r\<lparr>rep_match_index := match_index\<rparr>) (rld_replications l)\<rparr>
       | None \<Rightarrow> l)) (\<lambda>_.
     on_maybe_commit w)"

text \<open>A leader without replications commits at once.\<close>

definition leader_append_entries :: "('d, 't) raft_world \<Rightarrow> log_entry list \<Rightarrow> ('d, 'kp, 'ver, unit) rld_comp" where
  "leader_append_entries w entries =
     bind (raft_on_stream (raft_on_storage (append_log_entries (rw_lib w) (rw_rl w) entries))) (\<lambda>_.
     bind (ask rld_replications) (\<lambda>replications.
     if replications = [] then
       bind (ask (\<lambda>l. (rf_address (rld_stream l), fst (get_last_log_index_term (rld_store l))))) (\<lambda>(own, last_log_index).
       on_update_match_index w own last_log_index)
     else ret ()))"

definition next_entry :: "entry_data \<Rightarrow> ('d, 'kp, 'ver) raft_storage \<Rightarrow> log_entry" where
  "next_entry data s = \<lparr> en_term = rst_current_term s, en_index = fst (get_last_log_index_term s) + 1, en_data = data \<rparr>"

definition append_init_entry :: "('d, 't) raft_world \<Rightarrow> ('d, 'kp, 'ver, unit) rld_comp" where
  "append_init_entry w = bind (ask (\<lambda>l. next_entry Blank (rld_store l))) (\<lambda>e. leader_append_entries w [e])"

text \<open>One proposal at a time: as long as the log has one, nothing is proposed.\<close>

definition raft_work :: "('d, 't) raft_world \<Rightarrow> u64 \<Rightarrow> ('d, 'kp, 'ver, unit) rld_comp" where
  "raft_work w schedule_info =
     bind (ask (\<lambda>l. list_ex (\<lambda>x. proposal_hash x \<noteq> None) (get_log_entries (\<lambda>_. True) (rld_store l)))) (\<lambda>contains_proposal.
     if contains_proposal then ret ()
     else
       bind (raft_on_stream (raft_on_storage (raft_on_support (prepare_block (rw_lib w) schedule_info)))) (\<lambda>bb.
       bind (query (\<lambda>l. build_block (rw_lib w) bb (rf_backend (rld_stream l)))) (\<lambda>commit_block_params.
       let block_hash = cb_block_hash commit_block_params;
           p = \<lparr> rpro_block_hash = block_hash, rpro_number = bb_number bb, rpro_timestamp = bb_timestamp bb,
             rpro_meta_txs = map ftx_tx (bb_meta_txs bb), rpro_payload_txs = map ftx_tx (bb_payload_txs bb),
             rpro_execution_number = bb_execution_number bb \<rparr> in
       bind (raft_on_stream (modify (\<lambda>s. s\<lparr>rf_commit_block_params := Some commit_block_params\<rparr>))) (\<lambda>_.
       bind (raft_on_stream (raft_on_storage (update_proposal (rw_lib w) (rw_rl w) (Some p)))) (\<lambda>_.
       bind (ask (\<lambda>l. next_entry (ProposalEntry block_hash) (rld_store l))) (\<lambda>e.
       leader_append_entries w [e]))))))"

definition raft_generate :: "('d, 't) raft_world \<Rightarrow> ('d, 'kp, 'ver, unit) rld_comp" where
  "raft_generate w = bind (ok_or (ConsensusError ConsensusTime) (rw_now w)) (raft_work w)"

definition leader_on_authorities_updated :: "raft_authorities \<Rightarrow> ('d, 'kp, 'ver, unit) rld_comp" where
  "leader_on_authorities_updated authorities =
     bind (ask (\<lambda>l. rf_address (rld_stream l))) (\<lambda>own.
     if own \<notin> set (ra_members authorities) then raft_on_stream (raft_update_state RaftObserver)
     else
       bind (modify (\<lambda>l. l\<lparr>rld_replications := filter (\<lambda>(k, _). k \<in> set (ra_members authorities)) (rld_replications l)\<rparr>)) (\<lambda>_.
       bind (ask (\<lambda>l. (rst_base_log_index (rld_store l), rst_base_log_term (rld_store l)))) (\<lambda>(base_log_index, base_log_term).
       for_each (\<lambda>target. bind (ask (\<lambda>l. target \<noteq> own \<and> \<not> hm_contains (rld_replications l) target)) (\<lambda>missing.
         if missing then add_replication target base_log_index base_log_term else ret ())) (ra_members authorities))))"

definition task_send :: "nat \<Rightarrow> replication_in_message \<Rightarrow> ('d, 'kp, 'ver, unit) rld_comp" where
  "task_send i m = modify (\<lambda>l. case hm_get (rld_tasks l) i of
     Some t \<Rightarrow> l\<lparr>rld_tasks := hm_insert i (t\<lparr>rs_in := rs_in t @ [m]\<rparr>) (rld_tasks l)\<rparr>
   | None \<Rightarrow> l)"

definition on_replication_out_message :: "('d, 't) raft_world \<Rightarrow> replication_out_message \<Rightarrow> ('d, 'kp, 'ver, unit) rld_comp" where
  "on_replication_out_message w m = (case m of
     ReplicationAppendReq address req \<Rightarrow>
       bind (ask (\<lambda>l. hm_get (rld_replications l) address)) (\<lambda>r. case r of
         Some r \<Rightarrow> bind (raft_on_stream (send_append_entries w address req)) (\<lambda>request_id.
           task_send (rep_task r) (AppendEntriesReqResult request_id))
       | None \<Rightarrow> ret ())
   | UpdateMatchIndex address match_index \<Rightarrow> on_update_match_index w address match_index
   | UpdateState role \<Rightarrow> raft_on_stream (raft_update_state role))"

definition leader_on_append_entries_res :: "address \<Rightarrow> append_entries_res \<Rightarrow> ('d, 'kp, 'ver, unit) rld_comp" where
  "leader_on_append_entries_res address res =
     bind (ask (\<lambda>l. hm_get (rld_replications l) address)) (\<lambda>r. case r of
       Some r \<Rightarrow> task_send (rep_task r) (ReplicationAppendRes res)
     | None \<Rightarrow> ret ())"

definition raft_leader_start :: "('d, 't) raft_world \<Rightarrow> ('d, 'kp, 'ver, unit) rld_comp" where
  "raft_leader_start w =
     bind (ask (\<lambda>l. (rf_authorities (rld_stream l), rf_address (rld_stream l)))) (\<lambda>(authorities, own).
     bind (ask (\<lambda>l. (rst_base_log_index (rld_store l), rst_base_log_term (rld_store l)))) (\<lambda>(base_log_index, base_log_term).
     bind (for_each (\<lambda>target. if target \<noteq> own then add_replication target base_log_index base_log_term else ret ()) (ra_members authorities)) (\<lambda>_.
     bind (raft_on_stream (modify (\<lambda>s. s\<lparr>rf_last_heartbeat_instant := None, rf_next_election_instant := None, rf_current_leader := Some own\<rparr>))) (\<lambda>_.
     append_init_entry w))))"

subsection \<open>The replication tasks\<close>

definition task_out :: "replication_out_message \<Rightarrow> ('d, 'kp, 'ver, unit) rld_comp" where
  "task_out m = modify (\<lambda>l. l\<lparr>rld_out := rld_out l @ [m]\<rparr>)"

definition set_task :: "nat \<Rightarrow> replication_stream \<Rightarrow> ('d, 'kp, 'ver, unit) rld_comp" where
  "set_task i t = modify (\<lambda>l. l\<lparr>rld_tasks := hm_insert i t (rld_tasks l)\<rparr>)"

definition replicate_req :: "replication_stream \<Rightarrow> ('d, 'kp, 'ver) raft_storage \<Rightarrow> append_entries_req" where
  "replicate_req t s =
     (let last_log_index = fst (get_last_log_index_term s);
          entries = (if rs_match_index t < last_log_index
            then get_log_entries (\<lambda>k. rs_match_index t + 1 \<le> k \<and> k \<le> last_log_index) s else []) in
     \<lparr> aeq_request_id = 0, aeq_term = rst_current_term s, aeq_prev_log_index = rs_match_index t, aeq_prev_log_term = rs_match_term t,
       aeq_commit_log_index = rst_commit_log_index s, aeq_entries = entries \<rparr>)"

text \<open>The heartbeat of a task.\<close>

definition replicate_turn :: "nat \<Rightarrow> ('d, 'kp, 'ver, unit) rld_comp" where
  "replicate_turn i = bind (ask (\<lambda>l. hm_get (rld_tasks l) i)) (\<lambda>t. case t of
     Some t \<Rightarrow> bind (ask (\<lambda>l. replicate_req t (rld_store l))) (\<lambda>req. task_out (ReplicationAppendReq (rs_target t) req))
   | None \<Rightarrow> ret ())"

definition task_on_append_entries_res :: "nat \<Rightarrow> replication_stream \<Rightarrow> append_entries_res \<Rightarrow> ('d, 'kp, 'ver, unit) rld_comp" where
  "task_on_append_entries_res i t res =
     (if \<not> hm_contains (rs_requests t) (aes_request_id res) then set_task i t
      else
        let t = t\<lparr>rs_requests := hm_remove (aes_request_id res) (rs_requests t)\<rparr> in
        bind (ask (\<lambda>l. rst_current_term (rld_store l))) (\<lambda>current_term.
        if aes_term res > current_term then bind (set_task i t) (\<lambda>_. task_out (UpdateState RaftFollower))
        else
          bind (set_task i (t\<lparr>rs_match_index := aes_last_log_index res, rs_match_term := aes_last_log_term res\<rparr>)) (\<lambda>_.
          if aes_last_log_index res \<noteq> rs_match_index t then task_out (UpdateMatchIndex (rs_target t) (aes_last_log_index res))
          else ret ())))"

text \<open>A task whose channel is empty and closed, because no replication is left for it, ends.\<close>

definition task_in_turn :: "nat \<Rightarrow> ('d, 'kp, 'ver, unit) rld_comp" where
  "task_in_turn i = bind (ask (\<lambda>l. (hm_get (rld_tasks l) i, list_ex (\<lambda>(_, r). rep_task r = i) (rld_replications l)))) (\<lambda>(t, is_open). case t of
     None \<Rightarrow> ret ()
   | Some t \<Rightarrow> (case rs_in t of
       [] \<Rightarrow> if is_open then ret () else modify (\<lambda>l. l\<lparr>rld_tasks := hm_remove i (rld_tasks l)\<rparr>)
     | m # ms \<Rightarrow> let t = t\<lparr>rs_in := ms\<rparr> in (case m of
         AppendEntriesReqResult request_id \<Rightarrow> set_task i (case request_id of
           Some request_id \<Rightarrow> t\<lparr>rs_requests := hm_insert request_id () (rs_requests t)\<rparr> | None \<Rightarrow> t)
       | ReplicationAppendRes res \<Rightarrow> task_on_append_entries_res i t res)))"

section \<open>The candidate\<close>

record ('d, 'kp, 'ver) candidate =
  cd_stream :: "('d, 'kp, 'ver) raft"
  cd_votes_granted :: u64
  cd_votes_needed :: u64
  cd_requests :: "(raft_request_id, unit) hmap"

type_synonym ('d, 'kp, 'ver, 'a) cd_comp = "(('d, 'kp, 'ver) candidate, 'a, common_error) comp"

definition candidate_on_stream :: "('d, 'kp, 'ver, 'a) rf_comp \<Rightarrow> ('d, 'kp, 'ver, 'a) cd_comp" where
  "candidate_on_stream m c = (let (r, s) = m (cd_stream c) in (r, c\<lparr>cd_stream := s\<rparr>))"

definition candidate_new :: "('d, 'kp, 'ver) raft \<Rightarrow> ('d, 'kp, 'ver) candidate" where
  "candidate_new s = \<lparr> cd_stream = s, cd_votes_granted = 0, cd_votes_needed = 0, cd_requests = [] \<rparr>"

definition on_maybe_become_leader :: "('d, 'kp, 'ver, unit) cd_comp" where
  "on_maybe_become_leader =
     bind (ask (\<lambda>c. cd_votes_granted c \<ge> cd_votes_needed c)) (\<lambda>enough.
     if enough then candidate_on_stream (raft_update_state RaftLeader) else ret ())"

definition request_vote :: "('d, 't) raft_world \<Rightarrow> ('d, 'kp, 'ver, unit) cd_comp" where
  "request_vote w =
     bind (ask (\<lambda>c. (rf_term (cd_stream c), get_last_log_index_term (rf_store (cd_stream c))))) (\<lambda>(term, last_log_index, last_log_term).
     bind (ask (\<lambda>c. filter (\<lambda>x. x \<noteq> rf_address (cd_stream c)) (ra_members (rf_authorities (cd_stream c))))) (\<lambda>targets.
     if targets = [] then on_maybe_become_leader
     else for_each (\<lambda>address.
       bind (candidate_on_stream (send_request_vote w address
         \<lparr> vq_request_id = 0, vq_term = term, vq_last_log_index = last_log_index, vq_last_log_term = last_log_term \<rparr>)) (\<lambda>request_id.
       case request_id of
         Some request_id \<Rightarrow> modify (\<lambda>c. c\<lparr>cd_requests := hm_insert request_id () (cd_requests c)\<rparr>)
       | None \<Rightarrow> ret ())) targets))"

definition votes_needed :: "raft_authorities \<Rightarrow> nat" where
  "votes_needed a = length (ra_members a) div 2 + 1"

text \<open>A round of the outer loop up to the inner one: a new term, a vote for itself, and the requests.\<close>

definition candidate_round :: "('d, 't) raft_world \<Rightarrow> ('d, 'kp, 'ver, unit) cd_comp" where
  "candidate_round w =
     bind (modify (\<lambda>c. c\<lparr>cd_votes_granted := 1,
        cd_votes_needed := of_nat (votes_needed (rf_authorities (cd_stream c))), cd_requests := []\<rparr>)) (\<lambda>_.
     bind (candidate_on_stream (update_next_election_instant w 0 False)) (\<lambda>_.
     bind (candidate_on_stream (raft_update_current_leader None)) (\<lambda>_.
     bind (ask (\<lambda>c. rf_term (cd_stream c))) (\<lambda>current_term.
     bind (candidate_on_stream (raft_on_storage (update_current_term (rw_lib w) (rw_rl w) (current_term + 1)))) (\<lambda>_.
     bind (ask (\<lambda>c. rf_address (cd_stream c))) (\<lambda>own.
     bind (candidate_on_stream (raft_on_storage (update_current_voted_for (rw_lib w) (rw_rl w) (Some own)))) (\<lambda>_.
     request_vote w)))))))"

definition candidate_on_authorities_updated :: "raft_authorities \<Rightarrow> ('d, 'kp, 'ver, unit) rf_comp" where
  "candidate_on_authorities_updated authorities =
     bind (ask rf_address) (\<lambda>own. if own \<notin> set (ra_members authorities) then raft_update_state RaftObserver else ret ())"

definition candidate_on_res_request_vote :: "('d, 't) raft_world \<Rightarrow> address \<Rightarrow> request_vote_res \<Rightarrow> ('d, 'kp, 'ver, unit) cd_comp" where
  "candidate_on_res_request_vote w address res =
     bind (ask (\<lambda>c. hm_contains (cd_requests c) (vs_request_id res))) (\<lambda>expected.
     if \<not> expected then ret ()
     else
       bind (modify (\<lambda>c. c\<lparr>cd_requests := hm_remove (vs_request_id res) (cd_requests c)\<rparr>)) (\<lambda>_.
       bind (ask (\<lambda>c. rf_term (cd_stream c))) (\<lambda>current_term.
       if vs_term res > current_term then
         bind (candidate_on_stream (raft_update_current_leader None)) (\<lambda>_.
         bind (candidate_on_stream (raft_update_state RaftFollower)) (\<lambda>_.
         candidate_on_stream (adopt_term w (vs_term res))))
       else if vs_vote_granted res then
         bind (modify (\<lambda>c. if address \<in> set (ra_members (rf_authorities (cd_stream c)))
           then c\<lparr>cd_votes_granted := cd_votes_granted c + 1\<rparr> else c)) (\<lambda>_.
         on_maybe_become_leader)
       else ret ())))"

section \<open>The follower and the observer\<close>

definition follower_on_authorities_updated :: "raft_authorities \<Rightarrow> ('d, 'kp, 'ver, unit) rf_comp" where
  "follower_on_authorities_updated authorities =
     bind (ask rf_address) (\<lambda>own. if own \<notin> set (ra_members authorities) then raft_update_state RaftObserver else ret ())"

definition observer_on_authorities_updated :: "raft_authorities \<Rightarrow> ('d, 'kp, 'ver, unit) rf_comp" where
  "observer_on_authorities_updated authorities =
     bind (ask rf_address) (\<lambda>own. if own \<in> set (ra_members authorities) then raft_update_state RaftFollower else ret ())"

section \<open>The loops\<close>

datatype raft_event =
    RevElection
  | RevSchedule u64
  | RevInternal
  | RevIn "consensus_in_message option"
  | RevReplicationOut
  | RevHeartbeat nat
  | RevTask nat

definition raft_pop_internal :: "('d, 'kp, 'ver, raft_internal_message option) rf_comp" where
  "raft_pop_internal s = (case rf_internal s of
     [] \<Rightarrow> (Ok None, s)
   | m # ms \<Rightarrow> (Ok (Some m), s\<lparr>rf_internal := ms\<rparr>))"

definition raft_turn_in :: "('d, 't) raft_world \<Rightarrow> consensus_in_message option \<Rightarrow> ('d, 'kp, 'ver, unit) rf_comp" where
  "raft_turn_in w in_message = (case in_message of
     Some m \<Rightarrow> log_error (raft_on_in_message w m)
   | None \<Rightarrow> raft_update_state RaftShutdown)"

definition raft_leader_turn :: "('d, 't) raft_world \<Rightarrow> raft_event \<Rightarrow> ('d, 'kp, 'ver, unit) rld_comp" where
  "raft_leader_turn w ev = (case ev of
     RevElection \<Rightarrow> ret ()
   | RevSchedule t \<Rightarrow> log_error (raft_work w t)
   | RevInternal \<Rightarrow> bind (raft_on_stream raft_pop_internal) (\<lambda>m. case m of
       None \<Rightarrow> ret ()
     | Some (InternalAppendRes address res) \<Rightarrow> log_error (leader_on_append_entries_res address res)
     | Some InternalGenerate \<Rightarrow> log_error (raft_generate w)
     | Some (AuthoritiesUpdated authorities) \<Rightarrow> log_error (leader_on_authorities_updated authorities)
     | Some m \<Rightarrow> log_error (raft_on_stream (raft_on_internal_message w m)))
   | RevIn m \<Rightarrow> raft_on_stream (raft_turn_in w m)
   | RevReplicationOut \<Rightarrow> bind (ask rld_out) (\<lambda>out. case out of
       [] \<Rightarrow> ret ()
     | m # ms \<Rightarrow> bind (modify (\<lambda>l. l\<lparr>rld_out := ms\<rparr>)) (\<lambda>_. log_error (on_replication_out_message w m)))
   | RevHeartbeat i \<Rightarrow> replicate_turn i
   | RevTask i \<Rightarrow> task_in_turn i)"

text \<open>When the election timer of a candidate fires, the next round starts.\<close>

definition candidate_turn :: "('d, 't) raft_world \<Rightarrow> raft_event \<Rightarrow> ('d, 'kp, 'ver, unit) cd_comp" where
  "candidate_turn w ev = bind (candidate_on_stream (next_election_instant w)) (\<lambda>inst. case ev of
     RevElection \<Rightarrow> if inst \<le> rw_instant w then candidate_round w else ret ()
   | RevInternal \<Rightarrow> bind (candidate_on_stream raft_pop_internal) (\<lambda>m. case m of
       None \<Rightarrow> ret ()
     | Some (InternalVoteRes address res) \<Rightarrow> log_error (candidate_on_res_request_vote w address res)
     | Some (AuthoritiesUpdated authorities) \<Rightarrow> log_error (candidate_on_stream (candidate_on_authorities_updated authorities))
     | Some m \<Rightarrow> log_error (candidate_on_stream (raft_on_internal_message w m)))
   | RevIn m \<Rightarrow> candidate_on_stream (raft_turn_in w m)
   | _ \<Rightarrow> ret ())"

definition follower_turn :: "('d, 't) raft_world \<Rightarrow> raft_event \<Rightarrow> ('d, 'kp, 'ver, unit) rf_comp" where
  "follower_turn w ev = bind (next_election_instant w) (\<lambda>inst. case ev of
     RevElection \<Rightarrow> if inst \<le> rw_instant w then raft_update_state RaftCandidate else ret ()
   | RevInternal \<Rightarrow> bind raft_pop_internal (\<lambda>m. case m of
       None \<Rightarrow> ret ()
     | Some (AuthoritiesUpdated authorities) \<Rightarrow> log_error (follower_on_authorities_updated authorities)
     | Some m \<Rightarrow> log_error (raft_on_internal_message w m))
   | RevIn m \<Rightarrow> raft_turn_in w m
   | _ \<Rightarrow> ret ())"

definition raft_observer_turn :: "('d, 't) raft_world \<Rightarrow> raft_event \<Rightarrow> ('d, 'kp, 'ver, unit) rf_comp" where
  "raft_observer_turn w ev = (case ev of
     RevInternal \<Rightarrow> bind raft_pop_internal (\<lambda>m. case m of
       None \<Rightarrow> ret ()
     | Some (AuthoritiesUpdated authorities) \<Rightarrow> log_error (observer_on_authorities_updated authorities)
     | Some m \<Rightarrow> log_error (raft_on_internal_message w m))
   | RevIn m \<Rightarrow> raft_turn_in w m
   | _ \<Rightarrow> ret ())"

text \<open>Where the task is: between two roles, in the loop of a role, or at its end.\<close>

datatype ('d, 'kp, 'ver) raft_machine =
    RaftBetween "('d, 'kp, 'ver) raft"
  | Leads "('d, 'kp, 'ver) raft_leader"
  | Campaigns "('d, 'kp, 'ver) candidate"
  | Follows "('d, 'kp, 'ver) raft"
  | Observes "('d, 'kp, 'ver) raft"
  | RaftFinished "unit common_result" "('d, 'kp, 'ver) raft"

definition enter_role :: "('d, 't) raft_world \<Rightarrow> ('d, 'kp, 'ver) raft \<Rightarrow> ('d, 'kp, 'ver) raft_machine" where
  "enter_role w s = (case rf_role s of
     RaftLeader \<Rightarrow> (case raft_leader_start w (raft_leader_new s) of
       (Ok _, l) \<Rightarrow> Leads l | (Err e, l) \<Rightarrow> RaftFinished (Err e) (rld_stream l))
   | RaftCandidate \<Rightarrow> (case candidate_round w (candidate_new s) of
       (Ok _, c) \<Rightarrow> Campaigns c | (Err e, c) \<Rightarrow> RaftFinished (Err e) (cd_stream c))
   | RaftFollower \<Rightarrow> Follows s
   | RaftObserver \<Rightarrow> Observes (s\<lparr>rf_current_leader := None\<rparr>)
   | RaftShutdown \<Rightarrow> RaftFinished (Ok ()) s)"

fun raft_step :: "('d, 't) raft_world \<Rightarrow> raft_event \<Rightarrow> ('d, 'kp, 'ver) raft_machine \<Rightarrow> ('d, 'kp, 'ver) raft_machine" where
  "raft_step w ev (RaftBetween s) = enter_role w s"
| "raft_step w ev (Leads l) = (if rf_role (rld_stream l) \<noteq> RaftLeader then RaftBetween (rld_stream l)
     else case raft_leader_turn w ev l of (Ok _, l) \<Rightarrow> Leads l | (Err e, l) \<Rightarrow> RaftFinished (Err e) (rld_stream l))"
| "raft_step w ev (Campaigns c) = (if rf_role (cd_stream c) \<noteq> RaftCandidate then RaftBetween (cd_stream c)
     else case candidate_turn w ev c of (Ok _, c) \<Rightarrow> Campaigns c | (Err e, c) \<Rightarrow> RaftFinished (Err e) (cd_stream c))"
| "raft_step w ev (Follows s) = (if rf_role s \<noteq> RaftFollower then RaftBetween s
     else case follower_turn w ev s of (Ok _, s) \<Rightarrow> Follows s | (Err e, s) \<Rightarrow> RaftFinished (Err e) s)"
| "raft_step w ev (Observes s) = (if rf_role s \<noteq> RaftObserver then RaftBetween s
     else case raft_observer_turn w ev s of (Ok _, s) \<Rightarrow> Observes s | (Err e, s) \<Rightarrow> RaftFinished (Err e) s)"
| "raft_step w ev (RaftFinished r s) = RaftFinished r s"

end
