(* ===== verification/Raft_Laws.thy ===== *)
theory Raft_Laws
  imports Raft_State Consensus_Frame
begin

text \<open>
  What holds of a running Raft validator: its term never goes down, its vote in a term never changes, also when it restarts, and its log
  is a map from indexes to entries with these indexes.

  The proofs follow the operations with the rules \<open>keeps_rules\<close>: every operation that leaves the term alone keeps the invariant \<open>rf_inv\<close>
  with any condition on the term and the vote; the four handlers that change the term have the condition they need as a precondition.
\<close>

section \<open>Logs\<close>

text \<open>A log: the indexes ascend, and each entry is under its own.\<close>

definition log_wf :: "(u64, log_entry) bmap \<Rightarrow> bool" where
  "log_wf m \<longleftrightarrow> sorted_wrt (<) (map fst m) \<and> (\<forall>(k, e)\<in>set m. k = en_index e)"

definition own_indexes :: "(u64 \<times> log_entry) list \<Rightarrow> bool" where
  "own_indexes l \<longleftrightarrow> (\<forall>(k, e)\<in>set l. k = en_index e)"

lemma log_wf_extend: "log_wf m \<Longrightarrow> own_indexes l \<Longrightarrow> log_wf (bm_extend l m)"
proof (induction l arbitrary: m)
  case (Cons x l)
  obtain k e where x: "x = (k, e)"
    by (cases x)
  have "log_wf (bm_insert k e m)"
    using Cons.prems x bm_insert_set [of k e m] by (auto simp: log_wf_def own_indexes_def bm_insert_sorted)
  with Cons x show ?case
    by (simp add: own_indexes_def)
qed simp

lemma log_wf_collect: "own_indexes l \<Longrightarrow> log_wf (bm_collect l)"
  unfolding bm_collect_def by (rule log_wf_extend) (auto simp: log_wf_def)

lemma log_wf_without: "log_wf m \<Longrightarrow> log_wf (bm_without R m)"
  by (auto simp: log_wf_def bm_without_def sorted_wrt_map intro: sorted_wrt_filter)

lemma log_wf_own: "log_wf m \<Longrightarrow> own_indexes m"
  by (simp add: log_wf_def own_indexes_def)

lemma own_indexes_entries: "own_indexes (map (\<lambda>e. (en_index e, e)) l)"
  by (auto simp: own_indexes_def)

section \<open>The invariant of the storage\<close>

text \<open>The order on terms with votes: a later term, or the same term with the same vote if there was one.\<close>

fun vote_kept :: "u64 \<times> address option \<Rightarrow> u64 \<times> address option \<Rightarrow> bool" where
  "vote_kept (t, v) (t', v') \<longleftrightarrow> t \<le> t' \<and> (t = t' \<and> v \<noteq> None \<longrightarrow> v' = v)"

lemma vote_kept_refl: "vote_kept p p"
  by (cases p) simp

lemma vote_kept_trans: "vote_kept p q \<Longrightarrow> vote_kept q r \<Longrightarrow> vote_kept p r"
  by (cases p; cases q; cases r) auto

lemma vote_kept_later: "vote_kept p (t, v) \<Longrightarrow> t < t' \<Longrightarrow> vote_kept p (t', v')"
  by (cases p) auto

lemma vote_kept_vote: "vote_kept p (t, None) \<Longrightarrow> vote_kept p (t, v)"
  by (cases p) auto

definition memory_vote :: "('d, 'kp, 'ver) raft_storage \<Rightarrow> u64 \<times> address option" where
  "memory_vote s = (rst_current_term s, rst_current_voted_for s)"

definition stored_vote :: "raft_lib \<Rightarrow> ('d \<Rightarrow> string \<Rightarrow> bytes \<Rightarrow> bytes option) \<Rightarrow> ('d, 'kp, 'ver) backend \<Rightarrow> (u64 \<times> address option) common_result" where
  "stored_vote rl absd b =
     and_then (decoded (rl_u64 rl) (cell absd b CONSENSUS DB_KEY_CURRENT_TERM)) (\<lambda>t.
     and_then (decoded (rl_voted_for rl) (cell absd b CONSENSUS DB_KEY_CURRENT_VOTED_FOR)) (\<lambda>v. Ok (or_default 0 t, or_default None v)))"

definition stored_log_ok :: "raft_lib \<Rightarrow> ('d \<Rightarrow> string \<Rightarrow> bytes \<Rightarrow> bytes option) \<Rightarrow> ('d, 'kp, 'ver) backend \<Rightarrow> bool" where
  "stored_log_ok rl absd b \<longleftrightarrow> (\<forall>l. decoded (rl_logs rl) (cell absd b CONSENSUS DB_KEY_LOGS) = Ok (Some l) \<longrightarrow> own_indexes l)"

text \<open>The database: the stored vote can be read and is not earlier than \<open>p\<close>.\<close>

definition stored_ok :: "raft_lib \<Rightarrow> ('d \<Rightarrow> string \<Rightarrow> bytes \<Rightarrow> bytes option) \<Rightarrow> ('d, 'kp, 'ver) backend \<Rightarrow> u64 \<times> address option
    \<Rightarrow> ('d, 'kp, 'ver) backend \<Rightarrow> bool" where
  "stored_ok rl absd b0 p b \<longleftrightarrow> same_setup b0 b \<and> stored_log_ok rl absd b \<and> (\<exists>q. stored_vote rl absd b = Ok q \<and> vote_kept p q)"

text \<open>The memory is not earlier than the vote \<open>p\<close>, nor the database than the memory, and \<open>Q\<close> holds of the memory.\<close>

definition rst_inv :: "raft_lib \<Rightarrow> ('d \<Rightarrow> string \<Rightarrow> bytes \<Rightarrow> bytes option) \<Rightarrow> ('d, 'kp, 'ver) backend \<Rightarrow> u64 \<times> address option
    \<Rightarrow> (u64 \<times> address option \<Rightarrow> bool) \<Rightarrow> ('d, 'kp, 'ver) raft_storage \<Rightarrow> bool" where
  "rst_inv rl absd b0 p Q s \<longleftrightarrow> stored_ok rl absd b0 (memory_vote s) (sup_backend (rst_support s)) \<and>
     vote_kept p (memory_vote s) \<and> Q (memory_vote s) \<and> log_wf (rst_logs s)"

definition raft_lib_ok :: "('d, 't) chain_lib \<Rightarrow> raft_lib \<Rightarrow> ('d \<Rightarrow> string \<Rightarrow> bytes \<Rightarrow> bytes option) \<Rightarrow> bool" where
  "raft_lib_ok lib rl absd \<longleftrightarrow> chain_lib_ok lib absd \<and> codec_ok (rl_u64 rl) \<and> codec_ok (rl_voted_for rl) \<and> codec_ok (rl_logs rl) \<and>
     well_behaved (cl_dispatcher lib)"

lemma raft_lib_okD:
  assumes "raft_lib_ok lib rl absd"
  shows "chain_lib_ok lib absd" "codec_ok (rl_u64 rl)" "codec_ok (rl_voted_for rl)" "codec_ok (rl_logs rl)" "well_behaved (cl_dispatcher lib)"
  using assms by (simp_all add: raft_lib_ok_def)

lemma raft_keys_neq [simp]:
  "DB_KEY_CURRENT_TERM \<noteq> DB_KEY_CURRENT_VOTED_FOR" "DB_KEY_CURRENT_VOTED_FOR \<noteq> DB_KEY_CURRENT_TERM"
  "DB_KEY_LOGS \<noteq> DB_KEY_CURRENT_TERM" "DB_KEY_CURRENT_TERM \<noteq> DB_KEY_LOGS" "DB_KEY_LOGS \<noteq> DB_KEY_CURRENT_VOTED_FOR"
  "DB_KEY_CURRENT_VOTED_FOR \<noteq> DB_KEY_LOGS" "DB_KEY_PROPOSAL \<noteq> DB_KEY_CURRENT_TERM" "DB_KEY_PROPOSAL \<noteq> DB_KEY_CURRENT_VOTED_FOR"
  "DB_KEY_PROPOSAL \<noteq> DB_KEY_LOGS" "DB_KEY_COMMIT_LOG_INDEX \<noteq> DB_KEY_CURRENT_TERM" "DB_KEY_COMMIT_LOG_INDEX \<noteq> DB_KEY_CURRENT_VOTED_FOR"
  "DB_KEY_COMMIT_LOG_INDEX \<noteq> DB_KEY_LOGS" "DB_KEY_CURRENT_TERM \<noteq> DB_KEY_PROPOSAL" "DB_KEY_CURRENT_VOTED_FOR \<noteq> DB_KEY_PROPOSAL"
  "DB_KEY_LOGS \<noteq> DB_KEY_PROPOSAL" "DB_KEY_CURRENT_TERM \<noteq> DB_KEY_COMMIT_LOG_INDEX" "DB_KEY_CURRENT_VOTED_FOR \<noteq> DB_KEY_COMMIT_LOG_INDEX"
  "DB_KEY_LOGS \<noteq> DB_KEY_COMMIT_LOG_INDEX"
  by (simp_all add: DB_KEY_CURRENT_TERM_def DB_KEY_CURRENT_VOTED_FOR_def DB_KEY_LOGS_def DB_KEY_PROPOSAL_def DB_KEY_COMMIT_LOG_INDEX_def)

section \<open>Reads and writes\<close>

lemma raft_put_eq:
  assumes "chain_lib_ok lib absd"
  obtains x where "raft_commit_consensus_data lib (put_consensus_data c key v) s = (Ok (), s\<lparr>rst_support := x\<rparr>)"
    "same_setup (sup_backend (rst_support s)) (sup_backend x)"
    "\<And>k. cell absd (sup_backend x) CONSENSUS k = (if k = key then Some (enc c v) else cell absd (sup_backend (rst_support s)) CONSENSUS k)"
proof (rule support_put_db [OF assms, of c key v "rst_support s"])
  fix d
  assume "support_commit_consensus_data lib (put_consensus_data c key v transaction_new) (rst_support s) = (Ok (), set_db d (rst_support s))"
    "\<And>col k. valid_col col \<Longrightarrow> db_abs absd d col k = (if col = CONSENSUS \<and> k = key then Some (enc c v) else cell absd (sup_backend (rst_support s)) col k)"
  then show thesis
    by (intro that [of "set_db d (rst_support s)"]) (simp_all add: raft_commit_consensus_data_def raft_on_support_def set_db_def same_setup_def)
qed

lemma raft_put2_eq:
  assumes "chain_lib_ok lib absd" "k1 \<noteq> k2"
  obtains x where "raft_commit_consensus_data lib (put_consensus_data c2 k2 v2 \<circ> put_consensus_data c1 k1 v1) s = (Ok (), s\<lparr>rst_support := x\<rparr>)"
    "same_setup (sup_backend (rst_support s)) (sup_backend x)"
    "\<And>k. cell absd (sup_backend x) CONSENSUS k = (if k = k2 then Some (enc c2 v2) else if k = k1 then Some (enc c1 v1)
       else cell absd (sup_backend (rst_support s)) CONSENSUS k)"
proof (rule support_write_db [OF assms(1), of "put_consensus_data c2 k2 v2 (put_consensus_data c1 k1 v1 transaction_new)" "rst_support s"])
  let ?t = "put_consensus_data c2 k2 v2 (put_consensus_data c1 k1 v1 transaction_new)"
  show "only_col CONSENSUS ?t"
    by (simp add: only_col_def put_consensus_data_def put_owned_def transaction_new_def)
  fix d
  assume d: "support_commit_consensus_data lib ?t (rst_support s) = (Ok (), set_db d (rst_support s))"
    "\<And>col k. valid_col col \<Longrightarrow> db_abs absd d col k = fold apply_op (filter (\<lambda>op. op_col op = col) ?t) (cell absd (sup_backend (rst_support s))) col k"
  show thesis
    by (intro that [of "set_db d (rst_support s)"])
      (use d assms(2) in \<open>auto simp: raft_commit_consensus_data_def raft_on_support_def set_db_def same_setup_def put_consensus_data_def
         put_owned_def transaction_new_def\<close>)
qed

lemma raft_read_eq:
  assumes "chain_lib_ok lib absd"
  shows "raft_read lib c key s = (decoded c (cell absd (sup_backend (rst_support s)) CONSENSUS key), s)"
  by (simp add: raft_read_def raft_read_support_def get_consensus_data_def read_with_eq [OF assms])

lemma keeps_raft_read [keeps_rules, simp]: "keeps I (raft_read lib c key)"
  by (simp add: keeps_def raft_read_def raft_read_support_def)

lemma keeps_raft_read_support [keeps_rules, simp]: "keeps I (raft_read_support f)"
  by (simp add: keeps_def raft_read_support_def)

text \<open>The operations that change nothing but the database, and there neither the term nor the vote.\<close>

definition db_beside :: "raft_lib \<Rightarrow> ('d \<Rightarrow> string \<Rightarrow> bytes \<Rightarrow> bytes option) \<Rightarrow> ('d, 'kp, 'ver) raft_storage \<Rightarrow> ('d, 'kp, 'ver) raft_storage \<Rightarrow> bool" where
  "db_beside rl absd s0 s \<longleftrightarrow> (\<exists>x. s = s0\<lparr>rst_support := x\<rparr> \<and> same_setup (sup_backend (rst_support s0)) (sup_backend x) \<and>
     stored_log_ok rl absd (sup_backend x) \<and> stored_vote rl absd (sup_backend x) = stored_vote rl absd (sup_backend (rst_support s0)))"

lemma keeps_beside_put:
  assumes "chain_lib_ok lib absd" "key \<notin> {DB_KEY_CURRENT_TERM, DB_KEY_CURRENT_VOTED_FOR, DB_KEY_LOGS}"
  shows "keeps (db_beside rl absd s0) (raft_commit_consensus_data lib (put_consensus_data c key v))"
proof (unfold keeps_def, intro allI impI)
  fix s
  assume s: "db_beside rl absd s0 s"
  show "db_beside rl absd s0 (snd (raft_commit_consensus_data lib (put_consensus_data c key v) s))"
  proof (rule raft_put_eq [OF assms(1), of c key v s])
    fix x
    assume x: "raft_commit_consensus_data lib (put_consensus_data c key v) s = (Ok (), s\<lparr>rst_support := x\<rparr>)"
      "same_setup (sup_backend (rst_support s)) (sup_backend x)"
      "\<And>k. cell absd (sup_backend x) CONSENSUS k = (if k = key then Some (enc c v) else cell absd (sup_backend (rst_support s)) CONSENSUS k)"
    show ?thesis
      using s x assms(2) by (auto simp: db_beside_def stored_log_ok_def stored_vote_def same_setup_def)
  qed
qed

lemma keeps_beside_logs:
  assumes "chain_lib_ok lib absd" "codec_ok (rl_logs rl)" "own_indexes l"
  shows "keeps (db_beside rl absd s0) (raft_commit_consensus_data lib (put_consensus_data (rl_logs rl) DB_KEY_LOGS l))"
proof (unfold keeps_def, intro allI impI)
  fix s
  assume s: "db_beside rl absd s0 s"
  show "db_beside rl absd s0 (snd (raft_commit_consensus_data lib (put_consensus_data (rl_logs rl) DB_KEY_LOGS l) s))"
  proof (rule raft_put_eq [OF assms(1), of "rl_logs rl" DB_KEY_LOGS l s])
    fix x
    assume x: "raft_commit_consensus_data lib (put_consensus_data (rl_logs rl) DB_KEY_LOGS l) s = (Ok (), s\<lparr>rst_support := x\<rparr>)"
      "same_setup (sup_backend (rst_support s)) (sup_backend x)"
      "\<And>k. cell absd (sup_backend x) CONSENSUS k = (if k = DB_KEY_LOGS then Some (enc (rl_logs rl) l) else cell absd (sup_backend (rst_support s)) CONSENSUS k)"
    show ?thesis
      using s x assms(2,3) by (auto simp: db_beside_def stored_log_ok_def stored_vote_def same_setup_def codec_ok_dec)
  qed
qed

lemma rst_inv_beside: "rst_inv rl absd b0 p Q s0 \<Longrightarrow> db_beside rl absd s0 s \<Longrightarrow> rst_inv rl absd b0 p Q s"
  by (auto simp: rst_inv_def db_beside_def memory_vote_def stored_ok_def same_setup_def)

section \<open>Recovery\<close>

lemma refresh_term_ok:
  assumes ok: "raft_lib_ok lib rl absd" and s: "stored_ok rl absd b0 p (sup_backend (rst_support s))" and run: "refresh_term lib rl t s = (r, s')"
  obtains x where "s' = s\<lparr>rst_support := x\<rparr>" "stored_ok rl absd b0 p (sup_backend x)" "\<And>q. r = Ok q \<Longrightarrow> stored_vote rl absd (sup_backend x) = Ok q"
proof -
  note result = that and lib = raft_lib_okD [OF ok]
  let ?t = "decoded (rl_u64 rl) (cell absd (sup_backend (rst_support s)) CONSENSUS DB_KEY_CURRENT_TERM)"
  let ?v = "decoded (rl_voted_for rl) (cell absd (sup_backend (rst_support s)) CONSENSUS DB_KEY_CURRENT_VOTED_FOR)"
  have same: thesis if "s' = s" "\<And>q. r = Ok q \<Longrightarrow> stored_vote rl absd (sup_backend (rst_support s)) = Ok q"
    by (rule result [of "rst_support s"]) (use s that in auto)
  show thesis
  proof (cases ?t)
    case (Err e)
    then show thesis
      using run by (intro same) (auto simp: refresh_term_def bind_apply raft_read_eq [OF lib(1)])
  next
    case t: (Ok t0)
    show thesis
    proof (cases ?v)
      case (Err e)
      then show thesis
        using run t by (intro same) (auto simp: refresh_term_def bind_apply raft_read_eq [OF lib(1)] Let_def)
    next
      case v: (Ok v0)
      then have q: "stored_vote rl absd (sup_backend (rst_support s)) = Ok (or_default 0 t0, or_default None v0)"
        using t by (simp add: stored_vote_def)
      show thesis
      proof (cases "or_default 0 t0 < t")
        case False
        then show thesis
          using run t v q by (intro same) (auto simp: refresh_term_def bind_apply raft_read_eq [OF lib(1)] Let_def)
      next
        case True
        have later: "vote_kept p (t, None)"
          using s q True by (auto simp: stored_ok_def intro: vote_kept_later)
        show thesis
        proof (rule raft_put2_eq [OF lib(1) raft_keys_neq(1), of "rl_voted_for rl" None "rl_u64 rl" t s])
          fix x
          assume "raft_commit_consensus_data lib (put_consensus_data (rl_voted_for rl) DB_KEY_CURRENT_VOTED_FOR None \<circ>
               put_consensus_data (rl_u64 rl) DB_KEY_CURRENT_TERM t) s = (Ok (), s\<lparr>rst_support := x\<rparr>)"
            "same_setup (sup_backend (rst_support s)) (sup_backend x)"
            "\<And>k. cell absd (sup_backend x) CONSENSUS k = (if k = DB_KEY_CURRENT_VOTED_FOR then Some (enc (rl_voted_for rl) None)
               else if k = DB_KEY_CURRENT_TERM then Some (enc (rl_u64 rl) t) else cell absd (sup_backend (rst_support s)) CONSENSUS k)"
          then show thesis
            using run t v True later s lib(2,3)
            by (intro result [of x]) (auto simp: refresh_term_def bind_apply raft_read_eq [OF lib(1)] stored_ok_def stored_log_ok_def
                stored_vote_def or_default_def same_setup_def)
        qed
      qed
    qed
  qed
qed

lemma keeps_beside_refresh:
  assumes "raft_lib_ok lib rl absd"
  shows "keeps (db_beside rl absd s0) (refresh_commit lib rl i)" "keeps (db_beside rl absd s0) (raft_refresh_proposal lib rl logs)"
  unfolding refresh_commit_def raft_refresh_proposal_def Let_def
  by (intro keeps_rules keeps_beside_put raft_lib_okD [OF assms]; simp)+

lemma refresh_logs_ok:
  assumes ok: "raft_lib_ok lib rl absd" and s: "db_beside rl absd s0 s" and run: "refresh_logs lib rl i s = (r, s')"
  shows "db_beside rl absd s0 s'" "r = Ok logs \<Longrightarrow> log_wf logs"
proof -
  note lib = raft_lib_okD [OF ok]
  have own: "log_wf (bm_without (\<lambda>k. k \<le> i) (bm_collect (or_default [] l)))"
    if "decoded (rl_logs rl) (cell absd (sup_backend (rst_support s)) CONSENSUS DB_KEY_LOGS) = Ok l" for l
    using s that by (intro log_wf_without log_wf_collect) (auto simp: db_beside_def stored_log_ok_def own_indexes_def or_default_def split: option.splits)
  have "keeps (db_beside rl absd s0) (raft_commit_consensus_data lib (put_consensus_data (rl_logs rl) DB_KEY_LOGS
      (bm_without (\<lambda>k. k \<le> i) (bm_collect (or_default [] l)))))"
    if "decoded (rl_logs rl) (cell absd (sup_backend (rst_support s)) CONSENSUS DB_KEY_LOGS) = Ok l" for l
    by (intro keeps_beside_logs lib log_wf_own own [OF that])
  from keepsD [OF this s] show "db_beside rl absd s0 s'" 
    using run s by (auto simp: refresh_logs_def bind_apply raft_read_eq [OF lib(1)] Let_def split: result.splits prod.splits if_splits)
  show "r = Ok logs \<Longrightarrow> log_wf logs"
    using run own by (auto simp: refresh_logs_def bind_apply raft_read_eq [OF lib(1)] Let_def split: result.splits prod.splits if_splits)
qed

text \<open>The last part of \<open>raft_refresh\<close>, with the term and the vote already recovered.\<close>

definition refresh_tail :: "('d, 't) chain_lib \<Rightarrow> raft_lib \<Rightarrow> u64 \<times> u64 \<Rightarrow> u64 \<times> address option \<Rightarrow> ('d, 'kp, 'ver, unit) rst_comp" where
  "refresh_tail lib rl base q =
     bind (refresh_commit lib rl (fst base)) (\<lambda>commit_log_index.
     bind (refresh_logs lib rl (fst base)) (\<lambda>logs.
     bind (raft_refresh_proposal lib rl logs) (\<lambda>p.
     modify (\<lambda>s. s\<lparr>rst_base_log_index := fst base, rst_base_log_term := snd base, rst_current_term := fst q,
       rst_current_voted_for := snd q, rst_commit_log_index := commit_log_index, rst_logs := logs, rst_proposal := p\<rparr>))))"

lemma raft_refresh_eq:
  "raft_refresh lib rl = bind (raft_read_support (raft_get_proof lib rl)) (\<lambda>pf.
     let base = (case pf of Some pf \<Rightarrow> (rap_log_index pf, rap_log_term pf) | None \<Rightarrow> (0, 0)) in
     bind (refresh_term lib rl (snd base)) (refresh_tail lib rl base))"
  by (simp add: raft_refresh_def refresh_tail_def [abs_def] case_prod_unfold Let_def)

definition recovered :: "raft_lib \<Rightarrow> ('d \<Rightarrow> string \<Rightarrow> bytes \<Rightarrow> bytes option) \<Rightarrow> ('d, 'kp, 'ver) backend \<Rightarrow> u64 \<times> address option
    \<Rightarrow> ('d, 'kp, 'ver) raft_storage \<Rightarrow> unit common_result \<times> ('d, 'kp, 'ver) raft_storage \<Rightarrow> bool" where
  "recovered rl absd b0 p s = (\<lambda>(r, s'). stored_ok rl absd b0 p (sup_backend (rst_support s')) \<and> (case r of
     Ok _ \<Rightarrow> stored_vote rl absd (sup_backend (rst_support s')) = Ok (memory_vote s') \<and> log_wf (rst_logs s')
   | Err _ \<Rightarrow> \<exists>x. s' = s\<lparr>rst_support := x\<rparr>))"

lemma beside_recovered:
  "stored_ok rl absd b0 p (sup_backend (rst_support s)) \<Longrightarrow> db_beside rl absd s s' \<Longrightarrow> recovered rl absd b0 p s (Err e, s')"
  by (auto simp: recovered_def db_beside_def stored_ok_def same_setup_def)

lemma refresh_tail_ok:
  assumes ok: "raft_lib_ok lib rl absd" and s: "stored_ok rl absd b0 p (sup_backend (rst_support s))"
    and q: "stored_vote rl absd (sup_backend (rst_support s)) = Ok q"
  shows "recovered rl absd b0 p s (refresh_tail lib rl base q s)"
proof -
  have s0: "db_beside rl absd s s"
    using s by (auto simp: db_beside_def stored_ok_def same_setup_def intro: exI [of _ "rst_support s"])
  obtain rc s1 where c: "refresh_commit lib rl (fst base) s = (rc, s1)"
    by fastforce
  note s1 = keepsD [OF keeps_beside_refresh(1) [OF ok] s0 c]
  obtain rl' s2 where l: "refresh_logs lib rl (fst base) s1 = (rl', s2)"
    by fastforce
  note s2 = refresh_logs_ok [OF ok s1 l]
  show ?thesis
  proof (cases rc)
    case (Err e)
    then show ?thesis
      using c beside_recovered [OF s s1] by (simp add: refresh_tail_def bind_apply)
  next
    case rc: (Ok i)
    show ?thesis
    proof (cases rl')
      case (Err e)
      then show ?thesis
        using c rc l beside_recovered [OF s s2(1)] by (simp add: refresh_tail_def bind_apply)
    next
      case (Ok logs)
      obtain rp s3 where pr: "raft_refresh_proposal lib rl logs s2 = (rp, s3)"
        by fastforce
      note s3 = keepsD [OF keeps_beside_refresh(2) [OF ok] s2(1) pr]
      show ?thesis
      proof (cases rp)
        case (Err e)
        then show ?thesis
          using c rc l Ok pr beside_recovered [OF s s3] by (simp add: refresh_tail_def bind_apply)
      qed (use c rc l Ok pr s s3 s2(2) [OF Ok] q in
        \<open>auto simp: refresh_tail_def bind_apply recovered_def db_beside_def memory_vote_def stored_ok_def same_setup_def
          simp del: split_paired_Ex\<close>)
    qed
  qed
qed

lemma raft_refresh_ok:
  assumes ok: "raft_lib_ok lib rl absd" and s: "stored_ok rl absd b0 p (sup_backend (rst_support s))"
  shows "recovered rl absd b0 p s (raft_refresh lib rl s)"
proof (cases "raft_get_proof lib rl (sup_backend (rst_support s))")
  case (Err e)
  then show ?thesis
    using s unfolding recovered_def by (auto simp: raft_refresh_eq bind_apply raft_read_support_def intro: exI [of _ "rst_support s"])
next
  case (Ok pf)
  define base where "base = (case pf of Some pf \<Rightarrow> (rap_log_index pf, rap_log_term pf) | None \<Rightarrow> (0, 0))"
  obtain r s1 where t: "refresh_term lib rl (snd base) s = (r, s1)"
    by fastforce
  obtain x where x: "s1 = s\<lparr>rst_support := x\<rparr>" "stored_ok rl absd b0 p (sup_backend x)"
      "\<And>q. r = Ok q \<Longrightarrow> stored_vote rl absd (sup_backend x) = Ok q"
    by (rule refresh_term_ok [OF ok s t]) blast
  have run: "raft_refresh lib rl s = (case r of Ok q \<Rightarrow> refresh_tail lib rl base q s1 | Err e \<Rightarrow> (Err e, s1))"
    using Ok t unfolding base_def by (simp add: raft_refresh_eq bind_apply raft_read_support_def Let_def)
  show ?thesis
  proof (cases r)
    case (Ok q)
    then have "recovered rl absd b0 p s1 (refresh_tail lib rl base q s1)"
      using x by (intro refresh_tail_ok [OF ok]) auto
    then show ?thesis
      using run Ok x(1) by (auto simp: recovered_def split: result.splits)
  qed (use run x in \<open>auto simp: recovered_def\<close>)
qed

section \<open>The storage operations\<close>

abbreviation any_vote :: "u64 \<times> address option \<Rightarrow> bool" where
  "any_vote \<equiv> (\<lambda>_. True)"

lemma rst_inv_mono: "rst_inv rl absd b0 p Q s \<Longrightarrow> (\<And>q. Q q \<Longrightarrow> Q' q) \<Longrightarrow> rst_inv rl absd b0 p Q' s"
  by (simp add: rst_inv_def)

lemma keeps_from_beside: "(\<And>s0. keeps (db_beside rl absd s0) m) \<Longrightarrow> keeps (rst_inv rl absd b0 p Q) m"
proof (unfold keeps_def, intro allI impI)
  fix s
  assume m: "\<And>s0. \<forall>s. db_beside rl absd s0 s \<longrightarrow> db_beside rl absd s0 (snd (m s))" and s: "rst_inv rl absd b0 p Q s"
  then have "db_beside rl absd s s"
    by (auto simp: db_beside_def rst_inv_def stored_ok_def same_setup_def intro: exI [of _ "rst_support s"])
  with m s show "rst_inv rl absd b0 p Q (snd (m s))"
    by (blast intro: rst_inv_beside)
qed

lemma keeps_update_others:
  assumes "raft_lib_ok lib rl absd"
  shows "keeps (rst_inv rl absd b0 p Q) (update_commit_log_index lib rl i)" "keeps (rst_inv rl absd b0 p Q) (update_proposal lib rl pr)"
  unfolding update_commit_log_index_def update_proposal_def
  by (intro keeps_rules keeps_from_beside keeps_beside_put raft_lib_okD [OF assms]; simp add: rst_inv_def memory_vote_def)+

lemma keeps_write_logs:
  assumes "raft_lib_ok lib rl absd"
  shows "keeps (rst_inv rl absd b0 p Q) (bind (ask rst_logs) (\<lambda>logs. raft_commit_consensus_data lib (put_consensus_data (rl_logs rl) DB_KEY_LOGS logs)))"
  by (intro keeps_bind_ask keeps_from_beside keeps_beside_logs raft_lib_okD [OF assms]) (simp add: rst_inv_def log_wf_own)

lemma keeps_log_entries:
  assumes "raft_lib_ok lib rl absd"
  shows "keeps (rst_inv rl absd b0 p Q) (append_log_entries lib rl es)" "keeps (rst_inv rl absd b0 p Q) (delete_log_entries lib rl R)"
  unfolding append_log_entries_def delete_log_entries_def
  by (intro keeps_bind keeps_modify keeps_write_logs [OF assms];
      simp add: rst_inv_def memory_vote_def log_wf_without log_wf_extend own_indexes_entries)+

lemma keeps_raft_refresh:
  assumes "raft_lib_ok lib rl absd"
  shows "keeps (rst_inv rl absd b0 p any_vote) (raft_refresh lib rl)"
proof (unfold keeps_def, intro allI impI)
  fix s
  assume s: "rst_inv rl absd b0 p any_vote s"
  obtain r s' where run: "raft_refresh lib rl s = (r, s')"
    by fastforce
  have "recovered rl absd b0 (memory_vote s) s (r, s')"
    using raft_refresh_ok [OF assms] s run by (metis rst_inv_def)
  then show "rst_inv rl absd b0 p any_vote (snd (raft_refresh lib rl s))"
    using s run by (cases r)
      (auto simp: recovered_def rst_inv_def memory_vote_def stored_ok_def intro: vote_kept_refl vote_kept_trans simp del: vote_kept.simps)
qed

text \<open>The term and the vote are changed by two writes; in between the vote is still the one of the term before.\<close>

definition rst_mid :: "raft_lib \<Rightarrow> ('d \<Rightarrow> string \<Rightarrow> bytes \<Rightarrow> bytes option) \<Rightarrow> ('d, 'kp, 'ver) backend \<Rightarrow> u64 \<times> address option \<Rightarrow> u64
    \<Rightarrow> ('d, 'kp, 'ver) raft_storage \<Rightarrow> bool" where
  "rst_mid rl absd b0 p t s \<longleftrightarrow> same_setup b0 (sup_backend (rst_support s)) \<and> stored_log_ok rl absd (sup_backend (rst_support s)) \<and>
     log_wf (rst_logs s) \<and> rst_current_term s = t \<and> cell absd (sup_backend (rst_support s)) CONSENSUS DB_KEY_CURRENT_TERM = Some (enc (rl_u64 rl) t) \<and>
     (\<forall>v. vote_kept p (t, v))"

lemma update_term_mid:
  assumes ok: "raft_lib_ok lib rl absd" and s: "rst_inv rl absd b0 p (\<lambda>q. fst q < t) s"
  obtains s' where "update_current_term lib rl t s = (Ok (), s')" "rst_mid rl absd b0 p t s'"
proof (rule raft_put_eq [OF raft_lib_okD(1) [OF ok], of "rl_u64 rl" DB_KEY_CURRENT_TERM t s])
  fix x
  assume x: "raft_commit_consensus_data lib (put_consensus_data (rl_u64 rl) DB_KEY_CURRENT_TERM t) s = (Ok (), s\<lparr>rst_support := x\<rparr>)"
    "same_setup (sup_backend (rst_support s)) (sup_backend x)"
    "\<And>k. cell absd (sup_backend x) CONSENSUS k = (if k = DB_KEY_CURRENT_TERM then Some (enc (rl_u64 rl) t)
       else cell absd (sup_backend (rst_support s)) CONSENSUS k)"
  have "\<forall>v. vote_kept p (t, v)"
    using s by (auto simp: rst_inv_def memory_vote_def intro: vote_kept_later)
  then show thesis
    using s x by (intro that [of "s\<lparr>rst_support := x, rst_current_term := t\<rparr>"])
      (auto simp: update_current_term_def bind_apply rst_mid_def rst_inv_def stored_ok_def stored_log_ok_def same_setup_def)
qed

lemma update_vote_mid:
  assumes ok: "raft_lib_ok lib rl absd" and s: "rst_mid rl absd b0 p t s"
  obtains s' where "update_current_voted_for lib rl v s = (Ok (), s')" "rst_inv rl absd b0 p ((=) (t, v)) s'"
proof (rule raft_put_eq [OF raft_lib_okD(1) [OF ok], of "rl_voted_for rl" DB_KEY_CURRENT_VOTED_FOR v s])
  fix x
  assume x: "raft_commit_consensus_data lib (put_consensus_data (rl_voted_for rl) DB_KEY_CURRENT_VOTED_FOR v) s = (Ok (), s\<lparr>rst_support := x\<rparr>)"
    "same_setup (sup_backend (rst_support s)) (sup_backend x)"
    "\<And>k. cell absd (sup_backend x) CONSENSUS k = (if k = DB_KEY_CURRENT_VOTED_FOR then Some (enc (rl_voted_for rl) v)
       else cell absd (sup_backend (rst_support s)) CONSENSUS k)"
  have "stored_vote rl absd (sup_backend x) = Ok (t, v)"
    using s x(3) raft_lib_okD(2,3) [OF ok] by (simp add: stored_vote_def rst_mid_def or_default_def)
  then show thesis
    using s x by (intro that [of "s\<lparr>rst_support := x, rst_current_voted_for := v\<rparr>"])
      (auto simp: update_current_voted_for_def bind_apply rst_mid_def rst_inv_def stored_ok_def stored_log_ok_def memory_vote_def same_setup_def)
qed

lemma update_vote_first:
  assumes ok: "raft_lib_ok lib rl absd" and s: "rst_inv rl absd b0 p ((=) (t, None)) s"
  obtains s' where "update_current_voted_for lib rl v s = (Ok (), s')" "rst_inv rl absd b0 p ((=) (t, v)) s'"
proof (rule raft_put_eq [OF raft_lib_okD(1) [OF ok], of "rl_voted_for rl" DB_KEY_CURRENT_VOTED_FOR v s])
  fix x
  assume x: "raft_commit_consensus_data lib (put_consensus_data (rl_voted_for rl) DB_KEY_CURRENT_VOTED_FOR v) s = (Ok (), s\<lparr>rst_support := x\<rparr>)"
    "same_setup (sup_backend (rst_support s)) (sup_backend x)"
    "\<And>k. cell absd (sup_backend x) CONSENSUS k = (if k = DB_KEY_CURRENT_VOTED_FOR then Some (enc (rl_voted_for rl) v)
       else cell absd (sup_backend (rst_support s)) CONSENSUS k)"
  have "\<exists>t'. stored_vote rl absd (sup_backend x) = Ok (t', v) \<and> t \<le> t'"
    using s x(3) raft_lib_okD(3) [OF ok]
    by (auto simp: stored_vote_def rst_inv_def stored_ok_def or_default_def and_then_eq_Ok memory_vote_def)
  then show thesis
    using s x by (intro that [of "s\<lparr>rst_support := x, rst_current_voted_for := v\<rparr>"])
      (auto simp: update_current_voted_for_def bind_apply rst_inv_def stored_ok_def stored_log_ok_def memory_vote_def same_setup_def
        intro: vote_kept_vote)
qed

end
