(* ===== verification/Raft_Invariant.thy ===== *)
theory Raft_Invariant
  imports Raft_Laws
begin

text \<open>
  The invariant of a Raft validator over its handlers: an operation that leaves the term and the vote alone keeps \<open>rf_inv p Q\<close> for every
  condition \<open>Q\<close> on them; the handlers that change them have the condition they need as a precondition.
\<close>

section \<open>The invariant of the stream\<close>

definition rf_inv :: "raft_lib \<Rightarrow> ('d \<Rightarrow> string \<Rightarrow> bytes \<Rightarrow> bytes option) \<Rightarrow> ('d, 'kp, 'ver) backend \<Rightarrow> u64 \<times> address option
    \<Rightarrow> (u64 \<times> address option \<Rightarrow> bool) \<Rightarrow> ('d, 'kp, 'ver) raft \<Rightarrow> bool" where
  "rf_inv rl absd b0 p Q s \<longleftrightarrow> rst_inv rl absd b0 p Q (rf_store s) \<and>
     pred_option (\<lambda>x. only_col META_STATE (cb_meta_transaction x)) (rf_commit_block_params s)"

definition raft_world_ok :: "('d, 't) raft_world \<Rightarrow> raft_lib \<Rightarrow> ('d \<Rightarrow> string \<Rightarrow> bytes \<Rightarrow> bytes option) \<Rightarrow> ('d, 'kp, 'ver) backend \<Rightarrow> bool" where
  "raft_world_ok w rl absd b0 \<longleftrightarrow> rw_rl w = rl \<and> raft_lib_ok (rw_lib w) rl absd \<and> sd_column (bk_meta_statedb b0) = META_STATE"

named_theorems rf_keeps \<open>the operations that keep the invariant of the stream\<close>

lemma rf_inv_mono: "rf_inv rl absd b0 p Q s \<Longrightarrow> (\<And>q. Q q \<Longrightarrow> Q' q) \<Longrightarrow> rf_inv rl absd b0 p Q' s"
  by (simp add: rf_inv_def rst_inv_def)

lemma keeps_raft_on_support:
  assumes "\<And>m. keeps (\<lambda>x. supp_frame absd b0 m (sup_backend x)) f"
  shows "keeps (rst_inv rl absd b0 p Q) (raft_on_support f)"
proof (unfold keeps_def, intro allI impI)
  fix s
  assume s: "rst_inv rl absd b0 p Q s"
  obtain r x where run: "f (rst_support s) = (r, x)"
    by (cases "f (rst_support s)")
  have "supp_frame absd b0 (cell absd (sup_backend (rst_support s)) CONSENSUS) (sup_backend (rst_support s))"
    using s by (simp add: supp_frame_def rst_inv_def stored_ok_def)
  then have x: "supp_frame absd b0 (cell absd (sup_backend (rst_support s)) CONSENSUS) (sup_backend x)"
    using assms run by (metis (mono_tags, lifting) keepsD)
  show "rst_inv rl absd b0 p Q (snd (raft_on_support f s))"
    using s x by (simp add: raft_on_support_def run rst_inv_def stored_ok_def stored_log_ok_def stored_vote_def memory_vote_def supp_frame_def)
qed

lemma keeps_raft_on_storage: "keeps (rst_inv rl absd b0 p Q) m \<Longrightarrow> keeps (rf_inv rl absd b0 p Q) (raft_on_storage m)"
  by (auto simp: keeps_def raft_on_storage_def rf_inv_def split: prod.splits)

lemma keeps_rf_store [rf_keeps]:
  assumes "raft_world_ok w rl absd b0"
  shows "keeps (rf_inv rl absd b0 p Q) (raft_on_storage (update_commit_log_index (rw_lib w) (rw_rl w) i))"
    "keeps (rf_inv rl absd b0 p Q) (raft_on_storage (update_proposal (rw_lib w) (rw_rl w) pr))"
    "keeps (rf_inv rl absd b0 p Q) (raft_on_storage (append_log_entries (rw_lib w) (rw_rl w) es))"
    "keeps (rf_inv rl absd b0 p Q) (raft_on_storage (delete_log_entries (rw_lib w) (rw_rl w) R))"
    "keeps (rf_inv rl absd b0 p any_vote) (raft_on_storage (raft_refresh (rw_lib w) (rw_rl w)))"
  using assms unfolding raft_world_ok_def
  by (auto intro!: keeps_raft_on_storage keeps_update_others keeps_log_entries keeps_raft_refresh)

lemma keeps_rf_supports [rf_keeps]:
  assumes "raft_world_ok w rl absd b0"
  shows "only_col META_STATE (cb_meta_transaction x) \<Longrightarrow>
      keeps (rf_inv rl absd b0 p Q) (raft_on_storage (raft_on_support (support_commit_block (rw_lib w) now x)))"
    "keeps (rf_inv rl absd b0 p Q) (raft_on_storage (raft_on_support (txpool_remove_transactions hs)))"
    "keeps (rf_inv rl absd b0 p Q) (raft_on_storage (raft_on_support (prepare_block (rw_lib w) t)))"
  using assms unfolding raft_world_ok_def
  by (auto intro!: keeps_raft_on_storage keeps_raft_on_support keeps_support_commit_block keeps_txpool_remove keeps_prepare_block
      dest: raft_lib_okD)

lemma keeps_rf_instants [rf_keeps]:
  "keeps (rf_inv rl absd b0 p Q) (update_next_election_instant w e h)" "keeps (rf_inv rl absd b0 p Q) (next_election_instant w)"
  "keeps (rf_inv rl absd b0 p Q) (raft_update_state role)" "keeps (rf_inv rl absd b0 p Q) (raft_update_current_leader a)"
  unfolding update_next_election_instant_def next_election_instant_def raft_update_state_def raft_update_current_leader_def Let_def
  by (intro keeps_rules; simp add: rf_inv_def)+

lemma keeps_rf_latency [rf_keeps]:
  "keeps (rf_inv rl absd b0 p Q) (update_sync_latency w n)" "keeps (rf_inv rl absd b0 p Q) (raft_start_work w)"
  unfolding update_sync_latency_def raft_start_work_def by (intro keeps_rules rf_keeps; simp add: rf_inv_def)+

lemma keeps_rf_send_out [rf_keeps]:
  "keeps (rf_inv rl absd b0 p Q) (raft_send_out_message i m)" "keeps (rf_inv rl absd b0 p Q) raft_take_request_id"
  by (auto simp: keeps_def raft_send_out_message_def raft_take_request_id_def rf_inv_def bind_apply)

lemma keeps_rf_requests [rf_keeps]:
  "keeps (rf_inv rl absd b0 p Q) (raft_request w i rq)" "keeps (rf_inv rl absd b0 p Q) (raft_response w i rs)"
  unfolding raft_request_def raft_response_def by (intro keeps_rules rf_keeps)+

lemma keeps_rf_request_validator [rf_keeps]: "keeps (rf_inv rl absd b0 p Q) (raft_request_validator w a rq)"
  unfolding raft_request_validator_def by (intro keeps_rules rf_keeps)

lemma keeps_rf_messages_out [rf_keeps]:
  "keeps (rf_inv rl absd b0 p Q) (raft_register_validator w i)" "keeps (rf_inv rl absd b0 p Q) (send_append_entries w a ae)"
  "keeps (rf_inv rl absd b0 p Q) (send_request_vote w a rv)" "keeps (rf_inv rl absd b0 p Q) (raft_request_proposal w a rp)"
  "keeps (rf_inv rl absd b0 p Q) (raft_internal_send im)"
  unfolding raft_register_validator_def send_append_entries_def send_request_vote_def raft_request_proposal_def raft_internal_send_def
  by (intro keeps_rules rf_keeps; simp add: rf_inv_def)+

section \<open>Proposals\<close>

lemma built_by_raft:
  assumes "raft_world_ok w rl absd b0" "rf_inv rl absd b0 p Q s" "build_block (rw_lib w) bb (rf_backend s) = Ok x"
  shows "only_col META_STATE (cb_meta_transaction x)"
proof -
  have wb: "well_behaved (cl_dispatcher (rw_lib w))"
    using assms(1) raft_lib_okD(5) by (auto simp: raft_world_ok_def)
  have "only_col (sd_column (bk_meta_statedb (rf_backend s))) (cb_meta_transaction x)"
    by (rule build_block_Ok [OF wb assms(3)])
  then show ?thesis
    using assms(1,2) by (simp add: raft_world_ok_def rf_inv_def rst_inv_def stored_ok_def same_setup_def)
qed

lemma raft_verified_builds:
  assumes "raft_verify_proposal lib pr b = Ok (pr', x)"
  obtains bb where "build_block lib bb b = Ok x"
  using assms by (auto simp: raft_verify_proposal_def raft_verify_header_def verify_header_def Let_def and_then_eq_Ok case_prod_unfold split: if_splits)

lemma raft_verify_result_Ok: "raft_on_proposal_verify_result r = Ok (RaftVerifyOk pr x) \<Longrightarrow> r = Ok (pr, x)"
proof (cases r)
  case (Err e)
  assume "raft_on_proposal_verify_result r = Ok (RaftVerifyOk pr x)"
  then show ?thesis
    using Err by (cases e) (auto simp: raft_on_proposal_verify_result_def split: raft_error.splits elim: raft_on_proposal_verify_err.elims)
qed (auto simp: raft_on_proposal_verify_result_def split: prod.splits)

lemma keeps_rf_params:
  assumes "only_col META_STATE (cb_meta_transaction x)"
  shows "keeps (rf_inv rl absd b0 p Q) (modify (\<lambda>s. s\<lparr>rf_commit_block_params := Some x\<rparr>))"
  using assms by (intro keeps_modify) (simp add: rf_inv_def)

lemma keeps_rf_on_proposal [rf_keeps]:
  assumes "raft_world_ok w rl absd b0"
  shows "keeps (rf_inv rl absd b0 p Q) (raft_on_proposal w pr)"
  unfolding raft_on_proposal_def
proof (rule keeps_bind_query)
  fix s a
  assume s: "rf_inv rl absd b0 p Q s" and a: "raft_on_proposal_verify_result (raft_verify_proposal (rw_lib w) pr (rf_backend s)) = Ok a"
  show "keeps (rf_inv rl absd b0 p Q) (case a of
      RaftVerifyOk pr commit_block_params \<Rightarrow> bind (modify (\<lambda>s. s\<lparr>rf_commit_block_params := Some commit_block_params\<rparr>)) (\<lambda>_.
        raft_on_storage (update_proposal (rw_lib w) (rw_rl w) (Some pr)))
    | RaftVerifyWait \<Rightarrow> modify (\<lambda>s. s\<lparr>rf_pending_proposal := Some pr\<rparr>) | RaftVerifyDiscard \<Rightarrow> ret ())"
  proof (cases a)
    case (RaftVerifyOk pr' x)
    from raft_verify_result_Ok [OF a [unfolded RaftVerifyOk]] obtain bb where "build_block (rw_lib w) bb (rf_backend s) = Ok x"
      by (rule raft_verified_builds)
    from built_by_raft [OF assms s this] RaftVerifyOk show ?thesis
      by (auto intro!: keeps_rules keeps_rf_params rf_keeps assms)
  qed (auto intro!: keeps_modify simp: rf_inv_def)
qed

lemma keeps_rf_accord [rf_keeps]:
  assumes "raft_world_ok w rl absd b0"
  shows "keeps (rf_inv rl absd b0 p Q) (accord_proposals w h)"
  unfolding accord_proposals_def by (intro keeps_rules rf_keeps assms; simp add: rf_inv_def)

lemma keeps_rf_perform_append [rf_keeps]:
  assumes "raft_world_ok w rl absd b0"
  shows "keeps (rf_inv rl absd b0 p Q) (perform_append_entries w a rq)"
  unfolding perform_append_entries_def Let_def by (intro keeps_rules rf_keeps assms; simp add: rf_inv_def)

lemma keeps_rf_res_proposal [rf_keeps]:
  assumes "raft_world_ok w rl absd b0"
  shows "keeps (rf_inv rl absd b0 p Q) (raft_on_res_request_proposal w a rs)" "keeps (rf_inv rl absd b0 p Q) (raft_on_req_request_proposal w a rq)"
proof -
  have later: "keeps (rf_inv rl absd b0 p Q) (bind (update_next_election_instant w 0 False) (\<lambda>_. lift_result r))" for r :: "unit common_result"
    by (intro keeps_rules rf_keeps)
  have "keeps (rf_inv rl absd b0 p Q) (\<lambda>s. case raft_on_proposal w pr s of
         (Err (Panic m), s) \<Rightarrow> (Err (Panic m), s)
       | (r, s) \<Rightarrow> bind (update_next_election_instant w 0 False) (\<lambda>_. lift_result r) s)" for pr
    using keeps_rf_on_proposal [OF assms, of p Q pr] later
    unfolding keeps_def by (auto split: prod.splits result.splits common_error.splits)
  then show "keeps (rf_inv rl absd b0 p Q) (raft_on_res_request_proposal w a rs)"
    unfolding raft_on_res_request_proposal_def by (intro keeps_rules rf_keeps)
  show "keeps (rf_inv rl absd b0 p Q) (raft_on_req_request_proposal w a rq)"
    unfolding raft_on_req_request_proposal_def Let_def by (intro keeps_rules rf_keeps)
qed

lemma keeps_rf_register [rf_keeps]:
  "keeps (rf_inv rl absd b0 p Q) (raft_on_req_register_validator w i rq)" "keeps (rf_inv rl absd b0 p Q) (raft_on_res_register_validator i rs)"
  "keeps (rf_inv rl absd b0 p Q) (raft_on_network_protocol_open w i n n')" "keeps (rf_inv rl absd b0 p Q) (raft_on_network_protocol_close i)"
  "keeps (rf_inv rl absd b0 p Q) raft_pop_internal"
  unfolding raft_on_req_register_validator_def raft_on_res_register_validator_def raft_on_network_protocol_open_def raft_on_network_protocol_close_def
  by (intro keeps_rules rf_keeps; simp add: rf_inv_def)+
    (simp add: keeps_def raft_pop_internal_def rf_inv_def split: list.splits)

section \<open>Committing\<close>

lemma take_params_ok:
  assumes "raft_world_ok w rl absd b0" "rf_inv rl absd b0 p Q s" "take_commit_block_params w h pr s = (Ok x, s')"
  shows "only_col META_STATE (cb_meta_transaction x)"
  using assms(2,3)
  by (auto simp: take_commit_block_params_def bind_apply rf_inv_def and_then_eq_Ok split: option.splits if_splits result.splits
      intro!: built_by_raft [OF assms(1,2)])

lemma keeps_rf_log_updated [rf_keeps]:
  assumes "raft_world_ok w rl absd b0"
  shows "keeps (rf_inv rl absd b0 p Q) (on_log_updated w)"
proof -
  have take: "keeps (rf_inv rl absd b0 p Q) (take_commit_block_params w h pr)" for h pr
    unfolding take_commit_block_params_def by (intro keeps_rules; simp add: rf_inv_def)
  have commit: "keeps (rf_inv rl absd b0 p Q) (raft_on_storage (raft_on_support (support_commit_block (rw_lib w) (rw_now w) (x\<lparr>cb_proof := pf\<rparr>))))"
    if "only_col META_STATE (cb_meta_transaction x)" for x pf
    by (rule keeps_rf_supports(1) [OF assms]) (simp add: that)
  show ?thesis
    unfolding on_log_updated_def Let_def case_prod_unfold
  proof (rule keeps_bind [OF keeps_ask], rule keeps_option, rule keeps_ret, rule keeps_bind [OF keeps_query], rule keeps_bind_post [OF take])
    fix h pr s x s'
    assume "rf_inv rl absd b0 p Q s" "take_commit_block_params w h pr s = (Ok x, s')"
    then have "only_col META_STATE (cb_meta_transaction x)"
      by (rule take_params_ok [OF assms])
    then show "keeps (rf_inv rl absd b0 p Q) (bind (ask (\<lambda>s. get_last_log_index_term (rf_store s))) (\<lambda>q.
         bind (query (\<lambda>s. raft_proof_new (rw_rl w) (cb_block_hash x) (fst q) (snd q) (rf_secret_key s) (xe_dsa (rf_executor s)))) (\<lambda>pf.
         bind (lift_result (raft_proof_into (rw_rl w) pf)) (\<lambda>pf.
         bind (raft_on_storage (raft_on_support (support_commit_block (rw_lib w) (rw_now w) (x\<lparr>cb_proof := pf\<rparr>)))) (\<lambda>_.
         raft_on_storage (raft_on_support (txpool_remove_transactions
           (remdups (body_meta_txs (cb_body (x\<lparr>cb_proof := pf\<rparr>)) @ body_payload_txs (cb_body (x\<lparr>cb_proof := pf\<rparr>)))))))))))"
      by (intro keeps_rules commit keeps_rf_supports(2) [OF assms])
  qed
qed

lemma keeps_rf_block_committed [rf_keeps]:
  assumes "raft_world_ok w rl absd b0"
  shows "keeps (rf_inv rl absd b0 p any_vote) (raft_on_block_committed w n h)"
  unfolding raft_on_block_committed_def by (intro keeps_rules rf_keeps assms; simp add: rf_inv_def)

section \<open>New terms and votes\<close>

definition rf_mid :: "raft_lib \<Rightarrow> ('d \<Rightarrow> string \<Rightarrow> bytes \<Rightarrow> bytes option) \<Rightarrow> ('d, 'kp, 'ver) backend \<Rightarrow> u64 \<times> address option
    \<Rightarrow> u64 \<Rightarrow> ('d, 'kp, 'ver) raft \<Rightarrow> bool" where
  "rf_mid rl absd b0 p t s \<longleftrightarrow> rst_mid rl absd b0 p t (rf_store s) \<and>
     pred_option (\<lambda>x. only_col META_STATE (cb_meta_transaction x)) (rf_commit_block_params s)"

lemma rf_update_term:
  assumes "raft_world_ok w rl absd b0" "rf_inv rl absd b0 p (\<lambda>q. fst q < t) s"
  shows "\<exists>x s'. raft_on_storage (update_current_term (rw_lib w) (rw_rl w) t) s = (Ok x, s') \<and> rf_mid rl absd b0 p t s'"
proof -
  obtain s' where "update_current_term (rw_lib w) (rw_rl w) t (rf_store s) = (Ok (), s')" "rst_mid rl absd b0 p t s'"
    by (rule update_term_mid [of "rw_lib w" rl absd b0 p t "rf_store s"]) (use assms in \<open>auto simp: raft_world_ok_def rf_inv_def\<close>)
  then show ?thesis
    using assms by (auto simp: raft_on_storage_def rf_mid_def rf_inv_def)
qed

lemma rf_update_vote:
  assumes "raft_world_ok w rl absd b0" "rf_mid rl absd b0 p t s"
  shows "\<exists>x s'. raft_on_storage (update_current_voted_for (rw_lib w) (rw_rl w) v) s = (Ok x, s') \<and> rf_inv rl absd b0 p ((=) (t, v)) s'"
proof -
  obtain s' where "update_current_voted_for (rw_lib w) (rw_rl w) v (rf_store s) = (Ok (), s')" "rst_inv rl absd b0 p ((=) (t, v)) s'"
    by (rule update_vote_mid [of "rw_lib w" rl absd b0 p t "rf_store s" v]) (use assms in \<open>auto simp: raft_world_ok_def rf_mid_def\<close>)
  then show ?thesis
    using assms by (auto simp: raft_on_storage_def rf_mid_def rf_inv_def)
qed

lemma rf_first_vote:
  assumes "raft_world_ok w rl absd b0" "rf_inv rl absd b0 p ((=) (t, None)) s"
  shows "\<exists>x s'. raft_on_storage (update_current_voted_for (rw_lib w) (rw_rl w) v) s = (Ok x, s') \<and> rf_inv rl absd b0 p ((=) (t, v)) s'"
proof -
  obtain s' where "update_current_voted_for (rw_lib w) (rw_rl w) v (rf_store s) = (Ok (), s')" "rst_inv rl absd b0 p ((=) (t, v)) s'"
    by (rule update_vote_first [of "rw_lib w" rl absd b0 p t "rf_store s" v]) (use assms in \<open>auto simp: raft_world_ok_def rf_inv_def\<close>)
  then show ?thesis
    using assms by (auto simp: raft_on_storage_def rf_inv_def)
qed

lemma ensures_adopt_term:
  assumes w: "raft_world_ok w rl absd b0"
  shows "ensures (rf_inv rl absd b0 p (\<lambda>q. fst q < t)) (adopt_term w t) (rf_inv rl absd b0 p ((=) (t, None)))"
  unfolding adopt_term_def
proof (rule ensures_bind_Ok [OF rf_update_term [OF w]])
  show "ensures (rf_mid rl absd b0 p t) (raft_on_storage (update_current_voted_for (rw_lib w) (rw_rl w) None)) (rf_inv rl absd b0 p ((=) (t, None)))"
    using rf_update_vote [OF w, of p t _ None] by (fastforce simp: ensures_def)
qed assumption

lemma rf_inv_any: "rf_inv rl absd b0 p Q s \<Longrightarrow> rf_inv rl absd b0 p any_vote s"
  by (simp add: rf_inv_def rst_inv_def)

lemma rf_inv_fix: "rf_inv rl absd b0 p Q s \<Longrightarrow> Q' (memory_vote (rf_store s)) \<Longrightarrow> rf_inv rl absd b0 p Q' s"
  by (simp add: rf_inv_def rst_inv_def)

lemma keeps_rf_match_entries [rf_keeps]:
  assumes "raft_world_ok w rl absd b0"
  shows "keeps (rf_inv rl absd b0 p Q) (match_entries w a rq ct l)"
  unfolding match_entries_def by (cases "aeq_entries rq") (auto intro!: keeps_rules rf_keeps assms)

lemma ensures_adopt_any:
  assumes "raft_world_ok w rl absd b0" "ct < t"
  shows "ensures (rf_inv rl absd b0 p (\<lambda>q. fst q = ct)) (adopt_term w t) (rf_inv rl absd b0 p any_vote)"
  by (rule ensures_post [OF ensures_pre [OF ensures_adopt_term [OF assms(1)]] rf_inv_any]) (use assms(2) in \<open>auto elim!: rf_inv_mono\<close>)

lemma keeps_rf_append_entries [rf_keeps]:
  assumes w: "raft_world_ok w rl absd b0"
  shows "keeps (rf_inv rl absd b0 p any_vote) (on_req_append_entries w a rq)"
  unfolding on_req_append_entries_def keeps_ensures
proof (rule ensures_ask_at [where R = "\<lambda>x. rf_inv rl absd b0 p (\<lambda>q. fst q = snd x)"], simp_all only: case_prod_unfold, goal_cases)
  case (1 s)
  then show ?case
    by (rule rf_inv_fix) (simp add: memory_vote_def)
next
  case (2 x)
  have adopt: "ensures (rf_inv rl absd b0 p (\<lambda>q. fst q = snd x)) (if aeq_term rq \<noteq> snd x then adopt_term w (aeq_term rq) else ret ())
      (rf_inv rl absd b0 p any_vote)" if "\<not> aeq_term rq < snd x"
    using that by (intro ensures_if ensures_ret rf_inv_any ensures_adopt_any [OF w]) auto
  show ?case
    by (intro ensures_if ensures_ret ensures_bind [OF keeps_rf_instants(1) rf_inv_any] ensures_bind [OF keeps_rf_store(1) [OF w] rf_inv_any]
        ensures_seq [OF adopt] ensures_keeps [OF _ rf_inv_any] keeps_bind keeps_rf_instants keeps_rf_match_entries w) (auto intro: rf_inv_any)
qed

lemma ensures_first_vote:
  assumes "raft_world_ok w rl absd b0"
  shows "ensures (rf_inv rl absd b0 p (\<lambda>q. snd q = None)) (raft_on_storage (update_current_voted_for (rw_lib w) (rw_rl w) v))
    (rf_inv rl absd b0 p any_vote)"
  unfolding ensures_def
proof (intro allI impI)
  fix s
  assume "rf_inv rl absd b0 p (\<lambda>q. snd q = None) s"
  then have "rf_inv rl absd b0 p ((=) (rf_term s, None)) s"
    by (rule rf_inv_fix) (use \<open>rf_inv _ _ _ _ _ s\<close> in \<open>simp add: rf_inv_def rst_inv_def memory_vote_def\<close>)
  from rf_first_vote [OF assms this, of v]
  show "rf_inv rl absd b0 p any_vote (snd (raft_on_storage (update_current_voted_for (rw_lib w) (rw_rl w) v) s))"
    by (auto intro: rf_inv_any)
qed

lemma keeps_rf_decide_vote [rf_keeps]:
  assumes w: "raft_world_ok w rl absd b0"
  shows "keeps (rf_inv rl absd b0 p any_vote) (decide_vote w a rq ct)"
proof -
  have read: "keeps (rf_inv rl absd b0 p any_vote) (bind (ask (\<lambda>s. rst_current_voted_for (rf_store s))) (\<lambda>v. case v of
      Some x \<Rightarrow> ret (vote_res rq ct (x = a))
    | None \<Rightarrow> bind (raft_update_state RaftFollower) (\<lambda>_. bind (update_next_election_instant w 0 False) (\<lambda>_.
        bind (raft_on_storage (update_current_voted_for (rw_lib w) (rw_rl w) (Some a))) (\<lambda>_. ret (vote_res rq ct True))))))"
    unfolding keeps_ensures
  proof (rule ensures_ask_at [where R = "\<lambda>v. rf_inv rl absd b0 p (\<lambda>q. snd q = v)"])
    fix v
    show "ensures (rf_inv rl absd b0 p (\<lambda>q. snd q = v)) (case v of
        Some x \<Rightarrow> ret (vote_res rq ct (x = a))
      | None \<Rightarrow> bind (raft_update_state RaftFollower) (\<lambda>_. bind (update_next_election_instant w 0 False) (\<lambda>_.
          bind (raft_on_storage (update_current_voted_for (rw_lib w) (rw_rl w) (Some a))) (\<lambda>_. ret (vote_res rq ct True)))))
      (rf_inv rl absd b0 p any_vote)"
      by (cases v) (auto intro!: ensures_ret ensures_bind [OF keeps_rf_instants(3) rf_inv_any] ensures_bind [OF keeps_rf_instants(1) rf_inv_any]
          ensures_seq [OF ensures_first_vote [OF w]] intro: rf_inv_any)
  qed (rule rf_inv_fix, auto simp: memory_vote_def)
  show ?thesis
    unfolding decide_vote_def case_prod_unfold by (intro keeps_bind [OF keeps_ask] keeps_if keeps_ret read)
qed

lemma keeps_rf_request_vote [rf_keeps]:
  assumes w: "raft_world_ok w rl absd b0"
  shows "keeps (rf_inv rl absd b0 p any_vote) (on_req_request_vote w a rq)"
  unfolding on_req_request_vote_def keeps_ensures
proof (rule ensures_ask_at [where R = "\<lambda>x. rf_inv rl absd b0 p (\<lambda>q. fst q = fst x)"], simp_all only: case_prod_unfold, goal_cases)
  case (1 s)
  then show ?case
    by (rule rf_inv_fix) (simp add: memory_vote_def)
next
  case (2 x)
  have adopt: "ensures (rf_inv rl absd b0 p (\<lambda>q. fst q = fst x)) (if vq_term rq > fst x then
      bind (update_next_election_instant w 0 False) (\<lambda>_. bind (raft_update_state RaftFollower) (\<lambda>_. adopt_term w (vq_term rq))) else ret ())
      (rf_inv rl absd b0 p any_vote)"
    by (intro ensures_if ensures_ret rf_inv_any ensures_bind [OF keeps_rf_instants(1)] ensures_bind [OF keeps_rf_instants(3)] ensures_adopt_any [OF w])
  show ?case
    by (intro ensures_if ensures_ret ensures_seq [OF adopt] ensures_keeps [OF keeps_rf_decide_vote [OF w]]) (auto intro: rf_inv_any)
qed

section \<open>Messages\<close>

lemma keeps_rf_answers [rf_keeps]:
  "keeps (rf_inv rl absd b0 p Q) (on_res_append_entries a aes)" "keeps (rf_inv rl absd b0 p Q) (stream_on_res_request_vote a vs)"
  unfolding on_res_append_entries_def stream_on_res_request_vote_def by (rule rf_keeps)+

lemma keeps_rf_known_peer: "(\<And>a. keeps I (f a)) \<Longrightarrow> keeps I (raft_for_known_peer i f)"
  unfolding raft_for_known_peer_def by (intro keeps_rules)

lemma keeps_rf_network_message [rf_keeps]:
  assumes "raft_world_ok w rl absd b0"
  shows "keeps (rf_inv rl absd b0 p any_vote) (raft_on_network_message w i m)"
  unfolding raft_on_network_message_def
proof (rule keeps_bind [OF keeps_lift_result], goal_cases)
  case (1 x)
  show ?case
    by (cases x) (auto intro!: keeps_rules rf_keeps keeps_rf_known_peer assms)
qed

lemma keeps_rf_in_message [rf_keeps]:
  assumes "raft_world_ok w rl absd b0"
  shows "keeps (rf_inv rl absd b0 p any_vote) (raft_on_in_message w m)"
  unfolding raft_on_in_message_def by (cases m) (auto intro!: keeps_rules rf_keeps assms simp: rf_inv_def)

lemma keeps_rf_internal_message [rf_keeps]:
  assumes "raft_world_ok w rl absd b0"
  shows "keeps (rf_inv rl absd b0 p Q) (raft_on_internal_message w m)"
  unfolding raft_on_internal_message_def by (cases m) (auto intro!: keeps_rules rf_keeps assms)

lemma keeps_rf_turn_in [rf_keeps]:
  assumes "raft_world_ok w rl absd b0"
  shows "keeps (rf_inv rl absd b0 p any_vote) (raft_turn_in w m)"
  unfolding raft_turn_in_def by (cases m) (auto intro!: keeps_rules rf_keeps assms)

section \<open>The follower and the observer\<close>

lemma keeps_rf_authorities [rf_keeps]:
  "keeps (rf_inv rl absd b0 p Q) (follower_on_authorities_updated au)" "keeps (rf_inv rl absd b0 p Q) (observer_on_authorities_updated au)"
  "keeps (rf_inv rl absd b0 p Q) (candidate_on_authorities_updated au)"
  unfolding follower_on_authorities_updated_def observer_on_authorities_updated_def candidate_on_authorities_updated_def
  by (intro keeps_rules rf_keeps)+

lemma keeps_rf_turns:
  assumes "raft_world_ok w rl absd b0"
  shows "keeps (rf_inv rl absd b0 p any_vote) (follower_turn w ev)" "keeps (rf_inv rl absd b0 p any_vote) (raft_observer_turn w ev)"
  unfolding follower_turn_def raft_observer_turn_def
  by (cases ev; auto intro!: keeps_rules rf_keeps assms split: raft_internal_message.splits)+

section \<open>The leader\<close>

named_theorems ld_keeps \<open>the operations that keep the invariant of the stream of a leader\<close>

abbreviation rld_inv :: "raft_lib \<Rightarrow> ('d \<Rightarrow> string \<Rightarrow> bytes \<Rightarrow> bytes option) \<Rightarrow> ('d, 'kp, 'ver) backend \<Rightarrow> u64 \<times> address option
    \<Rightarrow> (u64 \<times> address option \<Rightarrow> bool) \<Rightarrow> ('d, 'kp, 'ver) raft_leader \<Rightarrow> bool" where
  "rld_inv rl absd b0 p Q l \<equiv> rf_inv rl absd b0 p Q (rld_stream l)"

lemma keeps_raft_on_stream: "keeps I m \<Longrightarrow> keeps (\<lambda>l. I (rld_stream l)) (raft_on_stream m)"
  by (auto simp: keeps_def raft_on_stream_def split: prod.splits)

lemma keeps_ld_tasks [ld_keeps]:
  "keeps (rld_inv rl absd b0 p Q) (add_replication a i t)" "keeps (rld_inv rl absd b0 p Q) (task_send n rm)"
  "keeps (rld_inv rl absd b0 p Q) (task_out ro)" "keeps (rld_inv rl absd b0 p Q) (set_task n rs)"
  unfolding add_replication_def task_send_def task_out_def set_task_def
  by (intro keeps_modify; simp split: option.split)+

lemma keeps_ld_commit [ld_keeps]:
  assumes "raft_world_ok w rl absd b0"
  shows "keeps (rld_inv rl absd b0 p Q) (on_maybe_commit w)"
  unfolding on_maybe_commit_def Let_def by (intro keeps_rules keeps_raft_on_stream rf_keeps assms)

lemma keeps_ld_update_match [ld_keeps]:
  assumes "raft_world_ok w rl absd b0"
  shows "keeps (rld_inv rl absd b0 p Q) (on_update_match_index w a i)"
  unfolding on_update_match_index_def by (intro keeps_rules ld_keeps assms) (simp split: option.split)

lemma keeps_ld_append [ld_keeps]:
  assumes "raft_world_ok w rl absd b0"
  shows "keeps (rld_inv rl absd b0 p Q) (leader_append_entries w es)"
  unfolding leader_append_entries_def case_prod_unfold by (intro keeps_rules keeps_raft_on_stream rf_keeps ld_keeps assms)

lemma keeps_ld_work [ld_keeps]:
  assumes w: "raft_world_ok w rl absd b0"
  shows "keeps (rld_inv rl absd b0 p Q) (raft_work w t)"
proof -
  have built: "keeps (rld_inv rl absd b0 p Q) (bind (query (\<lambda>l. build_block (rw_lib w) bb (rf_backend (rld_stream l)))) k)"
    if "\<And>x. only_col META_STATE (cb_meta_transaction x) \<Longrightarrow> keeps (rld_inv rl absd b0 p Q) (k x)"
    for bb k
    by (rule keeps_bind_query) (auto intro: that built_by_raft [OF w])
  show ?thesis
    unfolding raft_work_def Let_def
    by (intro keeps_bind [OF keeps_ask] keeps_if keeps_ret keeps_bind [OF keeps_raft_on_stream [OF keeps_rf_supports(3) [OF w]]] built
        keeps_bind [OF keeps_raft_on_stream [OF keeps_rf_params]] keeps_bind [OF keeps_raft_on_stream [OF keeps_rf_store(2) [OF w]]]
        keeps_ld_append [OF w])
qed

lemma keeps_ld_messages [ld_keeps]:
  assumes "raft_world_ok w rl absd b0"
  shows "keeps (rld_inv rl absd b0 p Q) (append_init_entry w)" "keeps (rld_inv rl absd b0 p Q) (raft_generate w)"
    "keeps (rld_inv rl absd b0 p Q) (leader_on_append_entries_res a rs)" "keeps (rld_inv rl absd b0 p Q) (replicate_turn n)"
    "keeps (rld_inv rl absd b0 p Q) (task_on_append_entries_res n st rs)"
  unfolding append_init_entry_def raft_generate_def leader_on_append_entries_res_def replicate_turn_def task_on_append_entries_res_def Let_def
  by (intro keeps_rules ld_keeps assms)+

lemma keeps_ld_out_message [ld_keeps]:
  assumes "raft_world_ok w rl absd b0"
  shows "keeps (rld_inv rl absd b0 p Q) (on_replication_out_message w m)"
  unfolding on_replication_out_message_def
  by (cases m) (auto intro!: keeps_rules keeps_raft_on_stream rf_keeps ld_keeps assms)

lemma keeps_ld_authorities [ld_keeps]: "keeps (rld_inv rl absd b0 p Q) (leader_on_authorities_updated au)"
  unfolding leader_on_authorities_updated_def case_prod_unfold
  by (intro keeps_rules keeps_raft_on_stream rf_keeps ld_keeps) simp

lemma keeps_ld_start:
  assumes "raft_world_ok w rl absd b0"
  shows "keeps (rld_inv rl absd b0 p Q) (raft_leader_start w)"
  unfolding raft_leader_start_def case_prod_unfold
  by (intro keeps_rules keeps_raft_on_stream rf_keeps ld_keeps assms) (simp_all add: rf_inv_def)

lemma keeps_ld_task_in [ld_keeps]:
  assumes "raft_world_ok w rl absd b0"
  shows "keeps (rld_inv rl absd b0 p Q) (task_in_turn n)"
  unfolding task_in_turn_def case_prod_unfold Let_def
  by (intro keeps_rules) (auto intro!: keeps_rules ld_keeps assms split: list.split replication_in_message.split)

lemma keeps_ld_turn:
  assumes "raft_world_ok w rl absd b0"
  shows "keeps (rld_inv rl absd b0 p any_vote) (raft_leader_turn w ev)"
  unfolding raft_leader_turn_def
  by (cases ev; auto intro!: keeps_rules keeps_raft_on_stream rf_keeps ld_keeps assms split: raft_internal_message.splits list.splits)

section \<open>The candidate\<close>

abbreviation cd_inv :: "raft_lib \<Rightarrow> ('d \<Rightarrow> string \<Rightarrow> bytes \<Rightarrow> bytes option) \<Rightarrow> ('d, 'kp, 'ver) backend \<Rightarrow> u64 \<times> address option
    \<Rightarrow> (u64 \<times> address option \<Rightarrow> bool) \<Rightarrow> ('d, 'kp, 'ver) candidate \<Rightarrow> bool" where
  "cd_inv rl absd b0 p Q c \<equiv> rf_inv rl absd b0 p Q (cd_stream c)"

lemma keeps_candidate_on_stream: "keeps I m \<Longrightarrow> keeps (\<lambda>c. I (cd_stream c)) (candidate_on_stream m)"
  by (auto simp: keeps_def candidate_on_stream_def split: prod.splits)

lemma ensures_candidate_on_stream: "ensures I m J \<Longrightarrow> ensures (\<lambda>c. I (cd_stream c)) (candidate_on_stream m) (\<lambda>c. J (cd_stream c))"
  by (auto simp: ensures_def candidate_on_stream_def split: prod.splits)

lemma candidate_on_stream_Ok:
  "(\<And>s. P s \<Longrightarrow> \<exists>x s'. m s = (Ok x, s') \<and> R s') \<Longrightarrow> P (cd_stream c) \<Longrightarrow> \<exists>x c'. candidate_on_stream m c = (Ok x, c') \<and> R (cd_stream c')"
  by (fastforce simp: candidate_on_stream_def)

lemma keeps_cd_leader: "keeps (cd_inv rl absd b0 p Q) on_maybe_become_leader"
  unfolding on_maybe_become_leader_def by (intro keeps_rules keeps_candidate_on_stream rf_keeps)

lemma keeps_cd_request_vote: "keeps (cd_inv rl absd b0 p Q) (request_vote w)"
  unfolding request_vote_def case_prod_unfold
  by (intro keeps_rules keeps_candidate_on_stream rf_keeps keeps_cd_leader) simp

lemma keeps_cd_res_vote:
  assumes w: "raft_world_ok w rl absd b0"
  shows "keeps (cd_inv rl absd b0 p any_vote) (candidate_on_res_request_vote w a rs)"
proof -
  have answer: "keeps (cd_inv rl absd b0 p any_vote) (bind (ask (\<lambda>c. rf_term (cd_stream c))) (\<lambda>t.
       if vs_term rs > t then
         bind (candidate_on_stream (raft_update_current_leader None)) (\<lambda>_.
         bind (candidate_on_stream (raft_update_state RaftFollower)) (\<lambda>_.
         candidate_on_stream (adopt_term w (vs_term rs))))
       else if vs_vote_granted rs then
         bind (modify (\<lambda>c. if a \<in> set (ra_members (rf_authorities (cd_stream c)))
           then c\<lparr>cd_votes_granted := cd_votes_granted c + 1\<rparr> else c)) (\<lambda>_.
         on_maybe_become_leader)
       else ret ()))"
    unfolding keeps_ensures
  proof (rule ensures_ask_at [where R = "\<lambda>t. cd_inv rl absd b0 p (\<lambda>q. fst q = t)"], goal_cases)
    case (1 s)
    then show ?case
      by (rule rf_inv_fix) (simp add: memory_vote_def)
  next
    case (2 t)
    show ?case
      by (intro ensures_if ensures_bind [OF keeps_candidate_on_stream [OF keeps_rf_instants(4)] rf_inv_any]
          ensures_bind [OF keeps_candidate_on_stream [OF keeps_rf_instants(3)] rf_inv_any]
          ensures_candidate_on_stream [OF ensures_adopt_any [OF w]] ensures_keeps [OF _ rf_inv_any] keeps_rules keeps_cd_leader)
        simp_all
  qed
  show ?thesis
    unfolding candidate_on_res_request_vote_def
    by (intro keeps_bind [OF keeps_ask] keeps_if keeps_ret keeps_bind [OF keeps_modify] answer) simp
qed

text \<open>A new round has the next term, unless the term is the last one.\<close>

lemma ensures_cd_round:
  assumes w: "raft_world_ok w rl absd b0"
  shows "ensures (cd_inv rl absd b0 p (\<lambda>q. fst q \<noteq> - 1)) (candidate_round w) (cd_inv rl absd b0 p any_vote)"
proof -
  let ?last = "\<lambda>q :: u64 \<times> address option. fst q \<noteq> - 1"
  have vote: "ensures (\<lambda>c. rf_mid rl absd b0 p t (cd_stream c)) (bind (ask (\<lambda>c. rf_address (cd_stream c))) (\<lambda>own.
      bind (candidate_on_stream (raft_on_storage (update_current_voted_for (rw_lib w) (rw_rl w) (Some own)))) (\<lambda>_. request_vote w)))
      (cd_inv rl absd b0 p any_vote)" for t
  proof (rule ensures_bind_ask, rule ensures_bind_Ok)
    fix c own s
    show "rf_mid rl absd b0 p t (cd_stream s) \<Longrightarrow> \<exists>x s'. candidate_on_stream (raft_on_storage (update_current_voted_for (rw_lib w) (rw_rl w)
        (Some (rf_address (cd_stream c))))) s = (Ok x, s') \<and> cd_inv rl absd b0 p ((=) (t, Some (rf_address (cd_stream c)))) s'"
      by (rule candidate_on_stream_Ok [OF rf_update_vote [OF w]])
  qed (rule ensures_keeps [OF keeps_cd_request_vote rf_inv_any])
  have round: "ensures (cd_inv rl absd b0 p ?last) (bind (ask (\<lambda>c. rf_term (cd_stream c))) (\<lambda>t.
      bind (candidate_on_stream (raft_on_storage (update_current_term (rw_lib w) (rw_rl w) (t + 1)))) (\<lambda>_.
      bind (ask (\<lambda>c. rf_address (cd_stream c))) (\<lambda>own.
      bind (candidate_on_stream (raft_on_storage (update_current_voted_for (rw_lib w) (rw_rl w) (Some own)))) (\<lambda>_. request_vote w)))))
      (cd_inv rl absd b0 p any_vote)"
  proof (rule ensures_ask_at [where R = "\<lambda>t. cd_inv rl absd b0 p (\<lambda>q. fst q < t + 1)"])
    fix s
    assume s: "cd_inv rl absd b0 p ?last s"
    then have "rf_term (cd_stream s) + 1 \<noteq> 0"
      by (auto simp: rf_inv_def rst_inv_def memory_vote_def eq_neg_iff_add_eq_0)
    then show "cd_inv rl absd b0 p (\<lambda>q. fst q < rf_term (cd_stream s) + 1) s"
      by (intro rf_inv_fix [OF s]) (simp add: memory_vote_def word_less_Suc)
  next
    fix t
    show "ensures (cd_inv rl absd b0 p (\<lambda>q. fst q < t + 1)) (bind (candidate_on_stream (raft_on_storage (update_current_term (rw_lib w) (rw_rl w) (t + 1)))) (\<lambda>_.
      bind (ask (\<lambda>c. rf_address (cd_stream c))) (\<lambda>own.
      bind (candidate_on_stream (raft_on_storage (update_current_voted_for (rw_lib w) (rw_rl w) (Some own)))) (\<lambda>_. request_vote w))))
      (cd_inv rl absd b0 p any_vote)"
      by (rule ensures_bind_Ok [OF candidate_on_stream_Ok [OF rf_update_term [OF w]] vote])
  qed
  show ?thesis
    unfolding candidate_round_def
    by (intro ensures_bind [OF keeps_modify] ensures_bind [OF keeps_candidate_on_stream [OF keeps_rf_instants(1)] rf_inv_any]
        ensures_bind [OF keeps_candidate_on_stream [OF keeps_rf_instants(4)] rf_inv_any] round) (simp_all add: rf_inv_any)
qed

lemma ensures_cd_turn:
  assumes w: "raft_world_ok w rl absd b0"
  shows "ensures (cd_inv rl absd b0 p (\<lambda>q. fst q \<noteq> - 1)) (candidate_turn w ev) (cd_inv rl absd b0 p any_vote)"
proof -
  have other: "keeps (cd_inv rl absd b0 p any_vote) m \<Longrightarrow> ensures (cd_inv rl absd b0 p (\<lambda>q. fst q \<noteq> - 1)) m (cd_inv rl absd b0 p any_vote)" for m
    by (rule ensures_pre [of "cd_inv rl absd b0 p any_vote"]) (auto simp: keeps_ensures intro: rf_inv_any)
  show ?thesis
    unfolding candidate_turn_def
  proof (rule ensures_bind [OF keeps_candidate_on_stream [OF keeps_rf_instants(2)] rf_inv_any], assumption, goal_cases)
    case (1 x)
    show ?case
      by (cases ev) (auto intro!: ensures_if ensures_cd_round [OF w] other keeps_rules keeps_candidate_on_stream rf_keeps keeps_cd_res_vote w
          split: raft_internal_message.splits intro: rf_inv_any)
  qed
qed

end
