(* ===== verification/Raft_Runs.thy ===== *)
theory Raft_Runs
  imports Raft_Invariant
begin

text \<open>
  The runs of a Raft validator: \<open>raft_run m m'\<close> holds when the validator gets from \<open>m\<close> to \<open>m'\<close>, whatever messages, timers and random numbers
  come, however the chain and the pool change beside it, and also when it is stopped and started again on what it left. A run does not
  go beyond the last term, from which the term would wrap around.
\<close>

section \<open>Machines\<close>

fun raft_stream_of :: "('d, 'kp, 'ver) raft_machine \<Rightarrow> ('d, 'kp, 'ver) raft" where
  "raft_stream_of (RaftBetween s) = s"
| "raft_stream_of (Leads l) = rld_stream l"
| "raft_stream_of (Campaigns c) = cd_stream c"
| "raft_stream_of (Follows s) = s"
| "raft_stream_of (Observes s) = s"
| "raft_stream_of (RaftFinished r s) = s"

fun map_stream :: "(('d, 'kp, 'ver) raft \<Rightarrow> ('d, 'kp, 'ver) raft) \<Rightarrow> ('d, 'kp, 'ver) raft_machine \<Rightarrow> ('d, 'kp, 'ver) raft_machine" where
  "map_stream f (RaftBetween s) = RaftBetween (f s)"
| "map_stream f (Leads l) = Leads (l\<lparr>rld_stream := f (rld_stream l)\<rparr>)"
| "map_stream f (Campaigns c) = Campaigns (c\<lparr>cd_stream := f (cd_stream c)\<rparr>)"
| "map_stream f (Follows s) = Follows (f s)"
| "map_stream f (Observes s) = Observes (f s)"
| "map_stream f (RaftFinished r s) = RaftFinished r (f s)"

lemma raft_stream_of_map [simp]: "raft_stream_of (map_stream f m) = f (raft_stream_of m)"
  by (cases m) auto

abbreviation machine_vote :: "('d, 'kp, 'ver) raft_machine \<Rightarrow> u64 \<times> address option" where
  "machine_vote m \<equiv> memory_vote (rf_store (raft_stream_of m))"

definition set_support :: "('d, 'kp, 'ver) support \<Rightarrow> ('d, 'kp, 'ver) raft \<Rightarrow> ('d, 'kp, 'ver) raft" where
  "set_support x s = s\<lparr>rf_store := (rf_store s)\<lparr>rst_support := x\<rparr>\<rparr>"

text \<open>A validator that has just been started on a support.\<close>

definition raft_started :: "('d, 't) chain_lib \<Rightarrow> raft_lib \<Rightarrow> ('d, 'kp, 'ver) support \<Rightarrow> ('d, 'kp, 'ver) raft_machine \<Rightarrow> bool" where
  "raft_started lib rl supp m \<longleftrightarrow> (\<exists>w config s s'. rw_lib w = lib \<and> rw_rl w = rl \<and> Raft_new w config supp = Ok (Some s) \<and>
     raft_start_work w s = (Ok (), s') \<and> m = RaftBetween s')"

inductive raft_run :: "('d, 't) chain_lib \<Rightarrow> raft_lib \<Rightarrow> ('d \<Rightarrow> string \<Rightarrow> bytes \<Rightarrow> bytes option) \<Rightarrow> ('d, 'kp, 'ver) raft_machine
    \<Rightarrow> ('d, 'kp, 'ver) raft_machine \<Rightarrow> bool"
  for lib rl absd m where
  run_here: "raft_run lib rl absd m m"
| run_step: "raft_run lib rl absd m m' \<Longrightarrow> rw_lib w = lib \<Longrightarrow> rw_rl w = rl \<Longrightarrow> rf_term (raft_stream_of m') \<noteq> - 1 \<Longrightarrow>
    raft_run lib rl absd m (raft_step w ev m')"
| run_beside: "raft_run lib rl absd m m' \<Longrightarrow> beside absd (rf_supp (raft_stream_of m')) x \<Longrightarrow> raft_run lib rl absd m (map_stream (set_support x) m')"
| run_restart: "raft_run lib rl absd m m' \<Longrightarrow> raft_started lib rl (rf_supp (raft_stream_of m')) m'' \<Longrightarrow> raft_run lib rl absd m m''"

lemma raft_run_trans:
  assumes "raft_run lib rl absd m m'" "raft_run lib rl absd m' m''"
  shows "raft_run lib rl absd m m''"
  using assms(2,1) by induction (auto intro: run_step run_beside run_restart)

section \<open>The invariant of the machine\<close>

definition raft_inv :: "raft_lib \<Rightarrow> ('d \<Rightarrow> string \<Rightarrow> bytes \<Rightarrow> bytes option) \<Rightarrow> ('d, 'kp, 'ver) backend \<Rightarrow> u64 \<times> address option
    \<Rightarrow> ('d, 'kp, 'ver) raft_machine \<Rightarrow> bool" where
  "raft_inv rl absd b0 p m \<longleftrightarrow> rf_inv rl absd b0 p any_vote (raft_stream_of m)"

lemma enter_role_inv:
  assumes w: "raft_world_ok w rl absd b0" and s: "rf_inv rl absd b0 p any_vote s" and t: "rf_term s \<noteq> - 1"
  shows "raft_inv rl absd b0 p (enter_role w s)"
proof (cases "rf_role s")
  case RaftLeader
  have "rld_inv rl absd b0 p any_vote (snd (raft_leader_start w (raft_leader_new s)))"
    using keeps_ld_start [OF w] s by (simp add: keeps_def raft_leader_new_def)
  then show ?thesis
    using RaftLeader by (auto simp: enter_role_def raft_inv_def split: prod.splits result.splits)
next
  case RaftCandidate
  have "cd_inv rl absd b0 p (\<lambda>q. fst q \<noteq> - 1) (candidate_new s)"
    using rf_inv_fix [OF s] t by (simp add: candidate_new_def memory_vote_def)
  then have "cd_inv rl absd b0 p any_vote (snd (candidate_round w (candidate_new s)))"
    using ensures_cd_round [OF w] by (simp add: ensures_def)
  then show ?thesis
    using RaftCandidate by (auto simp: enter_role_def raft_inv_def split: prod.splits result.splits)
qed (use s in \<open>auto simp: enter_role_def raft_inv_def rf_inv_def\<close>)

lemma raft_step_inv:
  assumes w: "raft_world_ok w rl absd b0" and m: "raft_inv rl absd b0 p m" and t: "rf_term (raft_stream_of m) \<noteq> - 1"
  shows "raft_inv rl absd b0 p (raft_step w ev m)"
proof (cases m)
  case (RaftBetween s)
  then show ?thesis
    using enter_role_inv [OF w] m t by (simp add: raft_inv_def)
next
  case (Leads l)
  then show ?thesis
    using keeps_ld_turn [OF w, of p ev] m by (auto simp: raft_inv_def keeps_def split: prod.splits result.splits)
next
  case (Campaigns c)
  have "cd_inv rl absd b0 p (\<lambda>q. fst q \<noteq> - 1) c"
    by (rule rf_inv_fix [of rl absd b0 p any_vote]) (use m t Campaigns in \<open>simp_all add: raft_inv_def memory_vote_def\<close>)
  then have "cd_inv rl absd b0 p any_vote (snd (candidate_turn w ev c))"
    using ensures_cd_turn [OF w] by (simp add: ensures_def)
  then show ?thesis
    using Campaigns m by (auto simp: raft_inv_def split: prod.splits result.splits)
next
  case (Follows s)
  then show ?thesis
    using keeps_rf_turns(1) [OF w, of p ev] m by (auto simp: raft_inv_def keeps_def split: prod.splits result.splits)
next
  case (Observes s)
  then show ?thesis
    using keeps_rf_turns(2) [OF w, of p ev] m by (auto simp: raft_inv_def keeps_def split: prod.splits result.splits)
qed (use m in \<open>simp add: raft_inv_def\<close>)

lemma set_support_inv:
  assumes "rf_inv rl absd b0 p Q s" "beside absd (rf_supp s) x"
  shows "rf_inv rl absd b0 p Q (set_support x s)"
  using assms by (simp add: rf_inv_def rst_inv_def stored_ok_def stored_log_ok_def stored_vote_def memory_vote_def beside_def same_setup_def set_support_def)

lemma started_inv:
  assumes lib: "raft_lib_ok lib rl absd" and st: "stored_ok rl absd b0 p (sup_backend supp)" and m: "raft_started lib rl supp m"
  shows "raft_inv rl absd b0 p m"
proof -
  obtain w config s s' where w: "rw_lib w = lib" "rw_rl w = rl" and new: "Raft_new w config supp = Ok (Some s)"
    and start: "raft_start_work w s = (Ok (), s')" and m: "m = RaftBetween s'"
    using m by (auto simp: raft_started_def)
  obtain store where store: "raft_storage_new lib rl supp = Ok store" "rf_store s = store" "rf_commit_block_params s = None"
    using new w by (auto simp: Raft_new_def raft_spawn_def Let_def and_then_eq_Ok split: option.splits)
  let ?s0 = "\<lparr> rst_base_log_index = 0, rst_base_log_term = 0, rst_current_term = 0, rst_current_voted_for = None,
     rst_commit_log_index = 0, rst_logs = [], rst_proposal = None, rst_support = supp \<rparr>"
  have "raft_refresh lib rl ?s0 = (Ok (), store)"
    using store(1) by (auto simp: raft_storage_new_def split: prod.splits result.splits)
  moreover have "recovered rl absd b0 p ?s0 (raft_refresh lib rl ?s0)"
    by (rule raft_refresh_ok [OF lib]) (simp add: st)
  ultimately have "rst_inv rl absd b0 p any_vote store"
    by (auto simp: recovered_def rst_inv_def stored_ok_def intro: vote_kept_refl)
  then have "rf_inv rl absd b0 p any_vote s"
    using store by (simp add: rf_inv_def)
  then have "rf_inv rl absd b0 p any_vote s'"
    by (rule keepsD [OF keeps_rf_latency(2) _ start])
  then show ?thesis
    by (simp add: m raft_inv_def)
qed

lemma raft_inv_stored: "raft_inv rl absd b0 p m \<Longrightarrow> stored_ok rl absd b0 p (sup_backend (rf_supp (raft_stream_of m)))"
  by (auto simp: raft_inv_def rf_inv_def rst_inv_def stored_ok_def simp del: split_paired_Ex intro: vote_kept_trans)

lemma raft_inv_now: "raft_inv rl absd b0 p m \<Longrightarrow> raft_inv rl absd b0 (machine_vote m) m"
  by (simp add: raft_inv_def rf_inv_def rst_inv_def vote_kept_refl)

lemma raft_run_inv:
  assumes lib: "raft_lib_ok lib rl absd" "sd_column (bk_meta_statedb b0) = META_STATE" and "raft_run lib rl absd m m'" and "raft_inv rl absd b0 p m"
  shows "raft_inv rl absd b0 p m'"
  using assms(3,4)
proof induction
  case (run_step m' w ev)
  then show ?case
    using lib by (intro raft_step_inv) (simp_all add: raft_world_ok_def)
next
  case (run_beside m' x)
  then show ?case
    by (simp add: raft_inv_def set_support_inv)
next
  case (run_restart m' m'')
  then show ?case
    using started_inv [OF lib(1) raft_inv_stored] by blast
qed

text \<open>A validator that was started on a well-formed database, and what came of it.\<close>

definition raft_fresh :: "('d, 't) chain_lib \<Rightarrow> raft_lib \<Rightarrow> ('d \<Rightarrow> string \<Rightarrow> bytes \<Rightarrow> bytes option) \<Rightarrow> ('d, 'kp, 'ver) raft_machine \<Rightarrow> bool" where
  "raft_fresh lib rl absd m \<longleftrightarrow> (\<exists>supp. raft_started lib rl supp m \<and> sd_column (bk_meta_statedb (sup_backend supp)) = META_STATE \<and>
     (\<exists>q. stored_vote rl absd (sup_backend supp) = Ok q) \<and> stored_log_ok rl absd (sup_backend supp))"

lemma raft_fresh_inv:
  assumes "raft_lib_ok lib rl absd" "raft_fresh lib rl absd m"
  obtains b0 where "raft_inv rl absd b0 (0, None) m" "sd_column (bk_meta_statedb b0) = META_STATE"
proof -
  obtain supp q where m: "raft_started lib rl supp m" "sd_column (bk_meta_statedb (sup_backend supp)) = META_STATE"
      "stored_vote rl absd (sup_backend supp) = Ok q" "stored_log_ok rl absd (sup_backend supp)"
    using assms(2) unfolding raft_fresh_def by blast
  have "vote_kept (0, None) q"
    by (cases q) simp
  then have "stored_ok rl absd (sup_backend supp) (0, None) (sup_backend supp)"
    unfolding stored_ok_def using m by (auto simp: same_setup_def simp del: split_paired_Ex)
  from started_inv [OF assms(1) this m(1)] m(2) show thesis
    by (rule that)
qed

text \<open>The term does not go down, and the vote of a term does not change.\<close>

lemma raft_run_vote_kept:
  assumes "raft_lib_ok lib rl absd" "sd_column (bk_meta_statedb b0) = META_STATE" "raft_inv rl absd b0 p m" "raft_run lib rl absd m m'"
  shows "vote_kept (machine_vote m) (machine_vote m')"
  using raft_run_inv [OF assms(1,2,4) raft_inv_now [OF assms(3)]] by (simp add: raft_inv_def rf_inv_def rst_inv_def)

end
