(* ===== verification/Raft_Example.thy ===== *)
theory Raft_Example
  imports Raft_Runs Hotstuff_Example
begin

text \<open>
  A concrete Raft validator: the single authority of the example chain, from its start over its election to the first entry of its log.
\<close>

section \<open>Codecs\<close>

definition ex_entry_codec :: "log_entry codec" where
  "ex_entry_codec = iso_codec (\<lambda>e. (en_term e, en_index e, case en_data e of Blank \<Rightarrow> None | ProposalEntry h \<Rightarrow> Some h))
     (\<lambda>(t, i, d). \<lparr> en_term = t, en_index = i, en_data = (case d of None \<Rightarrow> Blank | Some h \<Rightarrow> ProposalEntry h) \<rparr>)
     (pair_codec word_codec (pair_codec word_codec (option_codec hash_codec)))"

text \<open>Proposals, proofs and messages are not decoded in the example.\<close>

definition no_codec :: "'a codec" where
  "no_codec = \<lparr> enc = (\<lambda>_. []), dec = (\<lambda>_. None) \<rparr>"

definition ex_rl :: raft_lib where
  "ex_rl = \<lparr> rl_proof_message = no_codec, rl_nonce = word_codec, rl_u64 = word_codec, rl_voted_for = option_codec address_codec,
     rl_logs = list_codec (pair_codec word_codec ex_entry_codec), rl_proposal = no_codec, rl_plain_proposal = no_codec, rl_proof = no_codec,
     rl_message = no_codec, rl_authorities = ex_raft_authorities_codec, rl_meta = ex_raft_meta_codec \<rparr>"

lemma ex_entry_codec_ok: "codec_ok ex_entry_codec"
  unfolding ex_entry_codec_def by (rule iso_codec_ok) (auto split: entry_data.splits)

lemma ex_raft_lib_ok: "raft_lib_ok (ex_chain_lib null_trie) ex_rl (\<lambda>d. d)"
  using ex_chain_lib_ok [of null_trie] ex_entry_codec_ok by (simp add: raft_lib_ok_def ex_rl_def)

section \<open>The validator\<close>

definition ex_rw :: "nat \<Rightarrow> (mem_db, unit) raft_world" where
  "ex_rw inst = \<lparr> rw_lib = ex_chain_lib null_trie, rw_rl = ex_rl, rw_now = Some 4, rw_instant = inst, rw_rand = (\<lambda>_. 0) \<rparr>"

definition ex_rcfg :: raft_config where
  "ex_rcfg = \<lparr> rcf_secret_key = Some (SecretKey [7]), rcf_init_extra_election_timeout = None, rcf_extra_election_timeout_per_kb = None,
     rcf_request_proposal_min_interval = None \<rparr>"

definition ex_raft_store :: "u64 \<Rightarrow> address option \<Rightarrow> (u64, log_entry) bmap \<Rightarrow> u64 \<Rightarrow> (mem_db, bytes, bytes) support \<Rightarrow> (mem_db, bytes, bytes) raft_storage" where
  "ex_raft_store t v logs ci x = \<lparr> rst_base_log_index = 0, rst_base_log_term = 0, rst_current_term = t, rst_current_voted_for = v,
     rst_commit_log_index = ci, rst_logs = logs, rst_proposal = None, rst_support = x \<rparr>"

definition ex_raft :: "(mem_db, bytes, bytes) raft_storage \<Rightarrow> nat option \<Rightarrow> raft_role \<Rightarrow> (mem_db, bytes, bytes) raft" where
  "ex_raft st inst role = \<lparr> rf_meta = ex_raft_meta, rf_config = ex_rcfg, rf_secret_key = SecretKey [7], rf_public_key = PublicKey [7],
     rf_address = Address [7], rf_out = [], rf_out_open = True, rf_peers = [], rf_known_validators = [], rf_next_request_id = 0, rf_store = st,
     rf_current_leader = None, rf_next_election_instant = inst, rf_last_heartbeat_instant = None, rf_role = role,
     rf_authorities = ex_raft_authorities, rf_internal = [], rf_last_request_proposal_instant = None, rf_pending_proposal = None,
     rf_commit_block_params = None, rf_sync_latency = 0, rf_answers = [] \<rparr>"

lemma ex_raft_calls:
  assumes "ex_db d"
  shows "get_raft_authorities (ex_chain_lib null_trie) ex_rl 0 (ex_b cur d) = Ok ex_raft_authorities"
    "get_raft_meta (ex_chain_lib null_trie) ex_rl 0 (ex_b cur d) = Ok ex_raft_meta"
  unfolding get_raft_authorities_def get_raft_meta_def ex_rl_def
  by (simp_all, (rule ex_call [OF assms]; simp add: ex_fixed_calls)+)

lemma ex_raft_put:
  assumes "ex_db d"
  obtains d' where "\<And>s. rst_support s = ex_supp cur d \<Longrightarrow>
      raft_commit_consensus_data (ex_chain_lib null_trie) (put_consensus_data c key v) s = (Ok (), s\<lparr>rst_support := ex_supp cur d'\<rparr>)" "ex_db d'"
proof (rule support_put_db [OF ex_chain_lib_ok [of null_trie], of c key v "ex_supp cur d"])
  fix d'
  assume d': "support_commit_consensus_data (ex_chain_lib null_trie) (put_consensus_data c key v transaction_new) (ex_supp cur d) = (Ok (), set_db d' (ex_supp cur d))"
    "\<And>col k. valid_col col \<Longrightarrow> db_abs (\<lambda>d. d) d' col k = (if col = CONSENSUS \<and> k = key then Some (enc c v) else cell (\<lambda>d. d) (ex_b cur d) col k)"
  have "bk_db (ex_b cur d) = d"
    by (simp add: ex_supp_def)
  then show thesis
    using d' assms by (intro that [of d']) (simp_all add: ex_db_def raft_commit_consensus_data_def raft_on_support_def)
qed

lemma ex_empty_column: "cell (\<lambda>d. d) (ex_b cur (bk_db (ex_chain0 null_trie))) CONSENSUS k = None"
  using ex_consensus_empty by (simp add: ex_supp_def)

lemma ex_raft_storage_new:
  assumes cur: "cur_confirmed_number cur = 0"
  obtains d where "raft_storage_new (ex_chain_lib null_trie) ex_rl (ex_supp cur (bk_db (ex_chain0 null_trie))) = Ok (ex_raft_store 0 None [] 0 (ex_supp cur d))"
    "ex_db d"
proof (rule ex_raft_put [OF ex_db0, of cur "rl_proposal ex_rl" DB_KEY_PROPOSAL None])
  fix d
  assume d: "\<And>s. rst_support s = ex_supp cur (bk_db (ex_chain0 null_trie)) \<Longrightarrow>
      raft_commit_consensus_data (ex_chain_lib null_trie) (put_consensus_data (rl_proposal ex_rl) DB_KEY_PROPOSAL None) s
        = (Ok (), s\<lparr>rst_support := ex_supp cur d\<rparr>)" "ex_db d"
  show thesis
    by (rule that [OF _ d(2)]) (simp add: raft_storage_new_def raft_refresh_def bind_apply raft_read_support_def raft_get_proof_def cur
        refresh_term_def refresh_commit_def refresh_logs_def raft_refresh_proposal_def raft_read_eq [OF ex_chain_lib_ok] ex_empty_column or_default_def
        Let_def bm_collect_def bm_range_def bm_without_def contained_in_logs_def d(1) ex_raft_store_def)
qed

lemma ex_raft_new:
  assumes cur: "cur_confirmed_number cur = 0"
  obtains d where "Raft_new (ex_rw 0) ex_rcfg (ex_supp cur (bk_db (ex_chain0 null_trie)))
    = Ok (Some (ex_raft (ex_raft_store 0 None [] 0 (ex_supp cur d)) None RaftObserver))" "ex_db d"
proof (rule ex_raft_storage_new [OF cur])
  fix d
  assume d: "raft_storage_new (ex_chain_lib null_trie) ex_rl (ex_supp cur (bk_db (ex_chain0 null_trie))) = Ok (ex_raft_store 0 None [] 0 (ex_supp cur d))" "ex_db d"
  have store: "rst_support (ex_raft_store 0 None [] 0 (ex_supp cur d)) = ex_supp cur d"
    by (simp add: ex_raft_store_def)
  have keys: "raft_get_public_key (SecretKey [7]) (bk_executor (ex_b cur d)) = Ok (PublicKey [7])"
      "raft_get_address (PublicKey [7]) (bk_executor (ex_b cur d)) = Address [7]" for d
    by (simp_all add: ex_executor_b executor_new_def raft_get_public_key_def raft_get_address_def ex_dsa_def)
  show thesis
    by (rule that [OF _ d(2)]) (simp add: Raft_new_def raft_spawn_def ex_rw_def ex_raft_calls ex_db0 d store ex_rcfg_def keys cur ex_raft_def Let_def)
qed

lemma ex_raft_started:
  assumes cur: "cur_confirmed_number cur = 0"
  obtains d where "raft_fresh (ex_chain_lib null_trie) ex_rl (\<lambda>d. d) (RaftBetween (ex_raft (ex_raft_store 0 None [] 0 (ex_supp cur d)) (Some 10050) RaftFollower))"
    "ex_db d"
proof (rule ex_raft_new [OF cur])
  fix d
  let ?st = "ex_raft_store 0 None [] 0 (ex_supp cur d)"
  assume d: "Raft_new (ex_rw 0) ex_rcfg (ex_supp cur (bk_db (ex_chain0 null_trie))) = Ok (Some (ex_raft ?st None RaftObserver))" "ex_db d"
  have "raft_start_work (ex_rw 0) (ex_raft ?st None RaftObserver) = (Ok (), ex_raft ?st (Some 10050) RaftFollower)"
    by (simp add: raft_start_work_def bind_apply raft_update_state_def rand_election_timeout_def ex_raft_def ex_raft_authorities_def ex_raft_meta_def
        ex_rcfg_def or_default_def DEFAULT_INIT_EXTRA_ELECTION_TIMEOUT_def ex_rw_def Let_def)
  then have "raft_started (ex_chain_lib null_trie) ex_rl (ex_supp cur (bk_db (ex_chain0 null_trie))) (RaftBetween (ex_raft ?st (Some 10050) RaftFollower))"
    unfolding raft_started_def using d(1) by (intro exI [of _ "ex_rw 0"]) (auto simp: ex_rw_def)
  moreover have "sd_column (bk_meta_statedb (ex_b cur (bk_db (ex_chain0 null_trie)))) = META_STATE"
    using ex_facts(6) [OF ex_db0, of cur] by (simp add: chain_ok_def)
  ultimately show thesis
    by (intro that [OF _ d(2)]) (auto simp: raft_fresh_def stored_vote_def stored_log_ok_def ex_empty_column intro!: exI [of _ "ex_supp cur (bk_db (ex_chain0 null_trie))"])
qed

section \<open>The election\<close>

lemma ex_store_sel [simp]:
  "rst_support (ex_raft_store t v logs ci x) = x" "rst_current_term (ex_raft_store t v logs ci x) = t"
  "rst_current_voted_for (ex_raft_store t v logs ci x) = v" "rst_logs (ex_raft_store t v logs ci x) = logs"
  "rst_commit_log_index (ex_raft_store t v logs ci x) = ci"
  "rst_current_term_update f (ex_raft_store t v logs ci x) = ex_raft_store (f t) v logs ci x"
  "rst_current_voted_for_update g (ex_raft_store t v logs ci x) = ex_raft_store t (g v) logs ci x"
  "rst_logs_update h (ex_raft_store t v logs ci x) = ex_raft_store t v (h logs) ci x"
  "rst_commit_log_index_update f (ex_raft_store t v logs ci x) = ex_raft_store t v logs (f ci) x"
  "rst_support_update k (ex_raft_store t v logs ci x) = ex_raft_store t v logs ci (k x)"
  by (simp_all add: ex_raft_store_def)

lemma ex_raft_sel [simp]:
  "rf_store (ex_raft st i r) = st" "rf_role (ex_raft st i r) = r" "rf_address (ex_raft st i r) = Address [7]"
  "rf_authorities (ex_raft st i r) = ex_raft_authorities" "rf_meta (ex_raft st i r) = ex_raft_meta" "rf_next_election_instant (ex_raft st i r) = i"
  "rf_sync_latency (ex_raft st i r) = 0" "rf_last_heartbeat_instant (ex_raft st i r) = None" "rf_internal (ex_raft st i r) = []"
  "rf_store_update f (ex_raft st i r) = ex_raft (f st) i r" "rf_role_update g (ex_raft st i r) = ex_raft st i (g r)"
  "rf_next_election_instant_update h (ex_raft st i r) = ex_raft st (h i) r"
  "(ex_raft st i r)\<lparr>rf_current_leader := None\<rparr> = ex_raft st i r"
  by (simp_all add: ex_raft_def)

lemma ex_instant [simp]:
  "update_next_election_instant (ex_rw n) 0 False (ex_raft st i r) = (Ok (), ex_raft st (Some (n + 50)) r)"
  by (simp add: update_next_election_instant_def bind_apply rand_election_timeout_def ex_raft_meta_def ex_rw_def Let_def)

lemma ex_update_term:
  assumes "ex_db d"
  obtains d' where "\<And>v logs ci i r. raft_on_storage (update_current_term (ex_chain_lib null_trie) ex_rl t) (ex_raft (ex_raft_store 0 v logs ci (ex_supp cur d)) i r)
      = (Ok (), ex_raft (ex_raft_store t v logs ci (ex_supp cur d')) i r)" "ex_db d'"
  by (rule ex_raft_put [OF assms, of cur "rl_u64 ex_rl" DB_KEY_CURRENT_TERM t])
    (auto intro: that simp: raft_on_storage_def update_current_term_def bind_apply)

lemma ex_update_vote:
  assumes "ex_db d"
  obtains d' where "\<And>t v logs ci i r. raft_on_storage (update_current_voted_for (ex_chain_lib null_trie) ex_rl x) (ex_raft (ex_raft_store t v logs ci (ex_supp cur d)) i r)
      = (Ok (), ex_raft (ex_raft_store t x logs ci (ex_supp cur d')) i r)" "ex_db d'"
  by (rule ex_raft_put [OF assms, of cur "rl_voted_for ex_rl" DB_KEY_CURRENT_VOTED_FOR x])
    (auto intro: that simp: raft_on_storage_def update_current_voted_for_def bind_apply)

lemma ex_rw_sel [simp]: "rw_lib (ex_rw n) = ex_chain_lib null_trie" "rw_rl (ex_rw n) = ex_rl" "rw_instant (ex_rw n) = n"
  by (simp_all add: ex_rw_def)

lemma ex_candidate_round:
  assumes "ex_db d"
  obtains d' c where "candidate_round (ex_rw 20000) (candidate_new (ex_raft (ex_raft_store 0 None [] 0 (ex_supp cur d)) (Some 10050) RaftCandidate)) = (Ok (), c)"
    "cd_stream c = ex_raft (ex_raft_store 1 (Some (Address [7])) [] 0 (ex_supp cur d')) (Some 20050) RaftLeader" "ex_db d'"
proof (rule ex_update_term [OF assms, of 1 cur])
  fix d1
  assume d1: "\<And>v logs ci i r. raft_on_storage (update_current_term (ex_chain_lib null_trie) ex_rl 1) (ex_raft (ex_raft_store 0 v logs ci (ex_supp cur d)) i r)
      = (Ok (), ex_raft (ex_raft_store 1 v logs ci (ex_supp cur d1)) i r)" "ex_db d1"
  show thesis
  proof (rule ex_update_vote [OF d1(2), of "Some (Address [7])" cur])
    fix d2
    assume d2: "\<And>t v logs ci i r. raft_on_storage (update_current_voted_for (ex_chain_lib null_trie) ex_rl (Some (Address [7]))) (ex_raft (ex_raft_store t v logs ci (ex_supp cur d1)) i r)
      = (Ok (), ex_raft (ex_raft_store t (Some (Address [7])) logs ci (ex_supp cur d2)) i r)" "ex_db d2"
    show thesis
      by (rule that [OF _ _ d2(2)])
        (auto simp: candidate_round_def candidate_new_def bind_apply candidate_on_stream_def raft_update_current_leader_def d1(1) d2(1) request_vote_def
          on_maybe_become_leader_def raft_update_state_def ex_raft_authorities_def votes_needed_def get_last_log_index_term_def)
  qed
qed

definition ex_blank :: log_entry where
  "ex_blank = \<lparr> en_term = 1, en_index = 1, en_data = Blank \<rparr>"

lemma ex_leader_start:
  assumes "ex_db d"
  obtains d' l where "raft_leader_start (ex_rw n) (raft_leader_new (ex_raft (ex_raft_store 1 v [] 0 (ex_supp cur d)) i RaftLeader)) = (Ok (), l)"
    "rf_store (rld_stream l) = ex_raft_store 1 v [(1, ex_blank)] 1 (ex_supp cur d')" "rf_last_heartbeat_instant (rld_stream l) = None" "ex_db d'"
proof (rule ex_raft_put [OF assms, of cur "rl_logs ex_rl" DB_KEY_LOGS "[(1, ex_blank)]"])
  fix d1
  assume d1: "\<And>s. rst_support s = ex_supp cur d \<Longrightarrow> raft_commit_consensus_data (ex_chain_lib null_trie)
      (put_consensus_data (rl_logs ex_rl) DB_KEY_LOGS [(1, ex_blank)]) s = (Ok (), s\<lparr>rst_support := ex_supp cur d1\<rparr>)" "ex_db d1"
  show thesis
  proof (rule ex_raft_put [OF d1(2), of cur "rl_u64 ex_rl" DB_KEY_COMMIT_LOG_INDEX 1])
    fix d2
    assume d2: "\<And>s. rst_support s = ex_supp cur d1 \<Longrightarrow> raft_commit_consensus_data (ex_chain_lib null_trie)
        (put_consensus_data (rl_u64 ex_rl) DB_KEY_COMMIT_LOG_INDEX 1) s = (Ok (), s\<lparr>rst_support := ex_supp cur d2\<rparr>)" "ex_db d2"
    have entry: "next_entry Blank (ex_raft_store 1 v [] 0 x) = ex_blank" for x
      by (simp add: next_entry_def get_last_log_index_term_def ex_blank_def ex_raft_store_def)
    have last: "get_last_log_index_term (ex_raft_store 1 v [(1, ex_blank)] ci x) = (1, 1)" for ci x
      by (simp add: get_last_log_index_term_def ex_blank_def)
    have "en_index ex_blank = 1"
      by (simp add: ex_blank_def)
    then show thesis
      by (intro that [OF _ _ _ d2(2)])
        (auto simp: raft_leader_start_def raft_leader_new_def bind_apply ex_raft_authorities_def raft_on_stream_def append_init_entry_def entry
          leader_append_entries_def raft_on_storage_def append_log_entries_def bm_extend_def d1(1) on_update_match_index_def on_maybe_commit_def last
          get_new_commit_log_index_def update_commit_log_index_def d2(1) raft_internal_send_def hm_get_def)
  qed
qed

lemma ex_raft_run:
  "\<exists>m c l. raft_fresh (ex_chain_lib null_trie) ex_rl (\<lambda>d. d) m \<and> raft_run (ex_chain_lib null_trie) ex_rl (\<lambda>d. d) m (Campaigns c) \<and>
     raft_run (ex_chain_lib null_trie) ex_rl (\<lambda>d. d) (Campaigns c) (Leads l) \<and>
     (\<exists>cur d. rf_store (cd_stream c) = ex_raft_store 1 (Some (Address [7])) [] 0 (ex_supp cur d)) \<and>
     (\<exists>cur d. ex_db d \<and> rf_store (rld_stream l) = ex_raft_store 1 (Some (Address [7])) [(1, ex_blank)] 1 (ex_supp cur d)) \<and>
     rf_last_heartbeat_instant (rld_stream l) = None"
proof -
  let ?lib = "ex_chain_lib null_trie" and ?w = "ex_rw 20000"
  obtain cur :: current_state where cur: "cur_confirmed_number cur = 0"
    using ex_chain_current unfolding Let_def by blast
  obtain d where d: "raft_fresh ?lib ex_rl (\<lambda>d. d) (RaftBetween (ex_raft (ex_raft_store 0 None [] 0 (ex_supp cur d)) (Some 10050) RaftFollower))" "ex_db d"
    using ex_raft_started [OF cur] .
  let ?m = "RaftBetween (ex_raft (ex_raft_store 0 None [] 0 (ex_supp cur d)) (Some 10050) RaftFollower)"
  let ?s = "\<lambda>r. ex_raft (ex_raft_store 0 None [] 0 (ex_supp cur d)) (Some 10050) r"
  obtain d1 c where c: "candidate_round ?w (candidate_new (?s RaftCandidate)) = (Ok (), c)"
    "cd_stream c = ex_raft (ex_raft_store 1 (Some (Address [7])) [] 0 (ex_supp cur d1)) (Some 20050) RaftLeader" "ex_db d1"
    using ex_candidate_round [OF d(2)] .
  obtain d2 l where l: "raft_leader_start ?w (raft_leader_new (cd_stream c)) = (Ok (), l)"
    "rf_store (rld_stream l) = ex_raft_store 1 (Some (Address [7])) [(1, ex_blank)] 1 (ex_supp cur d2)" "rf_last_heartbeat_instant (rld_stream l) = None" "ex_db d2"
    unfolding c(2) using ex_leader_start [OF c(3)] .
  have "raft_run ?lib ex_rl (\<lambda>d. d) ?m (Follows (?s RaftFollower))"
    using run_step [OF run_here, of ?w ?lib ex_rl ?m "\<lambda>d. d" RevElection] by (simp add: enter_role_def)
  from run_step [OF this, of ?w RevElection] have "raft_run ?lib ex_rl (\<lambda>d. d) ?m (Follows (?s RaftCandidate))"
    by (simp add: follower_turn_def next_election_instant_def bind_apply raft_update_state_def)
  from run_step [OF this, of ?w RevElection] have "raft_run ?lib ex_rl (\<lambda>d. d) ?m (RaftBetween (?s RaftCandidate))"
    by simp
  from run_step [OF this, of ?w RevElection] have 1: "raft_run ?lib ex_rl (\<lambda>d. d) ?m (Campaigns c)"
    by (simp add: enter_role_def c(1))
  have "raft_run ?lib ex_rl (\<lambda>d. d) (Campaigns c) (RaftBetween (cd_stream c))"
    using run_step [OF run_here, of ?w ?lib ex_rl "Campaigns c" "\<lambda>d. d" RevElection] by (simp add: c(2))
  from run_step [OF this, of ?w RevElection] have 2: "raft_run ?lib ex_rl (\<lambda>d. d) (Campaigns c) (Leads l)"
    using l(1) by (simp add: enter_role_def c(2))
  show ?thesis
    using d(1) 1 2 c l by (intro exI [of _ ?m] exI [of _ c] exI [of _ l]) auto
qed

end
