(* ===== verification/Raft_Theorems.thy ===== *)
theory Raft_Theorems
  imports Raft_Example Quorum_Spec
begin

text \<open>
  The properties of Raft: a validator votes once in a term, also across restarts; the commit index is one that a majority reported, and every
  majority of votes meets it; entries that are accepted replace what the log had in their place; the log is well-formed.
\<close>

section \<open>Majorities\<close>

interpretation rq: quorum_system "\<lambda>a. distinct (ra_members a)" "\<lambda>a. set (ra_members a)" "\<lambda>_ _. 1" votes_needed
  by unfold_locales (auto simp: votes_needed_def distinct_card)

lemma length_filter_sort: "length (filter P (sort xs)) = length (filter P xs)"
  by (simp add: filter_sort)

text \<open>In descending order, what is not below an element is what stands before it and it.\<close>

lemma filter_ge_sorted:
  assumes "sorted xs" "i < length xs"
  shows "i < length (filter (\<lambda>x. rev xs ! i \<le> x) xs)"
    "rev xs ! i < k \<Longrightarrow> length (filter (\<lambda>x. k \<le> x) xs) \<le> i"
proof -
  let ?j = "length xs - Suc i"
  have j: "rev xs ! i = xs ! ?j" "?j < length xs"
    using assms(2) by (simp_all add: rev_nth)
  have split: "xs = take ?j xs @ drop ?j xs"
    by simp
  have "\<forall>x\<in>set (drop ?j xs). xs ! ?j \<le> x"
    using assms(1) j(2) by (auto simp: in_set_conv_nth intro!: sorted_nth_mono)
  then have "filter (\<lambda>x. xs ! ?j \<le> x) (drop ?j xs) = drop ?j xs"
    by (simp add: filter_id_conv)
  then have "length (drop ?j xs) \<le> length (filter (\<lambda>x. xs ! ?j \<le> x) xs)"
    by (subst (4) split) (simp only: filter_append length_append)
  then show "i < length (filter (\<lambda>x. rev xs ! i \<le> x) xs)"
    using assms(2) j(1) by simp
  assume k: "rev xs ! i < k"
  have "\<forall>x\<in>set (take (Suc ?j) xs). \<not> k \<le> x"
    using assms(1) j k by (auto simp: in_set_conv_nth not_le) (metis less_Suc_eq_le order.strict_trans1 sorted_nth_mono)
  then have "filter (\<lambda>x. k \<le> x) (take (Suc ?j) xs) = []"
    by (simp add: filter_empty_conv)
  then have "length (filter (\<lambda>x. k \<le> x) xs) \<le> length (drop (Suc ?j) xs)"
    by (metis append_Nil append_take_drop_id filter_append length_filter_le)
  then show "length (filter (\<lambda>x. k \<le> x) xs) \<le> i"
    using assms(2) by simp
qed

lemma new_commit_index:
  assumes "ms \<noteq> []"
  shows "get_new_commit_log_index ms old = old \<or> length ms < 2 * length (filter (\<lambda>x. get_new_commit_log_index ms old \<le> x) ms)"
    "get_new_commit_log_index ms old < k \<Longrightarrow> 2 * length (filter (\<lambda>x. k \<le> x) ms) \<le> length ms"
proof -
  let ?i = "length ms div 2" and ?xs = "sort ms"
  have i: "?i < length ?xs"
    using assms by simp
  note mid = filter_ge_sorted [OF sorted_sort i, unfolded length_filter_sort]
  show "get_new_commit_log_index ms old = old \<or> length ms < 2 * length (filter (\<lambda>x. get_new_commit_log_index ms old \<le> x) ms)"
    using mid(1) by (auto simp: get_new_commit_log_index_def max_def)
  show "get_new_commit_log_index ms old < k \<Longrightarrow> 2 * length (filter (\<lambda>x. k \<le> x) ms) \<le> length ms"
    using mid(2) [of k] by (auto simp: get_new_commit_log_index_def)
qed

section \<open>Votes\<close>

lemma instants_store:
  "update_next_election_instant w e h s = (r, s') \<Longrightarrow> rf_store s' = rf_store s"
  "raft_update_state role s = (r, s') \<Longrightarrow> rf_store s' = rf_store s"
  "raft_update_current_leader a s = (r, s') \<Longrightarrow> rf_store s' = rf_store s"
  by (auto simp: update_next_election_instant_def raft_update_state_def raft_update_current_leader_def bind_apply Let_def split: result.splits if_splits)

lemma keeps_store_instants:
  "keeps (\<lambda>s. I (rf_store s)) (update_next_election_instant w e h)" "keeps (\<lambda>s. I (rf_store s)) (raft_update_state role)"
  "keeps (\<lambda>s. I (rf_store s)) (raft_update_current_leader a)"
  unfolding keeps_def by (metis instants_store prod.collapse)+

lemma update_vote_memory:
  assumes "raft_on_storage (update_current_voted_for lib rl v) s = (Ok u, s')"
  shows "memory_vote (rf_store s') = (rf_term s, v)"
  using assms by (auto simp: raft_on_storage_def update_current_voted_for_def bind_eq_Ok memory_vote_def raft_commit_consensus_data_def
      raft_on_support_def split: prod.splits)

lemma update_term_memory: "raft_on_storage (update_current_term lib rl t) s = (Ok u, s') \<Longrightarrow> rf_term s' = t"
  by (auto simp: raft_on_storage_def update_current_term_def bind_eq_Ok split: prod.splits)

lemma adopt_term_memory: "adopt_term w t s = (Ok u, s') \<Longrightarrow> memory_vote (rf_store s') = (t, None)"
  unfolding adopt_term_def bind_eq_Ok using update_term_memory update_vote_memory by metis

lemma decide_vote_granted:
  assumes "decide_vote w a rq ct s = (Ok res, s')" "vs_vote_granted res"
  shows "memory_vote (rf_store s') = (rf_term s, Some a)" "rst_current_voted_for (rf_store s) \<in> {None, Some a}"
  using assms
  by (auto simp: decide_vote_def bind_eq_Ok vote_res_def memory_vote_def split: if_splits option.splits prod.splits
      dest!: instants_store update_vote_memory)

lemma vote_granted:
  assumes "on_req_request_vote w a rq s = (Ok res, s')" "vs_vote_granted res"
  shows "memory_vote (rf_store s') = (vq_term rq, Some a)"
    "rf_term s \<le> vq_term rq" "rf_term s = vq_term rq \<Longrightarrow> rst_current_voted_for (rf_store s) \<in> {None, Some a}"
proof -
  obtain s1 u where s: "rf_term s \<le> vq_term rq" "decide_vote w a rq (rf_term s) s1 = (Ok res, s')"
    and s1: "(if vq_term rq > rf_term s then bind (update_next_election_instant w 0 False) (\<lambda>_. bind (raft_update_state RaftFollower) (\<lambda>_.
      adopt_term w (vq_term rq))) else ret ()) s = (Ok u, s1)"
    using assms by (auto simp: on_req_request_vote_def bind_eq_Ok vote_res_def split: if_splits)
  have "rf_term s1 = vq_term rq" "rf_term s = vq_term rq \<Longrightarrow> s1 = s"
    using s(1) s1 by (auto simp: bind_eq_Ok memory_vote_def dest: adopt_term_memory split: if_splits)
  then show "memory_vote (rf_store s') = (vq_term rq, Some a)" "rf_term s \<le> vq_term rq"
    "rf_term s = vq_term rq \<Longrightarrow> rst_current_voted_for (rf_store s) \<in> {None, Some a}"
    using s decide_vote_granted [OF s(2) assms(2)] by auto
qed

text \<open>C18: A validator has one vote in a term. From a start on a well-formed database on, whatever happened in between (messages, elections of
  its own, other changes of the chain, restarts on what it left), a request for a vote that it grants in a term in which it has already
  voted, for itself or another, is one of the candidate it voted for; and a vote it grants is recorded.\<close>

theorem raft_votes_once:
  assumes "raft_lib_ok lib rl absd" "raft_fresh lib rl absd m" "raft_run lib rl absd m m1" "raft_run lib rl absd m1 m2"
    and "rst_current_voted_for (rf_store (raft_stream_of m1)) = Some a" "rf_term (raft_stream_of m1) = vq_term rq"
    and "on_req_request_vote w b rq (raft_stream_of m2) = (Ok res, s)" "vs_vote_granted res"
  shows "b = a \<and> rst_current_voted_for (rf_store s) = Some b \<and> rf_term s = vq_term rq"
proof -
  obtain b0 where b0: "raft_inv rl absd b0 (0, None) m" "sd_column (bk_meta_statedb b0) = META_STATE"
    using raft_fresh_inv [OF assms(1,2)] .
  then have "raft_inv rl absd b0 (0, None) m1"
    using raft_run_inv [OF assms(1) b0(2) assms(3)] by blast
  then have "vote_kept (machine_vote m1) (machine_vote m2)"
    by (rule raft_run_vote_kept [OF assms(1) b0(2) _ assms(4)])
  then show ?thesis
    using vote_granted [OF assms(7,8)] assms(5,6) by (auto simp: memory_vote_def)
qed

theorem raft_votes_once_witness:
  "\<exists>(m :: (mem_db, bytes, bytes) raft_machine) m1 m2 res s. raft_fresh (ex_chain_lib null_trie) ex_rl (\<lambda>d. d) m \<and>
     raft_run (ex_chain_lib null_trie) ex_rl (\<lambda>d. d) m m1 \<and> raft_run (ex_chain_lib null_trie) ex_rl (\<lambda>d. d) m1 m2 \<and>
     rst_current_voted_for (rf_store (raft_stream_of m1)) = Some (Address [7]) \<and> rf_term (raft_stream_of m1) = 1 \<and>
     on_req_request_vote (ex_rw 0) (Address [7]) \<lparr> vq_request_id = 0, vq_term = 1, vq_last_log_index = 1, vq_last_log_term = 1 \<rparr> (raft_stream_of m2)
       = (Ok res, s) \<and> vs_vote_granted res \<and> rst_current_voted_for (rf_store s) = Some (Address [7])"
proof -
  let ?rq = "\<lparr> vq_request_id = 0, vq_term = 1, vq_last_log_index = 1, vq_last_log_term = 1 \<rparr>"
  obtain m :: "(mem_db, bytes, bytes) raft_machine" and c l cur d cur' d' where m: "raft_fresh (ex_chain_lib null_trie) ex_rl (\<lambda>d. d) m"
      "raft_run (ex_chain_lib null_trie) ex_rl (\<lambda>d. d) m (Campaigns c)" "raft_run (ex_chain_lib null_trie) ex_rl (\<lambda>d. d) (Campaigns c) (Leads l)"
    and c: "rf_store (cd_stream c) = ex_raft_store 1 (Some (Address [7])) [] 0 (ex_supp cur d)"
    and l: "rf_store (rld_stream l) = ex_raft_store 1 (Some (Address [7])) [(1, ex_blank)] 1 (ex_supp cur' d')" "rf_last_heartbeat_instant (rld_stream l) = None"
    using ex_raft_run by blast
  have run: "on_req_request_vote (ex_rw 0) (Address [7]) ?rq (raft_stream_of (Leads l)) = (Ok (vote_res ?rq 1 True), rld_stream l)"
    using l by (simp add: on_req_request_vote_def bind_apply heard_lately_def decide_vote_def get_last_log_index_term_def ex_blank_def)
  have granted: "vs_vote_granted (vote_res ?rq 1 True)"
    by (simp add: vote_res_def)
  have voted: "rst_current_voted_for (rf_store (raft_stream_of (Campaigns c))) = Some (Address [7])" "rf_term (raft_stream_of (Campaigns c)) = vq_term ?rq"
    using c by simp_all
  from raft_votes_once [OF ex_raft_lib_ok m voted run granted] m run granted voted show ?thesis
    by (intro exI [of _ m] exI [of _ "Campaigns c"] exI [of _ "Leads l"] exI [of _ "vote_res ?rq 1 True"] exI [of _ "rld_stream l"]) simp
qed

section \<open>The log\<close>

text \<open>C32: The log of a running validator is well-formed: its indexes ascend, and every entry stands under its own index. This holds after every
  run, whatever entries the peers sent.\<close>

theorem raft_log_well_formed:
  assumes "raft_lib_ok lib rl absd" "raft_fresh lib rl absd m" "raft_run lib rl absd m m'"
  shows "sorted_wrt (<) (map fst (rst_logs (rf_store (raft_stream_of m')))) \<and>
    (\<forall>(k, e)\<in>set (rst_logs (rf_store (raft_stream_of m'))). en_index e = k)"
proof -
  obtain b0 where b0: "raft_inv rl absd b0 (0, None) m" "sd_column (bk_meta_statedb b0) = META_STATE"
    using raft_fresh_inv [OF assms(1,2)] .
  then have "raft_inv rl absd b0 (0, None) m'"
    using raft_run_inv [OF assms(1) b0(2) assms(3)] by blast
  then show ?thesis
    by (auto simp: raft_inv_def rf_inv_def rst_inv_def log_wf_def)
qed

theorem raft_log_well_formed_witness:
  "\<exists>(m :: (mem_db, bytes, bytes) raft_machine) m'. raft_fresh (ex_chain_lib null_trie) ex_rl (\<lambda>d. d) m \<and>
     raft_run (ex_chain_lib null_trie) ex_rl (\<lambda>d. d) m m' \<and> rst_logs (rf_store (raft_stream_of m')) = [(1, ex_blank)] \<and> en_index ex_blank = 1"
proof -
  obtain m :: "(mem_db, bytes, bytes) raft_machine" and l cur d where m: "raft_fresh (ex_chain_lib null_trie) ex_rl (\<lambda>d. d) m"
      "raft_run (ex_chain_lib null_trie) ex_rl (\<lambda>d. d) m (Leads l)"
    and l: "rf_store (rld_stream l) = ex_raft_store 1 (Some (Address [7])) [(1, ex_blank)] 1 (ex_supp cur d)"
    using ex_raft_run raft_run_trans by blast
  from raft_log_well_formed [OF ex_raft_lib_ok m] m l show ?thesis
    by (intro exI [of _ m] exI [of _ "Leads l"]) simp
qed

definition log_view :: "('d, 'kp, 'ver) raft_storage \<Rightarrow> (u64, log_entry) bmap \<times> u64 \<times> u64" where
  "log_view s = (rst_logs s, rst_base_log_index s, rst_base_log_term s)"

lemma keeps_view_write: "keeps (\<lambda>s. log_view s = v) (raft_commit_consensus_data lib ops)"
  by (simp add: keeps_def raft_commit_consensus_data_def raft_on_support_def log_view_def split: prod.split)

lemma keeps_view_store:
  "keeps (\<lambda>s. log_view (rf_store s) = v) (raft_on_storage (update_commit_log_index lib rl i))"
  "keeps (\<lambda>s. log_view (rf_store s) = v) (raft_on_storage (update_proposal lib rl pr))"
  "keeps (\<lambda>s. log_view (rf_store s) = v) (raft_on_storage (update_current_term lib rl t))"
  "keeps (\<lambda>s. log_view (rf_store s) = v) (raft_on_storage (update_current_voted_for lib rl x))"
proof -
  have lift: "keeps (\<lambda>s. log_view s = v) m \<Longrightarrow> keeps (\<lambda>s. log_view (rf_store s) = v) (raft_on_storage m)" for m
    by (auto simp: keeps_def raft_on_storage_def split: prod.splits)
  show "keeps (\<lambda>s. log_view (rf_store s) = v) (raft_on_storage (update_commit_log_index lib rl i))"
    "keeps (\<lambda>s. log_view (rf_store s) = v) (raft_on_storage (update_proposal lib rl pr))"
    "keeps (\<lambda>s. log_view (rf_store s) = v) (raft_on_storage (update_current_term lib rl t))"
    "keeps (\<lambda>s. log_view (rf_store s) = v) (raft_on_storage (update_current_voted_for lib rl x))"
    unfolding update_commit_log_index_def update_proposal_def update_current_term_def update_current_voted_for_def
    by (intro lift keeps_rules keeps_view_write; simp add: log_view_def)+
qed

lemma keeps_view_proposals:
  "keeps (\<lambda>s. log_view (rf_store s) = v) (accord_proposals w h)" "keeps (\<lambda>s. log_view (rf_store s) = v) (adopt_term w t)"
proof -
  have on_proposal: "keeps (\<lambda>s. log_view (rf_store s) = v) (raft_on_proposal w pr)" for pr
    unfolding raft_on_proposal_def
    by (intro keeps_rules) (auto intro!: keeps_rules keeps_view_store split: raft_verify_action.split)
  show "keeps (\<lambda>s. log_view (rf_store s) = v) (accord_proposals w h)"
    unfolding accord_proposals_def by (intro keeps_rules keeps_view_store on_proposal; simp)
  show "keeps (\<lambda>s. log_view (rf_store s) = v) (adopt_term w t)"
    unfolding adopt_term_def by (intro keeps_rules keeps_view_store)
qed

lemma append_log_entries_Ok:
  assumes "raft_on_storage (append_log_entries lib rl es) s = (Ok u, s')"
  shows "rst_logs (rf_store s') = bm_extend (map (\<lambda>e. (en_index e, e)) es) (rst_logs (rf_store s))"
  using assms by (auto simp: raft_on_storage_def append_log_entries_def bind_eq_Ok raft_commit_consensus_data_def raft_on_support_def split: prod.splits)

lemma delete_log_entries_Ok:
  assumes "raft_on_storage (delete_log_entries lib rl R) s = (Ok u, s')"
  shows "rst_logs (rf_store s') = bm_without R (rst_logs (rf_store s))"
  using assms by (auto simp: raft_on_storage_def delete_log_entries_def bind_eq_Ok raft_commit_consensus_data_def raft_on_support_def split: prod.splits)

text \<open>Entries are either refused or appended.\<close>

lemma perform_append_success:
  assumes "perform_append_entries w a rq s = (Ok res, s')" "aes_success res"
  shows "rst_logs (rf_store s') = bm_extend (map (\<lambda>e. (en_index e, e)) (aeq_entries rq)) (rst_logs (rf_store s)) \<and>
    (aes_last_log_index res, aes_last_log_term res) = get_last_log_index_term (rf_store s')"
proof -
  have append: "rst_logs (rf_store s') = bm_extend (map (\<lambda>e. (en_index e, e)) (aeq_entries rq)) (rst_logs (rf_store s1)) \<and>
      (aes_last_log_index res, aes_last_log_term res) = get_last_log_index_term (rf_store s')"
    if "bind (raft_on_storage (append_log_entries (rw_lib w) (rw_rl w) (aeq_entries rq))) (\<lambda>_.
       ask (\<lambda>s. append_res rq True (rf_term s) (get_last_log_index_term (rf_store s)))) s1 = (Ok res, s')" for s1
    using that by (auto simp: bind_eq_Ok append_res_def dest!: append_log_entries_Ok)
  show ?thesis
  proof (cases "find_map proposal_hash (aeq_entries rq)")
    case None
    then show ?thesis
      using assms append by (simp add: perform_append_entries_def)
  next
    case (Some h)
    obtain s1 u where s1: "accord_proposals w h s = (Ok u, s1)" "bind (raft_on_storage (append_log_entries (rw_lib w) (rw_rl w) (aeq_entries rq))) (\<lambda>_.
       ask (\<lambda>s. append_res rq True (rf_term s) (get_last_log_index_term (rf_store s)))) s1 = (Ok res, s')"
      using assms Some by (auto simp: perform_append_entries_def bind_eq_Ok append_res_def Let_def split: option.splits)
    have "log_view (rf_store s1) = log_view (rf_store s)"
      by (rule keepsD [OF keeps_view_proposals(1) refl s1(1)])
    then show ?thesis
      using append [OF s1(2)] by (simp add: log_view_def)
  qed
qed

lemma last_log_bound:
  assumes "log_wf (rst_logs st)" "get_last_log_index_term st = (i, t)"
  shows "map_of (rst_logs st) k = None \<or> k \<le> i"
    "(\<exists>e. map_of (rst_logs st) i = Some e \<and> en_term e = t) \<or> (i, t) = (rst_base_log_index st, rst_base_log_term st)"
proof -
  have "(map_of (rst_logs st) k = None \<or> k \<le> i) \<and>
      ((\<exists>e. map_of (rst_logs st) i = Some e \<and> en_term e = t) \<or> (i, t) = (rst_base_log_index st, rst_base_log_term st))"
  proof (cases "rst_logs st" rule: rev_cases)
    case Nil
    then show ?thesis
      using assms by (simp add: get_last_log_index_term_def)
  next
    case (snoc l x)
    obtain j e where x: "x = (j, e)"
      by (cases x)
    have l: "\<forall>k\<in>fst ` set l. k < j" "en_index e = j"
      using assms(1) snoc x by (auto simp: log_wf_def sorted_wrt_append)
    have "map_of l j = None"
      using l(1) by (force simp: map_of_eq_None_iff)
    then have "map_of (rst_logs st) j = Some e"
      using snoc x by (simp add: map_add_def)
    moreover have "map_of (rst_logs st) k = None \<or> k \<in> insert j (fst ` set l)"
      using snoc x by (auto simp: map_of_eq_None_iff)
    moreover have "i = j" "t = en_term e"
      using assms(2) snoc x l(2) by (auto simp: get_last_log_index_term_def)
    ultimately show ?thesis
      using l(1) by fastforce
  qed
  then show "map_of (rst_logs st) k = None \<or> k \<le> i"
    "(\<exists>e. map_of (rst_logs st) i = Some e \<and> en_term e = t) \<or> (i, t) = (rst_base_log_index st, rst_base_log_term st)"
    by blast+
qed

text \<open>The log has the entry that the request builds on, or the log of the confirmed block is it.\<close>

definition has_prev_log :: "append_entries_req \<Rightarrow> ('d, 'kp, 'ver) raft_storage \<Rightarrow> bool" where
  "has_prev_log rq st \<longleftrightarrow> (\<exists>e. map_of (rst_logs st) (aeq_prev_log_index rq) = Some e \<and> en_term e = aeq_prev_log_term rq) \<or>
     (aeq_prev_log_index rq, aeq_prev_log_term rq) = (rst_base_log_index st, rst_base_log_term st)"

definition replaced_from :: "u64 \<Rightarrow> log_entry list \<Rightarrow> (u64 \<rightharpoonup> log_entry) \<Rightarrow> u64 \<rightharpoonup> log_entry" where
  "replaced_from i es m = (\<lambda>k. case map_of (rev (map (\<lambda>e. (en_index e, e)) es)) k of
     Some e \<Rightarrow> Some e
   | None \<Rightarrow> if i < k then None else m k)"

lemma replaced_from_extend:
  assumes "log_wf l" "\<And>k. i < k \<Longrightarrow> map_of l k = None" "\<And>k. \<not> i < k \<Longrightarrow> map_of l k = m k"
  shows "map_of (bm_extend (map (\<lambda>e. (en_index e, e)) es) l) = replaced_from i es m"
  using assms by (auto simp: fun_eq_iff map_of_bm_extend log_wf_def replaced_from_def map_add_def split: option.splits)

lemma prev_log_entry:
  assumes "log_wf (rst_logs st)" "list_ex (\<lambda>x. en_term x = t) (get_log_entries (\<lambda>k. k = i) st)"
  shows "\<exists>e. map_of (rst_logs st) i = Some e \<and> en_term e = t"
proof -
  have "distinct (map fst (rst_logs st))"
    using assms(1) by (simp add: log_wf_def strict_sorted_iff)
  then show ?thesis
    using assms(2) by (auto simp: list_ex_iff get_log_entries_def bm_range_def intro: map_of_is_SomeI)
qed

lemma match_entries_success:
  assumes wf: "log_wf (rst_logs (rf_store s))" and run: "match_entries w a rq ct l s = (Ok res, s')" "aes_success res"
    and es: "aeq_entries rq \<noteq> []" and p: "aeq_prev_log_index rq + 1 \<noteq> 0"
  shows "map_of (rst_logs (rf_store s')) = replaced_from (aeq_prev_log_index rq) (aeq_entries rq) (map_of (rst_logs (rf_store s))) \<and>
    has_prev_log rq (rf_store s) \<and> (aes_last_log_index res, aes_last_log_term res) = get_last_log_index_term (rf_store s')"
proof -
  let ?p = "aeq_prev_log_index rq" and ?logs = "rst_logs (rf_store s)"
  obtain e es' where e: "aeq_entries rq = e # es'"
    using es by (cases "aeq_entries rq") auto
  have after: "?p < k \<longleftrightarrow> ?p + 1 \<le> k" for k
    by (simp add: word_less_nat_alt word_le_nat_alt unat_Suc_word [OF p] Suc_le_eq)
  consider (tail) "(?p, aeq_prev_log_term rq) = get_last_log_index_term (rf_store s)" "perform_append_entries w a rq s = (Ok res, s')"
    | (inside) s1 u where "list_ex (\<lambda>x. en_term x = aeq_prev_log_term rq) (get_log_entries (\<lambda>k. k = ?p) (rf_store s)) \<or>
        (?p, aeq_prev_log_term rq) = (rst_base_log_index (rf_store s), rst_base_log_term (rf_store s))"
      "raft_on_storage (delete_log_entries (rw_lib w) (rw_rl w) (\<lambda>k. k \<ge> ?p + 1)) s = (Ok u, s1)" "perform_append_entries w a rq s1 = (Ok res, s')"
    using run by (auto simp: match_entries_def e bind_eq_Ok append_res_def split: if_splits)
  then show ?thesis
  proof cases
    case tail
    note bound = last_log_bound [OF wf tail(1) [symmetric]]
    have "map_of (bm_extend (map (\<lambda>e. (en_index e, e)) (aeq_entries rq)) ?logs) = replaced_from ?p (aeq_entries rq) (map_of ?logs)"
      by (rule replaced_from_extend [OF wf]) (use bound(1) in \<open>auto simp: not_le [symmetric]\<close>)
    then show ?thesis
      using perform_append_success [OF tail(2) run(2)] bound(2) by (simp add: has_prev_log_def)
  next
    case inside
    note logs = delete_log_entries_Ok [OF inside(2)]
    have "map_of (bm_extend (map (\<lambda>e. (en_index e, e)) (aeq_entries rq)) (rst_logs (rf_store s1))) = replaced_from ?p (aeq_entries rq) (map_of ?logs)"
      unfolding logs by (rule replaced_from_extend [OF log_wf_without [OF wf]]) (simp_all add: map_of_bm_without after)
    then show ?thesis
      using perform_append_success [OF inside(3) run(2)] inside(1) prev_log_entry [OF wf] by (auto simp: has_prev_log_def)
  qed
qed

text \<open>C20: Entries that a validator accepts replace its log in their place. When it answers a request with entries with success, its log had the
  entry before them with the same term, or it is where the log of the confirmed block ends; every index of an entry of the request has
  then that entry (the last one for it), what the log had elsewhere is kept up to the entry before and gone after it, and the answer tells
  the end of the new log. Only the index of the first entry is compared with the request, so a later entry may also replace one before it.
  The index before the entries is not the greatest there is.\<close>

theorem append_entries_replaces_log:
  assumes "log_wf (rst_logs (rf_store s))" "on_req_append_entries w a rq s = (Ok res, s')" "aes_success res"
    and "aeq_entries rq \<noteq> []" "aeq_prev_log_index rq + 1 \<noteq> 0"
  shows "map_of (rst_logs (rf_store s')) = replaced_from (aeq_prev_log_index rq) (aeq_entries rq) (map_of (rst_logs (rf_store s))) \<and>
    has_prev_log rq (rf_store s) \<and> (aes_last_log_index res, aes_last_log_term res) = get_last_log_index_term (rf_store s')"
proof -
  obtain s1 where s1: "match_entries w a rq (rf_term s) (get_last_log_index_term (rf_store s)) s1 = (Ok res, s')"
    and s: "bind (update_next_election_instant w 0 True) (\<lambda>_.
       bind (raft_on_storage (update_commit_log_index (rw_lib w) (rw_rl w) (aeq_commit_log_index rq))) (\<lambda>_.
       bind (if aeq_term rq \<noteq> rf_term s then adopt_term w (aeq_term rq) else ret ()) (\<lambda>_.
       bind (raft_update_current_leader (Some a)) (\<lambda>_. raft_update_state RaftFollower)))) s = (Ok (), s1)"
    using assms(2,3) by (auto simp: on_req_append_entries_def append_res_def bind_eq_Ok split: if_splits)
  have "keeps (\<lambda>s. log_view (rf_store s) = v) (bind (update_next_election_instant w 0 True) (\<lambda>_.
       bind (raft_on_storage (update_commit_log_index (rw_lib w) (rw_rl w) (aeq_commit_log_index rq))) (\<lambda>_.
       bind (if aeq_term rq \<noteq> rf_term s then adopt_term w (aeq_term rq) else ret ()) (\<lambda>_.
       bind (raft_update_current_leader (Some a)) (\<lambda>_. raft_update_state RaftFollower)))))" for v
    by (intro keeps_rules keeps_view_store keeps_view_proposals keeps_store_instants)
  from keepsD [OF this refl s] have "log_view (rf_store s1) = log_view (rf_store s)" .
  then show ?thesis
    using match_entries_success [OF _ s1 assms(3-5)] assms(1) by (simp add: log_view_def has_prev_log_def)
qed

theorem append_entries_replaces_log_witness:
  "\<exists>(s :: (mem_db, bytes, bytes) raft) res s'. rst_logs (rf_store s) = [(1, ex_blank)] \<and>
     on_req_append_entries (ex_rw 0) (Address [8]) \<lparr> aeq_request_id = 3, aeq_term = 1, aeq_prev_log_index = 1, aeq_prev_log_term = 1,
       aeq_commit_log_index = 1, aeq_entries = [ex_blank\<lparr>en_index := 2\<rparr>] \<rparr> s = (Ok res, s') \<and> aes_success res \<and>
     map_of (rst_logs (rf_store s')) 2 = Some (ex_blank\<lparr>en_index := 2\<rparr>) \<and> map_of (rst_logs (rf_store s')) 1 = Some ex_blank \<and>
     aes_last_log_index res = 2"
proof -
  let ?e = "ex_blank\<lparr>en_index := 2\<rparr>" and ?lib = "ex_chain_lib null_trie"
  let ?rq = "\<lparr> aeq_request_id = 3, aeq_term = 1, aeq_prev_log_index = 1, aeq_prev_log_term = 1, aeq_commit_log_index = 1, aeq_entries = [?e] \<rparr>"
  obtain cur :: current_state where True
    by blast
  obtain d where d: "\<And>s. rst_support s = ex_supp cur (bk_db (ex_chain0 null_trie)) \<Longrightarrow>
      raft_commit_consensus_data ?lib (put_consensus_data (rl_u64 ex_rl) DB_KEY_COMMIT_LOG_INDEX 1) s = (Ok (), s\<lparr>rst_support := ex_supp cur d\<rparr>)" "ex_db d"
    using ex_raft_put [OF ex_db0] by metis
  obtain d' where d': "\<And>s. rst_support s = ex_supp cur d \<Longrightarrow>
      raft_commit_consensus_data ?lib (put_consensus_data (rl_logs ex_rl) DB_KEY_LOGS [(1, ex_blank), (2, ?e)]) s = (Ok (), s\<lparr>rst_support := ex_supp cur d'\<rparr>)"
    using ex_raft_put [OF d(2)] by metis
  let ?s = "ex_raft (ex_raft_store 1 None [(1, ex_blank)] 1 (ex_supp cur (bk_db (ex_chain0 null_trie)))) None RaftFollower"
  let ?res = "append_res ?rq True 1 (2, 1)"
  obtain s' where run: "on_req_append_entries (ex_rw 0) (Address [8]) ?rq ?s = (Ok ?res, s')"
    by (simp add: on_req_append_entries_def bind_apply update_next_election_instant_def rand_election_timeout_def ex_raft_meta_def Let_def
        raft_on_storage_def update_commit_log_index_def d(1) raft_update_current_leader_def raft_update_state_def match_entries_def
        get_last_log_index_term_def ex_blank_def perform_append_entries_def proposal_hash_def append_log_entries_def bm_extend_def
        d' [unfolded ex_blank_def, simplified])
  have wf: "log_wf (rst_logs (rf_store ?s))"
    by (simp add: log_wf_def ex_blank_def)
  have "map_of (rst_logs (rf_store s')) = replaced_from 1 [?e] (map_of [(1, ex_blank)])"
    using append_entries_replaces_log [OF wf run] by (simp add: append_res_def)
  moreover have "replaced_from 1 [?e] (map_of [(1, ex_blank)]) 2 = Some ?e" "replaced_from 1 [?e] (map_of [(1, ex_blank)]) 1 = Some ex_blank"
    by (simp_all add: replaced_from_def)
  ultimately show ?thesis
    by (intro exI [of _ ?s] exI [of _ ?res] exI [of _ s']) (simp add: run append_res_def)
qed

section \<open>Commits\<close>

text \<open>The commit index of a leader is what a majority of the members has: with one index per member, the new commit index stays or is matched by
  more than half of them, it never goes down, and no greater index is matched by more than half.\<close>

theorem raft_commit_index:
  assumes "match_indices \<noteq> []"
  shows "let n = get_new_commit_log_index match_indices old; have_index = (\<lambda>k. length (filter (\<lambda>x. k \<le> x) match_indices)) in
    old \<le> n \<and> (n = old \<or> length match_indices < 2 * have_index n) \<and> (\<forall>k. n < k \<longrightarrow> \<not> length match_indices < 2 * have_index k)"
proof -
  have "old \<le> get_new_commit_log_index match_indices old"
    by (simp add: get_new_commit_log_index_def)
  then show ?thesis
    using new_commit_index [OF assms, of old] by (auto simp: Let_def not_less)
qed

theorem raft_commit_index_witness:
  "length [5, 3, 4 :: u64] < 2 * length (filter (\<lambda>x. get_new_commit_log_index [5, 3, 4] 2 \<le> x) [5, 3, 4]) \<and>
    \<not> length [5, 3, 4 :: u64] < 2 * length (filter (\<lambda>x. 5 \<le> x) [5, 3, 4 :: u64]) \<and> get_new_commit_log_index [5, 3, 4] 2 = 4"
proof -
  have n: "get_new_commit_log_index [5, 3, 4] 2 = 4"
    by (simp add: get_new_commit_log_index_def max_def)
  show ?thesis
    using raft_commit_index [of "[5, 3, 4]" 2] unfolding Let_def n by auto
qed

text \<open>The leader replicates to every other member, and to nobody else.\<close>

definition replicates :: "raft_authorities \<Rightarrow> ('d, 'kp, 'ver) raft_leader \<Rightarrow> bool" where
  "replicates authorities l \<longleftrightarrow> distinct (ra_members authorities) \<and> rf_address (rld_stream l) \<in> set (ra_members authorities) \<and>
     hm_wf (rld_replications l) \<and> fst ` set (rld_replications l) = set (ra_members authorities) - {rf_address (rld_stream l)}"

text \<open>The last index of a member that the leader knows of: that of its own log, or what the last answer of the member told (at first, the log of the confirmed block).\<close>

definition reported_index :: "('d, 'kp, 'ver) raft_leader \<Rightarrow> address \<Rightarrow> u64" where
  "reported_index l x = (if x = rf_address (rld_stream l) then fst (get_last_log_index_term (rld_store l))
     else case hm_get (rld_replications l) x of Some r \<Rightarrow> rep_match_index r | None \<Rightarrow> 0)"

lemma fst_hm_insert: "fst ` set (hm_insert k v m) = insert k (fst ` set m)"
  by (induction m) (auto simp: hm_insert_def)

lemma replicates_add:
  assumes "hm_wf (rld_replications l)" "add_replication target i t l = (r, l')"
  shows "r = Ok ()" "hm_wf (rld_replications l')" "fst ` set (rld_replications l') = insert target (fst ` set (rld_replications l))"
    "rld_stream l' = rld_stream l"
proof -
  have eq: "r = Ok ()" "l' = l\<lparr>rld_tasks := hm_insert (rld_next_task l) (replication_stream_new target i t) (rld_tasks l),
     rld_replications := hm_insert target \<lparr> rep_task = rld_next_task l, rep_match_index = i \<rparr> (rld_replications l),
     rld_next_task := rld_next_task l + 1\<rparr>"
    using assms(2) by (auto simp: add_replication_def)
  show "r = Ok ()" "hm_wf (rld_replications l')" "fst ` set (rld_replications l') = insert target (fst ` set (rld_replications l))"
    "rld_stream l' = rld_stream l"
    unfolding eq using assms(1) by (simp_all add: fst_hm_insert)
qed

text \<open>A leader that starts replicates to the members.\<close>

lemma replicates_for_each:
  assumes "for_each (\<lambda>target. if target \<noteq> own then add_replication target i t else ret ()) ms l = (Ok (), l')" "hm_wf (rld_replications l)"
  shows "hm_wf (rld_replications l') \<and> fst ` set (rld_replications l') = (set ms - {own}) \<union> fst ` set (rld_replications l) \<and> rld_stream l' = rld_stream l"
  using assms
proof (induction ms arbitrary: l)
  case (Cons m ms)
  show ?case
  proof (cases "m = own")
    case True
    then show ?thesis
      using Cons.IH [of l] Cons.prems by (simp add: bind_apply)
  next
    case False
    obtain r l1 where l1: "add_replication m i t l = (r, l1)"
      by fastforce
    note added = replicates_add [OF Cons.prems(2) l1]
    have "for_each (\<lambda>target. if target \<noteq> own then add_replication target i t else ret ()) ms l1 = (Ok (), l')"
      using Cons.prems(1) False l1 added(1) by (simp add: bind_apply)
    from Cons.IH [OF this added(2)] show ?thesis
      using added(3,4) False by auto
  qed
qed simp

lemma leader_start_replicates:
  assumes "distinct (ra_members (rf_authorities s))" "rf_address s \<in> set (ra_members (rf_authorities s))"
    and "for_each (\<lambda>target. if target \<noteq> rf_address s then add_replication target i t else ret ()) (ra_members (rf_authorities s)) (raft_leader_new s) = (Ok (), l)"
  shows "replicates (rf_authorities s) l"
  using replicates_for_each [OF assms(3)] assms(1,2) by (simp add: raft_leader_new_def hm_wf_def replicates_def)

text \<open>The majority that an index needs meets every majority of votes.\<close>

lemma commit_majority:
  assumes "distinct (ra_members authorities)" "distinct ks" "set ks = set (ra_members authorities)"
    "voters \<subseteq> set (ra_members authorities)" "votes_needed authorities \<le> card voters" "get_new_commit_log_index (map f ks) old \<noteq> old"
  shows "\<exists>x\<in>voters. get_new_commit_log_index (map f ks) old \<le> f x"
proof -
  let ?n = "get_new_commit_log_index (map f ks) old"
  let ?S = "{x \<in> set ks. ?n \<le> f x}"
  have len: "length ks = length (ra_members authorities)"
    using assms(1-3) by (metis distinct_card)
  have "ks \<noteq> []"
    using assms(3-5) by (auto simp: votes_needed_def)
  then have "length ks < 2 * length (filter (\<lambda>x. ?n \<le> f x) ks)"
    using new_commit_index(1) [of "map f ks" old] assms(6) by (auto simp: filter_map comp_def)
  also have "length (filter (\<lambda>x. ?n \<le> f x) ks) = card ?S"
    using assms(2) by (metis distinct_card distinct_filter set_filter)
  finally have "votes_needed authorities \<le> card ?S"
    using len by (simp add: votes_needed_def)
  then have "\<exists>x\<in>voters \<inter> ?S. 0 < (1 :: nat)"
    using assms(1,3-5) by (intro rq.common_member [of authorities]) auto
  then show ?thesis
    by blast
qed

text \<open>The indexes that are sorted are those that were reported, one for each member.\<close>

lemma reported_indexes:
  assumes "replicates authorities l"
  shows "map (rep_match_index \<circ> snd) (rld_replications l) @ [fst (get_last_log_index_term (rld_store l))] =
      map (reported_index l) (map fst (rld_replications l) @ [rf_address (rld_stream l)])"
    "distinct (map fst (rld_replications l) @ [rf_address (rld_stream l)])"
    "set (map fst (rld_replications l) @ [rf_address (rld_stream l)]) = set (ra_members authorities)"
proof -
  have keys: "distinct (map fst (rld_replications l))" "fst ` set (rld_replications l) = set (ra_members authorities) - {rf_address (rld_stream l)}"
    using assms by (simp_all add: replicates_def hm_wf_def)
  have "reported_index l k = rep_match_index r" if "(k, r) \<in> set (rld_replications l)" for k r
    using keys that by (force simp: reported_index_def hm_get_def)
  moreover have "reported_index l (rf_address (rld_stream l)) = fst (get_last_log_index_term (rld_store l))"
    by (simp add: reported_index_def)
  ultimately show "map (rep_match_index \<circ> snd) (rld_replications l) @ [fst (get_last_log_index_term (rld_store l))] =
      map (reported_index l) (map fst (rld_replications l) @ [rf_address (rld_stream l)])"
    by auto
  show "distinct (map fst (rld_replications l) @ [rf_address (rld_stream l)])"
    using keys by auto
  show "set (map fst (rld_replications l) @ [rf_address (rld_stream l)]) = set (ra_members authorities)"
    using keys assms by (auto simp: replicates_def)
qed

lemma on_maybe_commit_index:
  assumes "on_maybe_commit w l = (r, l')" "rst_commit_log_index (rld_store l') \<noteq> rst_commit_log_index (rld_store l)"
  shows "rst_commit_log_index (rld_store l') = get_new_commit_log_index
      (map (rep_match_index \<circ> snd) (rld_replications l) @ [fst (get_last_log_index_term (rld_store l))]) (rst_commit_log_index (rld_store l))"
    "reported_index l' = reported_index l"
proof -
  define n where "n = get_new_commit_log_index (map (rep_match_index \<circ> snd) (rld_replications l) @ [fst (get_last_log_index_term (rld_store l))])
    (rst_commit_log_index (rld_store l))"
  obtain q x where "support_commit_consensus_data (rw_lib w) (put_consensus_data (rl_u64 (rw_rl w)) DB_KEY_COMMIT_LOG_INDEX n transaction_new)
      (rst_support (rld_store l)) = (q, x)"
    by fastforce
  then have q: "raft_commit_consensus_data (rw_lib w) (put_consensus_data (rl_u64 (rw_rl w)) DB_KEY_COMMIT_LOG_INDEX n) (rld_store l)
      = (q, (rld_store l)\<lparr>rst_support := x\<rparr>)"
    by (simp add: raft_commit_consensus_data_def raft_on_support_def)
  have "l' = l\<lparr>rld_stream := (rld_stream l)\<lparr>rf_store := (rld_store l)\<lparr>rst_support := x, rst_commit_log_index := n\<rparr>,
      rf_internal := rf_internal (rld_stream l) @ [LogUpdated]\<rparr>\<rparr>"
    using assms q by (cases q) (auto simp: on_maybe_commit_def bind_apply Let_def raft_on_stream_def raft_on_storage_def update_commit_log_index_def
        raft_internal_send_def simp flip: n_def split: if_splits)
  then show "rst_commit_log_index (rld_store l') = get_new_commit_log_index
      (map (rep_match_index \<circ> snd) (rld_replications l) @ [fst (get_last_log_index_term (rld_store l))]) (rst_commit_log_index (rld_store l))"
    "reported_index l' = reported_index l"
    by (simp_all add: n_def reported_index_def fun_eq_iff get_last_log_index_term_def split: list.split)
qed

text \<open>C19: When an answer of a member makes a leader that replicates to the other members raise the commit index, every set of members that is
  enough to elect a leader has one of which the leader has recorded an index as high: the leader itself, whose log has it, or a member
  whose last answer told of a log that is as long. (Whether the member accepted the entries is not looked at; before its first answer a
  member stands at the log of the confirmed block.) The commit index goes up.\<close>

theorem raft_commit_meets_votes:
  assumes "replicates authorities l" "on_update_match_index w a i l = (r, l')"
    and "rst_commit_log_index (rld_store l') \<noteq> rst_commit_log_index (rld_store l)"
    and "voters \<subseteq> set (ra_members authorities)" "votes_needed authorities \<le> card voters"
  shows "rst_commit_log_index (rld_store l) < rst_commit_log_index (rld_store l') \<and>
    (\<exists>x\<in>voters. rst_commit_log_index (rld_store l') \<le> reported_index l' x)"
proof -
  define l1 where "l1 = (case hm_get (rld_replications l) a of
      Some r \<Rightarrow> l\<lparr>rld_replications := hm_insert a (r\<lparr>rep_match_index := i\<rparr>) (rld_replications l)\<rparr> | None \<Rightarrow> l)"
  have stream: "rld_stream l1 = rld_stream l"
    by (simp add: l1_def split: option.split)
  have "a \<in> fst ` set (rld_replications l)" if "hm_get (rld_replications l) a = Some q" for q
    using that by (force simp: hm_get_def dest: map_of_SomeD)
  then have reps: "replicates authorities l1"
    using assms(1) by (auto simp: l1_def replicates_def fst_hm_insert split: option.splits)
  have run: "on_maybe_commit w l1 = (r, l')"
    using assms(2) by (simp add: on_update_match_index_def bind_apply l1_def)
  have changed: "rst_commit_log_index (rld_store l') \<noteq> rst_commit_log_index (rld_store l1)"
    using assms(3) stream by simp
  note index = on_maybe_commit_index [OF run changed, unfolded reported_indexes(1) [OF reps]]
  have dist: "distinct (ra_members authorities)"
    using assms(1) by (simp add: replicates_def)
  have "\<exists>x\<in>voters. rst_commit_log_index (rld_store l') \<le> reported_index l' x"
    unfolding index using changed index(1)
    by (intro commit_majority [OF dist reported_indexes(2,3) [OF reps] assms(4,5)]) simp
  moreover have "rst_commit_log_index (rld_store l) \<le> rst_commit_log_index (rld_store l')"
    unfolding index(1) by (simp add: get_new_commit_log_index_def stream)
  ultimately show ?thesis
    using assms(3) by auto
qed

text \<open>A leader of three members with two entries; one follower has told of both, and now the other tells of the first.\<close>

definition ex_three :: "(mem_db, bytes, bytes) support \<Rightarrow> (mem_db, bytes, bytes) raft_leader" where
  "ex_three x = \<lparr> rld_stream = ex_raft (ex_raft_store 1 None [(1, ex_blank), (2, ex_blank\<lparr>en_index := 2\<rparr>)] 0 x) None RaftLeader,
     rld_replications = [(Address [8], \<lparr> rep_task = 0, rep_match_index = 0 \<rparr>), (Address [9], \<lparr> rep_task = 1, rep_match_index = 0 \<rparr>)],
     rld_tasks = [], rld_next_task = 2, rld_out = [] \<rparr>"

theorem raft_commit_meets_votes_witness:
  "\<forall>x. \<exists>l'. on_update_match_index (ex_rw 0) (Address [8]) 1 (ex_three x) = (Ok (), l') \<and> rst_commit_log_index (rld_store l') = 1 \<and>
     (\<exists>v\<in>{Address [8], Address [9]}. 1 \<le> reported_index l' v)"
proof
  fix x
  let ?l = "ex_three x" and ?au = "\<lparr> ra_members = [Address [7], Address [8], Address [9]] \<rparr>"
  obtain y where y: "raft_commit_consensus_data (rw_lib (ex_rw 0)) (put_consensus_data (rl_u64 (rw_rl (ex_rw 0))) DB_KEY_COMMIT_LOG_INDEX 1) (rld_store ?l)
      = (Ok (), (rld_store ?l)\<lparr>rst_support := y\<rparr>)"
    by (rule raft_put_eq [where absd = "\<lambda>d. d" and lib = "rw_lib (ex_rw 0)"]) simp
  have new: "get_new_commit_log_index [1, 0, 2] 0 = 1"
    by (simp add: get_new_commit_log_index_def max_def)
  obtain l' where l': "on_update_match_index (ex_rw 0) (Address [8]) 1 ?l = (Ok (), l')" "rst_commit_log_index (rld_store l') = 1"
    using y new by (simp add: on_update_match_index_def on_maybe_commit_def bind_apply ex_three_def hm_get_def hm_insert_def raft_on_stream_def raft_on_storage_def
        update_commit_log_index_def raft_internal_send_def get_last_log_index_term_def ex_blank_def Let_def)
  have reps: "replicates ?au ?l"
    by (auto simp: replicates_def ex_three_def hm_wf_def)
  have "votes_needed ?au \<le> card {Address [8], Address [9]}"
    by (simp add: votes_needed_def)
  then have "\<exists>v\<in>{Address [8], Address [9]}. rst_commit_log_index (rld_store l') \<le> reported_index l' v"
    using raft_commit_meets_votes [OF reps l'(1), of "{Address [8], Address [9]}"] l'(2) by (simp add: ex_three_def)
  then show "\<exists>l'. on_update_match_index (ex_rw 0) (Address [8]) 1 ?l = (Ok (), l') \<and> rst_commit_log_index (rld_store l') = 1 \<and>
      (\<exists>v\<in>{Address [8], Address [9]}. 1 \<le> reported_index l' v)"
    using l' by auto
qed

section \<open>Refused entries\<close>

text \<open>C33: A leader does not look at whether its entries were accepted. With one other member, an answer that refuses the entries and tells
  of a log that is as long as that of the leader, whatever its entries are, makes the leader commit its whole log: one turn of the
  replication task and one of the leader.\<close>

theorem refused_answer_commits:
  assumes "chain_lib_ok (rw_lib w) absd"
    and task: "hm_get (rld_tasks l) i = Some t" "rs_in t = [ReplicationAppendRes res]" "hm_contains (rs_requests t) (aes_request_id res)"
    and res: "\<not> aes_success res" "aes_term res \<le> rst_current_term (rld_store l)" "aes_last_log_index res \<noteq> rs_match_index t"
      "aes_last_log_index res = fst (get_last_log_index_term (rld_store l))"
    and leader: "rld_replications l = [(rs_target t, r)]" "rld_out l = []" "rst_commit_log_index (rld_store l) < aes_last_log_index res"
  shows "\<exists>l1 l2. raft_leader_turn w' (RevTask i) l = (Ok (), l1) \<and> raft_leader_turn w RevReplicationOut l1 = (Ok (), l2) \<and>
    rst_commit_log_index (rld_store l2) = fst (get_last_log_index_term (rld_store l)) \<and> rst_logs (rld_store l2) = rst_logs (rld_store l)"
proof -
  let ?n = "aes_last_log_index res" and ?t = "t\<lparr>rs_in := [], rs_requests := hm_remove (aes_request_id res) (rs_requests t)\<rparr>"
  let ?l1 = "l\<lparr>rld_tasks := hm_insert i (?t\<lparr>rs_match_index := ?n, rs_match_term := aes_last_log_term res\<rparr>) (rld_tasks l),
     rld_out := [UpdateMatchIndex (rs_target t) ?n]\<rparr>"
  have 1: "raft_leader_turn w' (RevTask i) l = (Ok (), ?l1)"
    using task res leader(2)
    by (simp add: raft_leader_turn_def task_in_turn_def bind_apply task_on_append_entries_res_def set_task_def task_out_def Let_def not_less)
  obtain x where x: "raft_commit_consensus_data (rw_lib w) (put_consensus_data (rl_u64 (rw_rl w)) DB_KEY_COMMIT_LOG_INDEX ?n) (rld_store l)
      = (Ok (), (rld_store l)\<lparr>rst_support := x\<rparr>)"
    by (rule raft_put_eq [OF assms(1)])
  have new: "get_new_commit_log_index [?n, ?n] (rst_commit_log_index (rld_store l)) = ?n"
    using leader(3) by (auto simp: get_new_commit_log_index_def max_def)
  have "\<exists>l2. raft_leader_turn w RevReplicationOut ?l1 = (Ok (), l2) \<and> rst_commit_log_index (rld_store l2) = ?n \<and>
      rst_logs (rld_store l2) = rst_logs (rld_store l)"
    using leader new x res(4) less_imp_neq [OF leader(3)]
    by (simp add: raft_leader_turn_def bind_apply on_replication_out_message_def on_update_match_index_def hm_get_def hm_insert_def on_maybe_commit_def
        raft_on_stream_def raft_on_storage_def update_commit_log_index_def raft_internal_send_def log_error_def Let_def)
  then show ?thesis
    using 1 res(4) by auto
qed

definition ex_refused :: append_entries_res where
  "ex_refused = \<lparr> aes_request_id = 5, aes_success = False, aes_term = 1, aes_last_log_index = 1, aes_last_log_term = 0 \<rparr>"

definition ex_two :: "(mem_db, bytes, bytes) support \<Rightarrow> (mem_db, bytes, bytes) raft_leader" where
  "ex_two x = \<lparr> rld_stream = ex_raft (ex_raft_store 1 None [(1, ex_blank)] 0 x) None RaftLeader,
     rld_replications = [(Address [8], \<lparr> rep_task = 0, rep_match_index = 0 \<rparr>)],
     rld_tasks = [(0, (replication_stream_new (Address [8]) 0 0)\<lparr>rs_in := [ReplicationAppendRes ex_refused], rs_requests := [(5, ())]\<rparr>)],
     rld_next_task = 1, rld_out = [] \<rparr>"

theorem refused_answer_commits_witness:
  "\<forall>x. \<exists>l1 l2. raft_leader_turn (ex_rw 0) (RevTask 0) (ex_two x) = (Ok (), l1) \<and>
     raft_leader_turn (ex_rw 0) RevReplicationOut l1 = (Ok (), l2) \<and> rst_commit_log_index (rld_store l2) = 1 \<and> \<not> aes_success ex_refused"
proof
  fix x
  let ?l = "ex_two x"
  let ?t = "(replication_stream_new (Address [8]) 0 0)\<lparr>rs_in := [ReplicationAppendRes ex_refused], rs_requests := [(5, ())]\<rparr>"
  have last: "fst (get_last_log_index_term (rld_store ?l)) = 1"
    by (simp add: ex_two_def get_last_log_index_term_def ex_blank_def)
  show "\<exists>l1 l2. raft_leader_turn (ex_rw 0) (RevTask 0) ?l = (Ok (), l1) \<and> raft_leader_turn (ex_rw 0) RevReplicationOut l1 = (Ok (), l2) \<and>
      rst_commit_log_index (rld_store l2) = 1 \<and> \<not> aes_success ex_refused"
    using refused_answer_commits [of "ex_rw 0" "\<lambda>d. d" ?l 0 ?t ex_refused "\<lparr> rep_task = 0, rep_match_index = 0 \<rparr>" "ex_rw 0"] last
    by (auto simp: ex_two_def ex_refused_def replication_stream_new_def hm_get_def hm_contains_def)
qed

end
