(* ===== verification/Consensus_Dispatcher.thy ===== *)
theory Consensus_Dispatcher
  imports Poa Raft_Stream Hotstuff_Stream
begin

text \<open>
  The choice of the consensus protocol (\<^verbatim>\<open>core/node/consensus/src/lib.rs\<close>): the name in the system parameters selects one of the three
  protocols, which is started with its configuration and from then on gets the messages and checks the proofs.

  A protocol whose configuration has no secret key is started without a stream (\<open>None\<close>).
\<close>

record poa_config =
  pocf_secret_key :: "secret_key option"

record consensus_config =
  ccf_poa :: "poa_config option"
  ccf_raft :: "raft_config option"
  ccf_hotstuff :: "hotstuff_config option"

datatype ('d, 'kp, 'ver) consensus_dispatcher =
    DispatchPoa "poa_stream option"
  | DispatchRaft "('d, 'kp, 'ver) raft option"
  | DispatchHotStuff "('d, 'kp, 'ver) hotstuff option"

record ('d, 't) consensus_world =
  cw_lib :: "('d, 't) chain_lib"
  cw_poa :: poa_lib
  cw_raft :: raft_lib
  cw_hotstuff :: hotstuff_lib
  cw_now :: "u64 option"
  cw_instant :: nat
  cw_rand :: "nat \<Rightarrow> nat"

definition raft_world_of :: "('d, 't) consensus_world \<Rightarrow> ('d, 't) raft_world" where
  "raft_world_of w = \<lparr> rw_lib = cw_lib w, rw_rl = cw_raft w, rw_now = cw_now w, rw_instant = cw_instant w, rw_rand = cw_rand w \<rparr>"

definition hs_world_of :: "('d, 't) consensus_world \<Rightarrow> ('d, 't) hs_world" where
  "hs_world_of w = \<lparr> hw_lib = cw_lib w, hw_hl = cw_hotstuff w, hw_now = cw_now w, hw_instant = cw_instant w, hw_rand = cw_rand w \<rparr>"

definition missing_config :: "string \<Rightarrow> 'a option \<Rightarrow> 'a common_result" where
  "missing_config name = ok_or_else (ConsensusError (ConsensusData (''Missing '' @ name @ '' config'')))"

definition dispatcher_new :: "('d, 't) consensus_world \<Rightarrow> consensus_config \<Rightarrow> ('d, 'kp, 'ver) support
    \<Rightarrow> ('d, 'kp, 'ver) consensus_dispatcher common_result" where
  "dispatcher_new w config supp =
     and_then (get_current_state (sup_backend supp)) (\<lambda>cur.
     let consensus = sys_consensus (cur_system_meta cur) in
     if consensus = CONSENSUS_POA then
       and_then (missing_config ''poa'' (ccf_poa config)) (\<lambda>config.
       and_then (poa_start (cw_lib w) (cw_poa w) (pocf_secret_key config) (sup_backend supp)) (\<lambda>c. Ok (DispatchPoa c)))
     else if consensus = CONSENSUS_RAFT then
       and_then (missing_config ''raft'' (ccf_raft config)) (\<lambda>config.
       and_then (Raft_new (raft_world_of w) config supp) (\<lambda>c. Ok (DispatchRaft c)))
     else if consensus = CONSENSUS_HOTSTUFF then
       and_then (missing_config ''hotstuff'' (ccf_hotstuff config)) (\<lambda>config.
       and_then (HotStuff_new (hs_world_of w) config supp) (\<lambda>c. Ok (DispatchHotStuff c)))
     else Err (Panic (''Unknown consensus: '' @ consensus)))"

definition dispatcher_verify_proof :: "('d, 't) consensus_world \<Rightarrow> ('d, 'kp, 'ver) consensus_dispatcher \<Rightarrow> header \<Rightarrow> proof_data
    \<Rightarrow> ('d, 'kp, 'ver) backend \<Rightarrow> unit common_result" where
  "dispatcher_verify_proof w d header pf b = (case d of
     DispatchPoa _ \<Rightarrow> poa_verify_proof (cw_lib w) (cw_poa w) header pf b
   | DispatchRaft _ \<Rightarrow> raft_verify_proof (cw_lib w) (cw_raft w) header pf b
   | DispatchHotStuff _ \<Rightarrow> hotstuff_verify_proof (cw_lib w) (cw_hotstuff w) header pf b)"

record ('d, 'kp, 'ver) consensus =
  con_dispatcher :: "('d, 'kp, 'ver) consensus_dispatcher"

definition consensus_new :: "('d, 't) consensus_world \<Rightarrow> consensus_config \<Rightarrow> ('d, 'kp, 'ver) support
    \<Rightarrow> ('d, 'kp, 'ver) consensus common_result" where
  "consensus_new w config supp = and_then (dispatcher_new w config supp) (\<lambda>d. Ok \<lparr> con_dispatcher = d \<rparr>)"

definition consensus_verify_proof :: "('d, 't) consensus_world \<Rightarrow> ('d, 'kp, 'ver) consensus \<Rightarrow> header \<Rightarrow> proof_data
    \<Rightarrow> ('d, 'kp, 'ver) backend \<Rightarrow> unit common_result" where
  "consensus_verify_proof w c = dispatcher_verify_proof w (con_dispatcher c)"

section \<open>Only proofs of the protocol of the chain\<close>

lemma consensus_names [simp]:
  "CONSENSUS_POA \<noteq> CONSENSUS_RAFT" "CONSENSUS_POA \<noteq> CONSENSUS_HOTSTUFF" "CONSENSUS_RAFT \<noteq> CONSENSUS_HOTSTUFF"
  "CONSENSUS_RAFT \<noteq> CONSENSUS_POA" "CONSENSUS_HOTSTUFF \<noteq> CONSENSUS_POA" "CONSENSUS_HOTSTUFF \<noteq> CONSENSUS_RAFT"
  by (simp_all add: CONSENSUS_POA_def CONSENSUS_RAFT_def CONSENSUS_HOTSTUFF_def)

text \<open>The name of the protocol that was chosen.\<close>

fun dispatcher_name :: "('d, 'kp, 'ver) consensus_dispatcher \<Rightarrow> string" where
  "dispatcher_name (DispatchPoa _) = CONSENSUS_POA"
| "dispatcher_name (DispatchRaft _) = CONSENSUS_RAFT"
| "dispatcher_name (DispatchHotStuff _) = CONSENSUS_HOTSTUFF"

lemma dispatcher_new_name:
  assumes "dispatcher_new w config supp = Ok d" "bk_current_state (sup_backend supp) = Some cur"
  shows "dispatcher_name d = sys_consensus (cur_system_meta cur)"
  using assms by (auto simp: dispatcher_new_def get_current_state_def Let_def and_then_eq_Ok split: if_splits)

lemma foreign_proof_refused:
  assumes "pf_name pf \<noteq> dispatcher_name d"
  shows "dispatcher_verify_proof w d header pf b = Err (ConsensusError (VerifyProofError (''Unexpected consensus: '' @ pf_name pf)))"
  using assms by (cases d) (simp_all add: dispatcher_verify_proof_def poa_verify_proof_def raft_verify_proof_def hotstuff_verify_proof_def)

end
