(* ===== verification/Coordinator_Sync.thy ===== *)
theory Coordinator_Sync
  imports Consensus_Base Peer_Manager Ordered_Map
begin

text \<open>
  The synchronization of the coordinator (\<^verbatim>\<open>core/node/coordinator/src/sync.rs\<close>, with the messages of \<^verbatim>\<open>protocol.rs\<close>, the reports of
  \<^verbatim>\<open>peer_report.rs\<close>, and the support of \<^verbatim>\<open>stream.rs\<close>): which blocks the peers have, which are requested, received and waiting to be
  committed, and the propagation of blocks and transactions.

  The channels to the peer manager, the network and the protocol are the lists of what was sent; a message to a receiver that is gone is
  only logged. A timer that was set is an entry of \<open>cy_timers\<close>. \<open>LruCache\<close> and the encoding of messages are parameters.
\<close>

section \<open>Messages\<close>

record handshake =
  hsk_genesis_hash :: hash
  hsk_confirmed_number :: block_number
  hsk_confirmed_hash :: hash
  hsk_nonce :: u64

record block_announce =
  ann_block_hash :: hash
  ann_header :: header

type_synonym request_id = u64
type_synonym fields = u32

definition FIELDS_HEADER :: fields where "FIELDS_HEADER = 1"
definition FIELDS_BODY :: fields where "FIELDS_BODY = 2"
definition FIELDS_PROOF :: fields where "FIELDS_PROOF = 4"

datatype block_id = BlockNumberId block_number | BlockHashId hash

datatype direction = Asc | Desc

record block_request =
  brq_request_id :: request_id
  brq_fields :: fields
  brq_block_id :: block_id
  brq_count :: u32
  brq_direction :: direction

record block_response =
  brs_request_id :: request_id
  brs_blocks :: "block_data list"

datatype protocol_message =
    HandshakeMessage handshake
  | BlockAnnounceMessage block_announce
  | BlockRequestMessage block_request
  | BlockResponseMessage block_response
  | TxPropagateMessage "transaction list"
  | ConsensusMessage bytes

text \<open>What is sent to the network; the asker of \<open>GetNetworkState\<close> is left out.\<close>

datatype network_in_message =
    SendMessage peer_id bytes
  | DropPeer peer_id "u64 option"
  | GetNetworkState

section \<open>Reports\<close>

definition PEER_REPORT_INVALID_TX :: peer_report where "PEER_REPORT_INVALID_TX = report_new (- 10) ''Invalid tx''"
definition PEER_REPORT_HANDSHAKE_FAILED :: peer_report where "PEER_REPORT_HANDSHAKE_FAILED = report_new_fatal ''Handshake failed''"
definition PEER_REPORT_INVALID_BLOCK :: peer_report where "PEER_REPORT_INVALID_BLOCK = report_new (- 20) ''Invalid block''"
definition PEER_REPORT_BLOCK_REQUEST_TIMEOUT :: peer_report where
  "PEER_REPORT_BLOCK_REQUEST_TIMEOUT = report_new (- 4) ''Block request timeout''"

section \<open>State\<close>

definition PEER_KNOWN_BLOCKS_SIZE :: u32 where "PEER_KNOWN_BLOCKS_SIZE = 1024"
definition PENDING_BLOCKS_SIZE :: u32 where "PENDING_BLOCKS_SIZE = 2560"
definition PEER_REQUEST_BLOCK_SIZE :: u32 where "PEER_REQUEST_BLOCK_SIZE = 128"
definition PEER_KNOWN_TXS_SIZE :: u32 where "PEER_KNOWN_TXS_SIZE = 10240"
definition TX_PROPAGATE_MAX_BLOCK_BEHIND :: u32 where "TX_PROPAGATE_MAX_BLOCK_BEHIND = 8"

text \<open>\<open>LruCache<Hash, ()>\<close>: a cache of a capacity, and \<open>put\<close>, which says whether the key was there.\<close>

record 'l lru =
  lru_new :: "nat \<Rightarrow> 'l"
  lru_put :: "hash \<Rightarrow> 'l \<Rightarrow> bool \<times> 'l"

datatype sync_peer_state = Vacant | PeerDownloading request_id block_number u32

record 'l sync_peer =
  spi_known_blocks :: 'l
  spi_known_txs :: 'l
  spi_confirmed_number :: block_number
  spi_confirmed_hash :: hash
  spi_nonce :: u64
  spi_state :: sync_peer_state

datatype pending_block_state =
    Seen
  | Downloading peer_id request_id
  | Downloaded peer_id "block_data option"

record pending_block_info =
  pbi_state :: pending_block_state

text \<open>The confirmed block of \<open>DefaultHandshakeBuilder\<close> is shared with the network behind a lock.\<close>

record handshake_builder =
  hb_genesis_hash :: hash
  hb_confirmed :: "block_number \<times> hash"

record ('d, 'kp, 'ver, 'l) chain_sync =
  cy_peers :: "(peer_id, 'l sync_peer) hmap"
  cy_pending :: "(block_number, pending_block_info) bmap"
  cy_next_request_id :: request_id
  cy_timers :: "(peer_id \<times> request_id) list"
  cy_handshake :: handshake_builder
  cy_to_pm :: "in_message list"
  cy_to_network :: "network_in_message list"
  cy_to_consensus :: "consensus_in_message list"
  cy_support :: "('d, 'kp, 'ver) support"

text \<open>What the operations need of the outside: the chain library, the check of proofs of the consensus, the time, the encoding of
  messages and the caches.\<close>

record ('d, 't, 'kp, 'ver, 'l) sync_world =
  sw_lib :: "('d, 't) chain_lib"
  sw_verify_proof :: "header \<Rightarrow> proof_data \<Rightarrow> ('d, 'kp, 'ver) backend \<Rightarrow> unit common_result"
  sw_now :: "u64 option"
  sw_message :: "protocol_message codec"
  sw_lru :: "'l lru"

type_synonym ('d, 'kp, 'ver, 'l, 'a) cy_comp = "(('d, 'kp, 'ver, 'l) chain_sync, 'a, common_error) comp"

abbreviation cy_backend :: "('d, 'kp, 'ver, 'l) chain_sync \<Rightarrow> ('d, 'kp, 'ver) backend" where
  "cy_backend s \<equiv> sup_backend (cy_support s)"

definition chain_sync_new :: "handshake_builder \<Rightarrow> ('d, 'kp, 'ver) support \<Rightarrow> ('d, 'kp, 'ver, 'l) chain_sync" where
  "chain_sync_new hb supp = \<lparr> cy_peers = [], cy_pending = [], cy_next_request_id = 0, cy_timers = [], cy_handshake = hb,
     cy_to_pm = [], cy_to_network = [], cy_to_consensus = [], cy_support = supp \<rparr>"

section \<open>The support\<close>

definition sync_on_support :: "('d, 'kp, 'ver, 'a) sup_comp \<Rightarrow> ('d, 'kp, 'ver, 'l, 'a) cy_comp" where
  "sync_on_support m s = (let (r, x) = m (cy_support s) in (r, s\<lparr>cy_support := x\<rparr>))"

definition sync_read :: "(('d, 'kp, 'ver) backend \<Rightarrow> 'a common_result) \<Rightarrow> ('d, 'kp, 'ver, 'l, 'a) cy_comp" where
  "sync_read f = query (\<lambda>s. f (cy_backend s))"

definition peer_manager_send_message :: "in_message \<Rightarrow> ('d, 'kp, 'ver, 'l, unit) cy_comp" where
  "peer_manager_send_message m = modify (\<lambda>s. s\<lparr>cy_to_pm := cy_to_pm s @ [m]\<rparr>)"

definition network_send_message :: "network_in_message \<Rightarrow> ('d, 'kp, 'ver, 'l, unit) cy_comp" where
  "network_send_message m = modify (\<lambda>s. s\<lparr>cy_to_network := cy_to_network s @ [m]\<rparr>)"

definition consensus_send_message :: "consensus_in_message \<Rightarrow> ('d, 'kp, 'ver, 'l, unit) cy_comp" where
  "consensus_send_message m = modify (\<lambda>s. s\<lparr>cy_to_consensus := cy_to_consensus s @ [m]\<rparr>)"

definition get_block_hash_by_number :: "('d, 't) chain_lib \<Rightarrow> block_number \<Rightarrow> ('d, 'kp, 'ver) backend \<Rightarrow> hash common_result" where
  "get_block_hash_by_number lib number b = and_then (get_block_hash lib number b)
     (ok_or_else (CoordinatorError (CoordinatorData (''Missing block hash: number: '' @ show_word number))))"

definition get_header_by_block_hash :: "('d, 't) chain_lib \<Rightarrow> hash \<Rightarrow> ('d, 'kp, 'ver) backend \<Rightarrow> header common_result" where
  "get_header_by_block_hash lib block_hash b = and_then (get_header lib block_hash b)
     (ok_or_else (CoordinatorError (CoordinatorData (''Missing header: block_hash: '' @ show_hash b block_hash))))"

definition get_proof_by_block_hash :: "('d, 't) chain_lib \<Rightarrow> hash \<Rightarrow> ('d, 'kp, 'ver) backend \<Rightarrow> proof_data common_result" where
  "get_proof_by_block_hash lib block_hash b = and_then (get_proof lib block_hash b)
     (ok_or_else (CoordinatorError (CoordinatorData (''Missing proof: block_hash: '' @ show_hash b block_hash))))"

definition get_body_by_block_hash :: "('d, 't) chain_lib \<Rightarrow> hash \<Rightarrow> ('d, 'kp, 'ver) backend \<Rightarrow> body common_result" where
  "get_body_by_block_hash lib block_hash b = and_then (get_body lib block_hash b)
     (ok_or_else (CoordinatorError (CoordinatorData (''Missing body: block_hash: '' @ show_hash b block_hash))))"

definition get_transaction_by_hash :: "('d, 't) chain_lib \<Rightarrow> ('d, 'kp, 'ver) backend \<Rightarrow> hash \<Rightarrow> transaction common_result" where
  "get_transaction_by_hash lib b tx_hash = and_then (get_transaction lib tx_hash b)
     (ok_or_else (CoordinatorError (CoordinatorData (''Missing transaction: tx_hash: '' @ show_hash b tx_hash))))"

text \<open>The chain as the pool sees it.\<close>

definition chain_pool_support :: "('d, 't) chain_lib \<Rightarrow> ('d, 'kp, 'ver) backend \<Rightarrow> txpool_support" where
  "chain_pool_support lib b = \<lparr> tps_hash_transaction = hash_transaction (bk_executor b) (cc_exec (cl_codecs lib)),
     tps_validate_transaction = (\<lambda>h tx w. backend_validate_transaction lib h tx w b), tps_hex = xe_hex (bk_executor b) \<rparr>"

definition txpool_insert_transaction :: "('d, 't) chain_lib \<Rightarrow> transaction \<Rightarrow> ('d, 'kp, 'ver, unit) sup_comp" where
  "txpool_insert_transaction lib tx = bind (ask (\<lambda>s. chain_pool_support lib (sup_backend s))) (\<lambda>supp. on_txpool (txpool_insert supp tx))"

definition txpool_get_transaction :: "hash \<Rightarrow> ('d, 'kp, 'ver) support \<Rightarrow> full_transaction option" where
  "txpool_get_transaction tx_hash s = hm_get (tp_map (sup_txpool s)) tx_hash"

text \<open>The result of a computation as a value.\<close>

definition attempt :: "('s, 'a, 'e) comp \<Rightarrow> ('s, ('a, 'e) result, 'e) comp" where
  "attempt m s = (let (r, s') = m s in (Ok r, s'))"

section \<open>Requesting blocks\<close>

unbundle bit_operations_syntax

text \<open>The ranges \<open>a..=b\<close>.\<close>

definition u64_upto :: "u64 \<Rightarrow> u64 \<Rightarrow> u64 list" where
  "u64_upto a b = map of_nat [unat a..<Suc (unat b)]"

definition max_pending_number :: "('d, 'kp, 'ver, 'l) chain_sync \<Rightarrow> block_number common_result" where
  "max_pending_number s = (case bm_last_key (cy_pending s) of
     Some k \<Rightarrow> Ok k
   | None \<Rightarrow> and_then (get_current_state (cy_backend s)) (\<lambda>cur. Ok (cur_confirmed_number cur)))"

definition latency :: "('d, 'kp, 'ver, 'l) chain_sync \<Rightarrow> block_number common_result" where
  "latency s = and_then (get_current_state (cy_backend s)) (\<lambda>cur.
     and_then (max_pending_number s) (\<lambda>max_pending. Ok (max_pending - cur_confirmed_number cur)))"

definition notify_latency :: "block_number \<Rightarrow> ('d, 'kp, 'ver, 'l, unit) cy_comp" where
  "notify_latency old_latency = bind (query latency) (\<lambda>new_latency.
     if new_latency \<noteq> old_latency then consensus_send_message (SyncLatencyUpdated new_latency) else ret ())"

definition max_peer_number :: "(peer_id, 'l sync_peer) hmap \<Rightarrow> block_number option" where
  "max_peer_number peers = (case map (spi_confirmed_number \<circ> snd) peers of [] \<Rightarrow> None | x # xs \<Rightarrow> Some (fold max xs x))"

text \<open>The numbers up to the highest of the peers are appended, at most \<open>PENDING_BLOCKS_SIZE\<close> in all; when the peers have less than what is
  pending, the rest is dropped.\<close>

definition maintain_new :: "('d, 'kp, 'ver, 'l, unit) cy_comp" where
  "maintain_new = bind (ask (\<lambda>s. max_peer_number (cy_peers s))) (\<lambda>m. case m of
     None \<Rightarrow> ret ()
   | Some max_peer \<Rightarrow>
       bind (query max_pending_number) (\<lambda>max_pending.
       bind (ask (\<lambda>s. of_nat (length (cy_pending s)))) (\<lambda>len.
       let max_to_append = min max_peer (max_pending + ucast PENDING_BLOCKS_SIZE - len); min_to_append = max_pending + 1 in
       bind (query latency) (\<lambda>old_latency.
       bind (modify (\<lambda>s. s\<lparr>cy_pending :=
               (if min_to_append \<le> max_to_append
                then fold (\<lambda>n. bm_insert n \<lparr> pbi_state = Seen \<rparr>) (u64_upto min_to_append max_to_append) (cy_pending s)
                else fold bm_remove (u64_upto (max_to_append + 1) max_pending) (cy_pending s))\<rparr>)) (\<lambda>_.
       notify_latency old_latency)))))"

text \<open>The loop of \<open>make_seen_groups\<close>: what is left, and the group that is being collected.\<close>

fun seen_loop :: "u32 \<Rightarrow> (block_number, pending_block_info) bmap \<Rightarrow> (block_number \<times> u32) option \<Rightarrow> (block_number \<times> u32) list" where
  "seen_loop max_group_size [] item = (case item of Some v \<Rightarrow> [v] | None \<Rightarrow> [])"
| "seen_loop max_group_size ((number, info) # rest) item =
     (let (out, item) = (case pbi_state info of
            Seen \<Rightarrow> ([], Some (case item of None \<Rightarrow> (number, 1) | Some v \<Rightarrow> (fst v, snd v + 1)))
          | _ \<Rightarrow> (case item of Some v \<Rightarrow> ([v], None) | None \<Rightarrow> ([], None)));
          (full, item) = (case item of
            Some v \<Rightarrow> if max_group_size \<le> snd v then ([v], None) else ([], Some v)
          | None \<Rightarrow> ([], None))
      in out @ full @ seen_loop max_group_size rest item)"

definition make_seen_groups :: "(block_number, pending_block_info) bmap \<Rightarrow> u32 \<Rightarrow> (block_number \<times> u32) list" where
  "make_seen_groups pending_blocks max_group_size = seen_loop max_group_size pending_blocks None"

definition sync_next_request_id :: "('d, 'kp, 'ver, 'l, request_id) cy_comp" where
  "sync_next_request_id s = (Ok (cy_next_request_id s),
     s\<lparr>cy_next_request_id := if cy_next_request_id s = - 1 then 0 else cy_next_request_id s + 1\<rparr>)"

text \<open>The peer with the lowest confirmed number of those that are vacant and have the blocks.\<close>

definition choose_peer :: "block_number \<Rightarrow> u32 \<Rightarrow> (peer_id, 'l sync_peer) hmap \<Rightarrow> (peer_id \<times> 'l sync_peer) option" where
  "choose_peer number group_size peers =
     (case filter (\<lambda>(_, peer_info). spi_state peer_info = Vacant \<and> number + ucast group_size - 1 \<le> spi_confirmed_number peer_info) peers of
        [] \<Rightarrow> None
      | p # ps \<Rightarrow> Some (fold (\<lambda>q best. if spi_confirmed_number (snd q) < spi_confirmed_number (snd best) then q else best) ps p))"

definition set_pending :: "pending_block_state \<Rightarrow> block_number \<Rightarrow> (block_number, pending_block_info) bmap
    \<Rightarrow> (block_number, pending_block_info) bmap" where
  "set_pending st n pending = (if bm_get pending n \<noteq> None then bm_insert n \<lparr> pbi_state = st \<rparr> pending else pending)"

definition request_group :: "('d, 't, 'kp, 'ver, 'l) sync_world \<Rightarrow> block_number \<times> u32 \<Rightarrow> ('d, 'kp, 'ver, 'l, unit) cy_comp" where
  "request_group w item = (let (number, group_size) = item in
     bind (ask (\<lambda>s. choose_peer number group_size (cy_peers s))) (\<lambda>p. case p of
       None \<Rightarrow> ret ()
     | Some (peer_id, peer_info) \<Rightarrow>
         bind sync_next_request_id (\<lambda>request_id.
         bind (network_send_message (SendMessage peer_id (enc (sw_message w) (BlockRequestMessage
                 \<lparr> brq_request_id = request_id, brq_fields = FIELDS_HEADER OR FIELDS_BODY OR FIELDS_PROOF,
                   brq_block_id = BlockNumberId number, brq_count = group_size, brq_direction = Asc \<rparr>)))) (\<lambda>_.
         bind (modify (\<lambda>s. s\<lparr>cy_peers := hm_insert peer_id (peer_info\<lparr>spi_state := PeerDownloading request_id number group_size\<rparr>) (cy_peers s)\<rparr>)) (\<lambda>_.
         bind (modify (\<lambda>s. s\<lparr>cy_pending := fold (set_pending (Downloading peer_id request_id)) (u64_range number (number + ucast group_size))
                 (cy_pending s)\<rparr>)) (\<lambda>_.
         modify (\<lambda>s. s\<lparr>cy_timers := cy_timers s @ [(peer_id, request_id)]\<rparr>)))))))"

definition maintain_seen :: "('d, 't, 'kp, 'ver, 'l) sync_world \<Rightarrow> ('d, 'kp, 'ver, 'l, unit) cy_comp" where
  "maintain_seen w = bind (ask (\<lambda>s. make_seen_groups (cy_pending s) PEER_REQUEST_BLOCK_SIZE)) (for_each (request_group w))"

definition chain_sync_sync :: "('d, 't, 'kp, 'ver, 'l) sync_world \<Rightarrow> ('d, 'kp, 'ver, 'l, unit) cy_comp" where
  "chain_sync_sync w = bind maintain_new (\<lambda>_. maintain_seen w)"

section \<open>Committing what was downloaded\<close>

datatype sync_action = VerifyOk | VerifyWait | VerifyDiscard | VerifyReset

text \<open>\<open>verify_block\<close> is given the data to take, and takes it after the checks that need only a reference.\<close>

definition verify_front :: "('d, 't) chain_lib \<Rightarrow> block_data \<Rightarrow> ('d, 'kp, 'ver) backend \<Rightarrow> unit common_result" where
  "verify_front lib data b = (case (bda_header data, bda_body data, bda_proof data) of
       (Some header, Some _, Some _) \<Rightarrow>
         and_then (coordinator_verify_not_repeat lib (bda_block_hash data) b) (\<lambda>_.
         and_then (coordinator_verify_best lib header b) (\<lambda>(_, _, confirmed_header).
         coordinator_verify_execution header confirmed_header b))
     | _ \<Rightarrow> Err (CoordinatorError (CoordinatorVerify VeBad)))"

definition verify_block_taking :: "('d, 't, 'kp, 'ver, 'l) sync_world \<Rightarrow> block_data option \<Rightarrow> ('d, 'kp, 'ver) backend
    \<Rightarrow> chain_commit_block_params common_result \<times> block_data option" where
  "verify_block_taking w data b = (case data of
     None \<Rightarrow> (Err (Panic ''qed''), None)
   | Some d \<Rightarrow> (verify_block (sw_lib w) (sw_verify_proof w) d b, if is_ok (verify_front (sw_lib w) d b) then None else Some d))"

text \<open>What follows from the result of a commit, and whether the transactions leave the pool.\<close>

definition commit_action :: "unit common_result \<Rightarrow> (sync_action \<times> bool) common_result" where
  "commit_action r = or_else_catch as_chain_error
     (\<lambda>e. case e of
        CommitBlockError Duplicated \<Rightarrow> Some (Ok (VerifyDiscard, True))
      | CommitBlockError NotBest \<Rightarrow> Some (Ok (VerifyReset, False))
      | _ \<Rightarrow> None)
     (and_then r (\<lambda>_. Ok (VerifyOk, True)))"

definition on_verify_ok :: "('d, 't, 'kp, 'ver, 'l) sync_world \<Rightarrow> chain_commit_block_params \<Rightarrow> ('d, 'kp, 'ver, 'l, sync_action) cy_comp" where
  "on_verify_ok w commit_block_params =
     (let tx_hash_set = body_meta_txs (cb_body commit_block_params) @ body_payload_txs (cb_body commit_block_params) in
     bind (attempt (sync_on_support (support_commit_block (sw_lib w) (sw_now w) commit_block_params))) (\<lambda>r.
     bind (lift_result (commit_action r)) (\<lambda>(action, remove_from_txpool).
     bind (if remove_from_txpool then sync_on_support (txpool_remove_transactions tx_hash_set) else ret ()) (\<lambda>_.
     ret action))))"

fun on_verify_err :: "verify_error \<Rightarrow> sync_action common_result" where
  "on_verify_err VeShouldWait = Ok VerifyWait"
| "on_verify_err VeDuplicated = Ok VerifyDiscard"
| "on_verify_err _ = Ok VerifyReset"

definition on_verify_result :: "('d, 't, 'kp, 'ver, 'l) sync_world \<Rightarrow> chain_commit_block_params common_result
    \<Rightarrow> ('d, 'kp, 'ver, 'l, sync_action) cy_comp" where
  "on_verify_result w result =
     bind (attempt (bind (lift_result result) (on_verify_ok w))) (\<lambda>r.
     lift_result (or_else_catch as_coordinator_error
       (\<lambda>e. case e of CoordinatorVerify e \<Rightarrow> Some (on_verify_err e) | _ \<Rightarrow> None) r))"

definition seen_again :: "peer_id \<Rightarrow> pending_block_info \<Rightarrow> pending_block_info" where
  "seen_again peer_id p = (case pbi_state p of Downloaded from _ \<Rightarrow> if from = peer_id then p\<lparr>pbi_state := Seen\<rparr> else p | _ \<Rightarrow> p)"

text \<open>A turn of the loop over the first pending blocks, and whether the loop goes on.\<close>

definition downloaded_turn :: "('d, 't, 'kp, 'ver, 'l) sync_world \<Rightarrow> ('d, 'kp, 'ver, 'l, bool) cy_comp" where
  "downloaded_turn w = bind (ask cy_pending) (\<lambda>pending. case pending of
     [] \<Rightarrow> ret False
   | (number, pending_block) # _ \<Rightarrow> (case pbi_state pending_block of
       Downloaded from data \<Rightarrow>
         bind (modify (\<lambda>s. s\<lparr>cy_pending := bm_remove number (cy_pending s)\<rparr>)) (\<lambda>_.
         bind (ask (\<lambda>s. verify_block_taking w data (cy_backend s))) (\<lambda>(result, data_left).
         bind (on_verify_result w result) (\<lambda>action. case action of
           VerifyOk \<Rightarrow> ret True
         | VerifyWait \<Rightarrow>
             bind (modify (\<lambda>s. s\<lparr>cy_pending := bm_insert number \<lparr> pbi_state = Downloaded from data_left \<rparr> (cy_pending s)\<rparr>)) (\<lambda>_. ret False)
         | VerifyDiscard \<Rightarrow> ret False
         | VerifyReset \<Rightarrow>
             bind (modify (\<lambda>s. s\<lparr>cy_pending := bm_map (seen_again from) (cy_pending s)\<rparr>)) (\<lambda>_.
             bind (peer_manager_send_message (ReportPeer from PEER_REPORT_INVALID_BLOCK)) (\<lambda>_. ret False)))))
     | _ \<Rightarrow> ret False))"

text \<open>Each turn that goes on takes one block off the pending ones, so the loop ends.\<close>

lemma attempt_apply [simp, comp_simps]: "attempt m s = (let (r, s') = m s in (Ok r, s'))"
  by (simp add: attempt_def)

lemma sync_on_support_apply: "sync_on_support m s = (fst (m (cy_support s)), s\<lparr>cy_support := snd (m (cy_support s))\<rparr>)"
  by (simp add: sync_on_support_def case_prod_beta)

lemma keeps_attempt [keeps_rules, intro]: "keeps I m \<Longrightarrow> keeps I (attempt m)"
  by (auto simp: keeps_def split: prod.splits)

lemma keeps_sync_on_support: "(\<And>s x. I s \<Longrightarrow> I (s\<lparr>cy_support := x\<rparr>)) \<Longrightarrow> keeps I (sync_on_support m)"
  by (auto simp: keeps_def sync_on_support_apply)

lemma keeps_on_verify_result:
  assumes "\<And>s x. I s \<Longrightarrow> I (s\<lparr>cy_support := x\<rparr>)"
  shows "keeps I (on_verify_result w result)"
  unfolding on_verify_result_def on_verify_ok_def Let_def case_prod_beta
  by (intro keeps_rules keeps_sync_on_support assms)

lemma downloaded_turn_shrinks:
  assumes "downloaded_turn w s = (Ok True, s')"
  shows "length (cy_pending s') < length (cy_pending s)"
proof -
  obtain number info rest data s1 where p: "cy_pending s = (number, info) # rest"
    and s1: "on_verify_result w (fst (verify_block_taking w data (cy_backend s))) (s\<lparr>cy_pending := bm_remove number (cy_pending s)\<rparr>)
      = (Ok VerifyOk, s1)" and s': "s' = s1"
    using assms by (auto simp: downloaded_turn_def bind_eq_Ok case_prod_beta split: list.splits pending_block_state.splits sync_action.splits)
      (metis sync_action.exhaust)
  have "cy_pending s1 = bm_remove number (cy_pending s)"
    by (rule keepsD [OF keeps_on_verify_result [where I = "\<lambda>s1. cy_pending s1 = bm_remove number (cy_pending s)"] _ s1]) simp_all
  then show ?thesis
    by (simp add: s' p bm_remove_def bm_without_def less_Suc_eq_le)
qed

function downloaded_loop :: "('d, 't, 'kp, 'ver, 'l) sync_world \<Rightarrow> ('d, 'kp, 'ver, 'l, unit) cy_comp" where
  "downloaded_loop w s = (case downloaded_turn w s of
     (Ok go_on, s') \<Rightarrow> if go_on then downloaded_loop w s' else (Ok (), s')
   | (Err e, s') \<Rightarrow> (Err e, s'))"
  by pat_completeness auto

termination
  by (relation "measure (\<lambda>(w, s). length (cy_pending s))") (simp, auto intro: downloaded_turn_shrinks [OF sym])

declare downloaded_loop.simps [simp del]

definition maintain_downloaded :: "('d, 't, 'kp, 'ver, 'l) sync_world \<Rightarrow> ('d, 'kp, 'ver, 'l, unit) cy_comp" where
  "maintain_downloaded w =
     bind (query latency) (\<lambda>old_latency.
     bind (downloaded_loop w) (\<lambda>_.
     bind (notify_latency old_latency) (\<lambda>_.
     chain_sync_sync w)))"

section \<open>Blocks\<close>

datatype message_target = TargetAll | TargetOne peer_id

definition targeted :: "message_target \<Rightarrow> (peer_id, 'l sync_peer) hmap \<Rightarrow> (peer_id, 'l sync_peer) hmap" where
  "targeted target peers = filter (\<lambda>(peer_id, _). case target of TargetAll \<Rightarrow> True | TargetOne p \<Rightarrow> peer_id = p) peers"

definition announce_block :: "('d, 't, 'kp, 'ver, 'l) sync_world \<Rightarrow> hash \<Rightarrow> header \<Rightarrow> message_target \<Rightarrow> ('d, 'kp, 'ver, 'l, unit) cy_comp" where
  "announce_block w block_hash header target =
     (let message = enc (sw_message w) (BlockAnnounceMessage \<lparr> ann_block_hash = block_hash, ann_header = header \<rparr>) in
     bind (ask (\<lambda>s. targeted target (cy_peers s))) (for_each (\<lambda>(peer_id, peer_info).
       let (known, cache) = lru_put (sw_lru w) block_hash (spi_known_blocks peer_info) in
       bind (modify (\<lambda>s. s\<lparr>cy_peers := hm_insert peer_id (peer_info\<lparr>spi_known_blocks := cache\<rparr>) (cy_peers s)\<rparr>)) (\<lambda>_.
       if \<not> known then network_send_message (SendMessage peer_id message) else ret ()))))"

definition on_block_announce :: "('d, 't, 'kp, 'ver, 'l) sync_world \<Rightarrow> peer_id \<Rightarrow> block_announce \<Rightarrow> ('d, 'kp, 'ver, 'l, unit) cy_comp" where
  "on_block_announce w peer_id ann =
     bind (ask (\<lambda>s. hm_get (cy_peers s) peer_id)) (\<lambda>p.
     bind (case p of
         Some peer \<Rightarrow> modify (\<lambda>s. s\<lparr>cy_peers := hm_insert peer_id
           (peer\<lparr>spi_known_blocks := snd (lru_put (sw_lru w) (ann_block_hash ann) (spi_known_blocks peer)),
                 spi_confirmed_number := hdr_number (ann_header ann), spi_confirmed_hash := ann_block_hash ann\<rparr>) (cy_peers s)\<rparr>)
       | None \<Rightarrow> ret ()) (\<lambda>_.
     chain_sync_sync w))"

text \<open>One block of an answer, with the fields that are asked for.\<close>

definition load_block :: "('d, 't) chain_lib \<Rightarrow> fields \<Rightarrow> block_id \<Rightarrow> ('d, 'kp, 'ver) backend \<Rightarrow> block_data common_result" where
  "load_block lib wanted block_id b =
     and_then (case block_id of BlockNumberId number \<Rightarrow> get_block_hash_by_number lib number b | BlockHashId h \<Rightarrow> Ok h) (\<lambda>block_hash.
     and_then (get_header_by_block_hash lib block_hash b) (\<lambda>header.
     and_then (if wanted AND FIELDS_BODY = FIELDS_BODY then
         and_then (get_body_by_block_hash lib block_hash b) (\<lambda>body.
         and_then (collect_results (map (get_transaction_by_hash lib b) (body_meta_txs body))) (\<lambda>meta_txs.
         and_then (collect_results (map (get_transaction_by_hash lib b) (body_payload_txs body))) (\<lambda>payload_txs.
         Ok (Some \<lparr> bd_meta_txs = meta_txs, bd_payload_txs = payload_txs \<rparr>))))
       else Ok None) (\<lambda>body.
     and_then (if wanted AND FIELDS_PROOF = FIELDS_PROOF then and_then (get_proof_by_block_hash lib block_hash b) (\<lambda>pf. Ok (Some pf))
       else Ok None) (\<lambda>pf.
     Ok \<lparr> bda_number = hdr_number header, bda_block_hash = block_hash,
          bda_header = (if wanted AND FIELDS_HEADER = FIELDS_HEADER then Some header else None), bda_body = body, bda_proof = pf \<rparr>))))"

text \<open>The number after which a loop ends, or the next one.\<close>

definition next_number :: "direction \<Rightarrow> block_number \<Rightarrow> block_number \<Rightarrow> block_number option" where
  "next_number dir confirmed_number number = (case dir of
     Asc \<Rightarrow> if number \<ge> confirmed_number then None else Some (number + 1)
   | Desc \<Rightarrow> if number = 0 then None else Some (number - 1))"

text \<open>The loop of \<open>on_block_request\<close>: the number is how many blocks may follow this one, \<open>count\<close> less 1 at the start, so that a count of 0 has
  one block like a count of 1.\<close>

fun load_blocks :: "('d, 't) chain_lib \<Rightarrow> fields \<Rightarrow> direction \<Rightarrow> block_number \<Rightarrow> ('d, 'kp, 'ver) backend \<Rightarrow> nat \<Rightarrow> block_id
    \<Rightarrow> block_data list common_result" where
  "load_blocks lib wanted dir confirmed_number b 0 block_id =
     and_then (load_block lib wanted block_id b) (\<lambda>block_data. Ok [block_data])"
| "load_blocks lib wanted dir confirmed_number b (Suc rest) block_id =
     and_then (load_block lib wanted block_id b) (\<lambda>block_data.
     case next_number dir confirmed_number (bda_number block_data) of
       None \<Rightarrow> Ok [block_data]
     | Some number \<Rightarrow>
         and_then (load_blocks lib wanted dir confirmed_number b rest (BlockNumberId number)) (\<lambda>blocks. Ok (block_data # blocks)))"

definition on_block_request :: "('d, 't, 'kp, 'ver, 'l) sync_world \<Rightarrow> peer_id \<Rightarrow> block_request \<Rightarrow> ('d, 'kp, 'ver, 'l, unit) cy_comp" where
  "on_block_request w peer_id rq =
     bind (sync_read get_current_state) (\<lambda>cur.
     bind (sync_read (\<lambda>b. load_blocks (sw_lib w) (brq_fields rq) (brq_direction rq) (cur_confirmed_number cur) b
             (unat (brq_count rq) - 1) (brq_block_id rq))) (\<lambda>blocks.
     network_send_message (SendMessage peer_id (enc (sw_message w) (BlockResponseMessage
       \<lparr> brs_request_id = brq_request_id rq, brs_blocks = blocks \<rparr>)))))"

definition reset_request :: "request_id \<Rightarrow> pending_block_info \<Rightarrow> pending_block_info" where
  "reset_request request_id p = (case pbi_state p of Downloading _ rid \<Rightarrow> if rid = request_id then p\<lparr>pbi_state := Seen\<rparr> else p | _ \<Rightarrow> p)"

definition on_block_request_timer_trigger :: "('d, 't, 'kp, 'ver, 'l) sync_world \<Rightarrow> peer_id \<Rightarrow> request_id \<Rightarrow> ('d, 'kp, 'ver, 'l, unit) cy_comp" where
  "on_block_request_timer_trigger w peer_id request_id =
     bind (ask (\<lambda>s. hm_get (cy_peers s) peer_id)) (\<lambda>p. case p of
       None \<Rightarrow> ret ()
     | Some peer_info \<Rightarrow> (case spi_state peer_info of
         Vacant \<Rightarrow> ret ()
       | PeerDownloading rid number count \<Rightarrow>
           if rid = request_id then
             bind (modify (\<lambda>s. s\<lparr>cy_peers := hm_insert peer_id (peer_info\<lparr>spi_state := Vacant\<rparr>) (cy_peers s),
                     cy_pending := bm_map (reset_request request_id) (cy_pending s)\<rparr>)) (\<lambda>_.
             bind (peer_manager_send_message (ReportPeer peer_id PEER_REPORT_BLOCK_REQUEST_TIMEOUT)) (\<lambda>_.
             chain_sync_sync w))
           else ret ()))"

text \<open>A block of a response is taken when a block with its number is being downloaded, from whatever peer.\<close>

definition take_block :: "peer_id \<Rightarrow> block_data \<Rightarrow> (block_number, pending_block_info) bmap \<Rightarrow> (block_number, pending_block_info) bmap" where
  "take_block peer_id data pending = (case bm_get pending (bda_number data) of
     Some p \<Rightarrow> (case pbi_state p of
         Downloading _ _ \<Rightarrow> bm_insert (bda_number data) \<lparr> pbi_state = Downloaded peer_id (Some data) \<rparr> pending
       | _ \<Rightarrow> pending)
   | None \<Rightarrow> pending)"

definition on_block_response :: "('d, 't, 'kp, 'ver, 'l) sync_world \<Rightarrow> peer_id \<Rightarrow> block_response \<Rightarrow> ('d, 'kp, 'ver, 'l, unit) cy_comp" where
  "on_block_response w peer_id rs =
     bind (ask (\<lambda>s. hm_get (cy_peers s) peer_id)) (\<lambda>p.
     bind (case p of
         None \<Rightarrow> ret ()
       | Some peer_info \<Rightarrow> (case spi_state peer_info of
           Vacant \<Rightarrow> ret ()
         | PeerDownloading request_id number count \<Rightarrow>
             if request_id = brs_request_id rs then
               modify (\<lambda>s. s\<lparr>cy_pending := fold (take_block peer_id) (brs_blocks rs) (cy_pending s),
                 cy_peers := hm_insert peer_id (peer_info\<lparr>spi_state := Vacant\<rparr>) (cy_peers s)\<rparr>)
             else ret ())) (\<lambda>_.
     maintain_downloaded w))"

definition sync_on_block_committed :: "('d, 't, 'kp, 'ver, 'l) sync_world \<Rightarrow> block_number \<Rightarrow> hash \<Rightarrow> ('d, 'kp, 'ver, 'l, unit) cy_comp" where
  "sync_on_block_committed w number block_hash =
     bind (modify (\<lambda>s. s\<lparr>cy_handshake := (cy_handshake s)\<lparr>hb_confirmed := (number, block_hash)\<rparr>\<rparr>)) (\<lambda>_.
     bind (query latency) (\<lambda>old_latency.
     bind (modify (\<lambda>s. s\<lparr>cy_pending := bm_remove number (cy_pending s)\<rparr>)) (\<lambda>_.
     bind (notify_latency old_latency) (\<lambda>_.
     bind (sync_read (get_header_by_block_hash (sw_lib w) block_hash)) (\<lambda>header.
     bind (announce_block w block_hash header TargetAll) (\<lambda>_.
     consensus_send_message (consensus_in_message.BlockCommitted number block_hash)))))))"

definition sync_on_execution_committed :: "('d, 't, 'kp, 'ver, 'l) sync_world \<Rightarrow> block_number \<Rightarrow> hash \<Rightarrow> ('d, 'kp, 'ver, 'l, unit) cy_comp" where
  "sync_on_execution_committed w number block_hash = maintain_downloaded w"

section \<open>Transactions\<close>

definition should_tx_propagate :: "block_number \<Rightarrow> block_number \<Rightarrow> bool" where
  "should_tx_propagate receiver_number sender_number \<longleftrightarrow> receiver_number + ucast TX_PROPAGATE_MAX_BLOCK_BEHIND \<ge> sender_number"

text \<open>The transactions that a cache does not have; all of them are put into it.\<close>

fun unknown_txs :: "'l lru \<Rightarrow> full_transaction list \<Rightarrow> 'l \<Rightarrow> transaction list \<times> 'l" where
  "unknown_txs lru [] cache = ([], cache)"
| "unknown_txs lru (tx # txs) cache =
     (let (known, cache) = lru_put lru (ftx_hash tx) cache; (found, cache) = unknown_txs lru txs cache
      in (if known then found else ftx_tx tx # found, cache))"

definition propagate_txs :: "('d, 't, 'kp, 'ver, 'l) sync_world \<Rightarrow> full_transaction list \<Rightarrow> message_target \<Rightarrow> ('d, 'kp, 'ver, 'l, unit) cy_comp" where
  "propagate_txs w txs target =
     bind (ask (\<lambda>s. targeted target (cy_peers s))) (for_each (\<lambda>(peer_id, peer_info).
       let (to_propagate_txs, cache) = unknown_txs (sw_lru w) txs (spi_known_txs peer_info) in
       bind (modify (\<lambda>s. s\<lparr>cy_peers := hm_insert peer_id (peer_info\<lparr>spi_known_txs := cache\<rparr>) (cy_peers s)\<rparr>)) (\<lambda>_.
       if to_propagate_txs \<noteq> [] then network_send_message (SendMessage peer_id (enc (sw_message w) (TxPropagateMessage to_propagate_txs)))
       else ret ())))"

definition sync_on_tx_inserted :: "('d, 't, 'kp, 'ver, 'l) sync_world \<Rightarrow> hash \<Rightarrow> ('d, 'kp, 'ver, 'l, unit) cy_comp" where
  "sync_on_tx_inserted w tx_hash = bind (ask (\<lambda>s. txpool_get_transaction tx_hash (cy_support s))) (\<lambda>tx. case tx of
     Some tx \<Rightarrow> propagate_txs w [tx] TargetAll
   | None \<Rightarrow> ret ())"

definition on_insert_result :: "unit common_result \<Rightarrow> peer_id \<Rightarrow> ('d, 'kp, 'ver, 'l, unit) cy_comp" where
  "on_insert_result result peer_id = (case result of
     Err (TxPoolError (InsertError e)) \<Rightarrow> (case e of
         InvalidTx _ \<Rightarrow> peer_manager_send_message (ReportPeer peer_id PEER_REPORT_INVALID_TX)
       | _ \<Rightarrow> ret ())
   | _ \<Rightarrow> lift_result result)"

definition on_tx_propagate :: "('d, 't, 'kp, 'ver, 'l) sync_world \<Rightarrow> peer_id \<Rightarrow> transaction list \<Rightarrow> ('d, 'kp, 'ver, 'l, unit) cy_comp" where
  "on_tx_propagate w peer_id txs =
     bind (sync_read get_current_state) (\<lambda>cur.
     bind (ask (\<lambda>s. case max_peer_number (cy_peers s) of Some n \<Rightarrow> n | None \<Rightarrow> 0)) (\<lambda>peer_max_number.
     if \<not> should_tx_propagate (cur_confirmed_number cur) peer_max_number then ret ()
     else for_each (\<lambda>tx.
       bind (ask (\<lambda>s. hm_get (cy_peers s) peer_id)) (\<lambda>p. case p of
         None \<Rightarrow> ret ()
       | Some peer_info \<Rightarrow>
           bind (sync_read (\<lambda>b. hash_transaction (bk_executor b) (cc_exec (cl_codecs (sw_lib w))) tx)) (\<lambda>tx_hash.
           let (known, cache) = lru_put (sw_lru w) tx_hash (spi_known_txs peer_info) in
           bind (modify (\<lambda>s. s\<lparr>cy_peers := hm_insert peer_id (peer_info\<lparr>spi_known_txs := cache\<rparr>) (cy_peers s)\<rparr>)) (\<lambda>_.
           if \<not> known then
             bind (attempt (sync_on_support (txpool_insert_transaction (sw_lib w) tx))) (\<lambda>result. on_insert_result result peer_id)
           else ret ())))) txs))"

definition initial_propagate_txs :: "('d, 't, 'kp, 'ver, 'l) sync_world \<Rightarrow> peer_id \<Rightarrow> ('d, 'kp, 'ver, 'l, unit) cy_comp" where
  "initial_propagate_txs w peer_id = bind (ask (\<lambda>s. hm_get (cy_peers s) peer_id)) (\<lambda>p. case p of
     None \<Rightarrow> ret ()
   | Some peer \<Rightarrow>
       bind (sync_read get_current_state) (\<lambda>cur.
       if should_tx_propagate (spi_confirmed_number peer) (cur_confirmed_number cur) then
         bind (ask (\<lambda>s. txpool_get_transactions (cy_support s))) (\<lambda>txs. propagate_txs w txs (TargetOne peer_id))
       else ret ()))"

section \<open>Peers\<close>

definition sync_on_protocol_open :: "('d, 't, 'kp, 'ver, 'l) sync_world \<Rightarrow> peer_id \<Rightarrow> u64 \<Rightarrow> handshake \<Rightarrow> ('d, 'kp, 'ver, 'l, unit) cy_comp" where
  "sync_on_protocol_open w peer_id nonce hsk =
     bind (modify (\<lambda>s. s\<lparr>cy_peers := hm_insert peer_id
         \<lparr> spi_known_blocks = lru_new (sw_lru w) (unat PEER_KNOWN_BLOCKS_SIZE), spi_known_txs = lru_new (sw_lru w) (unat PEER_KNOWN_TXS_SIZE),
           spi_confirmed_number = hsk_confirmed_number hsk, spi_confirmed_hash = hsk_confirmed_hash hsk, spi_nonce = nonce,
           spi_state = Vacant \<rparr> (cy_peers s)\<rparr>)) (\<lambda>_.
     bind (chain_sync_sync w) (\<lambda>_.
     initial_propagate_txs w peer_id))"

definition reset_peer :: "peer_id \<Rightarrow> pending_block_info \<Rightarrow> pending_block_info" where
  "reset_peer peer_id p = (case pbi_state p of Downloading from _ \<Rightarrow> if from = peer_id then p\<lparr>pbi_state := Seen\<rparr> else p | _ \<Rightarrow> p)"

definition sync_on_protocol_close :: "('d, 't, 'kp, 'ver, 'l) sync_world \<Rightarrow> peer_id \<Rightarrow> ('d, 'kp, 'ver, 'l, unit) cy_comp" where
  "sync_on_protocol_close w peer_id =
     bind (modify (\<lambda>s. s\<lparr>cy_peers := hm_remove peer_id (cy_peers s), cy_pending := bm_map (reset_peer peer_id) (cy_pending s)\<rparr>)) (\<lambda>_.
     chain_sync_sync w)"

end
