(* ===== verification/Coordinator.thy ===== *)
theory Coordinator
  imports Coordinator_Sync
begin

text \<open>
  The stream of the coordinator (\<^verbatim>\<open>core/node/coordinator/src/stream.rs\<close>, \<^verbatim>\<open>lib.rs\<close>): it takes the messages of the chain, the network, the
  pool, the protocol and its owner and the timers that fire, one in a turn, and hands them to the synchronization or passes them on.
\<close>

section \<open>Messages\<close>

text \<open>The connected point of a peer is not used.\<close>

datatype network_out_message =
    ProtocolOpen peer_id u64 bytes
  | ProtocolClose peer_id
  | NetworkOutMessage peer_id bytes

datatype coordinator_in_message = CoordinatorNetwork network_in_message

datatype consensus_out_message = OutNetworkMessage peer_id bytes

section \<open>Starting\<close>

text \<open>The answer of the handshake builder to the network.\<close>

definition handshake_build :: "('d, 't, 'kp, 'ver, 'l) sync_world \<Rightarrow> handshake_builder \<Rightarrow> u64 \<Rightarrow> bytes" where
  "handshake_build w hb nonce = (let (confirmed_number, confirmed_hash) = hb_confirmed hb in
     enc (sw_message w) (HandshakeMessage \<lparr> hsk_genesis_hash = hb_genesis_hash hb, hsk_confirmed_number = confirmed_number,
       hsk_confirmed_hash = confirmed_hash, hsk_nonce = nonce \<rparr>))"

text \<open>The state of a new stream; the network that is started with the builder is not part of it.\<close>

definition coordinator_new :: "('d, 'kp, 'ver) support \<Rightarrow> ('d, 'kp, 'ver, 'l) chain_sync common_result" where
  "coordinator_new supp = and_then (get_current_state (sup_backend supp)) (\<lambda>cur.
     Ok (chain_sync_new \<lparr> hb_genesis_hash = cur_genesis_hash cur,
       hb_confirmed = (cur_confirmed_number cur, cur_confirmed_block_hash cur) \<rparr> supp))"

section \<open>Messages of the network\<close>

definition on_consensus_network_protocol_open :: "peer_id \<Rightarrow> u64 \<Rightarrow> u64 \<Rightarrow> ('d, 'kp, 'ver, 'l, unit) cy_comp" where
  "on_consensus_network_protocol_open peer_id local_nonce remote_nonce =
     consensus_send_message (NetworkProtocolOpen peer_id local_nonce remote_nonce)"

definition on_consensus_network_protocol_close :: "peer_id \<Rightarrow> ('d, 'kp, 'ver, 'l, unit) cy_comp" where
  "on_consensus_network_protocol_close peer_id = consensus_send_message (NetworkProtocolClose peer_id)"

definition on_consensus_network_message :: "peer_id \<Rightarrow> bytes \<Rightarrow> ('d, 'kp, 'ver, 'l, unit) cy_comp" where
  "on_consensus_network_message peer_id message = consensus_send_message (NetworkMessage peer_id message)"

text \<open>The handshake of a peer counts when it decodes, is a handshake and has the genesis block of this node.\<close>

definition accepted_handshake :: "('d, 't, 'kp, 'ver, 'l) sync_world \<Rightarrow> bytes \<Rightarrow> hash \<Rightarrow> handshake option" where
  "accepted_handshake w bytes local_genesis_hash = (case decode (sw_message w) bytes of
     Ok (HandshakeMessage hsk) \<Rightarrow> if hsk_genesis_hash hsk = local_genesis_hash then Some hsk else None
   | _ \<Rightarrow> None)"

definition on_protocol_open :: "('d, 't, 'kp, 'ver, 'l) sync_world \<Rightarrow> peer_id \<Rightarrow> u64 \<Rightarrow> bytes \<Rightarrow> ('d, 'kp, 'ver, 'l, unit) cy_comp" where
  "on_protocol_open w peer_id nonce handshake_bytes =
     bind (ask (\<lambda>s. accepted_handshake w handshake_bytes (hb_genesis_hash (cy_handshake s)))) (\<lambda>h. case h of
       None \<Rightarrow> peer_manager_send_message (ReportPeer peer_id PEER_REPORT_HANDSHAKE_FAILED)
     | Some hsk \<Rightarrow>
         bind (sync_on_protocol_open w peer_id nonce hsk) (\<lambda>_.
         on_consensus_network_protocol_open peer_id nonce (hsk_nonce hsk)))"

definition on_protocol_close :: "('d, 't, 'kp, 'ver, 'l) sync_world \<Rightarrow> peer_id \<Rightarrow> ('d, 'kp, 'ver, 'l, unit) cy_comp" where
  "on_protocol_close w peer_id = bind (sync_on_protocol_close w peer_id) (\<lambda>_. on_consensus_network_protocol_close peer_id)"

text \<open>A message that does not decode is ignored, and so is a late handshake.\<close>

definition on_message :: "('d, 't, 'kp, 'ver, 'l) sync_world \<Rightarrow> peer_id \<Rightarrow> bytes \<Rightarrow> ('d, 'kp, 'ver, 'l, unit) cy_comp" where
  "on_message w peer_id message = (case decode (sw_message w) message of
     Err _ \<Rightarrow> ret ()
   | Ok m \<Rightarrow> (case m of
       BlockAnnounceMessage ann \<Rightarrow> on_block_announce w peer_id ann
     | BlockRequestMessage rq \<Rightarrow> on_block_request w peer_id rq
     | BlockResponseMessage rs \<Rightarrow> on_block_response w peer_id rs
     | TxPropagateMessage txs \<Rightarrow> on_tx_propagate w peer_id txs
     | ConsensusMessage m \<Rightarrow> on_consensus_network_message peer_id m
     | HandshakeMessage _ \<Rightarrow> ret ()))"

definition coordinator_on_network_message :: "('d, 't, 'kp, 'ver, 'l) sync_world \<Rightarrow> network_out_message \<Rightarrow> ('d, 'kp, 'ver, 'l, unit) cy_comp" where
  "coordinator_on_network_message w message = (case message of
     ProtocolOpen peer_id nonce handshake_bytes \<Rightarrow> on_protocol_open w peer_id nonce handshake_bytes
   | ProtocolClose peer_id \<Rightarrow> on_protocol_close w peer_id
   | NetworkOutMessage peer_id m \<Rightarrow> on_message w peer_id m)"

section \<open>The other messages\<close>

definition on_chain_message :: "('d, 't, 'kp, 'ver, 'l) sync_world \<Rightarrow> chain_out_message \<Rightarrow> ('d, 'kp, 'ver, 'l, unit) cy_comp" where
  "on_chain_message w message = (case message of
     chain_out_message.BlockCommitted number h \<Rightarrow> sync_on_block_committed w number h
   | ExecutionCommitted number h \<Rightarrow> sync_on_execution_committed w number h)"

definition on_txpool_message :: "('d, 't, 'kp, 'ver, 'l) sync_world \<Rightarrow> txpool_out_message \<Rightarrow> ('d, 'kp, 'ver, 'l, unit) cy_comp" where
  "on_txpool_message w message = (case message of TxInserted tx_hash \<Rightarrow> sync_on_tx_inserted w tx_hash)"

definition coordinator_on_in_message :: "coordinator_in_message \<Rightarrow> ('d, 'kp, 'ver, 'l, unit) cy_comp" where
  "coordinator_on_in_message message = (case message of CoordinatorNetwork m \<Rightarrow> network_send_message m)"

definition on_consensus_out_network_message :: "('d, 't, 'kp, 'ver, 'l) sync_world \<Rightarrow> peer_id \<Rightarrow> bytes \<Rightarrow> ('d, 'kp, 'ver, 'l, unit) cy_comp" where
  "on_consensus_out_network_message w peer_id message =
     network_send_message (SendMessage peer_id (enc (sw_message w) (ConsensusMessage message)))"

definition on_consensus_out_message :: "('d, 't, 'kp, 'ver, 'l) sync_world \<Rightarrow> consensus_out_message \<Rightarrow> ('d, 'kp, 'ver, 'l, unit) cy_comp" where
  "on_consensus_out_message w message = (case message of OutNetworkMessage peer_id m \<Rightarrow> on_consensus_out_network_message w peer_id m)"

section \<open>Turns\<close>

datatype coordinator_event =
    ChainEvent chain_out_message
  | NetworkEvent network_out_message
  | InEvent coordinator_in_message
  | TxpoolEvent txpool_out_message
  | ConsensusEvent consensus_out_message
  | TimerEvent peer_id request_id

text \<open>One turn of the loop of \<open>start\<close>; an error is logged and the loop goes on. A timer that fired is gone.\<close>

definition coordinator_turn :: "('d, 't, 'kp, 'ver, 'l) sync_world \<Rightarrow> coordinator_event \<Rightarrow> ('d, 'kp, 'ver, 'l, unit) cy_comp" where
  "coordinator_turn w ev = (case ev of
     ChainEvent m \<Rightarrow> log_error (on_chain_message w m)
   | NetworkEvent m \<Rightarrow> log_error (coordinator_on_network_message w m)
   | InEvent m \<Rightarrow> log_error (coordinator_on_in_message m)
   | TxpoolEvent m \<Rightarrow> log_error (on_txpool_message w m)
   | ConsensusEvent m \<Rightarrow> log_error (on_consensus_out_message w m)
   | TimerEvent peer_id request_id \<Rightarrow>
       bind (modify (\<lambda>s. s\<lparr>cy_timers := remove1 (peer_id, request_id) (cy_timers s)\<rparr>)) (\<lambda>_.
       log_error (on_block_request_timer_trigger w peer_id request_id)))"

end
