(* ===== verification/Coordinator_Laws.thy ===== *)
theory Coordinator_Laws
  imports Coordinator Consensus_Frame
begin

text \<open>
  Invariants of the coordinator. All that its handlers do to the pending blocks and to the chain are a few operations; \<open>sync_invariant\<close> is
  the interface of a predicate that these operations keep, and has for its clients that every handler, every turn and every run keeps it.
  It is interpreted for the form of the pending blocks and for the chain.
\<close>

section \<open>Runs\<close>

text \<open>No block that is received, announced or confirmed has the greatest number, after which the chain could not be continued.\<close>

definition small_data :: "block_data \<Rightarrow> bool" where
  "small_data data \<longleftrightarrow> (case bda_header data of Some h \<Rightarrow> hdr_number h + 1 \<noteq> 0 | None \<Rightarrow> True)"

definition small_message :: "protocol_message \<Rightarrow> bool" where
  "small_message m \<longleftrightarrow> (case m of
     HandshakeMessage hsk \<Rightarrow> hsk_confirmed_number hsk + 1 \<noteq> 0
   | BlockAnnounceMessage ann \<Rightarrow> hdr_number (ann_header ann) + 1 \<noteq> 0
   | BlockResponseMessage rs \<Rightarrow> \<forall>data\<in>set (brs_blocks rs). small_data data
   | _ \<Rightarrow> True)"

definition small_event :: "('d, 't, 'kp, 'ver, 'l) sync_world \<Rightarrow> coordinator_event \<Rightarrow> bool" where
  "small_event w ev \<longleftrightarrow> (case ev of
     NetworkEvent (ProtocolOpen _ _ m) \<Rightarrow> (case decode (sw_message w) m of Ok m \<Rightarrow> small_message m | Err _ \<Rightarrow> True)
   | NetworkEvent (NetworkOutMessage _ m) \<Rightarrow> (case decode (sw_message w) m of Ok m \<Rightarrow> small_message m | Err _ \<Rightarrow> True)
   | _ \<Rightarrow> True)"

definition small_peers :: "(peer_id, 'l sync_peer) hmap \<Rightarrow> bool" where
  "small_peers ps \<longleftrightarrow> (\<forall>(_, i)\<in>set ps. spi_confirmed_number i + 1 \<noteq> 0)"

text \<open>
  The runs of a coordinator. Between its turns the rest of the node works on the chain and the pool, and time passes, so that the worlds of
  the turns differ in it.
\<close>

inductive coordinator_run :: "('d, 't, 'kp, 'ver, 'l) sync_world \<Rightarrow> ('d, 'kp, 'ver, 'l) chain_sync \<Rightarrow> ('d, 'kp, 'ver, 'l) chain_sync \<Rightarrow> bool"
  for w s0 where
  run_start: "coordinator_run w s0 s0"
| run_turn: "coordinator_run w s0 s \<Longrightarrow> small_event w ev \<Longrightarrow> coordinator_turn (w\<lparr>sw_now := t\<rparr>) ev s = (r, s') \<Longrightarrow> coordinator_run w s0 s'"
| run_beside: "coordinator_run w s0 s \<Longrightarrow> chain_run (sw_lib w) (sup_chain (cy_support s)) c \<Longrightarrow>
    coordinator_run w s0 (s\<lparr>cy_support := \<lparr> sup_chain = c, sup_txpool = p \<rparr>\<rparr>)"

section \<open>The interface of an invariant\<close>

definition holds :: "((block_number, pending_block_info) bmap \<Rightarrow> ('d, 'kp, 'ver) support \<Rightarrow> bool) \<Rightarrow> ('d, 'kp, 'ver, 'l) chain_sync \<Rightarrow> bool" where
  "holds J s \<longleftrightarrow> small_peers (cy_peers s) \<and> J (cy_pending s) (cy_support s)"

lemma set_hm_insert: "set (hm_insert k v m) \<subseteq> insert (k, v) (set m)"
  unfolding hm_insert_def by (induction m) auto

lemma set_hm_remove: "set (hm_remove k m) \<subseteq> set m"
  unfolding hm_remove_def by (induction m) auto

lemma small_peers_insert: "small_peers ps \<Longrightarrow> spi_confirmed_number i + 1 \<noteq> 0 \<Longrightarrow> small_peers (hm_insert q i ps)"
  using set_hm_insert [of q i ps] by (fastforce simp: small_peers_def)

lemma small_peers_remove: "small_peers ps \<Longrightarrow> small_peers (hm_remove q ps)"
  using set_hm_remove [of q ps] by (fastforce simp: small_peers_def)

lemma small_peers_get: "small_peers ps \<Longrightarrow> hm_get ps q = Some i \<Longrightarrow> spi_confirmed_number i + 1 \<noteq> 0"
  by (auto simp: small_peers_def hm_get_def dest!: map_of_SomeD)

lemma small_peers_targeted: "small_peers ps \<Longrightarrow> (q, i) \<in> set (targeted target ps) \<Longrightarrow> spi_confirmed_number i + 1 \<noteq> 0"
  by (auto simp: small_peers_def targeted_def)

lemma fold_choose: "fold (\<lambda>q best. if R q best then q else best) ps p \<in> insert p (set ps)"
  by (induction ps arbitrary: p) auto

lemma choose_peer_in: "choose_peer n k ps = Some x \<Longrightarrow> x \<in> set ps"
  using fold_choose [of "\<lambda>q best. spi_confirmed_number (snd q) < spi_confirmed_number (snd best)"]
  by (fastforce simp: choose_peer_def filter_eq_Cons_iff split: list.splits)

locale sync_invariant =
  fixes w :: "('d, 't, 'kp, 'ver, 'l) sync_world"
    and J :: "(block_number, pending_block_info) bmap \<Rightarrow> ('d, 'kp, 'ver) support \<Rightarrow> bool"
  assumes keeps_maintain_new: "keeps (holds J) (maintain_new :: ('d, 'kp, 'ver, 'l, unit) cy_comp)"
    and keeps_downloaded_turn: "keeps (holds J) (downloaded_turn (w\<lparr>sw_now := t\<rparr>))"
    and J_set_pending: "J p x \<Longrightarrow> J (set_pending (Downloading peer rid) n p) x"
    and J_take_block: "J p x \<Longrightarrow> small_data data \<Longrightarrow> J (take_block peer data p) x"
    and J_seen: "J p x \<Longrightarrow> (\<And>i. f i = i \<or> f i = \<lparr> pbi_state = Seen \<rparr>) \<Longrightarrow> J (bm_map f p) x"
    and J_remove: "J p x \<Longrightarrow> J (bm_remove n p) x"
    and J_beside: "J p x \<Longrightarrow> chain_run (sw_lib w) (sup_chain x) (sup_chain y) \<Longrightarrow> J p y"
begin

lemma J_pool: "J p x \<Longrightarrow> sup_chain y = sup_chain x \<Longrightarrow> J p y"
  using J_beside [of p x y] by (simp add: run_refl)

lemma J_fold_set: "J p x \<Longrightarrow> J (fold (set_pending (Downloading peer rid)) ns p) x"
  by (induction ns arbitrary: p) (auto intro: J_set_pending)

lemma J_fold_take: "J p x \<Longrightarrow> \<forall>data\<in>set ds. small_data data \<Longrightarrow> J (fold (take_block peer) ds p) x"
  by (induction ds arbitrary: p) (auto intro: J_take_block)

lemma keeps_send:
  "keeps (holds J) (peer_manager_send_message m1 :: ('d, 'kp, 'ver, 'l, unit) cy_comp)"
  "keeps (holds J) (network_send_message m2 :: ('d, 'kp, 'ver, 'l, unit) cy_comp)"
  "keeps (holds J) (consensus_send_message m3 :: ('d, 'kp, 'ver, 'l, unit) cy_comp)"
  by (simp_all add: keeps_def holds_def peer_manager_send_message_def network_send_message_def consensus_send_message_def)

lemma keeps_next_request_id: "keeps (holds J) (sync_next_request_id :: ('d, 'kp, 'ver, 'l, request_id) cy_comp)"
  by (simp add: keeps_def holds_def sync_next_request_id_def)

lemma keeps_sync_read: "keeps (holds J) (sync_read f)"
  by (simp add: sync_read_def)

lemma keeps_notify: "keeps (holds J) (notify_latency l :: ('d, 'kp, 'ver, 'l, unit) cy_comp)"
  unfolding notify_latency_def by (intro keeps_rules keeps_send)

lemma keeps_peer:
  "spi_confirmed_number i + 1 \<noteq> 0 \<Longrightarrow> keeps (holds J) (modify (\<lambda>s. s\<lparr>cy_peers := hm_insert q i (cy_peers s)\<rparr>) :: ('d, 'kp, 'ver, 'l, unit) cy_comp)"
  by (simp add: keeps_def holds_def small_peers_insert)

lemma keeps_request_group:
  fixes w' :: "('d, 't, 'kp, 'ver, 'l) sync_world"
  shows "keeps (holds J) (request_group w' item)"
  unfolding request_group_def Let_def case_prod_beta
proof (rule keeps_bind_ask, rule keeps_option)
  fix s :: "('d, 'kp, 'ver, 'l) chain_sync" and y
  assume "holds J s" "choose_peer (fst item) (snd item) (cy_peers s) = Some y"
  then have "spi_confirmed_number (snd y) + 1 \<noteq> 0"
    using choose_peer_in by (fastforce simp: holds_def small_peers_def)
  then show "keeps (holds J) (bind sync_next_request_id (\<lambda>request_id. bind (network_send_message (SendMessage (fst y) (enc (sw_message w')
      (BlockRequestMessage \<lparr> brq_request_id = request_id, brq_fields = FIELDS_HEADER OR FIELDS_BODY OR FIELDS_PROOF,
         brq_block_id = BlockNumberId (fst item), brq_count = snd item, brq_direction = Asc \<rparr>)))) (\<lambda>_.
      bind (modify (\<lambda>s. s\<lparr>cy_peers := hm_insert (fst y) (snd y\<lparr>spi_state := PeerDownloading request_id (fst item) (snd item)\<rparr>) (cy_peers s)\<rparr>)) (\<lambda>_.
      bind (modify (\<lambda>s. s\<lparr>cy_pending := fold (set_pending (Downloading (fst y) request_id))
          (u64_range (fst item) (fst item + ucast (snd item))) (cy_pending s)\<rparr>)) (\<lambda>_.
      modify (\<lambda>s. s\<lparr>cy_timers := cy_timers s @ [(fst y, request_id)]\<rparr>))))))"
    by (intro keeps_rules keeps_send keeps_next_request_id keeps_peer) (auto simp: holds_def J_fold_set)
qed simp

lemma keeps_sync:
  fixes w' :: "('d, 't, 'kp, 'ver, 'l) sync_world"
  shows "keeps (holds J) (chain_sync_sync w')"
  unfolding chain_sync_sync_def maintain_seen_def by (intro keeps_rules keeps_maintain_new keeps_request_group)

lemma keeps_downloaded_loop: "keeps (holds J) (downloaded_loop (w\<lparr>sw_now := t\<rparr>))"
proof -
  have "holds J s \<longrightarrow> holds J (snd (downloaded_loop w' s))" if "w' = w\<lparr>sw_now := t\<rparr>" for w' s
    using that
  proof (induction w' s rule: downloaded_loop.induct)
    case (1 w' s)
    obtain r s' where turn: "downloaded_turn w' s = (r, s')"
      by fastforce
    show ?case
    proof
      assume "holds J s"
      then have "holds J s'"
        using keepsD [OF keeps_downloaded_turn, of s t r s'] turn 1(2) by simp
      then show "holds J (snd (downloaded_loop w' s))"
        using 1 turn unfolding downloaded_loop.simps [of w' s] by (cases r) simp_all
    qed
  qed
  then show ?thesis
    by (simp add: keeps_def)
qed

lemma keeps_maintain_downloaded: "keeps (holds J) (maintain_downloaded (w\<lparr>sw_now := t\<rparr>))"
  unfolding maintain_downloaded_def by (intro keeps_rules keeps_downloaded_loop keeps_notify keeps_sync)

text \<open>A loop over the peers that are targeted.\<close>

lemma keeps_each_peer:
  assumes "\<And>q i. spi_confirmed_number i + 1 \<noteq> 0 \<Longrightarrow> keeps (holds J) (body (q, i))"
  shows "keeps (holds J) (bind (ask (\<lambda>s. targeted target (cy_peers s))) (for_each body) :: ('d, 'kp, 'ver, 'l, unit) cy_comp)"
proof (rule keeps_bind_ask, rule keeps_for_each)
  fix s :: "('d, 'kp, 'ver, 'l) chain_sync" and x
  assume "holds J s" "x \<in> set (targeted target (cy_peers s))"
  then show "keeps (holds J) (body x)"
    using assms [of "snd x" "fst x"] small_peers_targeted [of "cy_peers s" "fst x" "snd x" target] by (simp add: holds_def)
qed

lemma keeps_announce_block:
  fixes w' :: "('d, 't, 'kp, 'ver, 'l) sync_world"
  shows "keeps (holds J) (announce_block w' h hdr target)"
  unfolding announce_block_def Let_def case_prod_beta
  by (intro keeps_each_peer keeps_rules keeps_send keeps_peer) simp_all

lemma keeps_propagate_txs:
  fixes w' :: "('d, 't, 'kp, 'ver, 'l) sync_world"
  shows "keeps (holds J) (propagate_txs w' txs target)"
  unfolding propagate_txs_def Let_def case_prod_beta
  by (intro keeps_each_peer keeps_rules keeps_send keeps_peer) simp_all

text \<open>What is done to a peer that is known.\<close>

lemma keeps_known_peer:
  assumes "\<And>i. spi_confirmed_number i + 1 \<noteq> 0 \<Longrightarrow> keeps (holds J) (body (Some i))" "keeps (holds J) (body None)"
  shows "keeps (holds J) (bind (ask (\<lambda>s. hm_get (cy_peers s) q)) body :: ('d, 'kp, 'ver, 'l, 'a) cy_comp)"
proof (rule keeps_bind_ask)
  fix s :: "('d, 'kp, 'ver, 'l) chain_sync"
  assume "holds J s"
  then show "keeps (holds J) (body (hm_get (cy_peers s) q))"
    using assms small_peers_get by (cases "hm_get (cy_peers s) q") (auto simp: holds_def)
qed

lemma keeps_insert_transaction:
  fixes w' :: "('d, 't, 'kp, 'ver, 'l) sync_world"
  shows "keeps (holds J) (sync_on_support (txpool_insert_transaction (sw_lib w') tx) :: ('d, 'kp, 'ver, 'l, unit) cy_comp)"
  by (auto simp: keeps_def holds_def sync_on_support_apply txpool_insert_transaction_def bind_apply on_txpool_def split: prod.splits intro: J_pool)

lemma keeps_on_insert_result: "keeps (holds J) (on_insert_result r peer :: ('d, 'kp, 'ver, 'l, unit) cy_comp)"
  by (auto simp: on_insert_result_def keeps_send split: result.splits common_error.splits txpool_error.splits insert_error.splits)

lemma keeps_on_tx_propagate:
  fixes w' :: "('d, 't, 'kp, 'ver, 'l) sync_world"
  shows "keeps (holds J) (on_tx_propagate w' peer txs)"
  unfolding on_tx_propagate_def Let_def case_prod_beta
  by (intro keeps_bind keeps_if keeps_ret keeps_for_each keeps_known_peer keeps_sync_read keeps_ask)
    (auto intro!: keeps_rules keeps_sync_read keeps_peer keeps_insert_transaction keeps_on_insert_result)

lemma keeps_on_block_response:
  assumes "\<forall>data\<in>set (brs_blocks rs). small_data data"
  shows "keeps (holds J) (on_block_response (w\<lparr>sw_now := t\<rparr>) peer rs)"
  unfolding on_block_response_def
  by (intro keeps_known_peer keeps_bind keeps_maintain_downloaded)
    (auto simp: J_fold_take assms holds_def small_peers_insert split: option.splits sync_peer_state.splits intro!: keeps_modify)

lemma keeps_on_block_announce:
  fixes w' :: "('d, 't, 'kp, 'ver, 'l) sync_world"
  assumes "hdr_number (ann_header ann) + 1 \<noteq> 0"
  shows "keeps (holds J) (on_block_announce w' peer ann)"
  unfolding on_block_announce_def
  by (intro keeps_known_peer keeps_bind keeps_sync) (auto intro!: keeps_peer simp: assms)

lemma keeps_blocks:
  fixes w' :: "('d, 't, 'kp, 'ver, 'l) sync_world"
  shows "keeps (holds J) (on_block_request w' peer rq)" "keeps (holds J) (sync_on_block_committed w' n h)"
    "keeps (holds J) (on_block_request_timer_trigger w' peer rid)"
proof -
  show "keeps (holds J) (on_block_request w' peer rq)"
    unfolding on_block_request_def by (intro keeps_rules keeps_sync_read keeps_send)
  show "keeps (holds J) (sync_on_block_committed w' n h)"
    unfolding sync_on_block_committed_def
    by (intro keeps_rules keeps_sync_read keeps_notify keeps_announce_block keeps_send) (simp_all add: holds_def J_remove)
  have reset: "reset_request rid i = i \<or> reset_request rid i = \<lparr> pbi_state = Seen \<rparr>" for i
    by (cases i) (auto simp: reset_request_def split: pending_block_state.splits)
  show "keeps (holds J) (on_block_request_timer_trigger w' peer rid)"
    unfolding on_block_request_timer_trigger_def
    by (rule keeps_known_peer)
      (auto intro!: keeps_rules keeps_sync keeps_send J_seen [OF _ reset] small_peers_insert simp: holds_def split: sync_peer_state.splits)
qed

lemma keeps_txs:
  fixes w' :: "('d, 't, 'kp, 'ver, 'l) sync_world"
  shows "keeps (holds J) (sync_on_tx_inserted w' h)" "keeps (holds J) (initial_propagate_txs w' peer)"
  unfolding sync_on_tx_inserted_def initial_propagate_txs_def by (intro keeps_rules keeps_propagate_txs keeps_sync_read)+

lemma accepted_handshake_small:
  "small_event w (NetworkEvent (ProtocolOpen peer nonce m)) \<Longrightarrow> accepted_handshake (w\<lparr>sw_now := t\<rparr>) m g = Some hsk \<Longrightarrow> hsk_confirmed_number hsk + 1 \<noteq> 0"
  by (auto simp: accepted_handshake_def small_event_def small_message_def split: result.splits protocol_message.splits if_splits)

lemma keeps_on_protocol_open:
  assumes "small_event w (NetworkEvent (ProtocolOpen peer nonce m))"
  shows "keeps (holds J) (on_protocol_open (w\<lparr>sw_now := t\<rparr>) peer nonce m)"
  unfolding on_protocol_open_def sync_on_protocol_open_def on_consensus_network_protocol_open_def
  by (rule keeps_bind_ask) (auto intro!: keeps_rules keeps_peer keeps_sync keeps_txs keeps_send dest!: accepted_handshake_small [OF assms])

lemma keeps_on_protocol_close:
  fixes w' :: "('d, 't, 'kp, 'ver, 'l) sync_world"
  shows "keeps (holds J) (on_protocol_close w' peer)"
proof -
  have "reset_peer peer i = i \<or> reset_peer peer i = \<lparr> pbi_state = Seen \<rparr>" for i
    by (cases i) (auto simp: reset_peer_def split: pending_block_state.splits)
  then show ?thesis
    unfolding on_protocol_close_def sync_on_protocol_close_def on_consensus_network_protocol_close_def
    by (intro keeps_rules keeps_sync keeps_send) (simp add: holds_def small_peers_remove J_seen)
qed

lemma keeps_on_message:
  assumes "small_event w (NetworkEvent (NetworkOutMessage peer m))"
  shows "keeps (holds J) (on_message (w\<lparr>sw_now := t\<rparr>) peer m)"
  using assms
  by (auto simp: on_message_def small_event_def small_message_def on_consensus_network_message_def split: result.splits protocol_message.splits
      intro!: keeps_blocks keeps_on_block_announce keeps_on_block_response keeps_on_tx_propagate keeps_send)

lemma keeps_turn:
  assumes "small_event w ev"
  shows "keeps (holds J) (coordinator_turn (w\<lparr>sw_now := t\<rparr>) ev)"
proof (cases ev)
  case (NetworkEvent m)
  then show ?thesis
    using assms by (auto simp: coordinator_turn_def coordinator_on_network_message_def split: network_out_message.splits
        intro!: keeps_log_error keeps_on_protocol_open keeps_on_protocol_close keeps_on_message)
next
  case (TimerEvent peer rid)
  then show ?thesis
    by (simp add: coordinator_turn_def) (intro keeps_rules keeps_blocks, simp add: holds_def)
qed (auto simp: coordinator_turn_def on_chain_message_def sync_on_execution_committed_def coordinator_on_in_message_def on_txpool_message_def
    on_consensus_out_message_def on_consensus_out_network_message_def
    split: chain_out_message.splits txpool_out_message.splits coordinator_in_message.splits consensus_out_message.splits
    intro!: keeps_log_error keeps_blocks keeps_maintain_downloaded keeps_send keeps_txs)

lemma run_keeps: "coordinator_run w s0 s \<Longrightarrow> holds J s0 \<Longrightarrow> holds J s"
proof (induction rule: coordinator_run.induct)
  case (run_turn s ev t r s')
  then show ?case
    using keepsD [OF keeps_turn [OF run_turn(2)]] by blast
next
  case (run_beside s c p)
  then show ?case
    using J_beside [of "cy_pending s" "cy_support s" "\<lparr> sup_chain = c, sup_txpool = p \<rparr>"] by (simp add: holds_def)
qed simp

end

section \<open>The pending blocks\<close>

text \<open>They are ordered, there are at most \<open>PENDING_BLOCKS_SIZE\<close>, and what was downloaded is under its own number.\<close>

definition pending_datas :: "(block_number, pending_block_info) bmap \<Rightarrow> (block_number \<times> block_data) set" where
  "pending_datas p = {(k, d). \<exists>i peer. (k, i) \<in> set p \<and> pbi_state i = Downloaded peer (Some d)}"

definition pending_wf :: "(block_number, pending_block_info) bmap \<Rightarrow> bool" where
  "pending_wf p \<longleftrightarrow> bm_wf p \<and> length p \<le> unat PENDING_BLOCKS_SIZE \<and> (\<forall>k\<in>fst ` set p. k + 1 \<noteq> 0) \<and>
     (\<forall>(k, d)\<in>pending_datas p. bda_number d = k)"

lemma pending_datas_insert: "pending_datas (bm_insert k i p) \<subseteq> pending_datas p \<union> {(k, d) | d. \<exists>peer. pbi_state i = Downloaded peer (Some d)}"
  using bm_insert_set [of k i p] by (fastforce simp: pending_datas_def)

lemma pending_datas_without: "pending_datas (bm_without R p) \<subseteq> pending_datas p"
  by (auto simp: pending_datas_def bm_without_def)

lemma pending_datas_remove: "pending_datas (bm_remove n p) \<subseteq> pending_datas p"
  by (simp add: bm_remove_def pending_datas_without)

lemma pending_datas_set_pending: "pending_datas (set_pending (Downloading peer rid) n p) \<subseteq> pending_datas p"
  using pending_datas_insert [of n "\<lparr> pbi_state = Downloading peer rid \<rparr>" p] by (auto simp: set_pending_def)

lemma pending_datas_take_block: "pending_datas (take_block peer data p) \<subseteq> pending_datas p \<union> {(bda_number data, data)}"
  using pending_datas_insert [of "bda_number data" "\<lparr> pbi_state = Downloaded peer (Some data) \<rparr>" p]
  by (auto simp: take_block_def split: option.splits pending_block_state.splits)

lemma pending_datas_seen: "(\<And>i. f i = i \<or> f i = \<lparr> pbi_state = Seen \<rparr>) \<Longrightarrow> pending_datas (bm_map f p) \<subseteq> pending_datas p"
proof
  fix x
  assume f: "\<And>i. f i = i \<or> f i = \<lparr> pbi_state = Seen \<rparr>" and "x \<in> pending_datas (bm_map f p)"
  then obtain k d i peer where x: "x = (k, d)" "(k, i) \<in> set p" "pbi_state (f i) = Downloaded peer (Some d)"
    by (auto simp: pending_datas_def bm_map_def)
  then have "f i = i"
    using f [of i] by auto
  then show "x \<in> pending_datas p"
    using x by (auto simp: pending_datas_def)
qed

lemma pending_datas_fold_seen: "pending_datas (fold (\<lambda>n. bm_insert n \<lparr> pbi_state = Seen \<rparr>) ns p) \<subseteq> pending_datas p"
proof (induction ns arbitrary: p)
  case (Cons n ns)
  show ?case
    using Cons.IH [of "bm_insert n \<lparr> pbi_state = Seen \<rparr> p"] pending_datas_insert [of n "\<lparr> pbi_state = Seen \<rparr>" p] by auto
qed simp

lemma pending_datas_fold_remove: "pending_datas (fold bm_remove ns p) \<subseteq> pending_datas p"
  by (induction ns arbitrary: p) (use pending_datas_remove in fastforce)+

lemmas pending_datas_subsets = pending_datas_remove pending_datas_set_pending pending_datas_seen pending_datas_fold_seen pending_datas_fold_remove

lemma bm_get_key: "bm_get p n \<noteq> None \<Longrightarrow> n \<in> fst ` set p"
  by (auto simp: bm_get_def dest: map_of_SomeD intro: rev_image_eqI)

lemma length_set_pending: "bm_wf p \<Longrightarrow> length (set_pending st n p) = length p"
  by (simp add: set_pending_def length_bm_insert_old bm_get_key)

lemma length_take_block: "bm_wf p \<Longrightarrow> length (take_block peer data p) = length p"
  using bm_get_key [of p "bda_number data"]
  by (auto simp: take_block_def length_bm_insert_old split: option.splits pending_block_state.splits)

lemma bm_wf_set_pending [simp, intro]: "bm_wf p \<Longrightarrow> bm_wf (set_pending st n p)"
  by (simp add: set_pending_def bm_wf_insert)

lemma bm_wf_take_block [simp, intro]: "bm_wf p \<Longrightarrow> bm_wf (take_block peer data p)"
  by (auto simp: take_block_def split: option.splits pending_block_state.splits)

lemma bm_wf_fold_insert: "bm_wf p \<Longrightarrow> bm_wf (fold (\<lambda>n. bm_insert n v) ns p)"
  by (induction ns arbitrary: p) auto

lemma length_fold_insert: "length (fold (\<lambda>n. bm_insert n v) ns p) \<le> length p + length ns"
proof (induction ns arbitrary: p)
  case (Cons n ns)
  show ?case
    using Cons [of "bm_insert n v p"] length_bm_insert [of n v p] by (simp del: bm_insert.simps)
qed simp

lemma fold_remove_bounds: "bm_wf p \<Longrightarrow> bm_wf (fold bm_remove ns p)" "length (fold bm_remove ns p) \<le> length p"
  by (induction ns arbitrary: p) (auto intro: order_trans [OF _ length_bm_remove])

text \<open>The room that is left for what is appended, also where the numbers wrap around.\<close>

lemma append_room:
  fixes m c :: u64
  assumes "len \<le> 2560" "m + 1 \<noteq> 0 \<or> len = 0" "c \<le> m + 2560 - of_nat len" "m + 1 \<le> c"
  shows "Suc (unat c) - unat (m + 1) \<le> 2560 - len"
proof -
  define k where "k = 2560 - len"
  have eq: "m + 2560 - of_nat len = m + of_nat k"
    using assms(1) by (simp add: k_def of_nat_diff)
  have k: "unat (of_nat k :: u64) = k"
    by (simp add: unat_of_nat k_def)
  have upper: "unat c \<le> (unat m + k) mod 2 ^ 64"
    using assms(3) k unfolding eq word_le_nat_alt unat_word_ariths by simp
  have lower: "unat (m + 1) \<le> unat c"
    using assms(4) by (simp add: word_le_nat_alt)
  show ?thesis
  proof (cases "m + 1 = 0")
    case True
    then have "m = - 1" "len = 0"
      using assms(2) by (simp_all add: add_eq_0_iff2)
    then have "unat m = 2 ^ 64 - 1" "len = 0"
      by (simp_all add: unsigned_minus_1_eq_mask mask_eq_exp_minus_1)
    then show ?thesis
      using upper True by (simp add: k_def)
  next
    case False
    then show ?thesis
      using upper lower unat_Suc_word [OF False] mod_less_eq_dividend [of "unat m + k" "2 ^ 64"] unfolding k_def [symmetric] by linarith
  qed
qed

lemma u64_upto_length: "length (u64_upto a b) = Suc (unat b) - unat a"
  by (auto simp: u64_upto_def)

lemma u64_upto_le: "n \<in> set (u64_upto a b) \<Longrightarrow> n \<le> b"
  using unsigned_less [of b, where 'a = nat] by (auto simp: u64_upto_def word_le_nat_alt unat_of_nat)

lemma max_peer_number_in: "max_peer_number ps = Some n \<Longrightarrow> \<exists>(q, i)\<in>set ps. spi_confirmed_number i = n"
proof -
  have fold_in: "fold max xs x \<in> insert x (set xs)" for xs and x :: u64
    by (induction xs arbitrary: x) (auto simp: max_def split: if_splits)
  assume "max_peer_number ps = Some n"
  then obtain x xs where "map (spi_confirmed_number \<circ> snd) ps = x # xs" "n = fold max xs x"
    by (auto simp: max_peer_number_def split: list.splits)
  then have "n \<in> set (map (spi_confirmed_number \<circ> snd) ps)"
    using fold_in [of xs x] by simp
  then show ?thesis
    by (force simp: case_prod_beta)
qed

lemma keys_fold_insert: "fst ` set (fold (\<lambda>n. bm_insert n v) ns p) = set ns \<union> fst ` set p"
  by (induction ns arbitrary: p) (auto simp: bm_insert_keys)

lemma keys_fold_remove: "fst ` set (fold bm_remove ns p) \<subseteq> fst ` set p"
  by (induction ns arbitrary: p) (fastforce simp: bm_remove_def bm_without_def)+

text \<open>What a turn of the loop over the downloaded blocks does: nothing, or it verifies and commits the first block and takes it off, puts
  it back or resets the blocks of its sender.\<close>

lemma on_verify_result_frame:
  assumes "on_verify_result w result s = (r, s')"
  shows "s' = s\<lparr>cy_support := cy_support s'\<rparr>"
proof -
  have "keeps (\<lambda>s'. s' = s\<lparr>cy_support := cy_support s'\<rparr>) (on_verify_result w result)"
    by (rule keeps_on_verify_result) (metis (no_types, lifting) chain_sync.surjective chain_sync.update_convs(9) chain_sync.select_convs(9))
  from keepsD [OF this _ assms] show ?thesis
    by simp
qed

lemma downloaded_turn_cases:
  assumes "downloaded_turn w s = (r, s')"
  obtains (same) "s' = s"
  | (first) number info rest peer data result data_left q s1 where "cy_pending s = (number, info) # rest"
    "pbi_state info = Downloaded peer data" "verify_block_taking w data (cy_backend s) = (result, data_left)"
    "on_verify_result w result (s\<lparr>cy_pending := bm_remove number (cy_pending s)\<rparr>) = (q, s1)"
    "cy_peers s' = cy_peers s" "cy_support s' = cy_support s1"
    "cy_pending s' \<in> {bm_remove number (cy_pending s), bm_map (seen_again peer) (bm_remove number (cy_pending s)),
       bm_insert number \<lparr> pbi_state = Downloaded peer data_left \<rparr> (bm_remove number (cy_pending s))}"
proof (cases "cy_pending s")
  case Nil
  then show thesis
    using assms same by (simp add: downloaded_turn_def bind_apply)
next
  case (Cons x rest)
  obtain number info where x: "x = (number, info)"
    by (cases x)
  show thesis
  proof (cases "pbi_state info")
    case (Downloaded peer data)
    obtain result data_left where v: "verify_block_taking w data (cy_backend s) = (result, data_left)"
      by fastforce
    obtain q s1 where o: "on_verify_result w result (s\<lparr>cy_pending := bm_remove number (cy_pending s)\<rparr>) = (q, s1)"
      by fastforce
    have s1: "cy_pending s1 = bm_remove number (cy_pending s)" "cy_peers s1 = cy_peers s"
      by (subst on_verify_result_frame [OF o], simp)+
    have "cy_peers s' = cy_peers s1 \<and> cy_support s' = cy_support s1 \<and> cy_pending s' \<in> {cy_pending s1, bm_map (seen_again peer) (cy_pending s1),
        bm_insert number \<lparr> pbi_state = Downloaded peer data_left \<rparr> (cy_pending s1)}"
      using assms v o unfolding downloaded_turn_def Cons x
      by (auto simp: bind_apply Downloaded Cons x peer_manager_send_message_def split: result.splits sync_action.splits)
    then show thesis
      using first [OF Cons [unfolded x] Downloaded v o] s1 by simp
  qed (use assms Cons x same in \<open>simp_all add: downloaded_turn_def bind_apply\<close>)
qed

lemma data_left_cases: "verify_block_taking w data b = (result, data_left) \<Longrightarrow> data_left = None \<or> data_left = data"
  by (auto simp: verify_block_taking_def split: option.splits if_splits)

lemma seen_again_cases: "seen_again peer i = i \<or> seen_again peer i = \<lparr> pbi_state = Seen \<rparr>"
  by (cases i) (auto simp: seen_again_def split: pending_block_state.splits)

lemma bm_remove_keys: "fst ` set (bm_remove n p) \<subseteq> fst ` set p"
  by (auto simp: bm_remove_def bm_without_def)

text \<open>Fewer keys and data, and not more blocks.\<close>

lemma pending_wf_mono:
  assumes "pending_wf p" "bm_wf q" "length q \<le> length p" "fst ` set q \<subseteq> fst ` set p" "pending_datas q \<subseteq> pending_datas p"
  shows "pending_wf q"
  unfolding pending_wf_def
proof (intro conjI ballI)
  fix k
  assume "k \<in> fst ` set q"
  then show "k + 1 \<noteq> 0"
    using assms(1,4) unfolding pending_wf_def by blast
next
  fix x
  assume "x \<in> pending_datas q"
  then show "case x of (k, d) \<Rightarrow> bda_number d = k"
    using assms(1,5) unfolding pending_wf_def by blast
qed (use assms in \<open>auto simp: pending_wf_def\<close>)

lemma pending_wf_remove: "pending_wf p \<Longrightarrow> pending_wf (bm_remove n p)"
  by (rule pending_wf_mono, assumption, simp add: pending_wf_def, rule length_bm_remove, rule bm_remove_keys, rule pending_datas_remove)

lemma pending_wf_map: "pending_wf p \<Longrightarrow> (\<And>i. f i = i \<or> f i = \<lparr> pbi_state = Seen \<rparr>) \<Longrightarrow> pending_wf (bm_map f p)"
proof -
  assume p: "pending_wf p" and f: "\<And>i. f i = i \<or> f i = \<lparr> pbi_state = Seen \<rparr>"
  have "fst ` set (bm_map f p) = fst ` set p"
    by (metis map_fst_bm_map set_map)
  then show ?thesis
    using p pending_datas_seen [OF f, where p = p] by (auto simp: pending_wf_def)
qed

lemma pending_wf_set_pending: "pending_wf p \<Longrightarrow> pending_wf (set_pending (Downloading peer rid) n p)"
proof -
  assume p: "pending_wf p"
  have "fst ` set (set_pending (Downloading peer rid) n p) = fst ` set p"
    using bm_get_key [of p n] by (auto simp: set_pending_def bm_insert_keys)
  then show ?thesis
    using p pending_datas_set_pending [of peer rid n p] by (auto simp: pending_wf_def length_set_pending)
qed

lemma pending_wf_take_block: "pending_wf p \<Longrightarrow> pending_wf (take_block peer data p)"
proof -
  assume p: "pending_wf p"
  have "fst ` set (take_block peer data p) = fst ` set p"
    using bm_get_key [of p "bda_number data"] by (auto simp: take_block_def bm_insert_keys split: option.splits pending_block_state.splits)
  then show ?thesis
    using p pending_datas_take_block [of peer data p] by (auto simp: pending_wf_def length_take_block)
qed

text \<open>A block that is put back where it was.\<close>

lemma pending_wf_put_back:
  assumes "pending_wf p" "p = (n, i) # rest" "\<And>peer d. st = Downloaded peer (Some d) \<Longrightarrow> bda_number d = n"
  shows "pending_wf (bm_insert n \<lparr> pbi_state = st \<rparr> (bm_remove n p))"
proof -
  have wf: "bm_wf ((n, i) # rest)" and rest: "bm_remove n p = rest"
    using assms(1,2) bm_remove_head by (auto simp: pending_wf_def)
  have "bm_insert n \<lparr> pbi_state = st \<rparr> rest = (n, \<lparr> pbi_state = st \<rparr>) # rest"
    by (rule bm_insert_head) (use wf in \<open>simp add: bm_wf_def\<close>)
  moreover have "pending_datas ((n, \<lparr> pbi_state = st \<rparr>) # rest) \<subseteq> pending_datas p \<union> {(n, d) | d. \<exists>peer. st = Downloaded peer (Some d)}"
    by (auto simp: pending_datas_def assms(2))
  ultimately show ?thesis
    using assms wf rest unfolding pending_wf_def by (auto simp: bm_wf_def dest!: subsetD [where A = "pending_datas _"])
qed

lemma PENDING_BLOCKS_SIZE_eq: "unat PENDING_BLOCKS_SIZE = 2560" "ucast PENDING_BLOCKS_SIZE = (2560 :: u64)"
  by (simp_all add: PENDING_BLOCKS_SIZE_def)

lemma pending_wf_append:
  assumes "pending_wf p" "c + 1 \<noteq> 0" "c \<le> m + 2560 - of_nat (length p)" "m + 1 \<le> c" "p \<noteq> [] \<Longrightarrow> m = fst (last p)"
  shows "pending_wf (fold (\<lambda>n. bm_insert n \<lparr> pbi_state = Seen \<rparr>) (u64_upto (m + 1) c) p)"
proof -
  let ?q = "fold (\<lambda>n. bm_insert n \<lparr> pbi_state = Seen \<rparr>) (u64_upto (m + 1) c) p"
  have p: "bm_wf p" "length p \<le> 2560" "\<And>k. k \<in> fst ` set p \<Longrightarrow> k + 1 \<noteq> 0" "\<And>k d. (k, d) \<in> pending_datas p \<Longrightarrow> bda_number d = k"
    using assms(1) by (auto simp: pending_wf_def PENDING_BLOCKS_SIZE_eq)
  have "m + 1 \<noteq> 0 \<or> length p = 0"
    using assms(5) p(3) [of "fst (last p)"] by (cases "p = []") auto
  then have "length ?q \<le> 2560"
    using length_fold_insert [of "\<lparr> pbi_state = Seen \<rparr>" "u64_upto (m + 1) c" p] append_room [OF p(2) _ assms(3,4)] p(2)
    by (simp add: u64_upto_length)
  moreover have "k + 1 \<noteq> 0" if "k \<in> fst ` set ?q" for k
  proof (cases "k \<in> fst ` set p")
    case False
    then have "k \<le> c"
      using that u64_upto_le [of k "m + 1" c] by (auto simp: keys_fold_insert)
    then show ?thesis
      using assms(2) by (metis add_eq_0_iff2 word_order.extremum_unique)
  qed (rule p(3))
  ultimately show ?thesis
    using bm_wf_fold_insert [OF p(1)] pending_datas_fold_seen [of "u64_upto (m + 1) c" p] p(4)
    by (auto simp: pending_wf_def PENDING_BLOCKS_SIZE_eq dest!: subsetD)
qed

lemma pending_wf_fold_remove: "pending_wf p \<Longrightarrow> pending_wf (fold bm_remove ns p)"
  by (induction ns arbitrary: p) (simp_all add: pending_wf_remove)

lemma max_pending_number_last: "max_pending_number s = Ok m \<Longrightarrow> cy_pending s \<noteq> [] \<Longrightarrow> m = fst (last (cy_pending s))"
  by (simp add: max_pending_number_def bm_last_key_def)

lemma notify_frame:
  "cy_peers (snd (notify_latency l s)) = cy_peers s" "cy_pending (snd (notify_latency l s)) = cy_pending s"
  "cy_support (snd (notify_latency l s)) = cy_support s"
  by (auto simp: notify_latency_def consensus_send_message_def bind_apply split: result.splits)

lemma maintain_new_pending_wf: "keeps (holds (\<lambda>p _. pending_wf p)) (maintain_new :: ('d, 'kp, 'ver, 'l, unit) cy_comp)"
proof (unfold keeps_def, intro allI impI)
  fix s :: "('d, 'kp, 'ver, 'l) chain_sync"
  assume "holds (\<lambda>p _. pending_wf p) s"
  then have h: "small_peers (cy_peers s)" "pending_wf (cy_pending s)"
    by (simp_all add: holds_def)
  show "holds (\<lambda>p _. pending_wf p) (snd (maintain_new s))"
  proof (cases "max_peer_number (cy_peers s)")
    case None
    then show ?thesis
      using h by (simp add: maintain_new_def bind_apply holds_def)
  next
    case (Some max_peer)
    show ?thesis
    proof (cases "max_pending_number s")
      case (Err e)
      then show ?thesis
        using h Some by (simp add: maintain_new_def bind_apply holds_def)
    next
      case (Ok m)
      let ?c = "min max_peer (m + ucast PENDING_BLOCKS_SIZE - of_nat (length (cy_pending s)))"
      have "max_peer + 1 \<noteq> 0"
        using max_peer_number_in [OF Some] h(1) by (auto simp: small_peers_def)
      then have "?c + 1 \<noteq> 0"
        by (metis add_eq_0_iff2 min.cobounded1 word_order.extremum_unique)
      then have append: "pending_wf (fold (\<lambda>n. bm_insert n \<lparr> pbi_state = Seen \<rparr>) (u64_upto (m + 1) ?c) (cy_pending s))" if "m + 1 \<le> ?c"
        using pending_wf_append [OF h(2), of ?c m] that max_pending_number_last [OF Ok] by (simp add: PENDING_BLOCKS_SIZE_eq)
      show ?thesis
        using h append pending_wf_fold_remove [OF h(2)] Some Ok
        by (cases "latency s") (simp_all add: maintain_new_def bind_apply Let_def holds_def notify_frame)
    qed
  qed
qed

lemma downloaded_turn_pending_wf:
  fixes w :: "('d, 't, 'kp, 'ver, 'l) sync_world"
  shows "keeps (holds (\<lambda>p _. pending_wf p)) (downloaded_turn w)"
proof (unfold keeps_def, intro allI impI)
  fix s :: "('d, 'kp, 'ver, 'l) chain_sync"
  assume h: "holds (\<lambda>p _. pending_wf p) s"
  obtain r s' where turn: "downloaded_turn w s = (r, s')"
    by fastforce
  then show "holds (\<lambda>p _. pending_wf p) (snd (downloaded_turn w s))"
  proof (cases rule: downloaded_turn_cases)
    case (first number info rest peer data result data_left q s1)
    have p: "pending_wf (cy_pending s)"
      using h by (simp add: holds_def)
    have "(number, d) \<in> pending_datas (cy_pending s)" if "data_left = Some d" for d
      using data_left_cases [OF first(3)] that first(1,2) by (auto simp: pending_datas_def)
    then have restored: "pending_wf (bm_insert number \<lparr> pbi_state = Downloaded peer data_left \<rparr> (bm_remove number (cy_pending s)))"
      using p by (intro pending_wf_put_back [OF p first(1)]) (auto simp: pending_wf_def)
    show ?thesis
      using first(5,7) h restored pending_wf_remove [OF p] pending_wf_map [OF pending_wf_remove [OF p] seen_again_cases] turn
      by (auto simp: holds_def)
  qed (use h turn in simp)
qed

interpretation pw: sync_invariant w "\<lambda>p _. pending_wf p" for w :: "('d, 't, 'kp, 'ver, 'l) sync_world"
  by unfold_locales
    (simp_all add: maintain_new_pending_wf downloaded_turn_pending_wf pending_wf_set_pending pending_wf_take_block pending_wf_map pending_wf_remove)

section \<open>The chain\<close>

text \<open>What a block that verifies is: the next block, with a proof that the consensus accepts, and built again from its transactions.\<close>

lemma verify_block_Ok:
  assumes "verify_block lib vp data b = Ok cp"
  obtains hdr body pf n h parent m q cp0 where "bda_header data = Some hdr" "bda_body data = Some body" "bda_proof data = Some pf"
    "get_header lib (bda_block_hash data) b = Ok None" "confirmed_block (CoordinatorError \<circ> CoordinatorData) lib b = Ok (n, h, parent)"
    "hdr_number hdr = n + 1" "hdr_parent_hash hdr = h" "vp hdr pf b = Ok ()" "coordinator_verify_body lib body b = Ok (m, q)"
    "build_block lib \<lparr> bb_number = hdr_number hdr, bb_timestamp = hdr_timestamp hdr, bb_meta_txs = m, bb_payload_txs = q,
       bb_execution_number = hdr_number hdr - scast (hdr_payload_execution_gap hdr) \<rparr> b = Ok cp0"
    "cb_header cp0 = hdr" "cp = cp0\<lparr>cb_proof := pf\<rparr>"
proof -
  obtain hdr body pf where d: "bda_header data = Some hdr" "bda_body data = Some body" "bda_proof data = Some pf"
    using assms by (auto simp: verify_block_def split: option.splits)
  obtain n h parent m q where v: "coordinator_verify_not_repeat lib (bda_block_hash data) b = Ok ()"
      "coordinator_verify_best lib hdr b = Ok (n, h, parent)" "coordinator_verify_proof vp hdr pf b = Ok ()"
      "coordinator_verify_body lib body b = Ok (m, q)" "coordinator_verify_header lib hdr pf m q b = Ok cp"
    using assms d by (auto simp: verify_block_def and_then_eq_Ok)
  have "vp hdr pf b = Ok ()"
    using v(3) unfolding coordinator_verify_proof_def
    by (cases "vp hdr pf b") (auto split: option.splits consensus_error.splits)
  then show thesis
    using that [OF d] v
    by (auto simp: coordinator_verify_not_repeat_def verify_not_repeat_def coordinator_verify_best_def coordinator_verify_header_def
        and_then_eq_Ok split: if_splits)
qed

definition committable :: "chain_commit_block_params \<Rightarrow> bool" where
  "committable cp \<longleftrightarrow> only_col META_STATE (cb_meta_transaction cp) \<and> hdr_number (cb_header cp) + 1 \<noteq> 0"

lemma verified_block_committable:
  assumes "well_behaved (cl_dispatcher lib)" "chain_ok lib b" "small_data data" "verify_block lib vp data b = Ok cp"
  shows "committable cp"
  using assms(4)
proof (cases rule: verify_block_Ok)
  case (1 hdr body pf n h parent m q cp0)
  then show ?thesis
    using built_only_col [OF assms(1,2) 1(10)] assms(3) by (simp add: committable_def small_data_def)
qed

text \<open>A commit of such a block is an action on the chain, also when it is refused.\<close>

lemma commit_sys_ok:
  assumes lib: "chain_lib_ok lib absd" "well_behaved (cl_dispatcher lib)" and c: "sys_ok lib c"
    and cp: "committable cp" "chain_commit_block lib now cp c = (r, c')"
  shows "sys_ok lib c' \<and> extends lib (ch_backend c) (ch_backend c')"
proof (cases "hdr_number (cb_header cp) = 0")
  case False
  then show ?thesis
    using chain_step_ok [OF lib c step_commit [OF _ _ _ cp(2)]] cp(1) by (simp add: committable_def)
next
  case True
  obtain q b' where run: "backend_commit_block lib now cp (ch_backend c) = (q, b')"
    by fastforce
  have col: "only_col META_STATE (cb_meta_transaction cp)" and ok: "chain_ok lib (ch_backend c)"
    using cp(1) c by (simp_all add: committable_def sys_ok_def)
  have "b' = ch_backend c \<and> \<not> is_ok q"
    by (rule backend_commit_block_cases [OF lib(1) col run]) (use ok True in \<open>auto simp: chain_ok_def\<close>)
  then have "c' = c"
    using cp(2) run by (cases q) (auto simp: chain_commit_block_def on_backend_def bind_apply)
  then show ?thesis
    using c by simp
qed

text \<open>The chain is in order, extends the one at the start, and the pending blocks can be committed.\<close>

definition chain_kept :: "('d, 't) chain_lib \<Rightarrow> ('d, 'kp, 'ver) backend \<Rightarrow> (block_number, pending_block_info) bmap
    \<Rightarrow> ('d, 'kp, 'ver) support \<Rightarrow> bool" where
  "chain_kept lib b0 p x \<longleftrightarrow> (\<exists>absd. chain_lib_ok lib absd) \<longrightarrow> well_behaved (cl_dispatcher lib) \<longrightarrow>
     sys_ok lib (sup_chain x) \<and> extends lib b0 (sup_backend x) \<and> (\<forall>(_, d)\<in>pending_datas p. small_data d)"

lemma chain_kept_mono: "chain_kept lib b0 p x \<Longrightarrow> pending_datas q \<subseteq> pending_datas p \<Longrightarrow> chain_kept lib b0 q x"
  by (auto simp: chain_kept_def dest!: subsetD)

lemma chain_run_kept:
  assumes "chain_run lib c c'" "chain_lib_ok lib absd" "well_behaved (cl_dispatcher lib)" "sys_ok lib c"
  shows "sys_ok lib c' \<and> extends lib (ch_backend c) (ch_backend c')"
  using assms
proof (induction rule: chain_run.induct)
  case (run_step c c' c'')
  then show ?case
    using chain_step_ok [of lib absd c' c''] extends_trans by blast
qed simp

lemma on_verify_result_kept:
  fixes w :: "('b, 't, 'c, 'd, 'e) sync_world"
  assumes "\<And>cp. result = Ok cp \<Longrightarrow> (\<exists>absd. chain_lib_ok (sw_lib w) absd) \<Longrightarrow> well_behaved (cl_dispatcher (sw_lib w)) \<Longrightarrow> committable cp"
  shows "keeps (\<lambda>s. chain_kept (sw_lib w) b0 p (cy_support s)) (on_verify_result w result)"
proof -
  have commit: "keeps (\<lambda>s. chain_kept (sw_lib w) b0 p (cy_support s)) (sync_on_support (support_commit_block (sw_lib w) (sw_now w) cp)
      :: ('b, 'c, 'd, 'e, unit) cy_comp)"
    if "result = Ok cp" for cp
  proof (unfold keeps_def, intro allI impI)
    fix s :: "('b, 'c, 'd, 'e) chain_sync"
    assume kept: "chain_kept (sw_lib w) b0 p (cy_support s)"
    obtain r c where run: "chain_commit_block (sw_lib w) (sw_now w) cp (sup_chain (cy_support s)) = (r, c)"
      by fastforce
    have "sys_ok (sw_lib w) c \<and> extends (sw_lib w) b0 (ch_backend c)"
      if "chain_lib_ok (sw_lib w) absd" "well_behaved (cl_dispatcher (sw_lib w))" for absd
    proof -
      have "sys_ok (sw_lib w) (sup_chain (cy_support s))" "extends (sw_lib w) b0 (cy_backend s)"
        using kept that unfolding chain_kept_def by blast+
      then show ?thesis
        using commit_sys_ok [OF that _ assms [OF \<open>result = Ok cp\<close> exI [of _ absd]] run] that extends_trans by blast
    qed
    then show "chain_kept (sw_lib w) b0 p (cy_support (snd (sync_on_support (support_commit_block (sw_lib w) (sw_now w) cp) s)))"
      using kept by (auto simp: sync_on_support_apply support_commit_block_def on_chain_def run chain_kept_def)
  qed
  have remove: "keeps (\<lambda>s. chain_kept (sw_lib w) b0 p (cy_support s)) (sync_on_support (txpool_remove_transactions hs)
      :: ('b, 'c, 'd, 'e, unit) cy_comp)" for hs
    by (auto simp: keeps_def sync_on_support_apply txpool_remove_transactions_def on_txpool_def chain_kept_def split: prod.splits)
  have "keeps (\<lambda>s. chain_kept (sw_lib w) b0 p (cy_support s)) (bind (lift_result result) (on_verify_ok w))"
  proof (cases result)
    case (Ok cp)
    then have "bind (lift_result result) (on_verify_ok w) = on_verify_ok w cp"
      by (simp add: bind_def lift_result_def fun_eq_iff)
    then show ?thesis
      unfolding on_verify_ok_def Let_def case_prod_beta by (auto intro!: keeps_rules commit [OF Ok] remove)
  qed (simp add: keeps_def bind_apply)
  then show ?thesis
    unfolding on_verify_result_def by (intro keeps_bind [OF keeps_attempt] keeps_lift_result)
qed

lemma downloaded_turn_kept:
  fixes w :: "('d, 't, 'kp, 'ver, 'l) sync_world"
  shows "keeps (holds (chain_kept (sw_lib w) b0)) (downloaded_turn w)"
proof (unfold keeps_def, intro allI impI)
  fix s :: "('d, 'kp, 'ver, 'l) chain_sync"
  assume h: "holds (chain_kept (sw_lib w) b0) s"
  obtain r s' where turn: "downloaded_turn w s = (r, s')"
    by fastforce
  then show "holds (chain_kept (sw_lib w) b0) (snd (downloaded_turn w s))"
  proof (cases rule: downloaded_turn_cases)
    case (first number info rest peer data result data_left q s1)
    have kept: "chain_kept (sw_lib w) b0 (cy_pending s) (cy_support s)"
      using h by (simp add: holds_def)
    have committable: "committable cp" if res: "result = Ok cp"
      and lib: "\<exists>absd. chain_lib_ok (sw_lib w) absd" "well_behaved (cl_dispatcher (sw_lib w))" for cp
    proof -
      obtain d where d: "data = Some d" "verify_block (sw_lib w) (sw_verify_proof w) d (cy_backend s) = Ok cp"
        using first(3) res by (auto simp: verify_block_taking_def split: option.splits)
      have "(number, d) \<in> pending_datas (cy_pending s)"
        using first(1,2) d(1) by (auto simp: pending_datas_def)
      then have "small_data d" "chain_ok (sw_lib w) (cy_backend s)"
        using kept lib unfolding chain_kept_def sys_ok_def by blast+
      then show ?thesis
        using verified_block_committable [OF lib(2) _ _ d(2)] by blast
    qed
    have kept': "chain_kept (sw_lib w) b0 (cy_pending s) (cy_support s')"
      unfolding first(6) by (rule keepsD [OF on_verify_result_kept [OF committable] _ first(4)]) (simp_all add: kept)
    have "data_left = Some d \<Longrightarrow> (number, d) \<in> pending_datas (cy_pending s)" for d
      using data_left_cases [OF first(3)] first(1,2) by (auto simp: pending_datas_def)
    then have "pending_datas (cy_pending s') \<subseteq> pending_datas (cy_pending s)"
      using first(7) pending_datas_remove [of number "cy_pending s"]
        pending_datas_seen [of "seen_again peer" "bm_remove number (cy_pending s)", OF seen_again_cases]
        pending_datas_insert [of number "\<lparr> pbi_state = Downloaded peer data_left \<rparr>" "bm_remove number (cy_pending s)"]
      by auto
    then show ?thesis
      using chain_kept_mono [OF kept'] first(5) h turn by (simp add: holds_def)
  qed (use h turn in simp)
qed

lemma maintain_new_datas:
  "cy_peers (snd (maintain_new s)) = cy_peers s \<and> cy_support (snd (maintain_new s)) = cy_support s \<and>
   pending_datas (cy_pending (snd (maintain_new s))) \<subseteq> pending_datas (cy_pending s)"
proof (cases "max_peer_number (cy_peers s)")
  case (Some max_peer)
  then show ?thesis
    by (cases "max_pending_number s"; cases "latency s")
      (simp_all add: maintain_new_def bind_apply Let_def notify_frame pending_datas_fold_seen pending_datas_fold_remove)
qed (simp add: maintain_new_def bind_apply)

interpretation ck: sync_invariant w "chain_kept (sw_lib w) b0" for w :: "('d, 't, 'kp, 'ver, 'l) sync_world" and b0
proof unfold_locales
  show "keeps (holds (chain_kept (sw_lib w) b0)) (maintain_new :: ('d, 'kp, 'ver, 'l, unit) cy_comp)"
    unfolding keeps_def holds_def by (metis maintain_new_datas chain_kept_mono)
  show "keeps (holds (chain_kept (sw_lib w) b0)) (downloaded_turn (w\<lparr>sw_now := t\<rparr>))" for t
    using downloaded_turn_kept [of "w\<lparr>sw_now := t\<rparr>"] by simp
  fix p x
  assume kept: "chain_kept (sw_lib w) b0 p x"
  show "chain_kept (sw_lib w) b0 (set_pending (Downloading peer rid) n p) x" "chain_kept (sw_lib w) b0 (bm_remove n p) x" for peer rid n
    by (rule chain_kept_mono [OF kept], rule pending_datas_subsets)+
  show "chain_kept (sw_lib w) b0 (take_block peer data p) x" if "small_data data" for peer data
    using kept pending_datas_take_block [of peer data p] that by (auto simp: chain_kept_def dest!: subsetD)
  show "chain_kept (sw_lib w) b0 (bm_map f p) x" if "\<And>i. f i = i \<or> f i = \<lparr> pbi_state = Seen \<rparr>" for f
    by (rule chain_kept_mono [OF kept pending_datas_seen [OF that]])
  show "chain_kept (sw_lib w) b0 p y" if "chain_run (sw_lib w) (sup_chain x) (sup_chain y)" for y
    using kept chain_run_kept [OF that] extends_trans unfolding chain_kept_def by blast
qed

end
