(* ===== verification/Coordinator_Theorems.thy ===== *)
theory Coordinator_Theorems
  imports Coordinator_Laws Poa
begin

text \<open>
  The properties of the coordinator: what it commits has been checked and keeps the chain in order, the pending blocks are bounded, the
  requests cover what was seen, a block that was accepted is served on unchanged; and how one bad block makes it report the sender of the
  block behind it.
\<close>

section \<open>Serving blocks\<close>

lemma get_verified_txs_txs: "get_verified_txs err lib b txs sh = Ok r \<Longrightarrow> map ftx_tx r = txs"
  by (induction txs arbitrary: sh r) (auto simp: and_then_eq_Ok)

lemma coordinator_verify_body_txs:
  "coordinator_verify_body lib body b = Ok (m, q) \<Longrightarrow> map ftx_tx m = bd_meta_txs body \<and> map ftx_tx q = bd_payload_txs body"
  by (auto simp: coordinator_verify_body_def verify_body_def and_then_eq_Ok dest: get_verified_txs_txs)

definition is_meta_tx :: "('d, 't) chain_lib \<Rightarrow> full_transaction \<Rightarrow> bool" where
  "is_meta_tx lib tx \<longleftrightarrow> dispatch_is_meta (cl_dispatcher lib) (call_module (tx_call (ftx_tx tx))) = Ok True"

lemma execute_txs_meta:
  assumes "well_behaved ds" "exec_inv s" "execute_txs xe ds txs s = (Ok (), s')"
    "\<forall>tx\<in>set txs. dispatch_is_meta ds (call_module (tx_call (ftx_tx tx))) = Ok True"
  shows "xc_meta_txs s' = xc_meta_txs s @ txs"
proof -
  obtain m rs t where loop: "execute_loop xe ds None [] txs s = (Ok (m, rs), t)"
    using assms(3) by (auto simp: execute_txs_def bind_def split: prod.splits result.splits)
  have fr: "same_batch s t"
    using execute_loop_frame [OF assms(1,2) loop] by blast
  have "m = None \<longleftrightarrow> txs = []" "\<forall>tx\<in>set txs. dispatch_is_meta ds (call_module (tx_call (ftx_tx tx))) = Ok (the m)"
    using execute_loop_Ok [OF loop assms(1,2)] by auto
  then have "txs = [] \<or> m = Some True"
    using assms(4) by (cases txs; cases m) auto
  then show ?thesis
    using assms(3) fr \<open>m = None \<longleftrightarrow> txs = []\<close>
    by (auto simp: execute_txs_def bind_def loop same_batch_def fail_if_def split: if_splits option.splits)
qed

lemma built_txs:
  assumes "well_behaved (cl_dispatcher lib)" "build_block lib p b = Ok cp" "\<forall>tx\<in>set (bb_meta_txs p). is_meta_tx lib tx"
  shows "cb_meta_txs cp = bb_meta_txs p" "cb_payload_txs cp = bb_payload_txs p"
    "cb_body cp = \<lparr> body_meta_txs = map ftx_hash (bb_meta_txs p), body_payload_txs = map ftx_hash (bb_payload_txs p) \<rparr>"
proof -
  obtain ph mr pr x e s s' where b: "new_essence b \<lparr> env_number = bb_number p, env_timestamp = bb_timestamp p \<rparr> mr pr = Ok e"
      "new_context lib b e = Ok s" "execute_txs (bk_executor b) (cl_dispatcher lib) (bb_meta_txs p) s = (Ok (), s')"
      "seal_block lib p ph x s' b = Ok cp"
    by (rule build_block_Ok [OF assms(1,2)])
  have "xc_meta_txs s' = bb_meta_txs p"
    using execute_txs_meta [OF assms(1) context_of_essence(1) [OF b(1,2)] b(3)] assms(3) context_of_essence(7) [OF b(1,2)]
    by (simp add: is_meta_tx_def)
  then show "cb_meta_txs cp = bb_meta_txs p" "cb_payload_txs cp = bb_payload_txs p"
    "cb_body cp = \<lparr> body_meta_txs = map ftx_hash (bb_meta_txs p), body_payload_txs = map ftx_hash (bb_payload_txs p) \<rparr>"
    using seal_block_Ok [OF b(4)] by simp_all
qed

lemma fields_all:
  "(FIELDS_HEADER OR FIELDS_BODY OR FIELDS_PROOF) AND FIELDS_HEADER = FIELDS_HEADER"
  "(FIELDS_HEADER OR FIELDS_BODY OR FIELDS_PROOF) AND FIELDS_BODY = FIELDS_BODY"
  "(FIELDS_HEADER OR FIELDS_BODY OR FIELDS_PROOF) AND FIELDS_PROOF = FIELDS_PROOF"
  by (simp_all add: FIELDS_HEADER_def FIELDS_BODY_def FIELDS_PROOF_def)

text \<open>The transactions of a block that was stored are found by their hashes.\<close>

lemma stored_txs:
  assumes "chain_lib_ok lib absd" "block_stored lib absd cp b b'"
    "\<forall>x\<in>set (cb_meta_txs cp @ cb_payload_txs cp). \<forall>y\<in>set (cb_meta_txs cp @ cb_payload_txs cp). ftx_hash x = ftx_hash y \<longrightarrow> ftx_tx x = ftx_tx y"
    "set txs \<subseteq> set (cb_meta_txs cp @ cb_payload_txs cp)"
  shows "collect_results (map (get_transaction_by_hash lib b') (map ftx_hash txs)) = Ok (map ftx_tx txs)"
proof -
  have "get_transaction lib (ftx_hash tx) b' = Ok (Some (ftx_tx tx))" if "tx \<in> set txs" for tx
    using that assms(2,4) map_of_consistent [OF assms(3), of tx] chain_lib_okD(6) [OF assms(1)]
    by (auto simp: get_transaction_def read_with_eq [OF assms(1)] block_stored_def tx_ops_get)
  then have "map (get_transaction_by_hash lib b') (map ftx_hash txs) = map (\<lambda>tx. Ok (ftx_tx tx)) txs"
    by (simp add: get_transaction_by_hash_def)
  then show ?thesis
    by (simp only: collect_results_map_Ok)
qed

text \<open>The hash that comes with the data of a block is used for the check that it is new only.\<close>

lemma verify_block_hash:
  assumes "get_header lib (bda_block_hash data) b = Ok None" "get_header lib h b = Ok None"
  shows "verify_block lib vp (data\<lparr>bda_number := n, bda_block_hash := h\<rparr>) b = verify_block lib vp data b"
  using assms by (simp add: verify_block_def coordinator_verify_not_repeat_def verify_not_repeat_def cong: option.case_cong)

section \<open>Committing\<close>

lemma chain_commit_block_backend:
  "ch_backend (snd (chain_commit_block lib now cp c)) = snd (backend_commit_block lib now cp (ch_backend c))"
  by (auto simp: chain_commit_block_def on_backend_def bind_apply insert_task_def Let_def split: prod.splits result.splits)

lemma txpool_remove_chain: "sup_chain (snd (txpool_remove_transactions hs x)) = sup_chain x"
  by (simp add: txpool_remove_transactions_def on_txpool_def split: prod.splits)

lemma on_verify_result_chain:
  assumes "on_verify_result w (Ok cp) s = (r, s')"
  shows "sup_chain (cy_support s') = snd (chain_commit_block (sw_lib w) (sw_now w) cp (sup_chain (cy_support s)))"
  using assms
  by (auto simp: on_verify_result_def on_verify_ok_def bind_apply Let_def sync_on_support_apply support_commit_block_def on_chain_def
      txpool_remove_chain split: prod.splits result.splits if_splits)

lemma downloaded_commits:
  assumes "cy_pending s = (n, i) # rest" "pbi_state i = Downloaded peer (Some data)"
    "verify_block (sw_lib w) (sw_verify_proof w) data (cy_backend s) = Ok cp"
  shows "cy_backend (snd (downloaded_turn w s)) = snd (backend_commit_block (sw_lib w) (sw_now w) cp (cy_backend s))"
proof -
  obtain a s1 where r: "on_verify_result w (Ok cp) (s\<lparr>cy_pending := bm_remove n (cy_pending s)\<rparr>) = (a, s1)"
    by fastforce
  then show ?thesis
    using assms on_verify_result_chain [OF r]
    by (simp add: downloaded_turn_def bind_apply verify_block_taking_def peer_manager_send_message_def chain_commit_block_backend
        split: result.splits sync_action.splits)
qed

text \<open>A block whose check fails in a way that resets: its sender is reported, what else it sent is seen again, and the block is gone.\<close>

lemma downloaded_reset:
  assumes "cy_pending s = (n, i) # rest" "bm_wf (cy_pending s)" "pbi_state i = Downloaded peer (Some data)"
    "verify_block (sw_lib w) (sw_verify_proof w) data (cy_backend s) = Err (CoordinatorError (CoordinatorVerify e))" "on_verify_err e = Ok VerifyReset"
  shows "downloaded_turn w s = (Ok False, s\<lparr>cy_pending := bm_map (seen_again peer) rest,
      cy_to_pm := cy_to_pm s @ [ReportPeer peer PEER_REPORT_INVALID_BLOCK]\<rparr>)"
proof -
  have "bm_remove n ((n, i) # rest) = rest"
    using assms(1,2) by (intro bm_remove_head) simp
  then show ?thesis
    using assms(1,3-5)
    by (simp add: downloaded_turn_def bind_apply verify_block_taking_def on_verify_result_def peer_manager_send_message_def)
qed

lemma verify_block_gap:
  assumes "bda_header data = Some hdr" "bda_body data = Some body" "bda_proof data = Some pf" "get_header lib (bda_block_hash data) b = Ok None"
    "confirmed_block (CoordinatorError \<circ> CoordinatorData) lib b = Ok (n, h, parent)" "hdr_number hdr \<noteq> n + 1"
  shows "verify_block lib vp data b = Err (CoordinatorError (CoordinatorVerify VeNotBest))"
  using assms by (simp add: verify_block_def coordinator_verify_not_repeat_def verify_not_repeat_def coordinator_verify_best_def)

section \<open>The groups of requests\<close>

fun successive :: "u64 list \<Rightarrow> bool" where
  "successive (k # k' # ks) \<longleftrightarrow> k' = k + 1 \<and> successive (k' # ks)"
| "successive _ \<longleftrightarrow> True"

definition group_numbers :: "block_number \<times> u32 \<Rightarrow> block_number list" where
  "group_numbers v = map (\<lambda>i. fst v + of_nat i) [0..<unat (snd v)]"

definition seen_numbers :: "(block_number, pending_block_info) bmap \<Rightarrow> block_number list" where
  "seen_numbers p = map fst (filter (\<lambda>(_, i). pbi_state i = Seen) p)"

lemma unat_Suc_u32: "(c :: u32) < m \<Longrightarrow> unat (c + 1) = Suc (unat c)"
  using unatSuc [of c] by (metis add.commute add_eq_0_iff2 word_order.extremum_strict)

lemma group_numbers_extend: "(c :: u32) < m \<Longrightarrow> group_numbers (n, c + 1) = group_numbers (n, c) @ [n + of_nat (unat c)]"
  by (simp add: group_numbers_def unat_Suc_u32)

text \<open>A group takes in the next block.\<close>

lemma grow_group:
  assumes "v = (case item of None \<Rightarrow> (k, 1) | Some v \<Rightarrow> (fst v, snd v + 1))" "0 < mx"
    "\<And>v. item = Some v \<Longrightarrow> 0 < snd v \<and> snd v < mx \<and> k = fst v + of_nat (unat (snd v))"
  shows "group_numbers v = (case item of Some v \<Rightarrow> group_numbers v | None \<Rightarrow> []) @ [k] \<and> 0 < snd v \<and> snd v \<le> mx \<and>
    k + 1 = fst v + of_nat (unat (snd v))"
proof (cases item)
  case None
  moreover have "1 \<le> mx"
    using assms(2) by (simp add: word_le_nat_alt word_less_nat_alt Suc_le_eq)
  ultimately show ?thesis
    using assms(1) by (simp add: group_numbers_def)
next
  case (Some u)
  then have c: "0 < snd u" "snd u < mx" "k = fst u + of_nat (unat (snd u))" and v: "v = (fst u, snd u + 1)"
    using assms(1,3) by auto
  note one = unat_Suc_u32 [OF c(2)]
  have "0 < snd u + 1" "snd u + 1 \<le> mx"
    using c(2) one by (simp_all add: word_less_nat_alt word_le_nat_alt)
  then show ?thesis
    unfolding v using Some c one group_numbers_extend [OF c(2), of "fst u"] by (simp add: add.assoc add.commute)
qed

lemma seen_loop_groups:
  assumes "successive (map fst p)" "0 < mx"
    "\<And>v. item = Some v \<Longrightarrow> 0 < snd v \<and> snd v < mx \<and> (p \<noteq> [] \<longrightarrow> fst (hd p) = fst v + of_nat (unat (snd v)))"
  shows "concat (map group_numbers (seen_loop mx p item)) = (case item of Some v \<Rightarrow> group_numbers v | None \<Rightarrow> []) @ seen_numbers p \<and>
    (\<forall>(_, c)\<in>set (seen_loop mx p item). 0 < c \<and> c \<le> mx)"
  using assms(1,3)
proof (induction p arbitrary: item)
  case Nil
  then show ?case
    by (cases item) (auto simp: seen_numbers_def)
next
  case (Cons x p)
  obtain k i where x: "x = (k, i)"
    by (cases x)
  have succ: "successive (map fst p)" "p \<noteq> [] \<Longrightarrow> fst (hd p) = k + 1"
    using Cons.prems(1) x by (cases p; auto)+
  show ?case
  proof (cases "pbi_state i = Seen")
    case False
    have none: "concat (map group_numbers (seen_loop mx p None)) = seen_numbers p \<and> (\<forall>(_, c)\<in>set (seen_loop mx p None). 0 < c \<and> c \<le> mx)"
      using Cons.IH [OF succ(1), of None] by simp
    show ?thesis
      using none Cons.prems(2) False x by (cases item; cases "pbi_state i") (auto simp: seen_numbers_def)
  next
    case True
    let ?v = "case item of None \<Rightarrow> (k, 1) | Some v \<Rightarrow> (fst v, snd v + 1)"
    have v: "group_numbers ?v = (case item of Some v \<Rightarrow> group_numbers v | None \<Rightarrow> []) @ [k]" "0 < snd ?v" "snd ?v \<le> mx"
        "k + 1 = fst ?v + of_nat (unat (snd ?v))"
      using grow_group [OF refl assms(2), of item k] Cons.prems(2) x by simp_all
    have out: "seen_loop mx (x # p) item = (if mx \<le> snd ?v then ?v # seen_loop mx p None else seen_loop mx p (Some ?v))"
      using True x by (simp add: Let_def)
    show ?thesis
    proof (cases "mx \<le> snd ?v")
      case flush: True
      then show ?thesis
        unfolding out using Cons.IH [OF succ(1), of None] v True x by (auto simp: seen_numbers_def)
    next
      case False
      have "concat (map group_numbers (seen_loop mx p (Some ?v))) = group_numbers ?v @ seen_numbers p \<and>
          (\<forall>(_, c)\<in>set (seen_loop mx p (Some ?v)). 0 < c \<and> c \<le> mx)"
        using Cons.IH [OF succ(1), of "Some ?v"] v False succ(2) by auto
      then show ?thesis
        unfolding out using v False True x by (auto simp: seen_numbers_def)
    qed
  qed
qed

text \<open>A group starts with a block that was seen.\<close>

lemma seen_loop_starts: "(a, c) \<in> set (seen_loop mx p item) \<Longrightarrow> a \<in> fst ` set p \<or> (\<exists>v. item = Some v \<and> a = fst v)"
proof (induction p arbitrary: item)
  case (Cons x p)
  obtain k i where x: "x = (k, i)"
    by (cases x)
  have IH: "(a, c) \<in> set (seen_loop mx p it) \<Longrightarrow> a \<in> fst ` set p \<or> (\<exists>v. it = Some v \<and> a = fst v)" for it
    by (rule Cons.IH)
  show ?case
    using Cons.prems IH [of None] IH [of "Some (k, 1)"] IH [of "Some (fst (the item), snd (the item) + 1)"]
    unfolding x by (cases item; cases "pbi_state i") (auto simp: Let_def split: if_splits)
qed (simp split: option.splits)

section \<open>The first pending block\<close>

text \<open>The entry that the pending blocks start with stays the first one, whatever is requested behind it.\<close>

definition headed :: "block_number \<times> pending_block_info \<Rightarrow> (block_number, pending_block_info) bmap \<Rightarrow> bool" where
  "headed e p \<longleftrightarrow> bm_wf p \<and> (\<exists>rest. p = e # rest)"

lemma headed_insert: "headed e p \<Longrightarrow> fst e < k \<Longrightarrow> headed e (bm_insert k v p)"
  using bm_wf_insert [of p k v] by (cases e) (auto simp: headed_def)

lemma headed_remove: "headed e p \<Longrightarrow> fst e \<noteq> k \<Longrightarrow> headed e (bm_remove k p)"
  using bm_wf_remove [of p k] by (cases e) (auto simp: headed_def bm_remove_def bm_without_def)

lemma headed_set_pending: "headed e p \<Longrightarrow> fst e < k \<Longrightarrow> headed e (set_pending st k p)"
  by (simp add: set_pending_def headed_insert)

lemma headed_fold: "(\<And>k p. k \<in> set ks \<Longrightarrow> headed e p \<Longrightarrow> headed e (f k p)) \<Longrightarrow> headed e p \<Longrightarrow> headed e (fold f ks p)"
  by (induction ks arbitrary: p) simp_all

lemma headed_before: "headed e p \<Longrightarrow> k < fst e \<Longrightarrow> bm_get p k = None"
  by (force simp: headed_def bm_wf_def bm_get_def map_of_eq_None_iff)

lemma u64_range_ge: "k \<in> set (u64_range a b) \<Longrightarrow> a \<le> k"
  using unsigned_less [of b, where 'a = nat] by (auto simp: u64_range_def word_le_nat_alt unat_of_nat)

lemma u64_upto_ge: "k \<in> set (u64_upto a b) \<Longrightarrow> a \<le> k"
  using unsigned_less [of b, where 'a = nat] by (auto simp: u64_upto_def word_le_nat_alt unat_of_nat)

lemma max_peer_number_ge: "peer \<in> set ps \<Longrightarrow> \<exists>n. max_peer_number ps = Some n \<and> spi_confirmed_number (snd peer) \<le> n"
proof -
  have le: "x \<le> fold max xs x" "y \<in> set xs \<Longrightarrow> y \<le> fold max xs x" for xs and x y :: u64
    by (induction xs arbitrary: x) (auto intro: order_trans [OF max.cobounded1] order_trans [OF max.cobounded2])
  assume "peer \<in> set ps"
  then have "spi_confirmed_number (snd peer) \<in> set (map (spi_confirmed_number \<circ> snd) ps)"
    by simp
  then show ?thesis
    using le unfolding max_peer_number_def by (cases "map (spi_confirmed_number \<circ> snd) ps") auto
qed

lemma keeps_headed_request:
  assumes "fst e < fst item"
  shows "keeps (\<lambda>s. headed e (cy_pending s)) (request_group w item)"
proof -
  have "fst e < k" if "k \<in> set (u64_range (fst item) b)" for k b
    using assms u64_range_ge [OF that] by (rule order.strict_trans2)
  then have "headed e p \<Longrightarrow> headed e (fold (set_pending st) (u64_range (fst item) b) p)" for p st b
    by (intro headed_fold headed_set_pending)
  then show ?thesis
    by (auto simp: request_group_def keeps_def bind_apply sync_next_request_id_def network_send_message_def case_prod_beta split: option.splits)
qed

lemma maintain_seen_headed:
  assumes "headed e (cy_pending s)" "pbi_state (snd e) = Downloaded peer data"
  shows "headed e (cy_pending (snd (maintain_seen w s)))"
proof -
  obtain rest where p: "cy_pending s = e # rest" "bm_wf (e # rest)"
    using assms(1) by (auto simp: headed_def)
  have "make_seen_groups (cy_pending s) mx = seen_loop mx rest None" for mx
    using assms(2) p(1) by (cases e) (simp add: make_seen_groups_def)
  then have "fst e < fst item" if "item \<in> set (make_seen_groups (cy_pending s) PEER_REQUEST_BLOCK_SIZE)" for item
    using seen_loop_starts [of "fst item" "snd item" PEER_REQUEST_BLOCK_SIZE rest None] that p(2) by (auto simp: bm_wf_def)
  then have "keeps (\<lambda>s. headed e (cy_pending s)) (for_each (request_group w) (make_seen_groups (cy_pending s) PEER_REQUEST_BLOCK_SIZE))"
    by (intro keeps_for_each keeps_headed_request)
  then show ?thesis
    using assms(1) by (simp add: maintain_seen_def bind_apply keeps_def)
qed

lemma word_plus_one_le: "(m :: u64) + 1 \<noteq> 0 \<Longrightarrow> m + 1 \<le> k \<Longrightarrow> m < k"
  using unatSuc [of m] by (simp add: word_le_nat_alt word_less_nat_alt add.commute)

lemma room_bounds:
  assumes "(m :: u64) \<le> m + 2560" "n \<le> 2560"
  shows "m + 1 \<noteq> 0" "m \<le> m + 2560 - of_nat n"
proof -
  have small: "unat m + 2560 < 2 ^ 64"
    using assms(1) no_olen_add_nat [of m 2560] by simp
  then have "m \<noteq> - 1"
    by (auto simp: unsigned_minus_1_eq_mask mask_eq_exp_minus_1)
  then show "m + 1 \<noteq> 0"
    by (simp add: eq_neg_iff_add_eq_0)
  obtain d where d: "2560 = n + d"
    using assms(2) le_Suc_ex by blast
  then have "of_nat 2560 = (of_nat n + of_nat d :: u64)"
    by (metis of_nat_add)
  then have "m + 2560 - of_nat n = m + of_nat d"
    by (simp add: diff_eq_eq add.commute)
  also have "m \<le> \<dots>"
    using small d by (subst no_olen_add_nat) (simp add: unat_of_nat)
  finally show "m \<le> m + 2560 - of_nat n" .
qed

lemma maintain_new_headed:
  assumes "headed e (cy_pending s)" "length (cy_pending s) \<le> unat PENDING_BLOCKS_SIZE"
    and peer: "peer \<in> set (cy_peers s)" "fst e \<le> spi_confirmed_number (snd peer)"
    and room: "fst (last (cy_pending s)) \<le> fst (last (cy_pending s)) + ucast PENDING_BLOCKS_SIZE"
  shows "headed e (cy_pending (snd (maintain_new s)))"
proof -
  obtain rest where p: "cy_pending s = e # rest" "bm_wf (e # rest)"
    using assms(1) by (auto simp: headed_def)
  define m where "m = fst (last (cy_pending s))"
  obtain mp where mp: "max_peer_number (cy_peers s) = Some mp" "fst e \<le> mp"
    using max_peer_number_ge [OF peer(1)] peer(2) order_trans by blast
  let ?c = "min mp (m + 2560 - of_nat (length (cy_pending s)))"
  have m: "max_pending_number s = Ok m"
    using p(1) by (simp add: max_pending_number_def bm_last_key_def m_def)
  have "m = fst e \<or> fst e < m"
    using p(2) by (cases "rest = []") (auto simp: m_def p(1) bm_wf_def)
  then have em: "fst e \<le> m"
    by auto
  note b = room_bounds [of m "length (cy_pending s)"]
  have bounds: "m + 1 \<noteq> 0" "fst e \<le> ?c"
    using b room assms(2) mp(2) em by (auto simp: m_def PENDING_BLOCKS_SIZE_eq intro: order_trans)
  have "fst e < k" if "k \<in> set (u64_upto (m + 1) ?c)" for k
    using word_plus_one_le [OF bounds(1) u64_upto_ge [OF that]] em by (rule order.strict_trans1 [rotated])
  then have append: "headed e (fold (\<lambda>n. bm_insert n v) (u64_upto (m + 1) ?c) (cy_pending s))" for v
    using assms(1) by (intro headed_fold headed_insert)
  have "fst e \<noteq> k" if "k \<in> set (u64_upto (?c + 1) m)" "\<not> m + 1 \<le> ?c" for k
  proof -
    have "?c + 1 \<noteq> 0"
      using that(2) by (metis add_eq_0_iff2 word_order.extremum not_le)
    then show ?thesis
      using word_plus_one_le [OF _ u64_upto_ge [OF that(1)]] bounds(2) by (metis leD)
  qed
  then have drop: "headed e (fold bm_remove (u64_upto (?c + 1) m) (cy_pending s))" if "\<not> m + 1 \<le> ?c"
    using assms(1) that by (intro headed_fold headed_remove)
  show ?thesis
    using assms(1) append drop mp(1) m
    by (cases "latency s") (simp_all add: maintain_new_def bind_apply Let_def notify_frame PENDING_BLOCKS_SIZE_eq)
qed

text \<open>Requesting blocks does not fail once there is a current state, and reports no peer.\<close>

definition quiet_since :: "('d, 'kp, 'ver, 'l) chain_sync \<Rightarrow> ('d, 'kp, 'ver, 'l) chain_sync \<Rightarrow> bool" where
  "quiet_since s0 s \<longleftrightarrow> cy_to_pm s = cy_to_pm s0 \<and> cy_support s = cy_support s0"

lemma request_group_quiet: "fst (request_group w item s) = Ok ()" "keeps (quiet_since s0) (request_group w item)"
  by (auto simp: request_group_def keeps_def bind_apply sync_next_request_id_def network_send_message_def case_prod_beta quiet_since_def
      split: option.splits)

lemma for_each_Ok: "(\<And>x s. fst (f x s) = Ok ()) \<Longrightarrow> fst (for_each f xs s) = Ok ()"
proof (induction xs arbitrary: s)
  case (Cons x xs)
  obtain s' where "f x s = (Ok (), s')"
    using Cons.prems by (metis prod.collapse)
  then show ?case
    using Cons by (simp add: bind_apply)
qed simp

lemma maintain_seen_quiet: "fst (maintain_seen w s) = Ok ()" "keeps (quiet_since s0) (maintain_seen w)"
  using for_each_Ok [of "request_group w", OF request_group_quiet(1)]
  by (simp add: maintain_seen_def bind_apply) (unfold maintain_seen_def, intro keeps_rules request_group_quiet(2))

lemma notify_latency_quiet:
  "bk_current_state (cy_backend s) = Some cur \<Longrightarrow> fst (notify_latency l s) = Ok ()" "keeps (quiet_since s0) (notify_latency l)"
  by (auto simp: notify_latency_def latency_def max_pending_number_def get_current_state_def bind_apply consensus_send_message_def keeps_def
      quiet_since_def split: option.splits result.splits)

lemma latency_Ok: "bk_current_state (cy_backend s) = Some cur \<Longrightarrow> \<exists>n l. max_pending_number s = Ok n \<and> latency s = Ok l"
  by (auto simp: latency_def max_pending_number_def get_current_state_def split: option.splits)

lemma maintain_new_quiet:
  "bk_current_state (cy_backend s) = Some cur \<Longrightarrow> fst (maintain_new s) = Ok ()" "keeps (quiet_since s0) maintain_new"
proof -
  assume cur: "bk_current_state (cy_backend s) = Some cur"
  have "\<exists>n l. max_pending_number s = Ok n \<and> latency s = Ok l"
    by (rule latency_Ok [OF cur])
  moreover have "fst (notify_latency l (s\<lparr>cy_pending := p\<rparr>)) = Ok ()" for l p
    using cur by (intro notify_latency_quiet) simp
  ultimately show "fst (maintain_new s) = Ok ()"
    by (cases "max_peer_number (cy_peers s)") (auto simp: maintain_new_def bind_apply Let_def)
next
  show "keeps (quiet_since s0) maintain_new"
    unfolding maintain_new_def Let_def by (intro keeps_rules notify_latency_quiet(2)) (simp_all add: quiet_since_def)
qed

lemma maintain_downloaded_stops:
  assumes turn: "downloaded_turn w s = (Ok False, s')" "cy_support s' = cy_support s"
    and cur: "bk_current_state (cy_backend s) = Some cur"
  obtains s1 where "maintain_downloaded w s = (Ok (), s1)" "quiet_since s' s1"
    "\<And>e peer data other. headed e (cy_pending s') \<Longrightarrow> pbi_state (snd e) = Downloaded peer data \<Longrightarrow>
       length (cy_pending s') \<le> unat PENDING_BLOCKS_SIZE \<Longrightarrow> other \<in> set (cy_peers s') \<Longrightarrow> fst e \<le> spi_confirmed_number (snd other) \<Longrightarrow>
       fst (last (cy_pending s')) \<le> fst (last (cy_pending s')) + ucast PENDING_BLOCKS_SIZE \<Longrightarrow> headed e (cy_pending s1)"
proof -
  obtain l where l: "latency s = Ok l"
    using latency_Ok [OF cur] by blast
  have loop: "downloaded_loop w s = (Ok (), s')"
    using turn(1) by (simp add: downloaded_loop.simps)
  obtain sa where a: "notify_latency l s' = (Ok (), sa)"
    using notify_latency_quiet(1) [of s' cur l] cur turn(2) by (metis prod.collapse)
  have qa: "quiet_since s' sa"
    by (rule keepsD [OF notify_latency_quiet(2) _ a]) (simp add: quiet_since_def)
  obtain sb where b: "maintain_new sa = (Ok (), sb)"
    using maintain_new_quiet(1) [of sa cur] qa cur turn(2) by (metis prod.collapse quiet_since_def)
  have qb: "quiet_since s' sb"
    by (rule keepsD [OF maintain_new_quiet(2) qa b])
  obtain s1 where c: "maintain_seen w sb = (Ok (), s1)"
    using maintain_seen_quiet(1) [of w sb] by (metis prod.collapse)
  have quiet: "quiet_since s' s1"
    by (rule keepsD [OF maintain_seen_quiet(2) qb c])
  have run: "maintain_downloaded w s = (Ok (), s1)"
    using l loop a b c by (simp add: maintain_downloaded_def chain_sync_sync_def bind_apply)
  have same: "cy_pending sa = cy_pending s'" "cy_peers sa = cy_peers s'"
    using notify_frame [of l s'] a by simp_all
  have first: "headed e (cy_pending s1)" if "headed e (cy_pending sa)" "pbi_state (snd e) = Downloaded peer data"
    "length (cy_pending sa) \<le> unat PENDING_BLOCKS_SIZE" "other \<in> set (cy_peers sa)" "fst e \<le> spi_confirmed_number (snd other)"
    "fst (last (cy_pending sa)) \<le> fst (last (cy_pending sa)) + ucast PENDING_BLOCKS_SIZE" for e peer data other
    using maintain_seen_headed [OF _ that(2), of sb w] maintain_new_headed [OF that(1,3-6)] b c by simp
  show thesis
    by (rule that [OF run quiet first [unfolded same]])
qed

section \<open>An example\<close>

text \<open>A node with the genesis block, under proof of authority; the codec of messages knows the handshake of a node with one block more.\<close>

definition ex_sync_codec :: "hash \<Rightarrow> protocol_message codec" where
  "ex_sync_codec genesis = \<lparr> enc = (\<lambda>_. [1]), dec = (\<lambda>_. Some (HandshakeMessage \<lparr> hsk_genesis_hash = genesis, hsk_confirmed_number = 1,
     hsk_confirmed_hash = Hash [1], hsk_nonce = 9 \<rparr>)) \<rparr>"

definition ex_lru :: "hash list lru" where
  "ex_lru = \<lparr> lru_new = (\<lambda>_. []), lru_put = (\<lambda>h l. (h \<in> set l, h # l)) \<rparr>"

definition ex_world :: "current_state \<Rightarrow> (mem_db, unit, bytes, bytes, hash list) sync_world" where
  "ex_world cur = \<lparr> sw_lib = ex_chain_lib null_trie, sw_verify_proof = poa_verify_proof (ex_chain_lib null_trie) ex_poa_lib,
     sw_now = Some 5, sw_message = ex_sync_codec (cur_genesis_hash cur), sw_lru = ex_lru \<rparr>"

definition ex_current :: "current_state \<Rightarrow> (mem_db, bytes, bytes) backend" where
  "ex_current cur = (ex_chain0 null_trie)\<lparr>bk_current_state := Some cur\<rparr>"

definition ex_sync_support :: "current_state \<Rightarrow> (mem_db, bytes, bytes) support" where
  "ex_sync_support cur = \<lparr> sup_chain = \<lparr> ch_backend = ex_current cur, ch_tasks = [], ch_task_open = True \<rparr>, sup_txpool = txpool_new 10 \<rparr>"

text \<open>A block without transactions, with the proof of the authority.\<close>

definition ex_data :: "hash \<Rightarrow> header \<Rightarrow> block_data" where
  "ex_data h hdr = \<lparr> bda_number = hdr_number hdr, bda_block_hash = h, bda_header = Some hdr,
     bda_body = Some \<lparr> bd_meta_txs = [], bd_payload_txs = [] \<rparr>,
     bda_proof = Some \<lparr> pf_name = CONSENSUS_POA, pf_data = enc (poal_proof ex_poa_lib) \<lparr> poap_public_key = PublicKey [7],
       poap_signature = Signature [] \<rparr> \<rparr> \<rparr>"

lemma built_header: "build_block lib p b = Ok cp \<Longrightarrow> hdr_timestamp (cb_header cp) = bb_timestamp p \<and>
    hdr_payload_execution_gap (cb_header cp) = ucast (bb_number p - bb_execution_number p)"
  by (auto simp: build_block_def seal_block_def Let_def and_then_eq_Ok case_prod_unfold)

lemma ex_data_verifies:
  assumes e: "cur_confirmed_number cur = 0" "cur_executed_number cur = 0" "cur_system_meta cur = ex_meta"
    and conf: "confirmed_block (CoordinatorError \<circ> CoordinatorData) lib (ex_current cur) = Ok (0, Hash [0], ex_header 0 zero_hash)"
    and key: "vp (cb_header cp) (the (bda_proof (ex_data h (cb_header cp)))) (ex_current cur) = Ok ()"
    and body: "coordinator_verify_body lib body (ex_current cur) = Ok (m, [])"
    and b: "build_block lib (ex_build\<lparr>bb_meta_txs := m\<rparr>) (ex_current cur) = Ok cp" "get_header lib h (ex_current cur) = Ok None"
    and cp: "hdr_number (cb_header cp) = 1" "hdr_parent_hash (cb_header cp) = Hash [0]"
  shows "verify_block lib vp ((ex_data h (cb_header cp))\<lparr>bda_body := Some body\<rparr>) (ex_current cur) =
    Ok (cp\<lparr>cb_proof := the (bda_proof (ex_data h (cb_header cp)))\<rparr>)"
proof -
  have gap: "hdr_payload_execution_gap (cb_header cp) = 1" "hdr_timestamp (cb_header cp) = 4"
    using built_header [OF b(1)] by (simp_all add: ex_build_def)
  have "coordinator_verify_execution (cb_header cp) (ex_header 0 zero_hash) (ex_current cur) = Ok ()"
    using e gap cp(1) by (simp add: coordinator_verify_execution_def verify_gap_def get_current_state_def ex_current_def ex_meta_def ex_header_def)
  moreover have "coordinator_verify_header lib (cb_header cp) pf m [] (ex_current cur) = Ok (cp\<lparr>cb_proof := pf\<rparr>)" for pf
    using b(1) gap cp(1) by (simp add: coordinator_verify_header_def ex_build_def)
  ultimately show ?thesis
    using key conf body b(2) cp
    by (simp add: verify_block_def ex_data_def coordinator_verify_not_repeat_def verify_not_repeat_def coordinator_verify_best_def
        coordinator_verify_proof_def)
qed

text \<open>A block that was built on the genesis block is received and committed.\<close>

lemma ex_received_with:
  assumes e: "cur_confirmed_number cur = 0" "cur_executed_number cur = 0" "cur_system_meta cur = ex_meta"
      "cur_confirmed_block_hash cur = Hash [0]"
    and b: "build_block (ex_chain_lib null_trie) (ex_build\<lparr>bb_meta_txs := m\<rparr>) (ex_current cur) = Ok cp" "cb_block_hash cp \<noteq> Hash [0]"
      "get_header (ex_chain_lib null_trie) (Hash [0]) (ex_current cur) = Ok (Some (ex_header 0 zero_hash))"
      "get_header (ex_chain_lib null_trie) (cb_block_hash cp) (ex_current cur) = Ok None"
    and cp: "hdr_meta_state_root (cb_header cp) = ones_hash" "only_col META_STATE (cb_meta_transaction cp)"
      "hdr_number (cb_header cp) = 1" "hdr_parent_hash (cb_header cp) = Hash [0]"
    and body: "coordinator_verify_body (ex_chain_lib null_trie) body (ex_current cur) = Ok (m, [])"
  obtains b' where "verify_block (ex_chain_lib null_trie) (poa_verify_proof (ex_chain_lib null_trie) ex_poa_lib)
      ((ex_data (cb_block_hash cp) (cb_header cp))\<lparr>bda_body := Some body\<rparr>) (ex_current cur) =
        Ok (cp\<lparr>cb_proof := the (bda_proof (ex_data (cb_block_hash cp) (cb_header cp)))\<rparr>)"
    "backend_commit_block (ex_chain_lib null_trie) (Some 5) (cp\<lparr>cb_proof := the (bda_proof (ex_data (cb_block_hash cp) (cb_header cp)))\<rparr>)
      (ex_current cur) = (Ok (), b')"
    "confirmed_block (CoordinatorError \<circ> CoordinatorData) (ex_chain_lib null_trie) (ex_current cur) = Ok (0, Hash [0], ex_header 0 zero_hash)"
    "get_confirmed_number (ex_chain_lib null_trie) (ex_current cur) = Ok (Some 0)"
proof -
  let ?lib = "ex_chain_lib null_trie" and ?b = "ex_current cur"
  have n: "notified (ex_chain0 null_trie) ?b"
    by (simp add: ex_current_def notified_def same_setup_def)
  note f = ex_chain0_facts [where tries = null_trie]
  have su: "ex_setup ?b"
    using f(2) by (simp add: ex_current_def ex_setup_def same_setup_def)
  have au: "get_poa_authority ?lib ex_poa_lib 0 ?b = Ok (Address [7])"
    unfolding get_poa_authority_def
    by (rule ex_consensus_call [where h = "Hash [0]" and hdr = "ex_header 0 zero_hash" and x = "ce_execution ex_genesis_execution"])
      (use f su opens_zero in \<open>simp_all add: read_notified [OF n] ex_poa_lib_def ex_fixed_calls\<close>)
  have key: "poa_verify_proof ?lib ex_poa_lib (cb_header cp) (the (bda_proof (ex_data h (cb_header cp)))) ?b = Ok ()" for h
    using poa_proof_signature_ignored [OF ex_poa_proof_ok, where lib = ?lib and header = "cb_header cp" and b = ?b and a = "Address [7]" and pk = "PublicKey [7]"]
      au su cp(3) by (simp add: ex_data_def ex_setup_def same_setup_def ex_backend_def executor_new_def)
  have conf: "confirmed_block (CoordinatorError \<circ> CoordinatorData) ?lib ?b = Ok (0, Hash [0], ex_header 0 zero_hash)"
    using e b(3) by (simp add: confirmed_block_def get_current_state_def ex_current_def)
  let ?cp = "cp\<lparr>cb_proof := the (bda_proof (ex_data (cb_block_hash cp) (cb_header cp)))\<rparr>"
  have v: "verify_block ?lib (poa_verify_proof ?lib ex_poa_lib) ((ex_data (cb_block_hash cp) (cb_header cp))\<lparr>bda_body := Some body\<rparr>) ?b = Ok ?cp"
    using e conf key body b(1,4) cp(3,4) by (intro ex_data_verifies)
  have o: "opens ?lib b (hdr_meta_state_root (cb_header ?cp)) zero_hash" if "ex_setup b" for b
    using opens_null [OF that] by (simp add: cp ones_hash_def zero_hash_def)
  obtain b' where b': "backend_commit_block ?lib (Some 5) ?cp ?b = (Ok (), b')"
    using ex_commit_first_on [OF n, where p = ?cp] cp b(2) o ex_chain0_open [of null_trie] by (auto simp: ex_current_def)
  show thesis
    using that [OF v b'] conf f(3) by (simp add: read_notified [OF n])
qed

lemma ex_received:
  obtains cur h hdr cp b' where "chain_ok (ex_chain_lib null_trie) (ex_current cur)"
    "verify_block (ex_chain_lib null_trie) (poa_verify_proof (ex_chain_lib null_trie) ex_poa_lib) (ex_data h hdr) (ex_current cur) = Ok cp"
    "backend_commit_block (ex_chain_lib null_trie) (Some 5) cp (ex_current cur) = (Ok (), b')"
    "cb_header cp = hdr" "hdr_number hdr = 1" "cb_meta_txs cp = []" "cb_payload_txs cp = []"
    "confirmed_block (CoordinatorError \<circ> CoordinatorData) (ex_chain_lib null_trie) (ex_current cur) = Ok (0, Hash [0], ex_header 0 zero_hash)"
    "get_confirmed_number (ex_chain_lib null_trie) (ex_current cur) = Ok (Some 0)"
    "get_header (ex_chain_lib null_trie) h (ex_current cur) = Ok None" "cur_confirmed_number cur = 0"
proof -
  let ?lib = "ex_chain_lib null_trie"
  obtain cur cp where e: "cur_confirmed_number cur = 0" "cur_executed_number cur = 0" "cur_system_meta cur = ex_meta"
      "cur_confirmed_block_hash cur = Hash [0]"
    and b: "build_block ?lib ex_build (ex_current cur) = Ok cp" "cb_block_hash cp \<noteq> Hash [0]"
      "get_header ?lib (Hash [0]) (ex_current cur) = Ok (Some (ex_header 0 zero_hash))" "get_header ?lib (cb_block_hash cp) (ex_current cur) = Ok None"
    and cp: "hdr_meta_state_root (cb_header cp) = ones_hash" "only_col META_STATE (cb_meta_transaction cp)"
      "hdr_number (cb_header cp) = 1" "hdr_parent_hash (cb_header cp) = Hash [0]"
    and ok: "chain_ok ?lib (ex_current cur)"
    using ex_chain_current unfolding ex_current_def by (auto simp: Let_def)
  have build: "build_block ?lib (ex_build\<lparr>bb_meta_txs := []\<rparr>) (ex_current cur) = Ok cp"
    using b(1) by (simp add: ex_build_def)
  have body: "coordinator_verify_body ?lib \<lparr> bd_meta_txs = [], bd_payload_txs = [] \<rparr> (ex_current cur) = Ok ([], [])"
    by (simp add: coordinator_verify_body_def verify_body_def)
  have same: "(ex_data h hdr)\<lparr>bda_body := Some \<lparr> bd_meta_txs = [], bd_payload_txs = [] \<rparr>\<rparr> = ex_data h hdr" for h hdr
    by (simp add: ex_data_def)
  have txs: "cb_meta_txs cp = []" "cb_payload_txs cp = []"
    using built_txs(1,2) [OF fixed_system_well_behaved b(1)] by (simp_all add: ex_build_def)
  show thesis
    by (rule ex_received_with [OF e build b(2-4) cp body]) (use that [OF ok] txs cp(3) b(4) e(1) same in simp)
qed

lemma ex_received_tx:
  obtains cur data cp b' where "chain_ok (ex_chain_lib null_trie) (ex_current cur)"
    "verify_block (ex_chain_lib null_trie) (poa_verify_proof (ex_chain_lib null_trie) ex_poa_lib) data (ex_current cur) = Ok cp"
    "backend_commit_block (ex_chain_lib null_trie) (Some 5) cp (ex_current cur) = (Ok (), b')"
    "hdr_number (cb_header cp) = 1" "cb_meta_txs cp = [ex_ftx]" "cb_payload_txs cp = []"
    "bda_body data = Some \<lparr> bd_meta_txs = [ex_tx], bd_payload_txs = [] \<rparr>"
proof -
  let ?lib = "ex_chain_lib null_trie"
  obtain cur cp where e: "cur_confirmed_number cur = 0" "cur_executed_number cur = 0" "cur_system_meta cur = ex_meta"
      "cur_confirmed_block_hash cur = Hash [0]"
    and b: "build_block ?lib ex_build_tx (ex_current cur) = Ok cp" "cb_block_hash cp \<noteq> Hash [0]"
      "get_header ?lib (Hash [0]) (ex_current cur) = Ok (Some (ex_header 0 zero_hash))" "get_header ?lib (cb_block_hash cp) (ex_current cur) = Ok None"
    and cp: "hdr_meta_state_root (cb_header cp) = ones_hash" "cb_meta_transaction cp = []"
      "hdr_number (cb_header cp) = 1" "hdr_parent_hash (cb_header cp) = Hash [0]"
    and ok: "chain_ok ?lib (ex_current cur)"
    and tx: "hash_transaction (bk_executor (ex_current cur)) (cc_exec (cl_codecs ?lib)) ex_tx = Ok (ftx_hash ex_ftx)"
      "backend_validate_transaction ?lib (ftx_hash ex_ftx) ex_tx True (ex_current cur) = Ok ()"
    using ex_chain_current_tx unfolding ex_current_def by (auto simp: Let_def)
  have ftx: "\<lparr> ftx_tx = ex_tx, ftx_hash = ftx_hash ex_ftx \<rparr> = ex_ftx" "ftx_tx ex_ftx = ex_tx"
    by (simp_all add: ex_ftx_def)
  have build: "build_block ?lib (ex_build\<lparr>bb_meta_txs := [ex_ftx]\<rparr>) (ex_current cur) = Ok cp"
    using b(1) by (simp add: ex_build_tx_def)
  have body: "coordinator_verify_body ?lib \<lparr> bd_meta_txs = [ex_tx], bd_payload_txs = [] \<rparr> (ex_current cur) = Ok ([ex_ftx], [])"
    using tx ftx(1) by (simp add: coordinator_verify_body_def verify_body_def verify_transaction_def)
  have txs: "cb_meta_txs cp = [ex_ftx]" "cb_payload_txs cp = []"
    using built_txs(1,2) [OF fixed_system_well_behaved b(1)] ex_ftx_meta [of null_trie]
    by (simp_all add: ex_build_tx_def ex_build_def is_meta_tx_def is_meta_call_def ftx)
  have col: "only_col META_STATE (cb_meta_transaction cp)"
    using cp(2) by (simp add: only_col_def)
  show thesis
    by (rule ex_received_with [OF e build b(2-4) cp(1) col cp(3,4) body]) (erule that [OF ok]; use txs cp(3) in simp)
qed

section \<open>Properties\<close>

text \<open>C26: a block that was received, verified and committed, whose meta transactions are calls of meta modules, is served on as it was
  received: a request for its number with all fields is answered with its header, its transactions and its proof, and a node that is
  where this one was accepts the answer with the same result. No two different transactions of the block have the same hash.
  (The verification does not look at the modules of the meta transactions; one that does not call a meta module is lost.)\<close>

theorem synced_block_relayed:
  assumes lib: "chain_lib_ok lib absd" "well_behaved (cl_dispatcher lib)" and b: "chain_ok lib b"
    and v: "verify_block lib vp data b = Ok cp" and commit: "backend_commit_block lib now cp b = (Ok (), b')"
    and txs: "\<forall>x\<in>set (cb_meta_txs cp @ cb_payload_txs cp). \<forall>y\<in>set (cb_meta_txs cp @ cb_payload_txs cp).
        ftx_hash x = ftx_hash y \<longrightarrow> ftx_tx x = ftx_tx y"
    and meta: "\<forall>body tx. bda_body data = Some body \<longrightarrow> tx \<in> set (bd_meta_txs body) \<longrightarrow>
        is_meta_call (cl_dispatcher lib) (tx_call tx) = Ok True"
  shows "\<exists>data'. load_block lib (FIELDS_HEADER OR FIELDS_BODY OR FIELDS_PROOF) (BlockNumberId (hdr_number (cb_header cp))) b' = Ok data' \<and>
    bda_header data' = bda_header data \<and> bda_body data' = bda_body data \<and> bda_proof data' = bda_proof data \<and>
    bda_block_hash data' = cb_block_hash cp \<and> verify_block lib vp data' b = Ok cp"
  using v
proof (cases rule: verify_block_Ok)
  case (1 hdr body pf n h parent m q cp0)
  have body: "map ftx_tx m = bd_meta_txs body" "map ftx_tx q = bd_payload_txs body"
    using coordinator_verify_body_txs [OF 1(9)] by auto
  have "is_meta_tx lib tx" if "tx \<in> set m" for tx
  proof -
    have "ftx_tx tx \<in> set (bd_meta_txs body)"
      using that by (simp flip: body(1))
    then show ?thesis
      using meta 1(2) by (simp add: is_meta_tx_def is_meta_call_def)
  qed
  then have built: "cb_meta_txs cp = m" "cb_payload_txs cp = q"
      "cb_body cp = \<lparr> body_meta_txs = map ftx_hash m, body_payload_txs = map ftx_hash q \<rparr>"
    using built_txs [OF lib(2) 1(10)] 1(12) by auto
  have col: "only_col META_STATE (cb_meta_transaction cp)"
    using built_only_col [OF lib(2) b 1(10)] 1(12) by simp
  obtain add: "get_header lib (cb_block_hash cp) b = Ok None" "block_added lib cp b b'" "block_stored lib absd cp b b'"
    by (rule backend_commit_block_cases [OF lib(1) col commit]) auto
  let ?data = "data\<lparr>bda_number := hdr_number hdr, bda_block_hash := cb_block_hash cp\<rparr>"
  have hdr: "cb_header cp = hdr" "cb_proof cp = pf"
    using 1(11,12) by simp_all
  have "load_block lib (FIELDS_HEADER OR FIELDS_BODY OR FIELDS_PROOF) (BlockNumberId (hdr_number (cb_header cp))) b' = Ok ?data"
    using add(2) stored_txs [OF lib(1) add(3) txs, of m] stored_txs [OF lib(1) add(3) txs, of q] 1(1-3) body
    unfolding load_block_def fields_all
    by (simp add: get_block_hash_by_number_def get_header_by_block_hash_def get_body_by_block_hash_def get_proof_by_block_hash_def
        block_added_def hdr built del: map_map)
  moreover have "verify_block lib vp ?data b = Ok cp"
    using verify_block_hash [OF 1(4) add(1)] v by simp
  ultimately show ?thesis
    by (intro exI [of _ ?data]) simp
qed

theorem synced_block_relayed_witness:
  "\<exists>cur data cp b' data'. verify_block (ex_chain_lib null_trie) (poa_verify_proof (ex_chain_lib null_trie) ex_poa_lib) data (ex_current cur) = Ok cp \<and>
    backend_commit_block (ex_chain_lib null_trie) (Some 5) cp (ex_current cur) = (Ok (), b') \<and>
    load_block (ex_chain_lib null_trie) (FIELDS_HEADER OR FIELDS_BODY OR FIELDS_PROOF) (BlockNumberId 1) b' = Ok data' \<and>
    bda_header data' = bda_header data \<and> bda_body data' = Some \<lparr> bd_meta_txs = [ex_tx], bd_payload_txs = [] \<rparr> \<and> bda_proof data' = bda_proof data"
proof -
  obtain cur data cp b' where r: "chain_ok (ex_chain_lib null_trie) (ex_current cur)"
      "verify_block (ex_chain_lib null_trie) (poa_verify_proof (ex_chain_lib null_trie) ex_poa_lib) data (ex_current cur) = Ok cp"
      "backend_commit_block (ex_chain_lib null_trie) (Some 5) cp (ex_current cur) = (Ok (), b')"
      "hdr_number (cb_header cp) = 1" "cb_meta_txs cp = [ex_ftx]" "cb_payload_txs cp = []"
      "bda_body data = Some \<lparr> bd_meta_txs = [ex_tx], bd_payload_txs = [] \<rparr>"
    by (rule ex_received_tx)
  obtain data' where "load_block (ex_chain_lib null_trie) (FIELDS_HEADER OR FIELDS_BODY OR FIELDS_PROOF) (BlockNumberId 1) b' = Ok data'"
      "bda_header data' = bda_header data" "bda_body data' = bda_body data" "bda_proof data' = bda_proof data"
    using synced_block_relayed [OF ex_chain_lib_ok fixed_system_well_behaved r(1-3)] r(4-7) ex_ftx_meta [of null_trie] by auto
  then show ?thesis
    using r(2,3,7) by (intro exI [of _ cur] exI [of _ data] exI [of _ cp] exI [of _ b'] exI [of _ data']) simp
qed

text \<open>C29: the groups that are requested are the blocks that were seen, in order, each in one group, and no group is empty or has more blocks
  than a peer is asked for at once, when the numbers of the pending blocks follow each other.\<close>

theorem seen_groups_cover:
  assumes "successive (map fst pending)" "0 < max_group_size"
  shows "concat (map group_numbers (make_seen_groups pending max_group_size)) = seen_numbers pending \<and>
    (\<forall>(_, c)\<in>set (make_seen_groups pending max_group_size). 0 < c \<and> c \<le> max_group_size)"
  using seen_loop_groups [OF assms, of None] by (simp add: make_seen_groups_def)

text \<open>The pending blocks of the witnesses: one that is downloaded between blocks that were seen.\<close>

definition ex_pending :: "(block_number, pending_block_info) bmap" where
  "ex_pending = [(3, \<lparr> pbi_state = Seen \<rparr>), (4, \<lparr> pbi_state = Seen \<rparr>), (5, \<lparr> pbi_state = Downloading (PeerId [1]) 0 \<rparr>),
     (6, \<lparr> pbi_state = Seen \<rparr>), (7, \<lparr> pbi_state = Seen \<rparr>), (8, \<lparr> pbi_state = Seen \<rparr>)]"

lemma ex_pending_seen:
  "successive (map fst ex_pending)" "seen_numbers ex_pending = [3, 4, 6, 7, 8]"
  "make_seen_groups ex_pending 2 = [(3, 2), (6, 2), (8, 1)]"
  by (simp_all add: ex_pending_def seen_numbers_def make_seen_groups_def word_le_nat_alt)

theorem seen_groups_cover_witness:
  "make_seen_groups ex_pending 2 = [(3, 2), (6, 2), (8, 1)] \<and>
   concat (map group_numbers (make_seen_groups ex_pending 2)) = [3, 4, 6, 7, 8]"
  using conjunct1 [OF seen_groups_cover [OF ex_pending_seen(1), of 2]] by (simp only: ex_pending_seen) simp

text \<open>C27: however peers behave and whatever the rest of the node commits, executes and puts into the pool in between, a coordinator never
  has more than \<open>PENDING_BLOCKS_SIZE\<close> pending blocks; they are in the order of their numbers, and the data that was downloaded for a
  number is that of a block with this number. No peer tells of a block with the greatest number that there is.\<close>

theorem pending_blocks_bounded:
  assumes "coordinator_new supp = Ok s0" "coordinator_run w s0 s"
  shows "length (cy_pending s) \<le> unat PENDING_BLOCKS_SIZE \<and> sorted_wrt (<) (map fst (cy_pending s)) \<and>
    (\<forall>(number, i)\<in>set (cy_pending s). \<forall>peer data. pbi_state i = Downloaded peer (Some data) \<longrightarrow> bda_number data = number)"
proof -
  have "holds (\<lambda>p _. pending_wf p) s0"
    using assms(1) by (auto simp: coordinator_new_def chain_sync_new_def and_then_eq_Ok holds_def small_peers_def pending_wf_def pending_datas_def)
  then have "pending_wf (cy_pending s)"
    using pw.run_keeps [OF assms(2)] by (simp add: holds_def)
  then show ?thesis
    unfolding pending_wf_def bm_wf_def pending_datas_def by blast
qed

text \<open>A run of the example: a peer with one block more connects, and the block is pending.\<close>

definition ex_sync :: "current_state \<Rightarrow> (mem_db, bytes, bytes, hash list) chain_sync" where
  "ex_sync cur = chain_sync_new \<lparr> hb_genesis_hash = cur_genesis_hash cur,
     hb_confirmed = (cur_confirmed_number cur, cur_confirmed_block_hash cur) \<rparr> (ex_sync_support cur)"

definition ex_connected :: "current_state \<Rightarrow> (mem_db, bytes, bytes, hash list) chain_sync" where
  "ex_connected cur = (ex_sync cur)\<lparr>cy_peers := [(PeerId [1], \<lparr> spi_known_blocks = [], spi_known_txs = [], spi_confirmed_number = 1,
     spi_confirmed_hash = Hash [1], spi_nonce = 3, spi_state = Vacant \<rparr>)]\<rparr>"

lemma bind_modify_apply: "bind (modify f) k s = k () (f s)"
  by (simp add: bind_apply)

lemma bind_ask_apply: "bind (ask f) k s = k (f s) s"
  by (simp add: bind_apply)

lemma bind_Ok_apply: "m s = (Ok x, s') \<Longrightarrow> bind m k s = k x s'"
  by (simp add: bind_apply)

lemma log_error_state: "log_error m s = (r, s') \<Longrightarrow> s' = snd (m s)"
  by (auto simp: log_error_def split: prod.splits result.splits common_error.splits)

lemma bm_insert_not_Nil: "bm_insert k v p \<noteq> []"
  by (cases p) (auto split: if_splits)

lemma keeps_pending_request: "keeps (\<lambda>s. cy_pending s \<noteq> []) (request_group w item)"
proof -
  have "p \<noteq> [] \<Longrightarrow> fold (set_pending st) ns p \<noteq> []" for st ns p
    by (induction ns arbitrary: p) (auto simp: set_pending_def bm_insert_not_Nil)
  then show ?thesis
    by (auto simp: request_group_def keeps_def bind_apply sync_next_request_id_def network_send_message_def case_prod_beta split: option.splits)
qed

lemma keeps_pending_propagate: "keeps (\<lambda>s. cy_pending s \<noteq> []) (initial_propagate_txs w peer)"
  unfolding initial_propagate_txs_def propagate_txs_def Let_def case_prod_beta network_send_message_def sync_read_def
  by (intro keeps_rules) simp_all

lemma ex_maintain_new:
  assumes "cur_confirmed_number cur = 0"
  shows "maintain_new (ex_connected cur) = (Ok (), (ex_connected cur)\<lparr>cy_pending := [(1, \<lparr> pbi_state = Seen \<rparr>)], cy_to_consensus := [SyncLatencyUpdated 1]\<rparr>)"
  using assms
  by (simp add: ex_connected_def ex_sync_def chain_sync_new_def ex_sync_support_def ex_current_def get_current_state_def bind_apply
       maintain_new_def max_peer_number_def max_pending_number_def bm_last_key_def latency_def Let_def
       u64_upto_def PENDING_BLOCKS_SIZE_def notify_latency_def consensus_send_message_def word_le_nat_alt)

lemma ex_run:
  assumes "cur_confirmed_number cur = 0"
  obtains s where "coordinator_new (ex_sync_support cur) = Ok (ex_sync cur)" "coordinator_run (ex_world cur) (ex_sync cur) s" "cy_pending s \<noteq> []"
proof -
  let ?w = "(ex_world cur)\<lparr>sw_now := Some 5\<rparr>" and ?ev = "NetworkEvent (ProtocolOpen (PeerId [1]) 3 [1])"
  obtain r s where turn: "coordinator_turn ?w ?ev (ex_sync cur) = (r, s)"
    by fastforce
  have "keeps (\<lambda>s. cy_pending s \<noteq> []) (bind (maintain_seen ?w) (\<lambda>_. bind (initial_propagate_txs ?w (PeerId [1])) (\<lambda>_.
      on_consensus_network_protocol_open (PeerId [1]) 3 9)))" (is "keeps _ ?m")
    unfolding maintain_seen_def on_consensus_network_protocol_open_def consensus_send_message_def
    by (intro keeps_rules keeps_pending_request keeps_pending_propagate) simp
  then have rest: "cy_pending (snd (?m ((ex_connected cur)\<lparr>cy_pending := [(1, \<lparr> pbi_state = Seen \<rparr>)], cy_to_consensus := [SyncLatencyUpdated 1]\<rparr>))) \<noteq> []"
    by (simp add: keeps_def)
  let ?hsk = "\<lparr> hsk_genesis_hash = cur_genesis_hash cur, hsk_confirmed_number = 1, hsk_confirmed_hash = Hash [1], hsk_nonce = 9 \<rparr>"
  have "on_protocol_open ?w (PeerId [1]) 3 [1] (ex_sync cur) =
      bind maintain_new (\<lambda>_. ?m) (ex_connected cur)"
  proof -
    have "accepted_handshake ?w [1] (hb_genesis_hash (cy_handshake (ex_sync cur))) = Some ?hsk"
      by (simp add: accepted_handshake_def ex_world_def ex_sync_codec_def decode_def ex_sync_def chain_sync_new_def)
    moreover have "(ex_sync cur)\<lparr>cy_peers := hm_insert (PeerId [1]) \<lparr> spi_known_blocks = lru_new (sw_lru ?w) (unat PEER_KNOWN_BLOCKS_SIZE),
        spi_known_txs = lru_new (sw_lru ?w) (unat PEER_KNOWN_TXS_SIZE), spi_confirmed_number = 1, spi_confirmed_hash = Hash [1], spi_nonce = 3,
        spi_state = Vacant \<rparr> (cy_peers (ex_sync cur))\<rparr> = ex_connected cur"
      by (simp add: ex_connected_def ex_world_def ex_lru_def ex_sync_def chain_sync_new_def hm_insert_def)
    ultimately show ?thesis
      by (simp add: on_protocol_open_def sync_on_protocol_open_def chain_sync_sync_def bind_assoc bind_modify_apply bind_ask_apply)
  qed
  also have "\<dots> = ?m ((ex_connected cur)\<lparr>cy_pending := [(1, \<lparr> pbi_state = Seen \<rparr>)], cy_to_consensus := [SyncLatencyUpdated 1]\<rparr>)"
    by (simp add: bind_Ok_apply ex_maintain_new [OF assms])
  finally have "cy_pending s \<noteq> []"
    using turn rest by (auto simp: coordinator_turn_def coordinator_on_network_message_def dest!: log_error_state)
  moreover have "coordinator_run (ex_world cur) (ex_sync cur) s"
    by (rule run_turn [OF run_start _ turn]) (simp add: small_event_def ex_world_def ex_sync_codec_def decode_def small_message_def)
  ultimately show thesis
    using that by (simp add: coordinator_new_def ex_sync_def ex_sync_support_def ex_current_def get_current_state_def)
qed

theorem pending_blocks_bounded_witness:
  "\<exists>cur s. coordinator_new (ex_sync_support cur) = Ok (ex_sync cur) \<and> coordinator_run (ex_world cur) (ex_sync cur) s \<and> cy_pending s \<noteq> [] \<and>
     length (cy_pending s) \<le> unat PENDING_BLOCKS_SIZE"
proof -
  obtain cur :: current_state where "cur_confirmed_number cur = 0"
    by (rule ex_received) blast
  then obtain s where r: "coordinator_new (ex_sync_support cur) = Ok (ex_sync cur)" "coordinator_run (ex_world cur) (ex_sync cur) s" "cy_pending s \<noteq> []"
    by (rule ex_run)
  show ?thesis
    using pending_blocks_bounded [OF r(1,2)] r by auto
qed

text \<open>C24: however peers behave and whatever the rest of the node does to the chain in between, the chain of a coordinator stays linked
  and executed up to its executed number, the queued tasks are of its blocks, and no block that was confirmed at the start changes.\<close>

theorem coordinator_keeps_chain:
  assumes "chain_lib_ok (sw_lib w) absd" "well_behaved (cl_dispatcher (sw_lib w))" "coordinator_new supp = Ok s0"
    "sys_ok (sw_lib w) (sup_chain supp)" "coordinator_run w s0 s"
  shows "sys_ok (sw_lib w) (sup_chain (cy_support s)) \<and> extends (sw_lib w) (sup_backend supp) (cy_backend s)"
proof -
  have "holds (chain_kept (sw_lib w) (sup_backend supp)) s0"
    using assms(3,4)
    by (auto simp: coordinator_new_def chain_sync_new_def and_then_eq_Ok holds_def small_peers_def chain_kept_def pending_datas_def)
  then have "chain_kept (sw_lib w) (sup_backend supp) (cy_pending s) (cy_support s)"
    using ck.run_keeps [OF assms(5)] by (simp add: holds_def)
  then show ?thesis
    using assms(1,2) unfolding chain_kept_def by blast
qed

theorem coordinator_keeps_chain_witness:
  "\<exists>cur s. coordinator_new (ex_sync_support cur) = Ok (ex_sync cur) \<and> coordinator_run (ex_world cur) (ex_sync cur) s \<and> cy_pending s \<noteq> [] \<and>
     sys_ok (ex_chain_lib null_trie) (sup_chain (cy_support s))"
proof -
  obtain cur :: current_state where b: "chain_ok (ex_chain_lib null_trie) (ex_current cur)" "cur_confirmed_number cur = 0"
    by (rule ex_received) blast
  then have ok: "sys_ok (sw_lib (ex_world cur)) (sup_chain (ex_sync_support cur))"
    by (simp add: sys_ok_def ex_sync_support_def ex_world_def)
  obtain s where r: "coordinator_new (ex_sync_support cur) = Ok (ex_sync cur)" "coordinator_run (ex_world cur) (ex_sync cur) s" "cy_pending s \<noteq> []"
    by (rule ex_run [OF b(2)])
  have lib: "chain_lib_ok (sw_lib (ex_world cur)) (\<lambda>d. d)" "well_behaved (cl_dispatcher (sw_lib (ex_world cur)))"
    by (simp_all add: ex_world_def)
  show ?thesis
    using coordinator_keeps_chain [OF lib r(1) ok r(2)] r by (auto simp: ex_world_def)
qed

text \<open>C25: what the synchronization commits has been checked: when a turn over the downloaded blocks changes the confirmed number, the
  new confirmed block is the first pending block, it follows the block that was confirmed before, and its header has a proof that the
  consensus accepted on the chain before it.\<close>

theorem synced_block_checked:
  assumes lib: "chain_lib_ok (sw_lib w) absd" "well_behaved (cl_dispatcher (sw_lib w))"
    and b: "chain_ok (sw_lib w) (cy_backend s)"
    and turn: "downloaded_turn w s = (r, s')"
    and new: "get_confirmed_number (sw_lib w) (cy_backend s') \<noteq> get_confirmed_number (sw_lib w) (cy_backend s)"
  shows "\<exists>number info rest peer data hdr pf n h. cy_pending s = (number, info) # rest \<and> pbi_state info = Downloaded peer (Some data) \<and>
    bda_header data = Some hdr \<and> bda_proof data = Some pf \<and> sw_verify_proof w hdr pf (cy_backend s) = Ok () \<and>
    get_confirmed_number (sw_lib w) (cy_backend s) = Ok (Some n) \<and> hdr_number hdr = n + 1 \<and>
    get_block_hash (sw_lib w) n (cy_backend s) = Ok (Some (hdr_parent_hash hdr)) \<and>
    get_confirmed_number (sw_lib w) (cy_backend s') = Ok (Some (n + 1)) \<and> get_block_hash (sw_lib w) (n + 1) (cy_backend s') = Ok (Some h) \<and>
    get_header (sw_lib w) h (cy_backend s') = Ok (Some hdr) \<and> get_proof (sw_lib w) h (cy_backend s') = Ok (Some pf)"
  using turn
proof (cases rule: downloaded_turn_cases)
  case (first number info rest peer data result data_left q s1)
  let ?s = "s\<lparr>cy_pending := bm_remove number (cy_pending s)\<rparr>"
  show ?thesis
  proof (cases result)
    case (Err e)
    then have "cy_support s' = cy_support s"
      using first(4,6) by (auto simp: on_verify_result_def bind_apply)
    then show ?thesis
      using new by simp
  next
    case (Ok cp)
    obtain d where d: "data = Some d" "verify_block (sw_lib w) (sw_verify_proof w) d (cy_backend s) = Ok cp"
      using first(3) Ok by (auto simp: verify_block_taking_def split: option.splits)
    have "sup_chain (cy_support s') = snd (chain_commit_block (sw_lib w) (sw_now w) cp (sup_chain (cy_support s)))"
      using on_verify_result_chain [OF first(4) [unfolded Ok]] first(6) by simp
    then have b': "cy_backend s' = snd (backend_commit_block (sw_lib w) (sw_now w) cp (cy_backend s))"
      by (simp add: chain_commit_block_backend)
    from d(2) show ?thesis
    proof (cases rule: verify_block_Ok)
      case (1 hdr body pf n h parent m q cp0)
      have col: "only_col META_STATE (cb_meta_transaction cp)"
        using built_only_col [OF lib(2) b 1(10)] 1(12) by simp
      obtain n0 where n0: "get_confirmed_number (sw_lib w) (cy_backend s) = Ok (Some n0)"
          "get_block_hash (sw_lib w) n0 (cy_backend s) = Ok (Some (hdr_parent_hash (cb_header cp)))"
          "hdr_number (cb_header cp) = n0 + 1" "block_added (sw_lib w) cp (cy_backend s) (cy_backend s')"
        by (rule backend_commit_block_cases [OF lib(1) col surjective_pairing]) (use new in \<open>auto simp: b'\<close>)
      have hdr: "cb_header cp = hdr" "cb_proof cp = pf"
        using 1(11,12) by simp_all
      show ?thesis
        using first(1,2) d(1) 1(1,3,8) n0 hdr by (auto simp: block_added_def)
    qed
  qed
qed (use new in simp)

theorem synced_block_checked_witness:
  "\<exists>cur s r s' data hdr pf. downloaded_turn (ex_world cur) s = (r, s') \<and> cy_pending s = [(1, \<lparr> pbi_state = Downloaded (PeerId [1]) (Some data) \<rparr>)] \<and>
    bda_header data = Some hdr \<and> bda_proof data = Some pf \<and> poa_verify_proof (ex_chain_lib null_trie) ex_poa_lib hdr pf (cy_backend s) = Ok () \<and>
    get_confirmed_number (ex_chain_lib null_trie) (cy_backend s') = Ok (Some 1)"
proof -
  let ?lib = "ex_chain_lib null_trie"
  obtain cur h hdr cp b' where r: "chain_ok ?lib (ex_current cur)"
      "verify_block ?lib (poa_verify_proof ?lib ex_poa_lib) (ex_data h hdr) (ex_current cur) = Ok cp"
      "backend_commit_block ?lib (Some 5) cp (ex_current cur) = (Ok (), b')" "hdr_number hdr = 1" "cb_header cp = hdr"
      "get_confirmed_number ?lib (ex_current cur) = Ok (Some 0)"
    by (rule ex_received)
  let ?s = "(ex_sync cur)\<lparr>cy_pending := [(1, \<lparr> pbi_state = Downloaded (PeerId [1]) (Some (ex_data h hdr)) \<rparr>)]\<rparr>"
  have sup: "cy_backend ?s = ex_current cur"
    by (simp add: ex_sync_def chain_sync_new_def ex_sync_support_def)
  have col: "only_col META_STATE (cb_meta_transaction cp)"
    using r(2) by (rule verify_block_Ok) (use built_only_col [OF fixed_system_well_behaved r(1)] in auto)
  have n1: "get_confirmed_number ?lib b' = Ok (Some 1)"
    by (rule backend_commit_block_cases [OF ex_chain_lib_ok col r(3)]) (use r(4,5) in \<open>auto simp: block_added_def\<close>)
  obtain q s' where turn: "downloaded_turn (ex_world cur) ?s = (q, s')" "cy_backend s' = b'"
    using downloaded_commits [of ?s 1 "\<lparr> pbi_state = Downloaded (PeerId [1]) (Some (ex_data h hdr)) \<rparr>" "[]" "PeerId [1]" "ex_data h hdr" "ex_world cur" cp]
      r(2,3) sup that [OF surjective_pairing] by (simp add: ex_world_def)
  have new: "get_confirmed_number (sw_lib (ex_world cur)) (cy_backend s') \<noteq> get_confirmed_number (sw_lib (ex_world cur)) (cy_backend ?s)"
    using n1 r(6) sup turn(2) by (simp add: ex_world_def)
  have ok: "chain_lib_ok (sw_lib (ex_world cur)) (\<lambda>d. d)" "well_behaved (cl_dispatcher (sw_lib (ex_world cur)))"
      "chain_ok (sw_lib (ex_world cur)) (cy_backend ?s)"
    using r(1) sup by (simp_all add: ex_world_def)
  obtain pf where "poa_verify_proof ?lib ex_poa_lib hdr pf (cy_backend ?s) = Ok ()" "bda_proof (ex_data h hdr) = Some pf"
    using synced_block_checked [OF ok turn(1) new] by (auto simp: ex_world_def ex_data_def)
  moreover have "bda_header (ex_data h hdr) = Some hdr" "cy_pending ?s = [(1, \<lparr> pbi_state = Downloaded (PeerId [1]) (Some (ex_data h hdr)) \<rparr>)]"
    by (simp_all add: ex_data_def)
  ultimately show ?thesis
    using turn n1 by blast
qed

text \<open>C28: one bad block costs the sender of the block behind it. When the first pending block is refused as bad, its sender is reported, and
  the sync that ends this turn does not make the block pending again: the block behind it, which another peer sent, comes first now.
  The next time the downloaded blocks are looked at, it is refused as well, for it does not follow the confirmed block, and its sender is
  reported for an invalid block. The chain stays as it is. This holds for a block behind that is complete, new to the chain and not the
  next one by its number, while some peer claims a block as high, and as long as the numbers are not about to overflow.\<close>

theorem bad_block_blames_next_sender:
  assumes pending: "cy_pending s = (n, i) # (n', i') # rest" "pending_wf (cy_pending s)"
      "fst (last (cy_pending s)) \<le> fst (last (cy_pending s)) + ucast PENDING_BLOCKS_SIZE"
    and states: "pbi_state i = Downloaded bad (Some data)" "pbi_state i' = Downloaded good (Some data')" "good \<noteq> bad"
    and peer: "(p, info) \<in> set (cy_peers s)" "n' \<le> spi_confirmed_number info"
    and refused: "verify_block (sw_lib w) (sw_verify_proof w) data (cy_backend s) = Err (CoordinatorError (CoordinatorVerify e))"
      "on_verify_err e = Ok VerifyReset"
    and behind: "bda_header data' = Some hdr" "bda_body data' = Some body" "bda_proof data' = Some pf"
      "get_header (sw_lib w) (bda_block_hash data') (cy_backend s) = Ok None"
    and conf: "confirmed_block (CoordinatorError \<circ> CoordinatorData) (sw_lib w) (cy_backend s) = Ok (c, h, parent)" "hdr_number hdr \<noteq> c + 1"
  shows "\<exists>s1 s2 rest'. maintain_downloaded w s = (Ok (), s1) \<and> cy_pending s1 = (n', i') # rest' \<and> bm_get (cy_pending s1) n = None \<and>
    cy_to_pm s1 = cy_to_pm s @ [ReportPeer bad PEER_REPORT_INVALID_BLOCK] \<and>
    maintain_downloaded (w\<lparr>sw_now := t\<rparr>) s1 = (Ok (), s2) \<and> cy_support s2 = cy_support s \<and>
    cy_to_pm s2 = cy_to_pm s @ [ReportPeer bad PEER_REPORT_INVALID_BLOCK, ReportPeer good PEER_REPORT_INVALID_BLOCK]"
proof -
  let ?w = "w\<lparr>sw_now := t\<rparr>"
  let ?s' = "s\<lparr>cy_pending := bm_map (seen_again bad) ((n', i') # rest), cy_to_pm := cy_to_pm s @ [ReportPeer bad PEER_REPORT_INVALID_BLOCK]\<rparr>"
  obtain cur where cur: "bk_current_state (cy_backend s) = Some cur"
    using conf(1) by (auto simp: confirmed_block_def get_current_state_def and_then_eq_Ok split: option.splits)
  have wf: "bm_wf ((n, i) # (n', i') # rest)"
    using pending(1,2) by (simp add: pending_wf_def)
  have one: "downloaded_turn w s = (Ok False, ?s')"
    using downloaded_reset [OF pending(1) _ states(1) refused] wf pending(1) by simp
  have pending': "cy_pending ?s' = (n', i') # bm_map (seen_again bad) rest"
    using states(2,3) by (simp add: bm_map_def seen_again_def)
  have first: "headed (n', i') (cy_pending ?s')"
    unfolding headed_def pending' using wf by (auto simp: bm_wf_def)
  have "fst (last (cy_pending ?s')) = fst (last (cy_pending s))"
    using pending(1) by (simp add: pending' bm_map_def last_map case_prod_beta)
  then have room: "fst (last (cy_pending ?s')) \<le> fst (last (cy_pending ?s')) + ucast PENDING_BLOCKS_SIZE"
    using pending(3) by simp
  have len: "length (cy_pending ?s') \<le> unat PENDING_BLOCKS_SIZE"
    using pending(1,2) by (simp add: pending_wf_def)
  have sup: "cy_support ?s' = cy_support s" and ps: "cy_peers ?s' = cy_peers s"
    by simp_all
  obtain s1 where s1: "maintain_downloaded w s = (Ok (), s1)" "quiet_since ?s' s1" "headed (n', i') (cy_pending s1)"
    by (rule maintain_downloaded_stops [OF one sup cur]) (use first states(2) len peer ps room in \<open>metis fst_conv snd_conv\<close>)
  obtain rest' where rest': "cy_pending s1 = (n', i') # rest'" "bm_wf (cy_pending s1)"
    using s1(3) by (auto simp: headed_def)
  have support: "cy_support s1 = cy_support s"
    using s1(2) by (simp add: quiet_since_def)
  have gap: "verify_block (sw_lib ?w) (sw_verify_proof ?w) data' (cy_backend s1) = Err (CoordinatorError (CoordinatorVerify VeNotBest))"
    using verify_block_gap [OF behind conf] support by simp
  have two: "downloaded_turn ?w s1 = (Ok False, s1\<lparr>cy_pending := bm_map (seen_again good) rest',
      cy_to_pm := cy_to_pm s1 @ [ReportPeer good PEER_REPORT_INVALID_BLOCK]\<rparr>)"
    by (rule downloaded_reset [OF rest' states(2) gap]) simp
  have cur1: "bk_current_state (cy_backend s1) = Some cur"
    using cur support by simp
  obtain s2 where s2: "maintain_downloaded ?w s1 = (Ok (), s2)"
      "quiet_since (s1\<lparr>cy_pending := bm_map (seen_again good) rest', cy_to_pm := cy_to_pm s1 @ [ReportPeer good PEER_REPORT_INVALID_BLOCK]\<rparr>) s2"
    by (rule maintain_downloaded_stops [OF two _ cur1]) simp_all
  have "bm_get (cy_pending s1) n = None"
    using headed_before [OF s1(3), of n] wf by (simp add: bm_wf_def)
  then show ?thesis
    using s1(1,2) s2 rest'(1) support by (intro exI [of _ s1] exI [of _ s2] exI [of _ rest']) (simp add: quiet_since_def)
qed

text \<open>A first block without a header, and a second block of another peer.\<close>

theorem bad_block_blames_next_sender_witness:
  "\<exists>cur s s1 s2. maintain_downloaded (ex_world cur) s = (Ok (), s1) \<and> bm_get (cy_pending s1) 1 = None \<and>
    maintain_downloaded ((ex_world cur)\<lparr>sw_now := Some 6\<rparr>) s1 = (Ok (), s2) \<and>
    cy_to_pm s2 = [ReportPeer (PeerId [1]) PEER_REPORT_INVALID_BLOCK, ReportPeer (PeerId [2]) PEER_REPORT_INVALID_BLOCK]"
proof -
  let ?lib = "ex_chain_lib null_trie"
  obtain cur h where r: "get_header ?lib h (ex_current cur) = Ok None"
      "confirmed_block (CoordinatorError \<circ> CoordinatorData) ?lib (ex_current cur) = Ok (0, Hash [0], ex_header 0 zero_hash)"
    by (rule ex_received) blast
  let ?bad = "(ex_data h (ex_header 1 (Hash [0])))\<lparr>bda_header := None\<rparr>" and ?good = "ex_data h (ex_header 2 (Hash [1]))"
  let ?peer = "\<lparr> spi_known_blocks = [], spi_known_txs = [], spi_confirmed_number = 2, spi_confirmed_hash = Hash [2], spi_nonce = 3, spi_state = Vacant \<rparr>"
  let ?s = "(ex_sync cur)\<lparr>cy_peers := [(PeerId [2], ?peer)],
     cy_pending := [(1, \<lparr> pbi_state = Downloaded (PeerId [1]) (Some ?bad) \<rparr>), (2, \<lparr> pbi_state = Downloaded (PeerId [2]) (Some ?good) \<rparr>)]\<rparr>"
  have sup: "cy_backend ?s = ex_current cur" "cy_to_pm ?s = []"
    by (simp_all add: ex_sync_def chain_sync_new_def ex_sync_support_def)
  have bad: "verify_block (sw_lib (ex_world cur)) (sw_verify_proof (ex_world cur)) ?bad (cy_backend ?s) = Err (CoordinatorError (CoordinatorVerify VeBad))"
    by (simp add: verify_block_def)
  have wf: "pending_wf (cy_pending ?s)"
    by (auto simp: pending_wf_def pending_datas_def bm_wf_def PENDING_BLOCKS_SIZE_eq ex_data_def ex_header_def)
  have "\<exists>s1 s2 rest'. maintain_downloaded (ex_world cur) ?s = (Ok (), s1) \<and>
      cy_pending s1 = (2, \<lparr> pbi_state = Downloaded (PeerId [2]) (Some ?good) \<rparr>) # rest' \<and> bm_get (cy_pending s1) 1 = None \<and>
      cy_to_pm s1 = cy_to_pm ?s @ [ReportPeer (PeerId [1]) PEER_REPORT_INVALID_BLOCK] \<and>
      maintain_downloaded ((ex_world cur)\<lparr>sw_now := Some 6\<rparr>) s1 = (Ok (), s2) \<and> cy_support s2 = cy_support ?s \<and>
      cy_to_pm s2 = cy_to_pm ?s @ [ReportPeer (PeerId [1]) PEER_REPORT_INVALID_BLOCK, ReportPeer (PeerId [2]) PEER_REPORT_INVALID_BLOCK]"
    by (rule bad_block_blames_next_sender [where data' = ?good and n = 1 and n' = 2 and c = 0 and hdr = "ex_header 2 (Hash [1])"
        and body = "the (bda_body ?good)" and pf = "the (bda_proof ?good)" and i = "\<lparr> pbi_state = Downloaded (PeerId [1]) (Some ?bad) \<rparr>"
        and i' = "\<lparr> pbi_state = Downloaded (PeerId [2]) (Some ?good) \<rparr>" and h = "Hash [0]" and parent = "ex_header 0 zero_hash"
        and p = "PeerId [2]" and info = ?peer, OF _ wf _ _ _ _ _ _ bad])
      (use r sup in \<open>simp_all add: ex_data_def ex_world_def ex_header_def PENDING_BLOCKS_SIZE_eq\<close>)
  then show ?thesis
    using sup(2) by (simp del: split_paired_Ex) blast
qed

end
