(* ===== verification/Spec2Isabelle.thy ===== *)
theory Spec2Isabelle
  imports Executor_Laws Governance_Votes Txpool Peer_Manager Chain_Theorems Poa Hotstuff_Theorems Raft_Theorems Consensus_Dispatcher Coordinator_Theorems
begin

text \<open>
  Finastate: a verification development of the blockchain node under \<^verbatim>\<open>src/\<close>.

  \<^bold>\<open>The program.\<close> A node keeps a chain of blocks. A block has meta transactions, which change the configuration and are executed
  before the block is sealed, and payload transactions, which are executed afterwards; the header has the root of the meta state of the
  block and the root of the payload state of an earlier block, the one that was executed when the block was built. The parts and how they
  use each other:

  \<^item> \<^verbatim>\<open>core/node/db\<close> stores bytes under keys in columns; \<^verbatim>\<open>core/node/statedb\<close> keeps states in it, each a trie named by its root.
  \<^item> \<^verbatim>\<open>core/node/executor\<close> runs transactions in a context (a state with buffers for the transaction at hand and for the batch);
    \<^verbatim>\<open>core/node/executor/executor-macro\<close> generates the dispatch of a call to a method of a module.
  \<^item> \<^verbatim>\<open>core/module/*\<close> are the modules: balances, the system parameters, and for each consensus protocol the administrators and the
    authorities with their voting.
  \<^item> \<^verbatim>\<open>core/node/chain\<close> builds, commits and executes blocks and answers calls on a block; a committed block is queued as a task for the
    execution of its payload.
  \<^item> \<^verbatim>\<open>core/node/txpool\<close> collects transactions, concurrently; \<^verbatim>\<open>core/node/peer-manager\<close> decides which peers are connected.
  \<^item> \<^verbatim>\<open>core/node/consensus\<close>: the protocols propose blocks from the pool, verify proposals of others and commit to the chain; the chain
    tells them of every committed block. \<^verbatim>\<open>core/node/consensus/src\<close> picks the protocol the chain is configured for.
  \<^item> \<^verbatim>\<open>core/node/coordinator\<close> stands between the network and the node: it greets peers, downloads the blocks they have, verifies and commits
    them, serves blocks and transactions to others, passes the messages of the consensus, and reports peers to the peer manager.

  \<^bold>\<open>The theories\<close>, from the bottom up; the manifest names for every definition the lines it translates.

  \<^item> \<open>Prelude\<close>: results, computations over a state (\<open>comp\<close>, \<open>bind\<close>, \<open>query\<close>, \<open>modify\<close>), the rules \<open>keeps_rules\<close> that follow a computation
    with an invariant and \<open>ensures\<close> with a precondition and a postcondition, hash maps, machine integers. \<open>Ordered_Map\<close>: the \<open>BTreeMap\<close> of
    Raft and the coordinator.
  \<^item> \<open>Primitives\<close>: the types of \<^verbatim>\<open>core/primitives\<close>, the errors of all crates, and codecs: a codec is a pair of functions, \<open>codec_ok\<close> its
    round trip.
  \<^item> \<open>Database\<close>, \<open>Statedb\<close>: columns, transactions, the trie (\<open>statedb_update_get\<close>: what is written under a new root is read back).
  \<^item> \<open>Exec_Primitives\<close>, \<open>Exec_Context\<close>, \<open>Executor\<close>: contexts and the storage types over them, dispatch, building, validating and executing
    transactions. \<open>Executor_Laws\<close>: a transaction is atomic, a batch ordered, a built transaction verifies.
  \<^item> \<open>Balance\<close>, \<open>System_Module\<close>, \<open>Governance\<close>: the modules; \<open>poa\<close>, \<open>raft\<close> and \<open>hotstuff\<close> are instances of the code they share.
    \<open>Governance_Votes\<close>: the abstract voting \<open>gov_spec\<close>, its refinement, and that no change passes without the weight of the threshold.
  \<^item> \<open>Chain_Backend\<close>, \<open>Chain\<close>, \<open>Genesis\<close>: the backend, the execute queue, the genesis block. \<open>Chain_Laws\<close>, \<open>Genesis_Laws\<close>: the invariant
    \<open>chain_ok\<close> of the stored chain under every action \<open>chain_step\<close>, whatever its result. \<open>Chain_Theorems\<close>: the properties; \<open>Chain_Example\<close>: a
    concrete chain for the witnesses.
  \<^item> \<open>Txpool\<close>: the pool and its interleavings as a step relation. \<open>Peer_Manager\<close>: all operations with the invariant \<open>pm_ok\<close>, and what the
    messages amount to.
  \<^item> \<open>Consensus_Base\<close>: what the protocols share, with the verifiers of HotStuff, Raft and the coordinator. \<open>Consensus_Base_Laws\<close>: verified
    proposals commit, prepared blocks verify. \<open>Consensus_Frame\<close>: what the chain leaves of the column of the protocol.
  \<^item> \<open>Poa\<close>: proof of authority.
  \<^item> \<open>Hotstuff\<close>, \<open>Hotstuff_Stream\<close>, \<open>Hotstuff_State\<close>: the storage, the stream and the roles of HotStuff. \<open>Quorum_Spec\<close> is the interface of
    quorums, which \<open>Hotstuff_Quorum\<close> provides for its certificates; \<open>Hotstuff_Laws\<close>, \<open>Hotstuff_Invariant\<close>, \<open>Hotstuff_Leader\<close> are the
    invariants of the stream and the leader, \<open>Hotstuff_Theorems\<close> the properties over the runs \<open>hs_reach\<close> of a validator,
    \<open>Hotstuff_Example\<close> a run for the witnesses.
  \<^item> \<open>Raft\<close>, \<open>Raft_Stream\<close>, \<open>Raft_State\<close>: the same parts of Raft. \<open>Raft_Laws\<close> and \<open>Raft_Invariant\<close>: the ordered maps, the log and the
    invariant \<open>rf_inv\<close> of the stored term, vote and log under every handler; \<open>Raft_Runs\<close>: the runs \<open>raft_run\<close> of an authority, restarts
    included; \<open>Raft_Theorems\<close>: an authority votes once in a term, its log is well formed, what is committed was reported by a majority,
    which meets every majority of votes; \<open>Raft_Example\<close> has the data of the witnesses.
  \<^item> \<open>Consensus_Dispatcher\<close>: the choice of the protocol, and that a proof of another protocol is refused.
  \<^item> \<open>Coordinator_Sync\<close>: the synchronization of blocks and transactions (\<^verbatim>\<open>sync.rs\<close>, \<^verbatim>\<open>protocol.rs\<close>, \<^verbatim>\<open>peer_report.rs\<close>); \<open>Coordinator\<close>: its stream
    (\<^verbatim>\<open>stream.rs\<close>, \<^verbatim>\<open>lib.rs\<close>), one event in a turn. \<open>Coordinator_Laws\<close>: the runs \<open>coordinator_run\<close>, in which the rest of the node works on the
    chain and the pool between the turns, and two invariants of them. \<open>Coordinator_Theorems\<close>: what is committed was checked and keeps the
    chain in order, the pending blocks are bounded, requests cover what was seen, a received block is served on unchanged, and one bad block
    makes the coordinator report the sender of the block behind it.

  \<^bold>\<open>How code is modelled.\<close> A \<open>struct\<close> is a record with the prefix of its type at its fields, an \<open>enum\<close> a datatype. A function that only
  reads is a function to \<open>common_result\<close>; one that changes its receiver is a \<open>comp\<close>: from the state to a result and the state after it, also
  when the result is an error. A panic is the error \<open>Panic\<close>, which passes through every handler of errors. Integers have the width of the
  source and wrap around as in a release build. A hash map is an association list without a promise about its order, which is observable
  where the source iterates; a \<open>BTreeMap\<close> is one in the order of its keys. The loops of the asynchronous tasks are machines: one step is one
  turn of the innermost loop, and the event that \<open>select!\<close> picks, the messages, the time and the random numbers are arguments, so that a
  theorem about all runs is about all of their orders. A loop of the source that need not end is a \<open>partial_function\<close> into \<open>option\<close>, and that
  it returns is a theorem (\<open>poll_next_returns\<close>, \<open>process_task_executes\<close>); the loop over the downloaded blocks is a \<open>function\<close>, which takes
  one pending block in every turn. The text of a message is kept where it is fixed or has a value that
  the model renders; derived \<open>Debug\<close> texts are left out.

  \<^bold>\<open>What is a parameter.\<close> Code that is not in the repository: the codecs of \<^verbatim>\<open>parity-codec\<close> and \<open>serde\<close> (fields of \<open>chain_lib\<close>, \<open>hl\<close>, \<open>raft_lib\<close>
  and of the modules), RocksDB (\<open>rocks\<close> with \<open>rocks_ok\<close>), the trie (\<open>trie_lib\<close> with \<open>trie_ok\<close>), the signature, hash and address functions
  (\<open>dsa_impl\<close>, \<open>hash_impl\<close>, \<open>address_impl\<close>) and the parsers of TOML, JSON and time. A theorem names what it relies on of them, e.g.
  \<open>chain_lib_ok\<close>, and its witness has an instance: an in-memory database and trie and codecs that are proved to have the round trip.

  \<^bold>\<open>How fine the steps are.\<close> Under \<open>rocks_ok\<close>, and so under \<open>chain_lib_ok\<close>, every read and write of RocksDB succeeds and a write is atomic; the
  model has the branches of a failure, but theorems with these hypotheses are not about a failing disk or a crash inside a turn. A task of
  the execute queue is one step of \<open>chain_step\<close>, although blocks may be committed while it runs. A step of \<open>pool_step\<close> is one access to the
  map, the queue or a channel. The runs of Raft do not reach the greatest term, after which the term of the code wraps around; those of
  the coordinator have no peer that tells of a block with the greatest number.

  \<^bold>\<open>Locales.\<close> Each is the interface between a provider and its clients and is interpreted on the definitions of the provider: \<open>context_laws\<close>
  (\<open>Exec_Primitives\<close>) is what a context promises to the storage types of the modules, provided by the contexts of \<open>Exec_Context\<close>;
  \<open>quorum_system\<close> and its extension \<open>byzantine_quorum\<close> (\<open>Quorum_Spec\<close>) are what a protocol needs of the sets of members that may decide,
  provided by the certificates of HotStuff (\<open>Hotstuff_Quorum\<close>) and the majorities of Raft (\<open>Raft_Theorems\<close>); \<open>sync_invariant\<close>
  (\<open>Coordinator_Laws\<close>) is what an invariant of the pending blocks and the chain has to keep under the few updates the synchronization makes,
  and gives that every run keeps it: it is interpreted for the bounds of the pending blocks and for the order of the chain.

  \<^bold>\<open>Not modelled.\<close> The network (\<^verbatim>\<open>core/node/network\<close>) is glue over the state machines of libp2p; the virtual machine (\<^verbatim>\<open>core/node/vm\<close>) binds
  host functions to a WebAssembly engine, and the contract module calls it; the API (\<^verbatim>\<open>core/node/api\<close>), the service and the command line
  convert, configure and start; the algorithms of \<^verbatim>\<open>core/crypto\<close> are third-party code. The caches of known blocks and
  transactions of a peer are the \<open>lru\<close> of a third party and a parameter of the coordinator.
\<close>

end
